(* ===== verification/Prelude.thy ===== *)
theory Prelude
  imports Main "HOL-Library.AList" "HOL-Library.Multiset" "HOL-Library.List_Lexorder"
    "HOL-Library.Char_ord" "HOL-Library.Product_Lexorder"
begin

text \<open>
  Shared vocabulary of the development: JavaScript maps as insertion-ordered association lists,
  fallible and stateful computations, the schema checks on strings and lists that the contract
  package builds its types from, and the generic lemmas the components use.

  A string is a list of code units; the model ranges over units below 256.  A JavaScript
  \<^verbatim>\<open>Map\<close> is an association list with distinct keys, oldest key first, so that
  \<^verbatim>\<open>[...m.values()]\<close> is \<^verbatim>\<open>map snd m\<close>.  A time stamp is the
  number of milliseconds of the epoch.
\<close>

named_theorems effect_simps "evaluation of stateful actions"
named_theorems keeps_intros "preservation of a state property by an action"

section \<open>Maps\<close>

type_synonym ('k, 'v) js_map = "('k \<times> 'v) list"
type_synonym time = int

definition map_ok :: "('k, 'v) js_map \<Rightarrow> bool" where
  "map_ok m \<longleftrightarrow> distinct (map fst m)"

abbreviation lookup :: "('k, 'v) js_map \<Rightarrow> 'k \<Rightarrow> 'v option" where
  "lookup \<equiv> map_of"

definition put :: "'k \<Rightarrow> 'v \<Rightarrow> ('k, 'v) js_map \<Rightarrow> ('k, 'v) js_map" where
  "put k v m = AList.update k v m"

definition drop_key :: "'k \<Rightarrow> ('k, 'v) js_map \<Rightarrow> ('k, 'v) js_map" where
  "drop_key k m = AList.delete k m"

abbreviation vals :: "('k, 'v) js_map \<Rightarrow> 'v list" where
  "vals m \<equiv> map snd m"

fun adjust :: "'k \<Rightarrow> ('v \<Rightarrow> 'v) \<Rightarrow> ('k, 'v) js_map \<Rightarrow> ('k, 'v) js_map" where
  "adjust k f [] = []"
| "adjust k f ((k', v) # m) = (if k = k' then (k', f v) # m else (k', v) # adjust k f m)"

fun adjust_first :: "('v \<Rightarrow> bool) \<Rightarrow> ('v \<Rightarrow> 'v) \<Rightarrow> ('k, 'v) js_map \<Rightarrow> ('k, 'v) js_map" where
  "adjust_first P f [] = []"
| "adjust_first P f ((k, v) # m) = (if P v then (k, f v) # m else (k, v) # adjust_first P f m)"

lemma lookup_put [simp]: "lookup (put k v m) = (lookup m)(k \<mapsto> v)"
  by (simp add: put_def update_conv')

lemma lookup_drop_key [simp]: "lookup (drop_key k m) = (lookup m)(k := None)"
  by (simp add: drop_key_def delete_conv')

lemma map_ok_Nil [simp]: "map_ok []"
  by (simp add: map_ok_def)

lemma map_ok_put [simp]: "map_ok m \<Longrightarrow> map_ok (put k v m)"
  by (simp add: map_ok_def put_def distinct_update)

lemma map_ok_drop_key [simp]: "map_ok m \<Longrightarrow> map_ok (drop_key k m)"
  by (simp add: map_ok_def drop_key_def distinct_delete)

lemma put_absent: "lookup m k = None \<Longrightarrow> put k v m = m @ [(k, v)]"
  unfolding put_def by (induction m) (auto split: if_splits)

lemma drop_put_absent: "lookup m k = None \<Longrightarrow> drop_key k (put k v m) = m"
  by (force simp: put_absent drop_key_def AList.delete_eq map_of_eq_None_iff intro!: filter_True)

lemma keys_put: "set (map fst (put k v m)) = insert k (set (map fst m))"
  unfolding put_def by (induction m) auto

lemma keys_adjust [simp]: "map fst (adjust k f m) = map fst m"
  by (induction k f m rule: adjust.induct) auto

lemma keys_adjust_first [simp]: "map fst (adjust_first P f m) = map fst m"
  by (induction P f m rule: adjust_first.induct) auto

lemma map_ok_adjust [simp]: "map_ok (adjust k f m) = map_ok m"
  by (simp add: map_ok_def)

lemma map_ok_adjust_first [simp]: "map_ok (adjust_first P f m) = map_ok m"
  by (simp add: map_ok_def)

lemma lookup_adjust: "lookup (adjust k f m) k' = (if k' = k then map_option f (lookup m k) else lookup m k')"
  by (induction k f m rule: adjust.induct) auto

lemma set_put_subset: "set (put k v m) \<subseteq> insert (k, v) (set m)"
  unfolding put_def by (induction m) auto

lemma set_drop_key: "map_ok m \<Longrightarrow> set (drop_key k m) = {p \<in> set m. fst p \<noteq> k}"
  by (auto simp: drop_key_def AList.delete_eq)

lemma lookup_in_set: "map_ok m \<Longrightarrow> (lookup m k = Some v) = ((k, v) \<in> set m)"
  by (simp add: map_ok_def)

lemma lookup_vals: "lookup m k = Some v \<Longrightarrow> v \<in> set (vals m)"
  by (force dest: map_of_SomeD)

lemma find_Some_iff: "List.find P xs = Some x \<Longrightarrow> x \<in> set xs \<and> P x"
  by (auto simp: find_Some_iff)

lemma lookup_fold_put:
  "distinct (map key ms) \<Longrightarrow>
   lookup (fold (\<lambda>m. put (key m) (f m)) ms s) k = (case List.find (\<lambda>m. key m = k) ms of Some m \<Rightarrow> Some (f m) | None \<Rightarrow> lookup s k)"
proof (induction ms arbitrary: s)
  case (Cons m ms)
  show ?case
  proof (cases "key m = k")
    case True
    then have "List.find (\<lambda>m. key m = k) ms = None" using Cons.prems by (auto simp: find_None_iff image_iff)
    with True Cons show ?thesis by simp
  qed (use Cons in \<open>simp split: option.split\<close>)
qed simp

text \<open>The members of \<^verbatim>\<open>new Set(xs)\<close>, in insertion order.\<close>

definition first_seen :: "'a list \<Rightarrow> 'a list" where
  "first_seen xs = rev (remdups (rev xs))"

lemma set_first_seen [simp]: "set (first_seen xs) = set xs"
  by (simp add: first_seen_def)

section \<open>Fallible computations\<close>

definition and_then :: "'e + 'a \<Rightarrow> ('a \<Rightarrow> 'e + 'b) \<Rightarrow> 'e + 'b" where
  "and_then r f = (case r of Inl e \<Rightarrow> Inl e | Inr x \<Rightarrow> f x)"

definition guard :: "bool \<Rightarrow> 'e \<Rightarrow> 'e + unit" where
  "guard b e = (if b then Inr () else Inl e)"

lemma and_then_simps [simp]:
  "and_then (Inl e) f = Inl e" "and_then (Inr x) f = f x"
  by (simp_all add: and_then_def)

lemma and_then_Inr_iff: "and_then r f = Inr y \<longleftrightarrow> (\<exists>x. r = Inr x \<and> f x = Inr y)"
  by (cases r) auto

lemma and_then_Inl_iff: "and_then r f = Inl e \<longleftrightarrow> r = Inl e \<or> (\<exists>x. r = Inr x \<and> f x = Inl e)"
  by (cases r) auto

lemma guard_Inr_iff [simp]: "guard b e = Inr u \<longleftrightarrow> b"
  by (simp add: guard_def)

lemma guard_Inl_iff [simp]: "guard b e = Inl e' \<longleftrightarrow> \<not> b \<and> e' = e"
  by (auto simp: guard_def)

fun each_ok :: "('a \<Rightarrow> 'e + unit) \<Rightarrow> 'a list \<Rightarrow> 'e + unit" where
  "each_ok f [] = Inr ()"
| "each_ok f (x # xs) = and_then (f x) (\<lambda>_. each_ok f xs)"

lemma each_ok_Inr_iff: "each_ok f xs = Inr u \<longleftrightarrow> (\<forall>x\<in>set xs. f x = Inr ())"
  by (induction xs) (auto simp: and_then_Inr_iff)

fun traverse :: "('a \<Rightarrow> 'e + 'b) \<Rightarrow> 'a list \<Rightarrow> 'e + 'b list" where
  "traverse f [] = Inr []"
| "traverse f (x # xs) = and_then (f x) (\<lambda>y. and_then (traverse f xs) (\<lambda>ys. Inr (y # ys)))"

lemma traverse_Inr_iff: "traverse f xs = Inr ys \<longleftrightarrow> list_all2 (\<lambda>x y. f x = Inr y) xs ys"
  by (induction xs arbitrary: ys) (auto simp: and_then_Inr_iff list_all2_Cons1)

section \<open>Stateful computations that may throw\<close>

text \<open>The state reached before a throw is kept: nothing is rolled back.\<close>

type_synonym ('e, 's, 'a) action = "'s \<Rightarrow> ('e + 'a) \<times> 's"

definition return :: "'a \<Rightarrow> ('e, 's, 'a) action" where
  "return x s = (Inr x, s)"

definition throw :: "'e \<Rightarrow> ('e, 's, 'a) action" where
  "throw e s = (Inl e, s)"

definition bind_action :: "('e, 's, 'a) action \<Rightarrow> ('a \<Rightarrow> ('e, 's, 'b) action) \<Rightarrow> ('e, 's, 'b) action" where
  "bind_action m f s = (case m s of (Inl e, s') \<Rightarrow> (Inl e, s') | (Inr x, s') \<Rightarrow> f x s')"

definition try_catch :: "('e, 's, 'a) action \<Rightarrow> ('e \<Rightarrow> ('e, 's, 'a) action) \<Rightarrow> ('e, 's, 'a) action" where
  "try_catch m h s = (case m s of (Inl e, s') \<Rightarrow> h e s' | (Inr x, s') \<Rightarrow> (Inr x, s'))"

definition reads :: "('s \<Rightarrow> 'a) \<Rightarrow> ('e, 's, 'a) action" where
  "reads f s = (Inr (f s), s)"

definition writes :: "('s \<Rightarrow> 's) \<Rightarrow> ('e, 's, unit) action" where
  "writes f s = (Inr (), f s)"

definition lift_result :: "('s \<Rightarrow> 'e + 'a) \<Rightarrow> ('e, 's, 'a) action" where
  "lift_result f s = (f s, s)"

definition update_or_throw :: "('s \<Rightarrow> 'e + 's) \<Rightarrow> ('e, 's, unit) action" where
  "update_or_throw f s = (case f s of Inl e \<Rightarrow> (Inl e, s) | Inr s' \<Rightarrow> (Inr (), s'))"

lemma action_simps [effect_simps]:
  "return x s = (Inr x, s)" "throw e s = (Inl e, s)"
  "reads f s = (Inr (f s), s)" "writes g s = (Inr (), g s)"
  "lift_result h s = (h s, s)"
  by (simp_all add: return_def throw_def reads_def writes_def lift_result_def)

lemma bind_action_simps [effect_simps]:
  "m s = (Inl e, s') \<Longrightarrow> bind_action m f s = (Inl e, s')"
  "m s = (Inr x, s') \<Longrightarrow> bind_action m f s = f x s'"
  by (simp_all add: bind_action_def)

lemma bind_action_InrE:
  assumes "bind_action m f s = (Inr y, t)"
  obtains x s' where "m s = (Inr x, s')" "f x s' = (Inr y, t)"
  using assms by (auto simp: bind_action_def split: prod.splits sum.splits)

text \<open>An action keeps a property when it holds after the action whatever the outcome.\<close>

definition keeps :: "('s \<Rightarrow> bool) \<Rightarrow> ('e, 's, 'a) action \<Rightarrow> bool" where
  "keeps P m \<longleftrightarrow> (\<forall>s. P s \<longrightarrow> P (snd (m s)))"

lemma keepsD: "keeps P m \<Longrightarrow> P s \<Longrightarrow> P (snd (m s))"
  by (simp add: keeps_def)

lemma keeps_return [keeps_intros]: "keeps P (return x)"
  by (simp add: keeps_def return_def)

lemma keeps_throw [keeps_intros]: "keeps P (throw e)"
  by (simp add: keeps_def throw_def)

lemma keeps_reads [keeps_intros]: "keeps P (reads f)"
  by (simp add: keeps_def reads_def)

lemma keeps_lift_result [keeps_intros]: "keeps P (lift_result f)"
  by (simp add: keeps_def lift_result_def)

lemma keeps_writes: "(\<And>s. P s \<Longrightarrow> P (f s)) \<Longrightarrow> keeps P (writes f)"
  by (simp add: keeps_def writes_def)

lemma keeps_update_or_throw:
  "(\<And>s s'. P s \<Longrightarrow> f s = Inr s' \<Longrightarrow> P s') \<Longrightarrow> keeps P (update_or_throw f)"
  by (auto simp: keeps_def update_or_throw_def split: sum.splits)

lemma keeps_bind [keeps_intros]:
  assumes "keeps P m" "\<And>x. keeps P (f x)"
  shows "keeps P (bind_action m f)"
  unfolding keeps_def
proof (intro allI impI)
  fix s assume "P s"
  then have "P (snd (m s))" by (rule keepsD [OF assms(1)])
  then show "P (snd (bind_action m f s))"
    using assms(2) by (auto simp: bind_action_def keeps_def split: prod.split sum.split)
qed

lemma keeps_try_catch [keeps_intros]:
  assumes "keeps P m" "\<And>e. keeps P (h e)"
  shows "keeps P (try_catch m h)"
  unfolding keeps_def
proof (intro allI impI)
  fix s assume "P s"
  then have "P (snd (m s))" by (rule keepsD [OF assms(1)])
  then show "P (snd (try_catch m h s))"
    using assms(2) by (auto simp: try_catch_def keeps_def split: prod.split sum.split)
qed

lemma keeps_if [keeps_intros]: "(b \<Longrightarrow> keeps P m) \<Longrightarrow> (\<not> b \<Longrightarrow> keeps P m') \<Longrightarrow> keeps P (if b then m else m')"
  by simp

lemma keeps_case_option [keeps_intros]:
  "keeps P m \<Longrightarrow> (\<And>x. keeps P (f x)) \<Longrightarrow> keeps P (case r of None \<Rightarrow> m | Some x \<Rightarrow> f x)"
  by (cases r) auto

text \<open>A \<^verbatim>\<open>for\<close> loop over a list of effects.\<close>

fun for_each :: "('x \<Rightarrow> ('e, 's, unit) action) \<Rightarrow> 'x list \<Rightarrow> ('e, 's, unit) action" where
  "for_each f [] = return ()"
| "for_each f (x # xs) = bind_action (f x) (\<lambda>_. for_each f xs)"

lemma keeps_for_each [keeps_intros]: "(\<And>m. m \<in> set ms \<Longrightarrow> keeps P (f m)) \<Longrightarrow> keeps P (for_each f ms)"
  by (induction ms) (auto intro: keeps_intros)

lemma for_each_succeeds:
  assumes "\<And>m w. m \<in> set ms \<Longrightarrow> I w \<Longrightarrow> \<exists>w'. f m w = (Inr (), w') \<and> I w'" "I w"
  shows "\<exists>w'. for_each f ms w = (Inr (), w') \<and> I w'"
  using assms
proof (induction ms arbitrary: w)
  case (Cons m ms)
  then obtain w1 where "f m w = (Inr (), w1)" "I w1" by (meson list.set_intros(1))
  then show ?case using Cons.IH [of w1] Cons.prems(1) by (simp add: bind_action_def)
qed (simp add: return_def)

section \<open>Strings and schema checks\<close>

definition str_len :: "nat \<Rightarrow> nat \<Rightarrow> string \<Rightarrow> bool" where
  "str_len lo hi s \<longleftrightarrow> lo \<le> length s \<and> length s \<le> hi"

definition list_len :: "nat \<Rightarrow> nat \<Rightarrow> 'a list \<Rightarrow> bool" where
  "list_len lo hi xs \<longleftrightarrow> lo \<le> length xs \<and> length xs \<le> hi"

definition js_space :: "char \<Rightarrow> bool" where
  "js_space c \<longleftrightarrow> (let n = of_char c :: nat in (9 \<le> n \<and> n \<le> 13) \<or> n = 32 \<or> n = 160)"

definition trim :: "string \<Rightarrow> string" where
  "trim s = rev (dropWhile js_space (rev (dropWhile js_space s)))"

definition trimmed_len :: "nat \<Rightarrow> nat \<Rightarrow> string \<Rightarrow> bool" where
  "trimmed_len lo hi s \<longleftrightarrow> trim s = s \<and> str_len lo hi s"

definition opt_all :: "('a \<Rightarrow> bool) \<Rightarrow> 'a option \<Rightarrow> bool" where
  "opt_all P r = (case r of None \<Rightarrow> True | Some x \<Rightarrow> P x)"

definition is_digit :: "char \<Rightarrow> bool" where
  "is_digit c \<longleftrightarrow> CHR ''0'' \<le> c \<and> c \<le> CHR ''9''"

definition is_lower :: "char \<Rightarrow> bool" where
  "is_lower c \<longleftrightarrow> CHR ''a'' \<le> c \<and> c \<le> CHR ''z''"

definition is_upper :: "char \<Rightarrow> bool" where
  "is_upper c \<longleftrightarrow> CHR ''A'' \<le> c \<and> c \<le> CHR ''Z''"

definition is_hex :: "char \<Rightarrow> bool" where
  "is_hex c \<longleftrightarrow> is_digit c \<or> (CHR ''a'' \<le> c \<and> c \<le> CHR ''f'')"

fun starts_with :: "string \<Rightarrow> string \<Rightarrow> bool" where
  "starts_with [] s = True"
| "starts_with (c # p) [] = False"
| "starts_with (c # p) (d # s) = (c = d \<and> starts_with p s)"

fun contains :: "string \<Rightarrow> string \<Rightarrow> bool" where
  "contains p [] = (p = [])"
| "contains p (c # s) = (starts_with p (c # s) \<or> contains p s)"

lemma starts_with_iff: "starts_with p s \<longleftrightarrow> (\<exists>t. s = p @ t)"
  by (induction p s rule: starts_with.induct) auto

lemma contains_iff: "contains p s \<longleftrightarrow> (\<exists>u v. s = u @ p @ v)"
proof (induction p s rule: contains.induct)
  case (2 p c s)
  have "(\<exists>u v. c # s = u @ p @ v) \<longleftrightarrow> (\<exists>v. c # s = p @ v) \<or> (\<exists>u v. s = u @ p @ v)"
    (is "?l \<longleftrightarrow> ?r1 \<or> ?r2")
  proof
    assume ?l
    then obtain u v where "c # s = u @ p @ v" by blast
    then show "?r1 \<or> ?r2" by (cases u) auto
  next
    assume "?r1 \<or> ?r2"
    then show ?l by (metis append_Nil append_Cons)
  qed
  with 2 show ?case by (simp add: starts_with_iff)
qed auto

fun digits :: "nat \<Rightarrow> string" where
  "digits n = (if n < 10 then [char_of (48 + n)] else digits (n div 10) @ [char_of (48 + n mod 10)])"

declare digits.simps [simp del]

definition pad :: "nat \<Rightarrow> nat \<Rightarrow> string" where
  "pad w n = (let d = digits n in replicate (w - length d) (CHR ''0'') @ d)"

text \<open>The calendar date of a time stamp and its ISO form, for the years 0 to 9999 (the proleptic
  Gregorian calendar, counted in eras of 400 years from 1 March).\<close>

definition civil_date :: "time \<Rightarrow> int \<times> int \<times> int" where
  "civil_date t =
    (let z = t div 86400000 + 719468;
         era = z div 146097;
         doe = z mod 146097;
         yoe = (doe - doe div 1460 + doe div 36524 - doe div 146096) div 365;
         doy = doe - (365 * yoe + yoe div 4 - yoe div 100);
         mp = (5 * doy + 2) div 153;
         m = (if mp < 10 then mp + 3 else mp - 9)
     in (yoe + era * 400 + (if m \<le> 2 then 1 else 0), m, doy - (153 * mp + 2) div 5 + 1))"

definition iso_text :: "time \<Rightarrow> string" where
  "iso_text t =
    (let (y, m, d) = civil_date t; r = t mod 86400000
     in pad 4 (nat y) @ ''-'' @ pad 2 (nat m) @ ''-'' @ pad 2 (nat d) @ ''T''
        @ pad 2 (nat (r div 3600000)) @ '':'' @ pad 2 (nat (r div 60000 mod 60)) @ '':''
        @ pad 2 (nat (r div 1000 mod 60)) @ ''.'' @ pad 3 (nat (r mod 1000)) @ ''Z'')"

text \<open>Digits of an integer, for evaluation: the natural numbers above are unary there.\<close>

definition digit_char :: "int \<Rightarrow> char" where
  "digit_char d = (if d = 0 then CHR ''0'' else if d = 1 then CHR ''1'' else if d = 2 then CHR ''2'' else if d = 3 then CHR ''3''
     else if d = 4 then CHR ''4'' else if d = 5 then CHR ''5'' else if d = 6 then CHR ''6'' else if d = 7 then CHR ''7''
     else if d = 8 then CHR ''8'' else CHR ''9'')"

function int_digits :: "int \<Rightarrow> string" where
  "int_digits k = (if k < 10 then [digit_char (max k 0)] else int_digits (k div 10) @ [digit_char (k mod 10)])"
  by auto
termination by (relation "measure nat") auto

declare int_digits.simps [simp del]

definition int_pad :: "nat \<Rightarrow> int \<Rightarrow> string" where
  "int_pad w k = (let d = int_digits k in replicate (w - length d) (CHR ''0'') @ d)"

lemma digit_char: "0 \<le> d \<Longrightarrow> d < 10 \<Longrightarrow> digit_char d = char_of (48 + nat d)"
proof -
  assume "0 \<le> d" "d < 10"
  then have "d = 0 \<or> d = 1 \<or> d = 2 \<or> d = 3 \<or> d = 4 \<or> d = 5 \<or> d = 6 \<or> d = 7 \<or> d = 8 \<or> d = 9" by presburger
  then show ?thesis by (auto simp: digit_char_def char_of_def bit_0)
qed

lemma digits_nat [code_unfold]: "digits (nat k) = int_digits k"
proof (induction k rule: int_digits.induct)
  case (1 k)
  show ?case
  proof (cases "k < 10")
    case True
    then have "digit_char (max k 0) = char_of (48 + nat k)" "nat k < 10" using digit_char [of "max k 0"] by simp_all
    then show ?thesis using True by (simp add: digits.simps [of "nat k"] int_digits.simps [of k])
  next
    case False
    then have "\<not> nat k < 10" "nat k div 10 = nat (k div 10)" "nat k mod 10 = nat (k mod 10)" by (simp_all add: nat_div_distrib nat_mod_distrib)
    then show ?thesis using 1 False digit_char [of "k mod 10"] by (simp add: digits.simps [of "nat k"] int_digits.simps [of k])
  qed
qed

lemma pad_nat [code_unfold]: "pad w (nat k) = int_pad w k"
  by (simp add: pad_def int_pad_def digits_nat)

section \<open>Sorting by key\<close>

lemma sort_key_cong_mset:
  assumes "mset xs = mset ys" "inj_on k (set xs)"
  shows "sort_key k xs = sort_key k ys"
proof (rule properties_for_sort_key)
  show "mset (sort_key k ys) = mset xs" using assms(1) by simp
  show "sorted (map k (sort_key k ys))" by simp
  have set_eq: "set (sort_key k ys) = set xs" using assms(1) by (metis set_mset_mset set_sort)
  fix x assume x: "x \<in> set (sort_key k ys)"
  have same: "filter (\<lambda>y. k x = k y) zs = filter ((=) x) zs" if "set zs = set xs" for zs
    using that assms(2) x set_eq by (intro filter_cong) (auto dest: inj_onD)
  have "filter ((=) x) (sort_key k ys) = filter ((=) x) xs"
    using assms(1) by (simp flip: replicate_count_mset_eq_filter_eq)
  then show "filter (\<lambda>y. k x = k y) (sort_key k ys) = filter (\<lambda>y. k x = k y) xs"
    using same [of xs] same [OF set_eq] by simp
qed

end
