(* ===== verification/CoreTypes.thy ===== *)
theory CoreTypes
  imports Prelude
begin

text \<open>
  The identifiers, enumerations and records shared by every component
  (\<^verbatim>\<open>packages/contracts/src/ids.ts\<close>, \<^verbatim>\<open>common.ts\<close>,
  \<^verbatim>\<open>apps/server/src/core/types.ts\<close> and \<^verbatim>\<open>errors.ts\<close>): branded
  strings are type synonyms of \<^typ>\<open>string\<close>, and a thrown error is a value of
  \<open>failure\<close> that keeps its code and its retry flag (the texts of messages are not modelled).
\<close>

section \<open>Identifiers\<close>

type_synonym user_id = string
type_synonym household_id = string
type_synonym actor_id = string
type_synonym item_id = string
type_synonym evidence_id = string
type_synonym request_id = string
type_synonym git_object_id = string
type_synonym tool_name = string
type_synonym token_hash = string

definition opaque_id_ok :: "string \<Rightarrow> string \<Rightarrow> bool" where
  "opaque_id_ok prefix s \<longleftrightarrow> starts_with (prefix @ ''_'') s \<and>
     (let rest = drop (length prefix + 1) s in
       str_len 16 64 rest \<and> list_all (\<lambda>c. is_digit c \<or> is_lower c) rest)"

definition has_control :: "string \<Rightarrow> bool" where
  "has_control s \<longleftrightarrow> list_ex (\<lambda>c. of_char c \<le> (31::nat) \<or> of_char c = (127::nat)) s"

definition private_locator_ok :: "nat \<Rightarrow> string \<Rightarrow> bool" where
  "private_locator_ok n s \<longleftrightarrow> str_len 1 n s \<and> \<not> has_control s \<and> s = trim s"

definition git_object_id_ok :: "string \<Rightarrow> bool" where
  "git_object_id_ok s \<longleftrightarrow> str_len 40 64 s \<and> list_all is_hex s"

definition content_digest_ok :: "string \<Rightarrow> bool" where
  "content_digest_ok s \<longleftrightarrow> starts_with ''sha256:'' s \<and> length s = 71 \<and> list_all is_hex (drop 7 s)"

definition idempotency_key_ok :: "string \<Rightarrow> bool" where
  "idempotency_key_ok s \<longleftrightarrow> str_len 8 128 s \<and>
     list_all (\<lambda>c. is_upper c \<or> is_lower c \<or> is_digit c \<or> c \<in> set ''._~-'') s"

section \<open>Errors\<close>

datatype error_code =
    AUTH_REQUIRED | HOUSEHOLD_REQUIRED | FORBIDDEN | NOT_FOUND | REVISION_CONFLICT
  | INVITE_EXPIRED | INVITE_REVOKED | SHARE_EXPIRED | SHARE_REVOKED | VALIDATION_FAILED
  | RATE_LIMITED | PROJECTION_DRIFT | RECONCILIATION_REQUIRED | PROVIDER_UNAVAILABLE
  | CHANNEL_DISABLED | LEASE_CONFLICT | MESSAGE_EXPIRED | INTERNAL_ERROR

datatype failure = AppError error_code bool | OtherError string

abbreviation app_error :: "error_code \<Rightarrow> failure" where
  "app_error c \<equiv> AppError c False"

definition error_name :: "failure \<Rightarrow> string" where
  "error_name e = (case e of AppError _ _ \<Rightarrow> ''AppError'' | OtherError n \<Rightarrow> n)"

definition invariant_check :: "bool \<Rightarrow> error_code \<Rightarrow> failure + unit" where
  "invariant_check b c = (if b then Inr () else Inl (app_error c))"

section \<open>Roles, scopes, principals\<close>

datatype role = Owner | Editor | Viewer

datatype oauth_scope =
    JournalRead | JournalWrite | HouseholdManage | CollectionShare | JournalExport | RunnerMessages

datatype client = WebClient | CodexClient | ClaudeClient | TestClient

record principal =
  p_user :: user_id
  p_actor :: actor_id
  p_display :: string
  p_scopes :: "oauth_scope list"
  p_client :: client

section \<open>JSON values\<close>

text \<open>Numbers are the integers the stored documents use; an object is the list of its properties in insertion order.\<close>

datatype json = JNull | JBool bool | JNum int | JStr string | JArr "json list"
  | JObj "(string \<times> json) list"

type_synonym json_object = "(string, json) js_map"

section \<open>Records of the operational store\<close>

datatype provisioning_state = Ready | Failed | QuarantinedHousehold

record household_record =
  h_id :: household_id
  h_name :: string
  h_head :: git_object_id
  h_provisioning :: provisioning_state
  h_created :: time

record membership =
  m_household :: household_id
  m_user :: user_id
  m_actor :: actor_id
  m_role :: role
  m_head :: git_object_id
  m_removed :: "time option"

record invitation =
  inv_id :: string
  inv_household :: household_id
  inv_token_hash :: token_hash
  inv_role :: role
  inv_expires :: time
  inv_email_hint :: "string option"
  inv_accepted :: "time option"
  inv_revoked :: "time option"

datatype mutation_state =
    Received | Locked | GitCommitted | ProjectionsApplied | Completed
  | FailedBeforeCommit | ReconciliationRequired | Quarantined

record mutation_record =
  mu_request :: request_id
  mu_user :: user_id
  mu_tool :: tool_name
  mu_key :: string
  mu_household :: "household_id option"
  mu_state :: mutation_state
  mu_commit :: "git_object_id option"
  mu_response :: "json_object option"
  mu_failure :: "string option"
  mu_created :: time
  mu_updated :: time

record repository_membership_state =
  rm_actor :: actor_id
  rm_role :: "role option"
  rm_removed :: "time option"
  rm_user :: "user_id option"

datatype export_format = ReadableZip | GitBundle

record export_download =
  ex_id :: string
  ex_household :: household_id
  ex_requested_by :: user_id
  ex_format :: export_format
  ex_token_hash :: token_hash
  ex_object_path :: string
  ex_content_hash :: string
  ex_head :: git_object_id
  ex_expires :: time
  ex_downloaded :: "time option"
  ex_created :: time

record backup_checkpoint =
  bk_household :: household_id
  bk_head :: git_object_id
  bk_manifest_hash :: string
  bk_bundle_hash :: string
  bk_object_key :: string
  bk_manifest_key :: string
  bk_completed :: time
  bk_verified :: time
  bk_retained_until :: time

record repository_verification =
  rv_household :: household_id
  rv_head :: git_object_id
  rv_fsck_valid :: bool
  rv_signatures_valid :: bool
  rv_checked :: time
  rv_detail :: string

record restore_drill =
  rd_household :: household_id
  rd_head :: git_object_id
  rd_succeeded :: bool
  rd_completed :: time
  rd_detail :: string

record health_snapshot =
  hs_incomplete :: nat
  hs_reconciliation :: nat
  hs_oldest_incomplete :: "time option"
  hs_quarantined :: nat
  hs_households :: nat
  hs_without_backup :: nat
  hs_oldest_backup :: "time option"
  hs_last_fsck :: "time option"
  hs_fsck_failures :: nat
  hs_last_signature_check :: "time option"
  hs_signature_failures :: nat
  hs_last_drill :: "time option"
  hs_drill_succeeded :: "bool option"
  hs_schema_version :: string

record session_record =
  s_user :: user_id
  s_actor :: actor_id
  s_display :: string
  s_scopes :: "oauth_scope list"
  s_client :: client

record repository_change =
  ch_path :: string
  ch_content :: string
  ch_append_only :: bool

record commit_metadata =
  cm_request :: request_id
  cm_household :: household_id
  cm_actor :: actor_id
  cm_tool :: tool_name
  cm_client :: client
  cm_summary :: string
  cm_occurred :: time

lemma guard_app_error: "invariant_check b c = guard b (app_error c)"
  by (simp add: invariant_check_def guard_def)

lemma opaque_id_length: "opaque_id_ok p s \<Longrightarrow> length p + 17 \<le> length s \<and> length s \<le> length p + 65"
  by (auto simp: opaque_id_ok_def Let_def str_len_def starts_with_iff)

end
