(* ===== verification/JournalTypes.thy ===== *)
theory JournalTypes
  imports CoreTypes
begin

text \<open>
  Evidence, journal items and reports: the data of
  \<^verbatim>\<open>packages/contracts/src/domain.ts\<close>, each schema as a record or datatype of the
  shape it parses to, with a predicate \<open>..._ok\<close> for the checks of the schema that its type does
  not carry.  What the schema library and the URL and calendar parsers decide (is this a date, a
  date-time, an URL) is the argument \<open>host\<close>.
\<close>

section \<open>The host: parsers the schemas call\<close>

record url =
  u_protocol :: string
  u_username :: string
  u_password :: string
  u_pathname :: string
  u_search :: string
  u_hash :: string
  u_origin :: string

record host =
  valid_date :: "string \<Rightarrow> bool"
  valid_datetime :: "string \<Rightarrow> bool"
  valid_zod_url :: "string \<Rightarrow> bool"
  parse_url :: "string \<Rightarrow> url option"
  lower_case :: "string \<Rightarrow> string"
  time_zones :: "string \<Rightarrow> bool"

definition safe_http_url :: "host \<Rightarrow> string \<Rightarrow> bool" where
  "safe_http_url H s \<longleftrightarrow> valid_zod_url H s \<and>
     (case parse_url H s of None \<Rightarrow> False
      | Some u \<Rightarrow> u_protocol u = ''http:'' \<or> u_protocol u = ''https:'')"

definition safe_https_url :: "host \<Rightarrow> string \<Rightarrow> bool" where
  "safe_https_url H s \<longleftrightarrow> valid_zod_url H s \<and> length s \<le> 2048 \<and>
     (case parse_url H s of None \<Rightarrow> False
      | Some u \<Rightarrow> u_protocol u = ''https:'' \<and> u_username u = '''' \<and> u_password u = '''')"

section \<open>Provider origins\<close>

datatype origin_issue = OriginControl | OriginShape | OriginUnparsable | OriginProtocol
  | OriginCredentials | OriginPath | OriginNormalised

definition origin_shape :: "string \<Rightarrow> bool" where
  "origin_shape s \<longleftrightarrow> starts_with ''https://'' s \<and>
     (let rest = drop 8 s;
          authority = (if rest \<noteq> [] \<and> last rest = CHR ''/'' then butlast rest else rest)
      in authority \<noteq> [] \<and> list_all (\<lambda>c. c \<notin> set ''/?#'') authority)"

definition ends_with_slash :: "string \<Rightarrow> bool" where
  "ends_with_slash s \<longleftrightarrow> s \<noteq> [] \<and> last s = CHR ''/''"

definition provider_origin_issues :: "host \<Rightarrow> string \<Rightarrow> origin_issue list" where
  "provider_origin_issues H s =
     (if has_control s then [OriginControl] else []) @
     (if origin_shape s then [] else [OriginShape]) @
     (case parse_url H s of
        None \<Rightarrow> [OriginUnparsable]
      | Some u \<Rightarrow>
          (if u_protocol u = ''https:'' then [] else [OriginProtocol]) @
          (if u_username u = '''' \<and> u_password u = '''' then [] else [OriginCredentials]) @
          (if u_pathname u = ''/'' \<and> u_search u = '''' \<and> u_hash u = '''' then [] else [OriginPath]) @
          (let raw = (if ends_with_slash s then butlast s else s)
           in if lower_case H raw = lower_case H (u_origin u) then [] else [OriginNormalised]))"

definition parse_provider_origin :: "host \<Rightarrow> string \<Rightarrow> string option" where
  "parse_provider_origin H s =
     (if length s \<le> 2048 \<and> provider_origin_issues H s = []
      then (case parse_url H s of None \<Rightarrow> None | Some u \<Rightarrow> Some (u_origin u @ ''/''))
      else None)"

section \<open>Delivery order lines\<close>

datatype fulfillment = Delivery | Pickup

record public_address =
  ad_lines :: "string list option"
  ad_locality :: "string option"
  ad_region :: "string option"
  ad_postal :: "string option"
  ad_country :: "string option"

definition bounded_label :: "nat \<Rightarrow> string \<Rightarrow> bool" where
  "bounded_label n s \<longleftrightarrow> \<not> has_control s \<and> trimmed_len 1 n s"

definition public_address_ok :: "public_address \<Rightarrow> bool" where
  "public_address_ok a \<longleftrightarrow>
     opt_all (\<lambda>ls. list_len 1 3 ls \<and> list_all (bounded_label 200) ls) (ad_lines a) \<and>
     opt_all (bounded_label 120) (ad_locality a) \<and> opt_all (bounded_label 120) (ad_region a) \<and>
     opt_all (bounded_label 32) (ad_postal a) \<and> opt_all (bounded_label 120) (ad_country a) \<and>
     (ad_lines a \<noteq> None \<or> ad_locality a \<noteq> None \<or> ad_region a \<noteq> None \<or>
      ad_postal a \<noteq> None \<or> ad_country a \<noteq> None)"

record restaurant =
  rs_name :: string
  rs_location :: string
  rs_address :: "public_address option"
  rs_merchant :: string

definition restaurant_ok :: "restaurant \<Rightarrow> bool" where
  "restaurant_ok r \<longleftrightarrow> trimmed_len 1 300 (rs_name r) \<and> trimmed_len 1 500 (rs_location r) \<and>
     opt_all public_address_ok (rs_address r) \<and> private_locator_ok 512 (rs_merchant r)"

record modifier =
  md_group :: string
  md_option :: string

definition modifier_ok :: "modifier \<Rightarrow> bool" where
  "modifier_ok m \<longleftrightarrow> trimmed_len 1 200 (md_group m) \<and> trimmed_len 1 300 (md_option m)"

datatype classification = Food | Alcohol

record order_line =
  ol_provider_label :: string
  ol_provider_origin :: string
  ol_order_locator :: string
  ol_group_locator :: string
  ol_order_date :: string
  ol_fulfillment :: fulfillment
  ol_declared_count :: nat
  ol_line_key :: string
  ol_restaurant :: restaurant
  ol_dish :: string
  ol_quantity :: nat
  ol_modifiers :: "modifier list"
  ol_historical_locator :: "string option"
  ol_classification :: classification

definition order_line_ok :: "host \<Rightarrow> order_line \<Rightarrow> bool" where
  "order_line_ok H l \<longleftrightarrow>
     trimmed_len 1 120 (ol_provider_label l) \<and>
     parse_provider_origin H (ol_provider_origin l) = Some (ol_provider_origin l) \<and>
     private_locator_ok 512 (ol_order_locator l) \<and> private_locator_ok 512 (ol_group_locator l) \<and>
     valid_date H (ol_order_date l) \<and>
     1 \<le> ol_declared_count l \<and> ol_declared_count l \<le> 100 \<and>
     private_locator_ok 256 (ol_line_key l) \<and> restaurant_ok (ol_restaurant l) \<and>
     trimmed_len 1 500 (ol_dish l) \<and> 1 \<le> ol_quantity l \<and> ol_quantity l \<le> 99 \<and>
     list_len 0 50 (ol_modifiers l) \<and> list_all modifier_ok (ol_modifiers l) \<and>
     opt_all (private_locator_ok 512) (ol_historical_locator l)"

section \<open>Evidence\<close>

datatype precision = Day | Month | Year | UnknownPrecision
datatype tri_state = Yes | No | Unknown
datatype source_scope = Discoverable | Saved | Cooked | Liked | Custom

record purchase =
  pu_store :: string
  pu_order :: string
  pu_title :: string
  pu_date :: string

record recipe_discovery =
  rc_canonical :: "string option"
  rc_audited :: string
  rc_image :: "string option"
  rc_author :: "string option"
  rc_scope :: source_scope

record cooking =
  ck_item :: "item_id option"
  ck_candidate :: "string option"
  ck_on :: string
  ck_result :: string
  ck_changes :: "(string \<times> bool) list"

datatype evidence_body =
    PurchaseEvidence purchase
  | DeliveryLineEvidence order_line
  | RecipeDiscoveryEvidence recipe_discovery
  | CookingEvidence cooking
  | UserConfirmationEvidence "item_id option"
  | ImportEvidence
  | CorrectionEvidence

record evidence =
  ev_id :: evidence_id
  ev_observed :: string
  ev_date :: "string option"
  ev_precision :: precision
  ev_source_type :: string
  ev_source_label :: string
  ev_locator :: string
  ev_summary :: string
  ev_actor :: actor_id
  ev_limitations :: "string list"
  ev_supersedes :: "evidence_id option"
  ev_body :: evidence_body

definition evidence_common_ok :: "host \<Rightarrow> evidence \<Rightarrow> bool" where
  "evidence_common_ok H e \<longleftrightarrow>
     opaque_id_ok ''evd'' (ev_id e) \<and> valid_datetime H (ev_observed e) \<and>
     opt_all (valid_date H) (ev_date e) \<and>
     str_len 1 80 (ev_source_type e) \<and> str_len 1 200 (ev_source_label e) \<and>
     str_len 1 1000 (ev_locator e) \<and> str_len 1 2000 (ev_summary e) \<and>
     opaque_id_ok ''act'' (ev_actor e) \<and>
     list_len 0 30 (ev_limitations e) \<and> list_all (str_len 1 500) (ev_limitations e) \<and>
     opt_all (opaque_id_ok ''evd'') (ev_supersedes e)"

definition purchase_ok :: "host \<Rightarrow> purchase \<Rightarrow> bool" where
  "purchase_ok H p \<longleftrightarrow> str_len 1 200 (pu_store p) \<and> str_len 1 300 (pu_order p) \<and>
     str_len 1 500 (pu_title p) \<and> valid_date H (pu_date p)"

definition recipe_discovery_ok :: "host \<Rightarrow> recipe_discovery \<Rightarrow> bool" where
  "recipe_discovery_ok H r \<longleftrightarrow> opt_all (safe_http_url H) (rc_canonical r) \<and>
     safe_http_url H (rc_audited r) \<and> opt_all (safe_http_url H) (rc_image r) \<and>
     opt_all (str_len 0 300) (rc_author r)"

definition cooking_ok :: "host \<Rightarrow> cooking \<Rightarrow> bool" where
  "cooking_ok H c \<longleftrightarrow> opt_all (opaque_id_ok ''itm'') (ck_item c) \<and>
     opt_all (str_len 1 500) (ck_candidate c) \<and> valid_date H (ck_on c) \<and>
     str_len 1 1000 (ck_result c) \<and> list_len 0 50 (ck_changes c) \<and>
     list_all (\<lambda>ch. str_len 1 500 (fst ch)) (ck_changes c) \<and>
     (ck_item c \<noteq> None \<or> ck_candidate c \<noteq> None)"

definition delivery_line_evidence_ok :: "host \<Rightarrow> evidence \<Rightarrow> order_line \<Rightarrow> bool" where
  "delivery_line_evidence_ok H e l \<longleftrightarrow>
     ev_source_type e = ''delivery_provider'' \<and> trimmed_len 1 120 (ev_source_label e) \<and>
     order_line_ok H l \<and> ev_source_label e = ol_provider_label l"

definition evidence_ok :: "host \<Rightarrow> evidence \<Rightarrow> bool" where
  "evidence_ok H e \<longleftrightarrow> evidence_common_ok H e \<and>
     (case ev_body e of
        PurchaseEvidence p \<Rightarrow> purchase_ok H p
      | DeliveryLineEvidence l \<Rightarrow> delivery_line_evidence_ok H e l
      | RecipeDiscoveryEvidence r \<Rightarrow> recipe_discovery_ok H r
      | CookingEvidence c \<Rightarrow> cooking_ok H c
      | UserConfirmationEvidence i \<Rightarrow> opt_all (opaque_id_ok ''itm'') i
      | ImportEvidence \<Rightarrow> True
      | CorrectionEvidence \<Rightarrow> True)"

section \<open>Journal items\<close>

datatype grocery_kind = Snack | Ingredient | Condiment | OtherGrocery

record item_base =
  it_id :: item_id
  it_evidence :: "evidence_id list"
  it_created :: string
  it_updated :: string
  it_body :: string

record grocery_item = item_base +
  gr_kind :: grocery_kind
  gr_display :: string
  gr_brand :: "string option"
  gr_product_line :: "string option"
  gr_flavor :: "string option"
  gr_formulation :: "string option"
  gr_format :: "string option"
  gr_category :: string
  gr_variety :: "string option"
  gr_sizes :: "string list"
  gr_image_page :: "string option"
  gr_image :: "string option"

record recipe_item = item_base +
  rp_title :: string
  rp_canonical :: "string option"
  rp_audited :: "string option"
  rp_author :: "string option"
  rp_saved :: tri_state
  rp_cooked :: tri_state
  rp_liked :: tri_state
  rp_last_cooked :: "string option"
  rp_precision :: precision
  rp_image :: "string option"
  rp_image_page :: "string option"

record dish_item = item_base +
  dd_dish :: string
  dd_provider_label :: string
  dd_provider_origin :: string
  dd_restaurant :: string
  dd_location :: string
  dd_address :: "public_address option"
  dd_image :: "string option"
  dd_image_page :: "string option"
  dd_merchant :: string
  dd_menu_locators :: "string list"
  dd_occurrences :: "(evidence_id \<times> modifier list) list"
  dd_classification :: classification

record import_provenance =
  ip_collection :: string
  ip_snapshot :: string
  ip_collection_item :: string
  ip_revision :: git_object_id
  ip_attribution :: "string option"
  ip_imported :: string

record imported_dish_item = item_base +
  im_dish :: string
  im_restaurant :: string
  im_location :: string
  im_address :: "public_address option"
  im_image :: "string option"
  im_image_page :: "string option"
  im_attribution :: "string option"
  im_classification :: classification
  im_provenance :: import_provenance

datatype journal_item = GroceryItem grocery_item | RecipeItem recipe_item
  | DishItem dish_item | ImportedDishItem imported_dish_item

definition item_base_ok :: "host \<Rightarrow> 'a item_base_scheme \<Rightarrow> bool" where
  "item_base_ok H i \<longleftrightarrow> opaque_id_ok ''itm'' (it_id i) \<and>
     list_len 1 1000 (it_evidence i) \<and> list_all (opaque_id_ok ''evd'') (it_evidence i) \<and>
     valid_datetime H (it_created i) \<and> valid_datetime H (it_updated i) \<and>
     str_len 0 100000 (it_body i)"

definition grocery_ok :: "host \<Rightarrow> grocery_item \<Rightarrow> bool" where
  "grocery_ok H g \<longleftrightarrow> item_base_ok H g \<and> str_len 1 300 (gr_display g) \<and>
     opt_all (str_len 0 200) (gr_brand g) \<and> opt_all (str_len 0 200) (gr_product_line g) \<and>
     opt_all (str_len 0 200) (gr_flavor g) \<and> opt_all (str_len 0 200) (gr_formulation g) \<and>
     opt_all (str_len 0 200) (gr_format g) \<and> str_len 1 200 (gr_category g) \<and>
     opt_all (str_len 0 200) (gr_variety g) \<and>
     list_len 0 50 (gr_sizes g) \<and> list_all (str_len 1 100) (gr_sizes g) \<and>
     opt_all (safe_http_url H) (gr_image_page g) \<and> opt_all (safe_http_url H) (gr_image g)"

definition recipe_ok :: "host \<Rightarrow> recipe_item \<Rightarrow> bool" where
  "recipe_ok H r \<longleftrightarrow> item_base_ok H r \<and> str_len 1 300 (rp_title r) \<and>
     opt_all (safe_http_url H) (rp_canonical r) \<and> opt_all (safe_http_url H) (rp_audited r) \<and>
     opt_all (str_len 0 300) (rp_author r) \<and> opt_all (valid_date H) (rp_last_cooked r) \<and>
     opt_all (safe_http_url H) (rp_image r) \<and> opt_all (safe_http_url H) (rp_image_page r)"

datatype dish_issue = OccurrencesNotUnique | MenuLocatorsNotUnique | OccurrenceNotCited
  | ImageWithoutPage

definition dish_issues :: "dish_item \<Rightarrow> dish_issue list" where
  "dish_issues d =
     (let occ = map fst (dd_occurrences d) in
      (if distinct occ then [] else [OccurrencesNotUnique]) @
      (if distinct (dd_menu_locators d) then [] else [MenuLocatorsNotUnique]) @
      concat (map (\<lambda>e. if e \<in> set (it_evidence d) then [] else [OccurrenceNotCited]) occ) @
      (if dd_image d \<noteq> None \<and> dd_image_page d = None then [ImageWithoutPage] else []))"

definition dish_ok :: "host \<Rightarrow> dish_item \<Rightarrow> bool" where
  "dish_ok H d \<longleftrightarrow> item_base_ok H d \<and> trimmed_len 1 500 (dd_dish d) \<and>
     trimmed_len 1 120 (dd_provider_label d) \<and>
     parse_provider_origin H (dd_provider_origin d) = Some (dd_provider_origin d) \<and>
     trimmed_len 1 300 (dd_restaurant d) \<and> trimmed_len 1 500 (dd_location d) \<and>
     opt_all public_address_ok (dd_address d) \<and>
     opt_all (safe_https_url H) (dd_image d) \<and> opt_all (safe_https_url H) (dd_image_page d) \<and>
     private_locator_ok 512 (dd_merchant d) \<and>
     list_len 0 20 (dd_menu_locators d) \<and> list_all (private_locator_ok 512) (dd_menu_locators d) \<and>
     list_len 1 100 (dd_occurrences d) \<and>
     list_all (\<lambda>(e, ms). opaque_id_ok ''evd'' e \<and> list_len 0 50 ms \<and> list_all modifier_ok ms)
       (dd_occurrences d) \<and>
     dish_issues d = []"

definition import_provenance_ok :: "host \<Rightarrow> import_provenance \<Rightarrow> bool" where
  "import_provenance_ok H p \<longleftrightarrow> opaque_id_ok ''col'' (ip_collection p) \<and>
     opaque_id_ok ''snp'' (ip_snapshot p) \<and> str_len 8 128 (ip_collection_item p) \<and>
     git_object_id_ok (ip_revision p) \<and> opt_all (str_len 0 300) (ip_attribution p) \<and>
     valid_datetime H (ip_imported p)"

definition imported_dish_ok :: "host \<Rightarrow> imported_dish_item \<Rightarrow> bool" where
  "imported_dish_ok H d \<longleftrightarrow> item_base_ok H d \<and> trimmed_len 1 500 (im_dish d) \<and>
     trimmed_len 1 300 (im_restaurant d) \<and> trimmed_len 1 500 (im_location d) \<and>
     opt_all public_address_ok (im_address d) \<and>
     opt_all (safe_http_url H) (im_image d) \<and> opt_all (safe_http_url H) (im_image_page d) \<and>
     opt_all (str_len 0 300) (im_attribution d) \<and> import_provenance_ok H (im_provenance d)"

definition journal_item_ok :: "host \<Rightarrow> journal_item \<Rightarrow> bool" where
  "journal_item_ok H i = (case i of GroceryItem g \<Rightarrow> grocery_ok H g | RecipeItem r \<Rightarrow> recipe_ok H r
     | DishItem d \<Rightarrow> dish_ok H d | ImportedDishItem d \<Rightarrow> imported_dish_ok H d)"

fun item_id_of :: "journal_item \<Rightarrow> item_id" where
  "item_id_of (GroceryItem g) = it_id g"
| "item_id_of (RecipeItem r) = it_id r"
| "item_id_of (DishItem d) = it_id d"
| "item_id_of (ImportedDishItem d) = it_id d"

fun item_evidence_of :: "journal_item \<Rightarrow> evidence_id list" where
  "item_evidence_of (GroceryItem g) = it_evidence g"
| "item_evidence_of (RecipeItem r) = it_evidence r"
| "item_evidence_of (DishItem d) = it_evidence d"
| "item_evidence_of (ImportedDishItem d) = it_evidence d"

section \<open>Reports\<close>

record report_assertion =
  ra_row :: string
  ra_items :: "item_id list"
  ra_evidence :: "evidence_id list"
  ra_order_count :: "nat option"
  ra_last_date :: "string option"

datatype report_type = RecurringSnacks | RecipeIndex | DeliveryIndex

record report =
  rep_type :: report_type
  rep_markdown :: string
  rep_assertions :: "report_assertion list"

definition report_assertion_ok :: "host \<Rightarrow> report_assertion \<Rightarrow> bool" where
  "report_assertion_ok H a \<longleftrightarrow> str_len 1 200 (ra_row a) \<and>
     list_len 1 1000 (ra_items a) \<and> list_all (opaque_id_ok ''itm'') (ra_items a) \<and>
     list_len 1 5000 (ra_evidence a) \<and> list_all (opaque_id_ok ''evd'') (ra_evidence a) \<and>
     opt_all (valid_date H) (ra_last_date a)"

definition report_ok :: "host \<Rightarrow> report \<Rightarrow> bool" where
  "report_ok H r \<longleftrightarrow> str_len 0 200000 (rep_markdown r) \<and>
     list_len 0 5000 (rep_assertions r) \<and> list_all (report_assertion_ok H) (rep_assertions r)"

section \<open>Delivery profile\<close>

datatype preference_scope = ProviderScope | LocationScope | DishScope | OrderScope

record history_cursor =
  hc_date :: string
  hc_locator :: string

record provider_selection =
  ps_label :: string
  ps_origin :: string
  ps_start :: string
  ps_end :: string
  ps_cursor :: "history_cursor option"

record delivery_profile =
  dp_providers :: "provider_selection list"
  dp_preferences :: "(preference_scope \<times> string) list"

datatype profile_issue = StartAfterEnd | CursorOutsideWindow | OriginRepeated

definition provider_selection_issues :: "provider_selection \<Rightarrow> profile_issue list" where
  "provider_selection_issues s =
     (if ps_end s < ps_start s then [StartAfterEnd] else []) @
     (case ps_cursor s of None \<Rightarrow> []
      | Some c \<Rightarrow> if hc_date c < ps_start s \<or> ps_end s < hc_date c then [CursorOutsideWindow] else [])"

definition provider_selection_ok :: "host \<Rightarrow> provider_selection \<Rightarrow> bool" where
  "provider_selection_ok H s \<longleftrightarrow> trimmed_len 1 120 (ps_label s) \<and>
     parse_provider_origin H (ps_origin s) = Some (ps_origin s) \<and>
     valid_date H (ps_start s) \<and> valid_date H (ps_end s) \<and>
     opt_all (\<lambda>c. valid_date H (hc_date c) \<and> private_locator_ok 512 (hc_locator c)) (ps_cursor s) \<and>
     provider_selection_issues s = []"

definition delivery_profile_ok :: "host \<Rightarrow> delivery_profile \<Rightarrow> bool" where
  "delivery_profile_ok H p \<longleftrightarrow>
     list_len 0 20 (dp_providers p) \<and> list_all (provider_selection_ok H) (dp_providers p) \<and>
     list_len 0 50 (dp_preferences p) \<and> list_all (\<lambda>q. bounded_label 500 (snd q)) (dp_preferences p) \<and>
     distinct (map ps_origin (dp_providers p))"

end
