(* ===== verification/MealPlan.thy ===== *)
theory MealPlan
  imports JournalTypes
begin

text \<open>
  Collections and meal planning: collection snapshots, the week calendar, planning constraints,
  proposals and events of \<^verbatim>\<open>packages/contracts/src/domain.ts\<close>, with the checks that
  relate fields of one record.  Dates are \<^verbatim>\<open>YYYY-MM-DD\<close> strings; \<open>iso_day\<close> counts days
  from 1 January 1970 in the proleptic Gregorian calendar.
\<close>

section \<open>Collections\<close>

datatype collection_kind = RecipeEntry | SnackEntry

record recipe_or_snack_entry =
  rse_id :: string
  rse_kind :: collection_kind
  rse_source :: item_id
  rse_title :: string
  rse_description :: "string option"
  rse_brand :: "string option"
  rse_flavor :: "string option"
  rse_formulation :: "string option"
  rse_format :: "string option"
  rse_author :: "string option"
  rse_canonical :: "string option"
  rse_image :: "string option"
  rse_image_page :: "string option"
  rse_preparation :: "string option"
  rse_attribution :: "string option"
  rse_revision :: git_object_id

record dish_entry =
  de_id :: string
  de_title :: string
  de_restaurant :: string
  de_location :: string
  de_address :: "public_address option"
  de_description :: "string option"
  de_note :: "string option"
  de_image :: "string option"
  de_image_page :: "string option"
  de_attribution :: "string option"
  de_revision :: git_object_id
  de_alcohol :: bool

datatype collection_item = ItemEntry recipe_or_snack_entry | DishEntry dish_entry

record collection_snapshot =
  cs_id :: string
  cs_collection :: string
  cs_title :: string
  cs_sharer :: "string option"
  cs_items :: "collection_item list"
  cs_created :: string

definition entry_ok :: "host \<Rightarrow> recipe_or_snack_entry \<Rightarrow> bool" where
  "entry_ok H e \<longleftrightarrow> str_len 8 128 (rse_id e) \<and> opaque_id_ok ''itm'' (rse_source e) \<and>
     str_len 1 300 (rse_title e) \<and> opt_all (str_len 0 2000) (rse_description e) \<and>
     opt_all (str_len 0 200) (rse_brand e) \<and> opt_all (str_len 0 200) (rse_flavor e) \<and>
     opt_all (str_len 0 200) (rse_formulation e) \<and> opt_all (str_len 0 200) (rse_format e) \<and>
     opt_all (str_len 0 300) (rse_author e) \<and> opt_all (safe_http_url H) (rse_canonical e) \<and>
     opt_all (safe_http_url H) (rse_image e) \<and> opt_all (safe_http_url H) (rse_image_page e) \<and>
     opt_all (str_len 0 3000) (rse_preparation e) \<and> opt_all (str_len 0 300) (rse_attribution e) \<and>
     git_object_id_ok (rse_revision e)"

definition dish_entry_ok :: "host \<Rightarrow> dish_entry \<Rightarrow> bool" where
  "dish_entry_ok H e \<longleftrightarrow> str_len 8 128 (de_id e) \<and> str_len 1 500 (de_title e) \<and>
     str_len 1 300 (de_restaurant e) \<and> str_len 1 500 (de_location e) \<and>
     opt_all public_address_ok (de_address e) \<and> opt_all (str_len 0 2000) (de_description e) \<and>
     opt_all (str_len 0 3000) (de_note e) \<and> opt_all (safe_http_url H) (de_image e) \<and>
     opt_all (safe_http_url H) (de_image_page e) \<and> opt_all (str_len 0 300) (de_attribution e) \<and>
     git_object_id_ok (de_revision e)"

definition collection_snapshot_ok :: "host \<Rightarrow> collection_snapshot \<Rightarrow> bool" where
  "collection_snapshot_ok H s \<longleftrightarrow> opaque_id_ok ''snp'' (cs_id s) \<and>
     opaque_id_ok ''col'' (cs_collection s) \<and> str_len 1 300 (cs_title s) \<and>
     opt_all (str_len 0 200) (cs_sharer s) \<and> list_len 1 200 (cs_items s) \<and>
     list_all (\<lambda>i. case i of ItemEntry e \<Rightarrow> entry_ok H e | DishEntry e \<Rightarrow> dish_entry_ok H e) (cs_items s) \<and>
     valid_datetime H (cs_created s)"

section \<open>The calendar of a week\<close>

definition digit_val :: "char \<Rightarrow> int" where
  "digit_val c = of_char c - 48"

fun number_of :: "string \<Rightarrow> int" where
  "number_of s = foldl (\<lambda>n c. 10 * n + digit_val c) 0 s"

definition date_parts :: "string \<Rightarrow> (int \<times> int \<times> int) option" where
  "date_parts s =
     (if length s = 10 \<and> s ! 4 = CHR ''-'' \<and> s ! 7 = CHR ''-''
         \<and> list_all is_digit (take 4 s @ take 2 (drop 5 s) @ drop 8 s)
      then Some (number_of (take 4 s), number_of (take 2 (drop 5 s)), number_of (drop 8 s))
      else None)"

definition day_number :: "int \<Rightarrow> int \<Rightarrow> int \<Rightarrow> int" where
  "day_number y m d =
     (let y' = (if m \<le> 2 then y - 1 else y);
          era = y' div 400; yoe = y' mod 400;
          doy = (153 * (m + (if m > 2 then - 3 else 9)) + 2) div 5 + d - 1;
          doe = yoe * 365 + yoe div 4 - yoe div 100 + doy
      in era * 146097 + doe - 719468)"

definition iso_day :: "string \<Rightarrow> int option" where
  "iso_day s = (case date_parts s of None \<Rightarrow> None
     | Some (y, m, d) \<Rightarrow> if 1 \<le> m \<and> m \<le> 12 \<and> 1 \<le> d \<and> d \<le> 31 then Some (day_number y m d) else None)"

definition monday_ok :: "string \<Rightarrow> bool" where
  "monday_ok s = (case iso_day s of None \<Rightarrow> False | Some n \<Rightarrow> (n + 4) mod 7 = 1)"

definition meal_date_falls_within_week :: "string \<Rightarrow> string \<Rightarrow> bool" where
  "meal_date_falls_within_week week_start meal_date =
     (case (iso_day week_start, iso_day meal_date) of
        (Some s, Some d) \<Rightarrow> 0 \<le> d - s \<and> d - s \<le> 6
      | _ \<Rightarrow> False)"

section \<open>Constraints, proposals and events\<close>

datatype meal_slot = Breakfast | Lunch | Dinner | SnackSlot | CustomSlot string

definition meal_slot_ok :: "meal_slot \<Rightarrow> bool" where
  "meal_slot_ok s = (case s of CustomSlot l \<Rightarrow> trimmed_len 1 80 l | _ \<Rightarrow> True)"

definition max_proposals_per_slot :: nat where "max_proposals_per_slot = 48"
definition max_proposals_per_week :: nat where "max_proposals_per_week = 500"
definition max_review_events_per_week :: nat where "max_review_events_per_week = 500"
definition max_withdrawal_events_per_week :: nat where
  "max_withdrawal_events_per_week = max_proposals_per_week"
definition max_events_per_week :: nat where
  "max_events_per_week = max_review_events_per_week + max_withdrawal_events_per_week"

record recorded_constraints =
  rcs_zone :: string
  rcs_allergies :: "string list"
  rcs_sensitivities :: "string list"
  rcs_reviewed :: string

datatype constraints = Unresolved | ConfirmedNone string string | Recorded recorded_constraints

datatype constraint_issue = NoLabel | LabelsNotUnique

definition recorded_constraint_issues :: "host \<Rightarrow> recorded_constraints \<Rightarrow> constraint_issue list" where
  "recorded_constraint_issues H r =
     (if length (rcs_allergies r) + length (rcs_sensitivities r) = 0 then [NoLabel] else []) @
     (if distinct (map (lower_case H) (rcs_allergies r @ rcs_sensitivities r)) then [] else [LabelsNotUnique])"

definition time_zone_ok :: "host \<Rightarrow> string \<Rightarrow> bool" where
  "time_zone_ok H z \<longleftrightarrow> trimmed_len 1 100 z \<and> (z = ''UTC'' \<or> time_zones H z)"

definition recorded_constraints_ok :: "host \<Rightarrow> recorded_constraints \<Rightarrow> bool" where
  "recorded_constraints_ok H r \<longleftrightarrow> time_zone_ok H (rcs_zone r) \<and>
     list_len 0 30 (rcs_allergies r) \<and> list_all (trimmed_len 1 120) (rcs_allergies r) \<and>
     list_len 0 30 (rcs_sensitivities r) \<and> list_all (trimmed_len 1 120) (rcs_sensitivities r) \<and>
     valid_datetime H (rcs_reviewed r) \<and> recorded_constraint_issues H r = []"

definition constraints_ok :: "host \<Rightarrow> constraints \<Rightarrow> bool" where
  "constraints_ok H c = (case c of Unresolved \<Rightarrow> True
     | ConfirmedNone z t \<Rightarrow> time_zone_ok H z \<and> valid_datetime H t
     | Recorded r \<Rightarrow> recorded_constraints_ok H r)"

definition confirmed_constraints_ok :: "host \<Rightarrow> constraints \<Rightarrow> bool" where
  "confirmed_constraints_ok H c \<longleftrightarrow> c \<noteq> Unresolved \<and> constraints_ok H c"

datatype meal_actor = CloudActor actor_id | LocalActor string

definition meal_actor_ok :: "meal_actor \<Rightarrow> bool" where
  "meal_actor_ok a = (case a of CloudActor i \<Rightarrow> opaque_id_ok ''act'' i | LocalActor l \<Rightarrow> trimmed_len 1 80 l)"

definition is_local :: "meal_actor \<Rightarrow> bool" where
  "is_local a = (case a of CloudActor _ \<Rightarrow> False | LocalActor _ \<Rightarrow> True)"

datatype constraint_revision = HeadRevision git_object_id | LocalRevision nat

datatype meal_source =
    Freeform string
  | ExternalRecipe string string string string
  | JournalRecipe item_id "evidence_id list" string
  | JournalDish item_id "evidence_id list" string

definition journal_revision_ok :: "string \<Rightarrow> bool" where
  "journal_revision_ok r \<longleftrightarrow> git_object_id_ok r \<or> content_digest_ok r"

definition meal_source_ok :: "host \<Rightarrow> meal_source \<Rightarrow> bool" where
  "meal_source_ok H s = (case s of
       Freeform t \<Rightarrow> trimmed_len 1 300 t
     | ExternalRecipe t u site d \<Rightarrow> trimmed_len 1 300 t \<and> safe_https_url H u \<and> trimmed_len 1 200 site
         \<and> valid_datetime H d
     | JournalRecipe i es r \<Rightarrow> opaque_id_ok ''itm'' i \<and> list_len 1 100 es
         \<and> list_all (opaque_id_ok ''evd'') es \<and> journal_revision_ok r
     | JournalDish i es r \<Rightarrow> opaque_id_ok ''itm'' i \<and> list_len 1 100 es
         \<and> list_all (opaque_id_ok ''evd'') es \<and> distinct es \<and> journal_revision_ok r)"

datatype compatibility = AppearsCompatible | IncompleteEvidence | NeedsRecheck

record meal_proposal =
  mp_id :: string
  mp_week :: string
  mp_date :: string
  mp_slot :: meal_slot
  mp_by :: meal_actor
  mp_source :: meal_source
  mp_servings :: "nat option"
  mp_notes :: "string option"
  mp_constraint :: constraint_revision
  mp_review_event :: string
  mp_compatibility :: compatibility
  mp_caveat :: string
  mp_created :: string

datatype proposal_issue = DateOutsideWeek | ConstraintAuthority | ItemAuthority | DishCompatibility

definition proposal_issues :: "meal_proposal \<Rightarrow> proposal_issue list" where
  "proposal_issues p =
     (if meal_date_falls_within_week (mp_week p) (mp_date p) then [] else [DateOutsideWeek]) @
     (let local = is_local (mp_by p) in
      (if local \<noteq> (case mp_constraint p of LocalRevision _ \<Rightarrow> True | HeadRevision _ \<Rightarrow> False)
       then [ConstraintAuthority] else []) @
      (case mp_source p of
         JournalRecipe _ _ r \<Rightarrow> if local \<noteq> content_digest_ok r then [ItemAuthority] else []
       | JournalDish _ _ r \<Rightarrow> if local \<noteq> content_digest_ok r then [ItemAuthority] else []
       | _ \<Rightarrow> [])) @
     (case mp_source p of
        JournalDish _ _ _ \<Rightarrow> if mp_compatibility p \<noteq> IncompleteEvidence then [DishCompatibility] else []
      | _ \<Rightarrow> [])"

definition meal_proposal_ok :: "host \<Rightarrow> meal_proposal \<Rightarrow> bool" where
  "meal_proposal_ok H p \<longleftrightarrow> opaque_id_ok ''mlp'' (mp_id p) \<and>
     valid_date H (mp_week p) \<and> monday_ok (mp_week p) \<and> valid_date H (mp_date p) \<and>
     meal_slot_ok (mp_slot p) \<and> meal_actor_ok (mp_by p) \<and> meal_source_ok H (mp_source p) \<and>
     opt_all (\<lambda>n. 1 \<le> n \<and> n \<le> 100) (mp_servings p) \<and>
     opt_all (trimmed_len 1 1000) (mp_notes p) \<and>
     (case mp_constraint p of HeadRevision g \<Rightarrow> git_object_id_ok g | LocalRevision _ \<Rightarrow> True) \<and>
     opaque_id_ok ''mle'' (mp_review_event p) \<and> trimmed_len 1 1000 (mp_caveat p) \<and>
     valid_datetime H (mp_created p) \<and> proposal_issues p = []"

datatype meal_event_kind = ConstraintsReviewed constraint_revision
  | ProposalWithdrawn string "string option"

record meal_plan_event =
  me_id :: string
  me_week :: string
  me_actor :: meal_actor
  me_occurred :: string
  me_kind :: meal_event_kind

definition meal_plan_event_ok :: "host \<Rightarrow> meal_plan_event \<Rightarrow> bool" where
  "meal_plan_event_ok H e \<longleftrightarrow> opaque_id_ok ''mle'' (me_id e) \<and>
     valid_date H (me_week e) \<and> monday_ok (me_week e) \<and> meal_actor_ok (me_actor e) \<and>
     valid_datetime H (me_occurred e) \<and>
     (case me_kind e of
        ConstraintsReviewed (HeadRevision g) \<Rightarrow> git_object_id_ok g \<and> \<not> is_local (me_actor e)
      | ConstraintsReviewed (LocalRevision _) \<Rightarrow> is_local (me_actor e)
      | ProposalWithdrawn p r \<Rightarrow> opaque_id_ok ''mlp'' p \<and> opt_all (trimmed_len 1 500) r)"

record meal_planning_profile =
  mpp_constraints :: constraints
  mpp_revision :: constraint_revision
  mpp_updated :: string

end
