(* ===== verification/Onboarding.thy ===== *)
theory Onboarding
  imports CoreTypes
begin

text \<open>
  The onboarding state of one section (\<^verbatim>\<open>packages/contracts/src/onboarding.ts\<close>) and
  its transitions (\<^verbatim>\<open>apps/server/src/domain/onboarding.ts\<close>): a record carries a
  revision, every transition names the revision it was prepared against, and skipping twice with the
  same reason is a retry and not a transition.
\<close>

datatype onboarding_section = SnacksSection | RecipesSection
datatype skip_reason = NotNow | NoSources | UserDeclined
datatype onboarding_status = InProgress | Skipped skip_reason
datatype onboarding_action = StartAction | SkipAction skip_reason | ResumeAction

record onboarding_record =
  ob_user :: user_id
  ob_household :: household_id
  ob_section :: onboarding_section
  ob_status :: onboarding_status
  ob_revision :: nat
  ob_updated :: time

record skip_outcome =
  sk_section :: onboarding_section
  sk_reason :: skip_reason
  sk_expected :: nat

definition onboarding_record_ok :: "onboarding_record \<Rightarrow> bool" where
  "onboarding_record_ok r \<longleftrightarrow> opaque_id_ok ''usr'' (ob_user r) \<and>
     opaque_id_ok ''hsh'' (ob_household r) \<and> 0 < ob_revision r"

definition make_record ::
  "user_id \<Rightarrow> household_id \<Rightarrow> onboarding_section \<Rightarrow> nat \<Rightarrow> time \<Rightarrow> onboarding_status
     \<Rightarrow> failure + onboarding_record" where
  "make_record user household sect expected occurred status =
     (let r = \<lparr>ob_user = user, ob_household = household, ob_section = sect, ob_status = status,
               ob_revision = expected + 1, ob_updated = occurred\<rparr>
      in if onboarding_record_ok r then Inr r else Inl (OtherError ''ZodError''))"

definition current_revision :: "onboarding_record option \<Rightarrow> nat" where
  "current_revision current = (case current of None \<Rightarrow> 0 | Some r \<Rightarrow> ob_revision r)"

definition is_skipped :: "onboarding_record option \<Rightarrow> bool" where
  "is_skipped current = (case current of Some r \<Rightarrow> (case ob_status r of Skipped _ \<Rightarrow> True | InProgress \<Rightarrow> False)
     | None \<Rightarrow> False)"

definition transition_onboarding ::
  "onboarding_record option \<Rightarrow> user_id \<Rightarrow> household_id \<Rightarrow> onboarding_section \<Rightarrow> onboarding_action
     \<Rightarrow> nat \<Rightarrow> time \<Rightarrow> failure + onboarding_record" where
  "transition_onboarding current user household sect action expected occurred =
     (if current_revision current \<noteq> expected then Inl (app_error REVISION_CONFLICT)
      else case action of
        StartAction \<Rightarrow>
          if current \<noteq> None then Inl (app_error VALIDATION_FAILED)
          else make_record user household sect expected occurred InProgress
      | ResumeAction \<Rightarrow>
          if \<not> is_skipped current then Inl (app_error VALIDATION_FAILED)
          else make_record user household sect expected occurred InProgress
      | SkipAction reason \<Rightarrow>
          if is_skipped current then Inl (app_error VALIDATION_FAILED)
          else make_record user household sect expected occurred (Skipped reason))"

definition next_onboarding_skip ::
  "onboarding_record option \<Rightarrow> user_id \<Rightarrow> household_id \<Rightarrow> skip_outcome \<Rightarrow> time
     \<Rightarrow> failure + onboarding_record option" where
  "next_onboarding_skip current user household skip occurred =
     (case current of
        Some r \<Rightarrow>
          if ob_status r = Skipped (sk_reason skip)
             \<and> (ob_revision r = sk_expected skip \<or> ob_revision r = sk_expected skip + 1)
          then Inr None
          else and_then (transition_onboarding current user household (sk_section skip)
                 (SkipAction (sk_reason skip)) (sk_expected skip) occurred) (\<lambda>n. Inr (Some n))
      | None \<Rightarrow>
          and_then (transition_onboarding current user household (sk_section skip)
            (SkipAction (sk_reason skip)) (sk_expected skip) occurred) (\<lambda>n. Inr (Some n)))"

lemma make_record_Inr:
  "make_record u h s n t st = Inr r \<Longrightarrow>
     r = \<lparr>ob_user = u, ob_household = h, ob_section = s, ob_status = st, ob_revision = n + 1, ob_updated = t\<rparr>
     \<and> onboarding_record_ok r"
  by (auto simp: make_record_def Let_def split: if_splits)

lemma transition_revision:
  assumes "transition_onboarding current u h s a n t = Inr r"
  shows "current_revision current = n \<and> ob_revision r = n + 1 \<and> ob_user r = u \<and> ob_household r = h \<and> ob_section r = s"
  using assms
  by (auto simp: transition_onboarding_def split: if_splits onboarding_action.splits dest!: make_record_Inr)

lemma transition_skip_status:
  "transition_onboarding current u h s (SkipAction reason) n t = Inr r \<Longrightarrow> ob_status r = Skipped reason"
  by (auto simp: transition_onboarding_def split: if_splits dest!: make_record_Inr)

text \<open>Skips can be retried. Once a skip has been accepted, sending the same skip again asks for no further change, and
  the record it made is skipped with its reason at the next revision.\<close>
theorem skip_retry_changes_nothing:
  assumes "next_onboarding_skip current u h skip t = Inr (Some r)"
  shows "next_onboarding_skip (Some r) u h skip t' = Inr None \<and> ob_status r = Skipped (sk_reason skip)
     \<and> ob_revision r = sk_expected skip + 1"
proof -
  have "transition_onboarding current u h (sk_section skip) (SkipAction (sk_reason skip)) (sk_expected skip) t = Inr r"
    using assms by (auto simp: next_onboarding_skip_def and_then_Inr_iff split: option.splits if_splits)
  from transition_revision [OF this] transition_skip_status [OF this] show ?thesis
    by (simp add: next_onboarding_skip_def)
qed

lemma skip_retry_changes_nothing_witness:
  "\<exists>r. next_onboarding_skip None ''usr_0123456789abcdef'' ''hsh_0123456789abcdef''
        \<lparr>sk_section = RecipesSection, sk_reason = NotNow, sk_expected = 0\<rparr> 7 = Inr (Some r)
     \<and> next_onboarding_skip (Some r) ''usr_0123456789abcdef'' ''hsh_0123456789abcdef''
        \<lparr>sk_section = RecipesSection, sk_reason = NotNow, sk_expected = 0\<rparr> 8 = Inr None"
proof -
  have ids: "opaque_id_ok ''usr'' ''usr_0123456789abcdef''" "opaque_id_ok ''hsh'' ''hsh_0123456789abcdef''"
    by code_simp+
  then obtain r where "next_onboarding_skip None ''usr_0123456789abcdef'' ''hsh_0123456789abcdef''
        \<lparr>sk_section = RecipesSection, sk_reason = NotNow, sk_expected = 0\<rparr> 7 = Inr (Some r)"
    by (simp add: next_onboarding_skip_def transition_onboarding_def current_revision_def is_skipped_def make_record_def
        onboarding_record_ok_def)
  with skip_retry_changes_nothing [OF this] show ?thesis by blast
qed

end
