(* ===== verification/OperationalStore.thy ===== *)
theory OperationalStore
  imports MealPlan Onboarding
begin

text \<open>
  The operational store (\<^verbatim>\<open>MemoryOperationalStore\<close> of
  \<^verbatim>\<open>apps/server/src/adapters/memory.ts\<close>): one record whose fields are the
  maps of the class, one function per method.  A method that throws returns a sum; a method that
  mutates a stored object in place updates that entry of its map.  Composite string keys, whose
  parts contain no NUL character, are tuples.
\<close>

section \<open>State\<close>

record projection =
  pr_evidence :: "(evidence_id, evidence) js_map"
  pr_items :: "(item_id, journal_item \<times> git_object_id) js_map"
  pr_profiles :: "(string, string \<times> git_object_id) js_map"
  pr_collections :: "(string, collection_snapshot \<times> git_object_id) js_map"
  pr_meal_profile :: "meal_planning_profile option"
  pr_proposals :: "(string, meal_proposal \<times> git_object_id) js_map"
  pr_events :: "(string, meal_plan_event \<times> git_object_id) js_map"

record share_record =
  sh_id :: string
  sh_collection :: string
  sh_household :: household_id
  sh_token_hash :: token_hash
  sh_snapshot :: collection_snapshot
  sh_expires :: time
  sh_revoked :: "time option"

record op_store =
  st_households :: "(household_id, household_record) js_map"
  st_memberships :: "(household_id \<times> user_id, membership) js_map"
  st_defaults :: "(user_id, household_id) js_map"
  st_onboarding :: "(user_id \<times> household_id \<times> onboarding_section, onboarding_record) js_map"
  st_invitations :: "(string, invitation) js_map"
  st_shares :: "(token_hash, share_record) js_map"
  st_mutations :: "(user_id \<times> tool_name \<times> string, mutation_record) js_map"
  st_projections :: "(household_id, projection) js_map"
  st_sessions :: "(string, session_record) js_map"
  st_downloads :: "(token_hash, export_download) js_map"
  st_checkpoints :: "(household_id, backup_checkpoint) js_map"
  st_verifications :: "(household_id, repository_verification) js_map"
  st_drill :: "restore_drill option"

definition empty_store :: op_store where
  "empty_store = \<lparr>st_households = [], st_memberships = [], st_defaults = [], st_onboarding = [],
     st_invitations = [], st_shares = [], st_mutations = [], st_projections = [], st_sessions = [],
     st_downloads = [], st_checkpoints = [], st_verifications = [], st_drill = None\<rparr>"

definition empty_projection :: projection where
  "empty_projection = \<lparr>pr_evidence = [], pr_items = [], pr_profiles = [], pr_collections = [],
     pr_meal_profile = None, pr_proposals = [], pr_events = []\<rparr>"

section \<open>Households and memberships\<close>

definition create_household :: "household_record \<Rightarrow> membership \<Rightarrow> op_store \<Rightarrow> failure + op_store" where
  "create_household h owner s =
     (if lookup (st_households s) (h_id h) \<noteq> None then Inl (app_error VALIDATION_FAILED)
      else Inr (s\<lparr>st_households := put (h_id h) h (st_households s),
                  st_memberships := put (h_id h, m_user owner) owner (st_memberships s),
                  st_projections := put (h_id h) empty_projection (st_projections s)\<rparr>))"

definition get_household :: "household_id \<Rightarrow> op_store \<Rightarrow> household_record option" where
  "get_household h s = lookup (st_households s) h"

definition update_household :: "household_id \<Rightarrow> (household_record \<Rightarrow> household_record) \<Rightarrow> op_store \<Rightarrow> failure + op_store" where
  "update_household h f s =
     (case get_household h s of
        None \<Rightarrow> Inl (app_error NOT_FOUND)
      | Some _ \<Rightarrow> Inr (s\<lparr>st_households := adjust h f (st_households s)\<rparr>))"

definition update_household_name :: "household_id \<Rightarrow> string \<Rightarrow> op_store \<Rightarrow> failure + op_store" where
  "update_household_name h n = update_household h (\<lambda>r. r\<lparr>h_name := n\<rparr>)"

definition update_household_head :: "household_id \<Rightarrow> git_object_id \<Rightarrow> op_store \<Rightarrow> failure + op_store" where
  "update_household_head h g = update_household h (\<lambda>r. r\<lparr>h_head := g\<rparr>)"

definition quarantine_household :: "household_id \<Rightarrow> op_store \<Rightarrow> failure + op_store" where
  "quarantine_household h = update_household h (\<lambda>r. r\<lparr>h_provisioning := QuarantinedHousehold\<rparr>)"

definition list_households :: "op_store \<Rightarrow> household_record list" where
  "list_households s = vals (st_households s)"

definition list_memberships :: "user_id \<Rightarrow> op_store \<Rightarrow> (household_record \<times> membership) list" where
  "list_memberships u s =
     concat (map (\<lambda>m. case lookup (st_households s) (m_household m) of None \<Rightarrow> [] | Some h \<Rightarrow> [(h, m)])
       (filter (\<lambda>m. m_user m = u \<and> m_removed m = None) (vals (st_memberships s))))"

definition get_membership :: "household_id \<Rightarrow> user_id \<Rightarrow> op_store \<Rightarrow> membership option" where
  "get_membership h u s =
     (case lookup (st_memberships s) (h, u) of
        Some m \<Rightarrow> if m_removed m = None then Some m else None
      | None \<Rightarrow> None)"

definition list_household_memberships :: "household_id \<Rightarrow> op_store \<Rightarrow> membership list" where
  "list_household_memberships h s =
     filter (\<lambda>m. m_household m = h \<and> m_removed m = None) (vals (st_memberships s))"

definition upsert_membership :: "membership \<Rightarrow> op_store \<Rightarrow> op_store" where
  "upsert_membership m s = s\<lparr>st_memberships := put (m_household m, m_user m) m (st_memberships s)\<rparr>"

definition active_owner_count :: "household_id \<Rightarrow> op_store \<Rightarrow> nat" where
  "active_owner_count h s =
     length (filter (\<lambda>m. m_household m = h \<and> m_removed m = None \<and> m_role m = Owner) (vals (st_memberships s)))"

datatype leave_outcome = LeftHousehold | MembershipNotFound | SoleOwner

definition leave_membership :: "user_id \<Rightarrow> household_id \<Rightarrow> time \<Rightarrow> op_store \<Rightarrow> leave_outcome \<times> op_store" where
  "leave_membership u h removed s =
     (case lookup (st_memberships s) (h, u) of
        None \<Rightarrow> (MembershipNotFound, s)
      | Some m \<Rightarrow>
          if m_removed m \<noteq> None then (MembershipNotFound, s)
          else if m_role m = Owner \<and> active_owner_count h s \<le> 1 then (SoleOwner, s)
          else (LeftHousehold,
                s\<lparr>st_memberships := put (h, u) (m\<lparr>m_removed := Some removed\<rparr>) (st_memberships s),
                  st_defaults := (if lookup (st_defaults s) u = Some h then drop_key u (st_defaults s)
                                  else st_defaults s)\<rparr>))"

definition set_default_household :: "user_id \<Rightarrow> household_id \<Rightarrow> op_store \<Rightarrow> op_store" where
  "set_default_household u h s = s\<lparr>st_defaults := put u h (st_defaults s)\<rparr>"

definition get_default_household :: "user_id \<Rightarrow> op_store \<Rightarrow> household_id option" where
  "get_default_household u s = lookup (st_defaults s) u"

section \<open>Onboarding, invitations, shares\<close>

definition list_onboarding_records :: "user_id \<Rightarrow> household_id \<Rightarrow> op_store \<Rightarrow> onboarding_record list" where
  "list_onboarding_records u h s = filter (\<lambda>r. ob_user r = u \<and> ob_household r = h) (vals (st_onboarding s))"

definition compare_and_set_onboarding :: "onboarding_record \<Rightarrow> nat \<Rightarrow> op_store \<Rightarrow> bool \<times> op_store" where
  "compare_and_set_onboarding r expected s =
     (let key = (ob_user r, ob_household r, ob_section r);
          current = current_revision (lookup (st_onboarding s) key)
      in if current \<noteq> expected \<or> ob_revision r \<noteq> expected + 1 then (False, s)
         else (True, s\<lparr>st_onboarding := put key r (st_onboarding s)\<rparr>))"

definition save_invitation :: "invitation \<Rightarrow> op_store \<Rightarrow> op_store" where
  "save_invitation i s = s\<lparr>st_invitations := put (inv_id i) i (st_invitations s)\<rparr>"

definition get_invitation :: "string \<Rightarrow> op_store \<Rightarrow> invitation option" where
  "get_invitation i s = lookup (st_invitations s) i"

definition find_invitation_by_token_hash :: "token_hash \<Rightarrow> op_store \<Rightarrow> invitation option" where
  "find_invitation_by_token_hash t s = List.find (\<lambda>i. inv_token_hash i = t) (vals (st_invitations s))"

definition save_share :: "share_record \<Rightarrow> op_store \<Rightarrow> op_store" where
  "save_share sh s = s\<lparr>st_shares := put (sh_token_hash sh) sh (st_shares s)\<rparr>"

definition get_share_by_token_hash :: "token_hash \<Rightarrow> op_store \<Rightarrow> share_record option" where
  "get_share_by_token_hash t s = lookup (st_shares s) t"

definition get_share_by_collection :: "household_id \<Rightarrow> string \<Rightarrow> op_store \<Rightarrow> share_record option" where
  "get_share_by_collection h c s =
     List.find (\<lambda>sh. sh_household sh = h \<and> sh_collection sh = c) (vals (st_shares s))"

section \<open>Mutation records\<close>

record mutation_update =
  up_commit :: "git_object_id option"
  up_response :: "json_object option"
  up_failure :: "string option"

definition no_update :: mutation_update where
  "no_update = \<lparr>up_commit = None, up_response = None, up_failure = None\<rparr>"

definition mutation_key :: "mutation_record \<Rightarrow> user_id \<times> tool_name \<times> string" where
  "mutation_key r = (mu_user r, mu_tool r, mu_key r)"

definition get_mutation :: "user_id \<Rightarrow> tool_name \<Rightarrow> string \<Rightarrow> op_store \<Rightarrow> mutation_record option" where
  "get_mutation u t k s = lookup (st_mutations s) (u, t, k)"

definition save_mutation :: "mutation_record \<Rightarrow> op_store \<Rightarrow> op_store" where
  "save_mutation r s =
     (if lookup (st_mutations s) (mutation_key r) = None
      then s\<lparr>st_mutations := put (mutation_key r) r (st_mutations s)\<rparr> else s)"

definition apply_update :: "mutation_state \<Rightarrow> mutation_update \<Rightarrow> time \<Rightarrow> mutation_record \<Rightarrow> mutation_record" where
  "apply_update state u now r =
     r\<lparr>mu_state := state,
       mu_commit := (case up_commit u of None \<Rightarrow> mu_commit r | Some c \<Rightarrow> Some c),
       mu_response := (case up_response u of None \<Rightarrow> mu_response r | Some x \<Rightarrow> Some x),
       mu_failure := (case up_failure u of None \<Rightarrow> mu_failure r | Some x \<Rightarrow> Some x),
       mu_updated := now\<rparr>"

definition transition_mutation ::
  "request_id \<Rightarrow> mutation_state \<Rightarrow> mutation_update \<Rightarrow> time \<Rightarrow> op_store \<Rightarrow> failure + op_store" where
  "transition_mutation req state u now s =
     (if list_ex (\<lambda>r. mu_request r = req) (vals (st_mutations s))
      then Inr (s\<lparr>st_mutations := adjust_first (\<lambda>r. mu_request r = req) (apply_update state u now) (st_mutations s)\<rparr>)
      else Inl (app_error INTERNAL_ERROR))"

definition list_mutations_for_reconciliation :: "household_id \<Rightarrow> op_store \<Rightarrow> mutation_record list" where
  "list_mutations_for_reconciliation h s =
     filter (\<lambda>r. mu_household r = Some h
               \<and> mu_state r \<in> {Received, Locked, GitCommitted, ReconciliationRequired}) (vals (st_mutations s))"

section \<open>Projections\<close>

definition get_projection :: "household_id \<Rightarrow> op_store \<Rightarrow> failure + projection" where
  "get_projection h s =
     (case lookup (st_projections s) h of None \<Rightarrow> Inl (app_error NOT_FOUND) | Some p \<Rightarrow> Inr p)"

definition replace_membership ::
  "household_id \<Rightarrow> git_object_id \<Rightarrow> repository_membership_state \<Rightarrow> op_store \<Rightarrow> op_store" where
  "replace_membership h head rm s =
     (let existing = List.find (\<lambda>m. m_household m = h \<and> m_actor m = rm_actor rm) (vals (st_memberships s));
          user = (case existing of Some m \<Rightarrow> Some (m_user m) | None \<Rightarrow> rm_user rm);
          role = (case rm_role rm of Some r \<Rightarrow> r
                  | None \<Rightarrow> (case existing of Some m \<Rightarrow> m_role m | None \<Rightarrow> Viewer))
      in case user of
           None \<Rightarrow> s
         | Some u \<Rightarrow> s\<lparr>st_memberships := put (h, u)
             \<lparr>m_household = h, m_user = u, m_actor = rm_actor rm, m_role = role, m_head = head,
              m_removed = rm_removed rm\<rparr> (st_memberships s)\<rparr>)"

definition replace_household_projection ::
  "household_id \<Rightarrow> string \<Rightarrow> git_object_id \<Rightarrow> projection \<Rightarrow> repository_membership_state list
     \<Rightarrow> op_store \<Rightarrow> failure + op_store" where
  "replace_household_projection h name head p ms s =
     (case lookup (st_households s) h of
        None \<Rightarrow> Inl (app_error NOT_FOUND)
      | Some _ \<Rightarrow> Inr (fold (replace_membership h head) ms
          (s\<lparr>st_households := adjust h (\<lambda>r. r\<lparr>h_name := name, h_head := head, h_provisioning := Ready\<rparr>)
               (st_households s),
             st_projections := put h p (st_projections s)\<rparr>)))"

section \<open>Export downloads, checkpoints, health\<close>

definition save_export_download :: "export_download \<Rightarrow> op_store \<Rightarrow> op_store" where
  "save_export_download d s = s\<lparr>st_downloads := put (ex_token_hash d) d (st_downloads s)\<rparr>"

definition download_usable :: "user_id \<Rightarrow> time \<Rightarrow> export_download \<Rightarrow> bool" where
  "download_usable u now d \<longleftrightarrow> ex_requested_by d = u \<and> ex_downloaded d = None \<and> now < ex_expires d"

definition get_active_export_download :: "token_hash \<Rightarrow> user_id \<Rightarrow> time \<Rightarrow> op_store \<Rightarrow> export_download option" where
  "get_active_export_download t u now s =
     (case lookup (st_downloads s) t of
        None \<Rightarrow> None
      | Some d \<Rightarrow> if download_usable u now d then Some d else None)"

definition claim_export_download ::
  "token_hash \<Rightarrow> user_id \<Rightarrow> time \<Rightarrow> op_store \<Rightarrow> export_download option \<times> op_store" where
  "claim_export_download t u at s =
     (case lookup (st_downloads s) t of
        None \<Rightarrow> (None, s)
      | Some d \<Rightarrow>
          if download_usable u at d
          then (Some (d\<lparr>ex_downloaded := Some at\<rparr>),
                s\<lparr>st_downloads := adjust t (\<lambda>r. r\<lparr>ex_downloaded := Some at\<rparr>) (st_downloads s)\<rparr>)
          else (None, s))"

definition list_reclaimable_export_downloads :: "time \<Rightarrow> op_store \<Rightarrow> export_download list" where
  "list_reclaimable_export_downloads now s =
     filter (\<lambda>d. ex_downloaded d \<noteq> None \<or> ex_expires d \<le> now) (vals (st_downloads s))"

definition delete_export_download :: "string \<Rightarrow> op_store \<Rightarrow> op_store" where
  "delete_export_download i s = s\<lparr>st_downloads := filter (\<lambda>(t, d). ex_id d \<noteq> i) (st_downloads s)\<rparr>"

definition save_backup_checkpoint :: "backup_checkpoint \<Rightarrow> op_store \<Rightarrow> op_store" where
  "save_backup_checkpoint b s = s\<lparr>st_checkpoints := put (bk_household b) b (st_checkpoints s)\<rparr>"

definition get_backup_checkpoint :: "household_id \<Rightarrow> op_store \<Rightarrow> backup_checkpoint option" where
  "get_backup_checkpoint h s = lookup (st_checkpoints s) h"

definition save_repository_verification :: "repository_verification \<Rightarrow> op_store \<Rightarrow> op_store" where
  "save_repository_verification v s = s\<lparr>st_verifications := put (rv_household v) v (st_verifications s)\<rparr>"

definition save_restore_drill :: "restore_drill \<Rightarrow> op_store \<Rightarrow> op_store" where
  "save_restore_drill d s = s\<lparr>st_drill := Some d\<rparr>"

definition first_of :: "'a list \<Rightarrow> 'a option" where
  "first_of xs = (case xs of [] \<Rightarrow> None | x # _ \<Rightarrow> Some x)"

definition last_of :: "'a list \<Rightarrow> 'a option" where
  "last_of xs = (if xs = [] then None else Some (last xs))"

definition operator_health :: "op_store \<Rightarrow> health_snapshot" where
  "operator_health s =
     (let incomplete = filter (\<lambda>r. mu_state r \<in> {Received, Locked, GitCommitted, ProjectionsApplied,
            ReconciliationRequired}) (vals (st_mutations s));
          households = vals (st_households s);
          verifications = vals (st_verifications s);
          checks = sort (map rv_checked verifications)
      in \<lparr>hs_incomplete = length incomplete,
          hs_reconciliation = length (filter (\<lambda>r. mu_state r = ReconciliationRequired) incomplete),
          hs_oldest_incomplete = first_of (sort (map mu_updated incomplete)),
          hs_quarantined = length (filter (\<lambda>h. h_provisioning h = QuarantinedHousehold) households),
          hs_households = length households,
          hs_without_backup = length (filter (\<lambda>h. lookup (st_checkpoints s) (h_id h) = None) households),
          hs_oldest_backup = first_of (sort (map bk_completed (vals (st_checkpoints s)))),
          hs_last_fsck = last_of checks,
          hs_fsck_failures = length (filter (\<lambda>v. \<not> rv_fsck_valid v) verifications),
          hs_last_signature_check = last_of checks,
          hs_signature_failures = length (filter (\<lambda>v. \<not> rv_signatures_valid v) verifications),
          hs_last_drill = map_option rd_completed (st_drill s),
          hs_drill_succeeded = map_option rd_succeeded (st_drill s),
          hs_schema_version = ''memory''\<rparr>)"

section \<open>Sessions\<close>

definition add_session :: "string \<Rightarrow> session_record \<Rightarrow> op_store \<Rightarrow> op_store" where
  "add_session t r s = s\<lparr>st_sessions := put t r (st_sessions s)\<rparr>"

definition get_by_token :: "string \<Rightarrow> op_store \<Rightarrow> session_record option" where
  "get_by_token t s = lookup (st_sessions s) t"

definition revoke_user :: "user_id \<Rightarrow> op_store \<Rightarrow> op_store" where
  "revoke_user u s = s\<lparr>st_sessions := filter (\<lambda>(t, r). s_user r \<noteq> u) (st_sessions s)\<rparr>"

section \<open>Well-formed stores\<close>

definition memberships_ok :: "op_store \<Rightarrow> bool" where
  "memberships_ok s \<longleftrightarrow> map_ok (st_memberships s) \<and>
     (\<forall>(k, m)\<in>set (st_memberships s). k = (m_household m, m_user m))"

definition mutations_ok :: "op_store \<Rightarrow> bool" where
  "mutations_ok s \<longleftrightarrow> map_ok (st_mutations s) \<and>
     (\<forall>(k, r)\<in>set (st_mutations s). k = mutation_key r) \<and>
     distinct (map mu_request (vals (st_mutations s)))"

definition households_ok :: "op_store \<Rightarrow> bool" where
  "households_ok s \<longleftrightarrow> map_ok (st_households s) \<and> (\<forall>(k, h)\<in>set (st_households s). k = h_id h)"

definition store_ok :: "op_store \<Rightarrow> bool" where
  "store_ok s \<longleftrightarrow> memberships_ok s \<and> mutations_ok s \<and> households_ok s"

lemma apply_update_simps [simp]:
  "mu_request (apply_update st u t r) = mu_request r"
  "mutation_key (apply_update st u t r) = mutation_key r"
  "mu_created (apply_update st u t r) = mu_created r"
  "mu_household (apply_update st u t r) = mu_household r"
  "mu_state (apply_update st u t r) = st"
  by (simp_all add: apply_update_def mutation_key_def)

lemma adjust_first_eq_adjust:
  assumes "map_ok m" "distinct (map g (vals m))" "lookup m k = Some r" "g r = a"
  shows "adjust_first (\<lambda>r. g r = a) f m = adjust k f m"
  using assms
proof (induction m)
  case (Cons p m)
  obtain k' v where p: "p = (k', v)" by (cases p)
  show ?case
  proof (cases "k' = k")
    case True
    with Cons.prems p show ?thesis by simp
  next
    case False
    with Cons.prems p have "r \<in> set (vals m)" by (auto dest: lookup_vals)
    with Cons.prems p have "g v \<noteq> a" by auto
    with False Cons p show ?thesis by (simp add: map_ok_def)
  qed
qed simp

lemma lookup_all_iff:
  "map_ok m \<Longrightarrow> (\<forall>(k, v)\<in>set m. P k v) \<longleftrightarrow> (\<forall>k v. lookup m k = Some v \<longrightarrow> P k v)"
  by (auto simp: lookup_in_set)

lemma map_vals_adjust: "(\<And>v. g (f v) = g v) \<Longrightarrow> map (g \<circ> snd) (adjust k f m) = map (g \<circ> snd) m"
  by (induction k f m rule: adjust.induct) auto

lemma transition_mutation_lookup:
  assumes ok: "mutations_ok s" and look: "lookup (st_mutations s) k = Some r" and req: "mu_request r = req"
  shows "transition_mutation req st u now s =
    Inr (s\<lparr>st_mutations := adjust k (apply_update st u now) (st_mutations s)\<rparr>)"
proof -
  have "list_ex (\<lambda>r. mu_request r = req) (vals (st_mutations s))"
    using lookup_vals [OF look] req by (auto simp: list_ex_iff)
  moreover have "adjust_first (\<lambda>r. mu_request r = req) (apply_update st u now) (st_mutations s)
      = adjust k (apply_update st u now) (st_mutations s)"
    using ok look req by (intro adjust_first_eq_adjust) (simp_all add: mutations_ok_def)
  ultimately show ?thesis by (simp add: transition_mutation_def)
qed

lemma mutations_ok_adjust:
  assumes "mutations_ok s" "\<And>r. mu_request (f r) = mu_request r" "\<And>r. mutation_key (f r) = mutation_key r"
  shows "mutations_ok (s\<lparr>st_mutations := adjust k f (st_mutations s)\<rparr>)"
  using assms by (auto simp: mutations_ok_def map_vals_adjust lookup_all_iff lookup_adjust)

lemma mutations_ok_transition:
  assumes "mutations_ok s" "transition_mutation req st u now s = Inr s'"
  shows "mutations_ok s'"
proof -
  from assms(2) obtain r where "r \<in> set (vals (st_mutations s))" and req: "mu_request r = req"
    by (auto simp: transition_mutation_def list_ex_iff split: if_splits)
  then obtain k where "lookup (st_mutations s) k = Some r"
    using assms(1) by (auto simp: mutations_ok_def lookup_in_set)
  from transition_mutation_lookup [OF assms(1) this req] assms(2)
  have "s' = s\<lparr>st_mutations := adjust k (apply_update st u now) (st_mutations s)\<rparr>" by simp
  then show ?thesis by (simp add: mutations_ok_adjust [OF assms(1)])
qed

lemma mutations_ok_save:
  assumes "mutations_ok s" "mu_request r \<notin> set (map mu_request (vals (st_mutations s)))"
  shows "mutations_ok (save_mutation r s)"
proof (cases "lookup (st_mutations s) (mutation_key r)")
  case None
  with assms show ?thesis
    by (auto simp: mutations_ok_def save_mutation_def map_ok_def map_of_eq_None_iff put_absent)
qed (use assms in \<open>simp add: save_mutation_def\<close>)

section \<open>Properties\<close>

lemma active_owners_leave:
  assumes "map_ok ms" "lookup ms k = Some m"
  shows "length (filter P (vals (put k m' ms))) + (if P m then 1 else 0) = length (filter P (vals ms)) + (if P m' then 1 else 0)"
  using assms
proof (induction ms)
  case (Cons p ms)
  obtain k' v where p: "p = (k', v)" by (cases p)
  show ?case
  proof (cases "k' = k")
    case True
    then show ?thesis using Cons.prems p by (auto simp: put_def)
  next
    case False
    then show ?thesis using Cons p by (auto simp: put_def map_ok_def)
  qed
qed simp

text \<open>A household keeps an owner. Leaving never takes the last active owner of a household away, and changes no other
  membership.\<close>
theorem leaving_keeps_an_owner:
  assumes "memberships_ok s" "0 < active_owner_count h s" "leave_membership u h' t s = (oc, s')"
  shows "0 < active_owner_count h s' \<and> (\<forall>k. k \<noteq> (h', u) \<longrightarrow> lookup (st_memberships s') k = lookup (st_memberships s) k)"
proof (cases "oc = LeftHousehold")
  case False
  then have "s' = s" using assms(3) by (auto simp: leave_membership_def split: option.splits if_splits)
  then show ?thesis using assms(2) by simp
next
  case True
  then obtain m where m: "lookup (st_memberships s) (h', u) = Some m" "m_removed m = None"
    and last: "\<not> (m_role m = Owner \<and> active_owner_count h' s \<le> 1)"
    and s': "st_memberships s' = put (h', u) (m\<lparr>m_removed := Some t\<rparr>) (st_memberships s)"
    using assms(3) by (auto simp: leave_membership_def split: option.splits if_splits)
  have home: "m_household m = h'" using assms(1) m(1) by (auto simp: memberships_ok_def dest!: map_of_SomeD)
  have "active_owner_count h s' + (if m_household m = h \<and> m_role m = Owner then 1 else 0) = active_owner_count h s"
    using active_owners_leave [OF _ m(1), of "\<lambda>m. m_household m = h \<and> m_removed m = None \<and> m_role m = Owner" "m\<lparr>m_removed := Some t\<rparr>"]
      assms(1) m(2) by (simp add: active_owner_count_def s' memberships_ok_def)
  then have "0 < active_owner_count h s'" using last home assms(2) by (auto split: if_splits)
  then show ?thesis by (simp add: s')
qed

definition two_owners :: op_store where
  "two_owners = empty_store\<lparr>st_memberships :=
     [((''h'', ''u''), \<lparr>m_household = ''h'', m_user = ''u'', m_actor = ''a'', m_role = Owner, m_head = ''0'', m_removed = None\<rparr>),
      ((''h'', ''v''), \<lparr>m_household = ''h'', m_user = ''v'', m_actor = ''b'', m_role = Owner, m_head = ''0'', m_removed = None\<rparr>)]\<rparr>"

lemma leaving_keeps_an_owner_witness:
  "fst (leave_membership ''u'' ''h'' 5 two_owners) = LeftHousehold \<and>
   0 < active_owner_count ''h'' (snd (leave_membership ''u'' ''h'' 5 two_owners))"
proof -
  have "memberships_ok two_owners" "0 < active_owner_count ''h'' two_owners"
    by (simp_all add: memberships_ok_def map_ok_def two_owners_def active_owner_count_def)
  from leaving_keeps_an_owner [OF this, of "''u''" "''h''" 5] show ?thesis
    by (cases "leave_membership ''u'' ''h'' 5 two_owners")
      (auto simp: leave_membership_def two_owners_def active_owner_count_def)
qed

text \<open>One writer per onboarding revision. Of two updates of a section prepared against the same revision, the one that comes
  second is refused and changes nothing, and the section stays at the next revision.\<close>
theorem onboarding_revision_has_one_writer:
  assumes "compare_and_set_onboarding r n s = (True, s1)"
    and "ob_user r' = ob_user r" "ob_household r' = ob_household r" "ob_section r' = ob_section r"
  shows "compare_and_set_onboarding r' n s1 = (False, s1) \<and>
     lookup (st_onboarding s1) (ob_user r, ob_household r, ob_section r) = Some r \<and> ob_revision r = n + 1"
  using assms by (auto simp: compare_and_set_onboarding_def current_revision_def Let_def split: if_splits)

definition first_record :: onboarding_record where
  "first_record = \<lparr>ob_user = ''u'', ob_household = ''h'', ob_section = SnacksSection, ob_status = InProgress,
     ob_revision = 1, ob_updated = 0\<rparr>"

lemma onboarding_revision_has_one_writer_witness:
  "\<not> fst (compare_and_set_onboarding (first_record\<lparr>ob_status := Skipped NotNow\<rparr>) 0
     (snd (compare_and_set_onboarding first_record 0 empty_store)))"
proof -
  have "compare_and_set_onboarding first_record 0 empty_store = (True, snd (compare_and_set_onboarding first_record 0 empty_store))"
    by (simp add: compare_and_set_onboarding_def first_record_def empty_store_def current_revision_def)
  from onboarding_revision_has_one_writer [OF this, of "first_record\<lparr>ob_status := Skipped NotNow\<rparr>"] show ?thesis by simp
qed

text \<open>Downloads are single use. A claimed export download belongs to its requester and had not expired, and nobody can claim
  or see it as active again, at whatever time.\<close>
theorem export_download_claimed_once:
  assumes "claim_export_download t u at s = (Some d, s')"
  shows "ex_requested_by d = u \<and> at < ex_expires d \<and> ex_downloaded d = Some at \<and>
    claim_export_download t u' at' s' = (None, s') \<and> get_active_export_download t u' at' s' = None"
  using assms
  by (auto simp: claim_export_download_def get_active_export_download_def download_usable_def lookup_adjust
      split: option.splits if_splits)

definition one_download :: op_store where
  "one_download = empty_store\<lparr>st_downloads := [(''t'', \<lparr>ex_id = ''e'', ex_household = ''h'', ex_requested_by = ''u'',
     ex_format = GitBundle, ex_token_hash = ''t'', ex_object_path = ''p'', ex_content_hash = ''c'', ex_head = ''0'',
     ex_expires = 10, ex_downloaded = None, ex_created = 0\<rparr>)]\<rparr>"

lemma export_download_claimed_once_witness:
  "fst (claim_export_download ''t'' ''u'' 6 (snd (claim_export_download ''t'' ''u'' 5 one_download))) = None
    \<and> fst (claim_export_download ''t'' ''u'' 5 one_download) \<noteq> None"
proof -
  have claimed: "fst (claim_export_download ''t'' ''u'' 5 one_download) \<noteq> None"
    by (simp add: claim_export_download_def one_download_def download_usable_def)
  then obtain d where "claim_export_download ''t'' ''u'' 5 one_download = (Some d, snd (claim_export_download ''t'' ''u'' 5 one_download))"
    by (cases "claim_export_download ''t'' ''u'' 5 one_download") auto
  from export_download_claimed_once [OF this, of "''u''" 6] claimed show ?thesis by simp
qed

end
