(* ===== verification/Authorization.thy ===== *)
theory Authorization
  imports OperationalStore
begin

text \<open>
  Who may do what (\<^verbatim>\<open>apps/server/src/domain/authorization.ts\<close>): the scopes of a
  principal, and the membership check that also refuses to decide on a stale or unready household.
\<close>

definition rank :: "role \<Rightarrow> nat" where
  "rank r = (case r of Viewer \<Rightarrow> 0 | Editor \<Rightarrow> 1 | Owner \<Rightarrow> 2)"

definition require_scope :: "principal \<Rightarrow> oauth_scope \<Rightarrow> failure + unit" where
  "require_scope p sc = (if sc \<in> set (p_scopes p) then Inr () else Inl (app_error FORBIDDEN))"

definition require_membership :: "op_store \<Rightarrow> principal \<Rightarrow> household_id \<Rightarrow> role \<Rightarrow> failure + membership" where
  "require_membership s p h minimum =
     (case get_membership h (p_user p) s of
        None \<Rightarrow> Inl (app_error FORBIDDEN)
      | Some m \<Rightarrow>
          if rank (m_role m) < rank minimum then Inl (app_error FORBIDDEN)
          else (case get_household h s of
              None \<Rightarrow> Inl (AppError PROJECTION_DRIFT True)
            | Some hh \<Rightarrow>
                if h_provisioning hh \<noteq> Ready then Inl (AppError PROJECTION_DRIFT True)
                else if m_head m \<noteq> h_head hh then Inl (AppError PROJECTION_DRIFT True)
                else Inr m))"

lemma require_membership_Inr:
  "require_membership s p h minimum = Inr m \<longleftrightarrow>
     get_membership h (p_user p) s = Some m \<and> rank minimum \<le> rank (m_role m) \<and>
     (\<exists>hh. get_household h s = Some hh \<and> h_provisioning hh = Ready \<and> m_head m = h_head hh)"
  by (auto simp: require_membership_def split: option.splits if_splits)

end
