(* ===== verification/GitStore.thy ===== *)
theory GitStore
  imports CoreTypes
begin

text \<open>
  The household repository kept in memory (\<^verbatim>\<open>MemoryHouseholdRepository\<close>,
  \<^verbatim>\<open>stableJson\<close> and \<^verbatim>\<open>validateRepositoryPath\<close> of
  \<^verbatim>\<open>apps/server/src/adapters/memory.ts\<close>): files, their revisions and the list of
  commits of each household.  The hash function and the collation keys of
  \<^verbatim>\<open>localeCompare\<close> are arguments.
\<close>

section \<open>JSON text\<close>

record codec =
  sha256 :: "string \<Rightarrow> string"
  collation_key :: "string \<Rightarrow> nat list"

fun join :: "string \<Rightarrow> string list \<Rightarrow> string" where
  "join sep [] = []"
| "join sep [s] = s"
| "join sep (s # t # ss) = s @ sep @ join sep (t # ss)"

definition int_text :: "int \<Rightarrow> string" where
  "int_text n = (if n < 0 then CHR ''-'' # digits (nat (- n)) else digits (nat n))"

definition hex_digit :: "nat \<Rightarrow> char" where
  "hex_digit n = ''0123456789abcdef'' ! n"

definition quote_char :: "char \<Rightarrow> string" where
  "quote_char c =
     (let n = of_char c :: nat in
      if n = 34 then [CHR 0x5C, CHR 0x22]
      else if n = 92 then [CHR 0x5C, CHR 0x5C]
      else if n = 8 then [CHR 0x5C, CHR ''b'']
      else if n = 9 then [CHR 0x5C, CHR ''t'']
      else if n = 10 then [CHR 0x5C, CHR ''n'']
      else if n = 12 then [CHR 0x5C, CHR ''f'']
      else if n = 13 then [CHR 0x5C, CHR ''r'']
      else if n < 32 then [CHR 0x5C] @ ''u00'' @ [hex_digit (n div 16), hex_digit (n mod 16)]
      else [c])"

definition json_quote :: "string \<Rightarrow> string" where
  "json_quote s = [CHR 0x22] @ concat (map quote_char s) @ [CHR 0x22]"

definition new_line :: "nat \<Rightarrow> string" where
  "new_line n = CHR 0x0A # replicate n (CHR '' '')"

fun print_json :: "nat \<Rightarrow> json \<Rightarrow> string" where
  "print_json n JNull = ''null''"
| "print_json n (JBool b) = (if b then ''true'' else ''false'')"
| "print_json n (JNum i) = int_text i"
| "print_json n (JStr s) = json_quote s"
| "print_json n (JArr xs) =
     (if xs = [] then ''[]''
      else ''['' @ join '','' (map (\<lambda>x. new_line (n + 2) @ print_json (n + 2) x) xs) @ new_line n @ '']'')"
| "print_json n (JObj fs) =
     (if fs = [] then ''{}''
      else ''{'' @ join '','' (map (\<lambda>(k, x). new_line (n + 2) @ json_quote k @ '': '' @ print_json (n + 2) x) fs)
           @ new_line n @ ''}'')"

lemma json_size_array: "x \<in> set xs \<Longrightarrow> size x < Suc (size_list size xs)"
  by (induction xs) auto

lemma json_size_object:
  "(k, x) \<in> set fs \<Longrightarrow> size x < Suc (size_list (size_prod (\<lambda>_. 0) size) fs)"
  by (induction fs) auto

function sort_json :: "codec \<Rightarrow> json \<Rightarrow> json" where
  "sort_json C (JArr xs) = JArr (map (sort_json C) xs)"
| "sort_json C (JObj fs) = JObj (map (\<lambda>(k, x). (k, sort_json C x)) (sort_key (\<lambda>(k, x). collation_key C k) fs))"
| "sort_json C JNull = JNull"
| "sort_json C (JBool b) = JBool b"
| "sort_json C (JNum i) = JNum i"
| "sort_json C (JStr s) = JStr s"
  by pat_completeness auto
termination
  by (relation "measure (\<lambda>(C, j). size j)") (auto simp: json_size_array json_size_object)

definition stable_json :: "codec \<Rightarrow> json \<Rightarrow> string" where
  "stable_json C v = print_json 0 (sort_json C v) @ [CHR 0x0A]"

section \<open>Paths\<close>

definition path_char :: "char \<Rightarrow> bool" where
  "path_char c \<longleftrightarrow> is_lower c \<or> is_upper c \<or> is_digit c \<or> c \<in> set ''._/-''"

definition validate_repository_path :: "string \<Rightarrow> failure + unit" where
  "validate_repository_path p =
     (if (case p of [] \<Rightarrow> False
          | c # cs \<Rightarrow> (is_lower c \<or> is_upper c \<or> is_digit c) \<and> length cs \<le> 499 \<and> list_all path_char cs)
         \<and> \<not> contains ''..'' p \<and> \<not> contains ''//'' p \<and> \<not> starts_with ''/'' p \<and> last p \<noteq> CHR ''/''
      then Inr () else Inl (app_error VALIDATION_FAILED))"

section \<open>Repositories\<close>

record commit_entry =
  ce_head :: git_object_id
  ce_metadata :: commit_metadata
  ce_paths :: "string list"

record repository =
  git_head :: git_object_id
  git_files :: "(string, string) js_map"
  git_revisions :: "(string, git_object_id) js_map"
  git_commits :: "commit_entry list"

type_synonym repositories = "(household_id, repository) js_map"

record file_snapshot =
  fs_path :: string
  fs_content :: string
  fs_revision :: git_object_id

definition digest_parts :: "codec \<Rightarrow> string list \<Rightarrow> git_object_id" where
  "digest_parts C parts = sha256 C (join [CHR 0x00] parts)"

definition get_repository :: "household_id \<Rightarrow> repositories \<Rightarrow> failure + repository" where
  "get_repository h rs = (case lookup rs h of None \<Rightarrow> Inl (app_error NOT_FOUND) | Some r \<Rightarrow> Inr r)"

definition initial_files :: "string \<Rightarrow> actor_id \<Rightarrow> (string, string) js_map" where
  "initial_files name actor =
     [(''FORMAT_VERSION'', ''1'' @ [CHR 0x0A]),
      (''household.md'', ''---'' @ [CHR 0x0A] @ ''name: '' @ json_quote name @ [CHR 0x0A]
         @ ''schema_version: 1'' @ [CHR 0x0A] @ ''---'' @ [CHR 0x0A]),
      (''members/'' @ actor @ ''.md'', ''---'' @ [CHR 0x0A] @ ''role: owner'' @ [CHR 0x0A]
         @ ''schema_version: 1'' @ [CHR 0x0A] @ ''---'' @ [CHR 0x0A])]"

definition provision ::
  "codec \<Rightarrow> household_id \<Rightarrow> string \<Rightarrow> actor_id \<Rightarrow> repositories \<Rightarrow> git_object_id \<times> repositories" where
  "provision C h name actor rs =
     (case lookup rs h of
        Some r \<Rightarrow> (git_head r, rs)
      | None \<Rightarrow>
          let files = initial_files name actor;
              head = digest_parts C (concat (map (\<lambda>(p, c). [p, c]) files))
          in (head, put h \<lparr>git_head = head, git_files = files,
                git_revisions = map (\<lambda>(p, _). (p, head)) files, git_commits = []\<rparr> rs))"

definition repository_head :: "household_id \<Rightarrow> repositories \<Rightarrow> failure + git_object_id" where
  "repository_head h rs = and_then (get_repository h rs) (\<lambda>r. Inr (git_head r))"

definition find_commit_by_request_id :: "household_id \<Rightarrow> request_id \<Rightarrow> repositories \<Rightarrow> failure + git_object_id option" where
  "find_commit_by_request_id h req rs =
     and_then (get_repository h rs) (\<lambda>r.
       Inr (map_option ce_head (List.find (\<lambda>c. cm_request (ce_metadata c) = req) (git_commits r))))"

definition snapshot :: "household_id \<Rightarrow> repositories \<Rightarrow> failure + git_object_id \<times> file_snapshot list" where
  "snapshot h rs = and_then (get_repository h rs) (\<lambda>r.
     Inr (git_head r, map (\<lambda>(p, c). \<lparr>fs_path = p, fs_content = c,
            fs_revision = (case lookup (git_revisions r) p of Some g \<Rightarrow> g | None \<Rightarrow> git_head r)\<rparr>) (git_files r)))"

definition audit_path :: "commit_metadata \<Rightarrow> string" where
  "audit_path m = ''audit/'' @ take 4 (iso_text (cm_occurred m)) @ ''/'' @ cm_request m @ ''.json''"

definition audit_content :: "codec \<Rightarrow> git_object_id \<Rightarrow> repository_change list \<Rightarrow> commit_metadata \<Rightarrow> string" where
  "audit_content C expected changes m = stable_json C (JObj
     [(''actor_id'', JStr (cm_actor m)),
      (''affected_paths'', JArr (map (\<lambda>c. JStr (ch_path c)) changes)),
      (''occurred_at'', JStr (iso_text (cm_occurred m))),
      (''operation'', JStr (cm_tool m)),
      (''parent_head'', JStr expected),
      (''request_id'', JStr (cm_request m)),
      (''schema_version'', JNum 1)])"

definition change_allowed :: "repository \<Rightarrow> repository_change \<Rightarrow> failure + unit" where
  "change_allowed r c = and_then (validate_repository_path (ch_path c)) (\<lambda>_.
     if ch_append_only c \<and> lookup (git_files r) (ch_path c) \<noteq> None
     then Inl (app_error REVISION_CONFLICT) else Inr ())"

definition write_files :: "repository_change list \<Rightarrow> (string, string) js_map \<Rightarrow> (string, string) js_map" where
  "write_files changes files = fold (\<lambda>c. put (ch_path c) (ch_content c)) changes files"

definition write_revisions ::
  "git_object_id \<Rightarrow> repository_change list \<Rightarrow> (string, git_object_id) js_map \<Rightarrow> (string, git_object_id) js_map" where
  "write_revisions head changes revs = fold (\<lambda>c. put (ch_path c) head) changes revs"

definition committed ::
  "codec \<Rightarrow> git_object_id \<Rightarrow> repository_change list \<Rightarrow> commit_metadata \<Rightarrow> repository \<Rightarrow> repository" where
  "committed C expected changes m r =
     (let audit = audit_path m;
          head = digest_parts C ([expected, cm_request m] @ concat (map (\<lambda>c. [ch_path c, ch_content c]) changes))
      in \<lparr>git_head = head,
          git_files = put audit (audit_content C expected changes m) (write_files changes (git_files r)),
          git_revisions = put audit head (write_revisions head changes (git_revisions r)),
          git_commits = git_commits r @ [\<lparr>ce_head = head, ce_metadata = m, ce_paths = map ch_path changes @ [audit]\<rparr>]\<rparr>)"

definition commit_repository ::
  "codec \<Rightarrow> git_object_id \<Rightarrow> repository_change list \<Rightarrow> commit_metadata \<Rightarrow> repository \<Rightarrow> failure + repository" where
  "commit_repository C expected changes m r =
     (if git_head r \<noteq> expected then Inl (app_error REVISION_CONFLICT)
      else and_then (each_ok (change_allowed r) changes) (\<lambda>_.
        if lookup (git_files r) (audit_path m) \<noteq> None then Inl (app_error REVISION_CONFLICT)
        else Inr (committed C expected changes m r)))"

definition commit ::
  "codec \<Rightarrow> household_id \<Rightarrow> git_object_id \<Rightarrow> repository_change list \<Rightarrow> commit_metadata
     \<Rightarrow> repositories \<Rightarrow> failure + git_object_id \<times> repositories" where
  "commit C h expected changes m rs =
     and_then (get_repository h rs) (\<lambda>r.
     and_then (commit_repository C expected changes m r) (\<lambda>r'.
       Inr (git_head r', put h r' rs)))"

definition read_file :: "household_id \<Rightarrow> string \<Rightarrow> repositories \<Rightarrow> failure + string option" where
  "read_file h path rs =
     and_then (validate_repository_path path) (\<lambda>_.
     and_then (get_repository h rs) (\<lambda>r. Inr (lookup (git_files r) path)))"

definition utf8_length :: "string \<Rightarrow> nat" where
  "utf8_length s = sum_list (map (\<lambda>c. if of_char c < (128::nat) then 1 else 2) s)"

definition assert_export_size :: "nat \<Rightarrow> failure + unit" where
  "assert_export_size n = (if 96 * 1024 * 1024 < n then Inl (app_error VALIDATION_FAILED) else Inr ())"

definition bundle_content :: "codec \<Rightarrow> household_id \<Rightarrow> repositories \<Rightarrow> failure + string" where
  "bundle_content C h rs = and_then (get_repository h rs) (\<lambda>r.
     let content = stable_json C (JObj [(''head'', JStr (git_head r)),
           (''files'', JObj (map (\<lambda>(p, c). (p, JStr c)) (git_files r)))])
     in and_then (assert_export_size (utf8_length content)) (\<lambda>_. Inr content))"

definition verify_repository :: "household_id \<Rightarrow> repositories \<Rightarrow> bool \<times> string" where
  "verify_repository h rs = (case lookup rs h of None \<Rightarrow> (False, ''missing'') | Some r \<Rightarrow> (True, git_head r))"

definition object_count :: "household_id \<Rightarrow> repositories \<Rightarrow> failure + nat" where
  "object_count h rs = and_then (get_repository h rs) (\<lambda>r. Inr (length (git_files r) + length (git_commits r)))"

definition commit_count :: "household_id \<Rightarrow> repositories \<Rightarrow> nat" where
  "commit_count h rs = (case lookup rs h of None \<Rightarrow> 0 | Some r \<Rightarrow> length (git_commits r))"

section \<open>Lemmas\<close>

lemma lookup_write_files:
  "lookup (write_files changes files) p =
     (case List.find (\<lambda>c. ch_path c = p) (rev changes) of
        Some c \<Rightarrow> Some (ch_content c) | None \<Rightarrow> lookup files p)"
proof (induction changes rule: rev_induct)
  case (snoc c cs)
  then show ?case by (simp add: write_files_def)
qed (simp add: write_files_def)

lemma write_files_untouched:
  "p \<notin> ch_path ` set changes \<Longrightarrow> lookup (write_files changes files) p = lookup files p"
  by (auto simp: lookup_write_files find_None_iff split: option.split dest!: find_Some_iff)

lemma committed_simps:
  "git_commits (committed C e cs m r) = git_commits r @ [\<lparr>ce_head = git_head (committed C e cs m r), ce_metadata = m,
     ce_paths = map ch_path cs @ [audit_path m]\<rparr>]"
  "lookup (git_files (committed C e cs m r)) =
     (lookup (write_files cs (git_files r)))(audit_path m \<mapsto> audit_content C e cs m)"
  by (simp_all add: committed_def Let_def)

lemma commit_repository_Inr:
  assumes "commit_repository C e cs m r = Inr r'"
  shows "r' = committed C e cs m r" "git_head r = e" "\<And>c. c \<in> set cs \<Longrightarrow> change_allowed r c = Inr ()"
    "lookup (git_files r) (audit_path m) = None"
  using assms by (auto simp: commit_repository_def and_then_Inr_iff each_ok_Inr_iff split: if_splits)

lemma commit_Inr:
  assumes "commit C h e cs m rs = Inr (g, rs')"
  obtains r where "lookup rs h = Some r" "commit_repository C e cs m r = Inr (committed C e cs m r)"
    "g = git_head (committed C e cs m r)" "rs' = put h (committed C e cs m r) rs"
proof -
  from assms obtain r r' where "lookup rs h = Some r" and c: "commit_repository C e cs m r = Inr r'"
    and "g = git_head r'" "rs' = put h r' rs"
    by (auto simp: commit_def and_then_Inr_iff get_repository_def split: option.splits)
  with commit_repository_Inr(1) [OF c] show thesis by (intro that) simp_all
qed

lemma change_allowed_append:
  "change_allowed r c = Inr () \<Longrightarrow> ch_append_only c \<Longrightarrow> lookup (git_files r) (ch_path c) = None"
  by (auto simp: change_allowed_def and_then_Inr_iff split: if_splits)

section \<open>The commit log as an interface\<close>

text \<open>What a client that retries relies on: a commit can be found again under the request it was made
  for, and commits made for other requests do not disturb the answer.\<close>

locale commit_log =
  fixes find_commit :: "'h \<Rightarrow> 'r \<Rightarrow> 's \<Rightarrow> 'e + 'c option"
    and make_commit :: "'h \<Rightarrow> 'r \<Rightarrow> 'x \<Rightarrow> 's \<Rightarrow> 'e + 'c \<times> 's"
  assumes find_made: "find_commit h r s = Inr None \<Longrightarrow> make_commit h r x s = Inr (c, s') \<Longrightarrow> find_commit h r s' = Inr (Some c)"
    and find_others: "make_commit h r x s = Inr (c, s') \<Longrightarrow> (h', r') \<noteq> (h, r) \<Longrightarrow> find_commit h' r' s = Inr o' \<Longrightarrow> find_commit h' r' s' = Inr o'"
begin

lemma find_stays:
  assumes "find_commit h r s = Inr (Some c)" "make_commit h' r' x s = Inr (c', s')" "find_commit h' r' s = Inr None"
  shows "find_commit h r s' = Inr (Some c)"
  using assms find_others by (cases "(h', r') = (h, r)") auto

lemma two_requests:
  assumes "find_commit h r s = Inr None" "make_commit h r x s = Inr (c, s')"
    and "find_commit h' r' s = Inr None" "(h', r') \<noteq> (h, r)" "make_commit h' r' x' s' = Inr (c', s'')"
  shows "find_commit h r s'' = Inr (Some c) \<and> find_commit h' r' s'' = Inr (Some c')"
proof
  have mine: "find_commit h r s' = Inr (Some c)" by (rule find_made [OF assms(1,2)])
  have theirs: "find_commit h' r' s' = Inr None" by (rule find_others [OF assms(2,4,3)])
  show "find_commit h r s'' = Inr (Some c)" by (rule find_stays [OF mine assms(5) theirs])
  show "find_commit h' r' s'' = Inr (Some c')" by (rule find_made [OF theirs assms(5)])
qed

end

definition commit_for_request ::
  "codec \<Rightarrow> household_id \<Rightarrow> request_id \<Rightarrow> git_object_id \<times> repository_change list \<times> commit_metadata
     \<Rightarrow> repositories \<Rightarrow> failure + git_object_id \<times> repositories" where
  "commit_for_request C h req x rs = (case x of (head, changes, m) \<Rightarrow> commit C h head changes (m\<lparr>cm_request := req\<rparr>) rs)"

lemma find_committed:
  assumes "lookup rs h = Some r"
  shows "find_commit_by_request_id h' req (put h (committed C e cs m r) rs) =
    (if h' = h then Inr (case List.find (\<lambda>c. cm_request (ce_metadata c) = req) (git_commits r) of
         Some c \<Rightarrow> Some (ce_head c)
       | None \<Rightarrow> if cm_request m = req then Some (git_head (committed C e cs m r)) else None)
     else find_commit_by_request_id h' req rs)"
proof -
  have find_append: "List.find P (xs @ ys) = (case List.find P xs of None \<Rightarrow> List.find P ys | Some x \<Rightarrow> Some x)" for P :: "commit_entry \<Rightarrow> bool" and xs ys
    by (induction xs) auto
  show ?thesis
    by (simp add: find_commit_by_request_id_def get_repository_def committed_simps find_append split: option.split)
qed

interpretation memory_log: commit_log find_commit_by_request_id "commit_for_request C"
proof
  fix h req rs x c rs'
  assume none: "find_commit_by_request_id h req rs = Inr None" and "commit_for_request C h req x rs = Inr (c, rs')"
  then obtain e cs m where "commit C h e cs (m\<lparr>cm_request := req\<rparr>) rs = Inr (c, rs')"
    by (auto simp: commit_for_request_def split: prod.splits)
  then obtain r where "lookup rs h = Some r" "c = git_head (committed C e cs (m\<lparr>cm_request := req\<rparr>) r)"
    "rs' = put h (committed C e cs (m\<lparr>cm_request := req\<rparr>) r) rs"
    by (rule commit_Inr)
  with none show "find_commit_by_request_id h req rs' = Inr (Some c)"
    by (simp add: find_committed) (simp add: find_commit_by_request_id_def get_repository_def)
next
  fix h req x rs c rs' h' req' out
  assume "commit_for_request C h req x rs = Inr (c, rs')" and other: "(h', req') \<noteq> (h, req)"
    and out: "find_commit_by_request_id h' req' rs = Inr out"
  then obtain e cs m where "commit C h e cs (m\<lparr>cm_request := req\<rparr>) rs = Inr (c, rs')"
    by (auto simp: commit_for_request_def split: prod.splits)
  then obtain r where "lookup rs h = Some r" "rs' = put h (committed C e cs (m\<lparr>cm_request := req\<rparr>) r) rs"
    by (rule commit_Inr)
  with other out show "find_commit_by_request_id h' req' rs' = Inr out"
    by (auto simp: find_committed) (auto simp: find_commit_by_request_id_def get_repository_def split: option.split)
qed

section \<open>Properties\<close>

text \<open>Append-only history. A commit of append-only changes leaves every existing document of the repository as it was,
  adds its own documents, and extends the log of commits by exactly one entry; the other households are
  untouched.\<close>
theorem append_only_commit:
  assumes "commit C h e changes m rs = Inr (g, rs')" "\<forall>c\<in>set changes. ch_append_only c"
  shows "(\<forall>h' path x. read_file h' path rs = Inr (Some x) \<longrightarrow> read_file h' path rs' = Inr (Some x)) \<and>
    (\<forall>c\<in>set changes. \<exists>x. read_file h (ch_path c) rs' = Inr (Some x)) \<and>
    commit_count h rs' = commit_count h rs + 1 \<and>
    repository_head h rs' = Inr g \<and> (\<forall>h'. h' \<noteq> h \<longrightarrow> lookup rs' h' = lookup rs h')"
proof -
  from assms(1) obtain r where r: "lookup rs h = Some r" and cr: "commit_repository C e changes m r = Inr (committed C e changes m r)"
    and g: "g = git_head (committed C e changes m r)" and rs': "rs' = put h (committed C e changes m r) rs"
    by (rule commit_Inr)
  note ok = commit_repository_Inr [OF cr]
  have keep: "lookup (git_files (committed C e changes m r)) path = Some x" if "lookup (git_files r) path = Some x" for path x
  proof -
    have "path \<notin> ch_path ` set changes" using that ok(3) assms(2) change_allowed_append by fastforce
    moreover have "path \<noteq> audit_path m" using that ok(4) by auto
    ultimately show ?thesis using that by (simp add: committed_simps write_files_untouched)
  qed
  have "read_file h' path rs' = Inr (Some x)" if "read_file h' path rs = Inr (Some x)" for h' path x
    using that keep r by (cases "h' = h") (auto simp: read_file_def and_then_Inr_iff get_repository_def rs' split: option.splits)
  moreover have "\<exists>x. read_file h (ch_path c) rs' = Inr (Some x)" if "c \<in> set changes" for c
  proof -
    have "lookup (write_files changes (git_files r)) (ch_path c) \<noteq> None"
      using that by (auto simp: lookup_write_files find_None_iff split: option.split)
    then have "\<exists>x. lookup (git_files (committed C e changes m r)) (ch_path c) = Some x"
      by (auto simp: committed_simps)
    moreover have "validate_repository_path (ch_path c) = Inr ()"
      using ok(3) [OF that] by (auto simp: change_allowed_def and_then_Inr_iff)
    ultimately show ?thesis by (auto simp: read_file_def get_repository_def rs')
  qed
  moreover have "commit_count h rs' = commit_count h rs + 1"
    using r by (simp add: commit_count_def rs' committed_simps)
  ultimately show ?thesis
    by (simp add: repository_head_def get_repository_def rs' g)
qed

definition sample_codec :: codec where
  "sample_codec = \<lparr>sha256 = (\<lambda>s. ''d'' @ take 1 s), collation_key = map of_char\<rparr>"

definition sample_repositories :: repositories where
  "sample_repositories = [(''h'', \<lparr>git_head = ''0'', git_files = [(''a'', ''b'')], git_revisions = [], git_commits = []\<rparr>)]"

definition sample_change :: repository_change where
  "sample_change = \<lparr>ch_path = ''x'', ch_content = ''y'', ch_append_only = True\<rparr>"

lemma sample_commit:
  assumes "lookup [(''a'', ''b'')] (audit_path m) = (None :: string option)"
  shows "\<exists>g rs. commit sample_codec ''h'' ''0'' [sample_change] m sample_repositories = Inr (g, rs)"
proof -
  have "validate_repository_path ''x'' = Inr ()" by code_simp
  with assms show ?thesis
    by (simp add: sample_change_def sample_repositories_def commit_def get_repository_def commit_repository_def change_allowed_def)
qed

definition sample_metadata :: commit_metadata where
  "sample_metadata = \<lparr>cm_request = ''req'', cm_household = ''h'', cm_actor = ''act'', cm_tool = ''tool'', cm_client = TestClient,
     cm_summary = ''s'', cm_occurred = 0\<rparr>"

lemma append_only_commit_witness:
  "\<exists>g rs. commit sample_codec ''h'' ''0'' [sample_change] sample_metadata sample_repositories = Inr (g, rs) \<and>
     read_file ''h'' ''a'' rs = Inr (Some ''b'') \<and> commit_count ''h'' rs = 1"
proof -
  have "lookup [(''a'', ''b'')] (audit_path sample_metadata) = (None :: string option)" by (simp add: audit_path_def)
  from sample_commit [OF this] obtain g rs
    where made: "commit sample_codec ''h'' ''0'' [sample_change] sample_metadata sample_repositories = Inr (g, rs)" by blast
  have "validate_repository_path ''a'' = Inr ()" by code_simp
  then have "read_file ''h'' ''a'' sample_repositories = Inr (Some ''b'')"
    by (simp add: read_file_def get_repository_def sample_repositories_def)
  moreover have "commit_count ''h'' sample_repositories = 0" by (simp add: commit_count_def sample_repositories_def)
  ultimately show ?thesis
    using append_only_commit [OF made] made by (auto simp: sample_change_def)
qed

fun segments :: "string \<Rightarrow> string list" where
  "segments [] = [[]]"
| "segments (c # s) = (if c = CHR ''/'' then [] # segments s
     else (case segments s of [] \<Rightarrow> [[c]] | t # ts \<Rightarrow> (c # t) # ts))"

lemma segments_ne: "segments s \<noteq> []"
  by (induction s) (auto split: list.split)

lemma segments_Cons:
  "c \<noteq> CHR ''/'' \<Longrightarrow> segments (c # s) = (c # hd (segments s)) # tl (segments s)"
  using segments_ne [of s] by (cases "segments s") auto

lemma first_segment: "\<exists>v. s = hd (segments s) @ v"
proof (induction s)
  case (Cons c s)
  then show ?case by (cases "c = CHR ''/''") (simp_all add: segments_Cons del: segments.simps(2), simp)
qed simp

lemma segment_infix: "t \<in> set (segments s) \<Longrightarrow> \<exists>u v. s = u @ t @ v"
proof (induction s arbitrary: t)
  case (Cons c s)
  have shift: "\<exists>u v. c # s = u @ t @ v" if "\<exists>u v. s = u @ t @ v" for t
    using that by (metis append_Cons)
  show ?case
  proof (cases "c = CHR ''/''")
    case True
    with Cons.prems have "t = [] \<or> t \<in> set (segments s)" by auto
    then show ?thesis
    proof
      assume "t = []"
      then have "c # s = [] @ t @ (c # s)" by simp
      then show ?thesis by blast
    qed (use Cons.IH shift in blast)
  next
    case False
    with Cons.prems have "t = c # hd (segments s) \<or> t \<in> set (tl (segments s))" by (simp add: segments_Cons del: segments.simps)
    then show ?thesis
    proof
      assume "t = c # hd (segments s)"
      then show ?thesis using first_segment [of s] by (metis append_Cons append_Nil)
    next
      assume "t \<in> set (tl (segments s))"
      then have "t \<in> set (segments s)" by (rule list.set_sel(2) [OF segments_ne])
      then show ?thesis using Cons.IH shift by blast
    qed
  qed
qed simp

lemma first_segment_empty: "hd (segments s) = [] \<Longrightarrow> s = [] \<or> hd s = CHR ''/''"
proof (cases s)
  case (Cons c cs)
  assume "hd (segments s) = []"
  then show ?thesis unfolding Cons by (cases "c = CHR ''/''") (simp_all add: segments_Cons del: segments.simps)
qed simp

lemma segments_no_slash: "t \<in> set (segments s) \<Longrightarrow> CHR ''/'' \<notin> set t"
proof (induction s arbitrary: t)
  case (Cons c s)
  show ?case
  proof (cases "c = CHR ''/''")
    case False
    with Cons.prems have "t = c # hd (segments s) \<or> t \<in> set (tl (segments s))" by (simp add: segments_Cons del: segments.simps)
    then show ?thesis
      using False Cons.IH list.set_sel [OF segments_ne [of s]] by auto
  qed (use Cons in auto)
qed simp

lemma later_segment_empty:
  "[] \<in> set (tl (segments s)) \<Longrightarrow> last s = CHR ''/'' \<or> contains ''//'' s"
proof (induction s)
  case (Cons c s)
  show ?case
  proof (cases "c = CHR ''/''")
    case True
    with Cons.prems have "[] \<in> set (segments s)" by simp
    then have "hd (segments s) = [] \<or> [] \<in> set (tl (segments s))"
      using segments_ne [of s] by (cases "segments s") auto
    then show ?thesis
    proof
      assume "hd (segments s) = []"
      then show ?thesis using first_segment_empty [of s] True by (cases s) auto
    next
      assume "[] \<in> set (tl (segments s))"
      then show ?thesis using Cons.IH by (cases s) auto
    qed
  next
    case False
    with Cons.prems have "[] \<in> set (tl (segments s))" by (simp add: segments_Cons del: segments.simps)
    then show ?thesis using Cons.IH by (cases s) auto
  qed
qed simp

text \<open>Path safety. A path the repository accepts is relative and has at most 500 characters, and none of its
  segments is empty, names the parent directory, or holds a character outside letters, digits, dot,
  dash and underscore.\<close>
theorem accepted_paths_stay_inside:
  assumes "validate_repository_path p = Inr ()"
  shows "hd p \<noteq> CHR ''/'' \<and> length p \<le> 500 \<and>
    list_all (\<lambda>t. t \<noteq> [] \<and> t \<noteq> ''..'' \<and> list_all (\<lambda>c. path_char c \<and> c \<noteq> CHR ''/'') t) (segments p)"
proof -
  have p: "p \<noteq> []" "length p \<le> 500" "list_all path_char p" "\<not> contains ''..'' p" "\<not> contains ''//'' p"
    "\<not> starts_with ''/'' p" "last p \<noteq> CHR ''/''"
    using assms by (auto simp: validate_repository_path_def path_char_def split: if_splits list.splits)
  then have hd: "hd p \<noteq> CHR ''/''" by (cases p) auto
  have "t \<noteq> [] \<and> t \<noteq> ''..'' \<and> list_all (\<lambda>c. path_char c \<and> c \<noteq> CHR ''/'') t" if t: "t \<in> set (segments p)" for t
  proof -
    obtain u v where uv: "p = u @ t @ v" using segment_infix [OF t] by blast
    have "[] \<notin> set (segments p)"
      using p(1,5,7) hd first_segment_empty [of p] later_segment_empty [of p] segments_ne [of p]
      by (cases "segments p") auto
    then have "t \<noteq> []" using t by auto
    moreover have "t \<noteq> ''..''" using p(4) uv contains_iff by blast
    moreover have "list_all (\<lambda>c. path_char c \<and> c \<noteq> CHR ''/'') t"
      using p(3) uv segments_no_slash [OF t] by (auto simp: list_all_iff)
    ultimately show ?thesis by blast
  qed
  then show ?thesis using hd p(2) by (simp add: list_all_iff)
qed

lemma accepted_paths_stay_inside_witness:
  "validate_repository_path ''audit/2026/req.json'' = Inr () \<and> segments ''audit/2026/req.json'' = [''audit'', ''2026'', ''req.json'']
     \<and> hd ''audit/2026/req.json'' \<noteq> CHR ''/''"
proof -
  have "validate_repository_path ''audit/2026/req.json'' = Inr ()" by code_simp
  with accepted_paths_stay_inside [OF this] show ?thesis by simp
qed

end
