(* ===== verification/MutationRunner.thy ===== *)
theory MutationRunner
  imports Authorization GitStore
begin

text \<open>
  The mutation runner (\<^verbatim>\<open>apps/server/src/services/mutation-runner.ts\<close>): a keyed
  request is recorded, then, under the lock of its household, committed to the repository at most
  once and projected into the operational store.  The two callbacks of a request are state actions
  on the world; readings of the clock are the argument \<open>at\<close> (one per transition), the
  fresh request id is an argument.  Telemetry is not modelled.
\<close>

section \<open>World and options\<close>

record world =
  w_store :: op_store
  w_repos :: repositories

record mutation_options =
  mo_principal :: principal
  mo_tool :: tool_name
  mo_household :: household_id
  mo_key :: string
  mo_fingerprint :: string
  mo_min_role :: "role option"
  mo_scope :: oauth_scope
  mo_summary :: string
  mo_recovery :: json_object
  mo_enforce :: bool
  mo_append :: bool
  mo_expected :: "git_object_id option"
  mo_build :: "request_id \<Rightarrow> time \<Rightarrow> (failure, world, repository_change list) action"
  mo_apply :: "git_object_id \<Rightarrow> request_id \<Rightarrow> time \<Rightarrow> (failure, world, json_object) action"

record mutation_result =
  res_data :: json_object
  res_head :: git_object_id
  res_request :: request_id

datatype mutation_outcome = OutCompleted mutation_result | OutFailed failure

definition fingerprint_field :: string where
  "fingerprint_field = ''_request_fingerprint''"

section \<open>Replay\<close>

definition enforces_fingerprint :: "mutation_options \<Rightarrow> bool" where
  "enforces_fingerprint mo \<longleftrightarrow> mo_enforce mo \<or> mo_append mo"

definition recorded_fingerprint :: "mutation_record \<Rightarrow> string option" where
  "recorded_fingerprint r =
     (case mu_response r of
        None \<Rightarrow> None
      | Some f \<Rightarrow> (case lookup f fingerprint_field of Some (JStr s) \<Rightarrow> Some s | _ \<Rightarrow> None))"

definition replay :: "mutation_options \<Rightarrow> mutation_record option \<Rightarrow> failure + mutation_result option" where
  "replay mo existing =
     (case existing of
        None \<Rightarrow> Inr None
      | Some r \<Rightarrow>
          if (case recorded_fingerprint r of None \<Rightarrow> False | Some f \<Rightarrow> f \<noteq> mo_fingerprint mo)
             \<and> (enforces_fingerprint mo \<or> mu_state r \<noteq> Completed)
          then Inl (app_error REVISION_CONFLICT)
          else (case (mu_state r, mu_response r, mu_commit r) of
              (Completed, Some response, Some c) \<Rightarrow>
                Inr (Some \<lparr>res_data = (if enforces_fingerprint mo then drop_key fingerprint_field response else response),
                           res_head = c, res_request = mu_request r\<rparr>)
            | (Quarantined, _, _) \<Rightarrow> Inl (app_error RECONCILIATION_REQUIRED)
            | _ \<Rightarrow> Inr None))"

section \<open>The receipt\<close>

definition existing_mutation :: "mutation_options \<Rightarrow> world \<Rightarrow> mutation_record option" where
  "existing_mutation mo w = get_mutation (p_user (mo_principal mo)) (mo_tool mo) (mo_key mo) (w_store w)"

definition new_record :: "mutation_options \<Rightarrow> request_id \<Rightarrow> time \<Rightarrow> mutation_record" where
  "new_record mo req now =
     \<lparr>mu_request = req, mu_user = p_user (mo_principal mo), mu_tool = mo_tool mo, mu_key = mo_key mo,
      mu_household = Some (mo_household mo), mu_state = Received, mu_commit = None,
      mu_response = Some (fold (\<lambda>(k, v). put k v) (mo_recovery mo) [(fingerprint_field, JStr (mo_fingerprint mo))]),
      mu_failure = None, mu_created = now, mu_updated = now\<rparr>"

definition look_up_request :: "mutation_options \<Rightarrow> (failure, world, mutation_record option \<times> mutation_result option) action" where
  "look_up_request mo = bind_action (lift_result (\<lambda>_. require_scope (mo_principal mo) (mo_scope mo))) (\<lambda>_.
     lift_result (\<lambda>w. let existing = existing_mutation mo w
       in and_then (replay mo existing) (\<lambda>r. Inr (existing, r))))"

definition receive :: "mutation_options \<Rightarrow> mutation_record option \<Rightarrow> request_id \<Rightarrow> time \<Rightarrow> (failure, world, unit) action" where
  "receive mo existing req now = writes (\<lambda>w.
     if existing = None then w\<lparr>w_store := save_mutation (new_record mo req now) (w_store w)\<rparr> else w)"

section \<open>The locked section\<close>

definition transition :: "request_id \<Rightarrow> mutation_state \<Rightarrow> mutation_update \<Rightarrow> time \<Rightarrow> (failure, world, unit) action" where
  "transition req st u now = update_or_throw (\<lambda>w.
     and_then (transition_mutation req st u now (w_store w)) (\<lambda>s. Inr (w\<lparr>w_store := s\<rparr>)))"

definition check_authority :: "mutation_options \<Rightarrow> world \<Rightarrow> git_object_id \<Rightarrow> failure + unit" where
  "check_authority mo w head =
     and_then (guard (mo_append mo \<or> mo_expected mo = None \<or> mo_expected mo = Some head) (app_error REVISION_CONFLICT)) (\<lambda>_.
     case mo_min_role mo of
       None \<Rightarrow> Inr ()
     | Some minimum \<Rightarrow>
         and_then (require_membership (w_store w) (mo_principal mo) (mo_household mo) minimum) (\<lambda>m.
           guard (m_head m = head) (AppError PROJECTION_DRIFT True)))"

definition metadata_of :: "mutation_options \<Rightarrow> request_id \<Rightarrow> time \<Rightarrow> commit_metadata" where
  "metadata_of mo req now =
     \<lparr>cm_request = req, cm_household = mo_household mo, cm_actor = p_actor (mo_principal mo), cm_tool = mo_tool mo,
      cm_client = p_client (mo_principal mo), cm_summary = mo_summary mo, cm_occurred = now\<rparr>"

definition commit_changes ::
  "codec \<Rightarrow> mutation_options \<Rightarrow> git_object_id \<Rightarrow> repository_change list \<Rightarrow> request_id \<Rightarrow> time
     \<Rightarrow> (failure, world, git_object_id) action" where
  "commit_changes C mo head changes req now w =
     (if mo_append mo \<and> \<not> (case changes of [c] \<Rightarrow> ch_append_only c | _ \<Rightarrow> False)
      then (Inl (app_error INTERNAL_ERROR), w)
      else (case commit C (mo_household mo) head changes (metadata_of mo req now) (w_repos w) of
          Inl e \<Rightarrow> (Inl e, w)
        | Inr (g, rs) \<Rightarrow> (Inr g, w\<lparr>w_repos := rs\<rparr>)))"

definition prepare_commit :: "codec \<Rightarrow> mutation_options \<Rightarrow> request_id \<Rightarrow> time \<Rightarrow> (failure, world, git_object_id) action" where
  "prepare_commit C mo req now =
     bind_action (lift_result (\<lambda>w. repository_head (mo_household mo) (w_repos w))) (\<lambda>head.
     bind_action (lift_result (\<lambda>w. check_authority mo w head)) (\<lambda>_.
     bind_action (mo_build mo req now) (\<lambda>changes. commit_changes C mo head changes req now)))"

definition refresh_members :: "household_id \<Rightarrow> git_object_id \<Rightarrow> op_store \<Rightarrow> op_store" where
  "refresh_members h c s = fold (\<lambda>m. upsert_membership (m\<lparr>m_head := c\<rparr>)) (list_household_memberships h s) s"

definition refresh_household :: "mutation_options \<Rightarrow> git_object_id \<Rightarrow> (failure, world, unit) action" where
  "refresh_household mo c = update_or_throw (\<lambda>w. and_then (update_household_head (mo_household mo) c (w_store w))
        (\<lambda>s. Inr (w\<lparr>w_store := refresh_members (mo_household mo) c s\<rparr>)))"

definition stored_response :: "mutation_options \<Rightarrow> json_object \<Rightarrow> json_object" where
  "stored_response mo response =
     (if enforces_fingerprint mo then put fingerprint_field (JStr (mo_fingerprint mo)) response else response)"

definition project :: "mutation_options \<Rightarrow> git_object_id \<Rightarrow> request_id \<Rightarrow> time \<Rightarrow> (nat \<Rightarrow> time) \<Rightarrow> (failure, world, mutation_outcome) action" where
  "project mo c req now at =
     bind_action (mo_apply mo c req now) (\<lambda>response.
     bind_action (refresh_household mo c) (\<lambda>_.
     bind_action (transition req ProjectionsApplied (no_update\<lparr>up_response := Some (stored_response mo response)\<rparr>) (at 2)) (\<lambda>_.
     bind_action (transition req Completed (no_update\<lparr>up_response := Some (stored_response mo response)\<rparr>) (at 3)) (\<lambda>_.
     return (OutCompleted \<lparr>res_data = response, res_head = c, res_request = req\<rparr>)))))"

definition reconcile :: "mutation_update \<Rightarrow> request_id \<Rightarrow> (nat \<Rightarrow> time) \<Rightarrow> failure \<Rightarrow> (failure, world, mutation_outcome) action" where
  "reconcile u req at e =
     bind_action (transition req ReconciliationRequired (u\<lparr>up_failure := Some (error_name e)\<rparr>) (at 4)) (\<lambda>_.
     return (OutFailed (AppError RECONCILIATION_REQUIRED True)))"

definition finish :: "mutation_options \<Rightarrow> git_object_id \<Rightarrow> request_id \<Rightarrow> time \<Rightarrow> (nat \<Rightarrow> time) \<Rightarrow> (failure, world, mutation_outcome) action" where
  "finish mo c req now at =
     try_catch
       (bind_action (transition req GitCommitted (no_update\<lparr>up_commit := Some c\<rparr>) (at 1)) (\<lambda>_.
        try_catch (project mo c req now at) (reconcile no_update req at)))
       (reconcile (no_update\<lparr>up_commit := Some c\<rparr>) req at)"

definition fail_before_commit :: "request_id \<Rightarrow> (nat \<Rightarrow> time) \<Rightarrow> failure \<Rightarrow> (failure, world, mutation_outcome) action" where
  "fail_before_commit req at e =
     bind_action (transition req FailedBeforeCommit (no_update\<lparr>up_failure := Some (error_name e)\<rparr>) (at 1)) (\<lambda>_.
     return (OutFailed e))"

definition commit_or_fail :: "codec \<Rightarrow> mutation_options \<Rightarrow> request_id \<Rightarrow> time \<Rightarrow> (nat \<Rightarrow> time) \<Rightarrow> (failure, world, mutation_outcome) action" where
  "commit_or_fail C mo req now at w =
     (case prepare_commit C mo req now w of
        (Inl e, w') \<Rightarrow> fail_before_commit req at e w'
      | (Inr c, w') \<Rightarrow> finish mo c req now at w')"

definition known_commit :: "mutation_options \<Rightarrow> mutation_record \<Rightarrow> world \<Rightarrow> failure + git_object_id option" where
  "known_commit mo r w =
     (case mu_commit r of
        Some c \<Rightarrow> Inr (Some c)
      | None \<Rightarrow> find_commit_by_request_id (mo_household mo) (mu_request r) (w_repos w))"

definition run_locked :: "codec \<Rightarrow> mutation_options \<Rightarrow> (nat \<Rightarrow> time) \<Rightarrow> (failure, world, mutation_outcome) action" where
  "run_locked C mo at w =
     (case existing_mutation mo w of
        None \<Rightarrow> (Inl (app_error INTERNAL_ERROR), w)
      | Some r \<Rightarrow>
          (case replay mo (Some r) of
             Inl e \<Rightarrow> (Inl e, w)
           | Inr (Some result) \<Rightarrow> (Inr (OutCompleted result), w)
           | Inr None \<Rightarrow>
               bind_action (transition (mu_request r) Locked no_update (at 0)) (\<lambda>_.
               bind_action (lift_result (known_commit mo r)) (\<lambda>known.
               case known of
                 Some c \<Rightarrow> finish mo c (mu_request r) (mu_created r) at
               | None \<Rightarrow> commit_or_fail C mo (mu_request r) (mu_created r) at)) w))"

section \<open>The whole call\<close>

definition settle :: "mutation_outcome \<Rightarrow> (failure, world, mutation_result) action" where
  "settle oc = (case oc of OutCompleted r \<Rightarrow> return r | OutFailed e \<Rightarrow> throw e)"

definition run :: "codec \<Rightarrow> mutation_options \<Rightarrow> (nat \<Rightarrow> time) \<Rightarrow> request_id \<Rightarrow> time \<Rightarrow> (failure, world, mutation_result) action" where
  "run C mo at fresh now =
     bind_action (look_up_request mo) (\<lambda>(existing, replayed).
       case replayed of
         Some r \<Rightarrow> return r
       | None \<Rightarrow> bind_action (receive mo existing fresh now) (\<lambda>_.
           bind_action (run_locked C mo at) settle))"

section \<open>What the callbacks of a request may touch\<close>

text \<open>The callbacks build the documents of a change and write the projections: they leave the
  repository and the mutation records alone, and the response has no field of the runner's own.\<close>

definition mutations_of :: "world \<Rightarrow> (user_id \<times> tool_name \<times> string, mutation_record) js_map" where
  "mutations_of w = st_mutations (w_store w)"

definition same_records :: "world \<Rightarrow> world \<Rightarrow> bool" where
  "same_records w w' \<longleftrightarrow> w_repos w' = w_repos w \<and> mutations_of w' = mutations_of w"

definition callbacks_framed :: "mutation_options \<Rightarrow> bool" where
  "callbacks_framed mo \<longleftrightarrow>
     (\<forall>req now w. same_records w (snd (mo_build mo req now w))) \<and>
     (\<forall>c req now w. same_records w (snd (mo_apply mo c req now w)) \<and>
        (\<forall>resp. fst (mo_apply mo c req now w) = Inr resp \<longrightarrow> lookup resp fingerprint_field = None))"

definition request_key :: "mutation_options \<Rightarrow> user_id \<times> tool_name \<times> string" where
  "request_key mo = (p_user (mo_principal mo), mo_tool mo, mo_key mo)"

lemma existing_mutation_lookup: "existing_mutation mo w = lookup (mutations_of w) (request_key mo)"
  by (simp add: existing_mutation_def get_mutation_def mutations_of_def request_key_def)

text \<open>The record of a key keeps its request id, and no other record changes.\<close>

definition owns :: "user_id \<times> tool_name \<times> string \<Rightarrow> request_id \<Rightarrow> world \<Rightarrow> world \<Rightarrow> bool" where
  "owns k req base w \<longleftrightarrow> mutations_ok (w_store w) \<and>
     (\<exists>r. lookup (mutations_of w) k = Some r \<and> mu_request r = req) \<and>
     (\<forall>k'. k' \<noteq> k \<longrightarrow> lookup (mutations_of w) k' = lookup (mutations_of base) k')"

definition stamped ::
  "user_id \<times> tool_name \<times> string \<Rightarrow> mutation_state \<Rightarrow> mutation_update \<Rightarrow> time \<Rightarrow> world \<Rightarrow> world" where
  "stamped k st u now w = w\<lparr>w_store := (w_store w)\<lparr>st_mutations := adjust k (apply_update st u now) (mutations_of w)\<rparr>\<rparr>"

lemma mutations_ok_cong: "st_mutations s = st_mutations s' \<Longrightarrow> mutations_ok s = mutations_ok s'"
  by (simp add: mutations_ok_def)

lemma transition_eq:
  assumes "owns k req base w"
  shows "transition req st u now w = (Inr (), stamped k st u now w)"
proof -
  from assms obtain r where "mutations_ok (w_store w)" "lookup (st_mutations (w_store w)) k = Some r" "mu_request r = req"
    by (auto simp: owns_def mutations_of_def)
  from transition_mutation_lookup [OF this] show ?thesis
    by (simp add: transition_def update_or_throw_def stamped_def mutations_of_def)
qed

lemma stamped_simps [simp]:
  "w_repos (stamped k st u now w) = w_repos w"
  "mutations_of (stamped k st u now w) = adjust k (apply_update st u now) (mutations_of w)"
  by (simp_all add: stamped_def mutations_of_def)

lemma owns_stamped: "owns k req base w \<Longrightarrow> owns k req base (stamped k st u now w)"
  by (auto simp: owns_def lookup_adjust)
    (simp add: stamped_def mutations_of_def mutations_ok_adjust)

lemma owns_same_records: "same_records w w' \<Longrightarrow> owns k req base w \<Longrightarrow> owns k req base w'"
  by (auto simp: owns_def same_records_def mutations_of_def cong: mutations_ok_cong)

lemma keeps_owns_transition: "keeps (owns k req base) (transition req st u now)"
  by (simp add: keeps_def transition_eq owns_stamped)

lemma keeps_repos_transition: "keeps (\<lambda>w. w_repos w = R) (transition req st u now)"
  unfolding transition_def by (rule keeps_update_or_throw) (auto simp: and_then_Inr_iff)

lemma fold_upsert_mutations: "st_mutations (fold (\<lambda>m. upsert_membership (f m)) ms s) = st_mutations s"
  by (induction ms arbitrary: s) (simp_all add: upsert_membership_def)

lemma update_household_mutations:
  "update_household h f s = Inr s' \<Longrightarrow> st_mutations s' = st_mutations s"
  by (auto simp: update_household_def split: option.splits)

lemma refresh_household_frame: "same_records w (snd (refresh_household mo c w))"
  by (auto simp: refresh_household_def update_or_throw_def and_then_def same_records_def mutations_of_def
      refresh_members_def fold_upsert_mutations update_household_head_def
      dest: update_household_mutations split: sum.splits)

lemma framed_build: "callbacks_framed mo \<Longrightarrow> same_records w (snd (mo_build mo req now w))"
  and framed_apply: "callbacks_framed mo \<Longrightarrow> same_records w (snd (mo_apply mo c req now w))"
  and framed_response: "callbacks_framed mo \<Longrightarrow> mo_apply mo c req now w = (Inr resp, w') \<Longrightarrow> lookup resp fingerprint_field = None"
  by (auto simp: callbacks_framed_def) (metis fst_conv)

section \<open>The section keeps the records of other keys and the repository it does not commit to\<close>

lemma keeps_owns_frame: "(\<And>w. same_records w (snd (m w))) \<Longrightarrow> keeps (owns k req base) m"
  by (auto simp: keeps_def intro: owns_same_records)

lemma keeps_repos_frame: "(\<And>w. same_records w (snd (m w))) \<Longrightarrow> keeps (\<lambda>w. w_repos w = R) m"
  by (auto simp: keeps_def same_records_def)

lemmas frame_rules = keeps_owns_frame keeps_repos_frame

lemma keeps_project:
  assumes "callbacks_framed mo"
  shows "keeps (owns k req base) (project mo c req now at)" "keeps (\<lambda>w. w_repos w = R) (project mo c req now at)"
  unfolding project_def
  by (intro keeps_intros keeps_owns_transition keeps_repos_transition frame_rules
      framed_apply [OF assms] refresh_household_frame)+

lemma keeps_finish:
  assumes "callbacks_framed mo"
  shows "keeps (owns k req base) (finish mo c req now at)" "keeps (\<lambda>w. w_repos w = R) (finish mo c req now at)"
  unfolding finish_def reconcile_def
  by (intro keeps_intros keeps_owns_transition keeps_repos_transition keeps_project assms)+

lemma keeps_fail:
  "keeps (owns k req base) (fail_before_commit req at e)" "keeps (\<lambda>w. w_repos w = R) (fail_before_commit req at e)"
  unfolding fail_before_commit_def by (intro keeps_intros keeps_owns_transition keeps_repos_transition)+

lemma commit_changes_mutations: "mutations_of (snd (commit_changes C mo head changes req now w)) = mutations_of w"
  by (auto simp: commit_changes_def mutations_of_def split: sum.split prod.split)

lemma owns_mutations_cong: "mutations_of w = mutations_of w' \<Longrightarrow> owns k req base w = owns k req base w'"
  by (auto simp: owns_def mutations_of_def cong: mutations_ok_cong)

lemma keeps_owns_commit_changes: "keeps (owns k req base) (commit_changes C mo head changes req now)"
  by (auto simp: keeps_def owns_mutations_cong [OF commit_changes_mutations])

lemma keeps_prepare_commit:
  assumes "callbacks_framed mo"
  shows "keeps (owns k req base) (prepare_commit C mo req now)"
  unfolding prepare_commit_def
  by (intro keeps_intros keeps_owns_commit_changes keeps_owns_frame framed_build [OF assms])

lemma keeps_commit_or_fail:
  assumes "callbacks_framed mo"
  shows "keeps (owns k req base) (commit_or_fail C mo req now at)"
  unfolding keeps_def commit_or_fail_def
proof (intro allI impI)
  fix w assume "owns k req base w"
  then have "owns k req base (snd (prepare_commit C mo req now w))"
    by (rule keepsD [OF keeps_prepare_commit [OF assms]])
  then show "owns k req base (snd (case prepare_commit C mo req now w of
      (Inl e, w') \<Rightarrow> fail_before_commit req at e w' | (Inr c, w') \<Rightarrow> finish mo c req now at w'))"
    by (auto split: prod.split sum.split intro: keepsD [OF keeps_fail(1)] keepsD [OF keeps_finish(1) [OF assms]])
qed

lemma run_locked_owns:
  assumes "callbacks_framed mo" "mutations_ok (w_store w)" "lookup (mutations_of w) (request_key mo) = Some r"
  shows "owns (request_key mo) (mu_request r) w (snd (run_locked C mo at w))"
proof -
  have here: "owns (request_key mo) (mu_request r) w w" using assms by (auto simp: owns_def)
  have "keeps (owns (request_key mo) (mu_request r) w)
      (bind_action (transition (mu_request r) Locked no_update (at 0)) (\<lambda>_.
       bind_action (lift_result (known_commit mo r)) (\<lambda>known.
       case known of
         Some c \<Rightarrow> finish mo c (mu_request r) (mu_created r) at
       | None \<Rightarrow> commit_or_fail C mo (mu_request r) (mu_created r) at)))"
    by (intro keeps_intros keeps_owns_transition keeps_finish keeps_commit_or_fail assms)
  from keepsD [OF this here] here show ?thesis
    using assms(3) by (auto simp: run_locked_def existing_mutation_lookup split: sum.split option.split)
qed

section \<open>Outcomes\<close>

lemma lookup_stamped:
  "lookup (mutations_of (stamped k st u now w)) k = map_option (apply_update st u now) (lookup (mutations_of w) k)"
  by (simp add: lookup_adjust)

definition has_commit :: "user_id \<times> tool_name \<times> string \<Rightarrow> git_object_id \<Rightarrow> world \<Rightarrow> bool" where
  "has_commit k c w \<longleftrightarrow> (\<exists>r. lookup (mutations_of w) k = Some r \<and> mu_commit r = Some c)"

definition completed_with ::
  "mutation_options \<Rightarrow> user_id \<times> tool_name \<times> string \<Rightarrow> mutation_result \<Rightarrow> world \<Rightarrow> bool" where
  "completed_with mo k res w \<longleftrightarrow> (\<exists>r. lookup (mutations_of w) k = Some r \<and> mu_state r = Completed \<and>
     mu_commit r = Some (res_head res) \<and> mu_request r = res_request res \<and>
     mu_response r = Some (stored_response mo (res_data res))) \<and> lookup (res_data res) fingerprint_field = None"

lemma has_commit_stamped:
  "has_commit k c w \<Longrightarrow> up_commit u = None \<Longrightarrow> has_commit k c (stamped k st u now w)"
  by (auto simp: has_commit_def lookup_stamped apply_update_def simp del: stamped_simps)

lemma has_commit_same: "same_records w w' \<Longrightarrow> has_commit k c w \<Longrightarrow> has_commit k c w'"
  by (simp add: has_commit_def same_records_def)

lemma project_cases:
  assumes f: "callbacks_framed mo" and o: "owns k req base w" and c: "has_commit k c w"
  obtains (threw) e w' where "project mo c req now at w = (Inl e, w')" "owns k req base w'" "has_commit k c w'"
  | (completed) res w' where "project mo c req now at w = (Inr (OutCompleted res), w')" "owns k req base w'"
      "res_head res = c" "completed_with mo k res w'"
proof -
  obtain ra w1 where a: "mo_apply mo c req now w = (ra, w1)" by (cases "mo_apply mo c req now w")
  have s1: "same_records w w1" using framed_apply [OF f, of w c req now] a by simp
  have o1: "owns k req base w1" and c1: "has_commit k c w1"
    using owns_same_records [OF s1 o] has_commit_same [OF s1 c] by simp_all
  show thesis
  proof (cases ra)
    case (Inl e)
    then show thesis using a o1 c1 by (intro threw [of e w1]) (simp_all add: project_def effect_simps)
  next
    case (Inr resp)
    obtain rb w2 where b: "refresh_household mo c w1 = (rb, w2)" by (cases "refresh_household mo c w1")
    have s2: "same_records w1 w2" using refresh_household_frame [of w1 mo c] b by simp
    have o2: "owns k req base w2" and c2: "has_commit k c w2"
      using owns_same_records [OF s2 o1] has_commit_same [OF s2 c1] by simp_all
    show thesis
    proof (cases rb)
      case (Inl e)
      then show thesis using a b \<open>ra = Inr resp\<close> o2 c2
        by (intro threw [of e w2]) (simp_all add: project_def effect_simps)
    next
      case (Inr u)
      let ?u = "no_update\<lparr>up_response := Some (stored_response mo resp)\<rparr>"
      let ?w3 = "stamped k ProjectionsApplied ?u (at 2) w2"
      let ?w4 = "stamped k Completed ?u (at 3) ?w3"
      let ?res = "\<lparr>res_data = resp, res_head = c, res_request = req\<rparr>"
      have o3: "owns k req base ?w3" by (rule owns_stamped [OF o2])
      have o4: "owns k req base ?w4" by (rule owns_stamped [OF o3])
      have run: "project mo c req now at w = (Inr (OutCompleted ?res), ?w4)"
        using a b Inr \<open>ra = Inr resp\<close>
        by (simp add: project_def effect_simps transition_eq [OF o2] transition_eq [OF o3])
      obtain r where "lookup (mutations_of w2) k = Some r" "mu_request r = req" "mu_commit r = Some c"
        using o2 c2 by (auto simp: owns_def has_commit_def)
      then have "completed_with mo k ?res ?w4"
        using framed_response [OF f, of c req now w resp w1] a \<open>ra = Inr resp\<close>
        by (simp add: completed_with_def lookup_adjust apply_update_def no_update_def)
      then show thesis using run o4 by (intro completed [of ?res ?w4]) simp_all
    qed
  qed
qed

definition settled :: "mutation_options \<Rightarrow> user_id \<times> tool_name \<times> string \<Rightarrow> git_object_id \<Rightarrow> mutation_outcome \<Rightarrow> world \<Rightarrow> bool" where
  "settled mo k c oc w = (case oc of
       OutCompleted res \<Rightarrow> res_head res = c \<and> completed_with mo k res w
     | OutFailed e \<Rightarrow> e = AppError RECONCILIATION_REQUIRED True \<and> has_commit k c w \<and>
         (\<exists>r. lookup (mutations_of w) k = Some r \<and> mu_state r = ReconciliationRequired))"

lemma finish_settled:
  assumes f: "callbacks_framed mo" and o: "owns k req base w"
  obtains oc w' where "finish mo c req now at w = (Inr oc, w')" "settled mo k c oc w'"
proof -
  let ?w1 = "stamped k GitCommitted (no_update\<lparr>up_commit := Some c\<rparr>) (at 1) w"
  have o1: "owns k req base ?w1" by (rule owns_stamped [OF o])
  have c1: "has_commit k c ?w1"
    using o by (auto simp: has_commit_def owns_def lookup_adjust apply_update_def)
  show thesis
  proof (cases rule: project_cases [OF f o1 c1, of now "at", case_names threw completed])
    case (threw e w')
    let ?w2 = "stamped k ReconciliationRequired (no_update\<lparr>up_failure := Some (error_name e)\<rparr>) (at 4) w'"
    have "finish mo c req now at w = (Inr (OutFailed (AppError RECONCILIATION_REQUIRED True)), ?w2)"
      using threw by (simp add: finish_def try_catch_def effect_simps transition_eq [OF o] reconcile_def
          transition_eq [OF threw(2)])
    moreover have "settled mo k c (OutFailed (AppError RECONCILIATION_REQUIRED True)) ?w2"
      using threw(2,3) by (auto simp: settled_def has_commit_def lookup_adjust apply_update_def no_update_def owns_def)
    ultimately show thesis by (rule that)
  next
    case (completed res w')
    then show thesis
      by (intro that [of "OutCompleted res" w'])
        (simp_all add: finish_def try_catch_def effect_simps transition_eq [OF o] settled_def)
  qed
qed

text \<open>\<open>commits_for\<close> is the one way the repository of a request can change: one new commit, made against
  the head that the request was authorised for, under the request id of its record.\<close>

definition commits_for :: "codec \<Rightarrow> mutation_options \<Rightarrow> request_id \<Rightarrow> time \<Rightarrow> world \<Rightarrow> git_object_id \<Rightarrow> repositories \<Rightarrow> bool" where
  "commits_for C mo req now w g rs \<longleftrightarrow> (\<exists>head changes.
     repository_head (mo_household mo) (w_repos w) = Inr head \<and> check_authority mo w head = Inr () \<and>
     (mo_append mo \<longrightarrow> (\<exists>c. changes = [c] \<and> ch_append_only c)) \<and>
     commit C (mo_household mo) head changes (metadata_of mo req now) (w_repos w) = Inr (g, rs))"

lemma prepare_commit_cases:
  assumes f: "callbacks_framed mo"
  obtains (refused) e w' where "prepare_commit C mo req now w = (Inl e, w')" "w_repos w' = w_repos w"
  | (made) g w' where "prepare_commit C mo req now w = (Inr g, w')" "commits_for C mo req now w g (w_repos w')"
proof (cases "repository_head (mo_household mo) (w_repos w)")
  case (Inl e)
  then show thesis by (intro refused [of e w]) (simp_all add: prepare_commit_def effect_simps)
next
  case head: (Inr head)
  show thesis
  proof (cases "check_authority mo w head")
    case (Inl e)
    with head show thesis by (intro refused [of e w]) (simp_all add: prepare_commit_def effect_simps)
  next
    case auth: (Inr u)
    obtain rb w1 where b: "mo_build mo req now w = (rb, w1)" by (cases "mo_build mo req now w")
    have repos: "w_repos w1 = w_repos w" using framed_build [OF f, of w req now] b by (simp add: same_records_def)
    show thesis
    proof (cases rb)
      case (Inl e)
      with head auth b repos show thesis by (intro refused [of e w1]) (simp_all add: prepare_commit_def effect_simps)
    next
      case changes: (Inr changes)
      have step: "prepare_commit C mo req now w = commit_changes C mo head changes req now w1"
        using head auth b changes by (simp add: prepare_commit_def effect_simps)
      show thesis
      proof (cases "commit_changes C mo head changes req now w1")
        case (Pair r w2)
        show thesis
        proof (cases r)
          case (Inl e)
          with Pair step repos show thesis
            by (intro refused [of e w2]) (auto simp: commit_changes_def split: if_splits sum.splits prod.splits)
        next
          case (Inr g)
          with Pair step repos head auth show thesis
            by (intro made [of g w2])
              (auto simp: commit_changes_def commits_for_def split: if_splits sum.splits prod.splits list.splits)
        qed
      qed
    qed
  qed
qed

definition same_authority :: "mutation_options \<Rightarrow> world \<Rightarrow> world \<Rightarrow> bool" where
  "same_authority mo w w' \<longleftrightarrow> w_repos w' = w_repos w \<and> (\<forall>head. check_authority mo w' head = check_authority mo w head)"

lemma same_authority_stamped: "same_authority mo w (stamped k st u now w)"
  by (auto simp: same_authority_def check_authority_def stamped_def require_membership_def get_membership_def
      get_household_def split: option.split)

lemma commits_for_same: "same_authority mo w w' \<Longrightarrow> commits_for C mo req now w' g rs = commits_for C mo req now w g rs"
  by (simp add: commits_for_def same_authority_def)

lemma run_locked_cases:
  assumes f: "callbacks_framed mo" and ok: "mutations_ok (w_store w)"
    and look: "lookup (mutations_of w) (request_key mo) = Some r"
  obtains (rejected) e where "replay mo (Some r) = Inl e" "run_locked C mo at w = (Inl e, w)"
  | (replayed) res where "replay mo (Some r) = Inr (Some res)" "run_locked C mo at w = (Inr (OutCompleted res), w)"
  | (no_repository) e w' where "replay mo (Some r) = Inr None" "run_locked C mo at w = (Inl e, w')"
      "known_commit mo r w = Inl e" "w_repos w' = w_repos w"
  | (failed) e w' where "replay mo (Some r) = Inr None" "run_locked C mo at w = (Inr (OutFailed e), w')"
      "known_commit mo r w = Inr None" "w_repos w' = w_repos w"
  | (resumed) c oc w' where "replay mo (Some r) = Inr None" "run_locked C mo at w = (Inr oc, w')"
      "known_commit mo r w = Inr (Some c)" "w_repos w' = w_repos w" "settled mo (request_key mo) c oc w'"
  | (committed) c oc w' where "replay mo (Some r) = Inr None" "run_locked C mo at w = (Inr oc, w')"
      "known_commit mo r w = Inr None" "commits_for C mo (mu_request r) (mu_created r) w c (w_repos w')"
      "settled mo (request_key mo) c oc w'"
proof -
  let ?k = "request_key mo" and ?req = "mu_request r" and ?now = "mu_created r"
  have o: "owns ?k ?req w w" using ok look by (auto simp: owns_def)
  let ?w1 = "stamped ?k Locked no_update (at 0) w"
  have o1: "owns ?k ?req w ?w1" by (rule owns_stamped [OF o])
  have known1: "known_commit mo r ?w1 = known_commit mo r w"
    by (simp add: known_commit_def split: option.split)
  show thesis
  proof (cases "replay mo (Some r)")
    case (Inl e)
    then show thesis by (intro rejected) (simp_all add: run_locked_def existing_mutation_lookup look)
  next
    case rep: (Inr ro)
    show thesis
    proof (cases ro)
      case (Some res)
      with rep show thesis by (intro replayed) (simp_all add: run_locked_def existing_mutation_lookup look)
    next
      case None
      then have rep': "replay mo (Some r) = Inr None" using rep by simp
      have step: "run_locked C mo at w = bind_action (lift_result (known_commit mo r)) (\<lambda>known.
          case known of Some c \<Rightarrow> finish mo c ?req ?now at | None \<Rightarrow> commit_or_fail C mo ?req ?now at) ?w1"
        using rep' by (simp add: run_locked_def existing_mutation_lookup look effect_simps transition_eq [OF o])
      consider (err) e where "known_commit mo r w = Inl e" | (known) c where "known_commit mo r w = Inr (Some c)"
        | (fresh) "known_commit mo r w = Inr None"
        by (metis sum.exhaust option.exhaust)
      then show thesis
      proof cases
        case err
        with step rep' known1 show thesis by (intro no_repository [of e ?w1]) (simp_all add: effect_simps)
      next
        case (known c)
        obtain oc w' where fin: "finish mo c ?req ?now at ?w1 = (Inr oc, w')" "settled mo ?k c oc w'"
          by (rule finish_settled [OF f o1])
        have "w_repos w' = w_repos ?w1" using keepsD [OF keeps_finish(2) [OF f] refl, of c ?req ?now "at" ?w1] fin by simp
        with step rep' known1 known fin show thesis by (intro resumed [of oc w' c]) (simp_all add: effect_simps)
      next
        case fresh
        have run: "run_locked C mo at w = commit_or_fail C mo ?req ?now at ?w1"
          using step known1 fresh by (simp add: effect_simps)
        show thesis
        proof (cases rule: prepare_commit_cases [OF f, of C ?req ?now ?w1, case_names refused made])
          case (refused e w2)
          have o2: "owns ?k ?req w w2"
            using keepsD [OF keeps_prepare_commit [OF f] o1, of C ?now] refused(1) by simp
          from run refused rep' fresh show thesis
            by (intro failed [of e "stamped ?k FailedBeforeCommit (no_update\<lparr>up_failure := Some (error_name e)\<rparr>) (at 1) w2"]) (simp_all add: commit_or_fail_def fail_before_commit_def effect_simps transition_eq [OF o2])
        next
          case (made c w2)
          have o2: "owns ?k ?req w w2"
            using keepsD [OF keeps_prepare_commit [OF f] o1, of C ?now] made(1) by simp
          obtain oc w' where fin: "finish mo c ?req ?now at w2 = (Inr oc, w')" "settled mo ?k c oc w'"
            by (rule finish_settled [OF f o2])
          have "w_repos w' = w_repos w2" using keepsD [OF keeps_finish(2) [OF f] refl, of c ?req ?now "at" w2] fin by simp
          with run made rep' fresh fin show thesis
            by (intro committed [of oc w' c]) (simp_all add: commit_or_fail_def commits_for_same [OF same_authority_stamped])
        qed
      qed
    qed
  qed
qed

section \<open>Refreshing the members of a household\<close>

lemma list_household_memberships_keys:
  assumes "memberships_ok s"
  shows "distinct (map (\<lambda>m. (m_household m, m_user m)) (list_household_memberships h s))"
proof -
  have "map (\<lambda>m. (m_household m, m_user m)) (vals (st_memberships s)) = map fst (st_memberships s)"
    using assms by (auto simp: memberships_ok_def)
  moreover have "distinct (map fst (st_memberships s))" using assms by (simp add: memberships_ok_def map_ok_def)
  ultimately have "distinct (map (\<lambda>m. (m_household m, m_user m)) (vals (st_memberships s)))" by (simp only:)
  then show ?thesis unfolding list_household_memberships_def by (rule distinct_map_filter)
qed

lemma refresh_members_memberships:
  "st_memberships (refresh_members h c s) =
     fold (\<lambda>m. put (m_household m, m_user m) (m\<lparr>m_head := c\<rparr>)) (list_household_memberships h s) (st_memberships s)"
proof -
  have "st_memberships (fold (\<lambda>m. upsert_membership (m\<lparr>m_head := c\<rparr>)) ms t) =
     fold (\<lambda>m. put (m_household m, m_user m) (m\<lparr>m_head := c\<rparr>)) ms (st_memberships t)" for ms t
    by (induction ms arbitrary: t) (simp_all add: upsert_membership_def)
  then show ?thesis by (simp add: refresh_members_def)
qed

lemma refresh_members_households: "st_households (refresh_members h c s) = st_households s"
proof -
  have "st_households (fold (\<lambda>m. upsert_membership (m\<lparr>m_head := c\<rparr>)) ms t) = st_households t" for ms t
    by (induction ms arbitrary: t) (simp_all add: upsert_membership_def)
  then show ?thesis by (simp add: refresh_members_def)
qed

lemma get_membership_refresh:
  assumes "memberships_ok s"
  shows "get_membership h u (refresh_members h c s) = map_option (\<lambda>m. m\<lparr>m_head := c\<rparr>) (get_membership h u s)"
proof -
  let ?find = "List.find (\<lambda>m. (m_household m, m_user m) = (h, u)) (list_household_memberships h s)"
  have look: "lookup (st_memberships (refresh_members h c s)) (h, u) =
      (case ?find of Some m \<Rightarrow> Some (m\<lparr>m_head := c\<rparr>) | None \<Rightarrow> lookup (st_memberships s) (h, u))"
    unfolding refresh_members_memberships
    by (rule lookup_fold_put [OF list_household_memberships_keys [OF assms]])
  have mem: "get_membership h u s = Some m" if "m \<in> set (list_household_memberships h s)" "m_user m = u" for m
  proof -
    from that obtain k where "(k, m) \<in> set (st_memberships s)" "m_household m = h" "m_removed m = None"
      by (auto simp: list_household_memberships_def)
    moreover from this assms that(2) have "k = (h, u)" by (auto simp: memberships_ok_def)
    ultimately show ?thesis
      using assms by (simp add: memberships_ok_def get_membership_def lookup_in_set [symmetric])
  qed
  have mem': "m \<in> set (list_household_memberships h s) \<and> m_user m = u" if "get_membership h u s = Some m" for m
  proof -
    from that have "((h, u), m) \<in> set (st_memberships s)" "m_removed m = None"
      using assms by (auto simp: memberships_ok_def get_membership_def dest: map_of_SomeD split: option.splits if_splits)
    moreover from this(1) assms have "m_household m = h" "m_user m = u" by (auto simp: memberships_ok_def)
    ultimately show ?thesis by (force simp: list_household_memberships_def)
  qed
  have hh: "m \<in> set (list_household_memberships h s) \<Longrightarrow> m_household m = h \<and> m_removed m = None" for m
    by (simp add: list_household_memberships_def)
  show ?thesis
  proof (cases ?find)
    case None
    then have "get_membership h u s = None"
      using mem' hh by (cases "get_membership h u s") (fastforce simp: find_None_iff)+
    moreover have "get_membership h u (refresh_members h c s) = get_membership h u s"
      using look None by (simp add: get_membership_def)
    ultimately show ?thesis by simp
  next
    case (Some m)
    then have "m \<in> set (list_household_memberships h s) \<and> m_user m = u"
      by (auto dest!: find_Some_iff)
    then have "get_membership h u s = Some m" "m_removed m = None" using mem hh by blast+
    with look Some show ?thesis by (simp add: get_membership_def)
  qed
qed

end
