(* ===== verification/MutationCalls.thy ===== *)
theory MutationCalls
  imports MutationRunner
begin

text \<open>
  Concurrent calls of the mutation runner.  A call looks its request up, saves the receipt when it
  saw none, waits for the lock of its household and runs the locked section; between these points
  any other call may run, so two calls may both see no receipt.  The locked section of one household
  is one step: the lock admits one call at a time.
\<close>

section \<open>Steps\<close>

datatype phase = Arrived | Saw "mutation_record option" | Waiting | Returned "failure + mutation_result"

record call_system =
  sy_world :: world
  sy_calls :: "(mutation_options \<times> phase) list"

definition after_look_up :: "failure + (mutation_record option \<times> mutation_result option) \<Rightarrow> phase" where
  "after_look_up r = (case r of
       Inl e \<Rightarrow> Returned (Inl e)
     | Inr (existing, Some res) \<Rightarrow> Returned (Inr res)
     | Inr (existing, None) \<Rightarrow> Saw existing)"

definition outcome_result :: "failure + mutation_outcome \<Rightarrow> failure + mutation_result" where
  "outcome_result r = and_then r (\<lambda>oc. case oc of OutCompleted res \<Rightarrow> Inr res | OutFailed e \<Rightarrow> Inl e)"

definition request_ids :: "world \<Rightarrow> request_id set" where
  "request_ids w = set (map mu_request (vals (mutations_of w)))"

inductive call_step :: "codec \<Rightarrow> call_system \<Rightarrow> call_system \<Rightarrow> bool" for C where
  look: "i < length (sy_calls s) \<Longrightarrow> sy_calls s ! i = (mo, Arrived) \<Longrightarrow>
    look_up_request mo (sy_world s) = (res, w) \<Longrightarrow>
    call_step C s \<lparr>sy_world = w, sy_calls = (sy_calls s)[i := (mo, after_look_up res)]\<rparr>"
| record_receipt: "i < length (sy_calls s) \<Longrightarrow> sy_calls s ! i = (mo, Saw existing) \<Longrightarrow>
    fresh \<notin> request_ids (sy_world s) \<Longrightarrow>
    receive mo existing fresh now (sy_world s) = (res, w) \<Longrightarrow>
    call_step C s \<lparr>sy_world = w, sy_calls = (sy_calls s)[i := (mo, Waiting)]\<rparr>"
| locked: "i < length (sy_calls s) \<Longrightarrow> sy_calls s ! i = (mo, Waiting) \<Longrightarrow>
    run_locked C mo at (sy_world s) = (res, w) \<Longrightarrow>
    call_step C s \<lparr>sy_world = w, sy_calls = (sy_calls s)[i := (mo, Returned (outcome_result res))]\<rparr>"

inductive_cases call_stepE: "call_step C s t"

inductive reachable :: "codec \<Rightarrow> call_system \<Rightarrow> call_system \<Rightarrow> bool" for C s where
  start: "reachable C s s"
| step: "reachable C s t \<Longrightarrow> call_step C t u \<Longrightarrow> reachable C s u"

section \<open>Invariant\<close>

definition commit_requests :: "repository \<Rightarrow> request_id list" where
  "commit_requests r = map (\<lambda>c. cm_request (ce_metadata c)) (git_commits r)"

definition repos_ok :: "repositories \<Rightarrow> bool" where
  "repos_ok rs \<longleftrightarrow> map_ok rs \<and> (\<forall>(h, r)\<in>set rs. distinct (commit_requests r))"

definition world_ok :: "world \<Rightarrow> bool" where
  "world_ok w \<longleftrightarrow> mutations_ok (w_store w) \<and> repos_ok (w_repos w)"

fun phase_ok :: "world \<Rightarrow> mutation_options \<times> phase \<Rightarrow> bool" where
  "phase_ok w (mo, Arrived) = True"
| "phase_ok w (mo, Saw None) = True"
| "phase_ok w (mo, Saw (Some r)) = (lookup (mutations_of w) (request_key mo) \<noteq> None)"
| "phase_ok w (mo, Waiting) = (lookup (mutations_of w) (request_key mo) \<noteq> None)"
| "phase_ok w (mo, Returned (Inl e)) = True"
| "phase_ok w (mo, Returned (Inr res)) =
     (\<exists>r. lookup (mutations_of w) (request_key mo) = Some r \<and> replay mo (Some r) = Inr (Some res))"

definition system_ok :: "call_system \<Rightarrow> bool" where
  "system_ok s \<longleftrightarrow> world_ok (sy_world s) \<and>
     (\<forall>c\<in>set (sy_calls s). callbacks_framed (fst c) \<and> phase_ok (sy_world s) c)"

definition initial_system :: "call_system \<Rightarrow> bool" where
  "initial_system s \<longleftrightarrow> world_ok (sy_world s) \<and>
     (\<forall>c\<in>set (sy_calls s). callbacks_framed (fst c) \<and> snd c = Arrived)"

lemma initial_ok: "initial_system s \<Longrightarrow> system_ok s"
  by (auto simp: initial_system_def system_ok_def split: prod.splits)

section \<open>Completed records are final\<close>

definition sealed :: "mutation_record \<Rightarrow> bool" where
  "sealed r \<longleftrightarrow> mu_state r = Completed \<and> mu_response r \<noteq> None \<and> mu_commit r \<noteq> None"

lemma replay_Some_sealed: "replay mo (Some r) = Inr (Some res) \<Longrightarrow> sealed r"
  by (auto simp: replay_def sealed_def split: if_splits mutation_state.splits option.splits)

lemma sealed_replay: "sealed r \<Longrightarrow> replay mo (Some r) \<noteq> Inr None"
  by (auto simp: replay_def sealed_def)

lemma run_locked_sealed:
  assumes "lookup (mutations_of w) (request_key mo) = Some r" "sealed r"
  shows "snd (run_locked C mo at w) = w"
  using assms sealed_replay [OF assms(2), of mo]
  by (auto simp: run_locked_def existing_mutation_lookup split: sum.split option.split)

text \<open>What a step may do to the records: no key disappears and no sealed record changes.\<close>

definition records_grow :: "world \<Rightarrow> world \<Rightarrow> bool" where
  "records_grow w w' \<longleftrightarrow> (\<forall>k r. lookup (mutations_of w) k = Some r \<longrightarrow>
     lookup (mutations_of w') k \<noteq> None \<and> (sealed r \<longrightarrow> lookup (mutations_of w') k = Some r))"

lemma records_growD:
  "records_grow w w' \<Longrightarrow> lookup (mutations_of w) k = Some r \<Longrightarrow> \<exists>r'. lookup (mutations_of w') k = Some r'"
  "records_grow w w' \<Longrightarrow> lookup (mutations_of w) k = Some r \<Longrightarrow> sealed r \<Longrightarrow> lookup (mutations_of w') k = Some r"
  unfolding records_grow_def by blast+

lemma phase_ok_grow:
  assumes g: "records_grow w w'" and ok: "phase_ok w c"
  shows "phase_ok w' c"
proof -
  obtain mo ph where c: "c = (mo, ph)" by (cases c)
  note grow = records_growD [OF g, of "request_key mo"]
  show ?thesis
  proof (cases ph)
    case (Saw ex)
    then show ?thesis using ok c grow(1) by (cases ex) auto
  next
    case Waiting
    then show ?thesis using ok c grow(1) by auto
  next
    case (Returned res)
    then show ?thesis using ok c grow(2) replay_Some_sealed by (cases res) fastforce+
  qed (simp add: c)
qed

lemma run_locked_grow:
  assumes "callbacks_framed mo" "mutations_ok (w_store w)" "lookup (mutations_of w) (request_key mo) \<noteq> None"
  shows "records_grow w (snd (run_locked C mo at w))"
proof -
  from assms(3) obtain r where r: "lookup (mutations_of w) (request_key mo) = Some r" by auto
  have o: "owns (request_key mo) (mu_request r) w (snd (run_locked C mo at w))"
    by (rule run_locked_owns [OF assms(1,2) r])
  show ?thesis
  proof (cases "sealed r")
    case True
    then show ?thesis by (simp add: run_locked_sealed [OF r] records_grow_def)
  next
    case False
    then show ?thesis using o r unfolding records_grow_def owns_def by (metis option.sel option.distinct(1))
  qed
qed

lemma receive_eq:
  "receive mo existing fresh now w =
     (Inr (), if existing = None then w\<lparr>w_store := save_mutation (new_record mo fresh now) (w_store w)\<rparr> else w)"
  by (simp add: receive_def writes_def)

lemma new_record_key: "mutation_key (new_record mo fresh now) = request_key mo" "mu_request (new_record mo fresh now) = fresh"
  by (simp_all add: mutation_key_def new_record_def request_key_def)

lemma receive_grow: "records_grow w (snd (receive mo existing fresh now w))"
  by (auto simp: receive_eq records_grow_def mutations_of_def save_mutation_def)

lemma receive_present:
  "existing = None \<or> lookup (mutations_of w) (request_key mo) \<noteq> None \<Longrightarrow>
     lookup (mutations_of (snd (receive mo existing fresh now w))) (request_key mo) \<noteq> None"
  by (auto simp: receive_eq mutations_of_def save_mutation_def new_record_key)

section \<open>The world stays well formed\<close>

lemma receive_world_ok:
  assumes "world_ok w" "fresh \<notin> request_ids w"
  shows "world_ok (snd (receive mo existing fresh now w))"
  using assms by (auto simp: receive_eq world_ok_def request_ids_def mutations_of_def new_record_key
      intro!: mutations_ok_save)

lemma commits_for_repos_ok:
  assumes ok: "repos_ok (w_repos w)" and c: "commits_for C mo req now w g rs"
    and fresh: "find_commit_by_request_id (mo_household mo) req (w_repos w) = Inr None"
  shows "repos_ok rs"
proof -
  from c obtain head cs where "commit C (mo_household mo) head cs (metadata_of mo req now) (w_repos w) = Inr (g, rs)"
    by (auto simp: commits_for_def)
  then obtain r where r: "lookup (w_repos w) (mo_household mo) = Some r"
    and rs: "rs = put (mo_household mo) (committed C head cs (metadata_of mo req now) r) (w_repos w)"
    by (rule commit_Inr)
  have "req \<notin> set (commit_requests r)"
    using fresh r by (auto simp: find_commit_by_request_id_def get_repository_def find_None_iff commit_requests_def)
  moreover have "distinct (commit_requests r)"
    using ok r by (auto simp: repos_ok_def dest!: map_of_SomeD)
  ultimately have "distinct (commit_requests (committed C head cs (metadata_of mo req now) r))"
    by (simp add: commit_requests_def committed_simps metadata_of_def)
  then show ?thesis using ok set_put_subset [of "mo_household mo" _ "w_repos w"] unfolding repos_ok_def rs by fastforce
qed

lemma run_locked_world_ok:
  assumes "callbacks_framed mo" "world_ok w" "lookup (mutations_of w) (request_key mo) = Some r"
  shows "world_ok (snd (run_locked C mo at w))"
proof -
  have ok: "mutations_ok (w_store w)" "repos_ok (w_repos w)" using assms(2) by (auto simp: world_ok_def)
  have "mutations_ok (w_store (snd (run_locked C mo at w)))"
    using run_locked_owns [OF assms(1) ok(1) assms(3)] by (simp add: owns_def)
  moreover have "repos_ok (w_repos (snd (run_locked C mo at w)))"
  proof (cases rule: run_locked_cases [OF assms(1) ok(1) assms(3), of C "at",
        case_names rejected replayed no_repository failed resumed committed])
    case (committed c oc w')
    then have "find_commit_by_request_id (mo_household mo) (mu_request r) (w_repos w) = Inr None"
      by (auto simp: known_commit_def split: option.splits)
    with commits_for_repos_ok [OF ok(2)] committed show ?thesis by simp
  qed (use ok(2) in simp_all)
  ultimately show ?thesis by (simp add: world_ok_def)
qed

lemma completed_with_replay:
  assumes "completed_with mo (request_key mo) res w"
  shows "\<exists>r. lookup (mutations_of w) (request_key mo) = Some r \<and> replay mo (Some r) = Inr (Some res)"
proof -
  from assms obtain r where r: "lookup (mutations_of w) (request_key mo) = Some r" "mu_state r = Completed"
      "mu_commit r = Some (res_head res)" "mu_request r = res_request res"
      "mu_response r = Some (stored_response mo (res_data res))"
    and absent: "lookup (res_data res) fingerprint_field = None"
    by (auto simp: completed_with_def)
  have "recorded_fingerprint r = None \<or> recorded_fingerprint r = Some (mo_fingerprint mo)"
    using r(5) absent by (simp add: recorded_fingerprint_def stored_response_def)
  with r absent have "replay mo (Some r) = Inr (Some res)"
    by (auto simp: replay_def stored_response_def drop_put_absent split: option.split)
  with r(1) show ?thesis by blast
qed

section \<open>The invariant is kept by every step\<close>

lemma locked_phase_ok:
  assumes f: "callbacks_framed mo" and ok: "mutations_ok (w_store w)"
    and r: "lookup (mutations_of w) (request_key mo) = Some r"
  shows "phase_ok (snd (run_locked C mo at w)) (mo, Returned (outcome_result (fst (run_locked C mo at w))))"
proof (cases rule: run_locked_cases [OF f ok r, of C "at",
      case_names rejected replayed no_repository failed resumed committed])
  case (replayed res)
  with r show ?thesis by (simp add: outcome_result_def)
next
  case (resumed c oc w')
  then show ?thesis
    using completed_with_replay by (cases oc) (simp_all add: outcome_result_def settled_def)
next
  case (committed c oc w')
  then show ?thesis
    using completed_with_replay by (cases oc) (simp_all add: outcome_result_def settled_def)
qed (simp_all add: outcome_result_def)

lemma system_ok_update:
  assumes ok: "system_ok s" and i: "i < length (sy_calls s)" "sy_calls s ! i = (mo, ph)"
    and w: "world_ok w" "records_grow (sy_world s) w" and ph': "phase_ok w (mo, ph')"
  shows "system_ok \<lparr>sy_world = w, sy_calls = (sy_calls s)[i := (mo, ph')]\<rparr>"
proof -
  have "callbacks_framed mo" using ok i nth_mem [OF i(1)] by (auto simp: system_ok_def)
  moreover have "phase_ok w c" if "c \<in> set (sy_calls s)" for c
    using phase_ok_grow [OF w(2)] ok that by (simp add: system_ok_def)
  ultimately show ?thesis
    using ok w(1) ph' set_update_subset_insert [of "sy_calls s" i "(mo, ph')"]
    by (fastforce simp: system_ok_def)
qed

lemma look_up_request_world: "look_up_request mo w = (res, w') \<Longrightarrow> w' = w"
  by (auto simp: look_up_request_def bind_action_def lift_result_def split: sum.splits)

lemma look_up_phase_ok:
  assumes "look_up_request mo w = (res, w')"
  shows "phase_ok w (mo, after_look_up res)"
proof (cases res)
  case (Inr p)
  obtain ex out where p: "p = (ex, out)" by (cases p)
  from assms Inr p have ex: "ex = existing_mutation mo w" and out: "replay mo ex = Inr out"
    by (auto simp: look_up_request_def bind_action_def lift_result_def Let_def and_then_Inr_iff split: sum.splits)
  show ?thesis
  proof (cases out)
    case None
    show ?thesis
    proof (cases ex)
      case Some': (Some r)
      have "lookup (mutations_of w) (request_key mo) = Some r"
        using ex Some' by (simp add: existing_mutation_lookup)
      then show ?thesis using Inr p None Some' by (simp add: after_look_up_def)
    qed (simp add: Inr p None after_look_up_def)
  next
    case (Some res')
    from out Some obtain r where r: "ex = Some r" by (cases ex) (simp_all add: replay_def)
    then have "lookup (mutations_of w) (request_key mo) = Some r" using ex by (simp add: existing_mutation_lookup)
    then show ?thesis using Some Inr p out r by (simp add: after_look_up_def)
  qed
qed (simp add: after_look_up_def)

lemma call_step_ok:
  assumes "call_step C s t" "system_ok s"
  shows "system_ok t"
  using assms(1)
proof cases
  case (look i mo res w)
  have w: "w = sy_world s" by (rule look_up_request_world [OF look(4)])
  show ?thesis unfolding look(1)
    by (rule system_ok_update [OF assms(2) look(2,3)])
      (use assms(2) look_up_phase_ok [OF look(4)] in \<open>simp_all add: w system_ok_def records_grow_def\<close>)
next
  case (record_receipt i mo existing fresh now res w)
  have mem: "callbacks_framed mo" "phase_ok (sy_world s) (mo, Saw existing)" and ok: "world_ok (sy_world s)"
    using assms(2) nth_mem [OF record_receipt(2)] record_receipt(3) by (auto simp: system_ok_def)
  have w: "w = snd (receive mo existing fresh now (sy_world s))" using record_receipt(5) by simp
  have "existing = None \<or> lookup (mutations_of (sy_world s)) (request_key mo) \<noteq> None"
    using mem(2) by (cases existing) auto
  then have "phase_ok w (mo, Waiting)" using receive_present [of existing "sy_world s" mo fresh now] by (simp add: w)
  moreover have "world_ok w" unfolding w by (rule receive_world_ok [OF ok record_receipt(4)])
  moreover have "records_grow (sy_world s) w" unfolding w by (rule receive_grow)
  ultimately show ?thesis
    unfolding record_receipt(1) by (intro system_ok_update [OF assms(2) record_receipt(2,3)])
next
  case (locked i mo "at" res w)
  have mem: "callbacks_framed mo" "lookup (mutations_of (sy_world s)) (request_key mo) \<noteq> None" and ok: "world_ok (sy_world s)"
    using assms(2) nth_mem [OF locked(2)] locked(3) by (auto simp: system_ok_def)
  then obtain r where r: "lookup (mutations_of (sy_world s)) (request_key mo) = Some r" by auto
  have m: "mutations_ok (w_store (sy_world s))" using ok by (simp add: world_ok_def)
  have w: "w = snd (run_locked C mo at (sy_world s))" "res = fst (run_locked C mo at (sy_world s))"
    using locked(4) by simp_all
  have "world_ok w" unfolding w by (rule run_locked_world_ok [OF mem(1) ok r])
  moreover have "records_grow (sy_world s) w" unfolding w by (rule run_locked_grow [OF mem(1) m mem(2)])
  moreover have "phase_ok w (mo, Returned (outcome_result res))"
    unfolding w by (rule locked_phase_ok [OF mem(1) m r])
  ultimately show ?thesis
    unfolding locked(1) by (intro system_ok_update [OF assms(2) locked(2,3)])
qed

lemma reachable_ok: "reachable C s t \<Longrightarrow> system_ok s \<Longrightarrow> system_ok t"
  by (induction rule: reachable.induct) (auto intro: call_step_ok)

section \<open>Cases of a whole call\<close>

lemma settle_locked:
  "bind_action (run_locked C mo at) settle w = (outcome_result (fst (run_locked C mo at w)), snd (run_locked C mo at w))"
  by (auto simp: bind_action_def settle_def outcome_result_def return_def throw_def
      split: prod.split sum.split mutation_outcome.split)

lemma run_cases:
  obtains (forbidden) "mo_scope mo \<notin> set (p_scopes (mo_principal mo))" "run C mo at fresh now w = (Inl (app_error FORBIDDEN), w)"
  | (refused) e where "replay mo (existing_mutation mo w) = Inl e" "run C mo at fresh now w = (Inl e, w)"
  | (answered) res where "replay mo (existing_mutation mo w) = Inr (Some res)" "run C mo at fresh now w = (Inr res, w)"
  | (ran) w1 where "mo_scope mo \<in> set (p_scopes (mo_principal mo))"
      "w1 = snd (receive mo (existing_mutation mo w) fresh now w)"
      "run C mo at fresh now w = (outcome_result (fst (run_locked C mo at w1)), snd (run_locked C mo at w1))"
proof (cases "mo_scope mo \<in> set (p_scopes (mo_principal mo))")
  case False
  then show thesis
    by (intro forbidden) (simp_all add: run_def look_up_request_def require_scope_def bind_action_def lift_result_def)
next
  case scope: True
  have look: "look_up_request mo w = (and_then (replay mo (existing_mutation mo w)) (\<lambda>r. Inr (existing_mutation mo w, r)), w)"
    using scope by (simp add: look_up_request_def require_scope_def bind_action_def lift_result_def Let_def)
  show thesis
  proof (cases "replay mo (existing_mutation mo w)")
    case (Inl e)
    with look show thesis by (intro refused [of e]) (simp_all add: run_def bind_action_def)
  next
    case rep: (Inr out)
    show thesis
    proof (cases out)
      case (Some res)
      with look rep show thesis by (intro answered [of res]) (simp_all add: run_def bind_action_def return_def)
    next
      case None
      let ?w1 = "snd (receive mo (existing_mutation mo w) fresh now w)"
      have "run C mo at fresh now w = bind_action (run_locked C mo at) settle ?w1"
        using look rep None by (simp add: run_def receive_eq bind_action_simps)
      then show thesis using scope by (intro ran [of ?w1]) (simp_all add: settle_locked)
    qed
  qed
qed

lemma replay_None [simp]: "replay mo None = Inr None"
  by (simp add: replay_def)

lemma run_scope: "run C mo at fresh now w = (Inr res, w') \<Longrightarrow> mo_scope mo \<in> set (p_scopes (mo_principal mo))"
  by (rule ccontr) (simp add: run_def look_up_request_def require_scope_def bind_action_def lift_result_def)

text \<open>The world a call runs its locked section in: as before but for the receipt.\<close>

lemma received_world:
  assumes "mutations_ok (w_store w)" "fresh \<notin> request_ids w" and w1: "w1 = snd (receive mo (existing_mutation mo w) fresh now w)"
  shows "mutations_ok (w_store w1)" "w_repos w1 = w_repos w" "same_authority mo w w1"
    "\<exists>r. lookup (mutations_of w1) (request_key mo) = Some r"
proof -
  show "mutations_ok (w_store w1)"
    using assms(1,2) unfolding w1 by (auto simp: receive_eq request_ids_def mutations_of_def new_record_key intro!: mutations_ok_save)
  show "w_repos w1 = w_repos w" by (simp add: w1 receive_eq)
  show "same_authority mo w w1"
    by (auto simp: w1 receive_eq same_authority_def check_authority_def require_membership_def get_membership_def
        get_household_def save_mutation_def split: option.split)
  have "existing_mutation mo w = None \<or> lookup (mutations_of w) (request_key mo) \<noteq> None"
    by (cases "existing_mutation mo w") (simp_all add: existing_mutation_lookup)
  from receive_present [OF this, of fresh now] show "\<exists>r. lookup (mutations_of w1) (request_key mo) = Some r"
    by (simp add: w1)
qed

lemma run_repos_cases:
  assumes f: "callbacks_framed mo" and ok: "mutations_ok (w_store w)" "fresh \<notin> request_ids w"
    and run: "run C mo at fresh now w = (res, w')" "w_repos w' \<noteq> w_repos w"
  obtains g req occurred oc where "mo_scope mo \<in> set (p_scopes (mo_principal mo))"
    "commits_for C mo req occurred w g (w_repos w')" "settled mo (request_key mo) g oc w'" "res = outcome_result (Inr oc)"
proof (cases rule: run_cases [of mo C "at" fresh now w, case_names forbidden refused answered ran])
  case (ran w1)
  note rec = received_world [OF ok ran(2)]
  from rec(4) obtain r where r: "lookup (mutations_of w1) (request_key mo) = Some r" by blast
  have w': "snd (run_locked C mo at w1) = w'" "res = outcome_result (fst (run_locked C mo at w1))" using ran(3) run(1) by simp_all
  show thesis
  proof (cases rule: run_locked_cases [OF f rec(1) r, of C "at",
        case_names rejected replayed no_repository failed resumed committed])
    case (committed c oc w2)
    with w' ran(1) show thesis by (intro that [of "mu_request r" "mu_created r" c oc]) (simp_all add: commits_for_same [OF rec(3)])
  qed (use w' run(2) rec(2) in simp_all)
qed (use run in simp_all)

end
