(* ===== verification/MutationSafety.thy ===== *)
theory MutationSafety
  imports MutationCalls
begin

text \<open>
  What the mutation runner guarantees: exactly-once answers and commits under concurrent calls,
  authority for every commit, failure without trace, resumption, replay and key reuse, and members
  that are current after a mutation.  A small household with one owner serves the witnesses.
\<close>

section \<open>A household with one owner, used by the witnesses\<close>

definition demo_codec :: codec where
  "demo_codec = \<lparr>sha256 = (\<lambda>s. ''d'' @ take 1 s), collation_key = map of_char\<rparr>"

definition demo_principal :: principal where
  "demo_principal = \<lparr>p_user = ''u'', p_actor = ''a'', p_display = ''Ada'', p_scopes = [JournalWrite],
     p_client = TestClient\<rparr>"

definition demo_options :: mutation_options where
  "demo_options = \<lparr>mo_principal = demo_principal, mo_tool = ''t'', mo_household = ''h'', mo_key = ''k'',
     mo_fingerprint = ''f'', mo_min_role = Some Editor, mo_scope = JournalWrite, mo_summary = ''s'',
     mo_recovery = [], mo_enforce = True, mo_append = False, mo_expected = None,
     mo_build = (\<lambda>req now. return [\<lparr>ch_path = ''x'', ch_content = ''y'', ch_append_only = False\<rparr>]),
     mo_apply = (\<lambda>c req now. return [(''id'', JStr ''x'')])\<rparr>"

definition demo_world :: world where
  "demo_world = \<lparr>w_store = empty_store\<lparr>
       st_households := [(''h'', \<lparr>h_id = ''h'', h_name = ''Home'', h_head = ''0'', h_provisioning = Ready, h_created = 0\<rparr>)],
       st_memberships := [((''h'', ''u''), \<lparr>m_household = ''h'', m_user = ''u'', m_actor = ''a'', m_role = Owner,
          m_head = ''0'', m_removed = None\<rparr>)]\<rparr>,
     w_repos = [(''h'', \<lparr>git_head = ''0'', git_files = [], git_revisions = [], git_commits = []\<rparr>)]\<rparr>"

definition demo_result :: mutation_result where
  "demo_result = \<lparr>res_data = [(''id'', JStr ''x'')], res_head = ''d0'', res_request = ''r''\<rparr>"

definition demo_received :: world where
  "demo_received = snd (receive demo_options None ''r'' 5 demo_world)"

definition demo_done :: world where
  "demo_done = snd (run_locked demo_codec demo_options (\<lambda>_. 9) demo_received)"

lemma demo_framed: "callbacks_framed demo_options"
  by (simp add: callbacks_framed_def demo_options_def same_records_def return_def fingerprint_field_def)

lemma demo_world_ok: "world_ok demo_world"
  by (simp add: world_ok_def demo_world_def mutations_ok_def repos_ok_def map_ok_def empty_store_def commit_requests_def)

lemmas demo_defs = demo_codec_def demo_principal_def demo_options_def demo_world_def
lemmas runner_defs = existing_mutation_def get_mutation_def replay_def recorded_fingerprint_def fingerprint_field_def
  transition_def update_or_throw_def transition_mutation_def apply_update_def no_update_def bind_action_def
  return_def throw_def lift_result_def try_catch_def known_commit_def find_commit_by_request_id_def
  get_repository_def commit_or_fail_def prepare_commit_def repository_head_def check_authority_def
  require_membership_def get_membership_def get_household_def rank_def guard_def commit_changes_def
  finish_def project_def refresh_household_def update_household_head_def update_household_def refresh_members_def
  list_household_memberships_def upsert_membership_def stored_response_def enforces_fingerprint_def metadata_of_def

lemma demo_commit: "commit demo_codec ''h'' ''0'' [\<lparr>ch_path = ''x'', ch_content = ''y'', ch_append_only = False\<rparr>] m (w_repos demo_world)
   = Inr (''d0'', [(''h'', committed demo_codec ''0'' [\<lparr>ch_path = ''x'', ch_content = ''y'', ch_append_only = False\<rparr>] m
       \<lparr>git_head = ''0'', git_files = [], git_revisions = [], git_commits = []\<rparr>)])"
proof -
  have "validate_repository_path ''x'' = Inr ()" by code_simp
  then show ?thesis
    by (simp add: demo_defs commit_def get_repository_def commit_repository_def change_allowed_def put_def
        committed_def Let_def digest_parts_def)
qed

lemma demo_repos: "w_repos demo_world = [(''h'', \<lparr>git_head = ''0'', git_files = [], git_revisions = [], git_commits = []\<rparr>)]"
  by (simp add: demo_world_def)

lemma demo_locked: "fst (run_locked demo_codec demo_options (\<lambda>_. 9) demo_received) = Inr (OutCompleted demo_result)"
  using demo_commit unfolding demo_repos
  by (simp add: run_locked_def runner_defs demo_received_def receive_def writes_def save_mutation_def new_record_def
      mutation_key_def demo_options_def demo_principal_def demo_world_def empty_store_def put_def demo_result_def)

lemma demo_look: "look_up_request demo_options demo_world = (Inr (None, None), demo_world)"
  by (simp add: look_up_request_def require_scope_def runner_defs demo_options_def demo_principal_def
      demo_world_def empty_store_def)

definition demo_start :: call_system where
  "demo_start = \<lparr>sy_world = demo_world, sy_calls = [(demo_options, Arrived), (demo_options, Arrived)]\<rparr>"

definition demo_end :: call_system where
  "demo_end = \<lparr>sy_world = demo_done, sy_calls = [(demo_options, Returned (Inr demo_result)), (demo_options, Returned (Inr demo_result))]\<rparr>"

lemma demo_initial: "initial_system demo_start"
  by (simp add: initial_system_def demo_start_def demo_world_ok demo_framed)

lemma demo_received_twice: "receive demo_options None ''q'' 6 demo_received = (Inr (), demo_received)"
  by (simp add: receive_eq demo_received_def save_mutation_def new_record_def mutation_key_def)

lemma demo_key: "request_key demo_options = (''u'', ''t'', ''k'')"
  by (simp add: request_key_def demo_options_def demo_principal_def)

lemma demo_record: "lookup (mutations_of demo_received) (request_key demo_options) \<noteq> None"
  using receive_present [of None demo_world demo_options "''r''" 5] by (simp add: demo_received_def)

lemma demo_received_ok: "mutations_ok (w_store demo_received)"
  using receive_world_ok [OF demo_world_ok, of "''r''" demo_options None 5]
  by (simp add: demo_received_def request_ids_def world_ok_def demo_world_def mutations_of_def empty_store_def)

lemma demo_locked_eq: "run_locked demo_codec demo_options (\<lambda>_. 9) demo_received = (Inr (OutCompleted demo_result), demo_done)"
  by (simp add: prod_eq_iff demo_locked demo_done_def)

lemma demo_done_phase: "phase_ok demo_done (demo_options, Returned (Inr demo_result))"
proof -
  obtain r where "lookup (mutations_of demo_received) (request_key demo_options) = Some r"
    using demo_record by blast
  from locked_phase_ok [OF demo_framed demo_received_ok this, of demo_codec "\<lambda>_. 9"]
  show ?thesis by (simp add: demo_locked_eq outcome_result_def)
qed

lemma demo_locked_again: "run_locked demo_codec demo_options (\<lambda>_. 9) demo_done = (Inr (OutCompleted demo_result), demo_done)"
  using demo_done_phase by (auto simp: run_locked_def existing_mutation_lookup)

lemma demo_request_ids: "request_ids demo_world = {}" "request_ids demo_received = {''r''}"
  by (simp_all add: request_ids_def mutations_of_def demo_received_def receive_eq save_mutation_def new_record_def
      demo_world_def empty_store_def put_def)

lemma demo_reachable: "reachable demo_codec demo_start demo_end"
proof -
  let ?s = "\<lambda>w p q. \<lparr>sy_world = w, sy_calls = [(demo_options, p), (demo_options, q)]\<rparr>"
  let ?ret = "Returned (Inr demo_result)"
  note steps = look record_receipt locked
  have 1: "call_step demo_codec (?s demo_world Arrived Arrived) (?s demo_world (Saw None) Arrived)"
    using look [of 0 "?s demo_world Arrived Arrived" demo_options "Inr (None, None)" demo_world] demo_look by (simp add: after_look_up_def)
  have 2: "call_step demo_codec (?s demo_world (Saw None) Arrived) (?s demo_world (Saw None) (Saw None))"
    using look [of 1 "?s demo_world (Saw None) Arrived" demo_options "Inr (None, None)" demo_world] demo_look by (simp add: after_look_up_def)
  have 3: "call_step demo_codec (?s demo_world (Saw None) (Saw None)) (?s demo_received Waiting (Saw None))"
    using record_receipt [of 0 "?s demo_world (Saw None) (Saw None)" demo_options None "''r''" 5 "Inr ()" demo_received]
    by (simp add: demo_request_ids) (simp add: demo_received_def receive_eq)
  have 4: "call_step demo_codec (?s demo_received Waiting (Saw None)) (?s demo_received Waiting Waiting)"
    using record_receipt [of 1 "?s demo_received Waiting (Saw None)" demo_options None "''q''" 6 "Inr ()" demo_received]
      demo_received_twice by (simp add: demo_request_ids)
  have 5: "call_step demo_codec (?s demo_received Waiting Waiting) (?s demo_done ?ret Waiting)"
    using locked [of 0 "?s demo_received Waiting Waiting" demo_options demo_codec "\<lambda>_. 9"] demo_locked_eq by (simp add: outcome_result_def)
  have 6: "call_step demo_codec (?s demo_done ?ret Waiting) demo_end"
    using locked [of 1 "?s demo_done ?ret Waiting" demo_options demo_codec "\<lambda>_. 9"] demo_locked_again
    by (simp add: outcome_result_def demo_end_def)
  show ?thesis unfolding demo_start_def
    by (rule step [OF step [OF step [OF step [OF step [OF step [OF start 1] 2] 3] 4] 5] 6])
qed

section \<open>Properties\<close>

text \<open>C1: Exactly-once answers. Whatever the interleaving of any number of calls, two calls under the same key of the same user and tool that
  return successfully return the same data, head and request id.\<close>
theorem concurrent_calls_agree:
  assumes "initial_system s" "reachable C s t"
    and "i < length (sy_calls t)" "sy_calls t ! i = (mo, Returned (Inr res))"
    and "j < length (sy_calls t)" "sy_calls t ! j = (mo', Returned (Inr res'))"
    and "request_key mo = request_key mo'" "enforces_fingerprint mo = enforces_fingerprint mo'"
  shows "res = res'"
proof -
  have ok: "system_ok t" by (rule reachable_ok [OF assms(2) initial_ok [OF assms(1)]])
  have "phase_ok (sy_world t) (mo, Returned (Inr res))" "phase_ok (sy_world t) (mo', Returned (Inr res'))"
    using ok nth_mem [OF assms(3)] nth_mem [OF assms(5)] assms(4,6) by (auto simp: system_ok_def)
  then obtain r where "replay mo (Some r) = Inr (Some res)" "replay mo' (Some r) = Inr (Some res')"
    using assms(7) by auto
  then show ?thesis
    using assms(8) by (auto simp: replay_def split: if_splits mutation_state.splits option.splits)
qed

lemma concurrent_calls_agree_witness:
  "\<exists>res res'. sy_calls demo_end ! 0 = (demo_options, Returned (Inr res))
     \<and> sy_calls demo_end ! 1 = (demo_options, Returned (Inr res')) \<and> res = res'"
  using concurrent_calls_agree [OF demo_initial demo_reachable, of 0 demo_options demo_result 1 demo_options demo_result]
  by (simp add: demo_end_def)

text \<open>C2: At most one commit. However calls interleave, no repository ever holds two commits under one request id.\<close>
theorem commits_unique:
  assumes "initial_system s" "reachable C s t" "lookup (w_repos (sy_world t)) h = Some repo"
  shows "distinct (commit_requests repo)"
proof -
  have "repos_ok (w_repos (sy_world t))"
    using reachable_ok [OF assms(2) initial_ok [OF assms(1)]] by (simp add: system_ok_def world_ok_def)
  with map_of_SomeD [OF assms(3)] show ?thesis by (auto simp: repos_ok_def)
qed

lemma demo_done_repo: "\<exists>repo. lookup (w_repos demo_done) ''h'' = Some repo"
  using demo_commit unfolding demo_repos
  by (simp add: demo_done_def run_locked_def runner_defs demo_received_def receive_def writes_def save_mutation_def new_record_def
      mutation_key_def demo_options_def demo_principal_def demo_world_def empty_store_def put_def)

lemma commits_unique_witness:
  "\<exists>repo. lookup (w_repos (sy_world demo_end)) ''h'' = Some repo \<and> distinct (commit_requests repo)"
  using commits_unique [OF demo_initial demo_reachable, of "''h''"] demo_done_repo by (auto simp: demo_end_def)

lemma check_authority_Inr:
  "check_authority mo w head = Inr () \<longleftrightarrow>
     (mo_append mo \<or> mo_expected mo = None \<or> mo_expected mo = Some head) \<and>
     (case mo_min_role mo of None \<Rightarrow> True | Some minimum \<Rightarrow>
        (\<exists>m hh. get_membership (mo_household mo) (p_user (mo_principal mo)) (w_store w) = Some m \<and> rank minimum \<le> rank (m_role m)
            \<and> get_household (mo_household mo) (w_store w) = Some hh \<and> h_provisioning hh = Ready
            \<and> m_head m = head \<and> h_head hh = head))"
  by (cases "mo_min_role mo") (auto simp: check_authority_def and_then_Inr_iff require_membership_Inr)

text \<open>C3: Authorised commits. A call that changes any repository had its scope granted, was prepared against the head the
  repository still has (or appends, or names no head), and, where it asks for a role, comes from an
  active member of at least that role of a ready household whose membership projection is at that head.\<close>
theorem commit_needs_authority:
  assumes "callbacks_framed mo" "mutations_ok (w_store w)" "fresh \<notin> request_ids w"
    and "run C mo at fresh now w = (res, w')" "w_repos w' \<noteq> w_repos w"
  shows "mo_scope mo \<in> set (p_scopes (mo_principal mo)) \<and> (\<exists>head. repository_head (mo_household mo) (w_repos w) = Inr head \<and>
     (mo_append mo \<or> mo_expected mo = None \<or> mo_expected mo = Some head) \<and>
     (case mo_min_role mo of None \<Rightarrow> True | Some minimum \<Rightarrow>
        (\<exists>m hh. get_membership (mo_household mo) (p_user (mo_principal mo)) (w_store w) = Some m \<and> rank minimum \<le> rank (m_role m)
            \<and> get_household (mo_household mo) (w_store w) = Some hh \<and> h_provisioning hh = Ready
            \<and> m_head m = head \<and> h_head hh = head)))"
proof -
  obtain g req occurred oc where scope: "mo_scope mo \<in> set (p_scopes (mo_principal mo))"
    and c: "commits_for C mo req occurred w g (w_repos w')" and "settled mo (request_key mo) g oc w'" "res = outcome_result (Inr oc)"
    by (rule run_repos_cases [OF assms])
  from c obtain head where "repository_head (mo_household mo) (w_repos w) = Inr head" "check_authority mo w head = Inr ()"
    unfolding commits_for_def by blast
  with scope show ?thesis unfolding check_authority_Inr by blast
qed

lemma demo_scope: "mo_scope demo_options \<in> set (p_scopes (mo_principal demo_options))"
  by (simp add: demo_options_def demo_principal_def)

lemma demo_run: "run demo_codec demo_options (\<lambda>_. 9) ''r'' 5 demo_world = (Inr demo_result, demo_done)"
proof -
  have "replay demo_options (existing_mutation demo_options demo_world) = Inr None" "existing_mutation demo_options demo_world = None"
    by (simp_all add: runner_defs demo_world_def empty_store_def)
  then show ?thesis
    by (cases rule: run_cases [of demo_options demo_codec "\<lambda>_. 9" "''r''" 5 demo_world])
      (simp_all add: demo_received_def [symmetric] demo_locked_eq outcome_result_def demo_scope)
qed

lemma demo_done_head: "repository_head ''h'' (w_repos demo_done) = Inr ''d0''"
  using demo_commit unfolding demo_repos
  by (simp add: demo_done_def run_locked_def runner_defs demo_received_def receive_def writes_def save_mutation_def new_record_def
      mutation_key_def demo_options_def demo_principal_def demo_world_def empty_store_def put_def
      committed_def Let_def digest_parts_def demo_codec_def)

lemma demo_changes: "w_repos demo_done \<noteq> w_repos demo_world"
proof
  assume "w_repos demo_done = w_repos demo_world"
  then show False using demo_done_head by (simp add: repository_head_def get_repository_def demo_world_def)
qed

lemma demo_mutations_ok: "mutations_ok (w_store demo_world)"
  using demo_world_ok by (simp add: world_ok_def)

lemma commit_needs_authority_witness:
  "JournalWrite \<in> set (p_scopes demo_principal) \<and> (\<exists>head. repository_head ''h'' (w_repos demo_world) = Inr head)"
  using commit_needs_authority [OF demo_framed demo_mutations_ok _ demo_run demo_changes]
  by (auto simp: demo_request_ids demo_options_def)

text \<open>C4: Failure leaves the repository alone. A call that fails with anything but a request to reconcile has changed no repository.\<close>
theorem ordinary_failure_commits_nothing:
  assumes "callbacks_framed mo" "mutations_ok (w_store w)" "fresh \<notin> request_ids w"
    and "run C mo at fresh now w = (Inl e, w')" "e \<noteq> AppError RECONCILIATION_REQUIRED True"
  shows "w_repos w' = w_repos w"
proof (rule ccontr)
  assume "w_repos w' \<noteq> w_repos w"
  from run_repos_cases [OF assms(1-4) this] obtain g oc
    where "settled mo (request_key mo) g oc w'" "Inl e = outcome_result (Inr oc)" by blast
  then show False using assms(5) by (auto simp: settled_def outcome_result_def split: mutation_outcome.splits)
qed

definition stale_options :: mutation_options where
  "stale_options = demo_options\<lparr>mo_expected := Some ''9''\<rparr>"

lemma stale_run: "fst (run demo_codec stale_options (\<lambda>_. 9) ''r'' 5 demo_world) = Inl (app_error REVISION_CONFLICT)"
  by (simp add: run_def look_up_request_def require_scope_def receive_def writes_def save_mutation_def new_record_def settle_def
      fail_before_commit_def error_name_def mutation_key_def run_locked_def runner_defs stale_options_def demo_defs empty_store_def put_def)

lemma stale_framed: "callbacks_framed stale_options"
  using demo_framed by (simp add: callbacks_framed_def stale_options_def)

lemma stale_run_eq: "run demo_codec stale_options (\<lambda>_. 9) ''r'' 5 demo_world =
    (Inl (app_error REVISION_CONFLICT), snd (run demo_codec stale_options (\<lambda>_. 9) ''r'' 5 demo_world))"
  by (simp add: prod_eq_iff stale_run)

lemma ordinary_failure_commits_nothing_witness:
  "w_repos (snd (run demo_codec stale_options (\<lambda>_. 9) ''r'' 5 demo_world)) = w_repos demo_world"
  using ordinary_failure_commits_nothing [OF stale_framed demo_mutations_ok _ stale_run_eq] by (simp add: demo_request_ids)

lemma run_known_commit:
  assumes "callbacks_framed mo" "mutations_ok (w_store w)"
    and "existing_mutation mo w = Some r" "known_commit mo r w = Inr (Some c)"
  shows "w_repos (snd (run C mo at fresh now w)) = w_repos w \<and>
    (case fst (run C mo at fresh now w) of
       Inr res \<Rightarrow> replay mo (Some r) = Inr (Some res) \<or> res_head res = c
     | Inl e \<Rightarrow> e = app_error FORBIDDEN \<or> e = app_error REVISION_CONFLICT \<or> (\<exists>b. e = AppError RECONCILIATION_REQUIRED b))"
proof -
  have replay_error: "e = app_error REVISION_CONFLICT \<or> e = app_error RECONCILIATION_REQUIRED" if "replay mo (Some r) = Inl e" for e
    using that by (auto simp: replay_def split: if_splits mutation_state.splits option.splits)
  show ?thesis
  proof (cases rule: run_cases [of mo C "at" fresh now w, case_names forbidden refused answered ran])
    case (ran w1)
    have w1: "w1 = w" using ran(2) assms(3) by (simp add: receive_eq)
    have look: "lookup (mutations_of w) (request_key mo) = Some r" using assms(3) by (simp add: existing_mutation_lookup)
    show ?thesis
      by (cases rule: run_locked_cases [OF assms(1,2) look, of C "at",
          case_names rejected replayed no_repository failed resumed committed])
        (use ran w1 assms(4) replay_error in \<open>auto simp: outcome_result_def settled_def split: mutation_outcome.splits\<close>)
  qed (use assms(3) replay_error in auto)
qed

text \<open>Retries resume. Once a record carries a commit, a further call under its key makes no other commit: it is refused, replayed,
  or ends with that very commit projected or still awaiting reconciliation.\<close>
theorem retry_resumes_recorded_commit:
  assumes "callbacks_framed mo" "mutations_ok (w_store w)"
    and "existing_mutation mo w = Some r" "mu_commit r = Some c"
  shows "w_repos (snd (run C mo at fresh now w)) = w_repos w \<and>
    (case fst (run C mo at fresh now w) of
       Inr res \<Rightarrow> res_head res = c
     | Inl e \<Rightarrow> e = app_error FORBIDDEN \<or> e = app_error REVISION_CONFLICT \<or> (\<exists>b. e = AppError RECONCILIATION_REQUIRED b))"
proof -
  have "res_head res = c" if "replay mo (Some r) = Inr (Some res)" for res
    using that assms(4) by (auto simp: replay_def split: if_splits mutation_state.splits option.splits)
  moreover have "known_commit mo r w = Inr (Some c)" using assms(4) by (simp add: known_commit_def)
  ultimately show ?thesis
    using run_known_commit [OF assms(1-3), of c C "at" fresh now] by (auto split: sum.splits)
qed

lemma run_mutations_ok:
  assumes "callbacks_framed mo" "mutations_ok (w_store w)" "fresh \<notin> request_ids w"
  shows "mutations_ok (w_store (snd (run C mo at fresh now w)))"
proof (cases rule: run_cases [of mo C "at" fresh now w, case_names forbidden refused answered ran])
  case (ran w1)
  note rec = received_world [OF assms(2,3) ran(2)]
  from rec(4) obtain r where "lookup (mutations_of w1) (request_key mo) = Some r" by blast
  from run_locked_owns [OF assms(1) rec(1) this, of C "at"] show ?thesis by (simp add: ran(3) owns_def)
qed (use assms(2) in simp_all)

definition stuck_options :: mutation_options where
  "stuck_options = demo_options\<lparr>mo_apply := (\<lambda>c req now. throw (OtherError ''TypeError''))\<rparr>"

definition stuck_world :: world where
  "stuck_world = snd (run demo_codec stuck_options (\<lambda>_. 9) ''r'' 5 demo_world)"

lemma stuck_framed: "callbacks_framed stuck_options"
  using demo_framed by (simp add: callbacks_framed_def stuck_options_def throw_def same_records_def)

lemma stuck_mutations_ok: "mutations_ok (w_store stuck_world)"
  unfolding stuck_world_def by (rule run_mutations_ok [OF stuck_framed demo_mutations_ok]) (simp add: demo_request_ids)

lemma stuck_record: "\<exists>r. existing_mutation demo_options stuck_world = Some r \<and> mu_commit r = Some ''d0''
    \<and> mu_state r = ReconciliationRequired"
  using demo_commit unfolding demo_repos
  by (simp add: stuck_world_def run_def look_up_request_def require_scope_def receive_def writes_def save_mutation_def
      new_record_def settle_def reconcile_def error_name_def mutation_key_def run_locked_def runner_defs stuck_options_def
      demo_options_def demo_principal_def demo_world_def empty_store_def put_def)

lemma retry_resumes_recorded_commit_witness:
  "w_repos (snd (run demo_codec demo_options (\<lambda>_. 9) ''q'' 6 stuck_world)) = w_repos stuck_world"
  using stuck_record retry_resumes_recorded_commit [OF demo_framed stuck_mutations_ok] by blast

text \<open>C27: Replay. After a successful call, the same call again answers the same data, head and request id and
  changes nothing at all.\<close>
theorem replay_is_idempotent:
  assumes "callbacks_framed mo" "mutations_ok (w_store w)" "fresh \<notin> request_ids w"
    and "run C mo at fresh now w = (Inr res, w')"
  shows "run C mo at' fresh' now' w' = (Inr res, w')"
proof -
  have "\<exists>r. lookup (mutations_of w') (request_key mo) = Some r \<and> replay mo (Some r) = Inr (Some res)"
  proof (cases rule: run_cases [of mo C "at" fresh now w, case_names forbidden refused answered ran])
    case (answered out)
    with assms(4) show ?thesis by (cases "existing_mutation mo w") (auto simp: existing_mutation_lookup)
  next
    case (ran w1)
    note rec = received_world [OF assms(2,3) ran(2)]
    from rec(4) obtain r where "lookup (mutations_of w1) (request_key mo) = Some r" by blast
    from locked_phase_ok [OF assms(1) rec(1) this, of C "at"]
    have "phase_ok (snd (run C mo at fresh now w)) (mo, Returned (fst (run C mo at fresh now w)))"
      by (simp add: ran(3))
    then show ?thesis by (simp add: assms(4))
  qed (use assms(4) in simp_all)
  moreover have "mo_scope mo \<in> set (p_scopes (mo_principal mo))"
    using assms(4) by (rule run_scope)
  ultimately show ?thesis
    by (auto simp: run_def look_up_request_def require_scope_def bind_action_def lift_result_def existing_mutation_lookup return_def)
qed

lemma replay_is_idempotent_witness:
  "run demo_codec demo_options (\<lambda>_. 1) ''z'' 99 demo_done = (Inr demo_result, demo_done)"
  by (rule replay_is_idempotent [OF demo_framed demo_mutations_ok _ demo_run]) (simp add: demo_request_ids)

text \<open>Key reuse. A call whose key is already recorded under another fingerprint is refused with a revision conflict and
  changes nothing, unless it does not enforce fingerprints and the recorded request is complete.\<close>
theorem reused_key_conflicts:
  assumes "mo_scope mo \<in> set (p_scopes (mo_principal mo))" "existing_mutation mo w = Some r"
    and "recorded_fingerprint r = Some f" "f \<noteq> mo_fingerprint mo" "enforces_fingerprint mo \<or> mu_state r \<noteq> Completed"
  shows "run C mo at fresh now w = (Inl (app_error REVISION_CONFLICT), w)"
proof -
  have "replay mo (Some r) = Inl (app_error REVISION_CONFLICT)" using assms(3-5) by (auto simp: replay_def)
  with assms(1,2) show ?thesis
    by (simp add: run_def look_up_request_def require_scope_def bind_action_def lift_result_def)
qed

definition other_options :: mutation_options where
  "other_options = demo_options\<lparr>mo_fingerprint := ''g''\<rparr>"

lemma reused_key_conflicts_witness:
  "run demo_codec other_options (\<lambda>_. 9) ''q'' 6 demo_received = (Inl (app_error REVISION_CONFLICT), demo_received)"
  by (rule reused_key_conflicts [where f = "''f''" and r = "new_record demo_options ''r'' 5"])
    (simp_all add: other_options_def runner_defs demo_received_def receive_def writes_def save_mutation_def new_record_def
      mutation_key_def demo_defs empty_store_def put_def)

text \<open>No drift after a completed mutation. When the heads of a household have been refreshed to a commit, the role of an active
  member alone decides: a member of a ready household is never refused because of a stale projection, and
  the answer carries the new head.\<close>
theorem refreshed_members_are_current:
  assumes "memberships_ok (w_store w)" "refresh_household mo c w = (Inr (), w')"
    and "get_household (mo_household mo) (w_store w) = Some hh" "h_provisioning hh = Ready"
  shows "require_membership (w_store w') p (mo_household mo) minimum =
    (case get_membership (mo_household mo) (p_user p) (w_store w) of
       None \<Rightarrow> Inl (app_error FORBIDDEN)
     | Some m \<Rightarrow> if rank (m_role m) < rank minimum then Inl (app_error FORBIDDEN) else Inr (m\<lparr>m_head := c\<rparr>))"
proof -
  let ?s = "(w_store w)\<lparr>st_households := adjust (mo_household mo) (\<lambda>r. r\<lparr>h_head := c\<rparr>) (st_households (w_store w))\<rparr>"
  have w': "w_store w' = refresh_members (mo_household mo) c ?s"
    using assms(2,3) by (auto simp: refresh_household_def update_or_throw_def update_household_head_def update_household_def)
  have "memberships_ok ?s" using assms(1) by (simp add: memberships_ok_def)
  from get_membership_refresh [OF this]
  have m: "get_membership (mo_household mo) (p_user p) (w_store w') =
      map_option (\<lambda>m. m\<lparr>m_head := c\<rparr>) (get_membership (mo_household mo) (p_user p) (w_store w))"
    by (simp add: w' get_membership_def)
  have "get_household (mo_household mo) (w_store w') = Some (hh\<lparr>h_head := c\<rparr>)"
    using assms(3) by (simp add: w' get_household_def refresh_members_households lookup_adjust)
  with m assms(4) show ?thesis by (auto simp: require_membership_def split: option.split)
qed

lemma demo_memberships_ok: "memberships_ok (w_store demo_world)"
  by (simp add: memberships_ok_def demo_world_def map_ok_def)

lemma refreshed_members_are_current_witness:
  "require_membership (w_store (snd (refresh_household demo_options ''d0'' demo_world))) demo_principal ''h'' Owner
     = Inr \<lparr>m_household = ''h'', m_user = ''u'', m_actor = ''a'', m_role = Owner, m_head = ''d0'', m_removed = None\<rparr>"
proof -
  have "refresh_household demo_options ''d0'' demo_world = (Inr (), snd (refresh_household demo_options ''d0'' demo_world))"
    by (simp add: prod_eq_iff runner_defs demo_options_def demo_world_def)
  from refreshed_members_are_current [OF demo_memberships_ok this, of _ demo_principal Owner]
  show ?thesis by (simp add: runner_defs demo_options_def demo_world_def demo_principal_def)
qed

text \<open>Crash after the commit. If the process stops after the commit of a request and before the record learns of it, the
  call that retries finds that commit, makes no second one, and on success answers with it.\<close>
theorem crash_after_commit_resumes:
  assumes "callbacks_framed mo" "mutations_ok (w_store w)"
    and "existing_mutation mo w = Some r" "mu_commit r = None" "known_commit mo r w = Inr None"
    and "commits_for C mo (mu_request r) occurred w g rs"
  shows "w_repos (snd (run C mo at fresh now (w\<lparr>w_repos := rs\<rparr>))) = rs \<and>
    (\<forall>res. fst (run C mo at fresh now (w\<lparr>w_repos := rs\<rparr>)) = Inr res \<longrightarrow> res_head res = g)"
proof -
  from assms(6) obtain head cs
    where "commit C (mo_household mo) head cs (metadata_of mo (mu_request r) occurred) (w_repos w) = Inr (g, rs)"
    by (auto simp: commits_for_def)
  then have made: "commit_for_request C (mo_household mo) (mu_request r) (head, cs, metadata_of mo (mu_request r) occurred) (w_repos w)
      = Inr (g, rs)"
    by (simp add: commit_for_request_def metadata_of_def)
  have "find_commit_by_request_id (mo_household mo) (mu_request r) (w_repos w) = Inr None"
    using assms(4,5) by (simp add: known_commit_def)
  from memory_log.find_made [OF this made]
  have known: "known_commit mo r (w\<lparr>w_repos := rs\<rparr>) = Inr (Some g)"
    using assms(4) by (simp add: known_commit_def)
  have "replay mo (Some r) \<noteq> Inr (Some res)" for res
    using assms(4) by (auto simp: replay_def split: mutation_state.splits option.splits)
  moreover have "existing_mutation mo (w\<lparr>w_repos := rs\<rparr>) = Some r" using assms(3) by (simp add: existing_mutation_def)
  ultimately show ?thesis
    using run_known_commit [OF assms(1) _ _ known, of C "at" fresh now] assms(2) by (auto split: sum.splits)
qed

lemma crash_after_commit_resumes_witness:
  "\<exists>g rs. commits_for demo_codec demo_options ''r'' 5 demo_received g rs \<and>
     w_repos (snd (run demo_codec demo_options (\<lambda>_. 9) ''z'' 7 (demo_received\<lparr>w_repos := rs\<rparr>))) = rs"
proof -
  let ?r = "new_record demo_options ''r'' 5"
  have rec: "existing_mutation demo_options demo_received = Some ?r" "mu_commit ?r = None" "mu_request ?r = ''r''"
    by (simp_all add: runner_defs demo_received_def receive_def writes_def save_mutation_def new_record_def
      mutation_key_def demo_defs empty_store_def put_def)
  have known: "known_commit demo_options ?r demo_received = Inr None"
    by (simp add: runner_defs new_record_def demo_received_def receive_def writes_def demo_defs)
  let ?m = "metadata_of demo_options ''r'' 5"
  obtain rs where made: "commits_for demo_codec demo_options ''r'' 5 demo_received ''d0'' rs"
    using demo_commit [of ?m] unfolding demo_repos
    by (force simp: commits_for_def runner_defs demo_received_def receive_def writes_def demo_world_def demo_options_def
        demo_principal_def empty_store_def save_mutation_def)
  then have "commits_for demo_codec demo_options (mu_request ?r) 5 demo_received ''d0'' rs" by (simp add: rec(3))
  from crash_after_commit_resumes [OF demo_framed demo_received_ok rec(1,2) known this] made
  show ?thesis by blast
qed

end
