(* ===== verification/MessageStore.thy ===== *)
theory MessageStore
  imports CoreTypes
begin

text \<open>
  The message store of the WhatsApp channel: its records
  (\<^verbatim>\<open>apps/server/src/messaging/ports.ts\<close>), the in-memory store
  (\<^verbatim>\<open>memory-store.ts\<close>) and, for the operations where they differ, the statements
  of the PostgreSQL store (\<^verbatim>\<open>neon-store.ts\<close>, with the row checks of
  \<^verbatim>\<open>migrations/0006_messaging_gateway.sql\<close>) on the same state: a table is the map
  of its rows by key, a transaction is one step.
\<close>

section \<open>Records\<close>

record device =
  dv_id :: string
  dv_user :: user_id
  dv_household :: household_id
  dv_name :: string
  dv_last_seen :: "time option"
  dv_revoked :: "time option"
  dv_created :: time
  dv_updated :: time

record link_challenge =
  lc_id :: string
  lc_user :: user_id
  lc_household :: household_id
  lc_device :: string
  lc_token_hash :: token_hash
  lc_binding :: string
  lc_expires :: time
  lc_consumed :: "time option"
  lc_created :: time

record provider_link =
  pl_id :: string
  pl_user :: user_id
  pl_household :: household_id
  pl_device :: string
  pl_identity :: string
  pl_destination :: string
  pl_binding :: "string option"
  pl_confirm_expires :: time
  pl_confirmed :: "time option"
  pl_linked :: time
  pl_revoked :: "time option"
  pl_updated :: time

datatype envelope_state =
    EnvReceived | Queued | Leased | AwaitingUser | ResponseReady | ResponseSent
  | EnvCompleted | EnvExpired | EnvFailed

datatype terminal_kind = TermCompleted | TermNeedsInput | TermBlocked | TermCancelled

record envelope =
  en_id :: string
  en_request :: request_id
  en_link :: string
  en_message_hash :: string
  en_state :: envelope_state
  en_inbound :: string
  en_response :: "string option"
  en_host_session :: "string option"
  en_terminal :: "terminal_kind option"
  en_received :: time
  en_window :: time
  en_lease :: "string option"
  en_device :: "string option"
  en_lease_expires :: "time option"
  en_attempts :: nat
  en_failure :: "string option"
  en_sent :: "time option"
  en_expires :: time
  en_created :: time
  en_updated :: time

datatype delivery_status = StatusAccepted | StatusSent | StatusDelivered | StatusRead | StatusFailed

record delivery_receipt =
  dr_id :: string
  dr_envelope :: string
  dr_hash :: string
  dr_status :: delivery_status
  dr_occurred :: time
  dr_failure :: "string option"
  dr_created :: time

datatype enqueue_result = Created envelope | Resumed envelope | Duplicate envelope | Overloaded

record capacity =
  cap_per_link :: nat
  cap_global :: nat

record message_store =
  ms_devices :: "(string, device) js_map"
  ms_challenges :: "(token_hash, link_challenge) js_map"
  ms_links :: "(string, provider_link) js_map"
  ms_envelopes :: "(string, envelope) js_map"
  ms_events :: "(string, string) js_map"
  ms_receipts :: "(string, delivery_receipt) js_map"

definition empty_messages :: message_store where
  "empty_messages = \<lparr>ms_devices = [], ms_challenges = [], ms_links = [], ms_envelopes = [],
     ms_events = [], ms_receipts = []\<rparr>"

section \<open>Devices, challenges and links\<close>

definition save_device :: "device \<Rightarrow> message_store \<Rightarrow> failure + message_store" where
  "save_device d s =
     (if list_ex (\<lambda>c. dv_user c = dv_user d \<and> dv_household c = dv_household d \<and> dv_revoked c = None) (vals (ms_devices s))
      then Inl (OtherError ''Error'')
      else Inr (s\<lparr>ms_devices := put (dv_id d) d (ms_devices s)\<rparr>))"

definition get_device :: "string \<Rightarrow> message_store \<Rightarrow> device option" where
  "get_device d s = lookup (ms_devices s) d"

definition revoke_device :: "user_id \<Rightarrow> string \<Rightarrow> time \<Rightarrow> message_store \<Rightarrow> bool \<times> message_store" where
  "revoke_device u d t s =
     (case lookup (ms_devices s) d of
        None \<Rightarrow> (False, s)
      | Some c \<Rightarrow>
          if dv_user c \<noteq> u \<or> dv_revoked c \<noteq> None then (False, s)
          else (True, s\<lparr>ms_devices := adjust d (\<lambda>c. c\<lparr>dv_revoked := Some t, dv_updated := t\<rparr>) (ms_devices s)\<rparr>))"

definition save_link_challenge :: "link_challenge \<Rightarrow> message_store \<Rightarrow> message_store" where
  "save_link_challenge c s = s\<lparr>ms_challenges := put (lc_token_hash c) c (ms_challenges s)\<rparr>"

definition consume_link_challenge :: "token_hash \<Rightarrow> time \<Rightarrow> message_store \<Rightarrow> link_challenge option \<times> message_store" where
  "consume_link_challenge t at s =
     (case lookup (ms_challenges s) t of
        None \<Rightarrow> (None, s)
      | Some c \<Rightarrow>
          if lc_consumed c \<noteq> None \<or> lc_expires c \<le> at then (None, s)
          else (Some (c\<lparr>lc_consumed := Some at\<rparr>),
                s\<lparr>ms_challenges := adjust t (\<lambda>c. c\<lparr>lc_consumed := Some at\<rparr>) (ms_challenges s)\<rparr>))"

definition create_provider_link :: "provider_link \<Rightarrow> message_store \<Rightarrow> failure + message_store" where
  "create_provider_link l s =
     (if list_ex (\<lambda>c. pl_revoked c = None \<and> (pl_identity c = pl_identity l \<or> pl_user c = pl_user l)) (vals (ms_links s))
      then Inl (OtherError ''Error'')
      else Inr (s\<lparr>ms_links := put (pl_id l) l (ms_links s)\<rparr>))"

definition find_active_link_by_identity_hash :: "string \<Rightarrow> message_store \<Rightarrow> provider_link option" where
  "find_active_link_by_identity_hash i s =
     List.find (\<lambda>l. pl_identity l = i \<and> pl_confirmed l \<noteq> None \<and> pl_revoked l = None) (vals (ms_links s))"

definition find_active_link_for_user :: "user_id \<Rightarrow> message_store \<Rightarrow> provider_link option" where
  "find_active_link_for_user u s =
     List.find (\<lambda>l. pl_user l = u \<and> pl_confirmed l \<noteq> None \<and> pl_revoked l = None) (vals (ms_links s))"

definition find_current_link_for_user :: "user_id \<Rightarrow> message_store \<Rightarrow> provider_link option" where
  "find_current_link_for_user u s = List.find (\<lambda>l. pl_user l = u \<and> pl_revoked l = None) (vals (ms_links s))"

definition get_provider_link :: "string \<Rightarrow> message_store \<Rightarrow> provider_link option" where
  "get_provider_link l s = lookup (ms_links s) l"

definition confirm_provider_link ::
  "user_id \<Rightarrow> string \<Rightarrow> string \<Rightarrow> time \<Rightarrow> message_store \<Rightarrow> provider_link option \<times> message_store" where
  "confirm_provider_link u l binding at s =
     (case lookup (ms_links s) l of
        None \<Rightarrow> (None, s)
      | Some c \<Rightarrow>
          if pl_user c \<noteq> u \<or> pl_revoked c \<noteq> None \<or> pl_confirmed c \<noteq> None \<or> pl_binding c \<noteq> Some binding
             \<or> pl_confirm_expires c \<le> at
          then (None, s)
          else let confirm = (\<lambda>c. c\<lparr>pl_binding := None, pl_confirmed := Some at, pl_updated := at\<rparr>)
               in (Some (confirm c), s\<lparr>ms_links := adjust l confirm (ms_links s)\<rparr>))"

definition revoke_provider_link :: "user_id \<Rightarrow> time \<Rightarrow> message_store \<Rightarrow> bool \<times> message_store" where
  "revoke_provider_link u at s =
     (if list_ex (\<lambda>l. pl_user l = u \<and> pl_revoked l = None) (vals (ms_links s))
      then (True, s\<lparr>ms_links := adjust_first (\<lambda>l. pl_user l = u \<and> pl_revoked l = None)
             (\<lambda>l. l\<lparr>pl_revoked := Some at, pl_updated := at\<rparr>) (ms_links s)\<rparr>)
      else (False, s))"

section \<open>The queue\<close>

definition is_open :: "envelope \<Rightarrow> bool" where
  "is_open e \<longleftrightarrow> en_state e \<in> {Queued, Leased, AwaitingUser, ResponseReady}"

definition resumed_envelope :: "envelope \<Rightarrow> time \<Rightarrow> envelope \<Rightarrow> envelope" where
  "resumed_envelope i at e =
     e\<lparr>en_inbound := en_inbound i, en_response := None, en_terminal := None, en_received := en_received i,
       en_window := en_window i, en_state := Queued, en_updated := at\<rparr>"

definition over_capacity :: "capacity \<Rightarrow> string \<Rightarrow> message_store \<Rightarrow> bool" where
  "over_capacity cap link s =
     (let opens = filter is_open (vals (ms_envelopes s))
      in cap_global cap \<le> length opens \<or> cap_per_link cap \<le> length (filter (\<lambda>e. en_link e = link) opens))"

definition enqueue_or_resume ::
  "envelope \<Rightarrow> time \<Rightarrow> capacity \<Rightarrow> message_store \<Rightarrow> (failure + enqueue_result) \<times> message_store" where
  "enqueue_or_resume i at cap s =
     (case lookup (ms_events s) (en_message_hash i) of
        Some d \<Rightarrow> (case lookup (ms_envelopes s) d of
            None \<Rightarrow> (Inl (OtherError ''Error''), s)
          | Some e \<Rightarrow> (Inr (Duplicate e), s))
      | None \<Rightarrow>
          (case List.find (\<lambda>e. en_link e = en_link i \<and> en_state e = AwaitingUser) (vals (ms_envelopes s)) of
             Some p \<Rightarrow> (Inr (Resumed (resumed_envelope i at p)),
               s\<lparr>ms_envelopes := adjust_first (\<lambda>e. en_link e = en_link i \<and> en_state e = AwaitingUser)
                   (resumed_envelope i at) (ms_envelopes s),
                 ms_events := put (en_message_hash i) (en_id p) (ms_events s)\<rparr>)
           | None \<Rightarrow>
               if over_capacity cap (en_link i) s then (Inr Overloaded, s)
               else (Inr (Created i),
                 s\<lparr>ms_envelopes := put (en_id i) i (ms_envelopes s),
                   ms_events := put (en_message_hash i) (en_id i) (ms_events s)\<rparr>)))"

definition release_lease :: "string \<Rightarrow> time \<Rightarrow> envelope \<Rightarrow> envelope" where
  "release_lease d now e =
     (if en_state e = Leased \<and> en_device e = Some d \<and> (case en_lease_expires e of None \<Rightarrow> False | Some t \<Rightarrow> t \<le> now)
      then e\<lparr>en_state := Queued, en_lease := None, en_device := None, en_lease_expires := None\<rparr> else e)"

definition serves :: "(string, provider_link) js_map \<Rightarrow> string \<Rightarrow> envelope \<Rightarrow> bool" where
  "serves links d e = (case lookup links (en_link e) of
       None \<Rightarrow> False
     | Some l \<Rightarrow> pl_device l = d \<and> pl_confirmed l \<noteq> None \<and> pl_revoked l = None)"

definition recover_attempts :: "(string, provider_link) js_map \<Rightarrow> string \<Rightarrow> time \<Rightarrow> envelope \<Rightarrow> envelope" where
  "recover_attempts links d now e =
     (if en_state e = Queued \<and> 20 \<le> en_attempts e \<and> serves links d e
      then e\<lparr>en_attempts := 0, en_failure := None, en_updated := now\<rparr> else e)"

definition leased_to :: "string \<Rightarrow> string \<Rightarrow> time \<Rightarrow> time \<Rightarrow> envelope \<Rightarrow> envelope" where
  "leased_to d lease now expires e =
     e\<lparr>en_state := Leased, en_lease := Some lease, en_device := Some d, en_lease_expires := Some expires,
       en_attempts := en_attempts e + 1, en_updated := now\<rparr>"

definition map_envelopes :: "(envelope \<Rightarrow> envelope) \<Rightarrow> message_store \<Rightarrow> message_store" where
  "map_envelopes f s = s\<lparr>ms_envelopes := map (\<lambda>(k, e). (k, f e)) (ms_envelopes s)\<rparr>"

definition prepare_claim :: "string \<Rightarrow> time \<Rightarrow> bool \<Rightarrow> message_store \<Rightarrow> message_store" where
  "prepare_claim d now recover s =
     (let s1 = map_envelopes (release_lease d now) s
      in if recover then map_envelopes (recover_attempts (ms_links s) d now) s1 else s1)"

definition take_lease :: "string \<Rightarrow> string \<Rightarrow> time \<Rightarrow> time \<Rightarrow> envelope \<Rightarrow> message_store \<Rightarrow> envelope option \<times> message_store" where
  "take_lease d lease now expires q s =
     (Some (leased_to d lease now expires q),
      s\<lparr>ms_envelopes := adjust (en_id q) (leased_to d lease now expires) (ms_envelopes s),
        ms_devices := adjust d (\<lambda>c. c\<lparr>dv_last_seen := Some now, dv_updated := now\<rparr>) (ms_devices s)\<rparr>)"

definition claim_envelope ::
  "string \<Rightarrow> string \<Rightarrow> time \<Rightarrow> time \<Rightarrow> bool \<Rightarrow> message_store \<Rightarrow> envelope option \<times> message_store" where
  "claim_envelope d lease now expires recover s =
     (case lookup (ms_devices s) d of
        None \<Rightarrow> (None, s)
      | Some c \<Rightarrow>
          if dv_revoked c \<noteq> None then (None, s)
          else let s1 = prepare_claim d now recover s in
            (case sort_key en_received (filter (serves (ms_links s1) d) (filter (\<lambda>e. en_state e = Queued) (vals (ms_envelopes s1)))) of
               [] \<Rightarrow> (None, s1)
             | q # _ \<Rightarrow>
                 if en_expires q \<le> now \<or> 20 \<le> en_attempts q then (None, s1)
                 else take_lease d lease now expires q s1))"

definition valid_lease :: "envelope option \<Rightarrow> string \<Rightarrow> string \<Rightarrow> time \<Rightarrow> bool" where
  "valid_lease e d lease now = (case e of
       None \<Rightarrow> False
     | Some e \<Rightarrow> en_state e = Leased \<and> en_device e = Some d \<and> en_lease e = Some lease
         \<and> (case en_lease_expires e of None \<Rightarrow> False | Some t \<Rightarrow> now < t))"

definition update_leased ::
  "string \<Rightarrow> string \<Rightarrow> string \<Rightarrow> time \<Rightarrow> (envelope \<Rightarrow> envelope) \<Rightarrow> message_store \<Rightarrow> envelope option \<times> message_store" where
  "update_leased i d lease now f s =
     (if valid_lease (lookup (ms_envelopes s) i) d lease now
      then (map_option f (lookup (ms_envelopes s) i), s\<lparr>ms_envelopes := adjust i f (ms_envelopes s)\<rparr>)
      else (None, s))"

definition heartbeat :: "string \<Rightarrow> string \<Rightarrow> string \<Rightarrow> time \<Rightarrow> time \<Rightarrow> message_store \<Rightarrow> envelope option \<times> message_store" where
  "heartbeat i d lease now expires =
     update_leased i d lease now (\<lambda>e. e\<lparr>en_lease_expires := Some expires, en_updated := now\<rparr>)"

definition complete_lease ::
  "string \<Rightarrow> string \<Rightarrow> string \<Rightarrow> time \<Rightarrow> terminal_kind \<Rightarrow> string \<Rightarrow> string option \<Rightarrow> message_store
     \<Rightarrow> envelope option \<times> message_store" where
  "complete_lease i d lease now kind response host =
     update_leased i d lease now (\<lambda>e. e\<lparr>en_state := ResponseReady, en_response := Some response,
       en_host_session := host, en_terminal := Some kind, en_lease := None, en_device := None,
       en_lease_expires := None, en_updated := now\<rparr>)"

definition get_response_ready_for_link :: "string \<Rightarrow> message_store \<Rightarrow> envelope option" where
  "get_response_ready_for_link l s =
     (case sort_key en_received (filter (\<lambda>e. en_link e = l \<and> en_state e = ResponseReady) (vals (ms_envelopes s))) of
        [] \<Rightarrow> None | e # _ \<Rightarrow> Some e)"

definition get_response_ready_for_device :: "string \<Rightarrow> message_store \<Rightarrow> envelope option" where
  "get_response_ready_for_device d s =
     (case sort_key en_received (filter (\<lambda>e. en_state e = ResponseReady \<and> serves (ms_links s) d e) (vals (ms_envelopes s))) of
        [] \<Rightarrow> None | e # _ \<Rightarrow> Some e)"

definition sent_envelope :: "time \<Rightarrow> envelope \<Rightarrow> envelope" where
  "sent_envelope at e =
     e\<lparr>en_sent := Some at, en_response := None,
       en_state := (if en_terminal e = Some TermNeedsInput then AwaitingUser else EnvCompleted), en_updated := at\<rparr>"

definition mark_response_sent :: "string \<Rightarrow> time \<Rightarrow> message_store \<Rightarrow> envelope option \<times> message_store" where
  "mark_response_sent i at s =
     (case lookup (ms_envelopes s) i of
        None \<Rightarrow> (None, s)
      | Some e \<Rightarrow>
          if en_state e \<noteq> ResponseReady \<or> en_terminal e = None then (None, s)
          else (Some (sent_envelope at e), s\<lparr>ms_envelopes := adjust i (sent_envelope at) (ms_envelopes s)\<rparr>))"

definition save_delivery_receipt :: "delivery_receipt \<Rightarrow> message_store \<Rightarrow> message_store" where
  "save_delivery_receipt r s =
     (if lookup (ms_receipts s) (dr_hash r) = None then s\<lparr>ms_receipts := put (dr_hash r) r (ms_receipts s)\<rparr> else s)"

definition update_delivery_status ::
  "string \<Rightarrow> delivery_status \<Rightarrow> time \<Rightarrow> string option \<Rightarrow> message_store \<Rightarrow> bool \<times> message_store" where
  "update_delivery_status h st at fl s =
     (case lookup (ms_receipts s) h of
        None \<Rightarrow> (False, s)
      | Some r \<Rightarrow>
          if at < dr_occurred r then (False, s)
          else (True, s\<lparr>ms_receipts := put h (r\<lparr>dr_status := st, dr_occurred := at, dr_failure := fl\<rparr>) (ms_receipts s)\<rparr>))"

record message_snapshot =
  sn_open :: nat
  sn_queued :: nat
  sn_leased :: nat
  sn_awaiting :: nat
  sn_ready :: nat
  sn_oldest :: "time option"
  sn_active_devices :: nat
  sn_online_devices :: nat

definition operator_snapshot :: "time \<Rightarrow> message_store \<Rightarrow> message_snapshot" where
  "operator_snapshot since s =
     (let opens = filter is_open (vals (ms_envelopes s));
          active = filter (\<lambda>d. dv_revoked d = None) (vals (ms_devices s));
          count = (\<lambda>st. length (filter (\<lambda>e. en_state e = st) opens))
      in \<lparr>sn_open = length opens, sn_queued = count Queued, sn_leased = count Leased,
          sn_awaiting = count AwaitingUser, sn_ready = count ResponseReady,
          sn_oldest = (case sort (map en_received opens) of [] \<Rightarrow> None | t # _ \<Rightarrow> Some t),
          sn_active_devices = length active,
          sn_online_devices = length (filter (\<lambda>d. case dv_last_seen d of None \<Rightarrow> False | Some t \<Rightarrow> since \<le> t) active)\<rparr>)"

definition delete_expired :: "time \<Rightarrow> message_store \<Rightarrow> nat \<times> message_store" where
  "delete_expired now s =
     (let gone = map en_id (filter (\<lambda>e. en_expires e \<le> now) (vals (ms_envelopes s)));
          old_challenges = filter (\<lambda>(_, c). lc_expires c \<le> now) (ms_challenges s);
          old_links = filter (\<lambda>(_, l). pl_confirmed l = None \<and> pl_confirm_expires l \<le> now) (ms_links s)
      in (length gone + length old_challenges + length old_links,
          s\<lparr>ms_envelopes := filter (\<lambda>(k, _). k \<notin> set gone) (ms_envelopes s),
            ms_receipts := filter (\<lambda>(_, r). dr_envelope r \<notin> set gone) (ms_receipts s),
            ms_events := filter (\<lambda>(_, i). i \<notin> set gone) (ms_events s),
            ms_challenges := filter (\<lambda>(_, c). \<not> lc_expires c \<le> now) (ms_challenges s),
            ms_links := filter (\<lambda>(_, l). \<not> (pl_confirmed l = None \<and> pl_confirm_expires l \<le> now)) (ms_links s)\<rparr>))"

end
