(* ===== verification/MessagingService.thy ===== *)
theory MessagingService
  imports MessageStore
begin

text \<open>
  The messaging service (\<^verbatim>\<open>apps/server/src/messaging/service.ts\<close>) over the message store.
  The state is the store together with the texts handed to WhatsApp.  Configuration, cipher, hash, the membership
  port and the provider are the fields of one record, as in the constructor; clock readings and random
  identifiers are arguments in the order the code draws them.  Telemetry is left out.
\<close>

section \<open>Configuration and state\<close>

record outgoing =
  og_destination :: string
  og_text :: string
  og_request :: request_id
  og_at :: time

record wa_channel =
  wc_store :: message_store
  wc_sent :: "outgoing list"

record messaging =
  mg_cutoff :: time
  mg_lease_ms :: time
  mg_retention_ms :: time
  mg_intake :: bool
  mg_linking :: bool
  mg_claims :: bool
  mg_replies :: bool
  mg_capacity :: capacity
  mg_encrypt :: "string \<Rightarrow> string \<Rightarrow> string"
  mg_decrypt :: "string \<Rightarrow> string \<Rightarrow> failure + string"
  mg_hash :: "string \<Rightarrow> string"
  mg_member :: "user_id \<Rightarrow> household_id \<Rightarrow> bool"
  mg_provider :: "outgoing \<Rightarrow> failure + string"
  mg_contact :: "string \<Rightarrow> string"

definition maximum_free_service_send_cutoff :: time where
  "maximum_free_service_send_cutoff = 1790838000000"

definition construct_service :: "messaging \<Rightarrow> failure + messaging" where
  "construct_service M =
     (if maximum_free_service_send_cutoff < mg_cutoff M then Inl (OtherError ''Error'')
      else if cap_per_link (mg_capacity M) < 1 \<or> cap_global (mg_capacity M) < cap_per_link (mg_capacity M)
      then Inl (OtherError ''Error'')
      else Inr M)"

type_synonym 'a channel_action = "(failure, wa_channel, 'a) action"

definition from_store :: "(message_store \<Rightarrow> 'a) \<Rightarrow> 'a channel_action" where
  "from_store f = reads (\<lambda>w. f (wc_store w))"

definition on_store :: "(message_store \<Rightarrow> 'a \<times> message_store) \<Rightarrow> 'a channel_action" where
  "on_store f w = (case f (wc_store w) of (x, s) \<Rightarrow> (Inr x, w\<lparr>wc_store := s\<rparr>))"

definition try_store :: "(message_store \<Rightarrow> failure + message_store) \<Rightarrow> unit channel_action" where
  "try_store f w = (case f (wc_store w) of Inl e \<Rightarrow> (Inl e, w) | Inr s \<Rightarrow> (Inr (), w\<lparr>wc_store := s\<rparr>))"

definition ask_store :: "(message_store \<Rightarrow> (failure + 'a) \<times> message_store) \<Rightarrow> 'a channel_action" where
  "ask_store f w = (case f (wc_store w) of (r, s) \<Rightarrow> (r, w\<lparr>wc_store := s\<rparr>))"

definition require :: "bool \<Rightarrow> failure \<Rightarrow> unit channel_action" where
  "require b e = lift_result (\<lambda>_. guard b e)"

definition parse_id :: "string \<Rightarrow> string \<Rightarrow> unit channel_action" where
  "parse_id prefix i = require (opaque_id_ok prefix i) (OtherError ''ZodError'')"

definition send_service_text :: "messaging \<Rightarrow> outgoing \<Rightarrow> string channel_action" where
  "send_service_text M out w =
     (case mg_provider M out of Inl e \<Rightarrow> (Inl e, w) | Inr d \<Rightarrow> (Inr d, w\<lparr>wc_sent := wc_sent w @ [out]\<rparr>))"

section \<open>Guards\<close>

definition is_pre_cutoff :: "messaging \<Rightarrow> time \<Rightarrow> bool" where
  "is_pre_cutoff M now \<longleftrightarrow> now < mg_cutoff M"

definition require_pre_cutoff :: "messaging \<Rightarrow> time \<Rightarrow> unit channel_action" where
  "require_pre_cutoff M now = require (is_pre_cutoff M now) (app_error CHANNEL_DISABLED)"

definition require_runner_scopes :: "principal \<Rightarrow> unit channel_action" where
  "require_runner_scopes p =
     require (RunnerMessages \<in> set (p_scopes p) \<and> JournalRead \<in> set (p_scopes p)) (app_error FORBIDDEN)"

definition require_member :: "messaging \<Rightarrow> principal \<Rightarrow> household_id \<Rightarrow> unit channel_action" where
  "require_member M p h = require (mg_member M (p_user p) h) (app_error FORBIDDEN)"

definition require_device :: "principal \<Rightarrow> string \<Rightarrow> device channel_action" where
  "require_device p d =
     bind_action (from_store (get_device d)) (\<lambda>r.
       case r of
         None \<Rightarrow> throw (app_error FORBIDDEN)
       | Some c \<Rightarrow> if dv_user c \<noteq> p_user p \<or> dv_revoked c \<noteq> None then throw (app_error FORBIDDEN) else return c)"

definition require_active_link :: "string \<Rightarrow> provider_link channel_action" where
  "require_active_link l =
     bind_action (from_store (get_provider_link l)) (\<lambda>r.
       case r of
         None \<Rightarrow> throw (app_error FORBIDDEN)
       | Some k \<Rightarrow> if pl_confirmed k = None \<or> pl_revoked k \<noteq> None then throw (app_error FORBIDDEN) else return k)"

section \<open>Associated data and link codes\<close>

definition inbound_data :: "string \<Rightarrow> string" where
  "inbound_data l = ''provider-link:'' @ l @ '':inbound''"

definition destination_data :: "string \<Rightarrow> string" where
  "destination_data l = ''provider-link:'' @ l @ '':destination''"

definition response_data :: "string \<Rightarrow> string" where
  "response_data e = ''message:'' @ e @ '':response''"

definition host_session_data :: "string \<Rightarrow> string" where
  "host_session_data e = ''message:'' @ e @ '':host-session''"

definition link_prefix :: string where
  "link_prefix = ''FULLWELL LINK ''"

definition link_token_char :: "char \<Rightarrow> bool" where
  "link_token_char c \<longleftrightarrow> is_upper c \<or> is_lower c \<or> is_digit c \<or> c = CHR ''_'' \<or> c = CHR ''-''"

definition parse_link_token :: "string \<Rightarrow> string option" where
  "parse_link_token text =
     (if \<not> starts_with link_prefix text then None
      else let token = drop (length link_prefix) text
        in if length token = 43 \<and> list_all link_token_char token then Some token else None)"

definition inbound_text_ok :: "string \<Rightarrow> bool" where
  "inbound_text_ok t \<longleftrightarrow> str_len 1 1024 t"

section \<open>Replies\<close>

definition receipt_for :: "messaging \<Rightarrow> string \<Rightarrow> envelope \<Rightarrow> string \<Rightarrow> time \<Rightarrow> delivery_receipt" where
  "receipt_for M i e delivery now =
     \<lparr>dr_id = i, dr_envelope = en_id e, dr_hash = mg_hash M delivery, dr_status = StatusAccepted, dr_occurred = now,
      dr_failure = None, dr_created = now\<rparr>"

definition deliver_response :: "messaging \<Rightarrow> provider_link \<Rightarrow> envelope \<Rightarrow> string \<Rightarrow> time \<Rightarrow> string \<Rightarrow> bool channel_action" where
  "deliver_response M l e cipher now receipt_id =
     bind_action (lift_result (\<lambda>_. mg_decrypt M cipher (response_data (en_id e)))) (\<lambda>response.
     bind_action (lift_result (\<lambda>_. mg_decrypt M (pl_destination l) (destination_data (pl_id l)))) (\<lambda>destination.
     bind_action (send_service_text M \<lparr>og_destination = destination, og_text = response, og_request = en_request e, og_at = now\<rparr>) (\<lambda>delivery.
     bind_action (writes (\<lambda>w. w\<lparr>wc_store := save_delivery_receipt (receipt_for M receipt_id e delivery now) (wc_store w)\<rparr>)) (\<lambda>_.
     bind_action (on_store (mark_response_sent (en_id e) now)) (\<lambda>marked.
       if marked = None then throw (app_error INTERNAL_ERROR) else return True)))))"

definition try_send_response :: "messaging \<Rightarrow> provider_link \<Rightarrow> envelope \<Rightarrow> time \<Rightarrow> string \<Rightarrow> bool channel_action" where
  "try_send_response M l e now receipt_id =
     (case en_response e of
        None \<Rightarrow> return False
      | Some cipher \<Rightarrow>
          if en_state e \<noteq> ResponseReady then return False
          else if \<not> mg_replies M then return False
          else if \<not> is_pre_cutoff M now \<or> en_window e \<le> now then return False
          else deliver_response M l e cipher now receipt_id)"

section \<open>Devices and linking\<close>

definition register_device :: "messaging \<Rightarrow> principal \<Rightarrow> household_id \<Rightarrow> string \<Rightarrow> string \<Rightarrow> time \<Rightarrow> (string \<times> time) channel_action" where
  "register_device M p h name i now =
     bind_action (require (mg_linking M) (app_error CHANNEL_DISABLED)) (\<lambda>_.
     bind_action (require_runner_scopes p) (\<lambda>_.
     bind_action (require (opaque_id_ok ''hsh'' h \<and> str_len 1 80 (trim name)) (OtherError ''ZodError'')) (\<lambda>_.
     bind_action (require_member M p h) (\<lambda>_.
     bind_action (parse_id ''dev'' i) (\<lambda>_.
     bind_action (try_store (save_device \<lparr>dv_id = i, dv_user = p_user p, dv_household = h, dv_name = trim name,
        dv_last_seen = None, dv_revoked = None, dv_created = now, dv_updated = now\<rparr>)) (\<lambda>_.
     return (i, now)))))))"

definition clear_expired_link :: "principal \<Rightarrow> time \<Rightarrow> unit channel_action" where
  "clear_expired_link p now =
     bind_action (from_store (find_current_link_for_user (p_user p))) (\<lambda>existing.
       case existing of
         None \<Rightarrow> return ()
       | Some l \<Rightarrow>
           if pl_confirmed l = None \<and> pl_confirm_expires l \<le> now
           then bind_action (on_store (revoke_provider_link (p_user p) now)) (\<lambda>_. return ())
           else throw (app_error VALIDATION_FAILED))"

definition create_link_challenge ::
  "messaging \<Rightarrow> principal \<Rightarrow> string \<Rightarrow> household_id \<Rightarrow> string \<Rightarrow> time \<Rightarrow> time \<Rightarrow> string \<Rightarrow> string \<Rightarrow> (time \<times> string) channel_action" where
  "create_link_challenge M p session h d t0 now token i =
     bind_action (require (mg_linking M) (app_error CHANNEL_DISABLED)) (\<lambda>_.
     bind_action (require_pre_cutoff M t0) (\<lambda>_.
     bind_action (require (opaque_id_ok ''hsh'' h \<and> opaque_id_ok ''dev'' d) (OtherError ''ZodError'')) (\<lambda>_.
     bind_action (require_member M p h) (\<lambda>_.
     bind_action (require_device p d) (\<lambda>c.
     bind_action (require (dv_household c = h) (app_error FORBIDDEN)) (\<lambda>_.
     bind_action (clear_expired_link p now) (\<lambda>_.
     bind_action (require (mg_intake M) (app_error CHANNEL_DISABLED)) (\<lambda>_.
     bind_action (writes (\<lambda>w. w\<lparr>wc_store := save_link_challenge
        \<lparr>lc_id = i, lc_user = p_user p, lc_household = h, lc_device = d, lc_token_hash = mg_hash M token,
         lc_binding = mg_hash M session, lc_expires = now + 600000, lc_consumed = None, lc_created = now\<rparr> (wc_store w)\<rparr>)) (\<lambda>_.
     return (now + 600000, mg_contact M (link_prefix @ token)))))))))))"

datatype inbound_outcome =
    LinkPending | InboundQueued | InboundDuplicate | InboundOverloaded | InboundIgnored | ChannelClosed

definition pending_link :: "messaging \<Rightarrow> link_challenge \<Rightarrow> string \<Rightarrow> string \<Rightarrow> time \<Rightarrow> provider_link" where
  "pending_link M c l sender now =
     \<lparr>pl_id = l, pl_user = lc_user c, pl_household = lc_household c, pl_device = lc_device c, pl_identity = mg_hash M sender,
      pl_destination = mg_encrypt M sender (destination_data l), pl_binding = Some (lc_binding c),
      pl_confirm_expires = lc_expires c, pl_confirmed = None, pl_linked = now, pl_revoked = None, pl_updated = now\<rparr>"

definition confirmation_text :: string where
  "confirmation_text = ''Return to your Fullwell Account page to confirm this WhatsApp connection.''"

definition consume_link_code ::
  "messaging \<Rightarrow> string \<Rightarrow> string \<Rightarrow> time \<Rightarrow> time \<Rightarrow> string \<Rightarrow> request_id \<Rightarrow> inbound_outcome channel_action" where
  "consume_link_code M sender token now window l req =
     bind_action (on_store (consume_link_challenge (mg_hash M token) now)) (\<lambda>found.
       case found of
         None \<Rightarrow> return InboundIgnored
       | Some c \<Rightarrow>
           if \<not> mg_member M (lc_user c) (lc_household c) then return InboundIgnored
           else bind_action (from_store (get_device (lc_device c))) (\<lambda>r.
             case r of
               None \<Rightarrow> return InboundIgnored
             | Some d \<Rightarrow>
                 if dv_user d \<noteq> lc_user c \<or> dv_household d \<noteq> lc_household c \<or> dv_revoked d \<noteq> None then return InboundIgnored
                 else
                   bind_action (parse_id ''lnk'' l) (\<lambda>_.
                   bind_action (try_store (create_provider_link (pending_link M c l sender now))) (\<lambda>_.
                   if mg_replies M \<and> now < window \<and> is_pre_cutoff M now
                   then bind_action (parse_id ''req'' req) (\<lambda>_.
                        bind_action (send_service_text M \<lparr>og_destination = sender, og_text = confirmation_text,
                          og_request = req, og_at = now\<rparr>) (\<lambda>_. return LinkPending))
                   else return LinkPending))))"

definition confirm_link :: "messaging \<Rightarrow> principal \<Rightarrow> string \<Rightarrow> string \<Rightarrow> time \<Rightarrow> time \<Rightarrow> unit channel_action" where
  "confirm_link M p session l t0 now =
     bind_action (require_pre_cutoff M t0) (\<lambda>_.
     bind_action (parse_id ''lnk'' l) (\<lambda>_.
     bind_action (from_store (get_provider_link l)) (\<lambda>r.
       case r of
         None \<Rightarrow> throw (app_error FORBIDDEN)
       | Some k \<Rightarrow>
           if pl_user k \<noteq> p_user p \<or> pl_revoked k \<noteq> None \<or> pl_confirmed k \<noteq> None then throw (app_error FORBIDDEN)
           else
             bind_action (require_member M p (pl_household k)) (\<lambda>_.
             bind_action (on_store (confirm_provider_link (p_user p) l (mg_hash M session) now)) (\<lambda>confirmed.
               if confirmed = None then throw (app_error FORBIDDEN) else return ())))))"

definition revoke :: "principal \<Rightarrow> string \<Rightarrow> time \<Rightarrow> unit channel_action" where
  "revoke p d now =
     bind_action (parse_id ''dev'' d) (\<lambda>_.
     bind_action (on_store (revoke_device (p_user p) d now)) (\<lambda>device_revoked.
     bind_action (on_store (revoke_provider_link (p_user p) now)) (\<lambda>link_revoked.
       if \<not> device_revoked \<and> \<not> link_revoked then throw (app_error NOT_FOUND) else return ())))"

definition revoke_runner :: "principal \<Rightarrow> string \<Rightarrow> time \<Rightarrow> unit channel_action" where
  "revoke_runner p d now = bind_action (require_runner_scopes p) (\<lambda>_. revoke p d now)"

section \<open>Inbound texts\<close>

record inbound =
  ib_message :: string
  ib_sender :: string
  ib_text :: string
  ib_occurred :: "time option"

definition envelope_for :: "messaging \<Rightarrow> provider_link \<Rightarrow> inbound \<Rightarrow> string \<Rightarrow> string \<Rightarrow> string \<Rightarrow> time \<Rightarrow> time \<Rightarrow> envelope" where
  "envelope_for M l i text msg req occurred now =
     \<lparr>en_id = msg, en_request = req, en_link = pl_id l, en_message_hash = mg_hash M (ib_message i), en_state = Queued,
      en_inbound = mg_encrypt M text (inbound_data (pl_id l)), en_response = None, en_host_session = None, en_terminal = None,
      en_received = occurred, en_window = occurred + 86400000, en_lease = None, en_device = None, en_lease_expires = None,
      en_attempts = 0, en_failure = None, en_sent = None, en_expires = now + mg_retention_ms M, en_created = now, en_updated = now\<rparr>"

definition inbound_result :: "enqueue_result \<Rightarrow> inbound_outcome" where
  "inbound_result r = (case r of Overloaded \<Rightarrow> InboundOverloaded | Duplicate _ \<Rightarrow> InboundDuplicate | _ \<Rightarrow> InboundQueued)"

definition enqueue_text ::
  "messaging \<Rightarrow> provider_link \<Rightarrow> inbound \<Rightarrow> string \<Rightarrow> time \<Rightarrow> time \<Rightarrow> string \<Rightarrow> string \<Rightarrow> string \<Rightarrow> inbound_outcome channel_action" where
  "enqueue_text M l i text occurred now msg req receipt_id =
     bind_action (from_store (get_response_ready_for_link (pl_id l))) (\<lambda>ready.
     bind_action (case ready of None \<Rightarrow> return False | Some e \<Rightarrow> try_send_response M l e now receipt_id) (\<lambda>_.
     bind_action (parse_id ''msg'' msg) (\<lambda>_.
     bind_action (parse_id ''req'' req) (\<lambda>_.
     bind_action (ask_store (enqueue_or_resume (envelope_for M l i text msg req occurred now) now (mg_capacity M))) (\<lambda>r.
     return (inbound_result r))))))"

definition accept_text ::
  "messaging \<Rightarrow> inbound \<Rightarrow> string \<Rightarrow> time \<Rightarrow> time \<Rightarrow> string \<Rightarrow> string \<Rightarrow> string \<Rightarrow> inbound_outcome channel_action" where
  "accept_text M i text occurred now msg req receipt_id =
     bind_action (from_store (find_active_link_by_identity_hash (mg_hash M (ib_sender i)))) (\<lambda>found.
       case found of
         None \<Rightarrow> return InboundIgnored
       | Some l \<Rightarrow>
           if \<not> mg_member M (pl_user l) (pl_household l) then return InboundIgnored
           else bind_action (from_store (get_device (pl_device l))) (\<lambda>r.
             case r of
               None \<Rightarrow> return InboundIgnored
             | Some d \<Rightarrow>
                 if dv_revoked d \<noteq> None then return InboundIgnored
                 else enqueue_text M l i text occurred now msg req receipt_id))"

definition handle_inbound_text ::
  "messaging \<Rightarrow> inbound \<Rightarrow> time \<Rightarrow> string \<Rightarrow> string \<Rightarrow> string \<Rightarrow> string \<Rightarrow> inbound_outcome channel_action" where
  "handle_inbound_text M i now msg req receipt_id link_id =
     (if \<not> mg_intake M then return ChannelClosed
      else if \<not> is_pre_cutoff M now then return ChannelClosed
      else case ib_occurred i of
        None \<Rightarrow> throw (app_error VALIDATION_FAILED)
      | Some occurred \<Rightarrow>
          if now + 300000 < occurred then throw (app_error VALIDATION_FAILED)
          else if occurred + 86400000 \<le> now then return InboundIgnored
          else bind_action (require (inbound_text_ok (trim (ib_text i))) (OtherError ''ZodError'')) (\<lambda>_.
            case parse_link_token (trim (ib_text i)) of
              Some token \<Rightarrow>
                if \<not> mg_linking M then return ChannelClosed
                else consume_link_code M (ib_sender i) token now (occurred + 86400000) link_id req
            | None \<Rightarrow> accept_text M i (trim (ib_text i)) occurred now msg req receipt_id))"

section \<open>Runner work\<close>

record claimed =
  cl_envelope :: string
  cl_request :: request_id
  cl_lease :: string
  cl_lease_expires :: time
  cl_household :: household_id
  cl_text :: string
  cl_received :: time
  cl_window :: time
  cl_session :: "string option"

datatype claim_answer = NothingWaiting | Work claimed

definition flush_response :: "messaging \<Rightarrow> string \<Rightarrow> time \<Rightarrow> string \<Rightarrow> unit channel_action" where
  "flush_response M d now receipt_id =
     (if \<not> mg_replies M then return ()
      else bind_action (from_store (get_response_ready_for_device d)) (\<lambda>ready.
        case ready of
          None \<Rightarrow> return ()
        | Some e \<Rightarrow>
            bind_action (require_active_link (en_link e)) (\<lambda>l.
            bind_action (try_send_response M l e now receipt_id) (\<lambda>_. return ()))))"

definition describe_claim :: "messaging \<Rightarrow> envelope \<Rightarrow> string \<Rightarrow> provider_link \<Rightarrow> claimed channel_action" where
  "describe_claim M e lease l =
     bind_action (lift_result (\<lambda>_. case en_lease_expires e of None \<Rightarrow> Inl (app_error INTERNAL_ERROR) | Some t \<Rightarrow> Inr t)) (\<lambda>expires.
     bind_action (lift_result (\<lambda>_. mg_decrypt M (en_inbound e) (inbound_data (pl_id l)))) (\<lambda>text.
     bind_action (case en_host_session e of
         None \<Rightarrow> return None
       | Some c \<Rightarrow> bind_action (lift_result (\<lambda>_. mg_decrypt M c (host_session_data (en_id e)))) (\<lambda>x. return (Some x))) (\<lambda>session.
     return \<lparr>cl_envelope = en_id e, cl_request = en_request e, cl_lease = lease, cl_lease_expires = expires,
       cl_household = pl_household l, cl_text = text, cl_received = en_received e, cl_window = en_window e, cl_session = session\<rparr>)))"

definition claim_round ::
  "messaging \<Rightarrow> string \<Rightarrow> bool \<Rightarrow> time \<Rightarrow> string \<Rightarrow> string \<Rightarrow> claimed option channel_action" where
  "claim_round M d recover now lease receipt_id =
     bind_action (flush_response M d now receipt_id) (\<lambda>_.
     bind_action (parse_id ''lse'' lease) (\<lambda>_.
     bind_action (on_store (claim_envelope d lease now (now + mg_lease_ms M) recover)) (\<lambda>taken.
       case taken of
         None \<Rightarrow> return None
       | Some e \<Rightarrow>
           bind_action (require_active_link (en_link e)) (\<lambda>l.
           bind_action (describe_claim M e lease l) (\<lambda>c. return (Some c))))))"

text \<open>The polling loop.  Round \<open>k\<close> reads the clock twice, after a fruitless claim and after its pause; running out of
  fuel is the outer None.\<close>

fun claim_wait ::
  "nat \<Rightarrow> messaging \<Rightarrow> string \<Rightarrow> bool \<Rightarrow> time \<Rightarrow> (nat \<Rightarrow> time \<times> time) \<Rightarrow> (nat \<Rightarrow> string \<times> string) \<Rightarrow> nat \<Rightarrow> time \<Rightarrow> wa_channel
     \<Rightarrow> ((failure + claim_answer) \<times> wa_channel) option" where
  "claim_wait 0 M d recover deadline clock ids k now w = None"
| "claim_wait (Suc fuel) M d recover deadline clock ids k now w =
     (if deadline < now then Some (Inr NothingWaiting, w)
      else case claim_round M d recover now (fst (ids k)) (snd (ids k)) w of
        (Inl e, w') \<Rightarrow> Some (Inl e, w')
      | (Inr (Some c), w') \<Rightarrow> Some (Inr (Work c), w')
      | (Inr None, w') \<Rightarrow>
          if deadline \<le> fst (clock k) then Some (Inr NothingWaiting, w')
          else claim_wait fuel M d recover deadline clock ids (Suc k) (snd (clock k)) w')"

definition pause :: "time \<Rightarrow> time \<Rightarrow> time" where
  "pause deadline now = min 250 (max 1 (deadline - now))"

definition authorize_claim :: "messaging \<Rightarrow> principal \<Rightarrow> string \<Rightarrow> nat \<Rightarrow> time \<Rightarrow> unit channel_action" where
  "authorize_claim M p d wait_seconds t0 =
     bind_action (require (mg_claims M) (app_error CHANNEL_DISABLED)) (\<lambda>_.
     bind_action (require_pre_cutoff M t0) (\<lambda>_.
     bind_action (require_runner_scopes p) (\<lambda>_.
     bind_action (require (opaque_id_ok ''dev'' d \<and> wait_seconds \<le> 25) (OtherError ''ZodError'')) (\<lambda>_.
     bind_action (require_device p d) (\<lambda>c. require_member M p (dv_household c))))))"

definition claim_work ::
  "nat \<Rightarrow> messaging \<Rightarrow> principal \<Rightarrow> string \<Rightarrow> nat \<Rightarrow> bool \<Rightarrow> time \<times> time \<times> time \<Rightarrow> (nat \<Rightarrow> time \<times> time) \<Rightarrow> (nat \<Rightarrow> string \<times> string)
     \<Rightarrow> wa_channel \<Rightarrow> ((failure + claim_answer) \<times> wa_channel) option" where
  "claim_work fuel M p d wait_seconds recover start clock ids w =
     (case (start, authorize_claim M p d wait_seconds (fst start) w) of
        (_, Inl e, w') \<Rightarrow> Some (Inl e, w')
      | ((t0, t1, now), Inr _, w') \<Rightarrow> claim_wait fuel M d recover (t1 + int wait_seconds * 1000) clock ids 0 now w')"

definition runner_heartbeat :: "messaging \<Rightarrow> principal \<Rightarrow> string \<Rightarrow> string \<Rightarrow> string \<Rightarrow> time \<Rightarrow> time \<Rightarrow> time channel_action" where
  "runner_heartbeat M p e d lease t0 now =
     bind_action (require_pre_cutoff M t0) (\<lambda>_.
     bind_action (require_runner_scopes p) (\<lambda>_.
     bind_action (parse_id ''msg'' e) (\<lambda>_.
     bind_action (require (opaque_id_ok ''dev'' d \<and> opaque_id_ok ''lse'' lease) (OtherError ''ZodError'')) (\<lambda>_.
     bind_action (require_device p d) (\<lambda>_.
     bind_action (on_store (heartbeat e d lease now (now + mg_lease_ms M))) (\<lambda>r.
       if r = None then throw (app_error LEASE_CONFLICT) else return (now + mg_lease_ms M)))))))"

definition complete_work ::
  "messaging \<Rightarrow> principal \<Rightarrow> string \<Rightarrow> string \<Rightarrow> string \<Rightarrow> terminal_kind \<Rightarrow> string \<Rightarrow> string option \<Rightarrow> time \<Rightarrow> string
     \<Rightarrow> envelope_state channel_action" where
  "complete_work M p e d lease kind message session now receipt_id =
     bind_action (require_runner_scopes p) (\<lambda>_.
     bind_action (parse_id ''msg'' e) (\<lambda>_.
     bind_action (require (opaque_id_ok ''dev'' d \<and> opaque_id_ok ''lse'' lease \<and> str_len 1 480 (trim message)
        \<and> opt_all (str_len 1 256) session) (OtherError ''ZodError'')) (\<lambda>_.
     bind_action (require_device p d) (\<lambda>_.
     bind_action (on_store (complete_lease e d lease now kind (mg_encrypt M (trim message) (response_data e))
        (map_option (\<lambda>x. mg_encrypt M x (host_session_data e)) session))) (\<lambda>r.
       case r of
         None \<Rightarrow> throw (app_error LEASE_CONFLICT)
       | Some env \<Rightarrow>
           bind_action (require_active_link (en_link env)) (\<lambda>l.
           bind_action (try_send_response M l env now receipt_id) (\<lambda>sent.
           return (if \<not> sent then ResponseReady else if kind = TermNeedsInput then AwaitingUser else EnvCompleted))))))))"

definition authorize_runner :: "messaging \<Rightarrow> principal \<Rightarrow> string \<Rightarrow> household_id \<Rightarrow> time \<Rightarrow> unit channel_action" where
  "authorize_runner M p d h t0 =
     bind_action (require_pre_cutoff M t0) (\<lambda>_.
     bind_action (require_runner_scopes p) (\<lambda>_.
     bind_action (parse_id ''dev'' d) (\<lambda>_.
     bind_action (parse_id ''hsh'' h) (\<lambda>_.
     bind_action (require_device p d) (\<lambda>c.
     bind_action (require (dv_household c = h) (app_error FORBIDDEN)) (\<lambda>_.
     bind_action (require_member M p h) (\<lambda>_.
     bind_action (from_store (find_active_link_for_user (p_user p))) (\<lambda>r.
       case r of
         None \<Rightarrow> throw (app_error FORBIDDEN)
       | Some l \<Rightarrow> require (pl_device l = d \<and> pl_household l = h) (app_error FORBIDDEN)))))))))"

section \<open>Status, health, clean-up\<close>

datatype account_status =
    StatusDisabled time
  | StatusNotConfigured time
  | StatusSetup time string household_id string
  | StatusPending time string string household_id string time
  | StatusExpired time string string household_id string time
  | StatusLinked time string household_id string "time option"

definition link_status :: "messaging \<Rightarrow> provider_link \<Rightarrow> device \<Rightarrow> time \<Rightarrow> account_status" where
  "link_status M l d now =
     (if pl_confirmed l \<noteq> None then StatusLinked (mg_cutoff M) (dv_id d) (pl_household l) (dv_name d) (dv_last_seen d)
      else if pl_confirm_expires l \<le> now
      then StatusExpired (mg_cutoff M) (pl_id l) (dv_id d) (pl_household l) (dv_name d) (pl_confirm_expires l)
      else StatusPending (mg_cutoff M) (pl_id l) (dv_id d) (pl_household l) (dv_name d) (pl_confirm_expires l))"

definition setup_status :: "messaging \<Rightarrow> principal \<Rightarrow> string option \<Rightarrow> household_id option \<Rightarrow> account_status channel_action" where
  "setup_status M p d h =
     (case (d, h) of
        (Some d, Some h) \<Rightarrow>
          bind_action (parse_id ''dev'' d) (\<lambda>_.
          bind_action (parse_id ''hsh'' h) (\<lambda>_.
          bind_action (require_device p d) (\<lambda>c.
          bind_action (require_member M p h) (\<lambda>_.
          bind_action (require (dv_household c = h) (app_error FORBIDDEN)) (\<lambda>_.
          return (StatusSetup (mg_cutoff M) d h (dv_name c)))))))
      | _ \<Rightarrow> return (StatusNotConfigured (mg_cutoff M)))"

definition account_status ::
  "messaging \<Rightarrow> principal \<Rightarrow> string option \<Rightarrow> household_id option \<Rightarrow> time \<Rightarrow> time \<Rightarrow> account_status channel_action" where
  "account_status M p d h t0 t1 =
     (if \<not> mg_linking M \<or> \<not> is_pre_cutoff M t0 then return (StatusDisabled (mg_cutoff M))
      else bind_action (from_store (\<lambda>s.
        case find_current_link_for_user (p_user p) s of
          None \<Rightarrow> None
        | Some l \<Rightarrow>
            if \<not> mg_member M (p_user p) (pl_household l) then None
            else (case get_device (pl_device l) s of
                None \<Rightarrow> None
              | Some c \<Rightarrow> if dv_revoked c = None then Some (link_status M l c t1) else None))) (\<lambda>current.
        case current of Some st \<Rightarrow> return st | None \<Rightarrow> setup_status M p d h))"

definition cleanup :: "time \<Rightarrow> nat channel_action" where
  "cleanup now = on_store (delete_expired now)"

record messaging_health =
  mh_healthy :: bool
  mh_available :: bool
  mh_snapshot :: message_snapshot
  mh_oldest_age :: "int option"

definition messaging_health :: "messaging \<Rightarrow> time \<Rightarrow> messaging_health channel_action" where
  "messaging_health M now =
     from_store (\<lambda>s. let sn = operator_snapshot (now - 300000) s in
       \<lparr>mh_healthy = (sn_open sn = 0 \<or> 0 < sn_online_devices sn),
        mh_available = (is_pre_cutoff M now \<and> mg_intake M),
        mh_snapshot = sn,
        mh_oldest_age = map_option (\<lambda>t. max 0 ((now - t) div 1000)) (sn_oldest sn)\<rparr>)"

definition handle_delivery_status ::
  "messaging \<Rightarrow> string \<Rightarrow> delivery_status \<Rightarrow> time option \<Rightarrow> string option \<Rightarrow> time \<Rightarrow> bool channel_action" where
  "handle_delivery_status M delivery status occurred failure now =
     (case occurred of
        None \<Rightarrow> throw (app_error VALIDATION_FAILED)
      | Some at \<Rightarrow>
          if now + 300000 < at then throw (app_error VALIDATION_FAILED)
          else on_store (update_delivery_status (mg_hash M delivery) status at failure))"

end
