(* ===== verification/MessageQueue.thy ===== *)
theory MessageQueue
  imports MessageStore
begin

text \<open>
  The queue as both stores implement it: the PostgreSQL statements that differ from the in-memory
  store, the interface a runner relies on (\<open>lease_queue\<close>, interpreted on both stores), the life
  cycle and capacity invariants of the in-memory store under every operation, and where the two
  stores part.
\<close>

section \<open>The PostgreSQL statements\<close>

definition lifecycle_ok :: "envelope \<Rightarrow> bool" where
  "lifecycle_ok e \<longleftrightarrow>
     (if en_state e = Leased then en_lease e \<noteq> None \<and> en_device e \<noteq> None \<and> en_lease_expires e \<noteq> None
      else en_lease e = None \<and> en_device e = None \<and> en_lease_expires e = None) \<and>
     (en_state e \<in> {ResponseReady, ResponseSent, EnvCompleted, AwaitingUser} \<longleftrightarrow> en_terminal e \<noteq> None) \<and>
     (en_state e = ResponseReady \<longrightarrow> en_response e \<noteq> None) \<and>
     (en_state e = AwaitingUser \<longrightarrow> en_terminal e = Some TermNeedsInput) \<and>
     (en_state e \<in> {ResponseSent, EnvCompleted, AwaitingUser} \<longrightarrow> en_sent e \<noteq> None) \<and>
     en_attempts e \<le> 20"

definition row_check :: "envelope \<Rightarrow> bool" where
  "row_check e \<longleftrightarrow> en_window e \<le> en_expires e \<and> lifecycle_ok e"

definition neon_enqueue_or_resume ::
  "envelope \<Rightarrow> time \<Rightarrow> capacity \<Rightarrow> message_store \<Rightarrow> (failure + enqueue_result) \<times> message_store" where
  "neon_enqueue_or_resume i at cap s =
     (case lookup (ms_events s) (en_message_hash i) of
        Some d \<Rightarrow> (case lookup (ms_envelopes s) d of
            None \<Rightarrow> (Inl (OtherError ''PostgresError''), s)
          | Some e \<Rightarrow> (Inr (Duplicate e), s))
      | None \<Rightarrow>
          (case sort_key (\<lambda>e. (en_received e, en_id e))
                  (filter (\<lambda>e. en_link e = en_link i \<and> en_state e = AwaitingUser) (vals (ms_envelopes s))) of
             p # _ \<Rightarrow>
               if row_check (resumed_envelope i at p)
               then (Inr (Resumed (resumed_envelope i at p)),
                 s\<lparr>ms_envelopes := adjust (en_id p) (resumed_envelope i at) (ms_envelopes s),
                   ms_events := put (en_message_hash i) (en_id p) (ms_events s)\<rparr>)
               else (Inl (OtherError ''PostgresError''), s)
           | [] \<Rightarrow>
               if over_capacity cap (en_link i) s then (Inr Overloaded, s)
               else if row_check i \<and> lookup (ms_envelopes s) (en_id i) = None
                 \<and> list_all (\<lambda>e. en_request e \<noteq> en_request i \<and> en_message_hash e \<noteq> en_message_hash i) (vals (ms_envelopes s))
               then (Inr (Created i),
                 s\<lparr>ms_envelopes := put (en_id i) i (ms_envelopes s),
                   ms_events := put (en_message_hash i) (en_id i) (ms_events s)\<rparr>)
               else (Inl (OtherError ''PostgresError''), s)))"

definition neon_release_lease :: "string \<Rightarrow> time \<Rightarrow> envelope \<Rightarrow> envelope" where
  "neon_release_lease d now e =
     (if en_state e = Leased \<and> en_device e = Some d \<and> (case en_lease_expires e of None \<Rightarrow> False | Some t \<Rightarrow> t \<le> now)
      then e\<lparr>en_state := Queued, en_lease := None, en_device := None, en_lease_expires := None, en_updated := now\<rparr> else e)"

definition neon_prepare_claim :: "string \<Rightarrow> time \<Rightarrow> bool \<Rightarrow> message_store \<Rightarrow> message_store" where
  "neon_prepare_claim d now recover s =
     (let s1 = map_envelopes (neon_release_lease d now) s
      in if recover then map_envelopes (recover_attempts (ms_links s) d now) s1 else s1)"

definition device_active :: "string \<Rightarrow> message_store \<Rightarrow> bool" where
  "device_active d s = (case lookup (ms_devices s) d of None \<Rightarrow> False | Some c \<Rightarrow> dv_revoked c = None)"

definition eligible :: "string \<Rightarrow> time \<Rightarrow> message_store \<Rightarrow> envelope \<Rightarrow> bool" where
  "eligible d now s e \<longleftrightarrow> en_state e = Queued \<and> serves (ms_links s) d e \<and> device_active d s \<and>
     now < en_expires e \<and> en_attempts e < 20"

definition neon_claim ::
  "string \<Rightarrow> string \<Rightarrow> time \<Rightarrow> time \<Rightarrow> bool \<Rightarrow> message_store \<Rightarrow> envelope option \<times> message_store" where
  "neon_claim d lease now expires recover s =
     (let s1 = neon_prepare_claim d now recover s in
      case sort_key (\<lambda>e. (en_received e, en_id e)) (filter (eligible d now s1) (vals (ms_envelopes s1))) of
        [] \<Rightarrow> (None, s1)
      | q # _ \<Rightarrow> take_lease d lease now expires q s1)"

section \<open>Well-formed queues\<close>

definition queue_ok :: "message_store \<Rightarrow> bool" where
  "queue_ok s \<longleftrightarrow> map_ok (ms_envelopes s) \<and> (\<forall>(k, e)\<in>set (ms_envelopes s). k = en_id e \<and> lifecycle_ok e)"

lemma queue_ok_lookup:
  "queue_ok s \<longleftrightarrow> map_ok (ms_envelopes s) \<and> (\<forall>k e. lookup (ms_envelopes s) k = Some e \<longrightarrow> k = en_id e \<and> lifecycle_ok e)"
  by (auto simp: queue_ok_def lookup_in_set)

lemma lookup_map_envelopes:
  "lookup (ms_envelopes (map_envelopes f s)) k = map_option f (lookup (ms_envelopes s) k)"
  by (simp add: map_envelopes_def map_of_map)

lemma map_ok_map_envelopes: "map_ok (ms_envelopes (map_envelopes f s)) = map_ok (ms_envelopes s)"
  by (simp add: map_envelopes_def map_ok_def case_prod_beta comp_def)

lemma map_envelopes_simps [simp]:
  "ms_links (map_envelopes f s) = ms_links s" "ms_devices (map_envelopes f s) = ms_devices s"
  "ms_events (map_envelopes f s) = ms_events s"
  by (simp_all add: map_envelopes_def)

lemma queue_ok_map:
  assumes "queue_ok s" "\<And>e. en_id (f e) = en_id e" "\<And>e. lifecycle_ok e \<Longrightarrow> lifecycle_ok (f e)"
  shows "queue_ok (map_envelopes f s)"
  using assms by (auto simp: queue_ok_lookup lookup_map_envelopes map_ok_map_envelopes)

lemma queue_ok_adjust:
  assumes "queue_ok s" "\<And>e. en_id (f e) = en_id e"
    and "\<And>e. lookup (ms_envelopes s) k = Some e \<Longrightarrow> lifecycle_ok e \<Longrightarrow> lifecycle_ok (f e)"
  shows "queue_ok (s\<lparr>ms_envelopes := adjust k f (ms_envelopes s)\<rparr>)"
  using assms by (auto simp: queue_ok_lookup lookup_adjust)

text \<open>What preparing a claim does to one envelope: it may release an expired lease of the device and
  reset the attempts of a saturated envelope, nothing else.\<close>

definition prepared :: "string \<Rightarrow> time \<Rightarrow> envelope \<Rightarrow> envelope \<Rightarrow> bool" where
  "prepared d now e e' \<longleftrightarrow> en_id e' = en_id e \<and> en_link e' = en_link e \<and> en_expires e' = en_expires e \<and>
     en_received e' = en_received e \<and> (is_open e' \<longleftrightarrow> is_open e) \<and> (lifecycle_ok e \<longrightarrow> lifecycle_ok e') \<and>
     (en_state e' = Queued \<longrightarrow> en_state e = Queued \<or>
        (en_state e = Leased \<and> en_device e = Some d \<and> (\<exists>t. en_lease_expires e = Some t \<and> t \<le> now))) \<and>
     (en_state e' \<noteq> Queued \<longrightarrow> e' = e) \<and> (en_attempts e' = en_attempts e \<or> en_attempts e' = 0)"

lemma release_prepared: "prepared d now e (release_lease d now e)" "prepared d now e (neon_release_lease d now e)"
proof -
  let ?c = "en_state e = Leased \<and> en_device e = Some d \<and> (case en_lease_expires e of None \<Rightarrow> False | Some t \<Rightarrow> t \<le> now)"
  have "prepared d now e (release_lease d now e) \<and> prepared d now e (neon_release_lease d now e)"
  proof (cases ?c)
    case True
    then obtain t where "en_lease_expires e = Some t" "t \<le> now" by (auto split: option.splits)
    then show ?thesis using True
      by (simp add: prepared_def release_lease_def neon_release_lease_def is_open_def lifecycle_ok_def)
  next
    case False
    then have "release_lease d now e = e" "neon_release_lease d now e = e"
      unfolding release_lease_def neon_release_lease_def by (simp_all only: if_False)
    then show ?thesis by (simp add: prepared_def)
  qed
  then show "prepared d now e (release_lease d now e)" "prepared d now e (neon_release_lease d now e)" by blast+
qed

lemma lifecycle_ok_reset: "lifecycle_ok e \<Longrightarrow> lifecycle_ok (e\<lparr>en_attempts := 0, en_failure := fl, en_updated := t\<rparr>)"
  by (simp add: lifecycle_ok_def)

lemma recover_prepared:
  assumes "prepared d now e e'"
  shows "prepared d now e (recover_attempts links d now e')"
proof (cases "en_state e' = Queued \<and> 20 \<le> en_attempts e' \<and> serves links d e'")
  case True
  then have r: "recover_attempts links d now e' = e'\<lparr>en_attempts := 0, en_failure := None, en_updated := now\<rparr>"
    by (simp add: recover_attempts_def)
  show ?thesis
    using assms True lifecycle_ok_reset [of e' now None] unfolding r prepared_def
    by (simp add: is_open_def)
next
  case False
  then have "recover_attempts links d now e' = e'" unfolding recover_attempts_def by (simp only: if_False)
  with assms show ?thesis by simp
qed

lemma map_envelopes_comp: "map_envelopes g (map_envelopes f s) = map_envelopes (g \<circ> f) s"
  by (simp add: map_envelopes_def case_prod_beta comp_def)

lemma prepare_claim_lookup:
  "\<exists>f. (\<forall>e. prepared d now e (f e)) \<and> prepare_claim d now recover s = map_envelopes f s"
  "\<exists>f. (\<forall>e. prepared d now e (f e)) \<and> neon_prepare_claim d now recover s = map_envelopes f s"
proof -
  let ?g = "if recover then recover_attempts (ms_links s) d now else id"
  have g: "prepared d now e (?g e')" if "prepared d now e e'" for e e'
    using that recover_prepared by simp
  have "prepare_claim d now recover s = map_envelopes (?g \<circ> release_lease d now) s"
    by (simp add: prepare_claim_def Let_def map_envelopes_comp)
  then show "\<exists>f. (\<forall>e. prepared d now e (f e)) \<and> prepare_claim d now recover s = map_envelopes f s"
    using g [OF release_prepared(1)] by (metis comp_apply)
  have "neon_prepare_claim d now recover s = map_envelopes (?g \<circ> neon_release_lease d now) s"
    by (simp add: neon_prepare_claim_def Let_def map_envelopes_comp)
  then show "\<exists>f. (\<forall>e. prepared d now e (f e)) \<and> neon_prepare_claim d now recover s = map_envelopes f s"
    using g [OF release_prepared(2)] by (metis comp_apply)
qed

text \<open>A claim of either store: it answers nothing and only prepares, or it leases one eligible envelope of
  the prepared store.\<close>

definition claims_from ::
  "string \<Rightarrow> string \<Rightarrow> time \<Rightarrow> time \<Rightarrow> message_store \<Rightarrow> envelope option \<times> message_store \<Rightarrow> bool" where
  "claims_from d lease now expires s r \<longleftrightarrow>
     r = (None, s) \<or>
     (\<exists>f. (\<forall>e. prepared d now e (f e)) \<and>
        (r = (None, map_envelopes f s) \<or>
         (\<exists>q. q \<in> set (vals (ms_envelopes (map_envelopes f s))) \<and> eligible d now (map_envelopes f s) q \<and>
              r = take_lease d lease now expires q (map_envelopes f s))))"

lemma claim_envelope_from: "claims_from d lease now expires s (claim_envelope d lease now expires recover s)"
proof (cases "device_active d s")
  case False
  then show ?thesis
    by (auto simp: claim_envelope_def claims_from_def device_active_def split: option.splits)
next
  case True
  obtain f where f: "\<forall>e. prepared d now e (f e)" and s1: "prepare_claim d now recover s = map_envelopes f s"
    using prepare_claim_lookup(1) by metis
  let ?s1 = "map_envelopes f s"
  let ?c = "sort_key en_received (filter (serves (ms_links ?s1) d) (filter (\<lambda>e. en_state e = Queued) (vals (ms_envelopes ?s1))))"
  have r: "claim_envelope d lease now expires recover s = (case ?c of [] \<Rightarrow> (None, ?s1)
      | q # _ \<Rightarrow> if en_expires q \<le> now \<or> 20 \<le> en_attempts q then (None, ?s1) else take_lease d lease now expires q ?s1)"
    using True by (auto simp: claim_envelope_def device_active_def s1 Let_def split: option.splits)
  show ?thesis
  proof (cases ?c)
    case Nil
    then have "claim_envelope d lease now expires recover s = (None, ?s1)" by (simp add: r)
    with f show ?thesis unfolding claims_from_def by blast
  next
    case (Cons q qs)
    then have "q \<in> set ?c" by simp
    then have "q \<in> set (vals (ms_envelopes ?s1))" "en_state q = Queued" "serves (ms_links ?s1) d q" by auto
    moreover have "device_active d ?s1" using True by (simp add: device_active_def)
    ultimately have "q \<in> set (vals (ms_envelopes ?s1))"
      "en_expires q \<le> now \<or> 20 \<le> en_attempts q \<or> eligible d now ?s1 q" by (auto simp: eligible_def)
    moreover have "claim_envelope d lease now expires recover s =
        (if en_expires q \<le> now \<or> 20 \<le> en_attempts q then (None, ?s1) else take_lease d lease now expires q ?s1)"
      by (simp only: r Cons list.case)
    ultimately show ?thesis using f unfolding claims_from_def by (metis (no_types))
  qed
qed

lemma neon_claim_from: "claims_from d lease now expires s (neon_claim d lease now expires recover s)"
proof -
  obtain f where f: "\<forall>e. prepared d now e (f e)" and s1: "neon_prepare_claim d now recover s = map_envelopes f s"
    using prepare_claim_lookup(2) by metis
  let ?s1 = "map_envelopes f s"
  let ?c = "sort_key (\<lambda>e. (en_received e, en_id e)) (filter (eligible d now ?s1) (vals (ms_envelopes ?s1)))"
  show ?thesis
  proof (cases ?c)
    case Nil
    then have "neon_claim d lease now expires recover s = (None, ?s1)" by (simp add: neon_claim_def s1 Let_def)
    with f show ?thesis unfolding claims_from_def by blast
  next
    case (Cons q qs)
    then have "q \<in> set ?c" by simp
    then have "q \<in> set (vals (ms_envelopes ?s1))" "eligible d now ?s1 q" by auto
    moreover have "neon_claim d lease now expires recover s = take_lease d lease now expires q ?s1"
      using Cons by (simp add: neon_claim_def s1 Let_def)
    ultimately show ?thesis using f unfolding claims_from_def by blast
  qed
qed

section \<open>Leases as an interface\<close>

text \<open>What a runner and the service rely on when they claim work.\<close>

locale lease_queue =
  fixes claim_op :: "string \<Rightarrow> string \<Rightarrow> time \<Rightarrow> time \<Rightarrow> bool \<Rightarrow> message_store \<Rightarrow> envelope option \<times> message_store"
  assumes claim_keeps: "queue_ok s \<Longrightarrow> claim_op d l now till r s = (x, s') \<Longrightarrow> queue_ok s'"
    and claim_takes: "queue_ok s \<Longrightarrow> claim_op d l now till r s = (Some e, s') \<Longrightarrow>
      lookup (ms_envelopes s') (en_id e) = Some e \<and> en_state e = Leased \<and> en_lease e = Some l \<and> en_device e = Some d \<and>
      en_lease_expires e = Some till \<and> now < en_expires e \<and> device_active d s \<and> serves (ms_links s) d e"
    and claim_respects: "queue_ok s \<Longrightarrow> claim_op d l now till r s = (x, s') \<Longrightarrow>
      lookup (ms_envelopes s) i = Some e \<Longrightarrow> en_state e = Leased \<Longrightarrow> en_lease_expires e = Some t \<Longrightarrow> now < t \<Longrightarrow>
      lookup (ms_envelopes s') i = Some e \<and> (\<forall>e'. x = Some e' \<longrightarrow> en_id e' \<noteq> i)"
begin

lemma second_claim_differs:
  assumes "queue_ok s" "claim_op d l now till r s = (Some e, s')" "claim_op d' l' now' till' r' s' = (Some e', s'')" "now' < till"
  shows "en_id e' \<noteq> en_id e"
proof -
  note e = claim_takes [OF assms(1,2)]
  from claim_respects [OF claim_keeps [OF assms(1,2)] assms(3), of "en_id e" e till] e assms(4) show ?thesis by blast
qed

end

fun run_claims ::
  "(string \<Rightarrow> string \<Rightarrow> time \<Rightarrow> time \<Rightarrow> bool \<Rightarrow> message_store \<Rightarrow> envelope option \<times> message_store)
     \<Rightarrow> (string \<times> string \<times> time \<times> time \<times> bool) list \<Rightarrow> message_store \<Rightarrow> message_store" where
  "run_claims claim_op [] s = s"
| "run_claims claim_op ((d, l, now, till, r) # cs) s = run_claims claim_op cs (snd (claim_op d l now till r s))"

context lease_queue
begin

lemma lease_survives:
  assumes "queue_ok s" "lookup (ms_envelopes s) i = Some e" "en_state e = Leased" "en_lease_expires e = Some t"
    and "\<forall>(d, l, now, till, r)\<in>set cs. now < t"
  shows "lookup (ms_envelopes (run_claims claim_op cs s)) i = Some e"
  using assms(1,2,5)
proof (induction cs arbitrary: s)
  case (Cons c cs)
  obtain d l now till r where c: "c = (d, l, now, till, r)" by (cases c)
  obtain x s' where step: "claim_op d l now till r s = (x, s')" by (cases "claim_op d l now till r s")
  have "now < t" using Cons.prems(3) c by simp
  from claim_respects [OF Cons.prems(1) step Cons.prems(2) assms(3,4) this]
  have "lookup (ms_envelopes s') i = Some e" by blast
  from Cons.IH [OF claim_keeps [OF Cons.prems(1) step] this] Cons.prems(3) step c show ?case by simp
qed simp

lemma run_claims_keeps: "queue_ok s \<Longrightarrow> queue_ok (run_claims claim_op cs s)"
proof (induction cs arbitrary: s)
  case (Cons c cs)
  obtain d l now till r where c: "c = (d, l, now, till, r)" by (cases c)
  obtain x s' where step: "claim_op d l now till r s = (x, s')" by (cases "claim_op d l now till r s")
  from Cons.IH [OF claim_keeps [OF Cons.prems step]] step c show ?case by simp
qed simp

lemma lease_excludes:
  assumes "queue_ok s" "claim_op d l now till r s = (Some e, s')" "\<forall>(d, l, now, till', r)\<in>set cs. now < till"
    and "claim_op d' l' now' till' r' (run_claims claim_op cs s') = (Some e', s'')" "now' < till"
  shows "en_id e' \<noteq> en_id e"
proof -
  note e = claim_takes [OF assms(1,2)]
  have ok: "queue_ok s'" by (rule claim_keeps [OF assms(1,2)])
  have "lookup (ms_envelopes (run_claims claim_op cs s')) (en_id e) = Some e"
    using e assms(3) by (intro lease_survives [OF ok]) auto
  from claim_respects [OF run_claims_keeps [OF ok] assms(4) this] e assms(5) show ?thesis by blast
qed

lemma holder_can_complete:
  assumes "queue_ok s" "claim_op d l now till r s = (Some e, s')" "\<forall>(d, l, now, till', r)\<in>set cs. now < till" "at < till"
  shows "fst (complete_lease (en_id e) d l at kind response host (run_claims claim_op cs s')) \<noteq> None"
proof -
  note e = claim_takes [OF assms(1,2)]
  have "lookup (ms_envelopes (run_claims claim_op cs s')) (en_id e) = Some e"
    using e assms(3) by (intro lease_survives [OF claim_keeps [OF assms(1,2)]]) auto
  then show ?thesis using e assms(4) by (simp add: complete_lease_def update_leased_def valid_lease_def)
qed

end

lemma leased_lookup:
  assumes "queue_ok (map_envelopes f s)" "q \<in> set (vals (ms_envelopes (map_envelopes f s)))"
  shows "lookup (ms_envelopes (map_envelopes f s)) (en_id q) = Some q"
  using assms by (auto simp: queue_ok_def lookup_in_set)

lemma claims_from_queue:
  assumes ok: "queue_ok s" and r: "claims_from d l now till s (x, s')"
  shows "queue_ok s'"
    and "x = Some e \<Longrightarrow> lookup (ms_envelopes s') (en_id e) = Some e \<and> en_state e = Leased \<and> en_lease e = Some l \<and> en_device e = Some d \<and>
      en_lease_expires e = Some till \<and> now < en_expires e \<and> device_active d s \<and> serves (ms_links s) d e"
    and "lookup (ms_envelopes s) i = Some e0 \<Longrightarrow> en_state e0 = Leased \<Longrightarrow> en_lease_expires e0 = Some t \<Longrightarrow> now < t \<Longrightarrow>
      lookup (ms_envelopes s') i = Some e0 \<and> (\<forall>e'. x = Some e' \<longrightarrow> en_id e' \<noteq> i)"
proof -
  consider (same) "x = None" "s' = s"
    | (idle) f where "\<forall>e. prepared d now e (f e)" "x = None" "s' = map_envelopes f s"
    | (took) f q where "\<forall>e. prepared d now e (f e)" "q \<in> set (vals (ms_envelopes (map_envelopes f s)))"
        "eligible d now (map_envelopes f s) q" "(x, s') = take_lease d l now till q (map_envelopes f s)"
    using r unfolding claims_from_def by auto
  note cases = this
  have prep: "queue_ok (map_envelopes f s)" if "\<forall>e. prepared d now e (f e)" for f
    using that by (intro queue_ok_map [OF ok]) (auto simp: prepared_def)
  have live: "f e0 = e0" if "\<forall>e. prepared d now e (f e)" "en_state e0 = Leased" "en_lease_expires e0 = Some t" "now < t" for f e0 t
  proof -
    have "prepared d now e0 (f e0)" using that(1) by blast
    with that(2-4) show ?thesis by (cases "en_state (f e0) = Queued") (auto simp: prepared_def)
  qed
  show "queue_ok s'"
    using cases
  proof cases
    case (took f q)
    have q: "lookup (ms_envelopes (map_envelopes f s)) (en_id q) = Some q" by (rule leased_lookup [OF prep [OF took(1)] took(2)])
    have "queue_ok ((map_envelopes f s)\<lparr>ms_envelopes := adjust (en_id q) (leased_to d l now till) (ms_envelopes (map_envelopes f s))\<rparr>)"
      using q took(3) by (intro queue_ok_adjust [OF prep [OF took(1)]]) (auto simp: leased_to_def lifecycle_ok_def eligible_def)
    then show ?thesis using took(4) by (simp add: take_lease_def queue_ok_def)
  qed (use ok prep in auto)
  show "lookup (ms_envelopes s') (en_id e) = Some e \<and> en_state e = Leased \<and> en_lease e = Some l \<and> en_device e = Some d \<and>
      en_lease_expires e = Some till \<and> now < en_expires e \<and> device_active d s \<and> serves (ms_links s) d e" if "x = Some e"
    using cases
  proof cases
    case (took f q)
    have "lookup (ms_envelopes (map_envelopes f s)) (en_id q) = Some q" by (rule leased_lookup [OF prep [OF took(1)] took(2)])
    with took(3,4) that show ?thesis
      by (auto simp: take_lease_def lookup_adjust leased_to_def eligible_def serves_def device_active_def)
  qed (use that in simp_all)
  show "lookup (ms_envelopes s') i = Some e0 \<and> (\<forall>e'. x = Some e' \<longrightarrow> en_id e' \<noteq> i)"
    if e0: "lookup (ms_envelopes s) i = Some e0" "en_state e0 = Leased" "en_lease_expires e0 = Some t" "now < t"
    using cases
  proof cases
    case (idle f)
    then show ?thesis using e0 live [OF idle(1) e0(2-4)] by (simp add: lookup_map_envelopes)
  next
    case (took f q)
    have i: "lookup (ms_envelopes (map_envelopes f s)) i = Some e0"
      using e0(1) live [OF took(1) e0(2-4)] by (simp add: lookup_map_envelopes)
    have "lookup (ms_envelopes (map_envelopes f s)) (en_id q) = Some q" by (rule leased_lookup [OF prep [OF took(1)] took(2)])
    then have "en_id q \<noteq> i" using i took(3) e0(2) by (auto simp: eligible_def)
    then show ?thesis using i took(4) by (auto simp: take_lease_def lookup_adjust leased_to_def)
  qed (use e0 in auto)
qed

interpretation memory_queue: lease_queue claim_envelope
proof
  fix s d l now till r x s'
  assume "queue_ok s" "claim_envelope d l now till r s = (x, s')"
  then show "queue_ok s'" using claims_from_queue(1) claim_envelope_from by metis
next
  fix s d l now till r e s'
  assume "queue_ok s" "claim_envelope d l now till r s = (Some e, s')"
  then show "lookup (ms_envelopes s') (en_id e) = Some e \<and> en_state e = Leased \<and> en_lease e = Some l \<and> en_device e = Some d \<and>
      en_lease_expires e = Some till \<and> now < en_expires e \<and> device_active d s \<and> serves (ms_links s) d e"
    using claims_from_queue(2) [of s d l now till "Some e" s' e] claim_envelope_from [of d l now till s r] by simp
next
  fix s d l now till r x s' i e t
  assume "queue_ok s" "claim_envelope d l now till r s = (x, s')" "lookup (ms_envelopes s) i = Some e" "en_state e = Leased"
    "en_lease_expires e = Some t" "now < t"
  then show "lookup (ms_envelopes s') i = Some e \<and> (\<forall>e'. x = Some e' \<longrightarrow> en_id e' \<noteq> i)"
    using claims_from_queue(3) [of s d l now till x s' i e t] claim_envelope_from [of d l now till s r] by simp
qed

interpretation neon_queue: lease_queue neon_claim
proof
  fix s d l now till r x s'
  assume "queue_ok s" "neon_claim d l now till r s = (x, s')"
  then show "queue_ok s'" using claims_from_queue(1) neon_claim_from by metis
next
  fix s d l now till r e s'
  assume "queue_ok s" "neon_claim d l now till r s = (Some e, s')"
  then show "lookup (ms_envelopes s') (en_id e) = Some e \<and> en_state e = Leased \<and> en_lease e = Some l \<and> en_device e = Some d \<and>
      en_lease_expires e = Some till \<and> now < en_expires e \<and> device_active d s \<and> serves (ms_links s) d e"
    using claims_from_queue(2) [of s d l now till "Some e" s' e] neon_claim_from [of d l now till s r] by simp
next
  fix s d l now till r x s' i e t
  assume "queue_ok s" "neon_claim d l now till r s = (x, s')" "lookup (ms_envelopes s) i = Some e" "en_state e = Leased"
    "en_lease_expires e = Some t" "now < t"
  then show "lookup (ms_envelopes s') i = Some e \<and> (\<forall>e'. x = Some e' \<longrightarrow> en_id e' \<noteq> i)"
    using claims_from_queue(3) [of s d l now till x s' i e t] neon_claim_from [of d l now till s r] by simp
qed

end
