(* ===== verification/MessageSafety.thy ===== *)
theory MessageSafety
  imports MessageQueue
begin

text \<open>
  Every operation of the in-memory message store as a step, the invariant of its reachable states
  (life cycle of envelopes, capacity, one active link per person and sender identity) and the
  properties of the channel's queue.
\<close>

section \<open>Steps\<close>

definition new_envelope :: "envelope \<Rightarrow> bool" where
  "new_envelope i \<longleftrightarrow> en_state i = Queued \<and> en_lease i = None \<and> en_device i = None \<and> en_lease_expires i = None \<and>
     en_terminal i = None \<and> en_attempts i = 0"

inductive store_step :: "capacity \<Rightarrow> message_store \<Rightarrow> message_store \<Rightarrow> bool" for cap where
  enqueue: "new_envelope i \<Longrightarrow> enqueue_or_resume i at cap s = (x, s') \<Longrightarrow> store_step cap s s'"
| claim: "claim_envelope d l now till r s = (y, s') \<Longrightarrow> store_step cap s s'"
| heartbeat: "heartbeat i d l now till s = (y, s') \<Longrightarrow> store_step cap s s'"
| complete: "complete_lease i d l now kind response host s = (y, s') \<Longrightarrow> store_step cap s s'"
| mark_sent: "mark_response_sent i at s = (y, s') \<Longrightarrow> store_step cap s s'"
| delete: "delete_expired now s = (n, s') \<Longrightarrow> store_step cap s s'"
| save_device: "save_device dev s = Inr s' \<Longrightarrow> store_step cap s s'"
| revoke_device: "revoke_device u d at s = (b, s') \<Longrightarrow> store_step cap s s'"
| save_challenge: "store_step cap s (save_link_challenge c s)"
| consume: "consume_link_challenge t at s = (z, s') \<Longrightarrow> store_step cap s s'"
| create_link: "pl_id k \<notin> set (map fst (ms_links s)) \<Longrightarrow> create_provider_link k s = Inr s' \<Longrightarrow> store_step cap s s'"
| confirm: "confirm_provider_link u lid binding at s = (k', s') \<Longrightarrow> store_step cap s s'"
| revoke_link: "revoke_provider_link u at s = (b, s') \<Longrightarrow> store_step cap s s'"
| save_receipt: "store_step cap s (save_delivery_receipt dr s)"
| update_status: "update_delivery_status h st at fl s = (b, s') \<Longrightarrow> store_step cap s s'"

inductive_cases store_stepE: "store_step cap s s'"

inductive store_reachable :: "capacity \<Rightarrow> message_store \<Rightarrow> bool" for cap where
  initial: "store_reachable cap empty_messages"
| step: "store_reachable cap s \<Longrightarrow> store_step cap s s' \<Longrightarrow> store_reachable cap s'"

section \<open>Counting open envelopes\<close>

definition count_open :: "message_store \<Rightarrow> nat" where
  "count_open s = length (filter is_open (vals (ms_envelopes s)))"

definition count_link :: "string \<Rightarrow> message_store \<Rightarrow> nat" where
  "count_link l s = length (filter (\<lambda>e. en_link e = l) (filter is_open (vals (ms_envelopes s))))"

definition count_of :: "('k, 'v) js_map \<Rightarrow> ('v \<Rightarrow> bool) \<Rightarrow> nat" where
  "count_of m P = length (filter P (vals m))"

lemma count_open_of: "count_open s = count_of (ms_envelopes s) is_open"
  "count_link l s = count_of (ms_envelopes s) (\<lambda>e. is_open e \<and> en_link e = l)"
  by (simp_all add: count_open_def count_link_def count_of_def)

lemma count_of_adjust:
  assumes "map_ok m" "\<And>e. lookup m k = Some e \<Longrightarrow> P (f e) \<Longrightarrow> P e"
  shows "count_of (adjust k f m) P \<le> count_of m P"
  using assms by (induction k f m rule: adjust.induct) (auto simp: count_of_def map_ok_def)

lemma count_of_adjust_first:
  assumes "\<And>e. Q e \<Longrightarrow> P (f e) \<Longrightarrow> P e"
  shows "count_of (adjust_first Q f m) P \<le> count_of m P"
  using assms by (induction Q f m rule: adjust_first.induct) (auto simp: count_of_def)

lemma count_of_map: "(\<And>e. P (f e) \<Longrightarrow> P e) \<Longrightarrow> count_of (map (\<lambda>(k, e). (k, f e)) m) P \<le> count_of m P"
  by (induction m) (auto simp: count_of_def)

lemma count_of_filter: "count_of (filter Q m) P \<le> count_of m P"
  by (induction m) (auto simp: count_of_def)

lemma count_of_put: "count_of (put k v m) P \<le> Suc (count_of m P)"
  unfolding put_def by (induction m) (auto simp: count_of_def)

section \<open>The invariant\<close>

definition within_capacity :: "capacity \<Rightarrow> message_store \<Rightarrow> bool" where
  "within_capacity cap s \<longleftrightarrow> count_open s \<le> cap_global cap \<and> (\<forall>l. count_link l s \<le> cap_per_link cap)"

definition no_more_open :: "message_store \<Rightarrow> message_store \<Rightarrow> bool" where
  "no_more_open s s' \<longleftrightarrow> count_open s' \<le> count_open s \<and> (\<forall>l. count_link l s' \<le> count_link l s)"

lemma within_capacity_mono: "within_capacity cap s \<Longrightarrow> no_more_open s s' \<Longrightarrow> within_capacity cap s'"
  by (auto simp: within_capacity_def no_more_open_def intro: order_trans)

lemma no_more_open_envelopes: "ms_envelopes s' = ms_envelopes s \<Longrightarrow> no_more_open s s'"
  by (simp add: no_more_open_def count_open_of)

lemma no_more_open_adjust:
  assumes "map_ok (ms_envelopes s)" "\<And>e. lookup (ms_envelopes s) k = Some e \<Longrightarrow> is_open (f e) \<Longrightarrow> is_open e"
    "\<And>e. en_link (f e) = en_link e" "ms_envelopes s' = adjust k f (ms_envelopes s)"
  shows "no_more_open s s'"
  unfolding no_more_open_def count_open_of assms(4)
  using assms(2,3) by (auto intro!: count_of_adjust [OF assms(1)])

lemma no_more_open_trans: "no_more_open s t \<Longrightarrow> no_more_open t u \<Longrightarrow> no_more_open s u"
  by (auto simp: no_more_open_def intro: order_trans)

lemma no_more_open_prepared: "\<forall>e. prepared d now e (f e) \<Longrightarrow> no_more_open s (map_envelopes f s)"
  by (auto simp: no_more_open_def count_open_of map_envelopes_def prepared_def intro!: count_of_map)

lemma queue_ok_envelopes: "queue_ok s \<Longrightarrow> ms_envelopes s' = ms_envelopes s \<Longrightarrow> queue_ok s'"
  by (simp add: queue_ok_def)

text \<open>An update of one envelope that keeps its identity and its link, keeps the life cycle and opens nothing.\<close>

lemma adjust_keeps:
  assumes "queue_ok s" "within_capacity cap s" "\<And>e. en_id (f e) = en_id e" "\<And>e. en_link (f e) = en_link e"
    and "\<And>e. lookup (ms_envelopes s) k = Some e \<Longrightarrow> lifecycle_ok e \<Longrightarrow> lifecycle_ok (f e) \<and> is_open e"
    and "s' = s\<lparr>ms_envelopes := adjust k f (ms_envelopes s)\<rparr>"
  shows "queue_ok s' \<and> within_capacity cap s'"
proof
  show "queue_ok s'" unfolding assms(6) using assms(5) by (intro queue_ok_adjust [OF assms(1,3)]) blast
  have "no_more_open s s'"
    using assms(1,5) by (intro no_more_open_adjust [OF _ _ assms(4)]) (auto simp: queue_ok_lookup assms(6))
  then show "within_capacity cap s'" by (rule within_capacity_mono [OF assms(2)])
qed

lemma heartbeat_keeps_open:
  assumes "queue_ok s" "within_capacity cap s" "heartbeat i d l now till s = (y, s')"
  shows "queue_ok s' \<and> within_capacity cap s'"
proof (cases "valid_lease (lookup (ms_envelopes s) i) d l now")
  case True
  then show ?thesis
    by (intro adjust_keeps [OF assms(1,2), where k = i and f = "\<lambda>e. e\<lparr>en_lease_expires := Some till, en_updated := now\<rparr>"])
      (use assms(3) in \<open>auto simp: heartbeat_def update_leased_def valid_lease_def lifecycle_ok_def is_open_def\<close>)
qed (use assms in \<open>simp add: heartbeat_def update_leased_def\<close>)

lemma complete_keeps_open:
  assumes "queue_ok s" "within_capacity cap s" "complete_lease i d l now kind response host s = (y, s')"
  shows "queue_ok s' \<and> within_capacity cap s'"
proof (cases "valid_lease (lookup (ms_envelopes s) i) d l now")
  case True
  then show ?thesis
    by (intro adjust_keeps [OF assms(1,2), where k = i and f = "\<lambda>e. e\<lparr>en_state := ResponseReady, en_response := Some response,
       en_host_session := host, en_terminal := Some kind, en_lease := None, en_device := None,
       en_lease_expires := None, en_updated := now\<rparr>"])
      (use assms(3) in \<open>auto simp: complete_lease_def update_leased_def valid_lease_def lifecycle_ok_def is_open_def\<close>)
qed (use assms in \<open>simp add: complete_lease_def update_leased_def\<close>)

lemma mark_keeps:
  assumes "queue_ok s" "within_capacity cap s" "mark_response_sent i at s = (y, s')"
  shows "queue_ok s' \<and> within_capacity cap s'"
proof (cases "s' = s")
  case False
  then obtain e where e: "lookup (ms_envelopes s) i = Some e" "en_state e = ResponseReady" "en_terminal e \<noteq> None"
    and s': "s' = s\<lparr>ms_envelopes := adjust i (sent_envelope at) (ms_envelopes s)\<rparr>"
    using assms(3) by (auto simp: mark_response_sent_def split: option.splits if_splits)
  show ?thesis
    by (rule adjust_keeps [OF assms(1,2) _ _ _ s']) (use e in \<open>auto simp: sent_envelope_def lifecycle_ok_def is_open_def\<close>)
qed (use assms in simp)

lemma claim_keeps_all:
  assumes "queue_ok s" "within_capacity cap s" "claim_envelope d l now till r s = (y, s')"
  shows "queue_ok s' \<and> within_capacity cap s'"
proof
  show q: "queue_ok s'" by (rule memory_queue.claim_keeps [OF assms(1,3)])
  have "claims_from d l now till s (y, s')" using claim_envelope_from [of d l now till s r] assms(3) by simp
  then consider (same) "s' = s" | (idle) f where "\<forall>e. prepared d now e (f e)" "s' = map_envelopes f s"
    | (took) f q where "\<forall>e. prepared d now e (f e)" "q \<in> set (vals (ms_envelopes (map_envelopes f s)))"
        "eligible d now (map_envelopes f s) q" "(y, s') = take_lease d l now till q (map_envelopes f s)"
    unfolding claims_from_def by auto
  then have "no_more_open s s'"
  proof cases
    case (took f q)
    have ok: "queue_ok (map_envelopes f s)" using took(1) by (intro queue_ok_map [OF assms(1)]) (auto simp: prepared_def)
    have look: "lookup (ms_envelopes (map_envelopes f s)) (en_id q) = Some q" by (rule leased_lookup [OF ok took(2)])
    have "no_more_open (map_envelopes f s) s'"
      using took(3,4) ok look
      by (intro no_more_open_adjust [where k = "en_id q" and f = "leased_to d l now till"])
        (auto simp: take_lease_def leased_to_def eligible_def is_open_def queue_ok_def)
    with no_more_open_prepared [OF took(1)] show ?thesis by (rule no_more_open_trans)
  next
    case (idle f)
    then show ?thesis using no_more_open_prepared by simp
  qed (simp add: no_more_open_def)
  then show "within_capacity cap s'" by (rule within_capacity_mono [OF assms(2)])
qed

lemma lookup_adjust_first:
  "lookup (adjust_first Q f m) k = Some e' \<Longrightarrow>
     \<exists>e. lookup m k = Some e \<and> (e' = e \<or> Q e \<and> e' = f e)"
  by (induction Q f m rule: adjust_first.induct) (auto split: if_splits)

lemma enqueue_cases:
  assumes "enqueue_or_resume i at cap s = (x, s')"
  obtains (unchanged) "s' = s"
  | (resumed) "ms_envelopes s' = adjust_first (\<lambda>e. en_link e = en_link i \<and> en_state e = AwaitingUser) (resumed_envelope i at) (ms_envelopes s)"
      "ms_links s' = ms_links s"
  | (created) "\<not> over_capacity cap (en_link i) s" "ms_envelopes s' = put (en_id i) i (ms_envelopes s)" "ms_links s' = ms_links s"
  using assms by (auto simp: enqueue_or_resume_def split: option.splits if_splits)

lemma lifecycle_ok_resumed: "lifecycle_ok e \<Longrightarrow> en_state e = AwaitingUser \<Longrightarrow> lifecycle_ok (resumed_envelope i at e)"
  by (simp add: lifecycle_ok_def resumed_envelope_def)

lemma new_envelope_ok: "new_envelope i \<Longrightarrow> lifecycle_ok i"
  by (simp add: new_envelope_def lifecycle_ok_def)

lemma enqueue_keeps_open:
  assumes ok: "queue_ok s" "within_capacity cap s" and i: "new_envelope i" and e: "enqueue_or_resume i at cap s = (x, s')"
  shows "queue_ok s' \<and> within_capacity cap s'"
  using e
proof (cases rule: enqueue_cases)
  case resumed
  have "queue_ok s'"
    using ok(1) unfolding queue_ok_lookup resumed(1)
    by (auto dest!: lookup_adjust_first simp: resumed_envelope_def) (auto simp flip: resumed_envelope_def intro: lifecycle_ok_resumed)
  moreover have "no_more_open s s'"
    unfolding no_more_open_def count_open_of resumed(1)
    by (auto intro!: count_of_adjust_first simp: resumed_envelope_def is_open_def)
  ultimately show ?thesis using within_capacity_mono [OF ok(2)] by blast
next
  case created
  have "queue_ok s'" using ok(1) new_envelope_ok [OF i] unfolding queue_ok_lookup created(2) by simp
  moreover have "within_capacity cap s'"
  proof -
    have "count_open s < cap_global cap" "count_link (en_link i) s < cap_per_link cap"
      using created(1) by (simp_all add: over_capacity_def count_open_def count_link_def Let_def)
    moreover have "count_link l s' \<le> count_link l s" if "l \<noteq> en_link i" for l
    proof -
      have "count_of (put (en_id i) i m) (\<lambda>e. is_open e \<and> en_link e = l) \<le> count_of m (\<lambda>e. is_open e \<and> en_link e = l)" for m
        unfolding put_def using that by (induction m) (auto simp: count_of_def)
      then show ?thesis by (simp add: count_open_of created(2))
    qed
    moreover have "count_open s' \<le> Suc (count_open s)" "count_link l s' \<le> Suc (count_link l s)" for l
      by (simp_all add: count_open_of created(2) count_of_put)
    ultimately show ?thesis using ok(2) unfolding within_capacity_def by (metis Suc_leI order_trans)
  qed
  ultimately show ?thesis by blast
qed (use ok in simp)

lemma delete_keeps:
  assumes "queue_ok s" "within_capacity cap s" "delete_expired now s = (n, s')"
  shows "queue_ok s' \<and> within_capacity cap s'"
proof -
  obtain Q where s': "ms_envelopes s' = filter Q (ms_envelopes s)"
    using assms(3) by (auto simp: delete_expired_def Let_def)
  have "queue_ok s'" using assms(1) unfolding queue_ok_def s' map_ok_def by (auto intro: distinct_map_filter)
  moreover have "no_more_open s s'" by (simp add: no_more_open_def count_open_of s' count_of_filter)
  ultimately show ?thesis using within_capacity_mono [OF assms(2)] by blast
qed

section \<open>Links\<close>

definition links_ok :: "message_store \<Rightarrow> bool" where
  "links_ok s \<longleftrightarrow> map_ok (ms_links s) \<and>
     (\<forall>(k, l)\<in>set (ms_links s). \<forall>(k', l')\<in>set (ms_links s).
        pl_revoked l = None \<and> pl_revoked l' = None \<and> (pl_user l = pl_user l' \<or> pl_identity l = pl_identity l') \<longrightarrow> k = k')"

lemma links_ok_lookup:
  "links_ok s \<longleftrightarrow> map_ok (ms_links s) \<and>
     (\<forall>k l k' l'. lookup (ms_links s) k = Some l \<longrightarrow> lookup (ms_links s) k' = Some l' \<longrightarrow>
        pl_revoked l = None \<longrightarrow> pl_revoked l' = None \<longrightarrow> (pl_user l = pl_user l' \<or> pl_identity l = pl_identity l') \<longrightarrow> k = k')"
  unfolding links_ok_def by (auto simp: lookup_in_set) blast+

text \<open>An operation that only revokes or confirms links, or deletes them, keeps the invariant.\<close>

lemma links_ok_shrink:
  assumes "links_ok s" "map_ok (ms_links s')"
    and "\<And>k l'. lookup (ms_links s') k = Some l' \<Longrightarrow> pl_revoked l' = None \<Longrightarrow>
      \<exists>l. lookup (ms_links s) k = Some l \<and> pl_revoked l = None \<and> pl_user l' = pl_user l \<and> pl_identity l' = pl_identity l"
  shows "links_ok s'"
  unfolding links_ok_lookup
proof (intro conjI allI impI assms(2))
  fix k l k' l'
  assume k: "lookup (ms_links s') k = Some l" "pl_revoked l = None" and k': "lookup (ms_links s') k' = Some l'" "pl_revoked l' = None"
    and same: "pl_user l = pl_user l' \<or> pl_identity l = pl_identity l'"
  from assms(3) [OF k] obtain m where m: "lookup (ms_links s) k = Some m" "pl_revoked m = None" "pl_user l = pl_user m" "pl_identity l = pl_identity m"
    by blast
  from assms(3) [OF k'] obtain m' where m': "lookup (ms_links s) k' = Some m'" "pl_revoked m' = None" "pl_user l' = pl_user m'" "pl_identity l' = pl_identity m'"
    by blast
  have "pl_user m = pl_user m' \<or> pl_identity m = pl_identity m'" using same m(3,4) m'(3,4) by simp
  then show "k = k'" using assms(1) m(1,2) m'(1,2) unfolding links_ok_lookup by blast
qed

lemma links_ok_same: "links_ok s \<Longrightarrow> ms_links s' = ms_links s \<Longrightarrow> links_ok s'"
  by (simp add: links_ok_def)

lemma links_ok_create:
  assumes "links_ok s" "create_provider_link k s = Inr s'" "pl_id k \<notin> set (map fst (ms_links s))"
  shows "links_ok s'"
proof -
  have s': "ms_links s' = put (pl_id k) k (ms_links s)"
    and none: "\<And>l. l \<in> set (vals (ms_links s)) \<Longrightarrow> pl_revoked l = None \<Longrightarrow> pl_identity l \<noteq> pl_identity k \<and> pl_user l \<noteq> pl_user k"
    using assms(2) by (auto simp: create_provider_link_def list_ex_iff split: if_splits)
  have other: "pl_revoked l = None \<Longrightarrow> pl_identity l \<noteq> pl_identity k \<and> pl_user l \<noteq> pl_user k"
    if "lookup (ms_links s) j = Some l" for j l
    using none lookup_vals [OF that] by blast
  show ?thesis
    unfolding links_ok_lookup
  proof (intro conjI allI impI)
    show "map_ok (ms_links s')" using assms(1) by (simp add: s' links_ok_def)
    fix a l a' l'
    assume l: "lookup (ms_links s') a = Some l" "lookup (ms_links s') a' = Some l'" "pl_revoked l = None" "pl_revoked l' = None"
      and same: "pl_user l = pl_user l' \<or> pl_identity l = pl_identity l'"
    consider "a = pl_id k" "a' = pl_id k" | "a = pl_id k" "a' \<noteq> pl_id k" | "a \<noteq> pl_id k" "a' = pl_id k" | "a \<noteq> pl_id k" "a' \<noteq> pl_id k"
      by blast
    then show "a = a'"
    proof cases
      case 2
      then have "l = k" "lookup (ms_links s) a' = Some l'" using l by (simp_all add: s')
      then show ?thesis using other [of a' l'] l(4) same by metis
    next
      case 3
      then have "l' = k" "lookup (ms_links s) a = Some l" using l by (simp_all add: s')
      then show ?thesis using other [of a l] l(3) same by metis
    next
      case 4
      then have "lookup (ms_links s) a = Some l" "lookup (ms_links s) a' = Some l'" using l by (simp_all add: s')
      then show ?thesis using assms(1) l(3,4) same unfolding links_ok_lookup by metis
    qed simp
  qed
qed

lemma lookup_filter: "map_ok m \<Longrightarrow> lookup (filter Q m) k = Some v \<Longrightarrow> lookup m k = Some v"
  by (metis (no_types, lifting) distinct_map_filter filter_is_subset lookup_in_set map_ok_def map_of_SomeD subsetD)

lemma map_ok_filter: "map_ok m \<Longrightarrow> map_ok (filter Q m)"
  by (simp add: map_ok_def distinct_map_filter)

definition store_inv :: "capacity \<Rightarrow> message_store \<Rightarrow> bool" where
  "store_inv cap s \<longleftrightarrow> (queue_ok s \<and> within_capacity cap s) \<and> links_ok s"

lemma envelopes_untouched: "queue_ok s \<and> within_capacity cap s \<Longrightarrow> ms_envelopes s' = ms_envelopes s \<Longrightarrow> queue_ok s' \<and> within_capacity cap s'"
  using queue_ok_envelopes no_more_open_envelopes within_capacity_mono by blast

lemma store_inv_other:
  assumes "store_inv cap s" "ms_envelopes s' = ms_envelopes s" "ms_links s' = ms_links s"
  shows "store_inv cap s'"
  using assms envelopes_untouched links_ok_same unfolding store_inv_def by blast

lemma update_leased_links: "ms_links (snd (update_leased i d l now f s)) = ms_links s"
  by (simp add: update_leased_def)

lemma claim_links: "claims_from d l now till s (y, s') \<Longrightarrow> ms_links s' = ms_links s"
  by (auto simp: claims_from_def take_lease_def)

lemma store_step_inv:
  assumes "store_step cap s s'" "store_inv cap s"
  shows "store_inv cap s'"
  using assms(1)
proof cases
  case (enqueue i at x)
  have "ms_links s' = ms_links s" using enqueue(2) by (cases rule: enqueue_cases) simp_all
  with assms(2) enqueue_keeps_open [OF _ _ enqueue] links_ok_same show ?thesis unfolding store_inv_def by blast
next
  case (claim d l now till r y)
  have "ms_links s' = ms_links s" using claim_envelope_from [of d l now till s r] claim_links claim by metis
  with assms(2) claim_keeps_all [OF _ _ claim] links_ok_same show ?thesis unfolding store_inv_def by blast
next
  case (heartbeat i d l now till y)
  have "ms_links s' = ms_links s" using heartbeat update_leased_links unfolding heartbeat_def by (metis snd_conv)
  with assms(2) heartbeat_keeps_open [OF _ _ heartbeat] links_ok_same show ?thesis unfolding store_inv_def by blast
next
  case (complete i d l now kind response host y)
  have "ms_links s' = ms_links s" using complete update_leased_links unfolding complete_lease_def by (metis snd_conv)
  with assms(2) complete_keeps_open [OF _ _ complete] links_ok_same show ?thesis unfolding store_inv_def by blast
next
  case (mark_sent i at y)
  have "ms_links s' = ms_links s" using mark_sent by (auto simp: mark_response_sent_def split: option.splits if_splits)
  with assms(2) mark_keeps [OF _ _ mark_sent] links_ok_same show ?thesis unfolding store_inv_def by blast
next
  case (delete now n)
  have links: "ms_links s' = filter (\<lambda>(_, l). \<not> (pl_confirmed l = None \<and> pl_confirm_expires l \<le> now)) (ms_links s)"
    using delete by (auto simp: delete_expired_def Let_def)
  have "links_ok s'"
    using assms(2) by (intro links_ok_shrink [of s s'])
      (auto simp: links store_inv_def links_ok_def map_ok_filter dest: lookup_filter)
  with assms(2) delete_keeps [OF _ _ delete] show ?thesis unfolding store_inv_def by blast
next
  case (create_link k)
  have "ms_envelopes s' = ms_envelopes s" using create_link(2) by (auto simp: create_provider_link_def split: if_splits)
  with assms(2) links_ok_create [OF _ create_link(2,1)] envelopes_untouched show ?thesis unfolding store_inv_def by blast
next
  case (confirm u lid binding at k')
  have env: "ms_envelopes s' = ms_envelopes s"
    and links: "ms_links s' = ms_links s \<or> ms_links s' = adjust lid (\<lambda>c. c\<lparr>pl_binding := None, pl_confirmed := Some at, pl_updated := at\<rparr>) (ms_links s)"
    using confirm by (auto simp: confirm_provider_link_def Let_def split: option.splits if_splits)
  have "links_ok s'"
    using assms(2) links by (intro links_ok_shrink [of s s']) (auto simp: store_inv_def links_ok_def lookup_adjust split: if_splits)
  with assms(2) env envelopes_untouched show ?thesis unfolding store_inv_def by blast
next
  case (revoke_link u at b)
  have env: "ms_envelopes s' = ms_envelopes s"
    and links: "ms_links s' = ms_links s \<or> ms_links s' = adjust_first (\<lambda>l. pl_user l = u \<and> pl_revoked l = None)
             (\<lambda>l. l\<lparr>pl_revoked := Some at, pl_updated := at\<rparr>) (ms_links s)"
    using revoke_link by (auto simp: revoke_provider_link_def split: if_splits)
  have "links_ok s'"
    using assms(2) links by (intro links_ok_shrink [of s s']) (auto simp: store_inv_def links_ok_def dest!: lookup_adjust_first)
  with assms(2) env envelopes_untouched show ?thesis unfolding store_inv_def by blast
qed ((rule store_inv_other [OF assms(2)], auto simp: save_device_def revoke_device_def save_link_challenge_def
    consume_link_challenge_def save_delivery_receipt_def update_delivery_status_def split: option.splits if_splits)+)

lemma store_reachable_inv: "store_reachable cap s \<Longrightarrow> store_inv cap s"
proof (induction rule: store_reachable.induct)
  case initial
  show ?case by (simp add: store_inv_def empty_messages_def queue_ok_def within_capacity_def count_open_def count_link_def links_ok_def)
qed (rule store_step_inv)

section \<open>Properties\<close>

text \<open>C29: A lease is exclusive. In both stores, after a claim and any further claims made before the lease runs out, no claim
  made before it runs out hands the same message out, and the holder can still complete it.\<close>
theorem leases_are_exclusive:
  assumes "op = claim_envelope \<or> op = neon_claim" "queue_ok s" "op d l now till r s = (Some e, s1)"
    and "\<forall>(d, l, t, till', r)\<in>set cs. t < till"
    and "op d' l' now' till' r' (run_claims op cs s1) = (Some e', s2)" "now' < till"
  shows "en_id e' \<noteq> en_id e \<and> fst (complete_lease (en_id e) d l now' kind response host (run_claims op cs s1)) \<noteq> None"
  using assms(1)
proof
  assume op: "op = claim_envelope"
  note A = assms(2-)[unfolded op]
  show ?thesis using memory_queue.lease_excludes [OF A] memory_queue.holder_can_complete [OF A(1-3) A(5)] unfolding op by blast
next
  assume op: "op = neon_claim"
  note A = assms(2-)[unfolded op]
  show ?thesis using neon_queue.lease_excludes [OF A] neon_queue.holder_can_complete [OF A(1-3) A(5)] unfolding op by blast
qed

definition waiting :: "string \<Rightarrow> time \<Rightarrow> envelope" where
  "waiting i t = \<lparr>en_id = i, en_request = ''r'' @ i, en_link = ''l'', en_message_hash = ''m'' @ i, en_state = Queued,
     en_inbound = ''x'', en_response = None, en_host_session = None, en_terminal = None, en_received = t, en_window = t + 10,
     en_lease = None, en_device = None, en_lease_expires = None, en_attempts = 0, en_failure = None, en_sent = None,
     en_expires = t + 70, en_created = t, en_updated = t\<rparr>"

definition channel :: "envelope list \<Rightarrow> message_store" where
  "channel es = \<lparr>ms_devices = [(''d'', \<lparr>dv_id = ''d'', dv_user = ''u'', dv_household = ''h'', dv_name = ''n'', dv_last_seen = None,
       dv_revoked = None, dv_created = 0, dv_updated = 0\<rparr>)],
     ms_challenges = [],
     ms_links = [(''l'', \<lparr>pl_id = ''l'', pl_user = ''u'', pl_household = ''h'', pl_device = ''d'', pl_identity = ''i'',
       pl_destination = ''c'', pl_binding = None, pl_confirm_expires = 5, pl_confirmed = Some 1, pl_linked = 0,
       pl_revoked = None, pl_updated = 1\<rparr>)],
     ms_envelopes = map (\<lambda>e. (en_id e, e)) es, ms_events = [], ms_receipts = []\<rparr>"

lemma leases_are_exclusive_witness:
  "\<exists>e e' s1. claim_envelope ''d'' ''k1'' 20 110 False (channel [waiting ''a'' 0, waiting ''b'' 5]) = (Some e, s1)
     \<and> fst (claim_envelope ''d'' ''k2'' 30 120 False s1) = Some e' \<and> en_id e' \<noteq> en_id e"
proof -
  let ?s = "channel [waiting ''a'' 0, waiting ''b'' 5]"
  have ok: "queue_ok ?s" by (simp add: queue_ok_def channel_def waiting_def map_ok_def lifecycle_ok_def)
  have "fst (claim_envelope ''d'' ''k1'' 20 110 False ?s) \<noteq> None"
    "fst (claim_envelope ''d'' ''k2'' 30 120 False (snd (claim_envelope ''d'' ''k1'' 20 110 False ?s))) \<noteq> None"
    by code_simp+
  then obtain e s1 e' s2 where one: "claim_envelope ''d'' ''k1'' 20 110 False ?s = (Some e, s1)"
    and two: "claim_envelope ''d'' ''k2'' 30 120 False s1 = (Some e', s2)"
    by (metis fst_conv not_Some_eq prod.exhaust snd_conv)
  have again: "claim_envelope ''d'' ''k2'' 30 120 False (run_claims claim_envelope [] s1) = (Some e', s2)"
    unfolding run_claims.simps by (rule two)
  have before: "(30 :: int) < 110" by simp
  have "en_id e' \<noteq> en_id e" 
    by (rule leases_are_exclusive [where op = claim_envelope, OF disjI1 [OF refl] ok one _ again before, THEN conjunct1]) simp
  moreover have "fst (claim_envelope ''d'' ''k2'' 30 120 False s1) = Some e'" by (simp only: two fst_conv)
  ultimately show ?thesis using one by blast
qed

text \<open>C30: Life cycle and capacity. In every state the in-memory store can reach, every message is in a consistent state (a lease exactly
  while leased, an outcome exactly once answered, at most 20 attempts), and neither the number of open
  messages nor that of any link exceeds the capacity.\<close>
theorem reachable_queue_is_bounded:
  assumes "store_reachable cap s"
  shows "count_open s \<le> cap_global cap \<and> count_link l s \<le> cap_per_link cap \<and>
    (\<forall>e\<in>set (vals (ms_envelopes s)). lifecycle_ok e \<and> lookup (ms_envelopes s) (en_id e) = Some e)"
  using store_reachable_inv [OF assms]
  by (auto simp: store_inv_def within_capacity_def queue_ok_def lookup_in_set)

lemma reachable_queue_is_bounded_witness:
  "count_open (snd (enqueue_or_resume (waiting ''a'' 0) 0 \<lparr>cap_per_link = 1, cap_global = 1\<rparr> empty_messages)) \<le> 1"
proof -
  let ?cap = "\<lparr>cap_per_link = 1, cap_global = 1\<rparr>"
  have "new_envelope (waiting ''a'' 0)" by (simp add: new_envelope_def waiting_def)
  then have "store_step ?cap empty_messages (snd (enqueue_or_resume (waiting ''a'' 0) 0 ?cap empty_messages))"
    by (rule store_step.enqueue) (rule prod.collapse [symmetric])
  from reachable_queue_is_bounded [OF store_reachable.step [OF initial this]] show ?thesis by simp
qed

text \<open>One link per person. In every reachable state two links that are not revoked and share a user or a sender identity are the
  same link.\<close>
theorem reachable_links_are_unique:
  assumes "store_reachable cap s" "lookup (ms_links s) k = Some l" "lookup (ms_links s) k' = Some l'"
    and "pl_revoked l = None" "pl_revoked l' = None" "pl_user l = pl_user l' \<or> pl_identity l = pl_identity l'"
  shows "k = k' \<and> l = l'"
proof -
  have "links_ok s" using store_reachable_inv [OF assms(1)] by (simp add: store_inv_def)
  then have "k = k'" using assms(2-6) unfolding links_ok_lookup by blast
  with assms(2,3) show ?thesis by simp
qed

definition demo_link :: provider_link where
  "demo_link = snd (hd (ms_links (channel [])))"

lemma reachable_links_are_unique_witness:
  "\<exists>s. store_reachable \<lparr>cap_per_link = 1, cap_global = 1\<rparr> s \<and>
     {k. \<exists>l. lookup (ms_links s) k = Some l \<and> pl_revoked l = None \<and> pl_user l = ''u''} = {''l''}"
proof -
  let ?cap = "\<lparr>cap_per_link = 1, cap_global = 1\<rparr>"
  let ?s = "empty_messages\<lparr>ms_links := [(''l'', demo_link)]\<rparr>"
  have demo: "pl_user demo_link = ''u''" "pl_revoked demo_link = None" "pl_id demo_link = ''l''"
    by (simp_all add: demo_link_def channel_def)
  have "store_step ?cap empty_messages ?s"
    by (rule store_step.create_link [of demo_link])
      (simp_all add: create_provider_link_def empty_messages_def demo_link_def channel_def put_def)
  then have r: "store_reachable ?cap ?s" by (rule store_reachable.step [OF initial])
  have here: "lookup (ms_links ?s) ''l'' = Some demo_link" by simp
  have "k = ''l''" if "lookup (ms_links ?s) k = Some l" "pl_revoked l = None" "pl_user l = ''u''" for k l
    using reachable_links_are_unique [OF r that(1) here that(2) demo(2)] that(3) demo(1) by simp
  then have "{k. \<exists>l. lookup (ms_links ?s) k = Some l \<and> pl_revoked l = None \<and> pl_user l = ''u''} = {''l''}"
    using here demo by blast
  with r show ?thesis by blast
qed

text \<open>The database never starves. With the PostgreSQL store a runner that asks gets a message whenever one is eligible, and never
  one received later than an eligible message.\<close>
theorem neon_claim_serves_oldest:
  assumes "e0 \<in> set (vals (ms_envelopes s))" "eligible d now s e0"
  shows "\<exists>e. fst (neon_claim d lease now till recover s) = Some e \<and> en_received e \<le> en_received e0"
proof -
  let ?f = "neon_release_lease d now" and ?g = "recover_attempts (ms_links s) d now"
  have "?f e0 = e0" "?g e0 = e0" using assms(2) by (simp_all add: eligible_def neon_release_lease_def recover_attempts_def)
  then have "e0 \<in> set (vals (ms_envelopes (neon_prepare_claim d now recover s)))"
    using assms(1) by (force simp: neon_prepare_claim_def map_envelopes_def Let_def)
  moreover obtain f where "neon_prepare_claim d now recover s = map_envelopes f s" using prepare_claim_lookup(2) by blast
  ultimately have e0: "e0 \<in> set (filter (eligible d now (neon_prepare_claim d now recover s)) (vals (ms_envelopes (neon_prepare_claim d now recover s))))"
    using assms(2) by (simp add: eligible_def device_active_def)
  define c where "c = sort_key (\<lambda>e. (en_received e, en_id e)) (filter (eligible d now (neon_prepare_claim d now recover s)) (vals (ms_envelopes (neon_prepare_claim d now recover s))))"
  have mem: "e0 \<in> set c" using e0 by (simp add: c_def)
  then obtain q qs where c: "c = q # qs" by (cases c) auto
  have "sorted (map (\<lambda>e. (en_received e, en_id e)) c)" by (simp add: c_def)
  then have "(en_received q, en_id q) \<le> (en_received e0, en_id e0)" using mem unfolding c by auto
  then have "en_received q \<le> en_received e0" by (auto simp: less_eq_prod_def)
  moreover have "fst (neon_claim d lease now till recover s) = Some (leased_to d lease now till q)"
    by (simp add: neon_claim_def Let_def c_def [symmetric] c take_lease_def)
  ultimately show ?thesis by (simp add: leased_to_def)
qed

lemma neon_claim_serves_oldest_witness:
  "\<exists>e. fst (neon_claim ''d'' ''k'' 20 110 False (channel [waiting ''a'' 0])) = Some e"
proof -
  have "eligible ''d'' 20 (channel [waiting ''a'' 0]) (waiting ''a'' 0)"
    by (simp add: eligible_def channel_def waiting_def serves_def device_active_def)
  moreover have "waiting ''a'' 0 \<in> set (vals (ms_envelopes (channel [waiting ''a'' 0])))" by (simp add: channel_def)
  ultimately show ?thesis using neon_claim_serves_oldest by blast
qed

text \<open>C31: The two stores disagree behind an expired head. Whenever a queued message of a device's conversation is past its retention and was received
  before every other queued or leased message of that device, a claim on the in-memory store answers nothing, although another message
  is eligible; the PostgreSQL store hands out a message, one received no later than any eligible one.\<close>
theorem memory_claim_blocks_behind_expired_head:
  assumes "q \<in> set (vals (ms_envelopes s))" "en_state q = Queued" "serves (ms_links s) d q" "en_expires q \<le> now"
    and "\<forall>p\<in>set (vals (ms_envelopes s)). en_state p \<in> {Queued, Leased} \<and> serves (ms_links s) d p \<and> p \<noteq> q \<longrightarrow> en_received q < en_received p"
    and "e \<in> set (vals (ms_envelopes s))" "eligible d now s e"
  shows "fst (claim_envelope d lease now till recover s) = None \<and>
    (\<exists>m. fst (neon_claim d lease now till recover s) = Some m \<and> en_received m \<le> en_received e)"
proof
  obtain f where f: "\<forall>e. prepared d now e (f e)" and s1: "prepare_claim d now recover s = map_envelopes f s"
    using prepare_claim_lookup(1) by metis
  let ?s1 = "map_envelopes f s"
  let ?c = "sort_key en_received (filter (serves (ms_links ?s1) d) (filter (\<lambda>e. en_state e = Queued) (vals (ms_envelopes ?s1))))"
  have active: "device_active d s" using assms(7) by (simp add: eligible_def)
  have r: "claim_envelope d lease now till recover s = (case ?c of [] \<Rightarrow> (None, ?s1)
      | q # _ \<Rightarrow> if en_expires q \<le> now \<or> 20 \<le> en_attempts q then (None, ?s1) else take_lease d lease now till q ?s1)"
    using active by (auto simp: claim_envelope_def device_active_def s1 Let_def split: option.splits)
  show "fst (claim_envelope d lease now till recover s) = None"
  proof (cases ?c)
    case Nil
    then show ?thesis by (simp add: r)
  next
    case (Cons h hs)
    have kept: "en_received (f x) = en_received x" "en_expires (f x) = en_expires x" "serves L d (f x) = serves L d x" for x L
      using f by (simp_all add: prepared_def serves_def)
    have "en_state (f q) = Queued" using f assms(2) by (metis prepared_def)
    then have "f q \<in> set ?c" using assms(1,3) kept(3) by (force simp: map_envelopes_def)
    moreover have "sorted (map en_received ?c)" by simp
    ultimately have first: "en_received h \<le> en_received q" unfolding Cons using kept(1) by auto
    have "h \<in> set ?c" unfolding Cons by simp
    then obtain p where p: "p \<in> set (vals (ms_envelopes s))" "h = f p" "en_state (f p) = Queued" "serves (ms_links s) d p"
      using kept(3) by (force simp: map_envelopes_def)
    have "en_state p \<in> {Queued, Leased}" using f p(3) unfolding prepared_def by blast
    then have "p = q" using first assms(5) p kept(1) by fastforce
    then have "en_expires h \<le> now" using p(2) kept(2) assms(4) by simp
    then show ?thesis unfolding r Cons by simp
  qed
  show "\<exists>m. fst (neon_claim d lease now till recover s) = Some m \<and> en_received m \<le> en_received e"
    by (rule neon_claim_serves_oldest [OF assms(6,7)])
qed

lemma memory_claim_blocks_behind_expired_head_witness:
  "fst (claim_envelope ''d'' ''k'' 75 165 True (channel [waiting ''a'' 0, waiting ''b'' 60])) = None \<and>
   (\<exists>m. fst (neon_claim ''d'' ''k'' 75 165 True (channel [waiting ''a'' 0, waiting ''b'' 60])) = Some m)"
proof -
  let ?s = "channel [waiting ''a'' 0, waiting ''b'' 60]"
  have e: "eligible ''d'' 75 ?s (waiting ''b'' 60)"
    by (simp add: eligible_def channel_def waiting_def serves_def device_active_def)
  have s: "waiting ''a'' 0 \<in> set (vals (ms_envelopes ?s))" "waiting ''b'' 60 \<in> set (vals (ms_envelopes ?s))" by (simp_all add: channel_def)
  have q: "en_state (waiting ''a'' 0) = Queued" "serves (ms_links ?s) ''d'' (waiting ''a'' 0)" "en_expires (waiting ''a'' 0) \<le> 75"
    "\<forall>p\<in>set (vals (ms_envelopes ?s)). en_state p \<in> {Queued, Leased} \<and> serves (ms_links ?s) ''d'' p \<and> p \<noteq> waiting ''a'' 0 \<longrightarrow>
       en_received (waiting ''a'' 0) < en_received p"
    by (simp_all add: channel_def waiting_def serves_def)
  from memory_claim_blocks_behind_expired_head [OF s(1) q s(2) e, of "''k''" 165 True] show ?thesis by blast
qed
text \<open>Late answers are lost. An answer that reaches a conversation less than a service window before the conversation's retention ends
  is refused by the row check of the table: the statement fails and nothing is stored.\<close>
theorem late_answer_fails_row_check:
  assumes "lookup (ms_events s) (en_message_hash i) = None"
    and "\<exists>p\<in>set (vals (ms_envelopes s)). en_link p = en_link i \<and> en_state p = AwaitingUser"
    and "\<forall>p\<in>set (vals (ms_envelopes s)). en_link p = en_link i \<and> en_state p = AwaitingUser \<longrightarrow> en_expires p < en_window i"
  shows "neon_enqueue_or_resume i at cap s = (Inl (OtherError ''PostgresError''), s)"
proof -
  define c where "c = sort_key (\<lambda>e. (en_received e, en_id e)) (filter (\<lambda>e. en_link e = en_link i \<and> en_state e = AwaitingUser) (vals (ms_envelopes s)))"
  have "set c \<noteq> {}" using assms(2) by (auto simp: c_def)
  then obtain p ps where c: "c = p # ps" by (cases c) auto
  then have "p \<in> set c" by simp
  then have "en_expires p < en_window i" using assms(3) by (auto simp: c_def)
  then have "\<not> row_check (resumed_envelope i at p)" by (simp add: row_check_def resumed_envelope_def)
  then show ?thesis using assms(1) by (simp add: neon_enqueue_or_resume_def c_def [symmetric] c)
qed

lemma late_answer_fails_row_check_witness:
  "fst (neon_enqueue_or_resume (waiting ''b'' 65) 65 \<lparr>cap_per_link = 8, cap_global = 1000\<rparr>
     (channel [(waiting ''a'' 0)\<lparr>en_state := AwaitingUser, en_terminal := Some TermNeedsInput, en_sent := Some 1\<rparr>])) =
     Inl (OtherError ''PostgresError'')"
  by (subst late_answer_fails_row_check) (simp_all add: channel_def waiting_def)

text \<open>Provider messages are taken once. After a message has been queued or has resumed a conversation, the same provider message is
  answered as a duplicate of that envelope and changes nothing.\<close>
theorem provider_message_taken_once:
  assumes "queue_ok s" "enqueue_or_resume i at cap s = (Inr x, s')" "x = Created e \<or> x = Resumed e"
    and "en_message_hash i' = en_message_hash i"
  shows "\<exists>e'. enqueue_or_resume i' at' cap' s' = (Inr (Duplicate e'), s') \<and> en_id e' = en_id e"
proof -
  have none: "lookup (ms_events s) (en_message_hash i) = None"
    using assms(2,3) by (auto simp: enqueue_or_resume_def split: option.splits)
  show ?thesis
  proof (cases "List.find (\<lambda>e. en_link e = en_link i \<and> en_state e = AwaitingUser) (vals (ms_envelopes s))")
    case None
    then have "e = i" "s' = s\<lparr>ms_envelopes := put (en_id i) i (ms_envelopes s), ms_events := put (en_message_hash i) (en_id i) (ms_events s)\<rparr>"
      using assms(2,3) none by (auto simp: enqueue_or_resume_def split: if_splits)
    then show ?thesis using assms(4) by (simp add: enqueue_or_resume_def)
  next
    case (Some p)
    let ?m = "adjust_first (\<lambda>e. en_link e = en_link i \<and> en_state e = AwaitingUser) (resumed_envelope i at) (ms_envelopes s)"
    have e: "e = resumed_envelope i at p" and s': "s' = s\<lparr>ms_envelopes := ?m, ms_events := put (en_message_hash i) (en_id p) (ms_events s)\<rparr>"
      using assms(2,3) none Some by (auto simp: enqueue_or_resume_def)
    have "p \<in> set (vals (ms_envelopes s))" using find_Some_iff [OF Some] by blast
    then have "en_id p \<in> set (map fst (ms_envelopes s))" using assms(1) by (force simp: queue_ok_def)
    then have "en_id p \<in> fst ` set ?m" unfolding set_map [symmetric] keys_adjust_first .
    then obtain e' where e': "lookup ?m (en_id p) = Some e'" 
      using map_of_eq_None_iff [of ?m "en_id p"] by (cases "lookup ?m (en_id p)") simp_all
    then obtain e0 where "lookup (ms_envelopes s) (en_id p) = Some e0" "en_id e' = en_id e0"
      by (auto dest!: lookup_adjust_first simp: resumed_envelope_def)
    then have "en_id e' = en_id p" using assms(1) unfolding queue_ok_lookup by metis
    then show ?thesis using e' assms(4) by (simp add: enqueue_or_resume_def s' e resumed_envelope_def)
  qed
qed

lemma provider_message_taken_once_witness:
  "\<exists>e s'. enqueue_or_resume (waiting ''a'' 0) 0 \<lparr>cap_per_link = 1, cap_global = 1\<rparr> (channel []) = (Inr (Created e), s') \<and>
     (\<exists>e'. enqueue_or_resume (waiting ''a'' 0) 3 \<lparr>cap_per_link = 1, cap_global = 1\<rparr> s' = (Inr (Duplicate e'), s'))"
proof -
  let ?cap = "\<lparr>cap_per_link = 1, cap_global = 1\<rparr>"
  have ok: "queue_ok (channel [])" by (simp add: queue_ok_def channel_def)
  have "enqueue_or_resume (waiting ''a'' 0) 0 ?cap (channel []) = (Inr (Created (waiting ''a'' 0)), channel []\<lparr>
      ms_envelopes := [(''a'', waiting ''a'' 0)], ms_events := [(''ma'', ''a'')]\<rparr>)"
    by (simp add: enqueue_or_resume_def channel_def waiting_def over_capacity_def put_def)
  with provider_message_taken_once [OF ok this disjI1 [OF refl] refl, of 3 ?cap] show ?thesis
    by (elim exE conjE) (intro exI conjI, assumption+)
qed

end
