(* ===== verification/MessagingSafety.thy ===== *)
theory MessagingSafety
  imports MessagingService MessageSafety
begin

text \<open>
  What the messaging service guarantees.  The interface \<open>channel_invariant\<close> lists what a property of the channel must
  survive, one law per primitive the service uses; every handler then keeps the property.  It is interpreted for the three
  properties below: the service refines the message store's steps, ciphertexts decrypt to what was
  written, and nothing is sent after the cut-off.
\<close>

section \<open>Keeping a property\<close>

lemma keeps_from_store [keeps_intros]: "keeps P (from_store f)"
  by (simp add: keeps_def from_store_def reads_def)

lemma keeps_require [keeps_intros]: "keeps P (require b e)"
  by (simp add: keeps_def require_def lift_result_def)

lemma keeps_guards [keeps_intros]:
  "keeps P (parse_id prefix i)" "keeps P (require_pre_cutoff M now)" "keeps P (require_runner_scopes p)"
  "keeps P (require_member M p h)"
  by (simp_all add: parse_id_def require_pre_cutoff_def require_runner_scopes_def require_member_def keeps_require)

lemma keeps_require_device [keeps_intros]: "keeps P (require_device p d)"
  unfolding require_device_def by (intro keeps_intros)

lemma keeps_require_active_link [keeps_intros]: "keeps P (require_active_link l)"
  unfolding require_active_link_def by (intro keeps_intros)

lemma keeps_on_store: "(\<And>w x s. P w \<Longrightarrow> f (wc_store w) = (x, s) \<Longrightarrow> P (w\<lparr>wc_store := s\<rparr>)) \<Longrightarrow> keeps P (on_store f)"
  by (auto simp: keeps_def on_store_def split: prod.split)

lemma keeps_try_store: "(\<And>w s. P w \<Longrightarrow> f (wc_store w) = Inr s \<Longrightarrow> P (w\<lparr>wc_store := s\<rparr>)) \<Longrightarrow> keeps P (try_store f)"
  by (auto simp: keeps_def try_store_def split: sum.split)

lemma keeps_ask_store: "(\<And>w x s. P w \<Longrightarrow> f (wc_store w) = (x, s) \<Longrightarrow> P (w\<lparr>wc_store := s\<rparr>)) \<Longrightarrow> keeps P (ask_store f)"
  by (auto simp: keeps_def ask_store_def split: prod.split)

section \<open>The interface\<close>

locale channel_invariant =
  fixes M :: messaging and P :: "wa_channel \<Rightarrow> bool"
  assumes save_device_law: "P w \<Longrightarrow> save_device dv (wc_store w) = Inr s \<Longrightarrow> P (w\<lparr>wc_store := s\<rparr>)"
    and revoke_device_law: "P w \<Longrightarrow> revoke_device u d at (wc_store w) = (b, s) \<Longrightarrow> P (w\<lparr>wc_store := s\<rparr>)"
    and challenge_law: "P w \<Longrightarrow> P (w\<lparr>wc_store := save_link_challenge c (wc_store w)\<rparr>)"
    and consume_law: "P w \<Longrightarrow> consume_link_challenge t at (wc_store w) = (z, s) \<Longrightarrow> P (w\<lparr>wc_store := s\<rparr>)"
    and create_law: "P w \<Longrightarrow> lookup (ms_links (wc_store w)) l = None \<Longrightarrow>
      create_provider_link (pending_link M c l sender now) (wc_store w) = Inr s \<Longrightarrow> P (w\<lparr>wc_store := s\<rparr>)"
    and confirm_law: "P w \<Longrightarrow> confirm_provider_link u l binding at (wc_store w) = (kk, s) \<Longrightarrow> P (w\<lparr>wc_store := s\<rparr>)"
    and revoke_link_law: "P w \<Longrightarrow> revoke_provider_link u at (wc_store w) = (b, s) \<Longrightarrow> P (w\<lparr>wc_store := s\<rparr>)"
    and enqueue_law: "P w \<Longrightarrow> inbound_text_ok text \<Longrightarrow>
      enqueue_or_resume (envelope_for M k i text msg req occurred now) at (mg_capacity M) (wc_store w) = (x, s) \<Longrightarrow> P (w\<lparr>wc_store := s\<rparr>)"
    and claim_law: "P w \<Longrightarrow> claim_envelope d lease now till r (wc_store w) = (y, s) \<Longrightarrow> P (w\<lparr>wc_store := s\<rparr>)"
    and heartbeat_law: "P w \<Longrightarrow> heartbeat e d lease now till (wc_store w) = (y, s) \<Longrightarrow> P (w\<lparr>wc_store := s\<rparr>)"
    and complete_law: "P w \<Longrightarrow> str_len 1 480 text \<Longrightarrow> complete_lease e d lease now kind (mg_encrypt M text (response_data e))
      (map_option (\<lambda>x. mg_encrypt M x (host_session_data e)) session) (wc_store w) = (y, s) \<Longrightarrow> P (w\<lparr>wc_store := s\<rparr>)"
    and mark_law: "P w \<Longrightarrow> mark_response_sent e at (wc_store w) = (y, s) \<Longrightarrow> P (w\<lparr>wc_store := s\<rparr>)"
    and receipt_law: "P w \<Longrightarrow> P (w\<lparr>wc_store := save_delivery_receipt dr (wc_store w)\<rparr>)"
    and status_law: "P w \<Longrightarrow> update_delivery_status h st at fl (wc_store w) = (b, s) \<Longrightarrow> P (w\<lparr>wc_store := s\<rparr>)"
    and delete_law: "P w \<Longrightarrow> delete_expired now (wc_store w) = (n, s) \<Longrightarrow> P (w\<lparr>wc_store := s\<rparr>)"
    and send_law: "P w \<Longrightarrow> mg_replies M \<Longrightarrow> og_at out < mg_cutoff M \<Longrightarrow> P (w\<lparr>wc_sent := wc_sent w @ [out]\<rparr>)"
begin

lemma store_keeps:
  "keeps P (try_store (save_device dv))" "keeps P (on_store (revoke_device u d at))"
  "keeps P (writes (\<lambda>w. w\<lparr>wc_store := save_link_challenge c (wc_store w)\<rparr>))"
  "keeps P (on_store (consume_link_challenge t at))" "keeps P (on_store (confirm_provider_link u l binding at))"
  "keeps P (on_store (revoke_provider_link u at))" "keeps P (on_store (claim_envelope d lease now till r))"
  "keeps P (on_store (heartbeat e d lease now till))" "keeps P (on_store (mark_response_sent e at))"
  "keeps P (writes (\<lambda>w. w\<lparr>wc_store := save_delivery_receipt dr (wc_store w)\<rparr>))"
  "keeps P (on_store (update_delivery_status h st at fl))" "keeps P (on_store (delete_expired now))"
proof -
  show "keeps P (try_store (save_device dv))" by (rule keeps_try_store, erule (1) save_device_law)
  show "keeps P (on_store (revoke_device u d at))" by (rule keeps_on_store, erule (1) revoke_device_law)
  show "keeps P (writes (\<lambda>w. w\<lparr>wc_store := save_link_challenge c (wc_store w)\<rparr>))" by (rule keeps_writes, erule challenge_law)
  show "keeps P (on_store (consume_link_challenge t at))" by (rule keeps_on_store, erule (1) consume_law)
  show "keeps P (on_store (confirm_provider_link u l binding at))" by (rule keeps_on_store, erule (1) confirm_law)
  show "keeps P (on_store (revoke_provider_link u at))" by (rule keeps_on_store, erule (1) revoke_link_law)
  show "keeps P (on_store (claim_envelope d lease now till r))" by (rule keeps_on_store, erule (1) claim_law)
  show "keeps P (on_store (heartbeat e d lease now till))" by (rule keeps_on_store, erule (1) heartbeat_law)
  show "keeps P (on_store (mark_response_sent e at))" by (rule keeps_on_store, erule (1) mark_law)
  show "keeps P (writes (\<lambda>w. w\<lparr>wc_store := save_delivery_receipt dr (wc_store w)\<rparr>))" by (rule keeps_writes, erule receipt_law)
  show "keeps P (on_store (update_delivery_status h st at fl))" by (rule keeps_on_store, erule (1) status_law)
  show "keeps P (on_store (delete_expired now))" by (rule keeps_on_store, erule (1) delete_law)
qed

lemma send_keeps: "mg_replies M \<Longrightarrow> is_pre_cutoff M (og_at out) \<Longrightarrow> keeps P (send_service_text M out)"
  using send_law by (auto simp: keeps_def send_service_text_def is_pre_cutoff_def split: sum.split)

lemma deliver_keeps: "mg_replies M \<Longrightarrow> is_pre_cutoff M now \<Longrightarrow> keeps P (deliver_response M l e c now i)"
  unfolding deliver_response_def
  by (intro keeps_intros send_keeps store_keeps) simp_all

lemma try_send_keeps: "keeps P (try_send_response M l e now i)"
  unfolding try_send_response_def by (auto intro!: keeps_intros deliver_keeps split: option.split)

lemma register_keeps: "keeps P (register_device M p h name i now)"
  unfolding register_device_def by (intro keeps_intros store_keeps)

lemma challenge_keeps: "keeps P (create_link_challenge M p session h d t0 now token i)"
  unfolding create_link_challenge_def clear_expired_link_def
  by (intro keeps_intros store_keeps)

lemma confirm_keeps: "keeps P (confirm_link M p session l t0 now)"
  unfolding confirm_link_def by (intro keeps_intros store_keeps)

lemma revoke_keeps: "keeps P (revoke p d now)" "keeps P (revoke_runner p d now)"
  unfolding revoke_runner_def revoke_def by (intro keeps_intros store_keeps)+

lemma heartbeat_keeps: "keeps P (runner_heartbeat M p e d lease t0 now)"
  unfolding runner_heartbeat_def by (intro keeps_intros store_keeps)

lemma status_keeps: "keeps P (handle_delivery_status M delivery st occurred fl now)"
  unfolding handle_delivery_status_def by (intro keeps_intros store_keeps)

lemma cleanup_keeps: "keeps P (cleanup now)"
  unfolding cleanup_def by (intro store_keeps)

lemma enqueue_keeps: "inbound_text_ok text \<Longrightarrow> keeps P (enqueue_text M l i text occurred now msg req receipt_id)"
  unfolding enqueue_text_def by (intro keeps_intros try_send_keeps keeps_ask_store enqueue_law) assumption+

lemma accept_keeps: "inbound_text_ok text \<Longrightarrow> keeps P (accept_text M i text occurred now msg req receipt_id)"
  unfolding accept_text_def by (intro keeps_intros enqueue_keeps)

lemma complete_keeps: "keeps P (complete_work M p e d lease kind message session now receipt_id)"
  unfolding keeps_def
proof (intro allI impI)
  fix w assume "P w"
  let ?ok = "str_len 1 480 (trim message)"
  have "keeps P (complete_work M p e d lease kind message session now receipt_id)" if ?ok
    unfolding complete_work_def by (intro keeps_intros keeps_on_store try_send_keeps) (rule complete_law [OF _ that])
  moreover have "snd (complete_work M p e d lease kind message session now receipt_id w) = w" if "\<not> ?ok"
    using that unfolding complete_work_def
    by (auto simp: bind_action_def require_runner_scopes_def parse_id_def require_def lift_result_def guard_def split: prod.split sum.split)
  ultimately show "P (snd (complete_work M p e d lease kind message session now receipt_id w))"
    using \<open>P w\<close> by (cases ?ok) (auto dest: keepsD)
qed

lemma flush_keeps: "keeps P (flush_response M d now receipt_id)"
  unfolding flush_response_def by (intro keeps_intros try_send_keeps)

lemma round_keeps: "keeps P (claim_round M d recover now lease receipt_id)"
  unfolding claim_round_def describe_claim_def by (intro keeps_intros flush_keeps store_keeps)

lemma wait_keeps: "P w \<Longrightarrow> claim_wait fuel M d recover deadline clock ids k now w = Some (r, w') \<Longrightarrow> P w'"
proof (induction fuel arbitrary: k now w)
  case (Suc fuel)
  have "P (snd (claim_round M d recover now (fst (ids k)) (snd (ids k)) w))" by (rule keepsD [OF round_keeps Suc(2)])
  then show ?case
    using Suc by (auto split: if_splits prod.splits sum.splits option.splits)
qed simp

lemma claim_keeps:
  assumes "P w" "claim_work fuel M p d wait_seconds recover start clock ids w = Some (r, w')"
  shows "P w'"
proof -
  obtain t0 t1 now where start: "start = (t0, t1, now)" by (cases start)
  obtain x u where auth: "authorize_claim M p d wait_seconds t0 w = (x, u)" by fastforce
  have "keeps P (authorize_claim M p d wait_seconds t0)" unfolding authorize_claim_def by (intro keeps_intros)
  then have "P (snd (authorize_claim M p d wait_seconds t0 w))" using assms(1) by (rule keepsD)
  then have u: "P u" by (simp add: auth)
  show "P w'"
  proof (cases x)
    case (Inl e)
    then show ?thesis using assms(2) u by (simp add: claim_work_def start auth)
  next
    case (Inr y)
    then have "claim_wait fuel M d recover (t1 + int wait_seconds * 1000) clock ids 0 now u = Some (r, w')"
      using assms(2) by (simp add: claim_work_def start auth)
    then show ?thesis by (rule wait_keeps [OF u])
  qed
qed

lemma link_code_keeps:
  assumes "P w" "lookup (ms_links (wc_store w)) l = None"
  shows "P (snd (consume_link_code M sender token now window l req w))"
proof -
  obtain z s where c: "consume_link_challenge (mg_hash M token) now (wc_store w) = (z, s)" by fastforce
  let ?w = "w\<lparr>wc_store := s\<rparr>"
  have w1: "P ?w" by (rule consume_law [OF assms(1) c])
  have fresh: "lookup (ms_links (wc_store ?w)) l = None" using assms(2) c by (auto simp: consume_link_challenge_def split: option.splits if_splits)
  have created: "P (?w\<lparr>wc_store := s'\<rparr>)" if "create_provider_link (pending_link M x l sender now) s = Inr s'" for x s'
    using create_law [OF w1 fresh, where c = x and sender = sender and now = now and s = s'] that by simp
  have tail: "keeps P (if mg_replies M \<and> now < window \<and> is_pre_cutoff M now
      then bind_action (parse_id ''req'' req) (\<lambda>_. bind_action (send_service_text M
        \<lparr>og_destination = sender, og_text = confirmation_text, og_request = req, og_at = now\<rparr>) (\<lambda>_. return LinkPending))
      else return LinkPending)"
    by (intro keeps_intros send_keeps) simp_all
  show ?thesis
    unfolding consume_link_code_def
    using w1 created keepsD [OF tail]
    by (auto simp: bind_action_def on_store_def c from_store_def reads_def return_def parse_id_def require_def lift_result_def guard_def
        try_store_def split: option.split sum.split)
qed

lemma inbound_keeps:
  assumes "P w" "lookup (ms_links (wc_store w)) link_id = None"
  shows "P (snd (handle_inbound_text M i now msg req receipt_id link_id w))"
proof (cases "inbound_text_ok (trim (ib_text i))")
  case True
  then have accept: "P (snd (accept_text M i (trim (ib_text i)) occurred now msg req receipt_id w))" for occurred
    by (rule keepsD [OF accept_keeps assms(1)])
  show ?thesis
    using True accept link_code_keeps [OF assms] assms(1) unfolding handle_inbound_text_def
    by (auto simp: bind_action_def require_def lift_result_def guard_def return_def throw_def split: option.split)
next
  case False
  then show ?thesis
    using assms(1) unfolding handle_inbound_text_def
    by (auto simp: bind_action_def require_def lift_result_def guard_def return_def throw_def split: option.split)
qed

end

section \<open>Steps of the service\<close>

inductive service_step :: "messaging \<Rightarrow> wa_channel \<Rightarrow> wa_channel \<Rightarrow> bool" for M where
  register: "service_step M w (snd (register_device M p h name i now w))"
| challenge: "service_step M w (snd (create_link_challenge M p session h d t0 now token i w))"
| inbound: "lookup (ms_links (wc_store w)) link_id = None \<Longrightarrow>
    service_step M w (snd (handle_inbound_text M i now msg req receipt_id link_id w))"
| claim: "claim_work fuel M p d wait_seconds recover start clock ids w = Some (r, w') \<Longrightarrow> service_step M w w'"
| heartbeat: "service_step M w (snd (runner_heartbeat M p e d lease t0 now w))"
| complete: "service_step M w (snd (complete_work M p e d lease kind message session now receipt_id w))"
| confirm: "service_step M w (snd (confirm_link M p session l t0 now w))"
| revoke: "service_step M w (snd (revoke p d now w))"
| revoke_runner: "service_step M w (snd (revoke_runner p d now w))"
| status: "service_step M w (snd (handle_delivery_status M delivery st occurred fl now w))"
| cleanup: "service_step M w (snd (cleanup now w))"

inductive service_reachable :: "messaging \<Rightarrow> wa_channel \<Rightarrow> bool" for M where
  initial: "service_reachable M \<lparr>wc_store = empty_messages, wc_sent = []\<rparr>"
| step: "service_reachable M w \<Longrightarrow> service_step M w w' \<Longrightarrow> service_reachable M w'"

context channel_invariant
begin

lemma step_keeps: "service_step M w w' \<Longrightarrow> P w \<Longrightarrow> P w'"
  by (induction rule: service_step.induct)
    (auto intro: keepsD register_keeps challenge_keeps inbound_keeps claim_keeps heartbeat_keeps complete_keeps confirm_keeps
      revoke_keeps status_keeps cleanup_keeps)

lemma reachable_keeps: "service_reachable M w \<Longrightarrow> P \<lparr>wc_store = empty_messages, wc_sent = []\<rparr> \<Longrightarrow> P w"
  by (induction rule: service_reachable.induct) (auto intro: step_keeps)

end

section \<open>The three invariants\<close>

interpretation store_path: channel_invariant M "\<lambda>w. (store_step (mg_capacity M))\<^sup>*\<^sup>* s0 (wc_store w)" for M s0
proof unfold_locales
  fix w k i body msg req occurred now at x s
  assume "(store_step (mg_capacity M))\<^sup>*\<^sup>* s0 (wc_store w)"
    and "enqueue_or_resume (envelope_for M k i body msg req occurred now) at (mg_capacity M) (wc_store w) = (x, s)"
  moreover have "new_envelope (envelope_for M k i body msg req occurred now)" by (simp add: new_envelope_def envelope_for_def)
  ultimately show "(store_step (mg_capacity M))\<^sup>*\<^sup>* s0 (wc_store (w\<lparr>wc_store := s\<rparr>))"
    by (auto intro: rtranclp.rtrancl_into_rtrancl store_step.enqueue)
next
  fix w l c sender now s
  assume path: "(store_step (mg_capacity M))\<^sup>*\<^sup>* s0 (wc_store w)" and fresh: "lookup (ms_links (wc_store w)) l = None"
    and create: "create_provider_link (pending_link M c l sender now) (wc_store w) = Inr s"
  have "pl_id (pending_link M c l sender now) \<notin> set (map fst (ms_links (wc_store w)))"
    using fresh by (simp add: pending_link_def map_of_eq_None_iff)
  from rtranclp.rtrancl_into_rtrancl [OF path store_step.create_link [OF this create]]
  show "(store_step (mg_capacity M))\<^sup>*\<^sup>* s0 (wc_store (w\<lparr>wc_store := s\<rparr>))" by simp
qed (auto intro: rtranclp.rtrancl_into_rtrancl store_step.intros)

definition sends_ok :: "messaging \<Rightarrow> wa_channel \<Rightarrow> bool" where
  "sends_ok M w \<longleftrightarrow> (\<forall>m\<in>set (wc_sent w). mg_replies M \<and> og_at m < mg_cutoff M)"

interpretation sends: channel_invariant M "sends_ok M" for M
  by unfold_locales (auto simp: sends_ok_def)

definition envelope_content :: "messaging \<Rightarrow> string \<Rightarrow> envelope \<Rightarrow> bool" where
  "envelope_content M k e \<longleftrightarrow> en_id e = k \<and>
     (\<exists>t. inbound_text_ok t \<and> en_inbound e = mg_encrypt M t (inbound_data (en_link e))) \<and>
     opt_all (\<lambda>c. \<exists>m. str_len 1 480 m \<and> c = mg_encrypt M m (response_data k)) (en_response e) \<and>
     opt_all (\<lambda>c. \<exists>x. c = mg_encrypt M x (host_session_data k)) (en_host_session e)"

definition link_content :: "messaging \<Rightarrow> string \<Rightarrow> provider_link \<Rightarrow> bool" where
  "link_content M k l \<longleftrightarrow> pl_id l = k \<and>
     (\<exists>x. pl_destination l = mg_encrypt M x (destination_data k) \<and> pl_identity l = mg_hash M x)"

definition every_entry :: "('k \<Rightarrow> 'v \<Rightarrow> bool) \<Rightarrow> ('k, 'v) js_map \<Rightarrow> bool" where
  "every_entry Q m \<longleftrightarrow> (\<forall>(k, v)\<in>set m. Q k v)"

lemma every_entry_put: "every_entry Q m \<Longrightarrow> Q k v \<Longrightarrow> every_entry Q (put k v m)"
  unfolding every_entry_def put_def by (induction m) auto

lemma every_entry_adjust: "every_entry Q m \<Longrightarrow> (\<And>v. Q k v \<Longrightarrow> Q k (f v)) \<Longrightarrow> every_entry Q (adjust k f m)"
  unfolding every_entry_def by (induction k f m rule: adjust.induct) auto

lemma every_entry_adjust_first:
  "every_entry Q m \<Longrightarrow> (\<And>k v. p v \<Longrightarrow> Q k v \<Longrightarrow> Q k (f v)) \<Longrightarrow> every_entry Q (adjust_first p f m)"
  unfolding every_entry_def by (induction p f m rule: adjust_first.induct) auto

lemma every_entry_map: "every_entry Q m \<Longrightarrow> (\<And>k v. Q k v \<Longrightarrow> Q k (f v)) \<Longrightarrow> every_entry Q (map (\<lambda>(k, v). (k, f v)) m)"
  unfolding every_entry_def by fastforce

lemma every_entry_filter: "every_entry Q m \<Longrightarrow> every_entry Q (filter p m)"
  by (auto simp: every_entry_def)

lemma every_entryD: "every_entry Q m \<Longrightarrow> lookup m k = Some v \<Longrightarrow> Q k v"
  unfolding every_entry_def by (drule map_of_SomeD) blast

lemma every_entry_vals: "every_entry Q m \<Longrightarrow> v \<in> set (vals m) \<Longrightarrow> \<exists>k. Q k v"
  unfolding every_entry_def by fastforce

definition content_ok :: "messaging \<Rightarrow> wa_channel \<Rightarrow> bool" where
  "content_ok M w \<longleftrightarrow> every_entry (envelope_content M) (ms_envelopes (wc_store w)) \<and> every_entry (link_content M) (ms_links (wc_store w))"

lemma content_ok_other:
  "content_ok M w \<Longrightarrow> ms_envelopes s = ms_envelopes (wc_store w) \<Longrightarrow> ms_links s = ms_links (wc_store w) \<Longrightarrow> content_ok M (w\<lparr>wc_store := s\<rparr>)"
  by (simp add: content_ok_def)

lemma content_ok_envelopes:
  "content_ok M w \<Longrightarrow> every_entry (envelope_content M) (ms_envelopes s) \<Longrightarrow> ms_links s = ms_links (wc_store w) \<Longrightarrow> content_ok M (w\<lparr>wc_store := s\<rparr>)"
  by (simp add: content_ok_def)

lemma content_ok_links:
  "content_ok M w \<Longrightarrow> every_entry (link_content M) (ms_links s) \<Longrightarrow> ms_envelopes s = ms_envelopes (wc_store w) \<Longrightarrow> content_ok M (w\<lparr>wc_store := s\<rparr>)"
  by (simp add: content_ok_def)

lemma content_enqueue:
  assumes "every_entry (envelope_content M) (ms_envelopes s)" "inbound_text_ok text"
    and "enqueue_or_resume (envelope_for M k i text msg req occurred now) at cap s = (x, s')"
  shows "every_entry (envelope_content M) (ms_envelopes s') \<and> ms_links s' = ms_links s"
proof -
  let ?e = "envelope_for M k i text msg req occurred now"
  have new: "envelope_content M msg ?e" using assms(2) by (auto simp: envelope_content_def envelope_for_def opt_all_def)
  have id: "en_id ?e = msg" by (simp add: envelope_for_def)
  have resumed: "envelope_content M k' (resumed_envelope ?e at v)"
    if "en_link v = en_link ?e \<and> en_state v = AwaitingUser" "envelope_content M k' v" for k' v
    using that assms(2) by (auto simp: envelope_content_def resumed_envelope_def envelope_for_def opt_all_def)
  show ?thesis
    using assms(1,3) unfolding enqueue_or_resume_def
    by (auto simp: id split: option.splits if_splits intro!: every_entry_put [OF assms(1) new] every_entry_adjust_first resumed)
qed

lemma content_map:
  "every_entry (envelope_content M) (ms_envelopes s) \<Longrightarrow> (\<And>k e. envelope_content M k e \<Longrightarrow> envelope_content M k (f e)) \<Longrightarrow>
    every_entry (envelope_content M) (ms_envelopes (map_envelopes f s))"
  by (simp add: map_envelopes_def every_entry_map)

lemma content_claim:
  assumes "every_entry (envelope_content M) (ms_envelopes s)" "claim_envelope d lease now till r s = (y, s')"
  shows "every_entry (envelope_content M) (ms_envelopes s') \<and> ms_links s' = ms_links s"
proof -
  have prep: "every_entry (envelope_content M) (ms_envelopes (prepare_claim d now r s))"
  proof -
    have "every_entry (envelope_content M) (ms_envelopes (map_envelopes (release_lease d now) s))"
      by (rule content_map [OF assms(1)]) (simp add: release_lease_def envelope_content_def)
    moreover from this have "every_entry (envelope_content M)
        (ms_envelopes (map_envelopes (recover_attempts links d now) (map_envelopes (release_lease d now) s)))" for links
      by (rule content_map) (simp add: recover_attempts_def envelope_content_def)
    ultimately show ?thesis by (simp add: prepare_claim_def Let_def)
  qed
  have links: "ms_links (prepare_claim d now r s) = ms_links s" by (simp add: prepare_claim_def map_envelopes_def Let_def)
  have leased: "every_entry (envelope_content M) (adjust i (leased_to d lease now till) (ms_envelopes (prepare_claim d now r s)))" for i
    by (rule every_entry_adjust [OF prep]) (simp add: leased_to_def envelope_content_def)
  have "s' \<in> {s, prepare_claim d now r s} \<or> (\<exists>q. s' = snd (take_lease d lease now till q (prepare_claim d now r s)))"
    using assms(2) unfolding claim_envelope_def Let_def
    by (simp split: option.splits if_splits list.splits) (metis snd_conv)+
  then show ?thesis using assms(1) prep leased links by (auto simp: take_lease_def)
qed

lemma content_pending: "link_content M (pl_id (pending_link M c l sender now)) (pending_link M c l sender now)"
  unfolding link_content_def pending_link_def by (simp, blast)

lemma content_completed:
  assumes "envelope_content M k v" "str_len 1 480 body"
  shows "envelope_content M k (v\<lparr>en_state := ResponseReady, en_response := Some (mg_encrypt M body (response_data k)),
    en_host_session := map_option (\<lambda>x. mg_encrypt M x (host_session_data k)) session, en_terminal := Some kind, en_lease := None,
    en_device := None, en_lease_expires := None, en_updated := now\<rparr>)"
  using assms by (cases session) (fastforce simp: envelope_content_def opt_all_def)+

interpretation content: channel_invariant M "content_ok M" for M
proof unfold_locales
  fix w k i body msg req occurred now at x s
  assume "content_ok M w" "inbound_text_ok body"
    and "enqueue_or_resume (envelope_for M k i body msg req occurred now) at (mg_capacity M) (wc_store w) = (x, s)"
  then show "content_ok M (w\<lparr>wc_store := s\<rparr>)"
    using content_enqueue [of M "wc_store w"] by (auto simp: content_ok_def)
next
  fix w d lease now till r y s
  assume "content_ok M w" "claim_envelope d lease now till r (wc_store w) = (y, s)"
  then show "content_ok M (w\<lparr>wc_store := s\<rparr>)" using content_claim [of M "wc_store w"] by (auto simp: content_ok_def)
next
  fix w e d lease now till y s
  assume "content_ok M w" "heartbeat e d lease now till (wc_store w) = (y, s)"
  then show "content_ok M (w\<lparr>wc_store := s\<rparr>)"
    by (auto simp: content_ok_def heartbeat_def update_leased_def envelope_content_def intro!: every_entry_adjust split: if_splits)
next
  fix w body e d lease now kind session y s
  assume "content_ok M w" "str_len 1 480 body" "complete_lease e d lease now kind (mg_encrypt M body (response_data e))
      (map_option (\<lambda>x. mg_encrypt M x (host_session_data e)) session) (wc_store w) = (y, s)"
  then show "content_ok M (w\<lparr>wc_store := s\<rparr>)"
    by (auto simp: content_ok_def complete_lease_def update_leased_def intro!: every_entry_adjust content_completed
        split: if_splits)
next
  fix w e at y s
  assume "content_ok M w" "mark_response_sent e at (wc_store w) = (y, s)"
  then show "content_ok M (w\<lparr>wc_store := s\<rparr>)"
    by (auto simp: content_ok_def mark_response_sent_def sent_envelope_def envelope_content_def opt_all_def intro!: every_entry_adjust
        split: if_splits option.splits)
next
  fix w l c sender now s
  assume "content_ok M w" "create_provider_link (pending_link M c l sender now) (wc_store w) = Inr s"
  then show "content_ok M (w\<lparr>wc_store := s\<rparr>)"
    by (auto simp: content_ok_def create_provider_link_def intro!: every_entry_put content_pending split: if_splits)
next
  fix w u l binding at kk s
  assume "content_ok M w" "confirm_provider_link u l binding at (wc_store w) = (kk, s)"
  then show "content_ok M (w\<lparr>wc_store := s\<rparr>)"
    by (auto simp: content_ok_def confirm_provider_link_def Let_def link_content_def intro!: every_entry_adjust split: if_splits option.splits)
next
  fix w u at b s
  assume "content_ok M w" "revoke_provider_link u at (wc_store w) = (b, s)"
  then show "content_ok M (w\<lparr>wc_store := s\<rparr>)"
    by (auto simp: content_ok_def revoke_provider_link_def link_content_def intro!: every_entry_adjust_first split: if_splits)
next
  fix w now n s
  assume "content_ok M w" "delete_expired now (wc_store w) = (n, s)"
  then show "content_ok M (w\<lparr>wc_store := s\<rparr>)"
    by (auto simp: content_ok_def delete_expired_def Let_def intro!: every_entry_filter)
qed (auto simp: content_ok_def save_device_def revoke_device_def save_link_challenge_def consume_link_challenge_def
    save_delivery_receipt_def update_delivery_status_def split: option.splits if_splits)

section \<open>What successful calls did\<close>

lemma guarded_Inr:
  "require b e w = (Inr u, w') \<longleftrightarrow> b \<and> w' = w" "parse_id prefix i w = (Inr u, w') \<longleftrightarrow> opaque_id_ok prefix i \<and> w' = w"
  "require_pre_cutoff M now w = (Inr u, w') \<longleftrightarrow> is_pre_cutoff M now \<and> w' = w"
  "require_runner_scopes p w = (Inr u, w') \<longleftrightarrow> RunnerMessages \<in> set (p_scopes p) \<and> JournalRead \<in> set (p_scopes p) \<and> w' = w"
  "require_member M p h w = (Inr u, w') \<longleftrightarrow> mg_member M (p_user p) h \<and> w' = w"
  by (auto simp: require_def parse_id_def require_pre_cutoff_def require_runner_scopes_def require_member_def lift_result_def guard_def)

lemma require_device_Inr:
  "require_device p d w = (Inr c, w') \<longleftrightarrow>
     lookup (ms_devices (wc_store w)) d = Some c \<and> dv_user c = p_user p \<and> dv_revoked c = None \<and> w' = w"
  by (auto simp: require_device_def bind_action_def from_store_def reads_def get_device_def throw_def return_def split: option.splits if_splits)

lemma require_active_link_Inr:
  "require_active_link l w = (Inr k, w') \<longleftrightarrow>
     lookup (ms_links (wc_store w)) l = Some k \<and> pl_confirmed k \<noteq> None \<and> pl_revoked k = None \<and> w' = w"
  by (auto simp: require_active_link_def bind_action_def from_store_def reads_def get_provider_link_def throw_def return_def
      split: option.splits if_splits)

lemma lift_Inr: "lift_result (\<lambda>_. r) w = (Inr x, w') \<longleftrightarrow> r = Inr x \<and> w' = w"
  by (auto simp: lift_result_def)

lemma on_store_Inr: "on_store f w = (Inr x, w') \<longleftrightarrow> (\<exists>s. f (wc_store w) = (x, s) \<and> w' = w\<lparr>wc_store := s\<rparr>)"
  by (auto simp: on_store_def split: prod.splits)

lemma deliver_Inr:
  assumes "deliver_response M l e c now i w = (Inr b, w')"
  shows "b \<and> (\<exists>text dest. mg_decrypt M c (response_data (en_id e)) = Inr text \<and>
    mg_decrypt M (pl_destination l) (destination_data (pl_id l)) = Inr dest \<and>
    wc_sent w' = wc_sent w @ [\<lparr>og_destination = dest, og_text = text, og_request = en_request e, og_at = now\<rparr>])"
  using assms unfolding deliver_response_def
  by (elim bind_action_InrE)
    (auto simp: lift_Inr send_service_text_def writes_def on_store_Inr throw_def return_def split: sum.splits if_splits)

lemma try_send_True:
  assumes "try_send_response M l e now i w = (Inr True, w')"
  shows "mg_replies M \<and> is_pre_cutoff M now \<and> now < en_window e \<and> (\<exists>c. en_response e = Some c \<and> deliver_response M l e c now i w = (Inr True, w'))"
  using assms by (auto simp: try_send_response_def return_def split: option.splits if_splits)

lemma complete_work_sent:
  assumes "complete_work M p e d lease kind message session now i w = (Inr st, w')" "st \<noteq> ResponseReady"
  obtains env s l where
    "complete_lease e d lease now kind (mg_encrypt M (trim message) (response_data e))
        (map_option (\<lambda>x. mg_encrypt M x (host_session_data e)) session) (wc_store w) = (Some env, s)"
    "lookup (ms_links s) (en_link env) = Some l" "pl_confirmed l \<noteq> None" "pl_revoked l = None"
    "try_send_response M l env now i (w\<lparr>wc_store := s\<rparr>) = (Inr True, w')"
    "str_len 1 480 (trim message)"
  using assms unfolding complete_work_def
  by (elim bind_action_InrE)
    (auto simp: guarded_Inr require_device_Inr on_store_Inr require_active_link_Inr throw_def return_def
      split: option.splits if_splits elim!: bind_action_InrE)

lemma complete_lease_Some:
  assumes "complete_lease e d lease now kind response host s = (Some env, s')"
  obtains env0 where "lookup (ms_envelopes s) e = Some env0" "en_device env0 = Some d" "en_lease env0 = Some lease" "en_link env = en_link env0"
    "en_request env = en_request env0" "en_id env = en_id env0" "en_response env = Some response" "ms_links s' = ms_links s"
  using assms by (auto simp: complete_lease_def update_leased_def valid_lease_def split: if_splits option.splits)



section \<open>A conversation\<close>

definition demo_messaging :: messaging where
  "demo_messaging = \<lparr>mg_cutoff = 1000000000, mg_lease_ms = 90000, mg_retention_ms = 604800000, mg_intake = True, mg_linking = True,
     mg_claims = True, mg_replies = True, mg_capacity = \<lparr>cap_per_link = 2, cap_global = 4\<rparr>,
     mg_encrypt = (\<lambda>x ad. ad @ x), mg_decrypt = (\<lambda>c ad. Inr (drop (length ad) c)), mg_hash = (\<lambda>x. CHR ''#'' # x),
     mg_member = (\<lambda>u h. True), mg_provider = (\<lambda>out. Inr ''wamid''), mg_contact = (\<lambda>t. t)\<rparr>"

definition demo_runner :: principal where
  "demo_runner = \<lparr>p_user = ''u'', p_actor = ''a'', p_display = ''n'', p_scopes = [RunnerMessages, JournalRead], p_client = CodexClient\<rparr>"

definition demo_id :: "string \<Rightarrow> string" where
  "demo_id prefix = prefix @ ''_0123456789abcdef''"

definition demo_token :: string where
  "demo_token = replicate 43 (CHR ''t'')"

definition demo_registered :: wa_channel where
  "demo_registered = snd (register_device demo_messaging demo_runner (demo_id ''hsh'') ''laptop'' (demo_id ''dev'') 100
     \<lparr>wc_store = empty_messages, wc_sent = []\<rparr>)"

definition demo_challenged :: wa_channel where
  "demo_challenged = snd (create_link_challenge demo_messaging demo_runner ''s'' (demo_id ''hsh'') (demo_id ''dev'') 200 200 demo_token ''c''
     demo_registered)"

definition demo_linked :: wa_channel where
  "demo_linked = snd (handle_inbound_text demo_messaging
     \<lparr>ib_message = ''m0'', ib_sender = ''+1555'', ib_text = link_prefix @ demo_token, ib_occurred = Some 300\<rparr> 300
     (demo_id ''msg'') (demo_id ''req'') ''r0'' (demo_id ''lnk'') demo_challenged)"

definition demo_confirmed :: wa_channel where
  "demo_confirmed = snd (confirm_link demo_messaging demo_runner ''s'' (demo_id ''lnk'') 400 400 demo_linked)"

definition demo_asked :: wa_channel where
  "demo_asked = snd (handle_inbound_text demo_messaging
     \<lparr>ib_message = ''m1'', ib_sender = ''+1555'', ib_text = ''milk'', ib_occurred = Some 500\<rparr> 500
     (demo_id ''msg'') (demo_id ''req'') ''r1'' (demo_id ''lnk'' @ ''x'') demo_confirmed)"

definition demo_claim :: "wa_channel \<Rightarrow> ((failure + claim_answer) \<times> wa_channel) option" where
  "demo_claim = claim_work 1 demo_messaging demo_runner (demo_id ''dev'') 0 False (600, 600, 600) (\<lambda>k. (600, 850))
     (\<lambda>k. (demo_id ''lse'', ''r2''))"

definition demo_leased :: wa_channel where
  "demo_leased = snd (the (demo_claim demo_asked))"

lemma demo_fresh: "lookup (ms_links (wc_store demo_challenged)) (demo_id ''lnk'') = None"
  "lookup (ms_links (wc_store demo_confirmed)) (demo_id ''lnk'' @ ''x'') = None"
  by code_simp+

lemma demo_asked_reachable: "service_reachable demo_messaging demo_asked"
proof -
  have "service_reachable demo_messaging demo_registered"
    unfolding demo_registered_def by (rule service_reachable.step [OF initial service_step.register])
  then have "service_reachable demo_messaging demo_challenged"
    unfolding demo_challenged_def by (rule service_reachable.step [OF _ service_step.challenge])
  then have "service_reachable demo_messaging demo_linked"
    unfolding demo_linked_def by (rule service_reachable.step [OF _ service_step.inbound [OF demo_fresh(1)]])
  then have "service_reachable demo_messaging demo_confirmed"
    unfolding demo_confirmed_def by (rule service_reachable.step [OF _ service_step.confirm])
  then show ?thesis
    unfolding demo_asked_def by (rule service_reachable.step [OF _ service_step.inbound [OF demo_fresh(2)]])
qed

lemma demo_cipher: "mg_decrypt demo_messaging (mg_encrypt demo_messaging x ad) ad = Inr x"
  by (simp add: demo_messaging_def)

definition demo_work :: claimed where
  "demo_work = \<lparr>cl_envelope = demo_id ''msg'', cl_request = demo_id ''req'', cl_lease = demo_id ''lse'', cl_lease_expires = 90600,
     cl_household = demo_id ''hsh'', cl_text = ''milk'', cl_received = 500, cl_window = 86400500, cl_session = None\<rparr>"

lemma demo_claims: "demo_claim demo_asked = Some (Inr (Work demo_work), demo_leased)"
proof -
  have "map_option fst (demo_claim demo_asked) = Some (Inr (Work demo_work))" by code_simp
  then show ?thesis unfolding demo_leased_def by (cases "demo_claim demo_asked") auto
qed

lemma demo_leased_reachable: "service_reachable demo_messaging demo_leased"
  by (rule service_reachable.step [OF demo_asked_reachable service_step.claim [OF demo_claims [unfolded demo_claim_def]]])

lemma demo_completes:
  "fst (complete_work demo_messaging demo_runner (demo_id ''msg'') (demo_id ''dev'') (demo_id ''lse'') TermCompleted '' Added milk '' None 700 ''r3''
     demo_leased) = Inr EnvCompleted"
  by code_simp

section \<open>Properties\<close>

definition cipher_ok :: "messaging \<Rightarrow> bool" where
  "cipher_ok M \<longleftrightarrow> (\<forall>x ad. mg_decrypt M (mg_encrypt M x ad) ad = Inr x)"

lemma reachable_facts:
  assumes "service_reachable M w"
  shows "(store_step (mg_capacity M))\<^sup>*\<^sup>* empty_messages (wc_store w)" "content_ok M w" "sends_ok M w"
  using store_path.reachable_keeps [OF assms, of empty_messages] content.reachable_keeps [OF assms] sends.reachable_keeps [OF assms]
  by (simp_all add: content_ok_def sends_ok_def every_entry_def empty_messages_def)


text \<open>Refinement. Every call of the messaging service, whatever its outcome, acts on the message store as a sequence of the store's
  own steps, so every property of the store's reachable states holds under the service.\<close>
lemma service_refines_store:
  assumes "service_step M w w'"
  shows "(store_step (mg_capacity M))\<^sup>*\<^sup>* (wc_store w) (wc_store w')"
  by (rule store_path.step_keeps [OF assms]) simp

lemma service_refines_store_witness:
  "\<exists>M w w'. service_step M w w' \<and> (store_step (mg_capacity M))\<^sup>*\<^sup>* (wc_store w) (wc_store w') \<and> wc_store w \<noteq> wc_store w'"
proof -
  have s: "service_step demo_messaging demo_asked demo_leased"
    by (rule service_step.claim [OF demo_claims [unfolded demo_claim_def]])
  have "map (\<lambda>(k, e). en_state e) (ms_envelopes (wc_store demo_asked)) \<noteq> map (\<lambda>(k, e). en_state e) (ms_envelopes (wc_store demo_leased))"
    by code_simp
  then have "wc_store demo_asked \<noteq> wc_store demo_leased" by metis
  then show ?thesis using service_refines_store [OF s] s by blast
qed

text \<open>C35: No paid messages. A service that could be constructed never hands a text to WhatsApp at or after the
  billing change, nor while replies are switched off, in any sequence of calls.  The time of a text is the reading of the clock its
  check was made with.\<close>
theorem nothing_sent_after_cutoff:
  assumes "construct_service M = Inr M'" "service_reachable M w" "m \<in> set (wc_sent w)"
  shows "og_at m < maximum_free_service_send_cutoff \<and> mg_replies M"
  using reachable_facts(3) [OF assms(2)] assms(1,3) by (fastforce simp: sends_ok_def construct_service_def split: if_splits)

lemma nothing_sent_after_cutoff_witness:
  "length (wc_sent demo_linked) = 1 \<and> og_at (hd (wc_sent demo_linked)) < maximum_free_service_send_cutoff"
proof -
  have r: "service_reachable demo_messaging demo_linked"
    unfolding demo_linked_def demo_challenged_def demo_registered_def
    by (intro service_reachable.step [OF service_reachable.step [OF service_reachable.step [OF initial service_step.register]
          service_step.challenge] service_step.inbound] demo_fresh(1) [unfolded demo_challenged_def demo_registered_def])
  have c: "construct_service demo_messaging = Inr demo_messaging"
    by (simp add: construct_service_def demo_messaging_def maximum_free_service_send_cutoff_def)
  have n: "length (wc_sent demo_linked) = 1" by code_simp
  then have "hd (wc_sent demo_linked) \<in> set (wc_sent demo_linked)" by (cases "wc_sent demo_linked") auto
  from nothing_sent_after_cutoff [OF c r this] n show ?thesis by simp
qed

text \<open>Replies reach their sender. When completing work reports that the reply was sent, the runner held the lease of that message,
  its conversation was confirmed and not revoked, and exactly one text was sent: the runner's words, to an address
  whose hash is the identity of that conversation.\<close>
theorem reply_reaches_its_sender:
  assumes "cipher_ok M" "service_reachable M w"
    and "complete_work M p e d lease kind message session now i w = (Inr st, w')" "st \<noteq> ResponseReady"
  shows "\<exists>env l x. lookup (ms_envelopes (wc_store w)) e = Some env \<and> en_device env = Some d \<and> en_lease env = Some lease \<and>
    lookup (ms_links (wc_store w)) (en_link env) = Some l \<and> pl_confirmed l \<noteq> None \<and> pl_revoked l = None \<and>
    mg_hash M x = pl_identity l \<and>
    wc_sent w' = wc_sent w @ [\<lparr>og_destination = x, og_text = trim message, og_request = en_request env, og_at = now\<rparr>]"
proof -
  have content: "content_ok M w" by (rule reachable_facts(2) [OF assms(2)])
  from assms(3,4) obtain env s l where
    fin: "complete_lease e d lease now kind (mg_encrypt M (trim message) (response_data e))
        (map_option (\<lambda>x. mg_encrypt M x (host_session_data e)) session) (wc_store w) = (Some env, s)"
    and l: "lookup (ms_links s) (en_link env) = Some l" "pl_confirmed l \<noteq> None" "pl_revoked l = None"
    and sent: "try_send_response M l env now i (w\<lparr>wc_store := s\<rparr>) = (Inr True, w')"
    by (rule complete_work_sent)
  from fin obtain env0 where env0: "lookup (ms_envelopes (wc_store w)) e = Some env0" "en_device env0 = Some d" "en_lease env0 = Some lease"
    and env: "en_link env = en_link env0" "en_request env = en_request env0" "en_id env = en_id env0"
      "en_response env = Some (mg_encrypt M (trim message) (response_data e))" "ms_links s = ms_links (wc_store w)"
    by (rule complete_lease_Some)
  have id: "en_id env0 = e" using content env0(1) by (auto simp: content_ok_def envelope_content_def dest: every_entryD)
  have "link_content M (en_link env) l" using content l(1) env(5) by (auto simp: content_ok_def dest: every_entryD)
  then obtain x where x: "pl_id l = en_link env" "pl_destination l = mg_encrypt M x (destination_data (en_link env))" "pl_identity l = mg_hash M x"
    by (auto simp: link_content_def)
  from try_send_True [OF sent] env(4) have
    "deliver_response M l env (mg_encrypt M (trim message) (response_data e)) now i (w\<lparr>wc_store := s\<rparr>) = (Inr True, w')" by simp
  from deliver_Inr [OF this] have "wc_sent w' = wc_sent w @ [\<lparr>og_destination = x, og_text = trim message, og_request = en_request env, og_at = now\<rparr>]"
    using assms(1) by (simp add: cipher_ok_def x env id)
  then show ?thesis using env0 env l x by auto
qed

lemma reply_reaches_its_sender_witness:
  "\<exists>x. CHR ''#'' # x = ''#+1555'' \<and> wc_sent (snd (complete_work demo_messaging demo_runner (demo_id ''msg'') (demo_id ''dev'') (demo_id ''lse'')
     TermCompleted '' Added milk '' None 700 ''r3'' demo_leased)) =
     wc_sent demo_leased @ [\<lparr>og_destination = x, og_text = ''Added milk'', og_request = demo_id ''req'', og_at = 700\<rparr>]"
proof -
  have cipher: "cipher_ok demo_messaging" by (simp add: cipher_ok_def demo_cipher)
  let ?run = "complete_work demo_messaging demo_runner (demo_id ''msg'') (demo_id ''dev'') (demo_id ''lse'') TermCompleted '' Added milk '' None 700 ''r3''
     demo_leased"
  have run: "?run = (Inr EnvCompleted, snd ?run)" using demo_completes by (cases ?run) simp
  have "map_option (\<lambda>env. (en_link env, en_request env)) (lookup (ms_envelopes (wc_store demo_leased)) (demo_id ''msg'')) =
      Some (demo_id ''lnk'', demo_id ''req'')"
    "map_option pl_identity (lookup (ms_links (wc_store demo_leased)) (demo_id ''lnk'')) = Some ''#+1555''"
    "trim '' Added milk '' = ''Added milk''" by code_simp+
  moreover have "mg_hash demo_messaging = (\<lambda>x. CHR ''#'' # x)" by (simp add: demo_messaging_def)
  ultimately show ?thesis
    using reply_reaches_its_sender [OF cipher demo_leased_reachable run] by auto
qed



lemma claim_wait_ends:
  assumes "\<And>k. snd (clock k) \<le> fst (clock (Suc k))" "\<And>k. fst (clock k) + pause deadline (fst (clock k)) \<le> snd (clock k)"
    and "deadline \<le> now + 250 * int n" "now \<le> fst (clock k)"
  shows "claim_wait (Suc n) M d recover deadline clock ids k now w \<noteq> None"
  using assms(3,4)
proof (induction n arbitrary: k now w)
  case 0
  then show ?case by (auto split: prod.split sum.split option.split)
next
  case (Suc n)
  have "claim_wait (Suc n) M d recover deadline clock ids (Suc k) (snd (clock k)) w' \<noteq> None" if "fst (clock k) < deadline" for w'
  proof (cases "deadline < snd (clock k)")
    case True
    then show ?thesis by simp
  next
    case False
    have "pause deadline (fst (clock k)) = 250 \<or> deadline \<le> snd (clock k)"
      using assms(2) [of k] that by (auto simp: pause_def min_def max_def split: if_splits)
    then have "deadline \<le> snd (clock k) + 250 * int n" using assms(2) [of k] Suc(2,3) by auto
    then show ?thesis by (rule Suc(1) [OF _ assms(1)])
  qed
  then show ?case
    by (subst claim_wait.simps) (auto simp del: claim_wait.simps split: prod.split sum.split option.split)
qed

text \<open>C36: Claiming always answers. With a clock that never runs backwards and pauses that last at least as long as asked,
  the polling loop ends within a hundred and one rounds for every accepted waiting time.\<close>
theorem claim_always_answers:
  assumes "t1 \<le> now" "now \<le> fst (clock 0)" "\<forall>k. snd (clock k) \<le> fst (clock (Suc k))"
    and "\<forall>k. fst (clock k) + pause (t1 + int wait_seconds * 1000) (fst (clock k)) \<le> snd (clock k)"
  shows "claim_work 101 M p d wait_seconds recover (t0, t1, now) clock ids w \<noteq> None"
proof -
  obtain x w' where auth: "authorize_claim M p d wait_seconds t0 w = (x, w')" by fastforce
  show ?thesis
  proof (cases x)
    case (Inl e)
    then show ?thesis by (simp add: claim_work_def auth)
  next
    case (Inr u)
    then have "wait_seconds \<le> 25" using auth unfolding authorize_claim_def by (auto simp: guarded_Inr elim!: bind_action_InrE)
    then have "t1 + int wait_seconds * 1000 \<le> now + 250 * int 100" using assms(1) by simp
    then have "claim_wait (Suc 100) M d recover (t1 + int wait_seconds * 1000) clock ids 0 now w' \<noteq> None"
      using assms(2-4) by (intro claim_wait_ends) auto
    then show ?thesis using Inr by (simp add: claim_work_def auth del: claim_wait.simps)
  qed
qed

lemma claim_always_answers_witness:
  "claim_work 101 demo_messaging demo_runner (demo_id ''dev'') 25 False (600, 600, 600)
     (\<lambda>k. (600 + 250 * int k, 850 + 250 * int k)) (\<lambda>k. (demo_id ''lse'', ''r'')) demo_confirmed \<noteq> None"
  by (rule claim_always_answers) (auto simp: pause_def)

end
