(* ===== verification/DeliveryCart.thy ===== *)
theory DeliveryCart
  imports JournalTypes
begin

text \<open>
  Delivery orders and the delivery cart (\<^verbatim>\<open>DeliveryOrderGroupSchema\<close> to
  \<^verbatim>\<open>DeliveryCartSessionSchema\<close> of \<^verbatim>\<open>packages/contracts/src/domain.ts\<close>).  The schemas
  are the program here: a cart session is accepted exactly when their refinements raise no issue, so each
  refinement is a function to the list of its issues.  Parsed values have the property order of their
  schema, so the comparison of their JSON texts is equality.  Prices are in minor units.
\<close>

section \<open>Order groups\<close>

type_synonym group_line = "evidence \<times> order_line"

datatype group_issue = EvidenceIdsRepeat | LineKeysRepeat | CountMismatch | OtherGroup nat

definition addresses_match :: "public_address option \<Rightarrow> public_address option \<Rightarrow> bool" where
  "addresses_match left right =
     (case (left, right) of
        (Some l, Some r) \<Rightarrow>
          (case (ad_lines l, ad_lines r) of
             (None, None) \<Rightarrow> True
           | (Some xs, Some ys) \<Rightarrow> length xs = length ys \<and> list_all (\<lambda>i. xs ! i = ys ! i) [0..<length xs]
           | _ \<Rightarrow> False) \<and>
          ad_locality l = ad_locality r \<and> ad_region l = ad_region r \<and> ad_postal l = ad_postal r \<and>
          ad_country l = ad_country r
      | (None, None) \<Rightarrow> True
      | _ \<Rightarrow> False)"

definition same_group :: "group_line \<Rightarrow> group_line \<Rightarrow> bool" where
  "same_group first other =
     (let (e, l) = other; (e0, l0) = first in
      ev_actor e = ev_actor e0 \<and> ev_source_type e = ev_source_type e0 \<and> ev_source_label e = ev_source_label e0 \<and>
      ol_provider_origin l = ol_provider_origin l0 \<and> ol_order_locator l = ol_order_locator l0 \<and>
      ol_group_locator l = ol_group_locator l0 \<and> ol_order_date l = ol_order_date l0 \<and>
      ol_fulfillment l = ol_fulfillment l0 \<and> ol_declared_count l = ol_declared_count l0 \<and>
      ol_provider_label l = ol_provider_label l0 \<and>
      rs_name (ol_restaurant l) = rs_name (ol_restaurant l0) \<and>
      rs_location (ol_restaurant l) = rs_location (ol_restaurant l0) \<and>
      addresses_match (rs_address (ol_restaurant l)) (rs_address (ol_restaurant l0)) \<and>
      rs_merchant (ol_restaurant l) = rs_merchant (ol_restaurant l0))"

definition order_group_issues :: "group_line list \<Rightarrow> group_issue list" where
  "order_group_issues lines =
     (case lines of
        [] \<Rightarrow> []
      | first # _ \<Rightarrow>
          (if card (set (map (\<lambda>(e, _). ev_id e) lines)) \<noteq> length lines then [EvidenceIdsRepeat] else []) @
          (if card (set (map (\<lambda>(_, l). ol_line_key l) lines)) \<noteq> length lines then [LineKeysRepeat] else []) @
          (if ol_declared_count (snd first) \<noteq> length lines then [CountMismatch] else []) @
          concat (map (\<lambda>(i, x). if same_group first x then [] else [OtherGroup i]) (enumerate 0 lines)))"

definition group_line_ok :: "host \<Rightarrow> group_line \<Rightarrow> bool" where
  "group_line_ok H g = (case g of (e, l) \<Rightarrow> ev_body e = DeliveryLineEvidence l \<and> evidence_ok H e)"

definition order_group_ok :: "host \<Rightarrow> group_line list \<Rightarrow> bool" where
  "order_group_ok H lines \<longleftrightarrow> list_len 1 100 lines \<and> list_all (group_line_ok H) lines \<and> order_group_issues lines = []"

section \<open>Carts\<close>

definition cart_fingerprint_ok :: "string \<Rightarrow> bool" where
  "cart_fingerprint_ok s \<longleftrightarrow> content_digest_ok s"

definition cart_line_key_ok :: "string \<Rightarrow> bool" where
  "cart_line_key_ok s \<longleftrightarrow> trimmed_len 1 512 s"

definition amount_ok :: "nat \<Rightarrow> bool" where
  "amount_ok n \<longleftrightarrow> n \<le> 1000000"

lemma amount_ok_code [code]: "amount_ok n \<longleftrightarrow> int n \<le> 1000000"
  by (simp add: amount_ok_def)

datatype journal_authority = LocalJournal nat | CloudJournal git_object_id

fun journal_authority_ok :: "journal_authority \<Rightarrow> bool" where
  "journal_authority_ok (LocalJournal n) = (0 < n)"
| "journal_authority_ok (CloudJournal g) = git_object_id_ok g"

record visible_line =
  vl_key :: string
  vl_locator :: string
  vl_dish :: string
  vl_modifiers :: "modifier list"
  vl_quantity :: nat
  vl_price :: nat

record target_line = visible_line +
  tl_classification :: classification

definition visible_line_ok :: "'a visible_line_scheme \<Rightarrow> bool" where
  "visible_line_ok l \<longleftrightarrow> cart_line_key_ok (vl_key l) \<and> private_locator_ok 512 (vl_locator l) \<and>
     trimmed_len 1 500 (vl_dish l) \<and> list_len 0 50 (vl_modifiers l) \<and> list_all modifier_ok (vl_modifiers l) \<and>
     1 \<le> vl_quantity l \<and> vl_quantity l \<le> 99 \<and> amount_ok (vl_price l)"

text \<open>Removing and replacing carry the authorised decrement and the remainder of the mapped line.\<close>

datatype line_operation =
    RetainLine target_line
  | RemoveLine nat nat
  | ReplaceLine nat nat target_line
  | QuantityLine target_line

record source_line_plan =
  sp_source :: string
  sp_baseline :: "string option"
  sp_quantity :: nat
  sp_operation :: line_operation

fun plan_target :: "line_operation \<Rightarrow> target_line option" where
  "plan_target (RetainLine t) = Some t"
| "plan_target (RemoveLine d r) = None"
| "plan_target (ReplaceLine d r t) = Some t"
| "plan_target (QuantityLine t) = Some t"

fun plan_decrement :: "line_operation \<Rightarrow> (nat \<times> nat) option" where
  "plan_decrement (RemoveLine d r) = Some (d, r)"
| "plan_decrement (ReplaceLine d r t) = Some (d, r)"
| "plan_decrement _ = None"

definition source_line_plan_ok :: "source_line_plan \<Rightarrow> bool" where
  "source_line_plan_ok p \<longleftrightarrow> private_locator_ok 256 (sp_source p) \<and> opt_all cart_line_key_ok (sp_baseline p) \<and>
     sp_quantity p \<le> 99 \<and> opt_all visible_line_ok (plan_target (sp_operation p)) \<and>
     opt_all (\<lambda>(d, r). d \<le> 99 \<and> r \<le> 99) (plan_decrement (sp_operation p))"

record cart_baseline =
  cb_restaurant :: "restaurant option"
  cb_summary :: string
  cb_fingerprint :: string
  cb_lines :: "visible_line list"

definition baseline_ok :: "cart_baseline \<Rightarrow> bool" where
  "baseline_ok b \<longleftrightarrow> opt_all restaurant_ok (cb_restaurant b) \<and> trimmed_len 1 4000 (cb_summary b) \<and>
     cart_fingerprint_ok (cb_fingerprint b) \<and> list_len 0 100 (cb_lines b) \<and> list_all visible_line_ok (cb_lines b) \<and>
     card (set (map vl_key (cb_lines b))) = length (cb_lines b)"

record final_observation =
  fo_label :: string
  fo_origin :: string
  fo_restaurant :: restaurant
  fo_summary :: string
  fo_fingerprint :: string
  fo_lines :: "visible_line list"
  fo_displayed :: nat

definition final_observation_ok :: "host \<Rightarrow> final_observation \<Rightarrow> bool" where
  "final_observation_ok H f \<longleftrightarrow> trimmed_len 1 120 (fo_label f) \<and>
     parse_provider_origin H (fo_origin f) = Some (fo_origin f) \<and> restaurant_ok (fo_restaurant f) \<and>
     trimmed_len 1 4000 (fo_summary f) \<and> cart_fingerprint_ok (fo_fingerprint f) \<and>
     list_len 0 100 (fo_lines f) \<and> list_all visible_line_ok (fo_lines f) \<and> amount_ok (fo_displayed f) \<and>
     card (set (map vl_key (fo_lines f))) = length (fo_lines f)"

section \<open>Pricing, replacement, confirmation\<close>

datatype comparison = NotApplicable | SameOrLower | Increased
datatype price_decision = Automatic | ConfirmationRequired | UserConfirmed

record pricing =
  pc_requested :: nat
  pc_preserved :: nat
  pc_displayed :: nat
  pc_maximum :: nat
  pc_previous :: "nat option"
  pc_comparison :: comparison
  pc_decision :: price_decision

datatype pricing_issue = DisplayedMismatch | ComparisonWithoutPrior | ComparisonMismatch

definition pricing_issues :: "pricing \<Rightarrow> pricing_issue list" where
  "pricing_issues p =
     (if pc_requested p + pc_preserved p \<noteq> pc_displayed p then [DisplayedMismatch] else []) @
     (if (pc_previous p = None) \<noteq> (pc_comparison p = NotApplicable) then [ComparisonWithoutPrior] else []) @
     (case pc_previous p of
        None \<Rightarrow> []
      | Some prior \<Rightarrow> if pc_comparison p \<noteq> (if prior < pc_requested p then Increased else SameOrLower)
          then [ComparisonMismatch] else [])"

definition pricing_ok :: "pricing \<Rightarrow> bool" where
  "pricing_ok p \<longleftrightarrow> amount_ok (pc_requested p) \<and> amount_ok (pc_preserved p) \<and> amount_ok (pc_displayed p) \<and>
     amount_ok (pc_maximum p) \<and> opt_all amount_ok (pc_previous p) \<and> pricing_issues p = []"

record replacement =
  rp_required :: bool
  rp_reason_given :: bool

definition replacement_ok :: "replacement \<Rightarrow> bool" where
  "replacement_ok r \<longleftrightarrow> rp_required r = rp_reason_given r"

record confirmation_terms =
  cf_session :: string
  cf_origin :: string
  cf_merchant :: string
  cf_location :: string
  cf_lines :: "target_line list"
  cf_requested :: nat
  cf_preserved :: nat
  cf_displayed :: nat
  cf_maximum :: nat
  cf_replacement :: bool
  cf_summary :: string
  cf_cart_fingerprint :: string

record confirmation = confirmation_terms +
  cf_fingerprint :: string

definition confirmation_ok :: "host \<Rightarrow> confirmation \<Rightarrow> bool" where
  "confirmation_ok H c \<longleftrightarrow> opaque_id_ok ''ses'' (cf_session c) \<and>
     parse_provider_origin H (cf_origin c) = Some (cf_origin c) \<and> private_locator_ok 512 (cf_merchant c) \<and>
     trimmed_len 1 500 (cf_location c) \<and> list_len 1 100 (cf_lines c) \<and> list_all visible_line_ok (cf_lines c) \<and>
     amount_ok (cf_requested c) \<and> amount_ok (cf_preserved c) \<and> amount_ok (cf_displayed c) \<and> amount_ok (cf_maximum c) \<and>
     trimmed_len 1 4000 (cf_summary c) \<and> cart_fingerprint_ok (cf_cart_fingerprint c) \<and> cart_fingerprint_ok (cf_fingerprint c)"

record cart_plan =
  cp_session :: string
  cp_authority :: journal_authority
  cp_observed :: string
  cp_label :: string
  cp_origin :: string
  cp_restaurant :: restaurant
  cp_order :: "group_line list"
  cp_lines :: "source_line_plan list"
  cp_baseline :: cart_baseline
  cp_preserved :: "string list"
  cp_replacement :: replacement
  cp_pricing :: pricing
  cp_confirmation :: "confirmation option"

section \<open>The refinement of a plan\<close>

datatype plan_issue =
    SourceNotDelivery | SourceOtherLocation | ReplacementMismatch | SourceNotMappedOnce | BaselineMappedTwice
  | LineIssue nat line_issue
  | TargetKeysRepeat | RemainderKeyTaken | RequestedMismatch | PreservedKeysMismatch | PreservedMismatch
  | FinalMismatch | AutomaticNeedsConfirmation | ConfirmationWithoutReason | ConfirmationAuthority
  | ConfirmationMismatch
and line_issue =
    SeveralMatches | DecrementInReplacedCart | AbsentWithQuantity | ExactLineNotMapped | MappedLineMissing
  | BaselineQuantityMismatch | MappedLineDiffers | DecrementMismatch | RemainderMismatch | RetainDiffers
  | QuantityEditDiffers | ReplacementSame | TargetNotMappedLine | RetainReduces

definition historical_lines :: "cart_plan \<Rightarrow> order_line list" where
  "historical_lines p = map snd (cp_order p)"

definition by_key :: "('a \<Rightarrow> string) \<Rightarrow> 'a list \<Rightarrow> (string, 'a) js_map" where
  "by_key key xs = fold (\<lambda>x. put (key x) x) xs []"

definition same_location :: "restaurant \<Rightarrow> restaurant \<Rightarrow> bool" where
  "same_location a b \<longleftrightarrow> rs_name a = rs_name b \<and> rs_location a = rs_location b \<and> rs_merchant a = rs_merchant b \<and>
     addresses_match (rs_address a) (rs_address b)"

definition expected_replacement :: "cart_plan \<Rightarrow> bool" where
  "expected_replacement p =
     (case cb_restaurant (cp_baseline p) of None \<Rightarrow> False | Some r \<Rightarrow> \<not> same_location r (cp_restaurant p))"

definition location_issues :: "order_line \<Rightarrow> cart_plan \<Rightarrow> plan_issue list" where
  "location_issues l p =
     (if ol_fulfillment l \<noteq> Delivery then [SourceNotDelivery] else []) @
     (if \<not> (ol_provider_label l = cp_label p \<and> ol_provider_origin l = cp_origin p \<and>
            same_location (ol_restaurant l) (cp_restaurant p)) then [SourceOtherLocation] else []) @
     (if rp_required (cp_replacement p) \<noteq> expected_replacement p then [ReplacementMismatch] else [])"

definition mapped_baseline_keys :: "cart_plan \<Rightarrow> string list" where
  "mapped_baseline_keys p = concat (map (\<lambda>s. case sp_baseline s of None \<Rightarrow> [] | Some k \<Rightarrow> [k]) (cp_lines p))"

definition mapping_issues :: "cart_plan \<Rightarrow> plan_issue list" where
  "mapping_issues p =
     (let keys = map sp_source (cp_lines p); history = by_key ol_line_key (historical_lines p); bkeys = mapped_baseline_keys p
      in (if card (set keys) \<noteq> length keys \<or> length keys \<noteq> length history
            \<or> list_ex (\<lambda>k. lookup history k = None) keys then [SourceNotMappedOnce] else []) @
         (if card (set bkeys) \<noteq> length bkeys then [BaselineMappedTwice] else []))"

definition keeps_identity :: "'a visible_line_scheme \<Rightarrow> order_line \<Rightarrow> bool" where
  "keeps_identity l source \<longleftrightarrow> vl_dish l = ol_dish source \<and> vl_modifiers l = ol_modifiers source"

definition baseline_issues :: "cart_plan \<Rightarrow> order_line \<Rightarrow> source_line_plan \<Rightarrow> line_issue list" where
  "baseline_issues p source s =
     (let moved = expected_replacement p;
          matching = (if moved then [] else filter (\<lambda>l. keeps_identity l source) (cb_lines (cp_baseline p)))
      in (if 1 < length matching then [SeveralMatches] else []) @
         (if moved \<and> sp_baseline s \<noteq> None then [DecrementInReplacedCart] else []) @
         (case sp_baseline s of
            None \<Rightarrow>
              (if sp_quantity s \<noteq> 0 then [AbsentWithQuantity] else []) @
              (if matching \<noteq> [] then [ExactLineNotMapped] else [])
          | Some k \<Rightarrow>
              (case lookup (by_key vl_key (cb_lines (cp_baseline p))) k of
                 None \<Rightarrow> [MappedLineMissing]
               | Some b \<Rightarrow>
                   (if vl_quantity b \<noteq> sp_quantity s then [BaselineQuantityMismatch] else []) @
                   (if \<not> keeps_identity b source then [MappedLineDiffers] else []))))"

definition decrement_issues :: "cart_plan \<Rightarrow> order_line \<Rightarrow> source_line_plan \<Rightarrow> line_issue list" where
  "decrement_issues p source s =
     (case plan_decrement (sp_operation s) of
        None \<Rightarrow> []
      | Some (d, r) \<Rightarrow>
          (let moved = expected_replacement p;
               expected = (if moved then 0 else min (ol_quantity source) (sp_quantity s))
           in (if d \<noteq> expected then [DecrementMismatch] else []) @
              (if r \<noteq> (if moved then 0 else sp_quantity s - expected) then [RemainderMismatch] else [])))"

definition mapped_line :: "cart_plan \<Rightarrow> source_line_plan \<Rightarrow> visible_line option" where
  "mapped_line p s =
     (case sp_baseline s of None \<Rightarrow> None | Some k \<Rightarrow> lookup (by_key vl_key (cb_lines (cp_baseline p))) k)"

definition is_mapped_line :: "target_line \<Rightarrow> visible_line \<Rightarrow> bool" where
  "is_mapped_line t b \<longleftrightarrow> vl_key t = vl_key b \<and> vl_locator t = vl_locator b \<and> vl_dish t = vl_dish b \<and>
     vl_modifiers t = vl_modifiers b"

definition target_issues :: "cart_plan \<Rightarrow> order_line \<Rightarrow> source_line_plan \<Rightarrow> line_issue list" where
  "target_issues p source s =
     (let exact = (\<lambda>t. case mapped_line p s of None \<Rightarrow> [] | Some b \<Rightarrow> if is_mapped_line t b then [] else [TargetNotMappedLine])
      in case sp_operation s of
           RemoveLine d r \<Rightarrow> []
         | RetainLine t \<Rightarrow>
             (if \<not> keeps_identity t source \<or> vl_quantity t \<noteq> ol_quantity source then [RetainDiffers] else []) @
             exact t @ (if vl_quantity t < sp_quantity s then [RetainReduces] else [])
         | QuantityLine t \<Rightarrow>
             (if \<not> keeps_identity t source \<or> vl_quantity t = ol_quantity source then [QuantityEditDiffers] else []) @ exact t
         | ReplaceLine d r t \<Rightarrow>
             (if keeps_identity t source \<and> ol_historical_locator source = Some (vl_locator t) then [ReplacementSame] else []))"

definition line_issues :: "cart_plan \<Rightarrow> source_line_plan \<Rightarrow> line_issue list" where
  "line_issues p s =
     (case lookup (by_key ol_line_key (historical_lines p)) (sp_source s) of
        None \<Rightarrow> []
      | Some source \<Rightarrow> baseline_issues p source s @ decrement_issues p source s @ target_issues p source s)"

definition plan_targets :: "cart_plan \<Rightarrow> target_line list" where
  "plan_targets p = concat (map (\<lambda>s. case plan_target (sp_operation s) of None \<Rightarrow> [] | Some t \<Rightarrow> [t]) (cp_lines p))"

definition remainder_lines :: "bool \<Rightarrow> cart_plan \<Rightarrow> visible_line list" where
  "remainder_lines replaced p =
     (if replaced then []
      else concat (map (\<lambda>s.
        case plan_decrement (sp_operation s) of
          None \<Rightarrow> []
        | Some (d, r) \<Rightarrow>
            if r = 0 then []
            else (case mapped_line p s of None \<Rightarrow> [] | Some b \<Rightarrow> [b\<lparr>vl_quantity := r\<rparr>])) (cp_lines p)))"

definition line_total :: "'a visible_line_scheme list \<Rightarrow> nat" where
  "line_total ls = fold (\<lambda>l total. total + vl_price l * vl_quantity l) ls 0"

definition expected_preserved :: "cart_plan \<Rightarrow> string list" where
  "expected_preserved p =
     (if expected_replacement p then []
      else sort (map vl_key (filter (\<lambda>l. vl_key l \<notin> set (mapped_baseline_keys p) \<and> vl_key l \<notin> set (map vl_key (plan_targets p)))
             (cb_lines (cp_baseline p)))))"

definition kept_lines :: "cart_plan \<Rightarrow> visible_line list" where
  "kept_lines p =
     (if expected_replacement p then []
      else filter (\<lambda>l. vl_key l \<in> set (expected_preserved p)) (cb_lines (cp_baseline p)))"

definition total_issues :: "cart_plan \<Rightarrow> plan_issue list" where
  "total_issues p =
     (let targets = plan_targets p; target_keys = map vl_key targets; remainders = remainder_lines (expected_replacement p) p;
          requested = line_total targets;
          preserved = line_total (kept_lines p @ remainders)
      in (if card (set target_keys) \<noteq> length target_keys then [TargetKeysRepeat] else []) @
         (if list_ex (\<lambda>k. k \<in> set target_keys) (map vl_key remainders) then [RemainderKeyTaken] else []) @
         (if requested \<noteq> pc_requested (cp_pricing p) then [RequestedMismatch] else []) @
         (if sort (cp_preserved p) \<noteq> expected_preserved p then [PreservedKeysMismatch] else []) @
         (if preserved \<noteq> pc_preserved (cp_pricing p) then [PreservedMismatch] else []) @
         (if requested + preserved \<noteq> pc_displayed (cp_pricing p) then [FinalMismatch] else []))"

definition confirmation_required :: "cart_plan \<Rightarrow> bool" where
  "confirmation_required p \<longleftrightarrow> pc_maximum (cp_pricing p) \<le> pc_requested (cp_pricing p) \<or>
     pc_comparison (cp_pricing p) = Increased \<or> rp_required (cp_replacement p)"

definition expected_confirmation :: "cart_plan \<Rightarrow> confirmation_terms" where
  "expected_confirmation p =
     \<lparr>cf_session = cp_session p, cf_origin = cp_origin p, cf_merchant = rs_merchant (cp_restaurant p),
      cf_location = rs_location (cp_restaurant p), cf_lines = plan_targets p,
      cf_requested = pc_requested (cp_pricing p), cf_preserved = pc_preserved (cp_pricing p),
      cf_displayed = pc_displayed (cp_pricing p), cf_maximum = pc_maximum (cp_pricing p),
      cf_replacement = rp_required (cp_replacement p), cf_summary = cb_summary (cp_baseline p),
      cf_cart_fingerprint = cb_fingerprint (cp_baseline p)\<rparr>"

definition decision_issues :: "cart_plan \<Rightarrow> plan_issue list" where
  "decision_issues p =
     (let decision = pc_decision (cp_pricing p) in
      (if decision = Automatic \<and> confirmation_required p then [AutomaticNeedsConfirmation] else []) @
      (if decision \<noteq> Automatic \<and> \<not> confirmation_required p then [ConfirmationWithoutReason] else []) @
      (if (decision = UserConfirmed) \<noteq> (cp_confirmation p \<noteq> None) then [ConfirmationAuthority] else []) @
      (case cp_confirmation p of
         None \<Rightarrow> []
       | Some c \<Rightarrow> if confirmation_terms.truncate c = expected_confirmation p then [] else [ConfirmationMismatch]))"

definition plan_issues :: "cart_plan \<Rightarrow> plan_issue list" where
  "plan_issues p =
     (case historical_lines p of
        [] \<Rightarrow> []
      | l # _ \<Rightarrow>
          location_issues l p @ mapping_issues p @
          concat (map (\<lambda>(i, s). map (LineIssue i) (line_issues p s)) (enumerate 0 (cp_lines p))) @
          total_issues p @ decision_issues p)"

definition cart_plan_ok :: "host \<Rightarrow> cart_plan \<Rightarrow> bool" where
  "cart_plan_ok H p \<longleftrightarrow> opaque_id_ok ''ses'' (cp_session p) \<and> journal_authority_ok (cp_authority p) \<and>
     valid_datetime H (cp_observed p) \<and> trimmed_len 1 120 (cp_label p) \<and>
     parse_provider_origin H (cp_origin p) = Some (cp_origin p) \<and> restaurant_ok (cp_restaurant p) \<and>
     order_group_ok H (cp_order p) \<and> list_len 1 100 (cp_lines p) \<and> list_all source_line_plan_ok (cp_lines p) \<and>
     baseline_ok (cp_baseline p) \<and> list_len 0 100 (cp_preserved p) \<and> list_all cart_line_key_ok (cp_preserved p) \<and>
     replacement_ok (cp_replacement p) \<and> pricing_ok (cp_pricing p) \<and> opt_all (confirmation_ok H) (cp_confirmation p) \<and>
     plan_issues p = []"

section \<open>Sessions\<close>

datatype unresolved_step =
    StepProvider | StepLocation | StepOrder | StepEdit | StepMenu | StepCart

datatype cart_input_kind =
    InputProvider | InputLocation | InputOrder | InputEdit | InputMenuItem | InputPrice | InputReplacement | InputRegulated

datatype cart_block_reason =
    HistoryNotComplete | HistoricalNotDelivery | CurrentNotDelivery | AuthorityChanged | OriginNotAuthorized
  | RestaurantClosed | AreaMismatch | MenuItemUnavailable | MenuOrPriceDrift | CartDrift | SignInRequired
  | CaptchaRequired | UserActionRequired | ResultUnverifiable

record prepared_result =
  pd_label :: string
  pd_origin :: string
  pd_restaurant :: string
  pd_location :: string
  pd_lines :: "target_line list"
  pd_requested :: nat
  pd_displayed :: nat
  pd_final :: final_observation

definition prepared_result_ok :: "host \<Rightarrow> prepared_result \<Rightarrow> bool" where
  "prepared_result_ok H r \<longleftrightarrow> trimmed_len 1 120 (pd_label r) \<and>
     parse_provider_origin H (pd_origin r) = Some (pd_origin r) \<and> trimmed_len 1 300 (pd_restaurant r) \<and>
     trimmed_len 1 500 (pd_location r) \<and> list_len 1 100 (pd_lines r) \<and> list_all visible_line_ok (pd_lines r) \<and>
     amount_ok (pd_requested r) \<and> amount_ok (pd_displayed r) \<and> final_observation_ok H (pd_final r)"

datatype cart_state =
    Resolving unresolved_step
  | CartNeedsInput cart_input_kind string "string list" "cart_plan option"
  | ActionUncertain cart_plan
  | CartBlocked cart_block_reason "cart_plan option"
  | CartCancelled string "cart_plan option"
  | CartPrepared cart_plan prepared_result

record cart_session =
  cs_session :: string
  cs_authority :: journal_authority
  cs_updated :: string
  cs_state :: cart_state

fun session_plan :: "cart_state \<Rightarrow> cart_plan option" where
  "session_plan (Resolving s) = None"
| "session_plan (CartNeedsInput k t opts p) = p"
| "session_plan (ActionUncertain p) = Some p"
| "session_plan (CartBlocked r p) = p"
| "session_plan (CartCancelled r p) = p"
| "session_plan (CartPrepared p r) = Some p"

datatype session_issue =
    PlanOfOtherSession | PreparedUnconfirmed | FinalCartMismatch | ResultMismatch | ActionBeforeConfirmation

definition preserved_lines :: "cart_plan \<Rightarrow> visible_line list" where
  "preserved_lines p =
     concat (map (\<lambda>k. case lookup (by_key vl_key (cb_lines (cp_baseline p))) k of None \<Rightarrow> [] | Some l \<Rightarrow> [l]) (cp_preserved p))"

definition expected_final_lines :: "cart_plan \<Rightarrow> visible_line list" where
  "expected_final_lines p =
     map visible_line.truncate (plan_targets p) @ preserved_lines p @ remainder_lines (rp_required (cp_replacement p)) p"

definition final_cart_matches :: "(string \<Rightarrow> nat list) \<Rightarrow> cart_plan \<Rightarrow> final_observation \<Rightarrow> bool" where
  "final_cart_matches collate p f \<longleftrightarrow>
     fo_label f = cp_label p \<and> fo_origin f = cp_origin p \<and> same_location (fo_restaurant f) (cp_restaurant p) \<and>
     fo_displayed f = pc_displayed (cp_pricing p) \<and>
     sort_key (\<lambda>l. collate (vl_key l)) (fo_lines f) = sort_key (\<lambda>l. collate (vl_key l)) (expected_final_lines p)"

definition expected_result :: "cart_plan \<Rightarrow> final_observation \<Rightarrow> prepared_result" where
  "expected_result p f =
     \<lparr>pd_label = cp_label p, pd_origin = cp_origin p, pd_restaurant = rs_name (cp_restaurant p),
      pd_location = rs_location (cp_restaurant p), pd_lines = plan_targets p,
      pd_requested = pc_requested (cp_pricing p), pd_displayed = pc_displayed (cp_pricing p), pd_final = f\<rparr>"

definition session_issues :: "(string \<Rightarrow> nat list) \<Rightarrow> cart_session \<Rightarrow> session_issue list" where
  "session_issues collate s =
     (case session_plan (cs_state s) of
        None \<Rightarrow> []
      | Some p \<Rightarrow> if cp_session p \<noteq> cs_session s \<or> cp_authority p \<noteq> cs_authority s then [PlanOfOtherSession] else []) @
     (case cs_state s of
        CartPrepared p r \<Rightarrow>
          (if pc_decision (cp_pricing p) = ConfirmationRequired then [PreparedUnconfirmed] else []) @
          (if final_cart_matches collate p (pd_final r) then [] else [FinalCartMismatch]) @
          (if r = expected_result p (pd_final r) then [] else [ResultMismatch])
      | ActionUncertain p \<Rightarrow>
          (if pc_decision (cp_pricing p) = ConfirmationRequired then [ActionBeforeConfirmation] else [])
      | _ \<Rightarrow> [])"

fun cart_state_ok :: "host \<Rightarrow> cart_state \<Rightarrow> bool" where
  "cart_state_ok H (Resolving s) = True"
| "cart_state_ok H (CartNeedsInput k t opts p) = (trimmed_len 1 1000 t \<and> list_len 1 20 opts \<and> list_all (trimmed_len 1 500) opts
     \<and> opt_all (cart_plan_ok H) p)"
| "cart_state_ok H (ActionUncertain p) = cart_plan_ok H p"
| "cart_state_ok H (CartBlocked r p) = opt_all (cart_plan_ok H) p"
| "cart_state_ok H (CartCancelled r p) = (trimmed_len 1 500 r \<and> opt_all (cart_plan_ok H) p)"
| "cart_state_ok H (CartPrepared p r) = (cart_plan_ok H p \<and> prepared_result_ok H r)"

definition cart_session_ok :: "host \<Rightarrow> (string \<Rightarrow> nat list) \<Rightarrow> cart_session \<Rightarrow> bool" where
  "cart_session_ok H collate s \<longleftrightarrow> opaque_id_ok ''ses'' (cs_session s) \<and> journal_authority_ok (cs_authority s) \<and>
     valid_datetime H (cs_updated s) \<and> cart_state_ok H (cs_state s) \<and> session_issues collate s = []"

end
