(* ===== verification/CartSafety.thy ===== *)
theory CartSafety
  imports DeliveryCart
begin

text \<open>
  What an accepted cart session proves: the final cart is exactly the planned one, nothing is bought
  beyond what was authorised, and where the refinements leave a gap.
\<close>

section \<open>Maps by key and totals\<close>

lemma card_set_length_iff: "card (set xs) = length xs \<longleftrightarrow> distinct xs"
  by (auto simp: card_distinct distinct_card)

lemma lookup_by_key:
  assumes "distinct (map key xs)"
  shows "lookup (by_key key xs) k = List.find (\<lambda>x. key x = k) xs"
  using lookup_fold_put [OF assms, of "\<lambda>x. x" "[]" k] by (simp add: by_key_def split: option.splits)

lemma lookup_by_key_eq_Some:
  assumes "distinct (map key xs)"
  shows "lookup (by_key key xs) k = Some x \<longleftrightarrow> x \<in> set xs \<and> key x = k"
proof -
  have "List.find (\<lambda>x. key x = k) xs = Some x \<longleftrightarrow> x \<in> set xs \<and> key x = k"
    using assms by (induction xs) auto
  then show ?thesis by (simp add: lookup_by_key [OF assms])
qed

lemma nth_equal_iff: "length xs = length ys \<and> list_all (\<lambda>i. xs ! i = ys ! i) [0..<length xs] \<longleftrightarrow> xs = ys"
  using list_eq_iff_nth_eq [of xs ys] by (auto simp: list_all_iff)

lemma image_filter_mem: "l \<in> B \<Longrightarrow> f l \<in> f ` {m \<in> B. P (f m)} \<longleftrightarrow> P (f l)"
  by auto

lemma addresses_match_iff: "addresses_match a b \<longleftrightarrow> a = b"
proof (cases "a = None \<or> b = None")
  case False
  then obtain l r where ab: "a = Some l" "b = Some r" by auto
  have "l = r \<longleftrightarrow> ad_lines l = ad_lines r \<and> ad_locality l = ad_locality r \<and> ad_region l = ad_region r \<and>
      ad_postal l = ad_postal r \<and> ad_country l = ad_country r"
    by (cases l, cases r) simp
  then show ?thesis
    by (cases "ad_lines l"; cases "ad_lines r") (simp_all only: ab addresses_match_def prod.case option.case nth_equal_iff, simp_all)
next
  case True
  then show ?thesis by (cases a; cases b) (simp_all add: addresses_match_def)
qed

lemma same_location_iff: "same_location a b \<longleftrightarrow> a = b"
  by (cases a, cases b) (simp add: same_location_def addresses_match_iff, blast)

lemma line_total_sum: "line_total ls = (\<Sum>l\<leftarrow>ls. vl_price l * vl_quantity l)"
proof -
  have "fold (\<lambda>l total. total + vl_price l * vl_quantity l) ls n = n + (\<Sum>l\<leftarrow>ls. vl_price l * vl_quantity l)" for n
    by (induction ls arbitrary: n) auto
  then show ?thesis by (simp add: line_total_def)
qed

lemma line_total_append [simp]: "line_total (xs @ ys) = line_total xs + line_total ys"
  by (simp add: line_total_sum)

lemma line_total_truncate [simp]: "line_total (map visible_line.truncate ts) = line_total ts"
  by (simp add: line_total_sum visible_line.truncate_def comp_def)

lemma line_total_mset: "mset xs = mset ys \<Longrightarrow> line_total xs = line_total ys"
  unfolding line_total_sum by (simp only: mset_map flip: sum_mset_sum_list)

section \<open>What an accepted plan says\<close>

lemma list_of_issues [simp]: "(if b then [x] else []) = [] \<longleftrightarrow> \<not> b" by simp

lemma plan_issues_split:
  assumes "plan_issues p = []" "historical_lines p \<noteq> []"
  shows "location_issues (hd (historical_lines p)) p = []" "mapping_issues p = []" "total_issues p = []" "decision_issues p = []"
    "\<And>s. s \<in> set (cp_lines p) \<Longrightarrow> line_issues p s = []"
proof -
  have all: "location_issues (hd (historical_lines p)) p @ mapping_issues p @
          concat (map (\<lambda>(i, s). map (LineIssue i) (line_issues p s)) (enumerate 0 (cp_lines p))) @
          total_issues p @ decision_issues p = []"
  proof -
    obtain l ls where h: "historical_lines p = l # ls" using assms(2) by (cases "historical_lines p") auto
    show ?thesis using assms(1) unfolding plan_issues_def h list.case list.sel .
  qed
  then show "location_issues (hd (historical_lines p)) p = []" "mapping_issues p = []" "total_issues p = []" "decision_issues p = []"
    by simp_all
  fix s assume "s \<in> set (cp_lines p)"
  then obtain i where "(i, s) \<in> set (enumerate 0 (cp_lines p))"
    by (metis imageE list.set_map map_snd_enumerate prod.collapse)
  with all show "line_issues p s = []" by fastforce
qed

lemma cart_plan_ok_facts:
  assumes "cart_plan_ok H p"
  shows "plan_issues p = []" "historical_lines p \<noteq> []" "distinct (map vl_key (cb_lines (cp_baseline p)))"
    "distinct (map ol_line_key (historical_lines p))"
proof -
  have g: "order_group_ok H (cp_order p)" "baseline_ok (cp_baseline p)" using assms unfolding cart_plan_ok_def by blast+
  show "plan_issues p = []" using assms unfolding cart_plan_ok_def by blast
  show "historical_lines p \<noteq> []" using g by (auto simp: order_group_ok_def list_len_def historical_lines_def)
  have "card (set (map vl_key (cb_lines (cp_baseline p)))) = length (map vl_key (cb_lines (cp_baseline p)))"
    using g(2) by (simp add: baseline_ok_def)
  then show "distinct (map vl_key (cb_lines (cp_baseline p)))" by (rule card_distinct)
  have "card (set (map (\<lambda>(_, l). ol_line_key l) (cp_order p))) = length (cp_order p)"
    using g by (cases "cp_order p") (auto simp: order_group_ok_def order_group_issues_def list_len_def split: if_splits)
  moreover have "map (\<lambda>(_, l). ol_line_key l) (cp_order p) = map ol_line_key (historical_lines p)"
    by (auto simp: historical_lines_def)
  ultimately show "distinct (map ol_line_key (historical_lines p))"
    by (metis card_distinct historical_lines_def length_map)
qed

text \<open>The lines a plan preserves, in the order of its keys and in the order of the cart.\<close>

lemma expected_preserved_kept:
  assumes "distinct (map vl_key (cb_lines (cp_baseline p)))"
  shows "expected_preserved p = sort (map vl_key (kept_lines p))"
    and "\<not> expected_replacement p \<Longrightarrow> kept_lines p =
       filter (\<lambda>l. vl_key l \<notin> set (mapped_baseline_keys p) \<and> vl_key l \<notin> set (map vl_key (plan_targets p))) (cb_lines (cp_baseline p))"
proof -
  show eq: "kept_lines p = filter (\<lambda>l. vl_key l \<notin> set (mapped_baseline_keys p) \<and> vl_key l \<notin> set (map vl_key (plan_targets p))) (cb_lines (cp_baseline p))"
    if "\<not> expected_replacement p"
  proof -
    let ?P = "\<lambda>k. k \<notin> set (mapped_baseline_keys p) \<and> k \<notin> set (map vl_key (plan_targets p))" and ?b = "cb_lines (cp_baseline p)"
    have keys: "set (expected_preserved p) = vl_key ` set (filter (\<lambda>l. ?P (vl_key l)) ?b)"
      by (simp only: expected_preserved_def that if_False set_sort set_map)
    have "filter (\<lambda>l. vl_key l \<in> set (expected_preserved p)) ?b = filter (\<lambda>l. ?P (vl_key l)) ?b"
      unfolding keys set_filter by (rule filter_cong [OF refl image_filter_mem])
    with that show ?thesis by (simp only: kept_lines_def if_False)
  qed
  show "expected_preserved p = sort (map vl_key (kept_lines p))"
  proof (cases "expected_replacement p")
    case False
    show ?thesis unfolding eq [OF False] by (simp add: expected_preserved_def False)
  qed (simp add: expected_preserved_def kept_lines_def)
qed

lemma preserved_lines_mset:
  assumes "distinct (map vl_key (cb_lines (cp_baseline p)))" "sort (cp_preserved p) = expected_preserved p"
  shows "mset (preserved_lines p) = mset (kept_lines p)"
proof -
  let ?pick = "\<lambda>k. case lookup (by_key vl_key (cb_lines (cp_baseline p))) k of None \<Rightarrow> [] | Some l \<Rightarrow> [l]"
  have keys: "mset (cp_preserved p) = mset (map vl_key (kept_lines p))"
    using assms(2) unfolding expected_preserved_kept(1) [OF assms(1)] by (metis mset_sort)
  have concat_mset: "mset (concat (map ?pick ks)) = \<Sum>\<^sub># (image_mset (\<lambda>k. mset (?pick k)) (mset ks))" for ks
    by (induction ks) auto
  have "mset (preserved_lines p) = mset (concat (map ?pick (map vl_key (kept_lines p))))"
    unfolding preserved_lines_def concat_mset keys ..
  also have "map ?pick (map vl_key (kept_lines p)) = map (\<lambda>l. [l]) (kept_lines p)"
  proof -
    have "lookup (by_key vl_key (cb_lines (cp_baseline p))) (vl_key l) = Some l" if "l \<in> set (kept_lines p)" for l
      using that by (auto simp: lookup_by_key_eq_Some [OF assms(1)] kept_lines_def split: if_splits)
    then show ?thesis by simp
  qed
  also have "concat (map (\<lambda>l. [l]) (kept_lines p)) = kept_lines p" by simp
  finally show ?thesis .
qed

text \<open>What acceptance of a prepared session adds.\<close>

lemma prepared_facts:
  assumes "cart_session_ok H collate s" "cs_state s = CartPrepared p r"
  shows "cart_plan_ok H p" "pc_decision (cp_pricing p) \<noteq> ConfirmationRequired" "final_cart_matches collate p (pd_final r)"
    "r = expected_result p (pd_final r)" "rp_required (cp_replacement p) = expected_replacement p"
proof -
  have "session_issues collate s = []" "cart_state_ok H (CartPrepared p r)"
    using assms unfolding cart_session_ok_def by simp_all
  then show ok: "cart_plan_ok H p" and "pc_decision (cp_pricing p) \<noteq> ConfirmationRequired" "final_cart_matches collate p (pd_final r)"
    "r = expected_result p (pd_final r)"
    unfolding session_issues_def assms(2) by (simp_all split: if_splits)
  show "rp_required (cp_replacement p) = expected_replacement p"
    using plan_issues_split(1) [OF cart_plan_ok_facts(1,2) [OF ok]] by (simp add: location_issues_def)
qed

lemma total_facts:
  assumes "cart_plan_ok H p"
  shows "distinct (map vl_key (plan_targets p))" "line_total (plan_targets p) = pc_requested (cp_pricing p)"
    "sort (cp_preserved p) = expected_preserved p"
    "line_total (kept_lines p @ remainder_lines (expected_replacement p) p) = pc_preserved (cp_pricing p)"
    "pc_displayed (cp_pricing p) = pc_requested (cp_pricing p) + pc_preserved (cp_pricing p)"
proof -
  have "card (set (map vl_key (plan_targets p))) = length (map vl_key (plan_targets p)) \<and>
    line_total (plan_targets p) = pc_requested (cp_pricing p) \<and> sort (cp_preserved p) = expected_preserved p \<and>
    line_total (kept_lines p @ remainder_lines (expected_replacement p) p) = pc_preserved (cp_pricing p) \<and>
    pc_displayed (cp_pricing p) = pc_requested (cp_pricing p) + pc_preserved (cp_pricing p)"
    using plan_issues_split(3) [OF cart_plan_ok_facts(1,2) [OF assms]] unfolding total_issues_def Let_def
    by (simp only: append_is_Nil_conv list_of_issues not_not) simp
  then show "distinct (map vl_key (plan_targets p))" "line_total (plan_targets p) = pc_requested (cp_pricing p)"
    "sort (cp_preserved p) = expected_preserved p"
    "line_total (kept_lines p @ remainder_lines (expected_replacement p) p) = pc_preserved (cp_pricing p)"
    "pc_displayed (cp_pricing p) = pc_requested (cp_pricing p) + pc_preserved (cp_pricing p)"
    by (blast intro: card_distinct)+
qed

lemma final_lines_mset:
  assumes "cart_session_ok H collate s" "cs_state s = CartPrepared p r"
  shows "mset (fo_lines (pd_final r)) =
     mset (map visible_line.truncate (plan_targets p) @ kept_lines p @ remainder_lines (expected_replacement p) p)"
proof -
  note prep = prepared_facts [OF assms]
  note totals = total_facts [OF prep(1)]
  have "mset (fo_lines (pd_final r)) = mset (expected_final_lines p)"
    using prep(3) unfolding final_cart_matches_def by (metis mset_sort)
  then show ?thesis
    using preserved_lines_mset [OF cart_plan_ok_facts(3) [OF prep(1)] totals(3)] by (simp add: expected_final_lines_def prep(5))
qed

lemma by_key_distinct: "distinct (map key xs) \<Longrightarrow> by_key key xs = map (\<lambda>x. (key x, x)) xs"
proof (induction xs rule: rev_induct)
  case (snoc x xs)
  then have "by_key key xs = map (\<lambda>x. (key x, x)) xs" "key x \<notin> key ` set xs" by auto
  then show ?case 
    by (simp add: by_key_def put_absent map_of_eq_None_iff comp_def image_image)
qed (simp add: by_key_def)

lemma mapping_facts:
  assumes "cart_plan_ok H p"
  shows "distinct (map sp_source (cp_lines p))" "length (cp_lines p) = length (historical_lines p)"
    "\<And>s. s \<in> set (cp_lines p) \<Longrightarrow> \<exists>l. lookup (by_key ol_line_key (historical_lines p)) (sp_source s) = Some l"
proof -
  note facts = cart_plan_ok_facts [OF assms]
  have "card (set (map sp_source (cp_lines p))) = length (map sp_source (cp_lines p)) \<and>
      length (map sp_source (cp_lines p)) = length (by_key ol_line_key (historical_lines p)) \<and>
      \<not> list_ex (\<lambda>k. lookup (by_key ol_line_key (historical_lines p)) k = None) (map sp_source (cp_lines p))"
    using plan_issues_split(2) [OF facts(1,2)] unfolding mapping_issues_def Let_def append_is_Nil_conv list_of_issues by blast
  then show "distinct (map sp_source (cp_lines p))" "length (cp_lines p) = length (historical_lines p)"
    "\<And>s. s \<in> set (cp_lines p) \<Longrightarrow> \<exists>l. lookup (by_key ol_line_key (historical_lines p)) (sp_source s) = Some l"
    by (auto simp: card_distinct by_key_distinct [OF facts(4)] list_ex_iff)
qed

lemma mapped_line_facts:
  assumes "cart_plan_ok H p" "s \<in> set (cp_lines p)" "mapped_line p s = Some b"
  obtains src where "src \<in> set (historical_lines p)" "keeps_identity b src" "vl_quantity b = sp_quantity s"
    "decrement_issues p src s = []" "target_issues p src s = []"
proof -
  obtain src where src: "lookup (by_key ol_line_key (historical_lines p)) (sp_source s) = Some src"
    using mapping_facts(3) [OF assms(1,2)] by blast
  have issues: "baseline_issues p src s = []" "decrement_issues p src s = []" "target_issues p src s = []"
    using plan_issues_split(5) [OF cart_plan_ok_facts(1,2) [OF assms(1)] assms(2)] by (simp_all add: line_issues_def src)
  have "keeps_identity b src \<and> vl_quantity b = sp_quantity s"
    using issues(1) assms(3) by (auto simp: baseline_issues_def mapped_line_def Let_def split: option.splits if_splits)
  moreover have "src \<in> set (historical_lines p)"
    using src lookup_by_key_eq_Some [OF cart_plan_ok_facts(4) [OF assms(1)]] by blast
  ultimately show thesis using that issues(2,3) by blast
qed

section \<open>A concrete cart\<close>

text \<open>One soup was ordered; the cart holds two of it and fries.  The plan replaces the soup by a salad.\<close>

definition demo_host :: host where
  "demo_host = \<lparr>valid_date = (\<lambda>s. True), valid_datetime = (\<lambda>s. True), valid_zod_url = (\<lambda>s. True),
     parse_url = (\<lambda>s. Some \<lparr>u_protocol = ''https:'', u_username = [], u_password = [], u_pathname = ''/'', u_search = [],
       u_hash = [], u_origin = ''https://p''\<rparr>),
     lower_case = (\<lambda>s. s), time_zones = (\<lambda>s. True)\<rparr>"

definition demo_restaurant :: restaurant where
  "demo_restaurant = \<lparr>rs_name = ''R'', rs_location = ''L'', rs_address = None, rs_merchant = ''m''\<rparr>"

definition demo_order :: order_line where
  "demo_order = \<lparr>ol_provider_label = ''P'', ol_provider_origin = ''https://p/'', ol_order_locator = ''o'', ol_group_locator = ''g'',
     ol_order_date = ''2025-01-01'', ol_fulfillment = Delivery, ol_declared_count = 1, ol_line_key = ''h1'',
     ol_restaurant = demo_restaurant, ol_dish = ''Soup'', ol_quantity = 1, ol_modifiers = [], ol_historical_locator = Some ''m1'',
     ol_classification = Food\<rparr>"

definition demo_evidence :: evidence where
  "demo_evidence = \<lparr>ev_id = ''evd_0123456789abcdef'', ev_observed = ''t'', ev_date = None, ev_precision = Day,
     ev_source_type = ''delivery_provider'', ev_source_label = ''P'', ev_locator = ''x'', ev_summary = ''s'',
     ev_actor = ''act_0123456789abcdef'', ev_limitations = [], ev_supersedes = None, ev_body = DeliveryLineEvidence demo_order\<rparr>"

definition demo_visible :: "string \<Rightarrow> string \<Rightarrow> nat \<Rightarrow> nat \<Rightarrow> visible_line" where
  "demo_visible key dish quantity price = \<lparr>vl_key = key, vl_locator = ''m1'', vl_dish = dish, vl_modifiers = [],
     vl_quantity = quantity, vl_price = price\<rparr>"

definition demo_target :: "string \<Rightarrow> target_line" where
  "demo_target key = \<lparr>vl_key = key, vl_locator = ''m3'', vl_dish = ''Salad'', vl_modifiers = [], vl_quantity = 1, vl_price = 500,
     tl_classification = Food\<rparr>"

definition demo_plan :: "string \<Rightarrow> string list \<Rightarrow> nat \<Rightarrow> cart_plan" where
  "demo_plan key preserved amount =
     \<lparr>cp_session = ''ses_0123456789abcdef'', cp_authority = LocalJournal 1, cp_observed = ''t'', cp_label = ''P'',
      cp_origin = ''https://p/'', cp_restaurant = demo_restaurant, cp_order = [(demo_evidence, demo_order)],
      cp_lines = [\<lparr>sp_source = ''h1'', sp_baseline = Some ''c1'', sp_quantity = 2, sp_operation = ReplaceLine 1 1 (demo_target key)\<rparr>],
      cp_baseline = \<lparr>cb_restaurant = Some demo_restaurant, cb_summary = ''s'',
        cb_fingerprint = ''sha256:'' @ replicate 64 (CHR ''0''),
        cb_lines = [demo_visible ''c1'' ''Soup'' 2 400, demo_visible ''c2'' ''Fries'' 1 300]\<rparr>,
      cp_preserved = preserved, cp_replacement = \<lparr>rp_required = False, rp_reason_given = False\<rparr>,
      cp_pricing = \<lparr>pc_requested = 500, pc_preserved = amount, pc_displayed = 500 + amount, pc_maximum = 1000, pc_previous = None,
        pc_comparison = NotApplicable, pc_decision = Automatic\<rparr>,
      cp_confirmation = None\<rparr>"

definition demo_result :: "string \<Rightarrow> string list \<Rightarrow> nat \<Rightarrow> visible_line list \<Rightarrow> prepared_result" where
  "demo_result key preserved amount final =
     expected_result (demo_plan key preserved amount)
       \<lparr>fo_label = ''P'', fo_origin = ''https://p/'', fo_restaurant = demo_restaurant, fo_summary = ''s'',
        fo_fingerprint = ''sha256:'' @ replicate 64 (CHR ''0''), fo_lines = final, fo_displayed = 500 + amount\<rparr>"

definition demo_session :: "string \<Rightarrow> string list \<Rightarrow> nat \<Rightarrow> visible_line list \<Rightarrow> cart_session" where
  "demo_session key preserved amount final =
     \<lparr>cs_session = ''ses_0123456789abcdef'', cs_authority = LocalJournal 1, cs_updated = ''t'',
      cs_state = CartPrepared (demo_plan key preserved amount) (demo_result key preserved amount final)\<rparr>"

definition demo_final :: "visible_line list" where
  "demo_final = [demo_visible ''c1'' ''Soup'' 1 400, demo_visible ''c2'' ''Fries'' 1 300, visible_line.truncate (demo_target ''c3'')]"

lemma demo_session_ok: "cart_session_ok demo_host (map of_char) (demo_session ''c3'' [''c2''] 700 demo_final)"
  by code_simp

lemma demo_state:
  "cs_state (demo_session key preserved amount final) =
     CartPrepared (demo_plan key preserved amount) (demo_result key preserved amount final)"
  by (simp add: demo_session_def)

section \<open>Properties\<close>

text \<open>C32: A prepared cart is exact. When a session is accepted as prepared, the lines observed in the final cart are, as a multiset,
  the planned targets, the kept lines of the earlier cart and the remainders of reduced lines.  Kept are the lines that no line of the order
  was mapped to and whose key no target takes, and none when the cart of another restaurant is replaced.  The prices add up
  to the displayed subtotal, which is the requested plus the preserved one, and the result lists the targets at
  the requested subtotal.\<close>
theorem prepared_cart_is_exact:
  assumes "cart_session_ok H collate s" "cs_state s = CartPrepared p r"
  shows "mset (fo_lines (pd_final r)) =
      mset (map visible_line.truncate (pd_lines r)) + mset (kept_lines p) + mset (remainder_lines (expected_replacement p) p) \<and>
    line_total (fo_lines (pd_final r)) = fo_displayed (pd_final r) \<and>
    fo_displayed (pd_final r) = pc_requested (cp_pricing p) + pc_preserved (cp_pricing p) \<and>
    line_total (pd_lines r) = pd_requested r \<and> pd_requested r = pc_requested (cp_pricing p)"
proof -
  note prep = prepared_facts [OF assms]
  note totals = total_facts [OF prep(1)]
  have result: "pd_lines r = plan_targets p" "pd_requested r = pc_requested (cp_pricing p)"
    by (subst prep(4), simp add: expected_result_def)+
  have "line_total (fo_lines (pd_final r)) = pc_displayed (cp_pricing p)"
    using line_total_mset [OF final_lines_mset [OF assms]] totals(2,4,5) by simp
  moreover have "fo_displayed (pd_final r) = pc_displayed (cp_pricing p)" using prep(3) by (simp add: final_cart_matches_def)
  ultimately show ?thesis using final_lines_mset [OF assms] totals(2,5) by (simp add: result)
qed

lemma prepared_cart_is_exact_witness:
  "mset demo_final = mset (map visible_line.truncate [demo_target ''c3'']) + mset [demo_visible ''c2'' ''Fries'' 1 300]
     + mset [demo_visible ''c1'' ''Soup'' 1 400] \<and> line_total demo_final = 1200"
proof -
  have "pd_lines (demo_result ''c3'' [''c2''] 700 demo_final) = [demo_target ''c3'']"
    "kept_lines (demo_plan ''c3'' [''c2''] 700) = [demo_visible ''c2'' ''Fries'' 1 300]"
    "remainder_lines (expected_replacement (demo_plan ''c3'' [''c2''] 700)) (demo_plan ''c3'' [''c2''] 700) = [demo_visible ''c1'' ''Soup'' 1 400]"
    by code_simp+
  moreover have "fo_lines (pd_final (demo_result ''c3'' [''c2''] 700 demo_final)) = demo_final"
    "fo_displayed (pd_final (demo_result ''c3'' [''c2''] 700 demo_final)) = 1200"
    by (simp_all add: demo_result_def expected_result_def)
  ultimately show ?thesis using prepared_cart_is_exact [OF demo_session_ok demo_state] by (simp only:)
qed

text \<open>A prepared cart is authorised. Either the user confirmed exactly these terms (session, restaurant, lines, amounts, visible
  cart), or the requested subtotal is below the automatic maximum, not above the previous one, and the cart
  held nothing from another restaurant.\<close>
theorem prepared_cart_is_authorised:
  assumes "cart_session_ok H collate s" "cs_state s = CartPrepared p r"
  shows "(\<exists>c. cp_confirmation p = Some c \<and> confirmation_terms.truncate c = expected_confirmation p \<and> cf_session c = cs_session s
      \<and> cf_lines c = pd_lines r) \<or>
    (cp_confirmation p = None \<and> pc_requested (cp_pricing p) < pc_maximum (cp_pricing p) \<and>
     opt_all (\<lambda>prior. pc_requested (cp_pricing p) \<le> prior) (pc_previous (cp_pricing p)) \<and>
     opt_all (\<lambda>r. r = cp_restaurant p) (cb_restaurant (cp_baseline p)))"
proof -
  note prep = prepared_facts [OF assms]
  have dec: "decision_issues p = []" using plan_issues_split(4) [OF cart_plan_ok_facts(1,2) [OF prep(1)]] .
  have session: "cp_session p = cs_session s"
    using assms by (auto simp: cart_session_ok_def session_issues_def split: if_splits)
  have price: "pricing_issues (cp_pricing p) = []"
    using prep(1) unfolding cart_plan_ok_def pricing_ok_def by blast
  show ?thesis
  proof (cases "cp_confirmation p")
    case (Some c)
    then have c: "confirmation_terms.truncate c = expected_confirmation p" using dec by (auto simp: decision_issues_def Let_def split: if_splits)
    then have "cf_session (confirmation_terms.truncate c) = cp_session p" "cf_lines (confirmation_terms.truncate c) = plan_targets p"
      by (simp_all add: expected_confirmation_def)
    moreover have "pd_lines r = plan_targets p" by (subst prep(4)) (simp add: expected_result_def)
    ultimately show ?thesis using Some c session by (simp add: confirmation_terms.truncate_def)
  next
    case None
    then have "\<not> confirmation_required p"
      using dec prep(2) by (cases "pc_decision (cp_pricing p)") (auto simp: decision_issues_def Let_def split: if_splits)
    then have free: "pc_requested (cp_pricing p) < pc_maximum (cp_pricing p)" "pc_comparison (cp_pricing p) \<noteq> Increased" "\<not> expected_replacement p"
      using prep(5) by (auto simp: confirmation_required_def)
    have "opt_all (\<lambda>prior. pc_requested (cp_pricing p) \<le> prior) (pc_previous (cp_pricing p))"
      using price free(2) by (auto simp: pricing_issues_def opt_all_def split: option.splits if_splits)
    moreover have "opt_all (\<lambda>r. r = cp_restaurant p) (cb_restaurant (cp_baseline p))"
      using free(3) by (auto simp: expected_replacement_def opt_all_def same_location_iff split: option.splits)
    ultimately show ?thesis using None free by blast
  qed
qed

lemma prepared_cart_is_authorised_witness:
  "pc_requested (cp_pricing (demo_plan ''c3'' [''c2''] 700)) < pc_maximum (cp_pricing (demo_plan ''c3'' [''c2''] 700))"
proof -
  have "cp_confirmation (demo_plan ''c3'' [''c2''] 700) = None" by (simp add: demo_plan_def)
  then show ?thesis using prepared_cart_is_authorised [OF demo_session_ok demo_state] by (simp only: option.distinct) blast
qed

text \<open>What a cart may lose. A line that was in the cart before is in the final cart, or its key was taken by a target of the plan, or
  it is the same dish as an ordered line and at most the ordered quantity of it is gone.\<close>
theorem cart_loses_only_ordered_lines:
  assumes "cart_session_ok H collate s" "cs_state s = CartPrepared p r" "\<not> expected_replacement p"
    and "b \<in> set (cb_lines (cp_baseline p))"
  shows "b \<in> set (fo_lines (pd_final r)) \<or>
    (\<exists>t\<in>set (pd_lines r). vl_key t = vl_key b \<and> visible_line.truncate t \<in> set (fo_lines (pd_final r))) \<or>
    (\<exists>src\<in>set (historical_lines p). keeps_identity b src \<and>
       (vl_quantity b \<le> ol_quantity src \<or> b\<lparr>vl_quantity := vl_quantity b - ol_quantity src\<rparr> \<in> set (fo_lines (pd_final r))))"
proof -
  note prep = prepared_facts [OF assms(1,2)]
  note facts = cart_plan_ok_facts [OF prep(1)]
  have "set_mset (mset (fo_lines (pd_final r))) =
      set_mset (mset (map visible_line.truncate (plan_targets p) @ kept_lines p @ remainder_lines (expected_replacement p) p))"
    by (simp only: final_lines_mset [OF assms(1,2)])
  then have final: "set (fo_lines (pd_final r)) =
      visible_line.truncate ` set (plan_targets p) \<union> set (kept_lines p) \<union> set (remainder_lines False p)"
    using assms(3) by auto
  have result: "pd_lines r = plan_targets p" by (subst prep(4)) (simp add: expected_result_def)
  consider (target) "vl_key b \<in> vl_key ` set (plan_targets p)"
    | (free) "vl_key b \<notin> set (map vl_key (plan_targets p))" "vl_key b \<notin> set (mapped_baseline_keys p)"
    | (mapped) "vl_key b \<notin> vl_key ` set (plan_targets p)" "vl_key b \<in> set (mapped_baseline_keys p)" by auto
  then show ?thesis
  proof cases
    case target
    then show ?thesis unfolding final result by force
  next
    case free
    then have "b \<in> set (kept_lines p)"
      unfolding expected_preserved_kept(2) [OF facts(3) assms(3)] using assms(4) by (simp only: set_filter mem_Collect_eq) simp
    then show ?thesis unfolding final by blast
  next
    case mapped
    then obtain x where x: "x \<in> set (cp_lines p)" "sp_baseline x = Some (vl_key b)"
      by (auto simp: mapped_baseline_keys_def split: option.splits)
    have b: "mapped_line p x = Some b" using assms(4) by (simp add: mapped_line_def x lookup_by_key_eq_Some [OF facts(3)])
    obtain src where src: "src \<in> set (historical_lines p)" "keeps_identity b src" "vl_quantity b = sp_quantity x"
      "decrement_issues p src x = []" "target_issues p src x = []"
      by (rule mapped_line_facts [OF prep(1) x(1) b])
    have not_target: "plan_target (sp_operation x) = Some t \<Longrightarrow> vl_key t \<noteq> vl_key b" for t
      using mapped(1) x(1) by (force simp: plan_targets_def)
    have "plan_decrement (sp_operation x) \<noteq> None"
      using src(5) not_target by (cases "sp_operation x") (auto simp: target_issues_def b Let_def is_mapped_line_def split: if_splits)
    then obtain d q where dq: "plan_decrement (sp_operation x) = Some (d, q)" by auto
    then have q: "q = vl_quantity b - ol_quantity src" using src(3,4) assms(3) by (auto simp: decrement_issues_def Let_def split: if_splits)
    have "vl_quantity b \<le> ol_quantity src \<or> b\<lparr>vl_quantity := q\<rparr> \<in> set (remainder_lines False p)"
    proof (cases "q = 0")
      case False
      then show ?thesis using x(1) by (auto simp: remainder_lines_def dq b intro!: bexI [of _ x])
    qed (use q in simp)
    then show ?thesis unfolding final q using src(1,2) by blast
  qed
qed

lemma cart_loses_only_ordered_lines_witness:
  "\<exists>src\<in>set (historical_lines (demo_plan ''c3'' [''c2''] 700)). keeps_identity (demo_visible ''c1'' ''Soup'' 2 400) src \<and>
     (2 \<le> ol_quantity src \<or> demo_visible ''c1'' ''Soup'' (2 - ol_quantity src) 400 \<in> set demo_final)"
proof -
  let ?b = "demo_visible ''c1'' ''Soup'' 2 400"
  have "\<not> expected_replacement (demo_plan ''c3'' [''c2''] 700)"
    "?b \<in> set (cb_lines (cp_baseline (demo_plan ''c3'' [''c2''] 700)))" by code_simp+
  note loses = cart_loses_only_ordered_lines [OF demo_session_ok demo_state this]
  have final: "fo_lines (pd_final (demo_result ''c3'' [''c2''] 700 demo_final)) = demo_final"
    by (simp add: demo_result_def expected_result_def)
  have "?b \<notin> set demo_final" "\<not> list_ex (\<lambda>t. vl_key t = vl_key ?b) (pd_lines (demo_result ''c3'' [''c2''] 700 demo_final))"
    by code_simp+
  moreover have "?b\<lparr>vl_quantity := n\<rparr> = demo_visible ''c1'' ''Soup'' n 400" "vl_quantity ?b = 2" for n by (simp_all add: demo_visible_def)
  ultimately show ?thesis using loses unfolding final list_ex_iff by (simp only:) blast
qed

text \<open>Nothing ordered is forgotten. An accepted plan maps every line of the historical order exactly once.\<close>
theorem every_order_line_planned_once:
  assumes "cart_plan_ok H p"
  shows "mset (map sp_source (cp_lines p)) = mset (map ol_line_key (historical_lines p))"
proof -
  note m = mapping_facts [OF assms] and facts = cart_plan_ok_facts [OF assms]
  have "set (map sp_source (cp_lines p)) \<subseteq> set (map ol_line_key (historical_lines p))"
  proof
    fix k assume "k \<in> set (map sp_source (cp_lines p))"
    then obtain s where "s \<in> set (cp_lines p)" "k = sp_source s" by auto
    moreover then obtain l where "lookup (by_key ol_line_key (historical_lines p)) (sp_source s) = Some l" using m(3) by blast
    ultimately show "k \<in> set (map ol_line_key (historical_lines p))" using lookup_by_key_eq_Some [OF facts(4)] by force
  qed
  moreover have "card (set (map sp_source (cp_lines p))) = card (set (map ol_line_key (historical_lines p)))"
    using m(1,2) facts(4) by (simp only: distinct_card length_map)
  ultimately have "set (map sp_source (cp_lines p)) = set (map ol_line_key (historical_lines p))"
    by (intro card_subset_eq) simp_all
  then show ?thesis using m(1) facts(4) by (simp only: set_eq_iff_mset_eq_distinct)
qed

lemma every_order_line_planned_once_witness:
  "mset (map sp_source (cp_lines (demo_plan ''c3'' [''c2''] 700))) = {#''h1''#}"
proof -
  have "map ol_line_key (historical_lines (demo_plan ''c3'' [''c2''] 700)) = [''h1'']"
    by (simp add: historical_lines_def demo_plan_def demo_order_def)
  then show ?thesis
    using every_order_line_planned_once [OF prepared_facts(1) [OF demo_session_ok demo_state]] by (simp only: mset.simps)
qed

text \<open>C33: A gap: a target can take the place of an unrelated line. In every session accepted as prepared, when a target carries the key of a line
  of the earlier cart that no line of the order was mapped to, that line is not preserved, and the final cart holds under its key
  nothing but the target. No check refuses such a plan: the witness is an accepted session, without a replacement of the cart, that
  loses the fries.\<close>
theorem replacement_can_take_unrelated_line:
  assumes "cart_session_ok H collate s" "cs_state s = CartPrepared p r"
    and "l \<in> set (cb_lines (cp_baseline p))" "vl_key l \<notin> set (mapped_baseline_keys p)" 
    and "t \<in> set (plan_targets p)" "vl_key t = vl_key l"
  shows "vl_key l \<notin> set (cp_preserved p) \<and> {m \<in> set (fo_lines (pd_final r)). vl_key m = vl_key l} = {visible_line.truncate t}"
proof -
  note prep = prepared_facts [OF assms(1,2)]
  note totals = total_facts [OF prep(1)]
  have taken: "vl_key l \<in> set (map vl_key (plan_targets p))" using assms(5,6) by (metis image_eqI list.set_map)
  then have "vl_key l \<notin> set (expected_preserved p)" by (auto simp: expected_preserved_def)
  then have gone: "vl_key l \<notin> set (cp_preserved p)" and kept: "\<And>m. m \<in> set (kept_lines p) \<Longrightarrow> vl_key m \<noteq> vl_key l"
    using totals(3) by (metis set_sort, auto simp: kept_lines_def split: if_splits)
  have "\<not> list_ex (\<lambda>k. k \<in> set (map vl_key (plan_targets p))) (map vl_key (remainder_lines (expected_replacement p) p))"
    using plan_issues_split(3) [OF cart_plan_ok_facts(1,2) [OF prep(1)]] unfolding total_issues_def Let_def append_is_Nil_conv list_of_issues by blast
  then have rest: "\<And>m. m \<in> set (remainder_lines (expected_replacement p) p) \<Longrightarrow> vl_key m \<noteq> vl_key l" using taken by (auto simp: list_ex_iff)
  have one: "{x \<in> set (plan_targets p). vl_key x = vl_key l} = {t}" using totals(1) assms(5,6) by (auto simp: distinct_map inj_on_def)
  have final: "set (fo_lines (pd_final r)) =
      visible_line.truncate ` set (plan_targets p) \<union> set (kept_lines p) \<union> set (remainder_lines (expected_replacement p) p)"
    using arg_cong [OF final_lines_mset [OF assms(1,2)], of set_mset] by auto
  have key: "vl_key (visible_line.truncate x) = vl_key x" for x :: target_line by (simp add: visible_line.truncate_def)
  have "{m \<in> set (fo_lines (pd_final r)). vl_key m = vl_key l} = {m \<in> visible_line.truncate ` set (plan_targets p). vl_key m = vl_key l}"
    unfolding final using kept rest by blast
  also have "\<dots> = visible_line.truncate ` {x \<in> set (plan_targets p). vl_key x = vl_key l}" using key by auto
  finally show ?thesis using one gone by simp
qed

lemma replacement_can_take_unrelated_line_witness:
  "\<exists>final. cart_session_ok demo_host (map of_char) (demo_session ''c2'' [] 400 final) \<and>
     demo_visible ''c2'' ''Fries'' 1 300 \<in> set (cb_lines (cp_baseline (demo_plan ''c2'' [] 400))) \<and>
     {m \<in> set final. vl_key m = ''c2''} = {visible_line.truncate (demo_target ''c2'')}"
proof -
  let ?final = "[demo_visible ''c1'' ''Soup'' 1 400, visible_line.truncate (demo_target ''c2'')]" and ?fries = "demo_visible ''c2'' ''Fries'' 1 300"
  have ok: "cart_session_ok demo_host (map of_char) (demo_session ''c2'' [] 400 ?final)" by code_simp
  have fries: "?fries \<in> set (cb_lines (cp_baseline (demo_plan ''c2'' [] 400)))" by (simp add: demo_plan_def)
  have free: "vl_key ?fries \<notin> set (mapped_baseline_keys (demo_plan ''c2'' [] 400))"
    by (simp add: mapped_baseline_keys_def demo_plan_def demo_visible_def)
  have t: "demo_target ''c2'' \<in> set (plan_targets (demo_plan ''c2'' [] 400))" by (simp add: plan_targets_def demo_plan_def)
  have k: "vl_key (demo_target ''c2'') = vl_key ?fries" "vl_key ?fries = ''c2''" by (simp_all add: demo_target_def demo_visible_def)
  have final: "fo_lines (pd_final (demo_result ''c2'' [] 400 ?final)) = ?final" by (simp add: demo_result_def expected_result_def)
  have "{m \<in> set ?final. vl_key m = ''c2''} = {visible_line.truncate (demo_target ''c2'')}"
    using replacement_can_take_unrelated_line [OF ok demo_state fries free t k(1)] unfolding final k(2) by (rule conjunct2)
  then show ?thesis using ok fries by blast
qed
end
