(* ===== verification/JournalValidation.thy ===== *)
theory JournalValidation
  imports DeliveryCart OperationalStore
begin

text \<open>
  The checks that relate journal documents to each other
  (\<^verbatim>\<open>apps/server/src/domain/journal-validation.ts\<close>): items and reports cite evidence that exists and
  supports them, delivery evidence forms complete orders, meal proposals rest on a review and on their source.  Every
  check throws on the first violation.  Parsed values have the property order of their schema, so comparing two of
  them through their JSON text is equality.
\<close>

section \<open>Kinds of evidence\<close>

type_synonym evidence_map = "(evidence_id, evidence) js_map"
type_synonym item_map = "(item_id, journal_item) js_map"

definition invalid :: failure where
  "invalid = app_error VALIDATION_FAILED"

definition is_import :: "evidence \<Rightarrow> bool" where
  "is_import e \<longleftrightarrow> ev_body e = ImportEvidence"

definition is_cooking :: "evidence \<Rightarrow> bool" where
  "is_cooking e \<longleftrightarrow> (case ev_body e of CookingEvidence _ \<Rightarrow> True | _ \<Rightarrow> False)"

definition supports_saved :: "evidence \<Rightarrow> bool" where
  "supports_saved e \<longleftrightarrow> (case ev_body e of
     RecipeDiscoveryEvidence _ \<Rightarrow> True | ImportEvidence \<Rightarrow> True | UserConfirmationEvidence _ \<Rightarrow> True | _ \<Rightarrow> False)"

definition supports_liked :: "item_id \<Rightarrow> evidence \<Rightarrow> bool" where
  "supports_liked i e \<longleftrightarrow> (case ev_body e of UserConfirmationEvidence c \<Rightarrow> c = None \<or> c = Some i | _ \<Rightarrow> False)"

definition delivery_line_of :: "evidence \<Rightarrow> group_line option" where
  "delivery_line_of e = (case ev_body e of DeliveryLineEvidence l \<Rightarrow> Some (e, l) | _ \<Rightarrow> None)"

definition delivery_lines :: "evidence list \<Rightarrow> group_line list" where
  "delivery_lines es = List.map_filter delivery_line_of es"

definition cited_evidence :: "evidence_map \<Rightarrow> evidence_id list \<Rightarrow> evidence list option" where
  "cited_evidence evs ids = those (map (lookup evs) ids)"

section \<open>Items\<close>

definition dish_matches_line :: "dish_item \<Rightarrow> order_line \<Rightarrow> bool" where
  "dish_matches_line d l \<longleftrightarrow> ol_provider_label l = dd_provider_label d \<and> ol_provider_origin l = dd_provider_origin d \<and>
     rs_name (ol_restaurant l) = dd_restaurant d \<and> rs_location (ol_restaurant l) = dd_location d \<and>
     rs_address (ol_restaurant l) = dd_address d \<and> rs_merchant (ol_restaurant l) = dd_merchant d \<and>
     ol_dish l = dd_dish d \<and> ol_classification l = dd_classification d"

definition supported_menu_locators :: "group_line list \<Rightarrow> string list" where
  "supported_menu_locators ls = remdups (List.map_filter (\<lambda>(e, l). ol_historical_locator l) ls)"

definition validate_delivery_dish_evidence :: "dish_item \<Rightarrow> evidence list \<Rightarrow> failure + unit" where
  "validate_delivery_dish_evidence d cited =
     (let ls = delivery_lines cited; menu = supported_menu_locators ls in
      and_then (guard (length ls = length cited) invalid) (\<lambda>_.
      and_then (guard (card (set (map fst (dd_occurrences d))) = length ls) invalid) (\<lambda>_.
      and_then (each_ok (\<lambda>(e, l).
          and_then (guard (dish_matches_line d l) invalid) (\<lambda>_.
          guard (lookup (rev (dd_occurrences d)) (ev_id e) = Some (ol_modifiers l)) invalid)) ls) (\<lambda>_.
      guard (length menu = length (dd_menu_locators d) \<and> list_all (\<lambda>m. m \<in> set menu) (dd_menu_locators d)) invalid))))"

definition validate_item_evidence :: "journal_item \<Rightarrow> evidence_map \<Rightarrow> failure + unit" where
  "validate_item_evidence item evs =
     (case cited_evidence evs (item_evidence_of item) of
        None \<Rightarrow> Inl invalid
      | Some cited \<Rightarrow>
          (case item of
             ImportedDishItem _ \<Rightarrow> guard (list_all is_import cited) invalid
           | DishItem d \<Rightarrow> validate_delivery_dish_evidence d cited
           | GroceryItem _ \<Rightarrow> Inr ()
           | RecipeItem r \<Rightarrow>
               and_then (guard (rp_saved r \<noteq> Yes \<or> list_ex supports_saved cited) invalid) (\<lambda>_.
               and_then (guard (rp_cooked r \<noteq> Yes \<or> list_ex is_cooking cited) invalid) (\<lambda>_.
               guard (rp_liked r \<noteq> Yes \<or> list_ex (supports_liked (it_id r)) cited) invalid))))"

definition is_imported_dish :: "journal_item \<Rightarrow> bool" where
  "is_imported_dish i = (case i of ImportedDishItem _ \<Rightarrow> True | _ \<Rightarrow> False)"

definition citations :: "item_map \<Rightarrow> evidence_id \<Rightarrow> journal_item list" where
  "citations items e = concat (map (\<lambda>i. map (\<lambda>_. i) (filter (\<lambda>x. x = e) (item_evidence_of i))) (vals items))"

definition validate_delivery_import_evidence_scope :: "item_map \<Rightarrow> evidence_map \<Rightarrow> evidence_id list \<Rightarrow> failure + unit" where
  "validate_delivery_import_evidence_scope items evs imports =
     and_then (each_ok (\<lambda>e. guard (opt_all is_import (lookup evs e) \<and> lookup evs e \<noteq> None \<and>
         (case citations items e of [i] \<Rightarrow> is_imported_dish i | _ \<Rightarrow> False)) invalid) imports) (\<lambda>_.
     each_ok (\<lambda>i. guard (\<not> is_imported_dish i \<or> list_all (\<lambda>e. e \<in> set imports) (item_evidence_of i)) invalid) (vals items))"

section \<open>Reports\<close>

definition purchase_key :: "evidence \<Rightarrow> string option" where
  "purchase_key e = (case ev_body e of PurchaseEvidence p \<Rightarrow> Some (pu_store p @ [CHR 0x00] @ pu_order p) | _ \<Rightarrow> None)"

definition latest :: "string list \<Rightarrow> string option" where
  "latest ds = last_of (sort ds)"

definition validate_assertion :: "bool \<Rightarrow> evidence_map \<Rightarrow> item_id list \<Rightarrow> report_assertion \<Rightarrow> failure + unit" where
  "validate_assertion counts evs items a =
     and_then (guard (list_all (\<lambda>i. i \<in> set items) (ra_items a)) invalid) (\<lambda>_.
     case cited_evidence evs (ra_evidence a) of
       None \<Rightarrow> Inl invalid
     | Some cited \<Rightarrow>
         and_then (guard (\<not> counts \<or> opt_all (\<lambda>n. card (set (List.map_filter purchase_key cited)) = n) (ra_order_count a)) invalid) (\<lambda>_.
         guard (\<not> counts \<or> opt_all (\<lambda>d. latest (List.map_filter ev_date cited) = Some d) (ra_last_date a)) invalid))"

definition validate_report :: "report \<Rightarrow> evidence_map \<Rightarrow> item_id list \<Rightarrow> failure + unit" where
  "validate_report r evs items = each_ok (validate_assertion (rep_type r \<noteq> DeliveryIndex) evs items) (rep_assertions r)"

definition line_group :: "order_line \<Rightarrow> string \<times> string \<times> string" where
  "line_group l = (ol_provider_origin l, ol_order_locator l, ol_group_locator l)"

definition group_lines :: "group_line list \<Rightarrow> ((string \<times> string \<times> string) \<times> group_line list) list" where
  "group_lines ls = map (\<lambda>k. (k, filter (\<lambda>(e, l). line_group l = k) ls)) (rev (remdups (rev (map (\<lambda>(e, l). line_group l) ls))))"

definition validate_delivery_evidence_groups :: "host \<Rightarrow> evidence_map \<Rightarrow> failure + unit" where
  "validate_delivery_evidence_groups H evs =
     each_ok (\<lambda>(k, ls). guard (order_group_ok H ls) invalid) (group_lines (delivery_lines (vals evs)))"

definition is_history_dish :: "journal_item \<Rightarrow> bool" where
  "is_history_dish i = (case i of DishItem _ \<Rightarrow> True | _ \<Rightarrow> False)"

definition validate_delivery_assertion :: "evidence_map \<Rightarrow> item_map \<Rightarrow> report_assertion \<Rightarrow> failure + unit" where
  "validate_delivery_assertion evs items a =
     (let found = List.map_filter (lookup items) (ra_items a);
          expected = remdups (concat (map item_evidence_of found));
          asserted = remdups (ra_evidence a);
          cited = List.map_filter (lookup evs) (ra_evidence a);
          ls = delivery_lines cited
      in and_then (guard (length found = length (ra_items a) \<and> list_all is_history_dish found) invalid) (\<lambda>_.
         and_then (guard (length expected = length asserted \<and> list_all (\<lambda>e. e \<in> set asserted) expected) invalid) (\<lambda>_.
         and_then (guard (length cited = length (ra_evidence a) \<and> length ls = length cited) invalid) (\<lambda>_.
         and_then (guard (opt_all (\<lambda>n. card (set (map (\<lambda>(e, l). line_group l) ls)) = n) (ra_order_count a)) invalid) (\<lambda>_.
         guard (opt_all (\<lambda>d. latest (map (\<lambda>(e, l). ol_order_date l) ls) = Some d) (ra_last_date a)) invalid)))))"

definition validate_delivery_index_report :: "report \<Rightarrow> evidence_map \<Rightarrow> item_map \<Rightarrow> failure + unit" where
  "validate_delivery_index_report r evs items =
     and_then (validate_report r evs (map fst items)) (\<lambda>_.
     each_ok (validate_delivery_assertion evs items) (rep_assertions r))"

section \<open>Paths\<close>

definition journal_item_area :: "journal_item \<Rightarrow> string" where
  "journal_item_area i =
     (case i of
        GroceryItem g \<Rightarrow> (case gr_kind g of Snack \<Rightarrow> ''snacks'' | Ingredient \<Rightarrow> ''ingredients'' | Condiment \<Rightarrow> ''condiments''
          | OtherGrocery \<Rightarrow> ''groceries'')
      | RecipeItem _ \<Rightarrow> ''recipes''
      | DishItem _ \<Rightarrow> ''delivery''
      | ImportedDishItem _ \<Rightarrow> ''delivery'')"

definition journal_item_path :: "journal_item \<Rightarrow> string" where
  "journal_item_path i = journal_item_area i @ ''/items/'' @ item_id_of i @ ''.md''"

definition journal_evidence_path :: "evidence \<Rightarrow> string" where
  "journal_evidence_path e =
     (case ev_body e of DeliveryLineEvidence _ \<Rightarrow> ''delivery'' | PurchaseEvidence _ \<Rightarrow> ''groceries'' | _ \<Rightarrow> ''recipes'')
     @ ''/evidence/'' @ take 4 (ev_observed e) @ ''/'' @ ev_id e @ ''.json''"

definition delivery_index_report_path :: string where
  "delivery_index_report_path = ''delivery/reports/delivery-index.md''"

definition delivery_profile_path :: string where
  "delivery_profile_path = ''profiles/delivery.md''"

definition meal_proposal_path :: "meal_proposal \<Rightarrow> string" where
  "meal_proposal_path p = ''meal-plans/weeks/'' @ mp_week p @ ''/proposals/'' @ mp_id p @ ''.json''"

definition meal_plan_event_path :: "meal_plan_event \<Rightarrow> string" where
  "meal_plan_event_path e = ''meal-plans/weeks/'' @ me_week e @ ''/events/'' @ me_id e @ ''.json''"

section \<open>Meal proposals\<close>

definition validate_meal_proposal_review :: "meal_proposal \<Rightarrow> (string, meal_plan_event) js_map \<Rightarrow> failure + unit" where
  "validate_meal_proposal_review p events =
     (case lookup events (mp_review_event p) of
        None \<Rightarrow> Inl invalid
      | Some e \<Rightarrow>
          (case me_kind e of
             ProposalWithdrawn _ _ \<Rightarrow> Inl invalid
           | ConstraintsReviewed revision \<Rightarrow>
               guard (me_id e = mp_review_event p \<and> me_week e = mp_week p \<and> revision = mp_constraint p) invalid))"

definition dish_source_ok :: "journal_item \<Rightarrow> evidence_map \<Rightarrow> evidence_id \<Rightarrow> bool" where
  "dish_source_ok item evs e \<longleftrightarrow> e \<in> set (item_evidence_of item) \<and>
     (case lookup evs e of
        None \<Rightarrow> False
      | Some ev \<Rightarrow> if is_imported_dish item then is_import ev else delivery_line_of ev \<noteq> None)"

definition liked_source_ok :: "recipe_item \<Rightarrow> evidence_map \<Rightarrow> evidence_id \<Rightarrow> bool" where
  "liked_source_ok r evs e \<longleftrightarrow> e \<in> set (it_evidence r) \<and>
     (case lookup evs e of
        None \<Rightarrow> False
      | Some ev \<Rightarrow> ev_id ev = e \<and> ev_body ev = UserConfirmationEvidence (Some (it_id r)))"

definition validate_meal_proposal_source ::
  "meal_proposal \<Rightarrow> item_map \<Rightarrow> evidence_map \<Rightarrow> (item_id, git_object_id) js_map \<Rightarrow> failure + unit" where
  "validate_meal_proposal_source p items evs revisions =
     (case mp_source p of
        JournalDish i es revision \<Rightarrow>
          (case lookup items i of
             None \<Rightarrow> Inl invalid
           | Some item \<Rightarrow>
               and_then (guard (is_imported_dish item \<or> is_history_dish item) invalid) (\<lambda>_.
               and_then (guard (lookup revisions (item_id_of item) = Some revision) (app_error REVISION_CONFLICT)) (\<lambda>_.
               and_then (guard (list_all (dish_source_ok item evs) es) invalid) (\<lambda>_.
               guard (mp_compatibility p = IncompleteEvidence) invalid))))
      | JournalRecipe i es revision \<Rightarrow>
          (case lookup items i of
             Some (RecipeItem r) \<Rightarrow>
               and_then (guard (it_id r = i) invalid) (\<lambda>_.
               and_then (guard (lookup revisions (it_id r) = Some revision) (app_error REVISION_CONFLICT)) (\<lambda>_.
               and_then (guard (rp_liked r = Yes) invalid) (\<lambda>_.
               guard (list_all (liked_source_ok r evs) es) invalid)))
           | _ \<Rightarrow> Inl invalid)
      | _ \<Rightarrow> Inr ())"

definition source_item :: "meal_source \<Rightarrow> (item_id \<times> string) option" where
  "source_item s = (case s of JournalRecipe i _ r \<Rightarrow> Some (i, r) | JournalDish i _ r \<Rightarrow> Some (i, r) | _ \<Rightarrow> None)"

definition meal_proposal_needs_recheck :: "meal_proposal \<Rightarrow> constraint_revision \<Rightarrow> string option \<Rightarrow> bool" where
  "meal_proposal_needs_recheck p current item_revision \<longleftrightarrow>
     mp_constraint p \<noteq> current \<or> (case source_item (mp_source p) of None \<Rightarrow> False | Some (i, r) \<Rightarrow> item_revision \<noteq> Some r)"

section \<open>Lemmas\<close>

lemma those_Some_iff: "those xs = Some ys \<longleftrightarrow> xs = map Some ys"
  by (induction xs arbitrary: ys) (auto split: option.splits simp: Cons_eq_map_conv)

lemma cited_evidence_Some: "cited_evidence evs ids = Some es \<longleftrightarrow> map (lookup evs) ids = map Some es"
  by (simp add: cited_evidence_def those_Some_iff)

lemma cited_evidence_exist:
  assumes "cited_evidence evs ids = Some es" "e \<in> set ids"
  shows "lookup evs e \<noteq> None"
proof -
  from assms have "lookup evs e \<in> set (map Some es)" by (metis cited_evidence_Some image_eqI list.set_map)
  then show ?thesis by auto
qed

lemma cited_evidence_mono:
  assumes "cited_evidence evs ids = Some es" "\<And>e x. lookup evs e = Some x \<Longrightarrow> lookup evs' e = Some x"
  shows "cited_evidence evs' ids = Some es"
  using assms(1) unfolding cited_evidence_Some
proof (induction ids arbitrary: es)
  case (Cons e ids)
  then show ?case by (cases es) (auto intro: assms(2))
qed simp

lemma validate_item_cites: "validate_item_evidence item evs = Inr () \<Longrightarrow> e \<in> set (item_evidence_of item) \<Longrightarrow> lookup evs e \<noteq> None"
  by (auto simp: validate_item_evidence_def dest: cited_evidence_exist split: option.splits)

lemma validate_item_mono:
  assumes "validate_item_evidence item evs = Inr ()" "\<And>e x. lookup evs e = Some x \<Longrightarrow> lookup evs' e = Some x"
  shows "validate_item_evidence item evs' = Inr ()"
  using assms(1) cited_evidence_mono [OF _ assms(2)]
  by (auto simp: validate_item_evidence_def split: option.splits)

end
