(* ===== verification/JournalDocuments.thy ===== *)
theory JournalDocuments
  imports JournalValidation GitStore
begin

text \<open>
  The documents of a household as text: every record of the contracts as the JSON value the code prints, the Markdown
  documents with their front matter (\<^verbatim>\<open>markdownDocument\<close> of
  \<^verbatim>\<open>apps/server/src/domain/journal-validation.ts\<close>) and the repository changes built from them
  (the helper functions at the end of \<^verbatim>\<open>apps/server/src/services/household-food-journal.ts\<close>).
  A property the parsed value does not have is absent from the object.
\<close>

section \<open>JSON values of the contracts\<close>

definition nullable :: "('a \<Rightarrow> json) \<Rightarrow> 'a option \<Rightarrow> json" where
  "nullable f x = (case x of None \<Rightarrow> JNull | Some v \<Rightarrow> f v)"

definition optional :: "string \<Rightarrow> ('a \<Rightarrow> json) \<Rightarrow> 'a option \<Rightarrow> json_object" where
  "optional k f x = (case x of None \<Rightarrow> [] | Some v \<Rightarrow> [(k, f v)])"

abbreviation strings :: "string list \<Rightarrow> json" where
  "strings xs \<equiv> JArr (map JStr xs)"

abbreviation nat_json :: "nat \<Rightarrow> json" where
  "nat_json n \<equiv> JNum (int n)"

definition role_text :: "role \<Rightarrow> string" where
  "role_text r = (case r of Owner \<Rightarrow> ''owner'' | Editor \<Rightarrow> ''editor'' | Viewer \<Rightarrow> ''viewer'')"

definition precision_text :: "precision \<Rightarrow> string" where
  "precision_text p = (case p of Day \<Rightarrow> ''day'' | Month \<Rightarrow> ''month'' | Year \<Rightarrow> ''year'' | UnknownPrecision \<Rightarrow> ''unknown'')"

definition tri_text :: "tri_state \<Rightarrow> string" where
  "tri_text t = (case t of Yes \<Rightarrow> ''yes'' | No \<Rightarrow> ''no'' | Unknown \<Rightarrow> ''unknown'')"

definition scope_text :: "source_scope \<Rightarrow> string" where
  "scope_text s = (case s of Discoverable \<Rightarrow> ''discoverable'' | Saved \<Rightarrow> ''saved'' | Cooked \<Rightarrow> ''cooked'' | Liked \<Rightarrow> ''liked''
     | Custom \<Rightarrow> ''custom'')"

definition classification_json :: "classification \<Rightarrow> json" where
  "classification_json c = JObj [(''kind'', JStr (case c of Food \<Rightarrow> ''food'' | Alcohol \<Rightarrow> ''alcohol'')), (''authored_by'', JStr ''agent'')]"

definition address_json :: "public_address \<Rightarrow> json" where
  "address_json a = JObj (optional ''address_lines'' strings (ad_lines a) @ optional ''locality'' JStr (ad_locality a) @
     optional ''region'' JStr (ad_region a) @ optional ''postal_code'' JStr (ad_postal a) @ optional ''country'' JStr (ad_country a))"

definition modifier_json :: "modifier \<Rightarrow> json" where
  "modifier_json m = JObj [(''group_name'', JStr (md_group m)), (''option_name'', JStr (md_option m))]"

definition restaurant_json :: "restaurant \<Rightarrow> json" where
  "restaurant_json r = JObj [(''restaurant_name'', JStr (rs_name r)), (''public_location_label'', JStr (rs_location r)),
     (''public_merchant_address'', nullable address_json (rs_address r)), (''merchant_locator'', JStr (rs_merchant r))]"

definition order_line_json :: "order_line \<Rightarrow> json" where
  "order_line_json l = JObj
     [(''provider_label'', JStr (ol_provider_label l)), (''provider_origin'', JStr (ol_provider_origin l)),
      (''provider_order_locator'', JStr (ol_order_locator l)), (''order_group_locator'', JStr (ol_group_locator l)),
      (''order_date'', JStr (ol_order_date l)), (''completion_status'', JStr ''completed''),
      (''fulfillment_mode'', JStr (case ol_fulfillment l of Delivery \<Rightarrow> ''delivery'' | Pickup \<Rightarrow> ''pickup'')),
      (''group_complete'', JBool True), (''declared_line_count'', nat_json (ol_declared_count l)),
      (''line_key'', JStr (ol_line_key l)), (''restaurant'', restaurant_json (ol_restaurant l)), (''dish_name'', JStr (ol_dish l)),
      (''quantity'', nat_json (ol_quantity l)), (''modifiers_complete'', JBool True),
      (''modifiers'', JArr (map modifier_json (ol_modifiers l))),
      (''historical_menu_item_locator'', nullable JStr (ol_historical_locator l)),
      (''classification'', classification_json (ol_classification l))]"

definition confirmation_json :: "item_id \<Rightarrow> json" where
  "confirmation_json i = JObj [(''subject'', JStr ''recipe_preference''), (''recipe_item_id'', JStr i), (''preference'', JStr ''liked'')]"

definition evidence_body_fields :: "evidence_body \<Rightarrow> json_object" where
  "evidence_body_fields b = (case b of
     PurchaseEvidence p \<Rightarrow> [(''kind'', JStr ''purchase''), (''purchase'', JObj [(''store'', JStr (pu_store p)),
       (''order_reference'', JStr (pu_order p)), (''line_item_title'', JStr (pu_title p)), (''order_date'', JStr (pu_date p))])]
   | DeliveryLineEvidence l \<Rightarrow> [(''kind'', JStr ''delivery_order_line''), (''delivery_order_line'', order_line_json l)]
   | RecipeDiscoveryEvidence r \<Rightarrow> [(''kind'', JStr ''recipe_discovery''), (''recipe_discovery'', JObj
       (optional ''canonical_recipe_url'' JStr (rc_canonical r) @ [(''audited_page_url'', JStr (rc_audited r))] @
        optional ''displayed_image_url'' JStr (rc_image r) @ optional ''author_or_publisher'' JStr (rc_author r) @
        [(''source_scope'', JStr (scope_text (rc_scope r)))]))]
   | CookingEvidence c \<Rightarrow> [(''kind'', JStr ''cooking''), (''cooking'', JObj
       (optional ''recipe_item_id'' JStr (ck_item c) @ optional ''recipe_candidate'' JStr (ck_candidate c) @
        [(''cooked_on'', JStr (ck_on c)), (''result'', JStr (ck_result c)),
         (''changes'', JArr (map (\<lambda>(d, t). JObj [(''description'', JStr d), (''typical'', JBool t)]) (ck_changes c)))]))]
   | UserConfirmationEvidence i \<Rightarrow> (''kind'', JStr ''user_confirmation'') # optional ''confirmation'' confirmation_json i
   | ImportEvidence \<Rightarrow> [(''kind'', JStr ''import'')]
   | CorrectionEvidence \<Rightarrow> [(''kind'', JStr ''correction'')])"

definition evidence_json :: "evidence \<Rightarrow> json" where
  "evidence_json e = JObj
     ([(''id'', JStr (ev_id e)), (''observed_at'', JStr (ev_observed e)), (''evidence_date'', nullable JStr (ev_date e)),
       (''date_precision'', JStr (precision_text (ev_precision e))), (''source_type'', JStr (ev_source_type e)),
       (''source_label'', JStr (ev_source_label e)), (''stable_locator'', JStr (ev_locator e)), (''summary'', JStr (ev_summary e)),
       (''actor_id'', JStr (ev_actor e)), (''limitations'', strings (ev_limitations e))] @
      optional ''supersedes_evidence_id'' JStr (ev_supersedes e) @ [(''schema_version'', JNum 1)] @ evidence_body_fields (ev_body e))"

definition item_base_fields :: "'a item_base_scheme \<Rightarrow> json_object" where
  "item_base_fields i = [(''id'', JStr (it_id i)), (''evidence_ids'', strings (it_evidence i)), (''created_at'', JStr (it_created i)),
     (''updated_at'', JStr (it_updated i)), (''schema_version'', JNum 1)]"

definition grocery_kind_text :: "grocery_kind \<Rightarrow> string" where
  "grocery_kind_text k = (case k of Snack \<Rightarrow> ''snack'' | Ingredient \<Rightarrow> ''ingredient'' | Condiment \<Rightarrow> ''condiment''
     | OtherGrocery \<Rightarrow> ''other_grocery'')"

definition grocery_fields :: "grocery_item \<Rightarrow> json_object" where
  "grocery_fields g = item_base_fields g @
     [(''display_name'', JStr (gr_display g)), (''brand'', nullable JStr (gr_brand g)), (''product_line'', nullable JStr (gr_product_line g)),
      (''flavor'', nullable JStr (gr_flavor g)), (''formulation'', nullable JStr (gr_formulation g)), (''format'', nullable JStr (gr_format g)),
      (''category'', JStr (gr_category g)), (''produce_variety'', nullable JStr (gr_variety g)), (''known_size_variants'', strings (gr_sizes g)),
      (''image_page_url'', nullable JStr (gr_image_page g)), (''image_url'', nullable JStr (gr_image g)),
      (''kind'', JStr (grocery_kind_text (gr_kind g)))]"

definition recipe_fields :: "recipe_item \<Rightarrow> json_object" where
  "recipe_fields r = item_base_fields r @
     [(''kind'', JStr ''recipe''), (''title'', JStr (rp_title r)), (''canonical_url'', nullable JStr (rp_canonical r)),
      (''audited_page_url'', nullable JStr (rp_audited r)), (''author_or_publisher'', nullable JStr (rp_author r)),
      (''saved'', JStr (tri_text (rp_saved r))), (''cooked'', JStr (tri_text (rp_cooked r))), (''liked'', JStr (tri_text (rp_liked r))),
      (''last_cooked'', nullable JStr (rp_last_cooked r)), (''date_precision'', JStr (precision_text (rp_precision r))),
      (''image_url'', nullable JStr (rp_image r)), (''image_page_url'', nullable JStr (rp_image_page r))]"

definition dish_fields :: "dish_item \<Rightarrow> json_object" where
  "dish_fields d = item_base_fields d @
     [(''kind'', JStr ''delivery_dish''), (''dish_name'', JStr (dd_dish d)), (''provider_label'', JStr (dd_provider_label d)),
      (''provider_origin'', JStr (dd_provider_origin d)), (''restaurant_name'', JStr (dd_restaurant d)),
      (''public_location_label'', JStr (dd_location d)), (''public_merchant_address'', nullable address_json (dd_address d)),
      (''image_url'', nullable JStr (dd_image d)), (''image_page_url'', nullable JStr (dd_image_page d)),
      (''merchant_locator'', JStr (dd_merchant d)), (''known_menu_item_locators'', strings (dd_menu_locators d)),
      (''known_modifier_occurrences'', JArr (map (\<lambda>(e, ms). JObj [(''evidence_id'', JStr e), (''modifiers_complete'', JBool True),
         (''modifiers'', JArr (map modifier_json ms))]) (dd_occurrences d))),
      (''classification'', classification_json (dd_classification d))]"

definition provenance_json :: "import_provenance \<Rightarrow> json" where
  "provenance_json p = JObj [(''source_collection_id'', JStr (ip_collection p)), (''source_snapshot_id'', JStr (ip_snapshot p)),
     (''source_collection_item_id'', JStr (ip_collection_item p)), (''published_revision'', JStr (ip_revision p)),
     (''source_display_attribution'', nullable JStr (ip_attribution p)), (''imported_at'', JStr (ip_imported p))]"

definition imported_dish_fields :: "imported_dish_item \<Rightarrow> json_object" where
  "imported_dish_fields d = item_base_fields d @
     [(''kind'', JStr ''delivery_dish''), (''delivery_authority'', JStr ''public_import''), (''dish_name'', JStr (im_dish d)),
      (''restaurant_name'', JStr (im_restaurant d)), (''public_location_label'', JStr (im_location d)),
      (''public_merchant_address'', nullable address_json (im_address d)), (''image_url'', nullable JStr (im_image d)),
      (''image_page_url'', nullable JStr (im_image_page d)), (''source_display_attribution'', nullable JStr (im_attribution d)),
      (''classification'', classification_json (im_classification d)), (''import_provenance'', provenance_json (im_provenance d))]"

definition item_frontmatter :: "journal_item \<Rightarrow> json_object" where
  "item_frontmatter i = (case i of GroceryItem g \<Rightarrow> grocery_fields g | RecipeItem r \<Rightarrow> recipe_fields r | DishItem d \<Rightarrow> dish_fields d
     | ImportedDishItem d \<Rightarrow> imported_dish_fields d)"

definition item_body_of :: "journal_item \<Rightarrow> string" where
  "item_body_of i = (case i of GroceryItem g \<Rightarrow> it_body g | RecipeItem r \<Rightarrow> it_body r | DishItem d \<Rightarrow> it_body d
     | ImportedDishItem d \<Rightarrow> it_body d)"

definition item_json :: "journal_item \<Rightarrow> json" where
  "item_json i = JObj (item_frontmatter i @ [(''body_markdown'', JStr (item_body_of i))])"

definition assertion_json :: "report_assertion \<Rightarrow> json" where
  "assertion_json a = JObj ([(''row_id'', JStr (ra_row a)), (''item_ids'', strings (ra_items a)), (''evidence_ids'', strings (ra_evidence a))] @
     optional ''distinct_order_count'' nat_json (ra_order_count a) @ optional ''last_date'' JStr (ra_last_date a))"

definition report_type_text :: "report_type \<Rightarrow> string" where
  "report_type_text t = (case t of RecurringSnacks \<Rightarrow> ''recurring_snacks'' | RecipeIndex \<Rightarrow> ''recipe_index'' | DeliveryIndex \<Rightarrow> ''delivery_index'')"

definition report_frontmatter :: "report \<Rightarrow> json_object" where
  "report_frontmatter r = [(''report_type'', JStr (report_type_text (rep_type r))), (''assertions'', JArr (map assertion_json (rep_assertions r))),
     (''schema_version'', JNum 1)]"

definition report_json :: "report \<Rightarrow> json" where
  "report_json r = JObj (report_frontmatter r @ [(''markdown'', JStr (rep_markdown r))])"

definition selection_json :: "provider_selection \<Rightarrow> json" where
  "selection_json s = JObj [(''provider_label'', JStr (ps_label s)), (''provider_origin'', JStr (ps_origin s)),
     (''history_start'', JStr (ps_start s)), (''history_end'', JStr (ps_end s)),
     (''completed_history_cursor'', nullable (\<lambda>c. JObj [(''completed_order_date'', JStr (hc_date c)),
        (''provider_order_locator'', JStr (hc_locator c))]) (ps_cursor s))]"

definition preference_scope_text :: "preference_scope \<Rightarrow> string" where
  "preference_scope_text s = (case s of ProviderScope \<Rightarrow> ''provider'' | LocationScope \<Rightarrow> ''restaurant_location'' | DishScope \<Rightarrow> ''dish''
     | OrderScope \<Rightarrow> ''order'')"

definition preferences_json :: "(preference_scope \<times> string) list \<Rightarrow> json" where
  "preferences_json ps = JArr (map (\<lambda>(s, t). JObj [(''scope'', JStr (preference_scope_text s)), (''instruction'', JStr t),
     (''confirmation'', JStr ''user_confirmed'')]) ps)"

definition delivery_profile_fields :: "delivery_profile \<Rightarrow> json_object" where
  "delivery_profile_fields p = [(''providers'', JArr (map selection_json (dp_providers p))),
     (''interpretation_preferences'', preferences_json (dp_preferences p)), (''schema_version'', JNum 1)]"

definition constraints_json :: "constraints \<Rightarrow> json" where
  "constraints_json c = JObj (case c of
     Unresolved \<Rightarrow> [(''status'', JStr ''unresolved'')]
   | ConfirmedNone z t \<Rightarrow> [(''status'', JStr ''confirmed_none''), (''time_zone'', JStr z), (''reviewed_at'', JStr t)]
   | Recorded r \<Rightarrow> [(''status'', JStr ''recorded''), (''time_zone'', JStr (rcs_zone r)), (''allergy_labels'', strings (rcs_allergies r)),
       (''sensitivity_labels'', strings (rcs_sensitivities r)), (''reviewed_at'', JStr (rcs_reviewed r))])"

definition constraint_revision_json :: "constraint_revision \<Rightarrow> json" where
  "constraint_revision_json r = (case r of HeadRevision g \<Rightarrow> JStr g | LocalRevision n \<Rightarrow> nat_json n)"

definition meal_actor_json :: "meal_actor \<Rightarrow> json" where
  "meal_actor_json a = (case a of CloudActor i \<Rightarrow> JStr i | LocalActor l \<Rightarrow> JObj [(''kind'', JStr ''local''), (''label'', JStr l)])"

definition slot_kind :: "meal_slot \<Rightarrow> string" where
  "slot_kind s = (case s of Breakfast \<Rightarrow> ''breakfast'' | Lunch \<Rightarrow> ''lunch'' | Dinner \<Rightarrow> ''dinner'' | SnackSlot \<Rightarrow> ''snack'' | CustomSlot _ \<Rightarrow> ''custom'')"

definition slot_json :: "meal_slot \<Rightarrow> json" where
  "slot_json s = JObj ((''kind'', JStr (slot_kind s)) # (case s of CustomSlot l \<Rightarrow> [(''label'', JStr l)] | _ \<Rightarrow> []))"

definition meal_source_json :: "meal_source \<Rightarrow> json" where
  "meal_source_json s = JObj (case s of
     Freeform t \<Rightarrow> [(''kind'', JStr ''freeform''), (''title'', JStr t)]
   | ExternalRecipe t u n d \<Rightarrow> [(''kind'', JStr ''external_recipe''), (''title'', JStr t), (''canonical_url'', JStr u), (''site_name'', JStr n),
       (''discovered_at'', JStr d)]
   | JournalRecipe i es r \<Rightarrow> [(''kind'', JStr ''journal_recipe''), (''item_id'', JStr i), (''liked_evidence_ids'', strings es), (''item_revision'', JStr r)]
   | JournalDish i es r \<Rightarrow> [(''kind'', JStr ''journal_delivery_dish''), (''item_id'', JStr i), (''evidence_ids'', strings es), (''item_revision'', JStr r)])"

definition compatibility_text :: "compatibility \<Rightarrow> string" where
  "compatibility_text c = (case c of AppearsCompatible \<Rightarrow> ''appears_compatible'' | IncompleteEvidence \<Rightarrow> ''incomplete_evidence''
     | NeedsRecheck \<Rightarrow> ''needs_recheck'')"

definition meal_proposal_json :: "meal_proposal \<Rightarrow> json" where
  "meal_proposal_json p = JObj
     [(''id'', JStr (mp_id p)), (''week_start'', JStr (mp_week p)), (''meal_date'', JStr (mp_date p)), (''slot'', slot_json (mp_slot p)),
      (''proposed_by'', meal_actor_json (mp_by p)), (''source'', meal_source_json (mp_source p)), (''servings'', nullable nat_json (mp_servings p)),
      (''notes'', nullable JStr (mp_notes p)), (''constraint_revision'', constraint_revision_json (mp_constraint p)),
      (''constraint_review_event_id'', JStr (mp_review_event p)), (''compatibility'', JStr (compatibility_text (mp_compatibility p))),
      (''compatibility_caveat'', JStr (mp_caveat p)), (''created_at'', JStr (mp_created p)), (''schema_version'', JNum 1)]"

definition meal_event_json :: "meal_plan_event \<Rightarrow> json" where
  "meal_event_json e = JObj
     ([(''id'', JStr (me_id e)), (''week_start'', JStr (me_week e)), (''actor'', meal_actor_json (me_actor e)),
       (''occurred_at'', JStr (me_occurred e)), (''schema_version'', JNum 1)] @
      (case me_kind e of
         ConstraintsReviewed r \<Rightarrow> [(''kind'', JStr ''constraints_reviewed''), (''constraint_revision'', constraint_revision_json r)]
       | ProposalWithdrawn p reason \<Rightarrow> [(''kind'', JStr ''proposal_withdrawn''), (''proposal_id'', JStr p), (''reason'', nullable JStr reason)]))"

definition planning_profile_json :: "meal_planning_profile \<Rightarrow> json" where
  "planning_profile_json p = JObj [(''constraints'', constraints_json (mpp_constraints p)), (''revision'', constraint_revision_json (mpp_revision p)),
     (''updated_at'', JStr (mpp_updated p)), (''schema_version'', JNum 1)]"

definition entry_json :: "recipe_or_snack_entry \<Rightarrow> json" where
  "entry_json e = JObj
     [(''collection_item_id'', JStr (rse_id e)), (''source_item_id'', JStr (rse_source e)), (''title'', JStr (rse_title e)),
      (''public_description'', nullable JStr (rse_description e)), (''brand'', nullable JStr (rse_brand e)), (''flavor'', nullable JStr (rse_flavor e)),
      (''formulation'', nullable JStr (rse_formulation e)), (''format'', nullable JStr (rse_format e)),
      (''author_or_publisher'', nullable JStr (rse_author e)), (''canonical_recipe_url'', nullable JStr (rse_canonical e)),
      (''image_url'', nullable JStr (rse_image e)), (''image_page_url'', nullable JStr (rse_image_page e)),
      (''preparation_notes'', nullable JStr (rse_preparation e)), (''source_display_attribution'', nullable JStr (rse_attribution e)),
      (''source_item_revision'', JStr (rse_revision e)), (''kind'', JStr (case rse_kind e of RecipeEntry \<Rightarrow> ''recipe'' | SnackEntry \<Rightarrow> ''snack''))]"

definition dish_entry_fields :: "dish_entry \<Rightarrow> json_object" where
  "dish_entry_fields e =
     [(''collection_item_id'', JStr (de_id e)), (''kind'', JStr ''delivery_dish''), (''title'', JStr (de_title e)),
      (''restaurant_name'', JStr (de_restaurant e)), (''public_location_label'', JStr (de_location e)),
      (''public_merchant_address'', nullable address_json (de_address e)), (''public_description'', nullable JStr (de_description e)),
      (''public_note'', nullable JStr (de_note e)), (''image_url'', nullable JStr (de_image e)), (''image_page_url'', nullable JStr (de_image_page e)),
      (''source_display_attribution'', nullable JStr (de_attribution e)), (''source_item_revision'', JStr (de_revision e))] @
     (if de_alcohol e then [(''classification'', JStr ''alcohol'')] else [])"

definition collection_item_json :: "collection_item \<Rightarrow> json" where
  "collection_item_json i = (case i of ItemEntry e \<Rightarrow> entry_json e | DishEntry e \<Rightarrow> JObj (dish_entry_fields e))"

definition snapshot_json :: "collection_snapshot \<Rightarrow> json" where
  "snapshot_json s = JObj [(''id'', JStr (cs_id s)), (''collection_id'', JStr (cs_collection s)), (''title'', JStr (cs_title s)),
     (''sharer_display_name'', nullable JStr (cs_sharer s)), (''items'', JArr (map collection_item_json (cs_items s))),
     (''created_at'', JStr (cs_created s)), (''schema_version'', JNum 1)]"

section \<open>Markdown documents\<close>

fun print_compact :: "json \<Rightarrow> string" where
  "print_compact JNull = ''null''"
| "print_compact (JBool b) = (if b then ''true'' else ''false'')"
| "print_compact (JNum i) = int_text i"
| "print_compact (JStr s) = json_quote s"
| "print_compact (JArr xs) = ''['' @ join '','' (map print_compact xs) @ '']''"
| "print_compact (JObj fs) = ''{'' @ join '','' (map (\<lambda>(k, x). json_quote k @ '':'' @ print_compact x) fs) @ ''}''"

fun unix_lines :: "string \<Rightarrow> string" where
  "unix_lines (c # d # s) = (if c = CHR 0x0D \<and> d = CHR 0x0A then d # unix_lines s else c # unix_lines (d # s))"
| "unix_lines [c] = [c]"
| "unix_lines [] = []"

definition frontmatter_lines :: "codec \<Rightarrow> json_object \<Rightarrow> string list" where
  "frontmatter_lines C fm = map (\<lambda>(k, v). k @ '': '' @ print_compact v) (sort_key (\<lambda>(k, v). collation_key C k) fm)"

definition markdown_document :: "codec \<Rightarrow> json_object \<Rightarrow> string \<Rightarrow> string" where
  "markdown_document C fm body =
     ''---'' @ [CHR 0x0A] @ join [CHR 0x0A] (frontmatter_lines C fm) @ [CHR 0x0A] @ ''---'' @ [CHR 0x0A] @ unix_lines body @ [CHR 0x0A]"

definition ends_with_newline :: "string \<Rightarrow> bool" where
  "ends_with_newline s \<longleftrightarrow> s \<noteq> [] \<and> last s = CHR 0x0A"

definition with_newline :: "string \<Rightarrow> string" where
  "with_newline s = (if ends_with_newline s then s else s @ [CHR 0x0A])"

definition remove_final_newline :: "string \<Rightarrow> string" where
  "remove_final_newline s = (if ends_with_newline s then butlast s else s)"

definition same_json :: "codec \<Rightarrow> json \<Rightarrow> json \<Rightarrow> bool" where
  "same_json C x y \<longleftrightarrow> stable_json C (JObj [(''value'', x)]) = stable_json C (JObj [(''value'', y)])"

section \<open>Changes\<close>

definition appended :: "string \<Rightarrow> string \<Rightarrow> repository_change" where
  "appended path content = \<lparr>ch_path = path, ch_content = content, ch_append_only = True\<rparr>"

definition replaced :: "string \<Rightarrow> string \<Rightarrow> repository_change" where
  "replaced path content = \<lparr>ch_path = path, ch_content = content, ch_append_only = False\<rparr>"

definition evidence_change :: "codec \<Rightarrow> evidence \<Rightarrow> repository_change" where
  "evidence_change C e = appended (journal_evidence_path e) (stable_json C (evidence_json e))"

definition profile_change :: "string \<Rightarrow> string \<Rightarrow> repository_change" where
  "profile_change profile markdown = replaced (''profiles/'' @ profile @ ''.md'') (with_newline markdown)"

definition item_change :: "codec \<Rightarrow> journal_item \<Rightarrow> repository_change" where
  "item_change C i = replaced (journal_item_path i) (markdown_document C (item_frontmatter i) (item_body_of i))"

definition report_change :: "report \<Rightarrow> repository_change" where
  "report_change r = replaced (if rep_type r = RecurringSnacks then ''snacks/reports/recurring-snacks.md'' else ''recipes/reports/recipe-index.md'')
     (with_newline (rep_markdown r))"

definition delivery_report_document :: "codec \<Rightarrow> report \<Rightarrow> string" where
  "delivery_report_document C r = markdown_document C (report_frontmatter r) (rep_markdown r)"

section \<open>Items as they are listed\<close>

definition item_title :: "journal_item \<Rightarrow> string" where
  "item_title i = (case i of GroceryItem g \<Rightarrow> gr_display g | RecipeItem r \<Rightarrow> rp_title r | DishItem d \<Rightarrow> dd_dish d
     | ImportedDishItem d \<Rightarrow> im_dish d)"

definition item_kind_text :: "journal_item \<Rightarrow> string" where
  "item_kind_text i = (case i of GroceryItem g \<Rightarrow> grocery_kind_text (gr_kind g) | RecipeItem _ \<Rightarrow> ''recipe'' | DishItem _ \<Rightarrow> ''delivery_dish''
     | ImportedDishItem _ \<Rightarrow> ''delivery_dish'')"

definition item_distinguishing_fields :: "journal_item \<Rightarrow> json_object" where
  "item_distinguishing_fields i = (case i of
     RecipeItem r \<Rightarrow> [(''canonical_url'', nullable JStr (rp_canonical r)), (''author_or_publisher'', nullable JStr (rp_author r))]
   | DishItem d \<Rightarrow> [(''provider_label'', JStr (dd_provider_label d)), (''restaurant_name'', JStr (dd_restaurant d)),
       (''public_location_label'', JStr (dd_location d)), (''public_merchant_address'', nullable address_json (dd_address d))]
   | ImportedDishItem d \<Rightarrow> [(''restaurant_name'', JStr (im_restaurant d)), (''public_location_label'', JStr (im_location d)),
       (''public_merchant_address'', nullable address_json (im_address d))]
   | GroceryItem g \<Rightarrow> [(''brand'', nullable JStr (gr_brand g)), (''flavor'', nullable JStr (gr_flavor g)),
       (''formulation'', nullable JStr (gr_formulation g)), (''format'', nullable JStr (gr_format g))])"

definition item_summary :: "journal_item \<Rightarrow> git_object_id \<Rightarrow> json" where
  "item_summary i revision = JObj [(''id'', JStr (item_id_of i)), (''kind'', JStr (item_kind_text i)), (''title'', JStr (item_title i)),
     (''revision'', JStr revision), (''distinguishing_fields'', JObj (item_distinguishing_fields i))]"

definition address_labels :: "public_address option \<Rightarrow> string list" where
  "address_labels a = (case a of None \<Rightarrow> [] | Some x \<Rightarrow> (case ad_lines x of None \<Rightarrow> [] | Some ls \<Rightarrow> ls) @
     List.map_filter id [ad_locality x, ad_region x, ad_postal x, ad_country x])"

definition searchable_item_fields :: "journal_item \<Rightarrow> string list" where
  "searchable_item_fields i = (case i of
     RecipeItem r \<Rightarrow> List.map_filter id [Some (rp_title r), rp_author r, rp_canonical r]
   | DishItem d \<Rightarrow> [dd_dish d, dd_provider_label d, dd_restaurant d, dd_location d] @ address_labels (dd_address d)
   | ImportedDishItem d \<Rightarrow> [im_dish d, im_restaurant d, im_location d] @ address_labels (im_address d)
   | GroceryItem g \<Rightarrow> List.map_filter id [Some (gr_display g), gr_brand g, gr_product_line g, gr_flavor g, gr_formulation g, gr_format g])"

definition profile_snapshot :: "(string \<times> git_object_id) option \<Rightarrow> json_object" where
  "profile_snapshot p = (case p of None \<Rightarrow> [(''markdown'', JStr ''''), (''revision'', JNull)]
     | Some (markdown, revision) \<Rightarrow> [(''markdown'', JStr markdown), (''revision'', JStr revision)])"

end
