(* ===== verification/JournalBase.thy ===== *)
theory JournalBase
  imports JournalDocuments MutationRunner
begin

text \<open>
  What every tool of \<^verbatim>\<open>HouseholdFoodJournalService\<close>
  (\<^verbatim>\<open>apps/server/src/services/household-food-journal.ts\<close>) shares: the collaborators of the
  constructor, the identifiers and tokens derived from a request, the fields common to the tool inputs
  (\<^verbatim>\<open>packages/contracts/src/tools.ts\<close>) and the options a tool gives the mutation runner.

  A tool input is the record its schema parses to; a predicate \<open>..._ok\<close> holds when the schema accepts it, and a tool
  starts by throwing the schema's error otherwise.  One call draws at most one request id and reads the clock where its
  argument \<open>call\<close> says.  The in-memory store hands out the stored objects themselves, so a projection read before the
  locked section and written inside it is the stored one: the model reads and writes the store in place.
\<close>

section \<open>The service and one call\<close>

record service =
  sv_codec :: codec
  sv_host :: host
  sv_hash :: "string \<Rightarrow> string"
  sv_origin :: string

record call =
  ca_request :: request_id
  ca_now :: time
  ca_at :: "nat \<Rightarrow> time"

type_synonym 'a journal_action = "(failure, world, 'a) action"

definition zod_error :: failure where
  "zod_error = OtherError ''ZodError''"

definition parsed :: "bool \<Rightarrow> failure + unit" where
  "parsed b = guard b zod_error"

definition demand :: "(world \<Rightarrow> failure + 'a) \<Rightarrow> 'a journal_action" where
  "demand f = lift_result f"

definition check :: "failure + 'a \<Rightarrow> 'a journal_action" where
  "check r = lift_result (\<lambda>_. r)"

definition store_update :: "(op_store \<Rightarrow> op_store) \<Rightarrow> unit journal_action" where
  "store_update f = writes (\<lambda>w. w\<lparr>w_store := f (w_store w)\<rparr>)"

definition store_try :: "(op_store \<Rightarrow> failure + op_store) \<Rightarrow> unit journal_action" where
  "store_try f = update_or_throw (\<lambda>w. and_then (f (w_store w)) (\<lambda>s. Inr (w\<lparr>w_store := s\<rparr>)))"

definition projection_of :: "household_id \<Rightarrow> world \<Rightarrow> failure + projection" where
  "projection_of h w = get_projection h (w_store w)"

definition change_projection :: "household_id \<Rightarrow> (projection \<Rightarrow> projection) \<Rightarrow> unit journal_action" where
  "change_projection h f = store_try (\<lambda>s. and_then (get_projection h s) (\<lambda>_. Inr (s\<lparr>st_projections := adjust h f (st_projections s)\<rparr>)))"

definition required_household :: "household_id \<Rightarrow> world \<Rightarrow> failure + household_record" where
  "required_household h w = (case get_household h (w_store w) of None \<Rightarrow> Inl (app_error NOT_FOUND) | Some r \<Rightarrow> Inr r)"

definition member_of :: "principal \<Rightarrow> household_id \<Rightarrow> role \<Rightarrow> world \<Rightarrow> failure + membership" where
  "member_of p h minimum w = require_membership (w_store w) p h minimum"

section \<open>Identifiers, tokens and fingerprints\<close>

definition mutation_hash :: "service \<Rightarrow> request_id \<Rightarrow> string \<Rightarrow> string" where
  "mutation_hash S req discriminator = sv_hash S (req @ '':'' @ discriminator)"

definition mutation_id :: "service \<Rightarrow> string \<Rightarrow> request_id \<Rightarrow> string \<Rightarrow> string" where
  "mutation_id S prefix req discriminator = prefix @ ''_'' @ take 32 (mutation_hash S req discriminator)"

definition parsed_mutation_id :: "service \<Rightarrow> string \<Rightarrow> request_id \<Rightarrow> string \<Rightarrow> failure + string" where
  "parsed_mutation_id S prefix req discriminator =
     (let i = mutation_id S prefix req discriminator in and_then (parsed (opaque_id_ok prefix i)) (\<lambda>_. Inr i))"

definition hex_value :: "char \<Rightarrow> nat" where
  "hex_value c = (if is_digit c then of_char c - 48 else of_char c - 87)"

definition hex_bits :: "string \<Rightarrow> bool list" where
  "hex_bits s = concat (map (\<lambda>c. let n = hex_value c in [odd (n div 8), odd (n div 4), odd (n div 2), odd n]) s)"

fun six_bits :: "bool list \<Rightarrow> nat list" where
  "six_bits (a # b # c # d # e # f # r) =
     (of_bool a * 32 + of_bool b * 16 + of_bool c * 8 + of_bool d * 4 + of_bool e * 2 + of_bool f) # six_bits r"
| "six_bits [] = []"
| "six_bits bs = [foldl (\<lambda>n b. 2 * n + of_bool b) 0 (bs @ replicate (6 - length bs) False)]"

definition base64url :: "string \<Rightarrow> string" where
  "base64url hex = map (\<lambda>n. ''ABCDEFGHIJKLMNOPQRSTUVWXYZabcdefghijklmnopqrstuvwxyz0123456789-_'' ! n) (six_bits (hex_bits hex))"

definition mutation_token :: "service \<Rightarrow> request_id \<Rightarrow> string \<Rightarrow> string" where
  "mutation_token S req discriminator = base64url (mutation_hash S req discriminator)"

definition mutation_fingerprint :: "service \<Rightarrow> tool_name \<Rightarrow> json_object \<Rightarrow> string" where
  "mutation_fingerprint S tool input = sv_hash S (stable_json (sv_codec S) (JObj [(''tool'', JStr tool), (''input'', JObj input)]))"

definition site_url :: "service \<Rightarrow> string \<Rightarrow> string" where
  "site_url S path = sv_origin S @ path"

section \<open>Tool inputs\<close>

record household_input =
  hi_household :: household_id
  hi_key :: string

record revisioned_input = household_input +
  ri_head :: git_object_id

definition household_input_ok :: "'a household_input_scheme \<Rightarrow> bool" where
  "household_input_ok i \<longleftrightarrow> opaque_id_ok ''hsh'' (hi_household i) \<and> idempotency_key_ok (hi_key i)"

definition revisioned_input_ok :: "'a revisioned_input_scheme \<Rightarrow> bool" where
  "revisioned_input_ok i \<longleftrightarrow> household_input_ok i \<and> git_object_id_ok (ri_head i)"

definition household_input_fields :: "'a household_input_scheme \<Rightarrow> json_object" where
  "household_input_fields i = [(''household_id'', JStr (hi_household i)), (''idempotency_key'', JStr (hi_key i))]"

definition revisioned_input_fields :: "'a revisioned_input_scheme \<Rightarrow> json_object" where
  "revisioned_input_fields i = household_input_fields i @ [(''expected_head'', JStr (ri_head i))]"

definition bounded_name_ok :: "string \<Rightarrow> bool" where
  "bounded_name_ok n \<longleftrightarrow> \<not> has_control n \<and> trimmed_len 1 120 n"

section \<open>Calls of the mutation runner\<close>

definition household_mutation ::
  "service \<Rightarrow> principal \<Rightarrow> tool_name \<Rightarrow> household_id \<Rightarrow> string \<Rightarrow> json_object \<Rightarrow> role \<Rightarrow> oauth_scope \<Rightarrow> string \<Rightarrow> mutation_options" where
  "household_mutation S p tool h key input minimum scope summary =
     \<lparr>mo_principal = p, mo_tool = tool, mo_household = h, mo_key = key, mo_fingerprint = mutation_fingerprint S tool input,
      mo_min_role = Some minimum, mo_scope = scope, mo_summary = summary, mo_recovery = [], mo_enforce = False, mo_append = False,
      mo_expected = None, mo_build = (\<lambda>_ _. return []), mo_apply = (\<lambda>_ _ _. return [])\<rparr>"

definition run_mutation :: "service \<Rightarrow> call \<Rightarrow> mutation_options \<Rightarrow> mutation_result journal_action" where
  "run_mutation S c mo = run (sv_codec S) mo (ca_at c) (ca_request c) (ca_now c)"

abbreviation completed_field :: "string \<times> json" where
  "completed_field \<equiv> (''status'', JStr ''completed'')"

text \<open>What a reading tool answers: its data and the head it belongs to.\<close>

type_synonym read_result = "json_object \<times> git_object_id option"

section \<open>The callbacks of a tool\<close>

text \<open>Building the changes of a tool only reads; projecting them writes the operational store outside the mutation records.\<close>

definition reads_only :: "'a journal_action \<Rightarrow> bool" where
  "reads_only m \<longleftrightarrow> (\<forall>w. snd (m w) = w)"

definition leaves_records :: "'a journal_action \<Rightarrow> bool" where
  "leaves_records m \<longleftrightarrow> (\<forall>w. same_records w (snd (m w)))"

definition answers :: "json_object journal_action \<Rightarrow> bool" where
  "answers m \<longleftrightarrow> (\<forall>w resp w'. m w = (Inr resp, w') \<longrightarrow> lookup resp fingerprint_field = None)"

named_theorems frame_intros "actions that leave the mutation records alone"

lemma reads_only_frame: "reads_only m \<Longrightarrow> leaves_records m"
  by (simp add: reads_only_def leaves_records_def same_records_def)

lemma reads_only_intros [frame_intros]:
  "reads_only (return x)" "reads_only (throw e)" "reads_only (demand f)" "reads_only (check r)" "reads_only (reads g)"
  by (simp_all add: reads_only_def demand_def check_def effect_simps)

lemma reads_only_bind [frame_intros]: "reads_only m \<Longrightarrow> (\<And>x. reads_only (f x)) \<Longrightarrow> reads_only (bind_action m f)"
  by (auto simp: reads_only_def bind_action_def split: prod.split sum.split) (metis snd_conv)+

lemma leaves_return [frame_intros]: "leaves_records (return x)" "leaves_records (throw e)" "leaves_records (demand f)" "leaves_records (check r)"
  by (simp_all add: leaves_records_def same_records_def demand_def check_def effect_simps)

lemma same_records_trans: "same_records w w' \<Longrightarrow> same_records w' w'' \<Longrightarrow> same_records w w''"
  by (simp add: same_records_def)

lemma leaves_bind [frame_intros]: "leaves_records m \<Longrightarrow> (\<And>x. leaves_records (f x)) \<Longrightarrow> leaves_records (bind_action m f)"
  unfolding leaves_records_def bind_action_def
  by (auto split: prod.split sum.split intro: same_records_trans) (metis same_records_trans snd_conv)+

lemma leaves_if [frame_intros]: "leaves_records m \<Longrightarrow> leaves_records m' \<Longrightarrow> leaves_records (if b then m else m')"
  by simp

lemma case_prod_intros [frame_intros]:
  "(\<And>a b. leaves_records (f a b)) \<Longrightarrow> leaves_records (case x of (a, b) \<Rightarrow> f a b)"
  "(\<And>a b. reads_only (g a b)) \<Longrightarrow> reads_only (case x of (a, b) \<Rightarrow> g a b)"
  by (cases x; simp)+

lemma leaves_store_update: "(\<And>s. st_mutations (f s) = st_mutations s) \<Longrightarrow> leaves_records (store_update f)"
  by (simp add: leaves_records_def same_records_def store_update_def effect_simps mutations_of_def)

lemma leaves_store_try: "(\<And>s s'. f s = Inr s' \<Longrightarrow> st_mutations s' = st_mutations s) \<Longrightarrow> leaves_records (store_try f)"
  by (auto simp: leaves_records_def same_records_def store_try_def update_or_throw_def mutations_of_def and_then_def split: sum.split)

lemma leaves_change_projection [frame_intros]: "leaves_records (change_projection h f)"
  unfolding change_projection_def by (rule leaves_store_try) (auto simp: and_then_Inr_iff)

lemma answers_bind: "(\<And>x. answers (f x)) \<Longrightarrow> answers (bind_action m f)"
  unfolding answers_def by (meson bind_action_InrE)

lemma answers_return: "lookup resp fingerprint_field = None \<Longrightarrow> answers (return resp)"
  by (auto simp: answers_def effect_simps)

lemma framed_mutation:
  assumes "\<And>req now. leaves_records (mo_build mo req now)" "\<And>c req now. leaves_records (mo_apply mo c req now)"
    and "\<And>c req now. answers (mo_apply mo c req now)"
  shows "callbacks_framed mo"
  using assms unfolding callbacks_framed_def leaves_records_def answers_def by (metis prod.collapse)

end
