(* ===== verification/JournalMembers.thy ===== *)
theory JournalMembers
  imports JournalBase
begin

text \<open>
  The tools of \<^verbatim>\<open>household-food-journal.ts\<close> that manage households, their members and their profiles:
  create, select and rename a household, invitations, roles, and the Markdown profiles.
\<close>

section \<open>Households\<close>

record named_input =
  ni_name :: string
  ni_key :: string

record rename_input = revisioned_input +
  rn_name :: string

definition create_household_tool :: tool_name where
  "create_household_tool = ''hfj_create_household''"

definition operational_record ::
  "principal \<Rightarrow> tool_name \<Rightarrow> string \<Rightarrow> household_id option \<Rightarrow> json_object \<Rightarrow> request_id \<Rightarrow> time \<Rightarrow> mutation_record" where
  "operational_record p tool key h response req now =
     \<lparr>mu_request = req, mu_user = p_user p, mu_tool = tool, mu_key = key, mu_household = h, mu_state = Received, mu_commit = None,
      mu_response = Some response, mu_failure = None, mu_created = now, mu_updated = now\<rparr>"

definition provisioning_name :: "mutation_record option \<Rightarrow> string \<Rightarrow> string" where
  "provisioning_name existing name =
     (case existing of None \<Rightarrow> name
      | Some r \<Rightarrow> (case mu_response r of None \<Rightarrow> name
          | Some f \<Rightarrow> (case lookup f ''provisioning_name'' of Some (JStr n) \<Rightarrow> n | _ \<Rightarrow> name)))"

definition provision_repository :: "service \<Rightarrow> principal \<Rightarrow> household_id \<Rightarrow> string \<Rightarrow> git_object_id journal_action" where
  "provision_repository S p h name w =
     (case provision (sv_codec S) h name (p_actor p) (w_repos w) of (g, rs) \<Rightarrow> (Inr g, w\<lparr>w_repos := rs\<rparr>))"

definition household_answer :: "household_id \<Rightarrow> json_object" where
  "household_answer h = [completed_field, (''household_id'', JStr h), (''role'', JStr ''owner''), (''onboarding_state'', JStr ''ready'')]"

definition settle_household ::
  "principal \<Rightarrow> household_id \<Rightarrow> string \<Rightarrow> git_object_id \<Rightarrow> request_id \<Rightarrow> time \<Rightarrow> (nat \<Rightarrow> time) \<Rightarrow> mutation_outcome journal_action" where
  "settle_household p h name head req occurred at =
     bind_action (transition req GitCommitted (no_update\<lparr>up_commit := Some head\<rparr>) (at 0)) (\<lambda>_.
     bind_action (store_try (\<lambda>s. if get_household h s \<noteq> None then Inr s
       else create_household \<lparr>h_id = h, h_name = name, h_head = head, h_provisioning = Ready, h_created = occurred\<rparr>
         \<lparr>m_household = h, m_user = p_user p, m_actor = p_actor p, m_role = Owner, m_head = head, m_removed = None\<rparr> s)) (\<lambda>_.
     bind_action (store_update (set_default_household (p_user p) h)) (\<lambda>_.
     bind_action (transition req Completed (no_update\<lparr>up_commit := Some head, up_response := Some (household_answer h)\<rparr>) (at 1)) (\<lambda>_.
     return (OutCompleted \<lparr>res_data = household_answer h, res_head = head, res_request = req\<rparr>)))))"

text \<open>Provisioning in memory cannot fail, so a failure of the section always has a head.\<close>

definition provision_household ::
  "service \<Rightarrow> principal \<Rightarrow> mutation_record option \<Rightarrow> household_id \<Rightarrow> string \<Rightarrow> request_id \<Rightarrow> time \<Rightarrow> (nat \<Rightarrow> time)
     \<Rightarrow> mutation_outcome journal_action" where
  "provision_household S p existing h name req occurred at =
     bind_action (case Option.bind existing mu_commit of Some g \<Rightarrow> return g | None \<Rightarrow> provision_repository S p h name) (\<lambda>head.
     try_catch (settle_household p h name head req occurred at) (\<lambda>e.
       bind_action (transition req ReconciliationRequired (no_update\<lparr>up_commit := Some head, up_failure := Some (error_name e)\<rparr>) (at 2)) (\<lambda>_.
       return (OutFailed e))))"

definition create_household_call :: "service \<Rightarrow> principal \<Rightarrow> call \<Rightarrow> named_input \<Rightarrow> mutation_result journal_action" where
  "create_household_call S p c i =
     bind_action (check (parsed (bounded_name_ok (ni_name i) \<and> idempotency_key_ok (ni_key i)))) (\<lambda>_.
     bind_action (check (require_scope p HouseholdManage)) (\<lambda>_.
     bind_action (reads (\<lambda>w. get_mutation (p_user p) create_household_tool (ni_key i) (w_store w))) (\<lambda>existing.
     let req = (case existing of Some r \<Rightarrow> mu_request r | None \<Rightarrow> ca_request c);
         occurred = (case existing of Some r \<Rightarrow> mu_created r | None \<Rightarrow> ca_now c);
         name = provisioning_name existing (ni_name i);
         proceed = bind_action (check (parsed_mutation_id S ''hsh'' req ''household'')) (\<lambda>h.
           bind_action (store_update (\<lambda>s. if existing = None
             then save_mutation (operational_record p create_household_tool (ni_key i) None [(''provisioning_name'', JStr name)] req occurred) s
             else s)) (\<lambda>_.
           bind_action (provision_household S p existing h name req occurred (ca_at c)) settle))
     in case existing of
          None \<Rightarrow> proceed
        | Some r \<Rightarrow>
            (case (mu_state r, mu_response r, mu_commit r) of
               (Completed, Some response, Some g) \<Rightarrow> return \<lparr>res_data = response, res_head = g, res_request = mu_request r\<rparr>
             | (Quarantined, _, _) \<Rightarrow> throw (app_error RECONCILIATION_REQUIRED)
             | _ \<Rightarrow> proceed))))"

definition select_household :: "principal \<Rightarrow> household_id \<Rightarrow> read_result journal_action" where
  "select_household p h =
     bind_action (check (parsed (opaque_id_ok ''hsh'' h))) (\<lambda>_.
     bind_action (demand (member_of p h Viewer)) (\<lambda>_.
     bind_action (store_update (set_default_household (p_user p) h)) (\<lambda>_.
     bind_action (demand (required_household h)) (\<lambda>hh.
     return ([completed_field, (''household_id'', JStr h)], Some (h_head hh))))))"

definition rename_options :: "service \<Rightarrow> principal \<Rightarrow> rename_input \<Rightarrow> mutation_options" where
  "rename_options S p i =
     (household_mutation S p ''hfj_update_household_name'' (hi_household i) (hi_key i)
        (revisioned_input_fields i @ [(''name'', JStr (rn_name i))]) Owner HouseholdManage ''household: update display name'')
     \<lparr>mo_expected := Some (ri_head i), mo_enforce := True,
      mo_build := (\<lambda>_ _. return [replaced ''household.md''
        (markdown_document (sv_codec S) [(''name'', JStr (rn_name i)), (''schema_version'', JNum 1)] '''')]),
      mo_apply := (\<lambda>_ _ _. bind_action (store_try (update_household_name (hi_household i) (rn_name i))) (\<lambda>_.
        return [completed_field, (''household_id'', JStr (hi_household i)), (''name'', JStr (rn_name i))]))\<rparr>"

definition update_household_name_call :: "service \<Rightarrow> principal \<Rightarrow> call \<Rightarrow> rename_input \<Rightarrow> mutation_result journal_action" where
  "update_household_name_call S p c i =
     bind_action (check (parsed (revisioned_input_ok i \<and> bounded_name_ok (rn_name i)))) (\<lambda>_. run_mutation S c (rename_options S p i))"

section \<open>Invitations\<close>

record invite_input = revisioned_input +
  iv_role :: role
  iv_email :: "string option"
  iv_days :: nat

definition invite_input_ok :: "(string \<Rightarrow> bool) \<Rightarrow> invite_input \<Rightarrow> bool" where
  "invite_input_ok email i \<longleftrightarrow> revisioned_input_ok i \<and> iv_role i \<in> {Editor, Viewer} \<and> opt_all email (iv_email i) \<and>
     1 \<le> iv_days i \<and> iv_days i \<le> 30"

definition invite_id :: "service \<Rightarrow> request_id \<Rightarrow> failure + string" where
  "invite_id S req = parsed_mutation_id S ''inv'' req ''invitation''"

definition invite_expires :: "invite_input \<Rightarrow> time \<Rightarrow> time" where
  "invite_expires i occurred = occurred + int (iv_days i) * 86400000"

definition invitation_document :: "service \<Rightarrow> string \<Rightarrow> role \<Rightarrow> time \<Rightarrow> string \<Rightarrow> repository_change" where
  "invitation_document S iid r expires status = replaced (''members/invitations/'' @ iid @ ''.md'')
     (markdown_document (sv_codec S) [(''id'', JStr iid), (''role'', JStr (role_text r)), (''expires_at'', JStr (iso_text expires)),
        (''status'', JStr status), (''schema_version'', JNum 1)] '''')"

definition invite_fields :: "invite_input \<Rightarrow> json_object" where
  "invite_fields i = revisioned_input_fields i @ [(''role'', JStr (role_text (iv_role i)))] @
     optional ''intended_email_hint'' JStr (iv_email i) @ [(''expires_in_days'', nat_json (iv_days i))]"

definition invite_options :: "service \<Rightarrow> principal \<Rightarrow> invite_input \<Rightarrow> mutation_options" where
  "invite_options S p i =
     (household_mutation S p ''hfj_create_family_invite'' (hi_household i) (hi_key i) (invite_fields i) Owner HouseholdManage
        ''members: create family invitation'')
     \<lparr>mo_expected := Some (ri_head i),
      mo_build := (\<lambda>req occurred. bind_action (check (invite_id S req)) (\<lambda>iid.
        return [invitation_document S iid (iv_role i) (invite_expires i occurred) ''pending''])),
      mo_apply := (\<lambda>_ req occurred. bind_action (check (invite_id S req)) (\<lambda>iid.
        let token = mutation_token S req ''invitation''; expires = invite_expires i occurred in
        bind_action (store_update (save_invitation
          \<lparr>inv_id = iid, inv_household = hi_household i, inv_token_hash = sv_hash S token, inv_role = iv_role i, inv_expires = expires,
           inv_email_hint = iv_email i, inv_accepted = None, inv_revoked = None\<rparr>)) (\<lambda>_.
        return [completed_field, (''invitation_id'', JStr iid), (''role'', JStr (role_text (iv_role i))),
          (''expires_at'', JStr (iso_text expires)), (''url'', JStr (site_url S (''/invite/family/'' @ token)))])))\<rparr>"

definition create_invite :: "service \<Rightarrow> (string \<Rightarrow> bool) \<Rightarrow> principal \<Rightarrow> call \<Rightarrow> invite_input \<Rightarrow> mutation_result journal_action" where
  "create_invite S email p c i =
     bind_action (check (parsed (invite_input_ok email i))) (\<lambda>_. run_mutation S c (invite_options S p i))"

record accept_input =
  ac_token :: string
  ac_key :: string

definition member_document :: "service \<Rightarrow> actor_id \<Rightarrow> role \<Rightarrow> repository_change" where
  "member_document S a r = replaced (''members/'' @ a @ ''.md'')
     (markdown_document (sv_codec S) [(''actor_id'', JStr a), (''role'', JStr (role_text r)), (''schema_version'', JNum 1)] '''')"

definition accept_options :: "service \<Rightarrow> principal \<Rightarrow> accept_input \<Rightarrow> invitation \<Rightarrow> mutation_options" where
  "accept_options S p i invn =
     (household_mutation S p ''hfj_accept_family_invite'' (inv_household invn) (ac_key i)
        [(''token'', JStr (ac_token i)), (''accept'', JBool True), (''idempotency_key'', JStr (ac_key i))] Viewer HouseholdManage
        ''members: accept family invitation'')
     \<lparr>mo_min_role := None,
      mo_build := (\<lambda>_ _. return [member_document S (p_actor p) (inv_role invn)]),
      mo_apply := (\<lambda>head _ occurred.
        bind_action (store_update (save_invitation (invn\<lparr>inv_accepted := Some occurred\<rparr>))) (\<lambda>_.
        bind_action (store_update (upsert_membership \<lparr>m_household = inv_household invn, m_user = p_user p, m_actor = p_actor p,
          m_role = inv_role invn, m_head = head, m_removed = None\<rparr>)) (\<lambda>_.
        return [completed_field, (''household_id'', JStr (inv_household invn)), (''role'', JStr (role_text (inv_role invn)))])))\<rparr>"

definition accept_invite :: "service \<Rightarrow> principal \<Rightarrow> call \<Rightarrow> accept_input \<Rightarrow> mutation_result journal_action" where
  "accept_invite S p c i =
     bind_action (check (parsed (str_len 43 256 (ac_token i) \<and> idempotency_key_ok (ac_key i)))) (\<lambda>_.
     bind_action (reads (\<lambda>w. (find_invitation_by_token_hash (sv_hash S (ac_token i)) (w_store w),
        get_mutation (p_user p) ''hfj_accept_family_invite'' (ac_key i) (w_store w)))) (\<lambda>(found, existing).
       case found of
         None \<Rightarrow> throw (app_error NOT_FOUND)
       | Some invn \<Rightarrow>
           bind_action (check (guard (inv_revoked invn = None) (app_error INVITE_REVOKED))) (\<lambda>_.
           bind_action (check (guard (existing \<noteq> None \<or> (inv_accepted invn = None \<and> ca_now c < inv_expires invn)) (app_error INVITE_EXPIRED))) (\<lambda>_.
           run_mutation S c (accept_options S p i invn)))))"

record revoke_invite_input = revisioned_input +
  rv_invitation :: string

definition revoke_invite_options :: "service \<Rightarrow> principal \<Rightarrow> revoke_invite_input \<Rightarrow> invitation \<Rightarrow> mutation_options" where
  "revoke_invite_options S p i invn =
     (household_mutation S p ''hfj_revoke_family_invite'' (hi_household i) (hi_key i)
        (revisioned_input_fields i @ [(''invitation_id'', JStr (rv_invitation i)), (''confirm'', JBool True)]) Owner HouseholdManage
        ''members: revoke family invitation'')
     \<lparr>mo_expected := Some (ri_head i),
      mo_build := (\<lambda>_ _. return [invitation_document S (inv_id invn) (inv_role invn) (inv_expires invn) ''revoked'']),
      mo_apply := (\<lambda>_ _ occurred. bind_action (store_update (save_invitation (invn\<lparr>inv_revoked := Some occurred\<rparr>))) (\<lambda>_.
        return [completed_field, (''invitation_id'', JStr (inv_id invn)), (''revoked_at'', JStr (iso_text occurred))]))\<rparr>"

definition revoke_invite :: "service \<Rightarrow> principal \<Rightarrow> call \<Rightarrow> revoke_invite_input \<Rightarrow> mutation_result journal_action" where
  "revoke_invite S p c i =
     bind_action (check (parsed (revisioned_input_ok i \<and> opaque_id_ok ''inv'' (rv_invitation i)))) (\<lambda>_.
     bind_action (reads (\<lambda>w. get_invitation (rv_invitation i) (w_store w))) (\<lambda>found.
       case found of
         None \<Rightarrow> throw (app_error NOT_FOUND)
       | Some invn \<Rightarrow>
           if inv_household invn \<noteq> hi_household i then throw (app_error NOT_FOUND)
           else run_mutation S c (revoke_invite_options S p i invn)))"

section \<open>Members\<close>

definition list_members :: "principal \<Rightarrow> household_id \<Rightarrow> world \<Rightarrow> failure + read_result" where
  "list_members p h w =
     and_then (parsed (opaque_id_ok ''hsh'' h)) (\<lambda>_.
     and_then (member_of p h Viewer w) (\<lambda>_.
     and_then (required_household h w) (\<lambda>hh.
     Inr ([(''members'', JArr (map (\<lambda>m. JObj [(''actor_id'', JStr (m_actor m)), (''role'', JStr (role_text (m_role m)))])
            (list_household_memberships h (w_store w))))], Some (h_head hh)))))"

definition member_by_actor :: "household_id \<Rightarrow> actor_id \<Rightarrow> world \<Rightarrow> membership option" where
  "member_by_actor h a w = List.find (\<lambda>m. m_actor m = a) (list_household_memberships h (w_store w))"

definition assert_final_owner :: "household_id \<Rightarrow> membership \<Rightarrow> bool \<Rightarrow> world \<Rightarrow> failure + unit" where
  "assert_final_owner h m remains_owner w =
     (if m_role m \<noteq> Owner \<or> remains_owner then Inr ()
      else guard (1 < length (filter (\<lambda>m. m_role m = Owner) (list_household_memberships h (w_store w)))) invalid)"

record member_input = revisioned_input +
  mb_actor :: actor_id

record role_input = member_input +
  mb_role :: role

definition member_fields :: "'a member_input_scheme \<Rightarrow> json_object" where
  "member_fields i = revisioned_input_fields i @ [(''member_actor_id'', JStr (mb_actor i))]"

definition role_options :: "service \<Rightarrow> principal \<Rightarrow> role_input \<Rightarrow> membership \<Rightarrow> mutation_options" where
  "role_options S p i m =
     (household_mutation S p ''hfj_update_member'' (hi_household i) (hi_key i) (member_fields i @ [(''role'', JStr (role_text (mb_role i)))])
        Owner HouseholdManage ''members: update household role'')
     \<lparr>mo_expected := Some (ri_head i),
      mo_build := (\<lambda>_ _. return [member_document S (m_actor m) (mb_role i)]),
      mo_apply := (\<lambda>head _ _. bind_action (store_update (upsert_membership (m\<lparr>m_role := mb_role i, m_head := head\<rparr>))) (\<lambda>_.
        return [completed_field, (''actor_id'', JStr (m_actor m)), (''role'', JStr (role_text (mb_role i)))]))\<rparr>"

definition update_member :: "service \<Rightarrow> principal \<Rightarrow> call \<Rightarrow> role_input \<Rightarrow> mutation_result journal_action" where
  "update_member S p c i =
     bind_action (check (parsed (revisioned_input_ok i \<and> str_len 8 128 (mb_actor i)))) (\<lambda>_.
     bind_action (reads (member_by_actor (hi_household i) (mb_actor i))) (\<lambda>found.
       case found of
         None \<Rightarrow> throw (app_error NOT_FOUND)
       | Some m \<Rightarrow>
           bind_action (demand (assert_final_owner (hi_household i) m (mb_role i = Owner))) (\<lambda>_.
           run_mutation S c (role_options S p i m))))"

definition removal_options :: "service \<Rightarrow> principal \<Rightarrow> member_input \<Rightarrow> membership \<Rightarrow> mutation_options" where
  "removal_options S p i m =
     (household_mutation S p ''hfj_remove_member'' (hi_household i) (hi_key i) (member_fields i @ [(''confirm'', JBool True)])
        Owner HouseholdManage ''members: remove household member'')
     \<lparr>mo_expected := Some (ri_head i),
      mo_build := (\<lambda>_ occurred. return [replaced (''members/'' @ m_actor m @ ''.md'') (markdown_document (sv_codec S)
        [(''actor_id'', JStr (m_actor m)), (''former_member'', JBool True), (''removed_at'', JStr (iso_text occurred)), (''schema_version'', JNum 1)] '''')]),
      mo_apply := (\<lambda>_ _ occurred. bind_action (store_update (upsert_membership (m\<lparr>m_removed := Some occurred\<rparr>))) (\<lambda>_.
        return [completed_field, (''actor_id'', JStr (m_actor m)), (''removed_at'', JStr (iso_text occurred))]))\<rparr>"

definition remove_member :: "service \<Rightarrow> principal \<Rightarrow> call \<Rightarrow> member_input \<Rightarrow> mutation_result journal_action" where
  "remove_member S p c i =
     bind_action (check (parsed (revisioned_input_ok i \<and> str_len 8 128 (mb_actor i)))) (\<lambda>_.
     bind_action (reads (member_by_actor (hi_household i) (mb_actor i))) (\<lambda>found.
       case found of
         None \<Rightarrow> throw (app_error NOT_FOUND)
       | Some m \<Rightarrow>
           bind_action (demand (assert_final_owner (hi_household i) m False)) (\<lambda>_.
           run_mutation S c (removal_options S p i m))))"

section \<open>Profiles\<close>

datatype profile_name = HouseholdProfile | SnacksProfile | RecipesProfile | DeliveryProfile

definition profile_text :: "profile_name \<Rightarrow> string" where
  "profile_text n = (case n of HouseholdProfile \<Rightarrow> ''household'' | SnacksProfile \<Rightarrow> ''snacks'' | RecipesProfile \<Rightarrow> ''recipes''
     | DeliveryProfile \<Rightarrow> ''delivery'')"

definition get_profile :: "principal \<Rightarrow> household_id \<Rightarrow> profile_name \<Rightarrow> world \<Rightarrow> failure + read_result" where
  "get_profile p h n w =
     and_then (parsed (opaque_id_ok ''hsh'' h)) (\<lambda>_.
     and_then (require_scope p JournalRead) (\<lambda>_.
     and_then (member_of p h Viewer w) (\<lambda>_.
     and_then (required_household h w) (\<lambda>hh.
     and_then (projection_of h w) (\<lambda>pr.
     Inr ((''profile'', JStr (profile_text n)) # profile_snapshot (lookup (pr_profiles pr) (profile_text n)), Some (h_head hh)))))))"

record profile_input = revisioned_input +
  pf_profile :: profile_name
  pf_markdown :: string

definition profile_options :: "service \<Rightarrow> principal \<Rightarrow> profile_input \<Rightarrow> mutation_options" where
  "profile_options S p i =
     (household_mutation S p ''hfj_update_profile'' (hi_household i) (hi_key i)
        (revisioned_input_fields i @ [(''profile'', JStr (profile_text (pf_profile i))), (''markdown'', JStr (pf_markdown i))])
        Editor JournalWrite (''profiles: update '' @ profile_text (pf_profile i)))
     \<lparr>mo_expected := Some (ri_head i),
      mo_build := (\<lambda>_ _. return [profile_change (profile_text (pf_profile i)) (pf_markdown i)]),
      mo_apply := (\<lambda>head _ _. bind_action (change_projection (hi_household i) (\<lambda>pr.
          pr\<lparr>pr_profiles := put (profile_text (pf_profile i)) (pf_markdown i, head) (pr_profiles pr)\<rparr>)) (\<lambda>_.
        return [completed_field, (''profile'', JStr (profile_text (pf_profile i))), (''revision'', JStr head)]))\<rparr>"

definition update_profile :: "service \<Rightarrow> principal \<Rightarrow> call \<Rightarrow> profile_input \<Rightarrow> mutation_result journal_action" where
  "update_profile S p c i =
     bind_action (check (parsed (revisioned_input_ok i \<and> pf_profile i \<noteq> DeliveryProfile \<and> str_len 0 100000 (pf_markdown i)))) (\<lambda>_.
     run_mutation S c (profile_options S p i))"

section \<open>The runner's contract\<close>

lemma upsert_membership_mutations [simp]: "st_mutations (upsert_membership m s) = st_mutations s"
  by (simp add: upsert_membership_def)

lemma save_invitation_mutations [simp]: "st_mutations (save_invitation v s) = st_mutations s"
  by (simp add: save_invitation_def)

lemmas answer_intros = answers_bind answers_return

lemma members_framed:
  "callbacks_framed (rename_options S p ri)" "callbacks_framed (invite_options S p ii)" "callbacks_framed (accept_options S p ai invn)"
  "callbacks_framed (revoke_invite_options S p vi invn)" "callbacks_framed (role_options S p oi m)"
  "callbacks_framed (removal_options S p mi m)" "callbacks_framed (profile_options S p fi)"
proof -
  show "callbacks_framed (rename_options S p ri)"
    by (rule framed_mutation; simp add: rename_options_def household_mutation_def)
      (intro frame_intros leaves_store_try | auto simp: update_household_name_def dest: update_household_mutations intro!: answer_intros simp: fingerprint_field_def)+
  show "callbacks_framed (invite_options S p ii)"
    by (rule framed_mutation; simp add: invite_options_def household_mutation_def Let_def)
      (intro frame_intros leaves_store_update | auto intro!: answer_intros simp: fingerprint_field_def)+
  show "callbacks_framed (accept_options S p ai invn)"
    by (rule framed_mutation; simp add: accept_options_def household_mutation_def)
      (intro frame_intros leaves_store_update | auto intro!: answer_intros simp: fingerprint_field_def)+
  show "callbacks_framed (revoke_invite_options S p vi invn)"
    by (rule framed_mutation; simp add: revoke_invite_options_def household_mutation_def)
      (intro frame_intros leaves_store_update | auto intro!: answer_intros simp: fingerprint_field_def)+
  show "callbacks_framed (role_options S p oi m)"
    by (rule framed_mutation; simp add: role_options_def household_mutation_def)
      (intro frame_intros leaves_store_update | auto intro!: answer_intros simp: fingerprint_field_def)+
  show "callbacks_framed (removal_options S p mi m)"
    by (rule framed_mutation; simp add: removal_options_def household_mutation_def)
      (intro frame_intros leaves_store_update | auto intro!: answer_intros simp: fingerprint_field_def)+
  show "callbacks_framed (profile_options S p fi)"
    by (rule framed_mutation; simp add: profile_options_def household_mutation_def)
      (intro frame_intros | auto intro!: answer_intros simp: fingerprint_field_def)+
qed

end
