(* ===== verification/JournalEntries.thy ===== *)
theory JournalEntries
  imports JournalMembers
begin

text \<open>
  The tools of \<^verbatim>\<open>household-food-journal.ts\<close> that write and read the journal itself: appended evidence,
  agent-authored change sets of evidence, items and reports, and the item queries.
\<close>

section \<open>Evidence\<close>

definition non_delivery_evidence_ok :: "host \<Rightarrow> evidence \<Rightarrow> bool" where
  "non_delivery_evidence_ok H e \<longleftrightarrow> evidence_ok H e \<and> delivery_line_of e = None"

definition non_delivery_item_ok :: "host \<Rightarrow> journal_item \<Rightarrow> bool" where
  "non_delivery_item_ok H i \<longleftrightarrow> journal_item_ok H i \<and> \<not> is_history_dish i \<and> \<not> is_imported_dish i"

definition non_delivery_report_ok :: "host \<Rightarrow> report \<Rightarrow> bool" where
  "non_delivery_report_ok H r \<longleftrightarrow> report_ok H r \<and> rep_type r \<noteq> DeliveryIndex"

fun validated_prospective_evidence :: "evidence_map \<Rightarrow> evidence list \<Rightarrow> actor_id \<Rightarrow> failure + evidence_map" where
  "validated_prospective_evidence evs [] actor = Inr evs"
| "validated_prospective_evidence evs (e # es) actor =
     (if lookup evs (ev_id e) \<noteq> None then Inl (app_error REVISION_CONFLICT)
      else if ev_actor e \<noteq> actor then Inl invalid
      else if \<not> opt_all (\<lambda>s. lookup evs s \<noteq> None) (ev_supersedes e) then Inl invalid
      else validated_prospective_evidence (put (ev_id e) e evs) es actor)"

definition put_evidence :: "evidence list \<Rightarrow> evidence_map \<Rightarrow> evidence_map" where
  "put_evidence es evs = fold (\<lambda>e. put (ev_id e) e) es evs"

definition put_items ::
  "git_object_id \<Rightarrow> journal_item list \<Rightarrow> (item_id, journal_item \<times> git_object_id) js_map \<Rightarrow> (item_id, journal_item \<times> git_object_id) js_map" where
  "put_items head is m = fold (\<lambda>i. put (item_id_of i) (i, head)) is m"

definition project_entries :: "git_object_id \<Rightarrow> evidence list \<Rightarrow> journal_item list \<Rightarrow> projection \<Rightarrow> projection" where
  "project_entries head es is pr = pr\<lparr>pr_evidence := put_evidence es (pr_evidence pr), pr_items := put_items head is (pr_items pr)\<rparr>"

record append_input = revisioned_input +
  ap_evidence :: "evidence list"

definition append_options :: "service \<Rightarrow> principal \<Rightarrow> append_input \<Rightarrow> mutation_options" where
  "append_options S p i =
     (household_mutation S p ''hfj_append_evidence'' (hi_household i) (hi_key i)
        (revisioned_input_fields i @ [(''evidence'', JArr (map evidence_json (ap_evidence i)))]) Editor JournalWrite
        ''evidence: append journal observations'')
     \<lparr>mo_expected := Some (ri_head i), mo_enforce := True,
      mo_build := (\<lambda>_ _. bind_action (demand (projection_of (hi_household i))) (\<lambda>pr.
        bind_action (check (validated_prospective_evidence (pr_evidence pr) (ap_evidence i) (p_actor p))) (\<lambda>_.
        return (map (evidence_change (sv_codec S)) (ap_evidence i))))),
      mo_apply := (\<lambda>head _ _. bind_action (change_projection (hi_household i) (project_entries head (ap_evidence i) [])) (\<lambda>_.
        return [completed_field, (''evidence_ids'', strings (map ev_id (ap_evidence i))), (''count'', nat_json (length (ap_evidence i)))]))\<rparr>"

definition append_evidence :: "service \<Rightarrow> principal \<Rightarrow> call \<Rightarrow> append_input \<Rightarrow> mutation_result journal_action" where
  "append_evidence S p c i =
     bind_action (check (parsed (revisioned_input_ok i \<and> list_len 1 100 (ap_evidence i) \<and>
        list_all (non_delivery_evidence_ok (sv_host S)) (ap_evidence i)))) (\<lambda>_.
     run_mutation S c (append_options S p i))"

section \<open>Change sets\<close>

record change_set = revisioned_input +
  cg_evidence :: "evidence list"
  cg_items :: "journal_item list"
  cg_reports :: "report list"
  cg_revisions :: "(item_id, git_object_id) js_map"

definition revisions_ok :: "(item_id, git_object_id) js_map \<Rightarrow> bool" where
  "revisions_ok m \<longleftrightarrow> list_all (\<lambda>(i, g). opaque_id_ok ''itm'' i \<and> git_object_id_ok g) m"

definition change_set_ok :: "host \<Rightarrow> change_set \<Rightarrow> bool" where
  "change_set_ok H i \<longleftrightarrow> revisioned_input_ok i \<and> list_len 0 100 (cg_evidence i) \<and> list_all (non_delivery_evidence_ok H) (cg_evidence i) \<and>
     list_len 0 100 (cg_items i) \<and> list_all (non_delivery_item_ok H) (cg_items i) \<and>
     list_len 0 20 (cg_reports i) \<and> list_all (non_delivery_report_ok H) (cg_reports i) \<and> revisions_ok (cg_revisions i) \<and>
     length (cg_items i) + length (cg_reports i) \<noteq> 0 \<and> distinct (map ev_id (cg_evidence i)) \<and> distinct (map item_id_of (cg_items i))"

definition revisions_json :: "(item_id, git_object_id) js_map \<Rightarrow> json" where
  "revisions_json m = JObj (map (\<lambda>(i, g). (i, JStr g)) m)"

definition change_set_fields :: "change_set \<Rightarrow> json_object" where
  "change_set_fields i = revisioned_input_fields i @ [(''evidence'', JArr (map evidence_json (cg_evidence i))),
     (''items'', JArr (map item_json (cg_items i))), (''reports'', JArr (map report_json (cg_reports i))),
     (''expected_item_revisions'', revisions_json (cg_revisions i))]"

definition item_submission_ok ::
  "projection \<Rightarrow> evidence_map \<Rightarrow> (item_id, git_object_id) js_map \<Rightarrow> journal_item \<Rightarrow> failure + unit" where
  "item_submission_ok pr evs expected item =
     and_then (validate_item_evidence item evs) (\<lambda>_.
     guard (lookup expected (item_id_of item) = map_option snd (lookup (pr_items pr) (item_id_of item))) (app_error REVISION_CONFLICT))"

definition entries_submission ::
  "projection \<Rightarrow> actor_id \<Rightarrow> evidence list \<Rightarrow> journal_item list \<Rightarrow> report list \<Rightarrow> (item_id, git_object_id) js_map \<Rightarrow> failure + unit" where
  "entries_submission pr actor es items reports expected =
     and_then (validated_prospective_evidence (pr_evidence pr) es actor) (\<lambda>evs.
     and_then (each_ok (item_submission_ok pr evs expected) items) (\<lambda>_.
     each_ok (\<lambda>r. validate_report r evs (map fst (pr_items pr) @ map item_id_of items)) reports))"

definition change_set_options :: "service \<Rightarrow> principal \<Rightarrow> change_set \<Rightarrow> mutation_options" where
  "change_set_options S p i =
     (household_mutation S p ''hfj_commit_change_set'' (hi_household i) (hi_key i) (change_set_fields i) Editor JournalWrite
        ''journal: commit agent-authored change set'')
     \<lparr>mo_expected := Some (ri_head i), mo_enforce := True,
      mo_build := (\<lambda>_ _. bind_action (demand (projection_of (hi_household i))) (\<lambda>pr.
        bind_action (check (guard (set (map fst (cg_revisions i)) \<subseteq> set (map item_id_of (cg_items i))) invalid)) (\<lambda>_.
        bind_action (check (entries_submission pr (p_actor p) (cg_evidence i) (cg_items i) (cg_reports i) (cg_revisions i))) (\<lambda>_.
        return (map (evidence_change (sv_codec S)) (cg_evidence i) @ map (item_change (sv_codec S)) (cg_items i) @
          map report_change (cg_reports i)))))),
      mo_apply := (\<lambda>head _ _. bind_action (change_projection (hi_household i) (project_entries head (cg_evidence i) (cg_items i))) (\<lambda>_.
        return [completed_field, (''evidence_ids'', strings (map ev_id (cg_evidence i))), (''item_ids'', strings (map item_id_of (cg_items i))),
          (''report_count'', nat_json (length (cg_reports i)))]))\<rparr>"

definition commit_change_set :: "service \<Rightarrow> principal \<Rightarrow> call \<Rightarrow> change_set \<Rightarrow> mutation_result journal_action" where
  "commit_change_set S p c i =
     bind_action (check (parsed (change_set_ok (sv_host S) i))) (\<lambda>_. run_mutation S c (change_set_options S p i))"

section \<open>Item queries\<close>

record search_input =
  se_household :: household_id
  se_query :: string
  se_kind :: "string option"
  se_limit :: nat

definition item_kinds :: "string list" where
  "item_kinds = [''snack'', ''ingredient'', ''condiment'', ''other_grocery'', ''recipe'', ''delivery_dish'']"

definition search_input_ok :: "search_input \<Rightarrow> bool" where
  "search_input_ok i \<longleftrightarrow> opaque_id_ok ''hsh'' (se_household i) \<and> trimmed_len 1 300 (se_query i) \<and>
     opt_all (\<lambda>k. k \<in> set item_kinds) (se_kind i) \<and> 1 \<le> se_limit i \<and> se_limit i \<le> 100"

definition item_matches :: "host \<Rightarrow> search_input \<Rightarrow> journal_item \<Rightarrow> bool" where
  "item_matches H i item \<longleftrightarrow> opt_all (\<lambda>k. item_kind_text item = k) (se_kind i) \<and>
     list_ex (\<lambda>field. contains (lower_case H (trim (se_query i))) (lower_case H field)) (searchable_item_fields item)"

definition search_items :: "service \<Rightarrow> principal \<Rightarrow> search_input \<Rightarrow> world \<Rightarrow> failure + read_result" where
  "search_items S p i w =
     and_then (parsed (search_input_ok i)) (\<lambda>_.
     and_then (require_scope p JournalRead) (\<lambda>_.
     and_then (member_of p (se_household i) Viewer w) (\<lambda>_.
     and_then (required_household (se_household i) w) (\<lambda>hh.
     and_then (projection_of (se_household i) w) (\<lambda>pr.
     Inr ([(''items'', JArr (map (\<lambda>(item, revision). item_summary item revision)
             (take (se_limit i) (filter (\<lambda>(item, _). item_matches (sv_host S) i item) (vals (pr_items pr)))))),
           (''next_cursor'', JNull)], Some (h_head hh)))))))"

definition get_item :: "principal \<Rightarrow> household_id \<Rightarrow> item_id \<Rightarrow> world \<Rightarrow> failure + read_result" where
  "get_item p h item w =
     and_then (parsed (opaque_id_ok ''hsh'' h \<and> opaque_id_ok ''itm'' item)) (\<lambda>_.
     and_then (require_scope p JournalRead) (\<lambda>_.
     and_then (member_of p h Viewer w) (\<lambda>_.
     and_then (required_household h w) (\<lambda>hh.
     and_then (projection_of h w) (\<lambda>pr.
     case lookup (pr_items pr) item of
       None \<Rightarrow> Inl (app_error NOT_FOUND)
     | Some (found, revision) \<Rightarrow> Inr ([(''item'', item_json found), (''revision'', JStr revision)], Some (h_head hh)))))))"

section \<open>Lemmas\<close>

lemma entries_framed: "callbacks_framed (append_options S p ai)" "callbacks_framed (change_set_options S p ci)"
proof -
  show "callbacks_framed (append_options S p ai)"
    by (rule framed_mutation; simp add: append_options_def household_mutation_def)
      (intro frame_intros reads_only_frame | auto intro!: answer_intros simp: fingerprint_field_def)+
  show "callbacks_framed (change_set_options S p ci)"
    by (rule framed_mutation; simp add: change_set_options_def household_mutation_def)
      (intro frame_intros reads_only_frame | auto intro!: answer_intros simp: fingerprint_field_def)+
qed

lemma lookup_put_evidence: "lookup evs e \<noteq> None \<Longrightarrow> lookup (put_evidence es evs) e \<noteq> None"
  unfolding put_evidence_def by (induction es arbitrary: evs) auto

lemma prospective_is_put:
  "validated_prospective_evidence evs es actor = Inr evs' \<Longrightarrow> evs' = put_evidence es evs"
  by (induction evs es actor rule: validated_prospective_evidence.induct) (auto simp: put_evidence_def split: if_splits)

text \<open>Accepted evidence is new: nothing recorded changes, and every record is the caller's.\<close>

lemma prospective_Cons:
  "validated_prospective_evidence evs (e # es) actor = Inr evs' \<longleftrightarrow>
     lookup evs (ev_id e) = None \<and> ev_actor e = actor \<and> opt_all (\<lambda>s. lookup evs s \<noteq> None) (ev_supersedes e) \<and>
     validated_prospective_evidence (put (ev_id e) e evs) es actor = Inr evs'"
  by auto

lemma prospective_extends:
  assumes "validated_prospective_evidence evs es actor = Inr evs'"
  shows "\<And>e x. lookup evs e = Some x \<Longrightarrow> lookup evs' e = Some x"
    and "\<forall>e\<in>set es. ev_actor e = actor \<and> lookup evs (ev_id e) = None" and "distinct (map ev_id es)"
proof -
  have "(\<forall>e x. lookup evs e = Some x \<longrightarrow> lookup evs' e = Some x) \<and>
      (\<forall>e\<in>set es. ev_actor e = actor \<and> lookup evs (ev_id e) = None) \<and> distinct (map ev_id es)"
    using assms
  proof (induction es arbitrary: evs)
    case (Cons e es)
    then have new: "lookup evs (ev_id e) = None" "ev_actor e = actor" unfolding prospective_Cons by blast+
    have rest: "\<forall>k x. lookup (put (ev_id e) e evs) k = Some x \<longrightarrow> lookup evs' k = Some x"
      "\<forall>e'\<in>set es. ev_actor e' = actor \<and> lookup (put (ev_id e) e evs) (ev_id e') = None" "distinct (map ev_id es)"
      using Cons.IH [of "put (ev_id e) e evs"] Cons.prems unfolding prospective_Cons by blast+
    have "lookup evs' k = Some x" if "lookup evs k = Some x" for k x
      using rest(1) that new(1) by (cases "k = ev_id e") auto
    moreover have "ev_actor e' = actor \<and> lookup evs (ev_id e') = None \<and> ev_id e' \<noteq> ev_id e" if "e' \<in> set es" for e'
      using rest(2) that by (fastforce split: if_splits)
    ultimately show ?case using new rest(3) by fastforce
  qed simp
  then show "\<And>e x. lookup evs e = Some x \<Longrightarrow> lookup evs' e = Some x"
    "\<forall>e\<in>set es. ev_actor e = actor \<and> lookup evs (ev_id e) = None" "distinct (map ev_id es)" by auto
qed

end
