(* ===== verification/JournalOnboarding.thy ===== *)
theory JournalOnboarding
  imports JournalEntries
begin

text \<open>
  The onboarding tools of \<^verbatim>\<open>household-food-journal.ts\<close>: the status of both sections, a transition of
  one section, the confirmed set-up with its skips, and the context a session starts from.  Transitions and skips without journal
  changes do not commit: they run in a locked section of their own, with the same record of the request.
\<close>

section \<open>Status\<close>

datatype section_state = SectionNotStarted | SectionInProgress nat | SectionSkipped nat skip_reason | SectionComplete nat

definition section_text :: "onboarding_section \<Rightarrow> string" where
  "section_text s = (case s of SnacksSection \<Rightarrow> ''snacks'' | RecipesSection \<Rightarrow> ''recipes'')"

definition reason_text :: "skip_reason \<Rightarrow> string" where
  "reason_text r = (case r of NotNow \<Rightarrow> ''not_now'' | NoSources \<Rightarrow> ''no_sources'' | UserDeclined \<Rightarrow> ''user_declined'')"

definition section_state_json :: "section_state \<Rightarrow> json" where
  "section_state_json s = JObj (case s of
     SectionNotStarted \<Rightarrow> [(''status'', JStr ''not_started''), (''revision'', JNum 0)]
   | SectionInProgress n \<Rightarrow> [(''status'', JStr ''in_progress''), (''revision'', nat_json n)]
   | SectionSkipped n r \<Rightarrow> [(''status'', JStr ''skipped''), (''revision'', nat_json n), (''reason'', JStr (reason_text r))]
   | SectionComplete n \<Rightarrow> [(''status'', JStr ''complete''), (''revision'', nat_json n)])"

definition section_state_ok :: "section_state \<Rightarrow> bool" where
  "section_state_ok s = (case s of SectionInProgress n \<Rightarrow> 0 < n | SectionSkipped n _ \<Rightarrow> 0 < n | _ \<Rightarrow> True)"

definition report_path :: "onboarding_section \<Rightarrow> string" where
  "report_path s = (case s of SnacksSection \<Rightarrow> ''snacks/reports/recurring-snacks.md'' | RecipesSection \<Rightarrow> ''recipes/reports/recipe-index.md'')"

definition report_exists :: "household_id \<Rightarrow> onboarding_section \<Rightarrow> world \<Rightarrow> failure + bool" where
  "report_exists h s w = and_then (read_file h (report_path s) (w_repos w)) (\<lambda>f. Inr (f \<noteq> None))"

definition state_from_record :: "onboarding_record \<Rightarrow> section_state" where
  "state_from_record r = (case ob_status r of Skipped reason \<Rightarrow> SectionSkipped (ob_revision r) reason | InProgress \<Rightarrow> SectionInProgress (ob_revision r))"

definition onboarding_section_state :: "onboarding_record option \<Rightarrow> bool \<Rightarrow> section_state" where
  "onboarding_section_state r complete =
     (if complete then SectionComplete (current_revision r) else case r of None \<Rightarrow> SectionNotStarted | Some x \<Rightarrow> state_from_record x)"

definition record_of_section :: "onboarding_section \<Rightarrow> onboarding_record list \<Rightarrow> onboarding_record option" where
  "record_of_section s rs = lookup (rev (map (\<lambda>r. (ob_section r, r)) rs)) s"

definition onboarding_status_json :: "user_id \<Rightarrow> household_id \<Rightarrow> world \<Rightarrow> failure + json" where
  "onboarding_status_json u h w =
     (let rs = list_onboarding_records u h (w_store w) in
      and_then (report_exists h SnacksSection w) (\<lambda>snacks_done.
      and_then (report_exists h RecipesSection w) (\<lambda>recipes_done.
      let snacks = onboarding_section_state (record_of_section SnacksSection rs) snacks_done;
          recipes = onboarding_section_state (record_of_section RecipesSection rs) recipes_done
      in and_then (parsed (opaque_id_ok ''hsh'' h \<and> section_state_ok snacks \<and> section_state_ok recipes)) (\<lambda>_.
         Inr (JObj [(''household_id'', JStr h), (''snacks'', section_state_json snacks), (''recipes'', section_state_json recipes)])))))"

section \<open>Operations that do not commit\<close>

definition mutation_replay :: "mutation_record option \<Rightarrow> string \<Rightarrow> failure + mutation_result option" where
  "mutation_replay existing fingerprint =
     (case existing of
        None \<Rightarrow> Inr None
      | Some r \<Rightarrow>
          if (case recorded_fingerprint r of None \<Rightarrow> False | Some f \<Rightarrow> f \<noteq> fingerprint) then Inl (app_error REVISION_CONFLICT)
          else (case (mu_state r, mu_response r, mu_commit r) of
              (Completed, Some response, Some g) \<Rightarrow>
                Inr (Some \<lparr>res_data = drop_key fingerprint_field response, res_head = g, res_request = mu_request r\<rparr>)
            | _ \<Rightarrow> Inr None))"

definition finish_operation ::
  "request_id \<Rightarrow> string \<Rightarrow> git_object_id \<Rightarrow> json_object \<Rightarrow> time \<Rightarrow> mutation_outcome journal_action" where
  "finish_operation req fingerprint head data now =
     bind_action (transition req Completed
       (no_update\<lparr>up_commit := Some head, up_response := Some (put fingerprint_field (JStr fingerprint) data)\<rparr>) now) (\<lambda>_.
     return (OutCompleted \<lparr>res_data = data, res_head = head, res_request = req\<rparr>))"

text \<open>\<open>inner\<close> is the part a throw of which fails the request, \<open>outer\<close> what follows it.\<close>

definition locked_operation ::
  "principal \<Rightarrow> tool_name \<Rightarrow> string \<Rightarrow> string \<Rightarrow> (nat \<Rightarrow> time) \<Rightarrow> (request_id \<Rightarrow> 'a journal_action) \<Rightarrow>
     (request_id \<Rightarrow> 'a \<Rightarrow> mutation_outcome journal_action) \<Rightarrow> mutation_outcome journal_action" where
  "locked_operation p tool key fingerprint at inner outer =
     bind_action (reads (\<lambda>w. get_mutation (p_user p) tool key (w_store w))) (\<lambda>current.
     bind_action (check (mutation_replay current fingerprint)) (\<lambda>replayed.
       case (replayed, current) of
         (Some r, _) \<Rightarrow> return (OutCompleted r)
       | (None, None) \<Rightarrow> throw (app_error INTERNAL_ERROR)
       | (None, Some r) \<Rightarrow>
           bind_action (transition (mu_request r) Locked no_update (at 0)) (\<lambda>_ w.
             case inner (mu_request r) w of
               (Inr x, w') \<Rightarrow> outer (mu_request r) x w'
             | (Inl e, w') \<Rightarrow> fail_before_commit (mu_request r) at e w')))"

definition operational_call ::
  "principal \<Rightarrow> tool_name \<Rightarrow> household_id \<Rightarrow> string \<Rightarrow> string \<Rightarrow> json_object \<Rightarrow> call \<Rightarrow> (time \<Rightarrow> mutation_outcome journal_action)
     \<Rightarrow> mutation_result journal_action" where
  "operational_call p tool h key fingerprint recovery c body =
     bind_action (check (require_scope p JournalWrite)) (\<lambda>_.
     bind_action (demand (member_of p h Editor)) (\<lambda>_.
     bind_action (reads (\<lambda>w. get_mutation (p_user p) tool key (w_store w))) (\<lambda>existing.
     bind_action (check (mutation_replay existing fingerprint)) (\<lambda>replayed.
       case replayed of
         Some r \<Rightarrow> return r
       | None \<Rightarrow>
           bind_action (store_update (\<lambda>s. if existing = None
             then save_mutation (operational_record p tool key (Some h) ((fingerprint_field, JStr fingerprint) # recovery)
               (ca_request c) (ca_now c)) s
             else s)) (\<lambda>_.
           bind_action (body (case existing of None \<Rightarrow> ca_now c | Some r \<Rightarrow> mu_created r)) settle)))))"

section \<open>One transition\<close>

record onboarding_input = household_input +
  oi_section :: onboarding_section
  oi_action :: onboarding_action
  oi_expected :: nat

definition action_json :: "onboarding_action \<Rightarrow> json" where
  "action_json a = JObj (case a of StartAction \<Rightarrow> [(''action'', JStr ''start'')]
     | SkipAction r \<Rightarrow> [(''action'', JStr ''skip''), (''reason'', JStr (reason_text r))]
     | ResumeAction \<Rightarrow> [(''action'', JStr ''resume'')])"

definition onboarding_input_fields :: "onboarding_input \<Rightarrow> json_object" where
  "onboarding_input_fields i = household_input_fields i @ [(''section'', JStr (section_text (oi_section i))),
     (''transition'', action_json (oi_action i)), (''expected_revision'', nat_json (oi_expected i))]"

definition prepare_onboarding :: "principal \<Rightarrow> onboarding_input \<Rightarrow> time \<Rightarrow> world \<Rightarrow> failure + onboarding_record \<times> git_object_id" where
  "prepare_onboarding p i occurred w =
     (let h = hi_household i in
      and_then (member_of p h Editor w) (\<lambda>m.
      and_then (repository_head h (w_repos w)) (\<lambda>head.
      and_then (guard (m_head m = head) (AppError PROJECTION_DRIFT True)) (\<lambda>_.
      and_then (report_exists h (oi_section i) w) (\<lambda>complete.
      and_then (guard (\<not> complete) invalid) (\<lambda>_.
      and_then (transition_onboarding (List.find (\<lambda>r. ob_section r = oi_section i) (list_onboarding_records (p_user p) h (w_store w)))
         (p_user p) h (oi_section i) (oi_action i) (oi_expected i) occurred) (\<lambda>next. Inr (next, head))))))))"

definition set_onboarding :: "onboarding_record \<Rightarrow> nat \<Rightarrow> unit journal_action" where
  "set_onboarding r expected w =
     (case compare_and_set_onboarding r expected (w_store w) of
        (True, s) \<Rightarrow> (Inr (), w\<lparr>w_store := s\<rparr>)
      | (False, s) \<Rightarrow> (Inl (app_error REVISION_CONFLICT), w\<lparr>w_store := s\<rparr>))"

definition onboarding_answer :: "onboarding_input \<Rightarrow> onboarding_record \<Rightarrow> json_object" where
  "onboarding_answer i r = [completed_field, (''household_id'', JStr (hi_household i)), (''section'', JStr (section_text (oi_section i))),
     (''section_state'', section_state_json (state_from_record r))]"

definition update_onboarding :: "service \<Rightarrow> principal \<Rightarrow> call \<Rightarrow> onboarding_input \<Rightarrow> mutation_result journal_action" where
  "update_onboarding S p c i =
     bind_action (check (parsed (household_input_ok i))) (\<lambda>_.
     let tool = ''hfj_update_onboarding''; fingerprint = mutation_fingerprint S tool (onboarding_input_fields i) in
     operational_call p tool (hi_household i) (hi_key i) fingerprint [] c (\<lambda>occurred.
       locked_operation p tool (hi_key i) fingerprint (ca_at c)
         (\<lambda>_. bind_action (demand (prepare_onboarding p i occurred)) (\<lambda>(next, head).
              bind_action (set_onboarding next (oi_expected i)) (\<lambda>_. return (next, head))))
         (\<lambda>req (next, head). finish_operation req fingerprint head (onboarding_answer i next) (ca_at c 1))))"

section \<open>The confirmed set-up\<close>

datatype commit_outcome = CompleteOutcome onboarding_section nat | SkipOutcome skip_outcome

record setup_input = revisioned_input +
  su_sections :: "commit_outcome list"
  su_profiles :: "(profile_name \<times> string) list"
  su_evidence :: "evidence list"
  su_items :: "journal_item list"
  su_reports :: "report list"
  su_revisions :: "(item_id, git_object_id) js_map"

fun outcome_section :: "commit_outcome \<Rightarrow> onboarding_section" where
  "outcome_section (CompleteOutcome s n) = s"
| "outcome_section (SkipOutcome k) = sk_section k"

definition at_most :: "int \<Rightarrow> 'a list \<Rightarrow> bool" where
  "at_most n xs \<longleftrightarrow> int (length xs) \<le> n"

definition setup_input_ok :: "host \<Rightarrow> setup_input \<Rightarrow> bool" where
  "setup_input_ok H i \<longleftrightarrow> revisioned_input_ok i \<and> list_len 0 2 (su_sections i) \<and>
     list_len 0 2 (su_profiles i) \<and> list_all (\<lambda>(n, m). n \<in> {SnacksProfile, RecipesProfile} \<and> str_len 0 100000 m) (su_profiles i) \<and>
     at_most 10000 (su_evidence i) \<and> list_all (non_delivery_evidence_ok H) (su_evidence i) \<and>
     at_most 10000 (su_items i) \<and> list_all (non_delivery_item_ok H) (su_items i) \<and>
     list_len 0 2 (su_reports i) \<and> list_all (non_delivery_report_ok H) (su_reports i) \<and> revisions_ok (su_revisions i) \<and>
     length (su_sections i) + length (su_profiles i) + length (su_evidence i) + length (su_items i) + length (su_reports i) \<noteq> 0 \<and>
     distinct (map outcome_section (su_sections i)) \<and> distinct (map fst (su_profiles i)) \<and> distinct (map item_id_of (su_items i))"

definition skip_json :: "skip_outcome \<Rightarrow> json" where
  "skip_json k = JObj [(''section'', JStr (section_text (sk_section k))), (''outcome'', JStr ''skip''), (''reason'', JStr (reason_text (sk_reason k))),
     (''expected_revision'', nat_json (sk_expected k))]"

fun outcome_json :: "commit_outcome \<Rightarrow> json" where
  "outcome_json (CompleteOutcome s n) = JObj [(''section'', JStr (section_text s)), (''outcome'', JStr ''complete''), (''expected_revision'', nat_json n)]"
| "outcome_json (SkipOutcome k) = skip_json k"

definition skips_of :: "commit_outcome list \<Rightarrow> skip_outcome list" where
  "skips_of os = List.map_filter (\<lambda>k. case k of SkipOutcome s \<Rightarrow> Some s | CompleteOutcome _ _ \<Rightarrow> None) os"

definition setup_fields :: "setup_input \<Rightarrow> json_object" where
  "setup_fields i = revisioned_input_fields i @ [(''sections'', JArr (map outcome_json (su_sections i))),
     (''profiles'', JArr (map (\<lambda>(n, m). JObj [(''profile'', JStr (profile_text n)), (''markdown'', JStr m)]) (su_profiles i))),
     (''evidence'', JArr (map evidence_json (su_evidence i))), (''items'', JArr (map item_json (su_items i))),
     (''reports'', JArr (map report_json (su_reports i))), (''expected_item_revisions'', revisions_json (su_revisions i))]"

definition section_report :: "onboarding_section \<Rightarrow> report_type" where
  "section_report s = (case s of SnacksSection \<Rightarrow> RecurringSnacks | RecipesSection \<Rightarrow> RecipeIndex)"

definition validate_onboarding_outcomes ::
  "household_id \<Rightarrow> commit_outcome list \<Rightarrow> report_type list \<Rightarrow> world \<Rightarrow> failure + unit" where
  "validate_onboarding_outcomes h outcomes reports w =
     each_ok (\<lambda>k.
       and_then (if section_report (outcome_section k) \<in> set reports then Inr True else report_exists h (outcome_section k) w) (\<lambda>has_report.
       guard (case k of CompleteOutcome _ _ \<Rightarrow> has_report | SkipOutcome _ \<Rightarrow> \<not> has_report) invalid)) outcomes"

fun apply_skips ::
  "user_id \<Rightarrow> household_id \<Rightarrow> time \<Rightarrow> (onboarding_section, onboarding_record) js_map \<Rightarrow> skip_outcome list \<Rightarrow> unit journal_action" where
  "apply_skips u h occurred records [] = return ()"
| "apply_skips u h occurred records (k # ks) =
     bind_action (check (next_onboarding_skip (lookup records (sk_section k)) u h k occurred)) (\<lambda>next.
       case next of
         None \<Rightarrow> apply_skips u h occurred records ks
       | Some r \<Rightarrow>
           bind_action (set_onboarding r (sk_expected k)) (\<lambda>_. apply_skips u h occurred (put (sk_section k) r records) ks))"

definition apply_onboarding_skips :: "user_id \<Rightarrow> household_id \<Rightarrow> skip_outcome list \<Rightarrow> time \<Rightarrow> unit journal_action" where
  "apply_onboarding_skips u h ks occurred =
     bind_action (reads (\<lambda>w. fold (\<lambda>r. put (ob_section r) r) (list_onboarding_records u h (w_store w)) [])) (\<lambda>records.
     apply_skips u h occurred records ks)"

definition setup_answer :: "setup_input \<Rightarrow> json_object \<Rightarrow> json \<Rightarrow> json_object" where
  "setup_answer i extra status =
     completed_field # extra @ [(''item_ids'', strings (map item_id_of (su_items i))), (''evidence_ids'', strings (map ev_id (su_evidence i))),
      (''report_count'', nat_json (length (su_reports i))), (''profiles'', strings (map (\<lambda>(n, _). profile_text n) (su_profiles i))),
      (''onboarding'', status)]"

definition setup_changes :: "codec \<Rightarrow> setup_input \<Rightarrow> repository_change list" where
  "setup_changes C i = map (evidence_change C) (su_evidence i) @ map (\<lambda>(n, m). profile_change (profile_text n) m) (su_profiles i) @
     map (item_change C) (su_items i) @ map report_change (su_reports i)"

definition put_profiles :: "git_object_id \<Rightarrow> (profile_name \<times> string) list \<Rightarrow> projection \<Rightarrow> projection" where
  "put_profiles head ps pr = pr\<lparr>pr_profiles := fold (\<lambda>(n, m). put (profile_text n) (m, head)) ps (pr_profiles pr)\<rparr>"

definition setup_options :: "service \<Rightarrow> principal \<Rightarrow> setup_input \<Rightarrow> mutation_options" where
  "setup_options S p i =
     (household_mutation S p ''hfj_commit_onboarding'' (hi_household i) (hi_key i) (setup_fields i) Editor JournalWrite
        ''onboarding: commit confirmed journal setup'')
     \<lparr>mo_expected := Some (ri_head i), mo_enforce := True,
      mo_recovery := [(''_onboarding_skips'', JArr (map skip_json (skips_of (su_sections i))))],
      mo_build := (\<lambda>_ _.
        bind_action (demand (required_household (hi_household i))) (\<lambda>hh.
        bind_action (check (guard (h_head hh = ri_head i) (AppError PROJECTION_DRIFT True))) (\<lambda>_.
        bind_action (demand (projection_of (hi_household i))) (\<lambda>pr.
        bind_action (check (entries_submission pr (p_actor p) (su_evidence i) (su_items i) (su_reports i) (su_revisions i))) (\<lambda>_.
        bind_action (demand (validate_onboarding_outcomes (hi_household i) (su_sections i) (map rep_type (su_reports i)))) (\<lambda>_.
        return (setup_changes (sv_codec S) i))))))),
      mo_apply := (\<lambda>head _ occurred.
        bind_action (change_projection (hi_household i) (\<lambda>pr.
          put_profiles head (su_profiles i) (project_entries head (su_evidence i) (su_items i) pr))) (\<lambda>_.
        bind_action (apply_onboarding_skips (p_user p) (hi_household i) (skips_of (su_sections i)) occurred) (\<lambda>_.
        bind_action (demand (onboarding_status_json (p_user p) (hi_household i))) (\<lambda>status.
        return (setup_answer i [] status)))))\<rparr>"

definition commit_onboarding_skips :: "service \<Rightarrow> principal \<Rightarrow> call \<Rightarrow> setup_input \<Rightarrow> mutation_result journal_action" where
  "commit_onboarding_skips S p c i =
     (let tool = ''hfj_commit_onboarding''; h = hi_household i; ks = skips_of (su_sections i);
          fingerprint = mutation_fingerprint S tool (setup_fields i)
      in bind_action (check (guard (ks \<noteq> []) invalid)) (\<lambda>_.
         operational_call p tool h (hi_key i) fingerprint [(''_onboarding_skips'', JArr (map skip_json ks))] c (\<lambda>occurred.
           locked_operation p tool (hi_key i) fingerprint (ca_at c)
             (\<lambda>req.
               bind_action (demand (member_of p h Editor)) (\<lambda>m.
               bind_action (demand (required_household h)) (\<lambda>hh.
               bind_action (demand (\<lambda>w. repository_head h (w_repos w))) (\<lambda>head.
               bind_action (check (guard (head = ri_head i) (app_error REVISION_CONFLICT))) (\<lambda>_.
               bind_action (check (guard (h_head hh = head \<and> m_head m = head) (AppError PROJECTION_DRIFT True))) (\<lambda>_.
               bind_action (demand (validate_onboarding_outcomes h (su_sections i) [])) (\<lambda>_.
               bind_action (apply_onboarding_skips (p_user p) h ks occurred) (\<lambda>_.
               bind_action (demand (onboarding_status_json (p_user p) h)) (\<lambda>status.
               finish_operation req fingerprint head (setup_answer i [(''household_id'', JStr h)] status) (ca_at c 1))))))))))
             (\<lambda>req. return))))"

definition commit_onboarding :: "service \<Rightarrow> principal \<Rightarrow> call \<Rightarrow> setup_input \<Rightarrow> mutation_result journal_action" where
  "commit_onboarding S p c i =
     bind_action (check (parsed (setup_input_ok (sv_host S) i))) (\<lambda>_.
     if su_profiles i = [] \<and> su_evidence i = [] \<and> su_items i = [] \<and> su_reports i = [] then commit_onboarding_skips S p c i
     else bind_action (demand (projection_of (hi_household i))) (\<lambda>_. run_mutation S c (setup_options S p i)))"

section \<open>The context of a session\<close>

definition oauth_scope_text :: "oauth_scope \<Rightarrow> string" where
  "oauth_scope_text s = (case s of JournalRead \<Rightarrow> ''journal:read'' | JournalWrite \<Rightarrow> ''journal:write'' | HouseholdManage \<Rightarrow> ''household:manage''
     | CollectionShare \<Rightarrow> ''collection:share'' | JournalExport \<Rightarrow> ''journal:export'' | RunnerMessages \<Rightarrow> ''runner:messages'')"

definition context_snapshot :: "service \<Rightarrow> principal \<Rightarrow> household_id \<Rightarrow> world \<Rightarrow> failure + git_object_id \<times> json \<times> json" where
  "context_snapshot S p h w =
     and_then (member_of p h Viewer w) (\<lambda>m.
     and_then (required_household h w) (\<lambda>hh.
     and_then (repository_head h (w_repos w)) (\<lambda>head.
     and_then (guard (h_head hh = head \<and> m_head m = head) (AppError PROJECTION_DRIFT True)) (\<lambda>_.
     and_then (projection_of h w) (\<lambda>pr.
     let items = map (\<lambda>(i, r). item_summary i r) (sort_key (\<lambda>(i, _). collation_key (sv_codec S) (item_id_of i)) (vals (pr_items pr))) in
     and_then (onboarding_status_json (p_user p) h w) (\<lambda>status.
     Inr (head, status, JObj
       [(''profiles'', JObj [(''snacks'', JObj (profile_snapshot (lookup (pr_profiles pr) ''snacks''))),
          (''recipes'', JObj (profile_snapshot (lookup (pr_profiles pr) ''recipes'')))]),
        (''items'', JArr (take 200 items)), (''items_truncated'', JBool (200 < length items))])))))))"

definition get_context :: "service \<Rightarrow> principal \<Rightarrow> household_id option \<Rightarrow> world \<Rightarrow> failure + read_result" where
  "get_context S p requested w =
     and_then (parsed (opt_all (opaque_id_ok ''hsh'') requested)) (\<lambda>_.
     and_then (require_scope p JournalRead) (\<lambda>_.
     let ms = list_memberships (p_user p) (w_store w);
         selected = (case requested of Some h \<Rightarrow> Some h | None \<Rightarrow> get_default_household (p_user p) (w_store w));
         answer = (\<lambda>status snapshot head.
           ([(''user'', JObj [(''id'', JStr (p_user p)), (''actor_id'', JStr (p_actor p)), (''display_name'', JStr (p_display p))]),
             (''households'', JArr (map (\<lambda>(hh, m). JObj [(''id'', JStr (h_id hh)), (''name'', JStr (h_name hh)),
                (''role'', JStr (role_text (m_role m))), (''repository_head'', JStr (h_head hh))]) ms)),
             (''default_household_id'', nullable JStr selected), (''pending_intent'', JNull),
             (''granted_scopes'', strings (sort (map oauth_scope_text (p_scopes p)))),
             (''onboarding'', status), (''onboarding_snapshot'', snapshot)], head))
     in case selected of
          None \<Rightarrow> Inr (answer JNull JNull None)
        | Some h \<Rightarrow>
            if \<not> list_ex (\<lambda>(hh, _). h_id hh = h) ms then Inl (app_error FORBIDDEN)
            else and_then (context_snapshot S p h w) (\<lambda>(head, status, snapshot). Inr (answer status snapshot (Some head)))))"

section \<open>Lemmas\<close>

lemma compare_and_set_mutations: "st_mutations (snd (compare_and_set_onboarding r n s)) = st_mutations s"
  by (simp add: compare_and_set_onboarding_def Let_def)

lemma leaves_set_onboarding [frame_intros]: "leaves_records (set_onboarding r n)"
  using compare_and_set_mutations [of r n]
  by (auto simp: leaves_records_def set_onboarding_def same_records_def mutations_of_def split: prod.split bool.split) (metis snd_conv)+

lemma leaves_apply_skips: "leaves_records (apply_skips u h t rs ks)"
proof (induction u h t rs ks rule: apply_skips.induct)
  case (2 u h t rs k ks)
  then show ?case
    by (auto intro!: frame_intros split: option.split)
qed (simp add: frame_intros)

lemma setup_framed: "callbacks_framed (setup_options S p i)"
  by (rule framed_mutation; simp add: setup_options_def household_mutation_def apply_onboarding_skips_def)
    (intro frame_intros reads_only_frame leaves_apply_skips | auto intro!: answer_intros simp: fingerprint_field_def setup_answer_def)+

end
