(* ===== verification/JournalMealPlans.thy ===== *)
theory JournalMealPlans
  imports JournalOnboarding
begin

text \<open>
  The meal-planning tools of \<^verbatim>\<open>household-food-journal.ts\<close>: constraints, weekly reviews, proposals and
  withdrawals, with the weekly bounds.  Reviews, proposals and withdrawals append one document to the current head.  The code
  keeps the event it planned for the projection of the same call; the event is a function of the request and its time, so the model computes it
  again.
\<close>

section \<open>Bounds\<close>

definition meal_slot_key :: "meal_slot \<Rightarrow> string" where
  "meal_slot_key s = (case s of CustomSlot l \<Rightarrow> ''custom:'' @ l | _ \<Rightarrow> slot_kind s)"

definition drift :: failure where
  "drift = app_error PROJECTION_DRIFT"

definition is_review :: "meal_plan_event \<Rightarrow> bool" where
  "is_review e = (case me_kind e of ConstraintsReviewed _ \<Rightarrow> True | ProposalWithdrawn _ _ \<Rightarrow> False)"

definition slot_of :: "meal_proposal \<Rightarrow> string" where
  "slot_of p = mp_date p @ '':'' @ meal_slot_key (mp_slot p)"

definition slots_bounded :: "meal_proposal list \<Rightarrow> bool" where
  "slots_bounded ps \<longleftrightarrow> list_all (\<lambda>p. length (filter (\<lambda>q. slot_of q = slot_of p) ps) \<le> max_proposals_per_slot) ps"

definition assert_meal_plan_read_bounds :: "meal_proposal list \<Rightarrow> meal_plan_event list \<Rightarrow> failure + unit" where
  "assert_meal_plan_read_bounds ps es =
     (let reviews = length (filter is_review es) in
      and_then (guard (length ps \<le> max_proposals_per_week \<and> length es \<le> max_events_per_week) drift) (\<lambda>_.
      and_then (guard (reviews \<le> max_review_events_per_week \<and> length es - reviews \<le> max_withdrawal_events_per_week) drift) (\<lambda>_.
      guard (slots_bounded ps) drift)))"

definition same_slot :: "meal_proposal \<Rightarrow> meal_proposal \<Rightarrow> bool" where
  "same_slot p q \<longleftrightarrow> mp_date p = mp_date q \<and> meal_slot_key (mp_slot p) = meal_slot_key (mp_slot q)"

definition assert_meal_proposal_capacity :: "meal_proposal list \<Rightarrow> meal_proposal \<Rightarrow> failure + unit" where
  "assert_meal_proposal_capacity ps candidate =
     (let week = filter (\<lambda>p. mp_week p = mp_week candidate) ps;
          in_week = length week; in_slot = length (filter (\<lambda>p. same_slot p candidate) week)
      in and_then (guard (in_week \<le> max_proposals_per_week \<and> in_slot \<le> max_proposals_per_slot) drift) (\<lambda>_.
         and_then (guard (in_week \<noteq> max_proposals_per_week) invalid) (\<lambda>_.
         guard (in_slot \<noteq> max_proposals_per_slot) invalid)))"

definition event_limit :: "bool \<Rightarrow> nat" where
  "event_limit review = (if review then max_review_events_per_week else max_withdrawal_events_per_week)"

definition assert_meal_event_capacity :: "meal_plan_event list \<Rightarrow> string \<Rightarrow> bool \<Rightarrow> failure + unit" where
  "assert_meal_event_capacity es week review =
     (let n = length (filter (\<lambda>e. me_week e = week \<and> is_review e = review) es) in
      and_then (guard (n \<le> event_limit review) drift) (\<lambda>_. guard (n \<noteq> event_limit review) invalid))"

section \<open>Reading a week\<close>

record plan_query =
  pq_household :: household_id
  pq_week :: string
  pq_cursor :: "string option"
  pq_limit :: nat

definition monday_date_ok :: "host \<Rightarrow> string \<Rightarrow> bool" where
  "monday_date_ok H s \<longleftrightarrow> valid_date H s \<and> monday_ok s"

definition plan_query_ok :: "host \<Rightarrow> plan_query \<Rightarrow> bool" where
  "plan_query_ok H i \<longleftrightarrow> opaque_id_ok ''hsh'' (pq_household i) \<and> monday_date_ok H (pq_week i) \<and> opt_all (str_len 0 300) (pq_cursor i) \<and>
     1 \<le> pq_limit i \<and> pq_limit i \<le> 500"

fun index_from :: "nat \<Rightarrow> ('a \<Rightarrow> bool) \<Rightarrow> 'a list \<Rightarrow> nat option" where
  "index_from n P [] = None"
| "index_from n P (x # xs) = (if P x then Some n else index_from (Suc n) P xs)"

definition withdrawn_proposals :: "meal_plan_event list \<Rightarrow> string list" where
  "withdrawn_proposals es = List.map_filter (\<lambda>e. case me_kind e of ProposalWithdrawn p _ \<Rightarrow> Some p | ConstraintsReviewed _ \<Rightarrow> None) es"

definition visible_proposal :: "projection \<Rightarrow> string list \<Rightarrow> meal_proposal \<Rightarrow> json" where
  "visible_proposal pr withdrawn p =
     (let revision = Option.bind (source_item (mp_source p)) (\<lambda>(i, _). map_option snd (lookup (pr_items pr) i));
          recheck = (case pr_meal_profile pr of None \<Rightarrow> True | Some prof \<Rightarrow> meal_proposal_needs_recheck p (mpp_revision prof) revision)
      in JObj [(''proposal'', meal_proposal_json p), (''active'', JBool (mp_id p \<notin> set withdrawn)),
         (''effective_compatibility'', JStr (if recheck then ''needs_recheck'' else compatibility_text (mp_compatibility p)))])"

definition page_start :: "string option \<Rightarrow> meal_proposal list \<Rightarrow> failure + nat" where
  "page_start cursor ps =
     (case cursor of None \<Rightarrow> Inr 0
      | Some c \<Rightarrow> (case index_from 0 (\<lambda>p. mp_id p = c) ps of None \<Rightarrow> Inl invalid | Some n \<Rightarrow> Inr (Suc n)))"

definition get_meal_plan :: "service \<Rightarrow> principal \<Rightarrow> plan_query \<Rightarrow> world \<Rightarrow> failure + read_result" where
  "get_meal_plan S p i w =
     (let h = pq_household i; by_id = collation_key (sv_codec S) in
      and_then (parsed (plan_query_ok (sv_host S) i)) (\<lambda>_.
      and_then (require_scope p JournalRead) (\<lambda>_.
      and_then (member_of p h Viewer w) (\<lambda>m.
      and_then (required_household h w) (\<lambda>hh.
      and_then (repository_head h (w_repos w)) (\<lambda>head.
      and_then (guard (h_head hh = head \<and> m_head m = head) (AppError PROJECTION_DRIFT True)) (\<lambda>_.
      and_then (projection_of h w) (\<lambda>pr.
      let ps = sort_key (\<lambda>q. by_id (mp_id q)) (filter (\<lambda>q. mp_week q = pq_week i) (map fst (vals (pr_proposals pr))));
          es = sort_key (\<lambda>e. by_id (me_id e)) (filter (\<lambda>e. me_week e = pq_week i) (map fst (vals (pr_events pr))))
      in and_then (page_start (pq_cursor i) ps) (\<lambda>start.
         let page = take (pq_limit i) (drop start ps); consumed = start + length page in
         and_then (assert_meal_plan_read_bounds ps es) (\<lambda>_.
         Inr ([(''week_start'', JStr (pq_week i)), (''constraint_profile'', nullable planning_profile_json (pr_meal_profile pr)),
               (''proposals'', JArr (map (visible_proposal pr (withdrawn_proposals es)) page)), (''events'', JArr (map meal_event_json es)),
               (''events_truncated'', JBool False),
               (''next_cursor'', if consumed < length ps then nullable (\<lambda>q. JStr (mp_id q)) (last_of page) else JNull)],
              Some head)))))))))))"

section \<open>Constraints\<close>

record constraints_input = revisioned_input +
  ct_constraints :: constraints

definition reviewed_at :: "constraints \<Rightarrow> string" where
  "reviewed_at c = (case c of Unresolved \<Rightarrow> '''' | ConfirmedNone z t \<Rightarrow> t | Recorded r \<Rightarrow> rcs_reviewed r)"

definition planning_profile_ok :: "host \<Rightarrow> meal_planning_profile \<Rightarrow> bool" where
  "planning_profile_ok H p \<longleftrightarrow> constraints_ok H (mpp_constraints p) \<and>
     (case mpp_revision p of HeadRevision g \<Rightarrow> git_object_id_ok g | LocalRevision _ \<Rightarrow> True) \<and> valid_datetime H (mpp_updated p)"

definition constraints_options :: "service \<Rightarrow> principal \<Rightarrow> constraints_input \<Rightarrow> mutation_options" where
  "constraints_options S p i =
     (household_mutation S p ''hfj_update_meal_planning_constraints'' (hi_household i) (hi_key i)
        (revisioned_input_fields i @ [(''constraints'', constraints_json (ct_constraints i))]) Editor JournalWrite
        ''meal-planning: update household constraints'')
     \<lparr>mo_expected := Some (ri_head i), mo_enforce := True,
      mo_build := (\<lambda>_ _. return [replaced ''profiles/meal-planning.md'' (markdown_document (sv_codec S)
        [(''constraints'', constraints_json (ct_constraints i)), (''updated_at'', JStr (reviewed_at (ct_constraints i))), (''schema_version'', JNum 1)] '''')]),
      mo_apply := (\<lambda>head _ _.
        let prof = \<lparr>mpp_constraints = ct_constraints i, mpp_revision = HeadRevision head, mpp_updated = reviewed_at (ct_constraints i)\<rparr> in
        bind_action (check (parsed (planning_profile_ok (sv_host S) prof))) (\<lambda>_.
        bind_action (change_projection (hi_household i) (\<lambda>pr. pr\<lparr>pr_meal_profile := Some prof\<rparr>)) (\<lambda>_.
        return [completed_field, (''constraint_revision'', JStr head)])))\<rparr>"

definition update_meal_planning_constraints :: "service \<Rightarrow> principal \<Rightarrow> call \<Rightarrow> constraints_input \<Rightarrow> mutation_result journal_action" where
  "update_meal_planning_constraints S p c i =
     bind_action (check (parsed (revisioned_input_ok i \<and> confirmed_constraints_ok (sv_host S) (ct_constraints i)))) (\<lambda>_.
     run_mutation S c (constraints_options S p i))"

definition require_constraints :: "projection \<Rightarrow> git_object_id \<Rightarrow> failure + unit" where
  "require_constraints pr revision =
     guard (case pr_meal_profile pr of None \<Rightarrow> False
       | Some prof \<Rightarrow> mpp_constraints prof \<noteq> Unresolved \<and> mpp_revision prof = HeadRevision revision) (app_error REVISION_CONFLICT)"

section \<open>Reviews\<close>

record review_input = household_input +
  re_week :: string
  re_revision :: git_object_id

definition checked_event :: "service \<Rightarrow> string \<Rightarrow> meal_plan_event \<Rightarrow> request_id \<Rightarrow> failure + meal_plan_event" where
  "checked_event S discriminator e req =
     and_then (parsed_mutation_id S ''mle'' req discriminator) (\<lambda>eid.
       let event = e\<lparr>me_id := eid\<rparr> in and_then (parsed (meal_plan_event_ok (sv_host S) event)) (\<lambda>_. Inr event))"

definition review_event :: "service \<Rightarrow> principal \<Rightarrow> review_input \<Rightarrow> request_id \<Rightarrow> time \<Rightarrow> failure + meal_plan_event" where
  "review_event S p i req occurred = checked_event S ''constraints-reviewed''
     \<lparr>me_id = [], me_week = re_week i, me_actor = CloudActor (p_actor p), me_occurred = iso_text occurred,
      me_kind = ConstraintsReviewed (HeadRevision (re_revision i))\<rparr> req"

definition plan_review :: "review_input \<Rightarrow> projection \<Rightarrow> meal_plan_event \<Rightarrow> failure + unit" where
  "plan_review i pr event =
     and_then (guard (lookup (pr_events pr) (me_id event) = None) (app_error REVISION_CONFLICT)) (\<lambda>_.
     assert_meal_event_capacity (map fst (vals (pr_events pr))) (re_week i) True)"

definition add_event :: "meal_plan_event \<Rightarrow> git_object_id \<Rightarrow> projection \<Rightarrow> projection" where
  "add_event e head pr = pr\<lparr>pr_events := put (me_id e) (e, head) (pr_events pr)\<rparr>"

definition review_options :: "service \<Rightarrow> principal \<Rightarrow> review_input \<Rightarrow> mutation_options" where
  "review_options S p i =
     (household_mutation S p ''hfj_review_meal_constraints'' (hi_household i) (hi_key i)
        (household_input_fields i @ [(''week_start'', JStr (re_week i)), (''constraint_revision'', JStr (re_revision i))]) Editor JournalWrite
        ''meal-planning: append weekly constraint review'')
     \<lparr>mo_append := True,
      mo_build := (\<lambda>req occurred. bind_action (demand (projection_of (hi_household i))) (\<lambda>pr.
        bind_action (check (require_constraints pr (re_revision i))) (\<lambda>_.
        bind_action (check (review_event S p i req occurred)) (\<lambda>event.
        bind_action (check (plan_review i pr event)) (\<lambda>_.
        return [appended (meal_plan_event_path event) (stable_json (sv_codec S) (meal_event_json event))]))))),
      mo_apply := (\<lambda>head req occurred. bind_action (check (review_event S p i req occurred)) (\<lambda>event.
        bind_action (change_projection (hi_household i) (add_event event head)) (\<lambda>_.
        return [completed_field, (''event_id'', JStr (me_id event)), (''constraint_revision'', JStr (re_revision i))])))\<rparr>"

definition review_meal_constraints :: "service \<Rightarrow> principal \<Rightarrow> call \<Rightarrow> review_input \<Rightarrow> mutation_result journal_action" where
  "review_meal_constraints S p c i =
     bind_action (check (parsed (household_input_ok i \<and> monday_date_ok (sv_host S) (re_week i) \<and> git_object_id_ok (re_revision i)))) (\<lambda>_.
     run_mutation S c (review_options S p i))"

section \<open>Proposals\<close>

record proposal_input = household_input +
  pi_week :: string
  pi_date :: string
  pi_slot :: meal_slot
  pi_source :: meal_source
  pi_servings :: "nat option"
  pi_notes :: "string option"
  pi_revision :: git_object_id
  pi_review :: string
  pi_compatibility :: compatibility
  pi_caveat :: string

definition cloud_source_ok :: "host \<Rightarrow> meal_source \<Rightarrow> bool" where
  "cloud_source_ok H s \<longleftrightarrow> meal_source_ok H s \<and> (case source_item s of None \<Rightarrow> True | Some (_, r) \<Rightarrow> git_object_id_ok r)"

definition proposal_input_ok :: "host \<Rightarrow> proposal_input \<Rightarrow> bool" where
  "proposal_input_ok H i \<longleftrightarrow> household_input_ok i \<and> monday_date_ok H (pi_week i) \<and> valid_date H (pi_date i) \<and> meal_slot_ok (pi_slot i) \<and>
     cloud_source_ok H (pi_source i) \<and> opt_all (\<lambda>n. 1 \<le> n \<and> n \<le> 100) (pi_servings i) \<and> opt_all (trimmed_len 1 1000) (pi_notes i) \<and>
     git_object_id_ok (pi_revision i) \<and> opaque_id_ok ''mle'' (pi_review i) \<and> trimmed_len 1 1000 (pi_caveat i) \<and>
     meal_date_falls_within_week (pi_week i) (pi_date i) \<and>
     (case pi_source i of JournalDish _ _ _ \<Rightarrow> pi_compatibility i = IncompleteEvidence | _ \<Rightarrow> True)"

definition proposal_input_fields :: "proposal_input \<Rightarrow> json_object" where
  "proposal_input_fields i = household_input_fields i @
     [(''week_start'', JStr (pi_week i)), (''meal_date'', JStr (pi_date i)), (''slot'', slot_json (pi_slot i)),
      (''source'', meal_source_json (pi_source i)), (''servings'', nullable nat_json (pi_servings i)), (''notes'', nullable JStr (pi_notes i)),
      (''constraint_revision'', JStr (pi_revision i)), (''constraint_review_event_id'', JStr (pi_review i)),
      (''compatibility'', JStr (compatibility_text (pi_compatibility i))), (''compatibility_caveat'', JStr (pi_caveat i))]"

definition proposal_for :: "service \<Rightarrow> principal \<Rightarrow> proposal_input \<Rightarrow> request_id \<Rightarrow> time \<Rightarrow> failure + meal_proposal" where
  "proposal_for S p i req occurred =
     and_then (parsed_mutation_id S ''mlp'' req ''proposal'') (\<lambda>pid.
       let proposal = \<lparr>mp_id = pid, mp_week = pi_week i, mp_date = pi_date i, mp_slot = pi_slot i, mp_by = CloudActor (p_actor p),
             mp_source = pi_source i, mp_servings = pi_servings i, mp_notes = pi_notes i, mp_constraint = HeadRevision (pi_revision i),
             mp_review_event = pi_review i, mp_compatibility = pi_compatibility i, mp_caveat = pi_caveat i, mp_created = iso_text occurred\<rparr>
       in and_then (parsed (meal_proposal_ok (sv_host S) proposal)) (\<lambda>_. Inr proposal))"

definition projected_events :: "projection \<Rightarrow> (string, meal_plan_event) js_map" where
  "projected_events pr = map (\<lambda>(k, e, _). (k, e)) (pr_events pr)"

definition projected_items :: "projection \<Rightarrow> item_map" where
  "projected_items pr = map (\<lambda>(k, i, _). (k, i)) (pr_items pr)"

definition projected_revisions :: "projection \<Rightarrow> (item_id, git_object_id) js_map" where
  "projected_revisions pr = map (\<lambda>(k, _, r). (k, r)) (pr_items pr)"

definition plan_proposal :: "projection \<Rightarrow> meal_proposal \<Rightarrow> failure + unit" where
  "plan_proposal pr proposal =
     and_then (validate_meal_proposal_review proposal (projected_events pr)) (\<lambda>_.
     and_then (validate_meal_proposal_source proposal (projected_items pr) (pr_evidence pr) (projected_revisions pr)) (\<lambda>_.
     and_then (guard (lookup (pr_proposals pr) (mp_id proposal) = None) (app_error REVISION_CONFLICT)) (\<lambda>_.
     assert_meal_proposal_capacity (map fst (vals (pr_proposals pr))) proposal)))"

definition add_proposal :: "meal_proposal \<Rightarrow> git_object_id \<Rightarrow> projection \<Rightarrow> projection" where
  "add_proposal p head pr = pr\<lparr>pr_proposals := put (mp_id p) (p, head) (pr_proposals pr)\<rparr>"

definition proposal_options :: "service \<Rightarrow> principal \<Rightarrow> proposal_input \<Rightarrow> mutation_options" where
  "proposal_options S p i =
     (household_mutation S p ''hfj_add_meal_proposal'' (hi_household i) (hi_key i) (proposal_input_fields i) Editor JournalWrite
        ''meal-planning: append proposal'')
     \<lparr>mo_append := True,
      mo_build := (\<lambda>req occurred. bind_action (demand (projection_of (hi_household i))) (\<lambda>pr.
        bind_action (check (require_constraints pr (pi_revision i))) (\<lambda>_.
        bind_action (check (proposal_for S p i req occurred)) (\<lambda>proposal.
        bind_action (check (plan_proposal pr proposal)) (\<lambda>_.
        return [appended (meal_proposal_path proposal) (stable_json (sv_codec S) (meal_proposal_json proposal))]))))),
      mo_apply := (\<lambda>head req occurred. bind_action (check (proposal_for S p i req occurred)) (\<lambda>proposal.
        bind_action (change_projection (hi_household i) (add_proposal proposal head)) (\<lambda>_.
        return [completed_field, (''proposal_id'', JStr (mp_id proposal))])))\<rparr>"

definition add_meal_proposal :: "service \<Rightarrow> principal \<Rightarrow> call \<Rightarrow> proposal_input \<Rightarrow> mutation_result journal_action" where
  "add_meal_proposal S p c i =
     bind_action (check (parsed (proposal_input_ok (sv_host S) i))) (\<lambda>_. run_mutation S c (proposal_options S p i))"

section \<open>Withdrawals\<close>

record withdrawal_input = household_input +
  wi_week :: string
  wi_proposal :: string
  wi_reason :: "string option"

definition withdrawal_event :: "service \<Rightarrow> principal \<Rightarrow> withdrawal_input \<Rightarrow> request_id \<Rightarrow> time \<Rightarrow> failure + meal_plan_event" where
  "withdrawal_event S p i req occurred = checked_event S ''proposal-withdrawn''
     \<lparr>me_id = [], me_week = wi_week i, me_actor = CloudActor (p_actor p), me_occurred = iso_text occurred,
      me_kind = ProposalWithdrawn (wi_proposal i) (wi_reason i)\<rparr> req"

definition require_withdrawable :: "principal \<Rightarrow> withdrawal_input \<Rightarrow> world \<Rightarrow> failure + projection" where
  "require_withdrawable p i w =
     and_then (projection_of (hi_household i) w) (\<lambda>pr.
     case lookup (pr_proposals pr) (wi_proposal i) of
       None \<Rightarrow> Inl (app_error NOT_FOUND)
     | Some (proposal, _) \<Rightarrow>
         and_then (guard (mp_week proposal = wi_week i) (app_error NOT_FOUND)) (\<lambda>_.
         and_then (member_of p (hi_household i) Editor w) (\<lambda>m.
         and_then (guard (mp_by proposal = CloudActor (p_actor p) \<or> m_role m = Owner) (app_error FORBIDDEN)) (\<lambda>_.
         and_then (guard (mp_id proposal \<notin> set (withdrawn_proposals (map fst (vals (pr_events pr))))) (app_error REVISION_CONFLICT)) (\<lambda>_.
         Inr pr)))))"

definition withdrawal_options :: "service \<Rightarrow> principal \<Rightarrow> withdrawal_input \<Rightarrow> mutation_options" where
  "withdrawal_options S p i =
     (household_mutation S p ''hfj_withdraw_meal_proposal'' (hi_household i) (hi_key i)
        (household_input_fields i @ [(''week_start'', JStr (wi_week i)), (''proposal_id'', JStr (wi_proposal i)), (''reason'', nullable JStr (wi_reason i))])
        Editor JournalWrite ''meal-planning: append proposal withdrawal'')
     \<lparr>mo_append := True,
      mo_build := (\<lambda>req occurred. bind_action (demand (require_withdrawable p i)) (\<lambda>pr.
        bind_action (check (withdrawal_event S p i req occurred)) (\<lambda>event.
        bind_action (check (assert_meal_event_capacity (map fst (vals (pr_events pr))) (wi_week i) False)) (\<lambda>_.
        return [appended (meal_plan_event_path event) (stable_json (sv_codec S) (meal_event_json event))])))),
      mo_apply := (\<lambda>head req occurred. bind_action (check (withdrawal_event S p i req occurred)) (\<lambda>event.
        bind_action (change_projection (hi_household i) (add_event event head)) (\<lambda>_.
        return [completed_field, (''proposal_id'', JStr (wi_proposal i)), (''event_id'', JStr (me_id event))])))\<rparr>"

definition withdraw_meal_proposal :: "service \<Rightarrow> principal \<Rightarrow> call \<Rightarrow> withdrawal_input \<Rightarrow> mutation_result journal_action" where
  "withdraw_meal_proposal S p c i =
     bind_action (check (parsed (household_input_ok i \<and> monday_date_ok (sv_host S) (wi_week i) \<and> opaque_id_ok ''mlp'' (wi_proposal i) \<and>
        opt_all (trimmed_len 1 500) (wi_reason i)))) (\<lambda>_.
     run_mutation S c (withdrawal_options S p i))"

section \<open>The runner's contract\<close>

lemma meal_plans_framed:
  "callbacks_framed (constraints_options S p ci)" "callbacks_framed (review_options S p vi)"
  "callbacks_framed (proposal_options S p ai)" "callbacks_framed (withdrawal_options S p wi)"
proof -
  show "callbacks_framed (constraints_options S p ci)"
    by (rule framed_mutation; simp add: constraints_options_def household_mutation_def Let_def)
      (intro frame_intros reads_only_frame | auto intro!: answer_intros simp: fingerprint_field_def)+
  show "callbacks_framed (review_options S p vi)"
    by (rule framed_mutation; simp add: review_options_def household_mutation_def)
      (intro frame_intros reads_only_frame | auto intro!: answer_intros simp: fingerprint_field_def)+
  show "callbacks_framed (proposal_options S p ai)"
    by (rule framed_mutation; simp add: proposal_options_def household_mutation_def)
      (intro frame_intros reads_only_frame | auto intro!: answer_intros simp: fingerprint_field_def)+
  show "callbacks_framed (withdrawal_options S p wi)"
    by (rule framed_mutation; simp add: withdrawal_options_def household_mutation_def)
      (intro frame_intros reads_only_frame | auto intro!: answer_intros simp: fingerprint_field_def)+
qed

end
