(* ===== verification/JournalSharing.thy ===== *)
theory JournalSharing
  imports JournalMealPlans
begin

text \<open>
  Collections, their shares and imports (\<^verbatim>\<open>household-food-journal.ts\<close>): an immutable snapshot of chosen
  items, a link that expires and can be revoked, and the import of a snapshot's items into another household as new or merged items
  with import evidence of their own.
\<close>

section \<open>Collections\<close>

datatype collection_selection = SelectEntry recipe_or_snack_entry | SelectDish item_id dish_entry

fun selection_source :: "collection_selection \<Rightarrow> item_id" where
  "selection_source (SelectEntry e) = rse_source e"
| "selection_source (SelectDish i d) = i"

fun selection_revision :: "collection_selection \<Rightarrow> git_object_id" where
  "selection_revision (SelectEntry e) = rse_revision e"
| "selection_revision (SelectDish i d) = de_revision d"

fun collection_selection_ok :: "host \<Rightarrow> collection_selection \<Rightarrow> bool" where
  "collection_selection_ok H (SelectEntry e) = entry_ok H e"
| "collection_selection_ok H (SelectDish i d) = (opaque_id_ok ''itm'' i \<and> dish_entry_ok H d)"

fun collection_selection_json :: "collection_selection \<Rightarrow> json" where
  "collection_selection_json (SelectEntry e) = entry_json e"
| "collection_selection_json (SelectDish i d) = JObj (dish_entry_fields d @ [(''source_item_id'', JStr i)])"

definition dish_selection_matches ::
  "codec \<Rightarrow> dish_entry \<Rightarrow> string \<Rightarrow> string \<Rightarrow> string \<Rightarrow> public_address option \<Rightarrow> string \<Rightarrow> string option \<Rightarrow> string option
     \<Rightarrow> string option \<Rightarrow> classification \<Rightarrow> bool" where
  "dish_selection_matches C d dish restaurant location address body picture page attribution cls \<longleftrightarrow>
     de_title d = dish \<and> de_restaurant d = restaurant \<and> de_location d = location \<and>
     (de_address d = None \<or> same_json C (nullable address_json (de_address d)) (nullable address_json address)) \<and>
     opt_all (\<lambda>t. t = body) (de_description d) \<and> opt_all (\<lambda>t. t = body) (de_note d) \<and>
     opt_all (\<lambda>u. Some u = picture) (de_image d) \<and> opt_all (\<lambda>u. Some u = page) (de_image_page d) \<and>
     opt_all (\<lambda>a. Some a = attribution) (de_attribution d) \<and> (de_alcohol d \<longleftrightarrow> cls = Alcohol)"

definition collection_selection_matches_source :: "codec \<Rightarrow> collection_selection \<Rightarrow> journal_item \<Rightarrow> bool" where
  "collection_selection_matches_source C sel item =
     (case sel of
        SelectEntry e \<Rightarrow>
          (case item of
             RecipeItem _ \<Rightarrow> rse_kind e = RecipeEntry
           | GroceryItem g \<Rightarrow> rse_kind e = SnackEntry \<and> gr_kind g = Snack
           | _ \<Rightarrow> False)
      | SelectDish _ d \<Rightarrow>
          (case item of
             DishItem s \<Rightarrow> dish_selection_matches C d (dd_dish s) (dd_restaurant s) (dd_location s) (dd_address s) (it_body s)
               (dd_image s) (dd_image_page s) None (dd_classification s)
           | ImportedDishItem s \<Rightarrow> dish_selection_matches C d (im_dish s) (im_restaurant s) (im_location s) (im_address s) (it_body s)
               (im_image s) (im_image_page s) (im_attribution s) (im_classification s)
           | _ \<Rightarrow> False))"

definition check_selection :: "codec \<Rightarrow> projection \<Rightarrow> collection_selection \<Rightarrow> failure + unit" where
  "check_selection C pr sel =
     (case lookup (pr_items pr) (selection_source sel) of
        None \<Rightarrow> Inl (app_error REVISION_CONFLICT)
      | Some (item, revision) \<Rightarrow>
          and_then (guard (revision = selection_revision sel) (app_error REVISION_CONFLICT)) (\<lambda>_.
          guard (collection_selection_matches_source C sel item) invalid))"

fun public_collection_item :: "host \<Rightarrow> collection_selection \<Rightarrow> failure + collection_item" where
  "public_collection_item H (SelectEntry e) = Inr (ItemEntry e)"
| "public_collection_item H (SelectDish i d) = and_then (parsed (dish_entry_ok H d)) (\<lambda>_. Inr (DishEntry d))"

record collection_input = revisioned_input +
  co_title :: string
  co_items :: "collection_selection list"

definition collection_input_ok :: "host \<Rightarrow> collection_input \<Rightarrow> bool" where
  "collection_input_ok H i \<longleftrightarrow> revisioned_input_ok i \<and> trimmed_len 1 300 (co_title i) \<and> list_len 1 200 (co_items i) \<and>
     list_all (collection_selection_ok H) (co_items i)"

definition planned_collection :: "service \<Rightarrow> principal \<Rightarrow> collection_input \<Rightarrow> request_id \<Rightarrow> time \<Rightarrow> failure + collection_snapshot" where
  "planned_collection S p i req occurred =
     and_then (parsed_mutation_id S ''col'' req ''collection'') (\<lambda>cid.
     and_then (parsed_mutation_id S ''snp'' req ''snapshot'') (\<lambda>sid.
     and_then (traverse (public_collection_item (sv_host S)) (co_items i)) (\<lambda>items.
     let snap = \<lparr>cs_id = sid, cs_collection = cid, cs_title = co_title i, cs_sharer = Some (p_display p), cs_items = items,
                 cs_created = iso_text occurred\<rparr>
     in and_then (parsed (collection_snapshot_ok (sv_host S) snap)) (\<lambda>_. Inr snap))))"

definition collection_document :: "service \<Rightarrow> string \<Rightarrow> json_object \<Rightarrow> repository_change" where
  "collection_document S cid extra = replaced (''collections/'' @ cid @ ''/collection.md'')
     (markdown_document (sv_codec S) ([(''id'', JStr cid)] @ extra @ [(''schema_version'', JNum 1)]) '''')"

definition collection_options :: "service \<Rightarrow> principal \<Rightarrow> collection_input \<Rightarrow> mutation_options" where
  "collection_options S p i =
     (household_mutation S p ''hfj_create_collection'' (hi_household i) (hi_key i)
        (revisioned_input_fields i @ [(''title'', JStr (co_title i)), (''items'', JArr (map collection_selection_json (co_items i)))])
        Editor CollectionShare ''collections: create private collection'')
     \<lparr>mo_expected := Some (ri_head i),
      mo_build := (\<lambda>req occurred. bind_action (check (planned_collection S p i req occurred)) (\<lambda>snap.
        return [collection_document S (cs_collection snap) [(''title'', JStr (co_title i)), (''current_snapshot_id'', JStr (cs_id snap))],
          appended (''collections/'' @ cs_collection snap @ ''/snapshots/'' @ cs_id snap @ ''.json'') (stable_json (sv_codec S) (snapshot_json snap))])),
      mo_apply := (\<lambda>head req occurred. bind_action (check (planned_collection S p i req occurred)) (\<lambda>snap.
        bind_action (change_projection (hi_household i) (\<lambda>pr.
          pr\<lparr>pr_collections := put (cs_collection snap) (snap, head) (pr_collections pr)\<rparr>)) (\<lambda>_.
        return [completed_field, (''collection_id'', JStr (cs_collection snap)), (''snapshot_id'', JStr (cs_id snap))])))\<rparr>"

definition create_collection :: "service \<Rightarrow> principal \<Rightarrow> call \<Rightarrow> collection_input \<Rightarrow> mutation_result journal_action" where
  "create_collection S p c i =
     bind_action (check (parsed (collection_input_ok (sv_host S) i))) (\<lambda>_.
     bind_action (demand (projection_of (hi_household i))) (\<lambda>pr.
     bind_action (check (each_ok (check_selection (sv_codec S) pr) (co_items i))) (\<lambda>_.
     run_mutation S c (collection_options S p i))))"

section \<open>Shares\<close>

record share_input = revisioned_input +
  si_collection :: string
  si_days :: nat

definition planned_share :: "service \<Rightarrow> share_input \<Rightarrow> request_id \<Rightarrow> time \<Rightarrow> failure + string \<times> string \<times> time" where
  "planned_share S i req occurred =
     and_then (parsed_mutation_id S ''shr'' req ''collection-share'') (\<lambda>sid.
     Inr (mutation_token S req ''collection-share'', sid, occurred + int (si_days i) * 86400000))"

definition share_options :: "service \<Rightarrow> principal \<Rightarrow> share_input \<Rightarrow> collection_snapshot \<Rightarrow> mutation_options" where
  "share_options S p i snap =
     (household_mutation S p ''hfj_create_collection_share'' (hi_household i) (hi_key i)
        (revisioned_input_fields i @ [(''collection_id'', JStr (si_collection i)), (''expires_in_days'', nat_json (si_days i))])
        Editor CollectionShare ''collections: publish immutable snapshot'')
     \<lparr>mo_expected := Some (ri_head i),
      mo_build := (\<lambda>_ occurred. return [collection_document S (si_collection i) [(''title'', JStr (cs_title snap)),
        (''current_snapshot_id'', JStr (cs_id snap)), (''share_status'', JStr ''active''), (''shared_at'', JStr (iso_text occurred))]]),
      mo_apply := (\<lambda>_ req occurred. bind_action (check (planned_share S i req occurred)) (\<lambda>(token, sid, expires).
        bind_action (store_update (save_share \<lparr>sh_id = sid, sh_collection = si_collection i, sh_household = hi_household i,
          sh_token_hash = sv_hash S token, sh_snapshot = snap, sh_expires = expires, sh_revoked = None\<rparr>)) (\<lambda>_.
        return [completed_field, (''collection_id'', JStr (si_collection i)), (''share_id'', JStr sid), (''expires_at'', JStr (iso_text expires)),
          (''url'', JStr (site_url S (''/c/'' @ token)))])))\<rparr>"

definition create_share :: "service \<Rightarrow> principal \<Rightarrow> call \<Rightarrow> share_input \<Rightarrow> mutation_result journal_action" where
  "create_share S p c i =
     bind_action (check (parsed (revisioned_input_ok i \<and> opaque_id_ok ''col'' (si_collection i) \<and> si_days i \<in> {1, 7, 30, 90}))) (\<lambda>_.
     bind_action (demand (projection_of (hi_household i))) (\<lambda>pr.
       case lookup (pr_collections pr) (si_collection i) of
         None \<Rightarrow> throw (app_error NOT_FOUND)
       | Some (snap, _) \<Rightarrow> run_mutation S c (share_options S p i snap)))"

record unshare_input = revisioned_input +
  us_collection :: string

definition unshare_options :: "service \<Rightarrow> principal \<Rightarrow> unshare_input \<Rightarrow> share_record \<Rightarrow> mutation_options" where
  "unshare_options S p i sh =
     (household_mutation S p ''hfj_revoke_collection_share'' (hi_household i) (hi_key i)
        (revisioned_input_fields i @ [(''collection_id'', JStr (us_collection i)), (''confirm'', JBool True)])
        Editor CollectionShare ''collections: revoke public share'')
     \<lparr>mo_expected := Some (ri_head i),
      mo_build := (\<lambda>_ occurred. return [collection_document S (us_collection i) [(''title'', JStr (cs_title (sh_snapshot sh))),
        (''current_snapshot_id'', JStr (cs_id (sh_snapshot sh))), (''share_status'', JStr ''revoked''), (''revoked_at'', JStr (iso_text occurred))]]),
      mo_apply := (\<lambda>_ _ occurred. bind_action (store_update (save_share (sh\<lparr>sh_revoked := Some occurred\<rparr>))) (\<lambda>_.
        return [completed_field, (''collection_id'', JStr (us_collection i)), (''revoked_at'', JStr (iso_text occurred))]))\<rparr>"

definition revoke_share :: "service \<Rightarrow> principal \<Rightarrow> call \<Rightarrow> unshare_input \<Rightarrow> mutation_result journal_action" where
  "revoke_share S p c i =
     bind_action (check (parsed (revisioned_input_ok i \<and> opaque_id_ok ''col'' (us_collection i)))) (\<lambda>_.
     bind_action (reads (\<lambda>w. get_share_by_collection (hi_household i) (us_collection i) (w_store w))) (\<lambda>found.
       case found of
         None \<Rightarrow> throw (app_error NOT_FOUND)
       | Some sh \<Rightarrow> run_mutation S c (unshare_options S p i sh)))"

definition active_share :: "service \<Rightarrow> string \<Rightarrow> time \<Rightarrow> world \<Rightarrow> failure + share_record" where
  "active_share S token now w =
     (case get_share_by_token_hash (sv_hash S token) (w_store w) of
        None \<Rightarrow> Inl (app_error NOT_FOUND)
      | Some sh \<Rightarrow>
          and_then (guard (sh_revoked sh = None) (app_error SHARE_REVOKED)) (\<lambda>_.
          and_then (guard (now < sh_expires sh) (app_error SHARE_EXPIRED)) (\<lambda>_. Inr sh)))"

definition preview_shared_collection :: "service \<Rightarrow> string \<Rightarrow> time \<Rightarrow> world \<Rightarrow> failure + read_result" where
  "preview_shared_collection S token now w =
     and_then (parsed (str_len 43 256 token)) (\<lambda>_.
     and_then (active_share S token now w) (\<lambda>sh.
     Inr ([(''snapshot'', snapshot_json (sh_snapshot sh)), (''expires_at'', JStr (iso_text (sh_expires sh)))], None)))"

section \<open>Planning an import\<close>

definition collection_item_id :: "collection_item \<Rightarrow> string" where
  "collection_item_id i = (case i of ItemEntry e \<Rightarrow> rse_id e | DishEntry d \<Rightarrow> de_id d)"

definition collection_item_title :: "collection_item \<Rightarrow> string" where
  "collection_item_title i = (case i of ItemEntry e \<Rightarrow> rse_title e | DishEntry d \<Rightarrow> de_title d)"

definition collection_item_kind :: "collection_item \<Rightarrow> string" where
  "collection_item_kind i = (case i of ItemEntry e \<Rightarrow> (case rse_kind e of RecipeEntry \<Rightarrow> ''recipe'' | SnackEntry \<Rightarrow> ''snack'')
     | DishEntry _ \<Rightarrow> ''delivery_dish'')"

definition exact_duplicate :: "codec \<Rightarrow> collection_item \<Rightarrow> journal_item \<Rightarrow> bool" where
  "exact_duplicate C source item =
     (case (source, item) of
        (ItemEntry e, RecipeItem r) \<Rightarrow> rse_kind e = RecipeEntry \<and> rse_canonical e \<noteq> None \<and> rp_canonical r = rse_canonical e
      | (ItemEntry e, GroceryItem g) \<Rightarrow> rse_kind e = SnackEntry \<and> gr_kind g = Snack \<and> rse_title e = gr_display g \<and> rse_brand e = gr_brand g \<and>
          rse_flavor e = gr_flavor g \<and> rse_formulation e = gr_formulation g \<and> rse_format e = gr_format g
      | (DishEntry d, ImportedDishItem s) \<Rightarrow> de_title d = im_dish s \<and> de_restaurant d = im_restaurant s \<and> de_location d = im_location s \<and>
          same_json C (nullable address_json (de_address d)) (nullable address_json (im_address s)) \<and> (de_alcohol d \<longleftrightarrow> im_classification s = Alcohol)
      | _ \<Rightarrow> False)"

record import_query =
  iq_token :: string
  iq_household :: household_id
  iq_selected :: "string list"

definition import_plan_json :: "service \<Rightarrow> journal_item list \<Rightarrow> collection_item \<Rightarrow> json" where
  "import_plan_json S destination source =
     (let exact = map item_id_of (filter (exact_duplicate (sv_codec S) source) destination);
          possible = (if exact \<noteq> [] then [] else map item_id_of (filter (\<lambda>i. item_kind_text i = collection_item_kind source \<and>
            lower_case (sv_host S) (item_title i) = lower_case (sv_host S) (collection_item_title source)) destination))
      in JObj [(''collection_item_id'', JStr (collection_item_id source)), (''exact_duplicates'', strings exact),
         (''possible_duplicates'', strings possible), (''requires_resolution'', JBool (possible \<noteq> []))])"

definition plan_import :: "service \<Rightarrow> principal \<Rightarrow> import_query \<Rightarrow> time \<Rightarrow> world \<Rightarrow> failure + read_result" where
  "plan_import S p i now w =
     and_then (parsed (str_len 43 256 (iq_token i) \<and> opaque_id_ok ''hsh'' (iq_household i) \<and> list_len 1 200 (iq_selected i) \<and>
       list_all (str_len 8 128) (iq_selected i))) (\<lambda>_.
     and_then (require_scope p JournalWrite) (\<lambda>_.
     and_then (member_of p (iq_household i) Editor w) (\<lambda>_.
     and_then (active_share S (iq_token i) now w) (\<lambda>sh.
     let selected = filter (\<lambda>x. collection_item_id x \<in> set (iq_selected i)) (cs_items (sh_snapshot sh)) in
     and_then (guard (length selected = card (set (iq_selected i))) invalid) (\<lambda>_.
     and_then (projection_of (iq_household i) w) (\<lambda>pr.
     and_then (required_household (iq_household i) w) (\<lambda>hh.
     Inr ([completed_field, (''items'', JArr (map (import_plan_json S (map fst (vals (pr_items pr)))) selected))], Some (h_head hh)))))))))"

section \<open>Importing\<close>

datatype resolution = SkipItem | CreateSeparate | MergeInto item_id

record import_selection =
  is_item :: string
  is_resolution :: resolution

record import_input = revisioned_input +
  im_token :: string
  im_selections :: "import_selection list"

definition import_input_ok :: "import_input \<Rightarrow> bool" where
  "import_input_ok i \<longleftrightarrow> revisioned_input_ok i \<and> str_len 43 256 (im_token i) \<and> list_len 1 200 (im_selections i) \<and>
     list_all (\<lambda>s. str_len 8 128 (is_item s) \<and> (case is_resolution s of MergeInto d \<Rightarrow> opaque_id_ok ''itm'' d | _ \<Rightarrow> True)) (im_selections i)"

definition import_selection_json :: "import_selection \<Rightarrow> json" where
  "import_selection_json s = JObj [(''collection_item_id'', JStr (is_item s)), (''resolution'', JObj (case is_resolution s of
     SkipItem \<Rightarrow> [(''action'', JStr ''skip'')]
   | CreateSeparate \<Rightarrow> [(''action'', JStr ''create_separate'')]
   | MergeInto d \<Rightarrow> [(''action'', JStr ''merge''), (''destination_item_id'', JStr d)]))]"

definition collection_item_attribution :: "collection_item \<Rightarrow> string option" where
  "collection_item_attribution i = (case i of ItemEntry e \<Rightarrow> rse_attribution e | DishEntry d \<Rightarrow> de_attribution d)"

definition import_evidence :: "evidence_id \<Rightarrow> collection_item \<Rightarrow> string \<Rightarrow> actor_id \<Rightarrow> string \<Rightarrow> evidence" where
  "import_evidence eid source sid actor imported =
     \<lparr>ev_id = eid, ev_observed = imported, ev_date = Some (take 10 imported), ev_precision = Day, ev_source_type = ''shared_collection'',
      ev_source_label = (case collection_item_attribution source of None \<Rightarrow> ''Shared collection'' | Some a \<Rightarrow> a),
      ev_locator = sid @ ''/'' @ collection_item_id source, ev_summary = ''Imported '' @ collection_item_title source, ev_actor = actor,
      ev_limitations = [case source of
          DishEntry _ \<Rightarrow> ''Import does not establish a prior order, reorder authority, recurrence, liking, or eligibility''
        | ItemEntry _ \<Rightarrow> ''Import does not establish purchase, cooked, or liked status''],
      ev_supersedes = None, ev_body = ImportEvidence\<rparr>"

definition merge_base :: "evidence_id \<Rightarrow> string \<Rightarrow> 'a item_base_scheme \<Rightarrow> 'a item_base_scheme" where
  "merge_base e imported i =
     i\<lparr>it_evidence := (if e \<in> set (it_evidence i) then it_evidence i else it_evidence i @ [e]), it_updated := imported\<rparr>"

fun merge_item :: "evidence_id \<Rightarrow> string \<Rightarrow> journal_item \<Rightarrow> journal_item" where
  "merge_item e t (GroceryItem g) = GroceryItem (merge_base e t g)"
| "merge_item e t (RecipeItem r) = RecipeItem (merge_base e t r)"
| "merge_item e t (DishItem d) = DishItem (merge_base e t d)"
| "merge_item e t (ImportedDishItem d) = ImportedDishItem (merge_base e t d)"

fun imported_item :: "collection_snapshot \<Rightarrow> item_id \<Rightarrow> evidence_id \<Rightarrow> string \<Rightarrow> collection_item \<Rightarrow> journal_item" where
  "imported_item snap i e t (ItemEntry s) =
     (let body = (case rse_description s of None \<Rightarrow> '''' | Some d \<Rightarrow> d) in
      case rse_kind s of
        RecipeEntry \<Rightarrow> RecipeItem \<lparr>it_id = i, it_evidence = [e], it_created = t, it_updated = t, it_body = body, rp_title = rse_title s,
          rp_canonical = rse_canonical s, rp_audited = rse_image_page s, rp_author = rse_author s, rp_saved = Yes, rp_cooked = Unknown,
          rp_liked = Unknown, rp_last_cooked = None, rp_precision = UnknownPrecision, rp_image = rse_image s, rp_image_page = rse_image_page s\<rparr>
      | SnackEntry \<Rightarrow> GroceryItem \<lparr>it_id = i, it_evidence = [e], it_created = t, it_updated = t, it_body = body, gr_kind = Snack,
          gr_display = rse_title s, gr_brand = rse_brand s, gr_product_line = None, gr_flavor = rse_flavor s, gr_formulation = rse_formulation s,
          gr_format = rse_format s, gr_category = ''imported'', gr_variety = None, gr_sizes = [], gr_image_page = rse_image_page s,
          gr_image = rse_image s\<rparr>)"
| "imported_item snap i e t (DishEntry d) = ImportedDishItem
     \<lparr>it_id = i, it_evidence = [e], it_created = t, it_updated = t,
      it_body = join [CHR 0x0A, CHR 0x0A] (List.map_filter id [de_description d, de_note d]), im_dish = de_title d, im_restaurant = de_restaurant d,
      im_location = de_location d, im_address = de_address d, im_image = de_image d, im_image_page = de_image_page d,
      im_attribution = de_attribution d, im_classification = (if de_alcohol d then Alcohol else Food),
      im_provenance = \<lparr>ip_collection = cs_collection snap, ip_snapshot = cs_id snap, ip_collection_item = de_id d,
        ip_revision = de_revision d, ip_attribution = de_attribution d, ip_imported = t\<rparr>\<rparr>"

record import_state =
  ip_new :: "journal_item list"
  ip_merged :: item_map
  ip_working :: item_map
  ip_evidence :: "(string \<times> evidence) list"

definition merge_selection :: "collection_item \<Rightarrow> item_id \<Rightarrow> evidence_id \<Rightarrow> string \<Rightarrow> import_state \<Rightarrow> failure + import_state" where
  "merge_selection source d e t st =
     (case lookup (ip_working st) d of
        None \<Rightarrow> Inl invalid
      | Some destination \<Rightarrow>
          and_then (guard (item_kind_text destination = collection_item_kind source) invalid) (\<lambda>_.
          and_then (guard (collection_item_kind source \<noteq> ''delivery_dish'' \<or> is_imported_dish destination) invalid) (\<lambda>_.
          let merged = merge_item e t destination; k = item_id_of merged in
          Inr (st\<lparr>ip_working := put k merged (ip_working st), ip_merged := put k merged (ip_merged st)\<rparr>))))"

definition import_one ::
  "service \<Rightarrow> principal \<Rightarrow> collection_snapshot \<Rightarrow> request_id \<Rightarrow> string \<Rightarrow> nat \<times> import_selection \<Rightarrow> import_state \<Rightarrow> failure + import_state" where
  "import_one S p snap req t sel st =
     (let (n, s) = sel in
      case lookup (rev (map (\<lambda>x. (collection_item_id x, x)) (cs_items snap))) (is_item s) of
        None \<Rightarrow> Inl invalid
      | Some source \<Rightarrow>
          if is_resolution s = SkipItem then Inr st
          else and_then (parsed_mutation_id S ''evd'' req (''evidence-'' @ digits n)) (\<lambda>e.
            let st' = st\<lparr>ip_evidence := ip_evidence st @ [(collection_item_kind source, import_evidence e source (cs_id snap) (p_actor p) t)]\<rparr> in
            case is_resolution s of
              MergeInto d \<Rightarrow> merge_selection source d e t st'
            | _ \<Rightarrow> and_then (parsed_mutation_id S ''itm'' req (''item-'' @ digits n)) (\<lambda>i.
                Inr (st'\<lparr>ip_new := ip_new st' @ [imported_item snap i e t source]\<rparr>))))"

fun fold_result :: "('x \<Rightarrow> 's \<Rightarrow> 'e + 's) \<Rightarrow> 'x list \<Rightarrow> 's \<Rightarrow> 'e + 's" where
  "fold_result f [] s = Inr s"
| "fold_result f (x # xs) s = and_then (f x s) (fold_result f xs)"

definition import_plan ::
  "service \<Rightarrow> principal \<Rightarrow> import_input \<Rightarrow> collection_snapshot \<Rightarrow> projection \<Rightarrow> request_id \<Rightarrow> time \<Rightarrow> failure + string \<times> import_state" where
  "import_plan S p i snap pr req occurred =
     and_then (parsed_mutation_id S ''imp'' req ''import'') (\<lambda>iid.
     and_then (fold_result (import_one S p snap req (iso_text occurred)) (enumerate 0 (im_selections i))
        \<lparr>ip_new = [], ip_merged = [], ip_working = projected_items pr, ip_evidence = []\<rparr>) (\<lambda>st. Inr (iid, st)))"

definition import_evidence_path :: "string \<Rightarrow> string \<Rightarrow> evidence \<Rightarrow> string" where
  "import_evidence_path kind t e =
     (if kind = ''recipe'' then ''recipes'' else if kind = ''delivery_dish'' then ''delivery'' else ''snacks'')
     @ ''/evidence/'' @ take 4 t @ ''/'' @ ev_id e @ ''.json''"

definition import_changes :: "codec \<Rightarrow> import_input \<Rightarrow> collection_snapshot \<Rightarrow> string \<Rightarrow> string \<Rightarrow> import_state \<Rightarrow> repository_change list" where
  "import_changes C i snap t iid st =
     map (\<lambda>(kind, e). appended (import_evidence_path kind t e) (stable_json C (evidence_json e))) (ip_evidence st) @
     map (item_change C) (ip_new st @ vals (ip_merged st)) @
     [appended (''imports/'' @ take 4 t @ ''/'' @ iid @ ''.json'') (stable_json C (JObj
        [(''import_id'', JStr iid), (''source_collection_id'', JStr (cs_collection snap)), (''source_snapshot_id'', JStr (cs_id snap)),
         (''imported_at'', JStr t), (''selections'', JArr (map import_selection_json (im_selections i))), (''schema_version'', JNum 1)]))]"

definition import_answer :: "import_input \<Rightarrow> string \<Rightarrow> import_state \<Rightarrow> json_object" where
  "import_answer i iid st =
     [completed_field, (''import_id'', JStr iid), (''imported_item_ids'', strings (map item_id_of (ip_new st))),
      (''merged_item_ids'', strings (map item_id_of (vals (ip_merged st)))),
      (''skipped_count'', nat_json (length (filter (\<lambda>s. is_resolution s = SkipItem) (im_selections i))))]"

definition import_options :: "service \<Rightarrow> principal \<Rightarrow> import_input \<Rightarrow> collection_snapshot \<Rightarrow> mutation_options" where
  "import_options S p i snap =
     (household_mutation S p ''hfj_import_collection_items'' (hi_household i) (hi_key i)
        (revisioned_input_fields i @ [(''token'', JStr (im_token i)), (''selections'', JArr (map import_selection_json (im_selections i)))])
        Editor JournalWrite ''imports: import selected collection items'')
     \<lparr>mo_expected := Some (ri_head i),
      mo_build := (\<lambda>req occurred. bind_action (demand (projection_of (hi_household i))) (\<lambda>pr.
        bind_action (check (import_plan S p i snap pr req occurred)) (\<lambda>(iid, st).
        return (import_changes (sv_codec S) i snap (iso_text occurred) iid st)))),
      mo_apply := (\<lambda>head req occurred. bind_action (demand (projection_of (hi_household i))) (\<lambda>pr.
        bind_action (check (import_plan S p i snap pr req occurred)) (\<lambda>(iid, st).
        bind_action (change_projection (hi_household i) (project_entries head (map snd (ip_evidence st)) (ip_new st @ vals (ip_merged st)))) (\<lambda>_.
        return (import_answer i iid st)))))\<rparr>"

definition import_items :: "service \<Rightarrow> principal \<Rightarrow> call \<Rightarrow> import_input \<Rightarrow> mutation_result journal_action" where
  "import_items S p c i =
     bind_action (check (parsed (import_input_ok i))) (\<lambda>_.
     bind_action (demand (active_share S (im_token i) (ca_now c))) (\<lambda>sh.
     bind_action (demand (projection_of (hi_household i))) (\<lambda>_.
     run_mutation S c (import_options S p i (sh_snapshot sh)))))"

section \<open>The runner's contract\<close>

lemma save_share_mutations [simp]: "st_mutations (save_share v s) = st_mutations s"
  by (simp add: save_share_def)

lemma sharing_framed:
  "callbacks_framed (collection_options S p ci)" "callbacks_framed (share_options S p si snap)"
  "callbacks_framed (unshare_options S p ui sh)" "callbacks_framed (import_options S p ii snap)"
proof -
  show "callbacks_framed (collection_options S p ci)"
    by (rule framed_mutation; simp add: collection_options_def household_mutation_def)
      (intro frame_intros reads_only_frame | auto intro!: answer_intros simp: fingerprint_field_def)+
  show "callbacks_framed (share_options S p si snap)"
    by (rule framed_mutation; simp add: share_options_def household_mutation_def)
      (intro frame_intros leaves_store_update | auto intro!: answer_intros simp: fingerprint_field_def split: prod.split)+
  show "callbacks_framed (unshare_options S p ui sh)"
    by (rule framed_mutation; simp add: unshare_options_def household_mutation_def)
      (intro frame_intros leaves_store_update | auto intro!: answer_intros simp: fingerprint_field_def)+
  show "callbacks_framed (import_options S p ii snap)"
    by (rule framed_mutation; simp add: import_options_def household_mutation_def)
      (intro frame_intros reads_only_frame | auto intro!: answer_intros simp: fingerprint_field_def import_answer_def split: prod.split)+
qed

end
