(* ===== verification/JournalFresh.thy ===== *)
theory JournalFresh
  imports MutationCalls JournalSharing
begin

text \<open>
  What a successful first call of a tool does (\<open>fresh_run\<close>): its changes are built in the world the call found, the commit is made
  against the head the call was authorised for, its projection is applied to the same data, and the members of the household move to
  the new head.  The mutation records are left aside: \<open>business\<close> is the operational store without them.
\<close>

definition business :: "world \<Rightarrow> op_store" where
  "business w = (w_store w)\<lparr>st_mutations := []\<rparr>"

definition unused_request :: "household_id \<Rightarrow> request_id \<Rightarrow> world \<Rightarrow> bool" where
  "unused_request h req w \<longleftrightarrow> mutations_ok (w_store w) \<and> req \<notin> request_ids w \<and>
     (\<forall>g. find_commit_by_request_id h req (w_repos w) \<noteq> Inr (Some g))"

lemma business_stamped [simp]: "business (stamped k st u now w) = business w"
  by (simp add: business_def stamped_def)

lemma business_receive: "business (snd (receive mo existing fresh now w)) = business w"
  by (simp add: business_def receive_eq save_mutation_def)

lemma reads_onlyD: "reads_only m \<Longrightarrow> m w = (r, w') \<Longrightarrow> w' = w"
  by (metis reads_only_def snd_conv)

lemma outcome_Inr: "outcome_result r = Inr res \<longleftrightarrow> r = Inr (OutCompleted res)"
  by (cases r) (auto simp: outcome_result_def split: mutation_outcome.splits sum.splits)

lemma reconcile_not_completed: "reconcile u req at e w \<noteq> (Inr (OutCompleted res), w')"
  by (auto simp: reconcile_def return_def elim!: bind_action_InrE)

lemma finish_completed:
  assumes f: "callbacks_framed mo" and o: "owns k req base w" and fin: "finish mo c req now at w = (Inr (OutCompleted res), w')"
  obtains w3 resp w4 s where "business w3 = business w" "w_repos w3 = w_repos w" "mo_apply mo c req now w3 = (Inr resp, w4)"
    "update_household_head (mo_household mo) c (w_store w4) = Inr s"
    "business w' = (refresh_members (mo_household mo) c s)\<lparr>st_mutations := []\<rparr>"
    "res = \<lparr>res_data = resp, res_head = c, res_request = req\<rparr>" "w_repos w' = w_repos w"
proof -
  let ?w3 = "stamped k GitCommitted (no_update\<lparr>up_commit := Some c\<rparr>) (at 1) w"
  have o3: "owns k req base ?w3" by (rule owns_stamped [OF o])
  have "project mo c req now at ?w3 = (Inr (OutCompleted res), w')"
    using fin reconcile_not_completed
    by (auto simp: finish_def try_catch_def effect_simps transition_eq [OF o] split: prod.splits sum.splits)
  then obtain resp w4 w5 w6 w7 where *: "mo_apply mo c req now ?w3 = (Inr resp, w4)" "refresh_household mo c w4 = (Inr (), w5)"
    "transition req ProjectionsApplied (no_update\<lparr>up_response := Some (stored_response mo resp)\<rparr>) (at 2) w5 = (Inr (), w6)"
    "transition req Completed (no_update\<lparr>up_response := Some (stored_response mo resp)\<rparr>) (at 3) w6 = (Inr (), w7)"
    "w' = w7" "res = \<lparr>res_data = resp, res_head = c, res_request = req\<rparr>"
    unfolding project_def by (auto simp: return_def elim!: bind_action_InrE)
  have o5: "owns k req base w5"
    using o3 framed_apply [OF f, of ?w3 c req now] refresh_household_frame [of w4 mo c] *(1,2) by (metis owns_same_records snd_conv)
  have w7: "business w7 = business w5" using *(3,4) transition_eq [OF o5] transition_eq [OF owns_stamped [OF o5]] by auto
  have repos: "w_repos w7 = w_repos w"
    using framed_apply [OF f, of ?w3 c req now] refresh_household_frame [of w4 mo c] *(1-4) transition_eq [OF o5] transition_eq [OF owns_stamped [OF o5]]
    by (auto simp: same_records_def)
  obtain s where s: "update_household_head (mo_household mo) c (w_store w4) = Inr s" "w_store w5 = refresh_members (mo_household mo) c s"
    using *(2) by (auto simp: refresh_household_def update_or_throw_def and_then_def split: sum.splits)
  show thesis
    by (rule that [of ?w3 resp w4 s]) (use * s w7 repos in \<open>simp_all add: business_def stamped_def\<close>)
qed

lemma fresh_run_repos:
  assumes f: "callbacks_framed mo" and unused: "unused_request (mo_household mo) fresh w" and new: "existing_mutation mo w = None"
    and build: "reads_only (mo_build mo fresh now)" and run: "run C mo at fresh now w = (Inr res, w')"
  obtains head w1 changes g w3 resp w4 s where
    "business w1 = business w" "w_repos w1 = w_repos w" "mo_build mo fresh now w1 = (Inr changes, w1)"
    "repository_head (mo_household mo) (w_repos w) = Inr head" "check_authority mo w head = Inr ()"
    "commit C (mo_household mo) head changes (metadata_of mo fresh now) (w_repos w) = Inr (g, w_repos w3)"
    "business w3 = business w" "mo_apply mo g fresh now w3 = (Inr resp, w4)"
    "update_household_head (mo_household mo) g (w_store w4) = Inr s"
    "business w' = (refresh_members (mo_household mo) g s)\<lparr>st_mutations := []\<rparr>"
    "res = \<lparr>res_data = resp, res_head = g, res_request = fresh\<rparr>" "w_repos w' = w_repos w3"
proof (cases rule: run_cases [of mo C "at" fresh now w, case_names forbidden refused answered ran])
  case (ran w1)
  have ok: "mutations_ok (w_store w)" "fresh \<notin> request_ids w" using unused by (simp_all add: unused_request_def)
  note rec = received_world [OF ok ran(2)]
  have w1: "w1 = snd (receive mo None fresh now w)" using ran(2) new by simp
  have b1: "business w1 = business w" by (simp add: w1 business_receive)
  define r where "r = new_record mo fresh now"
  have r: "existing_mutation mo w1 = Some r"
    using new by (simp add: w1 r_def existing_mutation_lookup receive_eq mutations_of_def save_mutation_def new_record_key)
  have req: "mu_request r = fresh" "mu_created r = now" "mu_commit r = None" "mu_state r = Received"
    by (simp_all add: r_def new_record_def)
  have locked: "run_locked C mo at w1 = (Inr (OutCompleted res), w')"
    using run ran(3) outcome_Inr by (metis fst_conv snd_conv prod.collapse)
  have rep: "replay mo (Some r) = Inr None"
    using locked r req(4) by (cases "replay mo (Some r)") (auto simp: run_locked_def replay_def split: if_splits)
  have o: "owns (request_key mo) fresh w1 w1" using rec(1) r req by (auto simp: owns_def existing_mutation_lookup)
  let ?w2 = "stamped (request_key mo) Locked no_update (at 0) w1"
  have o2: "owns (request_key mo) fresh w1 ?w2" by (rule owns_stamped [OF o])
  have known: "known_commit mo r ?w2 = find_commit_by_request_id (mo_household mo) fresh (w_repos w)"
    using rec(2) req by (simp add: known_commit_def)
  have "known_commit mo r ?w2 = Inr None \<and> commit_or_fail C mo fresh now at ?w2 = (Inr (OutCompleted res), w')"
  proof (cases "known_commit mo r ?w2")
    case (Inl e)
    then show ?thesis using locked r rep req by (simp add: run_locked_def effect_simps transition_eq [OF o])
  next
    case (Inr x)
    have "x = None"
    proof (cases x)
      case (Some g)
      with Inr known have "find_commit_by_request_id (mo_household mo) fresh (w_repos w) = Inr (Some g)" by (metis)
      with unused show ?thesis by (simp add: unused_request_def)
    qed
    then show ?thesis using Inr locked r rep req by (simp add: run_locked_def effect_simps transition_eq [OF o])
  qed
  then have "commit_or_fail C mo fresh now at ?w2 = (Inr (OutCompleted res), w')" by blast
  then obtain g w3 where made: "prepare_commit C mo fresh now ?w2 = (Inr g, w3)" "finish mo g fresh now at w3 = (Inr (OutCompleted res), w')"
    by (auto simp: commit_or_fail_def fail_before_commit_def return_def elim!: bind_action_InrE split: prod.splits sum.splits)
  from made(1) obtain head changes w2' where head: "repository_head (mo_household mo) (w_repos ?w2) = Inr head"
    "check_authority mo ?w2 head = Inr ()" "mo_build mo fresh now ?w2 = (Inr changes, w2')"
    "commit_changes C mo head changes fresh now w2' = (Inr g, w3)"
    unfolding prepare_commit_def by (auto simp: lift_result_def elim!: bind_action_InrE)
  have same: "w2' = ?w2" by (rule reads_onlyD [OF build head(3)])
  from head(4) have commit: "commit C (mo_household mo) head changes (metadata_of mo fresh now) (w_repos w) = Inr (g, w_repos w3)"
    "business w3 = business w"
    using rec(2) b1 by (auto simp: same commit_changes_def business_def stamped_def split: if_splits sum.splits)
  have o3: "owns (request_key mo) fresh w1 w3"
    using keepsD [OF keeps_prepare_commit [OF f] o2, of C now] made(1) by simp
  show thesis
  proof (rule finish_completed [OF f o3 made(2)])
    fix w4 resp w5 s
    assume *: "business w4 = business w3" "w_repos w4 = w_repos w3" "mo_apply mo g fresh now w4 = (Inr resp, w5)"
      "update_household_head (mo_household mo) g (w_store w5) = Inr s"
      "business w' = (refresh_members (mo_household mo) g s)\<lparr>st_mutations := []\<rparr>"
      "res = \<lparr>res_data = resp, res_head = g, res_request = fresh\<rparr>" "w_repos w' = w_repos w3"
    have "check_authority mo w head = Inr ()"
      using head(2) rec(3) same_authority_stamped [of mo w1 "request_key mo" Locked no_update "at 0"]
      by (simp add: same_authority_def)
    then show thesis
      using * head [unfolded same] commit rec(2) b1 by (intro that [of ?w2 changes head g w4 resp w5 s]) simp_all
  qed
qed (use run new in simp_all)


lemma fresh_run:
  assumes f: "callbacks_framed mo" and unused: "unused_request (mo_household mo) fresh w" and new: "existing_mutation mo w = None"
    and build: "reads_only (mo_build mo fresh now)" and run: "run C mo at fresh now w = (Inr res, w')"
  obtains head w1 changes g w3 resp w4 s where
    "business w1 = business w" "w_repos w1 = w_repos w" "mo_build mo fresh now w1 = (Inr changes, w1)"
    "repository_head (mo_household mo) (w_repos w) = Inr head" "check_authority mo w head = Inr ()"
    "commit C (mo_household mo) head changes (metadata_of mo fresh now) (w_repos w) = Inr (g, w_repos w3)"
    "business w3 = business w" "mo_apply mo g fresh now w3 = (Inr resp, w4)"
    "update_household_head (mo_household mo) g (w_store w4) = Inr s"
    "business w' = (refresh_members (mo_household mo) g s)\<lparr>st_mutations := []\<rparr>"
    "res = \<lparr>res_data = resp, res_head = g, res_request = fresh\<rparr>"
  by (rule fresh_run_repos [OF assms]) (rule that)

section \<open>What any call can do to the data\<close>

text \<open>Whatever a call answers, the data is as before, or as its projection left it, with the members refreshed or not.\<close>

definition projected_from :: "mutation_options \<Rightarrow> op_store \<Rightarrow> op_store \<Rightarrow> bool" where
  "projected_from mo b b' \<longleftrightarrow> b' = b \<or> (\<exists>w g req now r w4. business w = b \<and> mo_apply mo g req now w = (r, w4) \<and>
     (b' = business w4 \<or> (\<exists>s. update_household_head (mo_household mo) g (w_store w4) = Inr s \<and>
        b' = (refresh_members (mo_household mo) g s)\<lparr>st_mutations := []\<rparr>)))"

definition business_is :: "(op_store \<Rightarrow> bool) \<Rightarrow> world \<Rightarrow> bool" where
  "business_is Q w \<longleftrightarrow> Q (business w)"

lemma transition_mutation_business: "transition_mutation req st u now s = Inr s' \<Longrightarrow> s'\<lparr>st_mutations := []\<rparr> = s\<lparr>st_mutations := []\<rparr>"
  by (auto simp: transition_mutation_def split: if_splits option.splits)

lemma keeps_business_transition [keeps_intros]: "keeps (business_is Q) (transition req st u now)"
  unfolding transition_def
  by (rule keeps_update_or_throw) (auto simp: business_is_def business_def and_then_Inr_iff dest: transition_mutation_business)

lemma keeps_business_reads: "reads_only m \<Longrightarrow> keeps (business_is Q) m"
  by (simp add: keeps_def reads_only_def)

lemma keeps_business_commit [keeps_intros]: "keeps (business_is Q) (commit_changes C mo head changes req now)"
  by (auto simp: keeps_def business_is_def commit_changes_def business_def split: sum.split)

lemma keeps_business_reconcile [keeps_intros]: "keeps (business_is Q) (reconcile u req at e)"
  unfolding reconcile_def by (intro keeps_intros)

lemma keeps_business_fail [keeps_intros]: "keeps (business_is Q) (fail_before_commit req at e)"
  unfolding fail_before_commit_def by (intro keeps_intros)

lemma keeps_business_prepare:
  "reads_only (mo_build mo req now) \<Longrightarrow> keeps (business_is Q) (prepare_commit C mo req now)"
  unfolding prepare_commit_def by (intro keeps_intros keeps_business_reads)

lemma projected_apply: "projected_from mo (business w) (business (snd (mo_apply mo g req now w)))"
  unfolding projected_from_def by (metis prod.collapse)

lemma project_projected: "projected_from mo (business w) (business (snd (project mo g req now at w)))"
proof (cases "mo_apply mo g req now w")
  case (Pair r w4)
  have p4: "projected_from mo (business w) (business w4)" using projected_apply [of mo w g req now] Pair by simp
  show ?thesis
  proof (cases r)
    case (Inl e)
    then show ?thesis using Pair p4 by (simp add: project_def effect_simps)
  next
    case (Inr resp)
    have "projected_from mo (business w) (business (snd (refresh_household mo g w4)))"
    proof (cases "update_household_head (mo_household mo) g (w_store w4)")
      case (Inl e)
      then show ?thesis using p4 by (simp add: refresh_household_def update_or_throw_def)
    next
      case (Inr s)
      then have "business (snd (refresh_household mo g w4)) = (refresh_members (mo_household mo) g s)\<lparr>st_mutations := []\<rparr>"
        by (simp add: refresh_household_def update_or_throw_def business_def)
      then show ?thesis using Pair Inr unfolding projected_from_def by blast
    qed
    moreover have "keeps (business_is (projected_from mo (business w)))
        (bind_action (transition req ProjectionsApplied (no_update\<lparr>up_response := Some (stored_response mo resp)\<rparr>) (at 2)) (\<lambda>_.
         bind_action (transition req Completed (no_update\<lparr>up_response := Some (stored_response mo resp)\<rparr>) (at 3)) (\<lambda>_.
         return (OutCompleted \<lparr>res_data = resp, res_head = g, res_request = req\<rparr>))))"
      by (intro keeps_intros)
    ultimately show ?thesis using Pair Inr
      by (cases "refresh_household mo g w4") (auto simp: project_def bind_action_def [of "mo_apply mo g req now"]
          bind_action_def [of "refresh_household mo g"] keeps_def business_is_def split: sum.split)
  qed
qed

lemma finish_projected: "projected_from mo (business w) (business (snd (finish mo g req now at w)))"
proof -
  let ?P = "business_is (projected_from mo (business w))"
  obtain r w1 where t: "transition req GitCommitted (no_update\<lparr>up_commit := Some g\<rparr>) (at 1) w = (r, w1)" by fastforce
  have same: "business w1 = business w"
    using keepsD [OF keeps_business_transition [where Q = "(=) (business w)"], of w req GitCommitted "no_update\<lparr>up_commit := Some g\<rparr>" "at 1"] t
    by (simp add: business_is_def)
  have "?P (snd (try_catch (project mo g req now at) (reconcile no_update req at) w1))"
    using project_projected [of mo w1 g req now "at"] keepsD [OF keeps_business_reconcile [of "projected_from mo (business w)"]]
    by (auto simp: try_catch_def same business_is_def split: prod.split sum.split)
  moreover have "?P w1" by (simp add: business_is_def same projected_from_def)
  ultimately show ?thesis
    using keepsD [OF keeps_business_reconcile [of "projected_from mo (business w)"]] t
    by (auto simp: finish_def try_catch_def [of "bind_action a b" for a b] bind_action_def business_is_def split: prod.split sum.split)
qed

lemma run_projected:
  assumes "\<And>req now. reads_only (mo_build mo req now)"
  shows "projected_from mo (business w) (business (snd (run C mo at fresh now w)))"
proof -
  have finish: "projected_from mo (business w) (business (snd (finish mo g req now' at w1)))" if "business w1 = business w" for g req now' w1
    using finish_projected [of mo w1] that by simp
  have commit: "projected_from mo (business w) (business (snd (commit_or_fail C mo req now' at w1)))" if "business w1 = business w" for req now' w1
  proof (cases "prepare_commit C mo req now' w1")
    case (Pair r w2)
    then have "business w2 = business w"
      using keepsD [OF keeps_business_prepare [OF assms, where Q = "(=) (business w)"], of w1 C req now'] that by (simp add: business_is_def)
    with Pair finish show ?thesis
      using keepsD [OF keeps_business_fail [where Q = "(=) (business w)"], of w2 req "at"]
      by (cases r) (auto simp: commit_or_fail_def business_is_def projected_from_def)
  qed
  have same: "projected_from mo (business w) (business w1)" if "business w1 = business w" for w1 using that by (simp add: projected_from_def)
  have locked: "projected_from mo (business w) (business (snd (run_locked C mo at w1)))" if "business w1 = business w" for w1
  proof -
    have step: "business (snd (transition req Locked no_update (at 0) w1)) = business w" for req
      using keepsD [OF keeps_business_transition [where Q = "(=) (business w)"], of w1 req Locked no_update "at 0"] that by (simp add: business_is_def)
    show ?thesis
      using that finish commit same step
      by (auto simp: run_locked_def bind_action_def lift_result_def split: option.split sum.split prod.split) (metis snd_conv)+
  qed
  show ?thesis
  proof (cases rule: run_cases [of mo C "at" fresh now w, case_names forbidden refused answered ran])
    case (ran w1)
    then show ?thesis using locked [of w1] by (simp add: business_receive)
  qed (simp_all add: projected_from_def)
qed


section \<open>A first call whose steps succeed\<close>

lemma project_succeeds:
  assumes f: "callbacks_framed mo" and o: "owns k req base w" and a: "mo_apply mo g req now w = (Inr resp, w4)"
    and h: "get_household (mo_household mo) (w_store w4) \<noteq> None"
  shows "\<exists>w'. project mo g req now at w = (Inr (OutCompleted \<lparr>res_data = resp, res_head = g, res_request = req\<rparr>), w')"
proof -
  obtain s where s: "update_household_head (mo_household mo) g (w_store w4) = Inr s"
    using h by (auto simp: update_household_head_def update_household_def get_household_def)
  then obtain w5 where w5: "refresh_household mo g w4 = (Inr (), w5)"
    by (simp add: refresh_household_def update_or_throw_def)
  have o5: "owns k req base w5"
    using o framed_apply [OF f, of w g req now] refresh_household_frame [of w4 mo g] a w5 by (metis owns_same_records snd_conv)
  show ?thesis
    using a w5 by (simp add: project_def effect_simps transition_eq [OF o5] transition_eq [OF owns_stamped [OF o5]])
qed

lemma fresh_run_succeeds:
  assumes f: "callbacks_framed mo" and unused: "unused_request (mo_household mo) fresh w" and new: "existing_mutation mo w = None"
    and scope: "mo_scope mo \<in> set (p_scopes (mo_principal mo))" and rep: "replay mo (Some (new_record mo fresh now)) = Inr None"
    and head: "repository_head (mo_household mo) (w_repos w) = Inr head" and auth: "check_authority mo w head = Inr ()"
    and build: "\<And>w1. business w1 = business w \<Longrightarrow> w_repos w1 = w_repos w \<Longrightarrow> mo_build mo fresh now w1 = (Inr changes, w1)"
    and shape: "mo_append mo \<longrightarrow> (\<exists>c. changes = [c] \<and> ch_append_only c)"
    and commit: "commit C (mo_household mo) head changes (metadata_of mo fresh now) (w_repos w) = Inr (g, rs)"
    and applied: "\<And>w3. business w3 = business w \<Longrightarrow> w_repos w3 = rs \<Longrightarrow>
      \<exists>resp w4. mo_apply mo g fresh now w3 = (Inr resp, w4) \<and> get_household (mo_household mo) (w_store w4) \<noteq> None"
  shows "\<exists>res w'. run C mo at fresh now w = (Inr res, w')"
proof -
  have ok: "mutations_ok (w_store w)" "fresh \<notin> request_ids w" using unused by (simp_all add: unused_request_def)
  define w1 where "w1 = snd (receive mo (existing_mutation mo w) fresh now w)"
  note rec = received_world [OF ok w1_def]
  have b1: "business w1 = business w" by (simp add: w1_def business_receive)
  define r where "r = new_record mo fresh now"
  have r: "existing_mutation mo w1 = Some r"
    using new by (simp add: w1_def r_def existing_mutation_lookup receive_eq mutations_of_def save_mutation_def new_record_key)
  have req: "mu_request r = fresh" "mu_created r = now" "mu_commit r = None" by (simp_all add: r_def new_record_def)
  have o: "owns (request_key mo) fresh w1 w1" using rec(1) r req by (auto simp: owns_def existing_mutation_lookup)
  let ?w2 = "stamped (request_key mo) Locked no_update (at 0) w1"
  have o2: "owns (request_key mo) fresh w1 ?w2" by (rule owns_stamped [OF o])
  obtain rr where rr: "get_repository (mo_household mo) (w_repos w) = Inr rr"
    using head by (cases "get_repository (mo_household mo) (w_repos w)") (auto simp: repository_head_def)
  have known: "known_commit mo r ?w2 = Inr None"
    using unused rec(2) req rr
    by (cases "List.find (\<lambda>c. cm_request (ce_metadata c) = fresh) (git_commits rr)")
      (auto simp: known_commit_def unused_request_def find_commit_by_request_id_def)
  let ?w3 = "?w2\<lparr>w_repos := rs\<rparr>"
  have auth2: "check_authority mo ?w2 head = Inr ()"
    using auth rec(3) same_authority_stamped [of mo w1 "request_key mo" Locked no_update "at 0"] by (simp add: same_authority_def)
  have prepared: "prepare_commit C mo fresh now ?w2 = (Inr g, ?w3)"
    using head auth2 build [of ?w2] b1 rec(2) commit shape
    by (auto simp: prepare_commit_def effect_simps commit_changes_def)
  have o3: "owns (request_key mo) fresh w1 ?w3"
    using keepsD [OF keeps_prepare_commit [OF f] o2, of C now] prepared by simp
  let ?w4 = "stamped (request_key mo) GitCommitted (no_update\<lparr>up_commit := Some g\<rparr>) (at 1) ?w3"
  have b4: "business ?w4 = business w" "w_repos ?w4 = rs" using b1 by (simp_all add: business_def stamped_def)
  from applied [OF b4] obtain resp w5 where "mo_apply mo g fresh now ?w4 = (Inr resp, w5)" "get_household (mo_household mo) (w_store w5) \<noteq> None"
    by blast
  from project_succeeds [OF f owns_stamped [OF o3] this] obtain w' where
    project: "project mo g fresh now at ?w4 = (Inr (OutCompleted \<lparr>res_data = resp, res_head = g, res_request = fresh\<rparr>), w')" by blast
  have "run_locked C mo at w1 = (Inr (OutCompleted \<lparr>res_data = resp, res_head = g, res_request = fresh\<rparr>), w')"
    using r rep req known prepared project
    by (simp add: run_locked_def r_def effect_simps transition_eq [OF o] commit_or_fail_def finish_def try_catch_def transition_eq [OF o3])
  then show ?thesis
    using new scope
    by (simp add: run_def look_up_request_def require_scope_def effect_simps receive_eq settle_def flip: w1_def)
      (simp add: w1_def receive_eq effect_simps settle_def)
qed

end
