(* ===== verification/JournalEffects.thy ===== *)
theory JournalEffects
  imports JournalFresh
begin

text \<open>
  What the tools of the journal do to the data of a household: the weekly bounds of its meal plan, its owners, the citations of its
  items and its shares, each followed from the projection of the tool to the whole call.
\<close>

section \<open>Projections after a call\<close>

lemma refresh_members_projections: "st_projections (refresh_members h g s) = st_projections s"
proof -
  have "st_projections (fold (\<lambda>m. upsert_membership (m\<lparr>m_head := g\<rparr>)) ms t) = st_projections t" for ms t
    by (induction ms arbitrary: t) (simp_all add: upsert_membership_def)
  then show ?thesis by (simp add: refresh_members_def)
qed

lemma update_household_projections: "update_household_head h g s = Inr s' \<Longrightarrow> st_projections s' = st_projections s"
  by (auto simp: update_household_head_def update_household_def split: option.splits)

lemma business_projections: "business w = business w' \<Longrightarrow> projection_of h w = projection_of h w'"
  by (cases "w_store w"; cases "w_store w'") (simp add: business_def projection_of_def get_projection_def)

lemma projection_business: "business w = s\<lparr>st_mutations := []\<rparr> \<Longrightarrow> projection_of h w = get_projection h s"
  by (cases "w_store w"; cases s) (simp add: business_def projection_of_def get_projection_def)

lemma change_projection_result:
  assumes "change_projection h f w = (Inr u, w')" "projection_of h w = Inr pr"
  shows "projection_of h w' = Inr (f pr)"
  using assms
  by (auto simp: change_projection_def store_try_def update_or_throw_def projection_of_def get_projection_def and_then_def
      lookup_adjust split: sum.splits option.splits)

text \<open>A successful first call whose projection is one update of the household's projection.\<close>

lemma fresh_projection:
  assumes f: "callbacks_framed mo" and unused: "unused_request (mo_household mo) fresh w" and new: "existing_mutation mo w = None"
    and build: "reads_only (mo_build mo fresh now)" and run: "run C mo at fresh now w = (Inr res, w')"
    and pr: "projection_of (mo_household mo) w = Inr pr"
    and applied: "\<And>g w3 resp w4. mo_apply mo g fresh now w3 = (Inr resp, w4) \<Longrightarrow> projection_of (mo_household mo) w3 = Inr pr \<Longrightarrow>
        projection_of (mo_household mo) w4 = Inr (f g)"
  obtains w1 changes resp where "projection_of (mo_household mo) w1 = Inr pr" "mo_build mo fresh now w1 = (Inr changes, w1)"
    "w_repos w1 = w_repos w" "business w1 = business w" "projection_of (mo_household mo) w' = Inr (f (res_head res))"
proof (rule fresh_run [OF f unused new build run])
  fix head w1 changes g w3 resp w4 s
  assume *: "business w1 = business w" "w_repos w1 = w_repos w" "mo_build mo fresh now w1 = (Inr changes, w1)"
    "business w3 = business w" "mo_apply mo g fresh now w3 = (Inr resp, w4)"
    "update_household_head (mo_household mo) g (w_store w4) = Inr s"
    "business w' = (refresh_members (mo_household mo) g s)\<lparr>st_mutations := []\<rparr>"
    "res = \<lparr>res_data = resp, res_head = g, res_request = fresh\<rparr>"
  have "projection_of (mo_household mo) w' = projection_of (mo_household mo) w4"
    using projection_business [OF *(7)] update_household_projections [OF *(6)]
    by (simp add: get_projection_def refresh_members_projections projection_of_def)
  then show thesis
    using * pr business_projections [OF *(1)] business_projections [OF *(4)]
    by (intro that [of w1 changes]) (simp_all add: applied)
qed

section \<open>Weekly bounds\<close>

definition week_proposals :: "string \<Rightarrow> projection \<Rightarrow> meal_proposal list" where
  "week_proposals week pr = filter (\<lambda>p. mp_week p = week) (map fst (vals (pr_proposals pr)))"

definition week_events :: "string \<Rightarrow> projection \<Rightarrow> meal_plan_event list" where
  "week_events week pr = filter (\<lambda>e. me_week e = week) (map fst (vals (pr_events pr)))"

definition plan_within_bounds :: "projection \<Rightarrow> bool" where
  "plan_within_bounds pr \<longleftrightarrow> (\<forall>p\<in>set (vals (pr_proposals pr)). length (mp_date (fst p)) = 10) \<and>
     (\<forall>week. assert_meal_plan_read_bounds (week_proposals week pr) (week_events week pr) = Inr ())"

lemma length_filter_mset: "mset xs = mset ys \<Longrightarrow> length (filter P xs) = length (filter P ys)"
  by (metis mset_filter size_mset)

lemma slots_bounded_mset: "mset ps = mset qs \<Longrightarrow> slots_bounded ps = slots_bounded qs"
  unfolding slots_bounded_def list_all_iff by (metis length_filter_mset mset_eq_setD)

lemma read_bounds_mset:
  "mset ps = mset qs \<Longrightarrow> mset es = mset fs \<Longrightarrow> assert_meal_plan_read_bounds ps es = assert_meal_plan_read_bounds qs fs"
  using slots_bounded_mset [of ps qs] length_filter_mset [of es fs is_review]
  by (simp add: assert_meal_plan_read_bounds_def mset_eq_length [of ps qs] mset_eq_length [of es fs] cong: Let_def)

lemma slot_of_eq_iff: "length (mp_date p) = length (mp_date q) \<Longrightarrow> slot_of p = slot_of q \<longleftrightarrow> same_slot p q"
  by (auto simp: slot_of_def same_slot_def)

lemma length_event_kinds: "length es = length (filter is_review es) + length (filter (\<lambda>e. \<not> is_review e) es)"
  by (simp add: sum_length_filter_compl)

lemma read_bounds_iff:
  "assert_meal_plan_read_bounds ps es = Inr () \<longleftrightarrow> length ps \<le> max_proposals_per_week \<and>
     length (filter is_review es) \<le> max_review_events_per_week \<and> length (filter (\<lambda>e. \<not> is_review e) es) \<le> max_withdrawal_events_per_week \<and>
     slots_bounded ps"
  using length_event_kinds [of es]
  by (auto simp: assert_meal_plan_read_bounds_def Let_def and_then_Inr_iff max_events_per_week_def)

lemma vals_put_new: "lookup m k = None \<Longrightarrow> vals (put k v m) = vals m @ [v]"
  by (simp add: put_absent)

lemma length_week_put:
  "length (filter P (map fst (vals (put k v m)))) \<le> length (filter P (map fst (vals m))) + (if P (fst v) then 1 else 0)"
  by (induction m) (auto simp: put_def)

lemma filter_conj: "filter P (filter Q xs) = filter (\<lambda>x. Q x \<and> P x) xs"
  by (simp add: conj_commute)

lemma add_event_bounds:
  assumes "plan_within_bounds pr" "assert_meal_event_capacity (map fst (vals (pr_events pr))) (me_week e) (is_review e) = Inr ()"
  shows "plan_within_bounds (add_event e g pr)"
proof -
  have limit: "length (filter (\<lambda>x. me_week x = me_week e \<and> is_review x = is_review e) (map fst (vals (pr_events pr)))) < event_limit (is_review e)"
    using assms(2) by (auto simp: assert_meal_event_capacity_def Let_def and_then_Inr_iff)
  have count: "length (filter P (week_events week (add_event e g pr)))
      \<le> length (filter P (week_events week pr)) + (if me_week e = week \<and> P e then 1 else 0)" for P week
    using length_week_put [of "\<lambda>x. me_week x = week \<and> P x" "me_id e" "(e, g)" "pr_events pr"]
    by (simp add: week_events_def add_event_def filter_conj)
  have old: "length (filter is_review (week_events week pr)) \<le> max_review_events_per_week"
    "length (filter (\<lambda>x. \<not> is_review x) (week_events week pr)) \<le> max_withdrawal_events_per_week" for week
    using assms(1) by (simp_all add: plan_within_bounds_def read_bounds_iff)
  have "length (filter is_review (week_events week (add_event e g pr))) \<le> max_review_events_per_week" for week
    using count [of is_review week] old(1) [of week] limit
    by (cases "is_review e") (auto simp: event_limit_def week_events_def filter_conj split: if_splits)
  moreover have "length (filter (\<lambda>x. \<not> is_review x) (week_events week (add_event e g pr))) \<le> max_withdrawal_events_per_week" for week
    using count [of "\<lambda>x. \<not> is_review x" week] old(2) [of week] limit
    by (cases "is_review e") (auto simp: event_limit_def week_events_def filter_conj split: if_splits)
  ultimately show ?thesis
    using assms(1) by (simp add: plan_within_bounds_def read_bounds_iff week_proposals_def add_event_def)
qed

lemma add_proposal_bounds:
  assumes "plan_within_bounds pr" "plan_proposal pr p = Inr ()" "length (mp_date p) = 10"
  shows "plan_within_bounds (add_proposal p g pr)"
proof -
  have new: "lookup (pr_proposals pr) (mp_id p) = None"
    and cap: "assert_meal_proposal_capacity (map fst (vals (pr_proposals pr))) p = Inr ()"
    using assms(2) by (auto simp: plan_proposal_def and_then_Inr_iff)
  have week: "week_proposals week (add_proposal p g pr) = week_proposals week pr @ (if mp_week p = week then [p] else [])" for week
    by (simp add: week_proposals_def add_proposal_def vals_put_new [OF new])
  have dates: "\<forall>q\<in>set (week_proposals week pr). length (mp_date q) = 10" for week
    using assms(1) by (auto simp: plan_within_bounds_def week_proposals_def)
  have room: "length (week_proposals (mp_week p) pr) < max_proposals_per_week"
    "length (filter (\<lambda>q. same_slot q p) (week_proposals (mp_week p) pr)) < max_proposals_per_slot"
    using cap by (auto simp: assert_meal_proposal_capacity_def Let_def and_then_Inr_iff week_proposals_def)
  have slot: "filter (\<lambda>q. slot_of q = slot_of p) (week_proposals week pr) = filter (\<lambda>q. same_slot q p) (week_proposals week pr)" for week
    using dates assms(3) by (intro filter_cong) (simp_all add: slot_of_eq_iff)
  have "slots_bounded (week_proposals (mp_week p) pr @ [p])"
    using assms(1) room(2) slot [of "mp_week p"]
    by (auto simp: plan_within_bounds_def read_bounds_iff slots_bounded_def list_all_iff)
  then show ?thesis
    using assms(1,3) room(1) week
    by (auto simp: plan_within_bounds_def read_bounds_iff vals_put_new [OF new] add_proposal_def week_events_def)
qed


text \<open>The three tools that append to a meal plan.\<close>

datatype plan_request = Review review_input | Propose proposal_input | Withdraw withdrawal_input

definition plan_options :: "service \<Rightarrow> principal \<Rightarrow> plan_request \<Rightarrow> mutation_options" where
  "plan_options S p rq = (case rq of Review i \<Rightarrow> review_options S p i | Propose i \<Rightarrow> proposal_options S p i | Withdraw i \<Rightarrow> withdrawal_options S p i)"

definition plan_call :: "service \<Rightarrow> principal \<Rightarrow> call \<Rightarrow> plan_request \<Rightarrow> mutation_result journal_action" where
  "plan_call S p c rq = (case rq of Review i \<Rightarrow> review_meal_constraints S p c i | Propose i \<Rightarrow> add_meal_proposal S p c i
     | Withdraw i \<Rightarrow> withdraw_meal_proposal S p c i)"

text \<open>The first use of a key, under a request id no record and no commit has.\<close>

definition first_call :: "mutation_options \<Rightarrow> call \<Rightarrow> world \<Rightarrow> bool" where
  "first_call mo c w \<longleftrightarrow> unused_request (mo_household mo) (ca_request c) w \<and> existing_mutation mo w = None"

lemma checked_call: "bind_action (check r) (\<lambda>_. m) w = (Inr res, w') \<Longrightarrow> r = Inr () \<and> m w = (Inr res, w')"
  for r :: "failure + unit"
  by (cases r) (auto simp: check_def effect_simps bind_action_def)

lemma plan_call_runs: "plan_call S p c rq w = (Inr res, w') \<Longrightarrow> run_mutation S c (plan_options S p rq) w = (Inr res, w')"
  by (cases rq) (auto simp: plan_call_def plan_options_def review_meal_constraints_def add_meal_proposal_def withdraw_meal_proposal_def
      dest!: checked_call)

lemma plan_framed: "callbacks_framed (plan_options S p rq)"
  by (cases rq) (simp_all add: plan_options_def meal_plans_framed)

lemma plan_reads_only: "reads_only (mo_build (plan_options S p rq) req now)"
  by (cases rq) (auto simp: plan_options_def review_options_def proposal_options_def withdrawal_options_def household_mutation_def
      intro!: frame_intros)

text \<open>What the tool adds to the projection, and what it has checked.\<close>

definition plan_addition :: "service \<Rightarrow> principal \<Rightarrow> plan_request \<Rightarrow> request_id \<Rightarrow> time \<Rightarrow> git_object_id \<Rightarrow> projection \<Rightarrow> projection" where
  "plan_addition S p rq req now g pr = (case rq of
     Review i \<Rightarrow> (case review_event S p i req now of Inl e \<Rightarrow> pr | Inr e \<Rightarrow> add_event e g pr)
   | Propose i \<Rightarrow> (case proposal_for S p i req now of Inl e \<Rightarrow> pr | Inr q \<Rightarrow> add_proposal q g pr)
   | Withdraw i \<Rightarrow> (case withdrawal_event S p i req now of Inl e \<Rightarrow> pr | Inr e \<Rightarrow> add_event e g pr))"

lemma check_InrE: "check r w = (Inr x, w') \<Longrightarrow> (r = Inr x \<Longrightarrow> w' = w \<Longrightarrow> thesis) \<Longrightarrow> thesis"
  unfolding check_def lift_result_def by blast

lemma demand_InrE: "demand f w = (Inr x, w') \<Longrightarrow> (f w = Inr x \<Longrightarrow> w' = w \<Longrightarrow> thesis) \<Longrightarrow> thesis"
  unfolding demand_def lift_result_def by blast

lemma return_InrE: "return y w = (Inr x, w') \<Longrightarrow> (x = y \<Longrightarrow> w' = w \<Longrightarrow> thesis) \<Longrightarrow> thesis"
  unfolding return_def by blast

lemma reads_InrE: "reads f w = (Inr x, w') \<Longrightarrow> (x = f w \<Longrightarrow> w' = w \<Longrightarrow> thesis) \<Longrightarrow> thesis"
  unfolding reads_def by blast

lemmas action_elims = bind_action_InrE check_InrE demand_InrE return_InrE reads_InrE

lemma plan_applied:
  assumes "mo_apply (plan_options S p rq) g req now w = (Inr resp, w')" "projection_of (mo_household (plan_options S p rq)) w = Inr pr"
  shows "projection_of (mo_household (plan_options S p rq)) w' = Inr (plan_addition S p rq req now g pr)"
proof (cases rq)
  case (Review i)
  with assms(1) obtain e where "review_event S p i req now = Inr e" "change_projection (hi_household i) (add_event e g) w = (Inr (), w')"
    by (auto simp: plan_options_def review_options_def household_mutation_def elim!: action_elims)
  with assms(2) Review show ?thesis
    by (simp add: plan_options_def review_options_def household_mutation_def plan_addition_def change_projection_result)
next
  case (Propose i)
  with assms(1) obtain q where "proposal_for S p i req now = Inr q" "change_projection (hi_household i) (add_proposal q g) w = (Inr (), w')"
    by (auto simp: plan_options_def proposal_options_def household_mutation_def elim!: action_elims)
  with assms(2) Propose show ?thesis
    by (simp add: plan_options_def proposal_options_def household_mutation_def plan_addition_def change_projection_result)
next
  case (Withdraw i)
  with assms(1) obtain e where "withdrawal_event S p i req now = Inr e" "change_projection (hi_household i) (add_event e g) w = (Inr (), w')"
    by (auto simp: plan_options_def withdrawal_options_def household_mutation_def elim!: action_elims)
  with assms(2) Withdraw show ?thesis
    by (simp add: plan_options_def withdrawal_options_def household_mutation_def plan_addition_def change_projection_result)
qed

lemma plan_first_call:
  assumes "plan_call S p c rq w = (Inr res, w')" "first_call (plan_options S p rq) c w"
    and "projection_of (mo_household (plan_options S p rq)) w = Inr pr"
  obtains w1 changes where "projection_of (mo_household (plan_options S p rq)) w1 = Inr pr" "business w1 = business w"
    "mo_build (plan_options S p rq) (ca_request c) (ca_now c) w1 = (Inr changes, w1)"
    "projection_of (mo_household (plan_options S p rq)) w' = Inr (plan_addition S p rq (ca_request c) (ca_now c) (res_head res) pr)"
proof -
  have run: "run (sv_codec S) (plan_options S p rq) (ca_at c) (ca_request c) (ca_now c) w = (Inr res, w')"
    using plan_call_runs [OF assms(1)] by (simp add: run_mutation_def)
  have first: "unused_request (mo_household (plan_options S p rq)) (ca_request c) w" "existing_mutation (plan_options S p rq) w = None"
    using assms(2) by (simp_all add: first_call_def)
  show thesis
    by (rule fresh_projection [OF plan_framed first plan_reads_only run assms(3),
          where f = "\<lambda>g. plan_addition S p rq (ca_request c) (ca_now c) g pr"])
      (use plan_applied that in blast)+
qed

lemma checked_event_simps: "checked_event S d e req = Inr e' \<Longrightarrow> me_week e' = me_week e \<and> me_kind e' = me_kind e"
  by (auto simp: checked_event_def and_then_Inr_iff Let_def parsed_mutation_id_def parsed_def)

lemma proposal_date: "proposal_for S p i req now = Inr q \<Longrightarrow> length (mp_date q) = 10"
  by (auto simp: proposal_for_def and_then_Inr_iff Let_def parsed_def meal_proposal_ok_def proposal_issues_def
      meal_date_falls_within_week_def iso_day_def date_parts_def split: if_splits option.splits)

lemma plan_addition_bounds:
  assumes "mo_build (plan_options S p rq) req now w = (Inr changes, w)" "projection_of (mo_household (plan_options S p rq)) w = Inr pr"
    and "plan_within_bounds pr"
  shows "plan_within_bounds (plan_addition S p rq req now g pr)"
proof (cases rq)
  case (Review i)
  with assms(1,2) obtain e where "review_event S p i req now = Inr e" "plan_review i pr e = Inr ()"
    by (auto simp: plan_options_def review_options_def household_mutation_def elim!: action_elims)
  moreover have "me_week e = re_week i \<and> is_review e"
    using calculation(1) checked_event_simps by (fastforce simp: review_event_def is_review_def)
  ultimately show ?thesis
    using assms(3) Review by (auto simp: plan_addition_def plan_review_def and_then_Inr_iff intro!: add_event_bounds)
next
  case (Propose i)
  with assms(1,2) obtain q where "proposal_for S p i req now = Inr q" "plan_proposal pr q = Inr ()"
    by (auto simp: plan_options_def proposal_options_def household_mutation_def elim!: action_elims)
  then show ?thesis using assms(3) Propose proposal_date by (auto simp: plan_addition_def intro!: add_proposal_bounds)
next
  case (Withdraw i)
  with assms(1,2) obtain e where "withdrawal_event S p i req now = Inr e"
    "assert_meal_event_capacity (map fst (vals (pr_events pr))) (wi_week i) False = Inr ()"
    by (auto simp: plan_options_def withdrawal_options_def household_mutation_def require_withdrawable_def and_then_Inr_iff
        split: option.splits elim!: action_elims)
  moreover have "me_week e = wi_week i \<and> \<not> is_review e"
    using calculation(1) checked_event_simps by (fastforce simp: withdrawal_event_def is_review_def)
  ultimately show ?thesis using assms(3) Withdraw by (auto simp: plan_addition_def intro!: add_event_bounds)
qed

lemma lookup_map_value: "lookup (map (\<lambda>(k, v). (k, f v)) m) i = map_option f (lookup m i)"
  by (induction m) auto

lemma lookup_projected:
  "lookup (projected_revisions pr) i = map_option snd (lookup (pr_items pr) i)"
  "lookup (projected_items pr) i = map_option fst (lookup (pr_items pr) i)"
  using lookup_map_value [of snd] lookup_map_value [of fst]
  by (simp_all add: projected_revisions_def projected_items_def case_prod_unfold)

definition items_keyed :: "projection \<Rightarrow> bool" where
  "items_keyed pr \<longleftrightarrow> (\<forall>(k, i, r)\<in>set (pr_items pr). k = item_id_of i)"

lemma proposal_source_current:
  assumes "validate_meal_proposal_source q (projected_items pr) (pr_evidence pr) (projected_revisions pr) = Inr ()" "items_keyed pr"
    and "source_item (mp_source q) = Some (i, r)"
  shows "map_option snd (lookup (pr_items pr) i) = Some r"
proof -
  have key: "item_id_of item = i" if "lookup (pr_items pr) i = Some (item, g)" for item g
    using assms(2) map_of_SomeD [OF that] by (auto simp: items_keyed_def)
  show ?thesis
    using assms(1,3) key
    by (auto simp: validate_meal_proposal_source_def source_item_def lookup_projected and_then_Inr_iff
        split: meal_source.splits option.splits journal_item.splits)
qed

lemma bounded_week_is_read:
  assumes "projection_of (pq_household i) w = Inr pr" "plan_within_bounds pr"
  shows "get_meal_plan S p i w \<noteq> Inl drift"
proof -
  have "assert_meal_plan_read_bounds
      (sort_key (\<lambda>q. collation_key (sv_codec S) (mp_id q)) (filter (\<lambda>q. mp_week q = pq_week i) (map fst (vals (pr_proposals pr)))))
      (sort_key (\<lambda>e. collation_key (sv_codec S) (me_id e)) (filter (\<lambda>e. me_week e = pq_week i) (map fst (vals (pr_events pr))))) = Inr ()"
    using assms(2) by (subst read_bounds_mset [OF mset_sort mset_sort]) (simp add: plan_within_bounds_def week_proposals_def week_events_def)
  then show ?thesis using assms(1)
    by (auto simp: get_meal_plan_def Let_def and_then_Inl_iff parsed_def zod_error_def drift_def require_scope_def member_of_def
        require_membership_def required_household_def repository_head_def get_repository_def page_start_def invalid_def
        split: if_splits option.splits)
qed


section \<open>Owners\<close>

definition has_owner :: "household_id \<Rightarrow> op_store \<Rightarrow> bool" where
  "has_owner h s \<longleftrightarrow> (\<exists>u m. get_membership h u s = Some m \<and> m_role m = Owner)"

lemma active_owners_list: "active_owner_count h s = length (filter (\<lambda>m. m_role m = Owner) (list_household_memberships h s))"
  by (simp add: active_owner_count_def list_household_memberships_def conj_ac)

lemma listed_membership:
  assumes "memberships_ok s"
  shows "m \<in> set (list_household_memberships h s) \<longleftrightarrow> get_membership h (m_user m) s = Some m"
proof
  assume "m \<in> set (list_household_memberships h s)"
  then obtain k where "(k, m) \<in> set (st_memberships s)" "m_household m = h" "m_removed m = None"
    by (auto simp: list_household_memberships_def)
  moreover from this assms have "k = (h, m_user m)" by (auto simp: memberships_ok_def)
  ultimately show "get_membership h (m_user m) s = Some m"
    using assms by (simp add: memberships_ok_def get_membership_def lookup_in_set [symmetric])
next
  assume "get_membership h (m_user m) s = Some m"
  then have "((h, m_user m), m) \<in> set (st_memberships s)" "m_removed m = None"
    using assms by (auto simp: memberships_ok_def get_membership_def dest: map_of_SomeD split: option.splits if_splits)
  moreover from this(1) assms have "m_household m = h" by (auto simp: memberships_ok_def)
  ultimately show "m \<in> set (list_household_memberships h s)" by (force simp: list_household_memberships_def)
qed

lemma membership_user: "memberships_ok s \<Longrightarrow> get_membership h u s = Some m \<Longrightarrow> m_user m = u \<and> m_household m = h"
  by (auto simp: memberships_ok_def get_membership_def dest!: map_of_SomeD split: option.splits if_splits)

lemma has_owner_count: "memberships_ok s \<Longrightarrow> has_owner h s \<longleftrightarrow> 0 < active_owner_count h s"
proof -
  assume ok: "memberships_ok s"
  have "0 < active_owner_count h s \<longleftrightarrow> (\<exists>m\<in>set (list_household_memberships h s). m_role m = Owner)"
    by (simp add: active_owners_list filter_empty_conv)
  also have "\<dots> \<longleftrightarrow> has_owner h s"
    unfolding has_owner_def using listed_membership [OF ok] membership_user [OF ok] by blast
  finally show ?thesis by blast
qed

lemma has_owner_refresh: "memberships_ok s \<Longrightarrow> has_owner h (refresh_members h g s) = has_owner h s"
proof -
  have eq: "(\<exists>m. map_option (\<lambda>m. m\<lparr>m_head := g\<rparr>) x = Some m \<and> m_role m = Owner) \<longleftrightarrow> (\<exists>m. x = Some m \<and> m_role m = Owner)" for x
    by (cases x) auto
  show "memberships_ok s \<Longrightarrow> ?thesis" by (simp only: has_owner_def get_membership_refresh eq)
qed

lemma has_owner_cong: "st_memberships s = st_memberships s' \<Longrightarrow> has_owner h s = has_owner h s'"
  by (simp add: has_owner_def get_membership_def)

lemma memberships_ok_cong: "st_memberships s = st_memberships s' \<Longrightarrow> memberships_ok s = memberships_ok s'"
  by (simp add: memberships_ok_def)

lemma memberships_ok_upsert: "memberships_ok s \<Longrightarrow> memberships_ok (upsert_membership m s)"
  using set_put_subset by (fastforce simp: memberships_ok_def upsert_membership_def map_ok_put)

lemma other_owner:
  assumes "memberships_ok s" "1 < active_owner_count h s"
  shows "\<exists>u m'. u \<noteq> m_user m \<and> get_membership h u s = Some m' \<and> m_role m' = Owner"
proof -
  let ?owners = "filter (\<lambda>m. m_role m = Owner) (list_household_memberships h s)"
  have "distinct (map (\<lambda>m. (m_household m, m_user m)) ?owners)"
    using list_household_memberships_keys [OF assms(1)] by (rule distinct_map_filter)
  then have d: "distinct (map m_user ?owners)"
    by (auto simp: distinct_map inj_on_def list_household_memberships_def)
  have "1 < card (m_user ` set ?owners)"
    using assms(2) distinct_card [OF d] by (simp add: active_owners_list)
  then have "\<not> m_user ` set ?owners \<subseteq> {m_user m}"
    by (metis card_mono card.empty card_insert_disjoint empty_iff finite.emptyI finite.insertI linorder_not_less One_nat_def)
  then show ?thesis using listed_membership [OF assms(1)] by fastforce
qed

lemma upsert_keeps_owner:
  assumes "memberships_ok s" "0 < active_owner_count (m_household m') s" "get_membership h (m_user m) s = Some m"
    and "m_household m' = h" "m_user m' = m_user m"
    and "m_role m \<noteq> Owner \<or> (m_role m' = Owner \<and> m_removed m' = None) \<or> 1 < active_owner_count h s"
  shows "has_owner h (upsert_membership m' s)"
proof -
  have after: "get_membership h u (upsert_membership m' s) =
      (if u = m_user m then if m_removed m' = None then Some m' else None else get_membership h u s)" for u
    using assms(4,5) by (simp add: get_membership_def upsert_membership_def)
  consider "m_role m' = Owner \<and> m_removed m' = None" | "m_role m \<noteq> Owner" | "1 < active_owner_count h s" using assms(6) by blast
  then show ?thesis
  proof cases
    case 1
    then show ?thesis using after [of "m_user m"] by (auto simp: has_owner_def)
  next
    case 2
    have "has_owner h s" using assms(2,4) has_owner_count [OF assms(1), of h] by simp
    then obtain u x where x: "get_membership h u s = Some x" "m_role x = Owner" unfolding has_owner_def by blast
    with 2 assms(3) have "u \<noteq> m_user m" by auto
    then show ?thesis using x after [of u] by (auto simp: has_owner_def)
  next
    case 3
    from other_owner [OF assms(1) this, of m] obtain u x where "u \<noteq> m_user m" "get_membership h u s = Some x" "m_role x = Owner" by blast
    then show ?thesis using after [of u] by (auto simp: has_owner_def)
  qed
qed

definition owner_state :: "household_id \<Rightarrow> op_store \<Rightarrow> bool" where
  "owner_state h s \<longleftrightarrow> memberships_ok s \<and> has_owner h s"

lemma memberships_ok_refresh: "memberships_ok s \<Longrightarrow> memberships_ok (refresh_members h g s)"
proof -
  have "memberships_ok (fold (\<lambda>m. upsert_membership (m\<lparr>m_head := g\<rparr>)) ms t)" if "memberships_ok t" for ms t
    using that by (induction ms arbitrary: t) (simp_all add: memberships_ok_upsert)
  then show "memberships_ok s \<Longrightarrow> ?thesis" by (simp add: refresh_members_def)
qed

lemma owner_state_projected:
  assumes "projected_from mo b b'" "owner_state h b" "mo_household mo = h"
    and step: "\<And>w g req now r w4. business w = b \<Longrightarrow> mo_apply mo g req now w = (r, w4) \<Longrightarrow> owner_state h (business w4)"
  shows "owner_state h b'"
proof -
  have cong: "owner_state h s = owner_state h (s\<lparr>st_mutations := []\<rparr>)" for s
    unfolding owner_state_def using has_owner_cong [of s "s\<lparr>st_mutations := []\<rparr>"] memberships_ok_cong [of s "s\<lparr>st_mutations := []\<rparr>"] by simp
  have refresh: "owner_state h s \<Longrightarrow> owner_state h (refresh_members h g s)" for g s
    by (simp add: owner_state_def has_owner_refresh memberships_ok_refresh)
  have head: "owner_state h s \<Longrightarrow> update_household_head h g s = Inr s' \<Longrightarrow> owner_state h s'" for g s s'
    unfolding owner_state_def using has_owner_cong [of s' s] memberships_ok_cong [of s' s]
    by (auto simp: update_household_head_def update_household_def split: option.splits)
  show ?thesis
    using assms(1) unfolding projected_from_def
  proof (elim disjE exE conjE)
    fix w g req now r w4 s
    assume *: "business w = b" "mo_apply mo g req now w = (r, w4)" "update_household_head (mo_household mo) g (w_store w4) = Inr s"
      "b' = (refresh_members (mo_household mo) g s)\<lparr>st_mutations := []\<rparr>"
    have "owner_state h (w_store w4)" using step [OF *(1,2)] cong [of "w_store w4"] by (simp add: business_def)
    from refresh [OF head [OF this]] *(3,4) cong assms(3) show ?thesis by metis
  qed (use assms(2) step in auto)
qed

lemma found_member:
  assumes "member_by_actor h a w = Some m" "memberships_ok (w_store w)"
  shows "get_membership h (m_user m) (w_store w) = Some m" "m_household m = h" "m_removed m = None"
proof -
  have m: "m \<in> set (list_household_memberships h (w_store w))"
    using assms(1) by (auto simp: member_by_actor_def dest!: find_Some_iff)
  then show "get_membership h (m_user m) (w_store w) = Some m" "m_household m = h" "m_removed m = None"
    using listed_membership [OF assms(2), of m h] by (simp_all add: list_household_memberships_def)
qed

lemma written_member_keeps_owner:
  assumes "owner_state h (business w)" "member_by_actor h a w = Some m" "assert_final_owner h m remains w = Inr ()"
    and "m_household m' = h" "m_user m' = m_user m" "remains \<longrightarrow> m_role m' = Owner \<and> m_removed m' = None"
  shows "owner_state h (upsert_membership m' (business w))"
proof -
  have ok: "memberships_ok (business w)" using assms(1) by (simp add: owner_state_def)
  have ok': "memberships_ok (w_store w)" using ok by (simp add: business_def memberships_ok_def)
  have same: "get_membership h u (business w) = get_membership h u (w_store w)" "active_owner_count h (business w) = active_owner_count h (w_store w)" for u
    by (simp_all add: business_def get_membership_def active_owner_count_def)
  have "m_role m \<noteq> Owner \<or> remains \<or> 1 < active_owner_count h (w_store w)"
    using assms(3) by (auto simp: assert_final_owner_def active_owners_list split: if_splits)
  then show ?thesis
    using upsert_keeps_owner [OF ok, of m' h m] assms found_member [OF assms(2) ok'] has_owner_count [OF ok] same
    by (auto simp: owner_state_def memberships_ok_upsert)
qed


lemma member_change_keeps_owner:
  assumes "owner_state h (business w)" "member_by_actor h a w = Some m" "assert_final_owner h m remains w = Inr ()"
    and "mo_household mo = h" "\<And>req now. reads_only (mo_build mo req now)"
    and applied: "\<And>w3 g req now r w4. mo_apply mo g req now w3 = (r, w4) \<Longrightarrow> \<exists>m'. business w4 = upsert_membership m' (business w3) \<and>
      m_household m' = m_household m \<and> m_user m' = m_user m \<and> (remains \<longrightarrow> m_role m' = Owner \<and> m_removed m' = m_removed m)"
  shows "owner_state h (business (snd (run_mutation S c mo w)))"
proof (rule owner_state_projected [OF _ assms(1,4)])
  show "projected_from mo (business w) (business (snd (run_mutation S c mo w)))"
    unfolding run_mutation_def by (rule run_projected [OF assms(5)])
  fix w3 g req now r w4
  assume "business w3 = business w" "mo_apply mo g req now w3 = (r, w4)"
  moreover from applied [OF this(2)] obtain m' where "business w4 = upsert_membership m' (business w3)"
    "m_household m' = m_household m" "m_user m' = m_user m" "remains \<longrightarrow> m_role m' = Owner \<and> m_removed m' = m_removed m" by blast
  moreover have "memberships_ok (w_store w)"
    using assms(1) by (simp add: owner_state_def business_def memberships_ok_def)
  ultimately show "owner_state h (business w4)"
    using written_member_keeps_owner [OF assms(1-3), of m'] found_member [OF assms(2)] by simp
qed

lemma upserted_business:
  "bind_action (store_update (upsert_membership m)) (\<lambda>_. return x) w = (r, w') \<Longrightarrow> business w' = upsert_membership m (business w)"
  by (auto simp: bind_action_def store_update_def writes_def return_def business_def upsert_membership_def)

lemma update_member_owner:
  assumes "owner_state (hi_household i) (business w)"
  shows "owner_state (hi_household i) (business (snd (update_member S p c i w)))"
proof (cases "parsed (revisioned_input_ok i \<and> str_len 8 128 (mb_actor i))")
  case (Inl e)
  then show ?thesis using assms by (simp add: update_member_def check_def bind_action_def lift_result_def)
next
  case ok: (Inr u)
  show ?thesis
  proof (cases "member_by_actor (hi_household i) (mb_actor i) w")
    case None
    then show ?thesis using assms ok
      by (simp add: update_member_def check_def bind_action_def lift_result_def reads_def throw_def)
  next
    case (Some m)
    show ?thesis
    proof (cases "assert_final_owner (hi_household i) m (mb_role i = Owner) w")
      case (Inl e)
      then show ?thesis using assms ok Some
        by (simp add: update_member_def check_def demand_def bind_action_def lift_result_def reads_def)
    next
      case (Inr v)
      have "owner_state (hi_household i) (business (snd (run_mutation S c (role_options S p i m) w)))"
        using Inr
        by (intro member_change_keeps_owner [OF assms Some])
          (fastforce simp: role_options_def household_mutation_def intro: frame_intros dest: upserted_business)+
      then show ?thesis using ok Some Inr
        by (simp add: update_member_def check_def demand_def bind_action_def lift_result_def reads_def)
    qed
  qed
qed

lemma remove_member_owner:
  assumes "owner_state (hi_household i) (business w)"
  shows "owner_state (hi_household i) (business (snd (remove_member S p c i w)))"
proof (cases "parsed (revisioned_input_ok i \<and> str_len 8 128 (mb_actor i))")
  case (Inl e)
  then show ?thesis using assms by (simp add: remove_member_def check_def bind_action_def lift_result_def)
next
  case ok: (Inr u)
  show ?thesis
  proof (cases "member_by_actor (hi_household i) (mb_actor i) w")
    case None
    then show ?thesis using assms ok
      by (simp add: remove_member_def check_def bind_action_def lift_result_def reads_def throw_def)
  next
    case (Some m)
    show ?thesis
    proof (cases "assert_final_owner (hi_household i) m False w")
      case (Inl e)
      then show ?thesis using assms ok Some
        by (simp add: remove_member_def check_def demand_def bind_action_def lift_result_def reads_def)
    next
      case (Inr v)
      have "owner_state (hi_household i) (business (snd (run_mutation S c (removal_options S p i m) w)))"
        using Inr
        by (intro member_change_keeps_owner [OF assms Some])
          (fastforce simp: removal_options_def household_mutation_def intro: frame_intros dest: upserted_business)+
      then show ?thesis using ok Some Inr
        by (simp add: remove_member_def check_def demand_def bind_action_def lift_result_def reads_def)
    qed
  qed
qed

lemma owner_state_store:
  assumes "memberships_ok (w_store w)"
  shows "owner_state h (business w) \<longleftrightarrow> 0 < active_owner_count h (w_store w)"
proof -
  have "memberships_ok (business w)" using assms by (simp add: business_def memberships_ok_def)
  moreover have "active_owner_count h (business w) = active_owner_count h (w_store w)" by (simp add: business_def active_owner_count_def)
  ultimately show ?thesis by (simp add: owner_state_def has_owner_count)
qed


section \<open>Citations\<close>

text \<open>Every item of a projection is supported by the evidence of the projection.\<close>

definition citations_hold :: "projection \<Rightarrow> bool" where
  "citations_hold pr \<longleftrightarrow> (\<forall>(k, i, r)\<in>set (pr_items pr). validate_item_evidence i (pr_evidence pr) = Inr ())"

definition evidence_kept :: "projection \<Rightarrow> projection \<Rightarrow> bool" where
  "evidence_kept pr pr' \<longleftrightarrow> (\<forall>e x. lookup (pr_evidence pr) e = Some x \<longrightarrow> lookup (pr_evidence pr') e = Some x)"

lemma set_put_items: "(k, i, r) \<in> set (put_items g is m) \<Longrightarrow> (k, i, r) \<in> set m \<or> i \<in> set is"
proof (induction "is" arbitrary: m)
  case (Cons x xs)
  from Cons.IH [of "put (item_id_of x) (x, g) m"] Cons.prems set_put_subset [of "item_id_of x" "(x, g)" m]
  show ?case by (auto simp: put_items_def)
qed (simp add: put_items_def)

lemma submitted_items_supported:
  assumes "entries_submission pr actor es is reports expected = Inr ()" "i \<in> set is"
  shows "validate_item_evidence i (put_evidence es (pr_evidence pr)) = Inr ()"
proof -
  from assms(1) obtain evs where "validated_prospective_evidence (pr_evidence pr) es actor = Inr evs"
    "each_ok (item_submission_ok pr evs expected) is = Inr ()"
    by (auto simp: entries_submission_def and_then_Inr_iff)
  with assms(2) prospective_is_put show ?thesis
    by (fastforce simp: each_ok_Inr_iff item_submission_ok_def and_then_Inr_iff)
qed

lemma project_entries_citations:
  assumes "citations_hold pr" "validated_prospective_evidence (pr_evidence pr) es actor = Inr evs"
    and "\<And>i. i \<in> set is \<Longrightarrow> validate_item_evidence i (put_evidence es (pr_evidence pr)) = Inr ()"
  shows "citations_hold (project_entries g es is pr)" "evidence_kept pr (project_entries g es is pr)"
proof -
  have kept: "lookup (put_evidence es (pr_evidence pr)) e = Some x" if "lookup (pr_evidence pr) e = Some x" for e x
    using prospective_extends(1) [OF assms(2) that] prospective_is_put [OF assms(2)] by simp
  then show "evidence_kept pr (project_entries g es is pr)" by (simp add: evidence_kept_def project_entries_def)
  have "validate_item_evidence i (put_evidence es (pr_evidence pr)) = Inr ()" if "(k, i, r) \<in> set (put_items g is (pr_items pr))" for k i r
    using set_put_items [OF that] assms(1,3) by (auto simp: citations_hold_def intro: validate_item_mono [OF _ kept])
  then show "citations_hold (project_entries g es is pr)" by (auto simp: citations_hold_def project_entries_def)
qed

lemma entries_submission_evidence:
  "entries_submission pr actor es is reports expected = Inr () \<Longrightarrow> \<exists>evs. validated_prospective_evidence (pr_evidence pr) es actor = Inr evs"
  by (auto simp: entries_submission_def and_then_Inr_iff)

definition projection_is :: "household_id \<Rightarrow> failure + projection \<Rightarrow> world \<Rightarrow> bool" where
  "projection_is h x w \<longleftrightarrow> projection_of h w = x"

lemma keeps_projection_update: "(\<And>s. st_projections (f s) = st_projections s) \<Longrightarrow> keeps (projection_is h x) (store_update f)"
  by (simp add: keeps_def projection_is_def projection_of_def get_projection_def store_update_def writes_def)

lemma keeps_projection_transition [keeps_intros]: "keeps (projection_is h x) (transition req st u now)"
proof -
  have "projection_is h x = business_is (\<lambda>b. get_projection h b = x)"
    by (intro ext) (simp add: projection_is_def business_is_def business_def projection_of_def get_projection_def)
  then show ?thesis using keeps_business_transition by metis
qed

lemma keeps_projection_set_onboarding [keeps_intros]: "keeps (projection_is h x) (set_onboarding r n)"
  by (auto simp: keeps_def projection_is_def projection_of_def get_projection_def set_onboarding_def compare_and_set_onboarding_def Let_def
      split: prod.split bool.split)

lemma keeps_projection_skips: "keeps (projection_is h x) (apply_skips u h' t rs ks)"
  by (induction u h' t rs ks rule: apply_skips.induct) (auto intro!: keeps_intros simp: check_def split: option.split)

lemma applied_skips_projection:
  assumes "apply_onboarding_skips u h' ks t w = (r, w')"
  shows "projection_of h w' = projection_of h w"
  using keepsD [OF keeps_projection_skips, of h "projection_of h w"] assms
  by (auto simp: apply_onboarding_skips_def projection_is_def reads_def bind_action_def) (metis snd_conv)

datatype entry_request = AppendEvidence append_input | CommitChangeSet change_set | CommitSetup setup_input

definition entry_options :: "service \<Rightarrow> principal \<Rightarrow> entry_request \<Rightarrow> mutation_options" where
  "entry_options S p rq = (case rq of AppendEvidence i \<Rightarrow> append_options S p i | CommitChangeSet i \<Rightarrow> change_set_options S p i
     | CommitSetup i \<Rightarrow> setup_options S p i)"

definition entry_call :: "service \<Rightarrow> principal \<Rightarrow> call \<Rightarrow> entry_request \<Rightarrow> mutation_result journal_action" where
  "entry_call S p c rq = (case rq of AppendEvidence i \<Rightarrow> append_evidence S p c i | CommitChangeSet i \<Rightarrow> commit_change_set S p c i
     | CommitSetup i \<Rightarrow> commit_onboarding S p c i)"

definition entry_addition :: "entry_request \<Rightarrow> git_object_id \<Rightarrow> projection \<Rightarrow> projection" where
  "entry_addition rq g pr = (case rq of AppendEvidence i \<Rightarrow> project_entries g (ap_evidence i) [] pr
     | CommitChangeSet i \<Rightarrow> project_entries g (cg_evidence i) (cg_items i) pr
     | CommitSetup i \<Rightarrow> put_profiles g (su_profiles i) (project_entries g (su_evidence i) (su_items i) pr))"

lemma entry_framed: "callbacks_framed (entry_options S p rq)"
  by (cases rq) (simp_all add: entry_options_def entries_framed setup_framed)

lemma entry_reads_only: "reads_only (mo_build (entry_options S p rq) req now)"
  by (cases rq) (auto simp: entry_options_def append_options_def change_set_options_def setup_options_def household_mutation_def
      intro!: frame_intros)

lemma entry_applied:
  assumes "mo_apply (entry_options S p rq) g req now w = (Inr resp, w')" "projection_of (mo_household (entry_options S p rq)) w = Inr pr"
  shows "projection_of (mo_household (entry_options S p rq)) w' = Inr (entry_addition rq g pr)"
proof (cases rq)
  case (AppendEvidence i)
  with assms(1) have "change_projection (hi_household i) (project_entries g (ap_evidence i) []) w = (Inr (), w')"
    by (auto simp: entry_options_def append_options_def household_mutation_def elim!: action_elims)
  with assms(2) AppendEvidence show ?thesis
    by (simp add: entry_options_def append_options_def household_mutation_def entry_addition_def change_projection_result)
next
  case (CommitChangeSet i)
  with assms(1) have "change_projection (hi_household i) (project_entries g (cg_evidence i) (cg_items i)) w = (Inr (), w')"
    by (auto simp: entry_options_def change_set_options_def household_mutation_def elim!: action_elims)
  with assms(2) CommitChangeSet show ?thesis
    by (simp add: entry_options_def change_set_options_def household_mutation_def entry_addition_def change_projection_result)
next
  case (CommitSetup i)
  with assms(1) obtain w1 where "change_projection (hi_household i) (\<lambda>pr. put_profiles g (su_profiles i) (project_entries g (su_evidence i) (su_items i) pr)) w = (Inr (), w1)"
    "apply_onboarding_skips (p_user p) (hi_household i) (skips_of (su_sections i)) now w1 = (Inr (), w')"
    by (auto simp: entry_options_def setup_options_def household_mutation_def elim!: action_elims)
  with assms(2) CommitSetup show ?thesis
    using applied_skips_projection [of _ _ _ _ w1 _ w' "hi_household i"]
    by (simp add: entry_options_def setup_options_def household_mutation_def entry_addition_def change_projection_result)
qed

lemma entry_addition_citations:
  assumes "mo_build (entry_options S p rq) req now w = (Inr changes, w)" "projection_of (mo_household (entry_options S p rq)) w = Inr pr"
    and "citations_hold pr"
  shows "citations_hold (entry_addition rq g pr) \<and> evidence_kept pr (entry_addition rq g pr)"
proof (cases rq)
  case (AppendEvidence i)
  with assms(1,2) obtain evs where "validated_prospective_evidence (pr_evidence pr) (ap_evidence i) (p_actor p) = Inr evs"
    by (auto simp: entry_options_def append_options_def household_mutation_def elim!: action_elims)
  from project_entries_citations [OF assms(3) this, of "[]"] AppendEvidence show ?thesis by (simp add: entry_addition_def)
next
  case (CommitChangeSet i)
  with assms(1,2) have ok: "entries_submission pr (p_actor p) (cg_evidence i) (cg_items i) (cg_reports i) (cg_revisions i) = Inr ()"
    by (auto simp: entry_options_def change_set_options_def household_mutation_def elim!: action_elims)
  from entries_submission_evidence [OF this] obtain evs where "validated_prospective_evidence (pr_evidence pr) (cg_evidence i) (p_actor p) = Inr evs" by blast
  from project_entries_citations [OF assms(3) this submitted_items_supported [OF ok]] CommitChangeSet show ?thesis
    by (simp add: entry_addition_def)
next
  case (CommitSetup i)
  with assms(1,2) have ok: "entries_submission pr (p_actor p) (su_evidence i) (su_items i) (su_reports i) (su_revisions i) = Inr ()"
    by (auto simp: entry_options_def setup_options_def household_mutation_def elim!: action_elims)
  from entries_submission_evidence [OF this] obtain evs where "validated_prospective_evidence (pr_evidence pr) (su_evidence i) (p_actor p) = Inr evs" by blast
  from project_entries_citations [OF assms(3) this submitted_items_supported [OF ok], where g = g] CommitSetup show ?thesis
    by (simp add: entry_addition_def put_profiles_def citations_hold_def evidence_kept_def)
qed


lemma keeps_projection_locked:
  assumes "\<And>req. keeps (projection_is h x) (inner req)" "\<And>req y. keeps (projection_is h x) (outer req y)"
  shows "keeps (projection_is h x) (locked_operation p tool key f at inner outer)"
proof -
  have "keeps (projection_is h x) (\<lambda>w. case inner req w of (Inr y, w') \<Rightarrow> outer req y w' | (Inl e, w') \<Rightarrow> fail_before_commit req at e w')" for req
    unfolding keeps_def
  proof (intro allI impI)
    fix w assume w: "projection_is h x w"
    obtain r w' where i: "inner req w = (r, w')" by fastforce
    have w': "projection_is h x w'" using keepsD [OF assms(1) w, of req] i by simp
    have "keeps (projection_is h x) (fail_before_commit req at e)" for e
      unfolding fail_before_commit_def by (intro keeps_intros)
    then show "projection_is h x (snd (case inner req w of (Inr y, w') \<Rightarrow> outer req y w' | (Inl e, w') \<Rightarrow> fail_before_commit req at e w'))"
      using i keepsD [OF assms(2) w'] keepsD [where P = "projection_is h x", OF _ w'] by (auto split: sum.split)
  qed
  then show ?thesis
    unfolding locked_operation_def check_def by (intro keeps_intros) (auto intro!: keeps_intros split: option.split)
qed

lemma keeps_projection_operational:
  assumes "\<And>t. keeps (projection_is h x) (body t)"
  shows "keeps (projection_is h x) (operational_call p tool h' key f recovery c body)"
proof -
  have "keeps (projection_is h x) (settle oc)" for oc
    by (cases oc) (simp_all add: settle_def keeps_intros)
  then show ?thesis
    unfolding operational_call_def check_def demand_def
    by (intro keeps_intros keeps_projection_update assms) (simp add: save_mutation_def)
qed

lemma skips_projection: "keeps (projection_is h x) (commit_onboarding_skips S p c i)"
  unfolding commit_onboarding_skips_def Let_def check_def demand_def finish_operation_def apply_onboarding_skips_def
  by (intro keeps_intros keeps_projection_operational keeps_projection_locked keeps_projection_skips)

lemma entry_call_runs:
  assumes "entry_call S p c rq w = (Inr res, w')"
  shows "run_mutation S c (entry_options S p rq) w = (Inr res, w') \<or> (\<forall>h. projection_of h w' = projection_of h w)"
proof (cases rq)
  case (CommitSetup i)
  show ?thesis
  proof (cases "su_profiles i = [] \<and> su_evidence i = [] \<and> su_items i = [] \<and> su_reports i = []")
    case True
    then have "commit_onboarding_skips S p c i w = (Inr res, w')"
      using assms CommitSetup by (auto simp: entry_call_def commit_onboarding_def dest!: checked_call)
    then show ?thesis
      using keepsD [OF skips_projection, of h "projection_of h w" w for h] by (auto simp: projection_is_def) (metis snd_conv)
  next
    case False
    then show ?thesis using assms CommitSetup
      by (auto simp: entry_call_def entry_options_def commit_onboarding_def elim!: action_elims split: if_splits)
  qed
qed (use assms in \<open>auto simp: entry_call_def entry_options_def append_evidence_def commit_change_set_def dest!: checked_call\<close>)

lemma entry_first_call:
  assumes "entry_call S p c rq w = (Inr res, w')" "first_call (entry_options S p rq) c w"
    and pr: "projection_of (mo_household (entry_options S p rq)) w = Inr pr" and ok: "citations_hold pr"
  shows "\<exists>pr'. projection_of (mo_household (entry_options S p rq)) w' = Inr pr' \<and> citations_hold pr' \<and> evidence_kept pr pr'"
  using entry_call_runs [OF assms(1)]
proof
  assume "run_mutation S c (entry_options S p rq) w = (Inr res, w')"
  then have run: "run (sv_codec S) (entry_options S p rq) (ca_at c) (ca_request c) (ca_now c) w = (Inr res, w')"
    by (simp add: run_mutation_def)
  have first: "unused_request (mo_household (entry_options S p rq)) (ca_request c) w" "existing_mutation (entry_options S p rq) w = None"
    using assms(2) by (simp_all add: first_call_def)
  show ?thesis
  proof (rule fresh_projection [OF entry_framed first entry_reads_only run pr, where f = "\<lambda>g. entry_addition rq g pr"])
    show "mo_apply (entry_options S p rq) g (ca_request c) (ca_now c) w3 = (Inr resp, w4) \<Longrightarrow>
        projection_of (mo_household (entry_options S p rq)) w3 = Inr pr \<Longrightarrow>
        projection_of (mo_household (entry_options S p rq)) w4 = Inr (entry_addition rq g pr)" for g w3 resp w4
      by (rule entry_applied)
    fix w1 changes
    assume *: "projection_of (mo_household (entry_options S p rq)) w1 = Inr pr"
      "mo_build (entry_options S p rq) (ca_request c) (ca_now c) w1 = (Inr changes, w1)"
      "projection_of (mo_household (entry_options S p rq)) w' = Inr (entry_addition rq (res_head res) pr)"
    then show ?thesis using entry_addition_citations [OF *(2,1) ok] by blast
  qed
qed (use pr ok in \<open>auto simp: evidence_kept_def\<close>)

section \<open>Shares\<close>

lemma revoked_share_stored:
  assumes "revoke_share S p c i w = (Inr res, w')" "get_share_by_collection (hi_household i) (us_collection i) (w_store w) = Some sh"
    and "first_call (unshare_options S p i sh) c w"
  shows "st_shares (w_store w') = put (sh_token_hash sh) (sh\<lparr>sh_revoked := Some (ca_now c)\<rparr>) (st_shares (w_store w))"
proof -
  have run: "run (sv_codec S) (unshare_options S p i sh) (ca_at c) (ca_request c) (ca_now c) w = (Inr res, w')"
    using assms(1,2) by (auto simp: revoke_share_def run_mutation_def elim!: action_elims)
  have first: "unused_request (mo_household (unshare_options S p i sh)) (ca_request c) w" "existing_mutation (unshare_options S p i sh) w = None"
    using assms(3) by (simp_all add: first_call_def)
  have ro: "reads_only (mo_build (unshare_options S p i sh) (ca_request c) (ca_now c))"
    by (simp add: unshare_options_def household_mutation_def frame_intros)
  have shares: "st_shares (w_store w) = st_shares (w_store w')" if "business w = business w'" for w w' :: world
    using that by (cases "w_store w"; cases "w_store w'") (simp add: business_def)
  show ?thesis
  proof (rule fresh_run [OF sharing_framed(3) first ro run])
    fix g w3 resp w4 s
    assume *: "business w3 = business w" "mo_apply (unshare_options S p i sh) g (ca_request c) (ca_now c) w3 = (Inr resp, w4)"
      "update_household_head (mo_household (unshare_options S p i sh)) g (w_store w4) = Inr s"
      "business w' = (refresh_members (mo_household (unshare_options S p i sh)) g s)\<lparr>st_mutations := []\<rparr>"
    have refresh: "st_shares (fold (\<lambda>m. upsert_membership (m\<lparr>m_head := g\<rparr>)) ms t) = st_shares t" for ms t
      by (induction ms arbitrary: t) (simp_all add: upsert_membership_def)
    have "st_shares (w_store w') = st_shares s"
      using arg_cong [OF *(4), of st_shares] by (simp add: business_def refresh_members_def refresh)
    also have "\<dots> = st_shares (w_store w4)"
      using *(3) by (auto simp: update_household_head_def update_household_def split: option.splits)
    also have "\<dots> = put (sh_token_hash sh) (sh\<lparr>sh_revoked := Some (ca_now c)\<rparr>) (st_shares (w_store w3))"
      using *(2) by (auto simp: unshare_options_def household_mutation_def store_update_def writes_def save_share_def return_def elim!: bind_action_InrE)
    finally show ?thesis using shares [OF *(1)] by simp
  qed
qed

end
