(* ===== verification/JournalSafety.thy ===== *)
theory JournalSafety
  imports JournalEffects
begin

text \<open>
  What the tools of the journal guarantee, with a small household that serves the witnesses.
\<close>

section \<open>A household\<close>

definition home_host :: host where
  "home_host = \<lparr>valid_date = (\<lambda>s. True), valid_datetime = (\<lambda>s. True), valid_zod_url = (\<lambda>s. True), parse_url = (\<lambda>s. None),
     lower_case = id, time_zones = (\<lambda>s. True)\<rparr>"

definition home_service :: service where
  "home_service = \<lparr>sv_codec = \<lparr>sha256 = (\<lambda>s. replicate 40 (CHR ''a'')), collation_key = map of_char\<rparr>, sv_host = home_host,
     sv_hash = (\<lambda>s. replicate 64 (CHR ''b'')), sv_origin = ''https://fullwell.test''\<rparr>"

definition home_id :: household_id where "home_id = ''hsh_0000000000000000''"
definition home_head :: git_object_id where "home_head = replicate 40 (CHR ''0'')"

definition home_principal :: principal where
  "home_principal = \<lparr>p_user = ''u'', p_actor = ''act_0000000000000000'', p_display = ''Ada'',
     p_scopes = [JournalRead, JournalWrite, HouseholdManage, CollectionShare], p_client = TestClient\<rparr>"

definition home_call :: call where
  "home_call = \<lparr>ca_request = ''r'', ca_now = 0, ca_at = (\<lambda>_. 9)\<rparr>"

definition home_member :: "user_id \<Rightarrow> actor_id \<Rightarrow> role \<Rightarrow> membership" where
  "home_member u a r = \<lparr>m_household = home_id, m_user = u, m_actor = a, m_role = r, m_head = home_head, m_removed = None\<rparr>"

definition home_world :: "projection \<Rightarrow> share_record list \<Rightarrow> world" where
  "home_world pr shs = \<lparr>w_store = empty_store\<lparr>
       st_households := [(home_id, \<lparr>h_id = home_id, h_name = ''Home'', h_head = home_head, h_provisioning = Ready, h_created = 0\<rparr>)],
       st_memberships := [((home_id, ''u''), home_member ''u'' ''act_0000000000000000'' Owner), ((home_id, ''v''), home_member ''v'' ''act_1111111111111111'' Editor)],
       st_shares := map (\<lambda>s. (sh_token_hash s, s)) shs, st_projections := [(home_id, pr)]\<rparr>,
     w_repos = [(home_id, \<lparr>git_head = home_head, git_files = [], git_revisions = [], git_commits = []\<rparr>)]\<rparr>"

lemma home_world_simps [simp]:
  "w_repos (home_world pr shs) = [(home_id, \<lparr>git_head = home_head, git_files = [], git_revisions = [], git_commits = []\<rparr>)]"
  "st_mutations (w_store (home_world pr shs)) = []" "projection_of home_id (home_world pr shs) = Inr pr"
  by (simp_all add: home_world_def empty_store_def projection_of_def get_projection_def)

lemma home_first_call: "mo_household mo = home_id \<Longrightarrow> first_call mo home_call (home_world pr shs)"
  by (simp add: first_call_def unused_request_def mutations_ok_def map_ok_def request_ids_def mutations_of_def existing_mutation_lookup
      find_commit_by_request_id_def get_repository_def)

lemma home_head_read: "repository_head home_id (w_repos (home_world pr shs)) = Inr home_head"
  by (simp add: repository_head_def get_repository_def)

lemma home_authority:
  assumes "mo_principal mo = home_principal" "mo_household mo = home_id" "mo_append mo \<or> mo_expected mo = Some home_head"
    "mo_min_role mo \<in> {Some Editor, Some Owner}"
  shows "check_authority mo (home_world pr shs) home_head = Inr ()"
proof -
  have "require_membership (w_store (home_world pr shs)) home_principal home_id minimum = Inr (home_member ''u'' ''act_0000000000000000'' Owner)" for minimum
    by (cases minimum) (simp_all add: require_membership_def get_membership_def get_household_def home_world_def home_principal_def
        home_member_def rank_def empty_store_def)
  then show ?thesis using assms by (auto simp: check_authority_def home_member_def guard_def)
qed

text \<open>A commit of acceptable changes to the empty repository succeeds.\<close>

lemma home_commit:
  assumes "\<And>c. c \<in> set changes \<Longrightarrow> validate_repository_path (ch_path c) = Inr ()"
  shows "\<exists>t rs. commit C home_id home_head changes m (w_repos (home_world pr shs)) = Inr (sha256 C t, rs)"
proof -
  have "each_ok (change_allowed \<lparr>git_head = home_head, git_files = [], git_revisions = [], git_commits = []\<rparr>) changes = Inr ()"
    using assms by (simp add: each_ok_Inr_iff change_allowed_def)
  then show ?thesis by (auto simp: commit_def get_repository_def commit_repository_def committed_def digest_parts_def Let_def)
qed

lemma home_run_where:
  assumes "callbacks_framed mo" "mo_principal mo = home_principal" "mo_household mo = home_id" "mo_append mo \<or> mo_expected mo = Some home_head"
    and "mo_min_role mo \<in> {Some Editor, Some Owner}" "mo_scope mo \<in> set (p_scopes home_principal)" "mo_recovery mo = []"
    and "\<And>w1. business w1 = business (home_world pr shs) \<Longrightarrow> w_repos w1 = w_repos (home_world pr shs) \<Longrightarrow> mo_build mo ''r'' 0 w1 = (Inr changes, w1)"
    and "mo_append mo \<longrightarrow> (\<exists>c. changes = [c] \<and> ch_append_only c)" "\<And>c. c \<in> set changes \<Longrightarrow> validate_repository_path (ch_path c) = Inr ()"
    and "\<And>t. Q (sha256 (sv_codec S) t)"
    and "\<And>g w3. Q g \<Longrightarrow> business w3 = business (home_world pr shs) \<Longrightarrow>
      \<exists>resp w4. mo_apply mo g ''r'' 0 w3 = (Inr resp, w4) \<and> get_household home_id (w_store w4) \<noteq> None"
  shows "\<exists>res w'. run_mutation S home_call mo (home_world pr shs) = (Inr res, w')"
proof -
  obtain t rs where commit: "commit (sv_codec S) home_id home_head changes (metadata_of mo ''r'' 0) (w_repos (home_world pr shs)) = Inr (sha256 (sv_codec S) t, rs)"
    using home_commit [OF assms(10)] by blast
  have "replay mo (Some (new_record mo ''r'' 0)) = Inr None"
    using assms(7) by (simp add: replay_def new_record_def recorded_fingerprint_def)
  moreover have "unused_request (mo_household mo) ''r'' (home_world pr shs)" "existing_mutation mo (home_world pr shs) = None"
    using home_first_call [OF assms(3), of pr shs] by (simp_all add: first_call_def home_call_def)
  ultimately show ?thesis
    unfolding run_mutation_def home_call_def call.select_convs
    using assms commit home_head_read [of pr shs] home_authority [of mo pr shs]
    by (intro fresh_run_succeeds [where head = home_head and changes = changes and g = "sha256 (sv_codec S) t" and rs = rs]) auto
qed

lemma home_run:
  assumes "callbacks_framed mo" "mo_principal mo = home_principal" "mo_household mo = home_id" "mo_append mo \<or> mo_expected mo = Some home_head"
    and "mo_min_role mo \<in> {Some Editor, Some Owner}" "mo_scope mo \<in> set (p_scopes home_principal)" "mo_recovery mo = []"
    and "\<And>w1. business w1 = business (home_world pr shs) \<Longrightarrow> w_repos w1 = w_repos (home_world pr shs) \<Longrightarrow> mo_build mo ''r'' 0 w1 = (Inr changes, w1)"
    and "mo_append mo \<longrightarrow> (\<exists>c. changes = [c] \<and> ch_append_only c)" "\<And>c. c \<in> set changes \<Longrightarrow> validate_repository_path (ch_path c) = Inr ()"
    and "\<And>g w3. business w3 = business (home_world pr shs) \<Longrightarrow>
      \<exists>resp w4. mo_apply mo g ''r'' 0 w3 = (Inr resp, w4) \<and> get_household home_id (w_store w4) \<noteq> None"
  shows "\<exists>res w'. run_mutation S home_call mo (home_world pr shs) = (Inr res, w')"
  by (rule home_run_where [where Q = "\<lambda>_. True" and changes = changes]) (use assms in \<open>auto simp: TrueI\<close>)

lemma home_changed:
  assumes "business w = business (home_world pr shs)"
  obtains w' where "change_projection home_id f w = (Inr (), w')" "get_household home_id (w_store w') \<noteq> None"
proof -
  have "st_projections (w_store w) = [(home_id, pr)]" "st_households (w_store w) = st_households (w_store (home_world pr shs))"
    using arg_cong [OF assms, of st_projections] arg_cong [OF assms, of st_households] by (simp_all add: business_def home_world_def)
  then show thesis
    by (intro that [of "w\<lparr>w_store := (w_store w)\<lparr>st_projections := [(home_id, f pr)]\<rparr>\<rparr>"])
      (simp_all add: change_projection_def store_try_def update_or_throw_def get_projection_def get_household_def home_world_def)
qed

lemma home_projection: "business w = business (home_world pr shs) \<Longrightarrow> projection_of home_id w = Inr pr"
  using business_projections by fastforce

section \<open>Meal plans\<close>

definition home_week :: string where "home_week = ''2024-01-01''"

definition home_review :: meal_plan_event where
  "home_review = \<lparr>me_id = ''mle_0000000000000000'', me_week = home_week, me_actor = CloudActor ''act_0000000000000000'',
     me_occurred = ''t'', me_kind = ConstraintsReviewed (HeadRevision home_head)\<rparr>"

definition home_plan :: projection where
  "home_plan = empty_projection\<lparr>pr_meal_profile := Some \<lparr>mpp_constraints = ConfirmedNone ''UTC'' ''t'', mpp_revision = HeadRevision home_head,
       mpp_updated = ''t''\<rparr>, pr_events := [(me_id home_review, (home_review, home_head))]\<rparr>"

definition home_proposal :: proposal_input where
  "home_proposal = \<lparr>hi_household = home_id, hi_key = ''proposal-1'', pi_week = home_week, pi_date = ''2024-01-03'', pi_slot = Dinner,
     pi_source = Freeform ''Soup'', pi_servings = None, pi_notes = None, pi_revision = home_head, pi_review = me_id home_review,
     pi_compatibility = IncompleteEvidence, pi_caveat = ''None known''\<rparr>"

definition home_planned :: meal_proposal where
  "home_planned = \<lparr>mp_id = ''mlp_'' @ replicate 32 (CHR ''b''), mp_week = home_week, mp_date = ''2024-01-03'', mp_slot = Dinner,
     mp_by = CloudActor ''act_0000000000000000'', mp_source = Freeform ''Soup'', mp_servings = None, mp_notes = None,
     mp_constraint = HeadRevision home_head, mp_review_event = me_id home_review, mp_compatibility = IncompleteEvidence,
     mp_caveat = ''None known'', mp_created = iso_text 0\<rparr>"

lemma home_proposal_ok: "parsed (proposal_input_ok home_host home_proposal) = Inr ()"
  by code_simp

lemma home_proposal_for: "proposal_for home_service home_principal home_proposal ''r'' 0 = Inr home_planned"
  by code_simp


lemma home_path: "validate_repository_path (meal_proposal_path home_planned) = Inr ()"
  by code_simp

lemma home_plan_checks: "require_constraints home_plan (pi_revision home_proposal) = Inr ()" "plan_proposal home_plan home_planned = Inr ()"
proof -
  show "require_constraints home_plan (pi_revision home_proposal) = Inr ()" by code_simp
  have "assert_meal_proposal_capacity [] home_planned = Inr ()"
    by (simp add: assert_meal_proposal_capacity_def max_proposals_per_week_def max_proposals_per_slot_def guard_def)
  moreover have "validate_meal_proposal_review home_planned (projected_events home_plan) = Inr ()"
    "validate_meal_proposal_source home_planned (projected_items home_plan) (pr_evidence home_plan) (projected_revisions home_plan) = Inr ()"
    by code_simp+
  ultimately show "plan_proposal home_plan home_planned = Inr ()"
    by (simp add: plan_proposal_def home_plan_def empty_projection_def guard_def)
qed

lemma home_proposes: "\<exists>res w'. add_meal_proposal home_service home_principal home_call home_proposal (home_world home_plan []) = (Inr res, w')"
proof -
  let ?mo = "proposal_options home_service home_principal home_proposal"
  let ?change = "appended (meal_proposal_path home_planned) (stable_json (sv_codec home_service) (meal_proposal_json home_planned))"
  have fields: "hi_household home_proposal = home_id" by (simp add: home_proposal_def)
  have "mo_build ?mo ''r'' 0 w = (Inr [?change], w)" if "business w = business (home_world home_plan [])" for w
    using home_projection [OF that] home_proposal_for home_plan_checks
    by (simp add: proposal_options_def household_mutation_def fields check_def demand_def effect_simps)
  moreover have "\<exists>resp w'. mo_apply ?mo g ''r'' 0 w = (Inr resp, w') \<and> get_household home_id (w_store w') \<noteq> None"
    if "business w = business (home_world home_plan [])" for g w
    by (rule home_changed [OF that, of "add_proposal home_planned g"])
      (simp add: proposal_options_def household_mutation_def fields check_def home_proposal_for effect_simps)
  ultimately have "\<exists>res w'. run_mutation home_service home_call ?mo (home_world home_plan []) = (Inr res, w')"
    by (intro home_run [where changes = "[?change]"] meal_plans_framed)
      (simp_all add: proposal_options_def household_mutation_def home_proposal_def home_principal_def appended_def home_path)
  then show ?thesis
    using home_proposal_ok by (simp add: add_meal_proposal_def home_service_def check_def effect_simps)
qed

lemma home_plan_bounded: "plan_within_bounds home_plan"
  by (simp add: plan_within_bounds_def read_bounds_iff week_proposals_def week_events_def home_plan_def empty_projection_def slots_bounded_def
      max_review_events_per_week_def max_withdrawal_events_per_week_def max_proposals_per_week_def)

text \<open>C37: Weekly bounds. A first successful call of a tool that adds to a meal plan (a review, a proposal or a withdrawal) keeps every
  week of a plan within its bounds: its proposals, those of one slot, its reviews and its withdrawals. So no reader of the household is
  ever refused because the plan has outgrown them.\<close>
theorem meal_plan_stays_within_bounds:
  assumes "projection_of h w = Inr pr" "plan_within_bounds pr" "mo_household (plan_options S p rq) = h"
    and "first_call (plan_options S p rq) c w" "plan_call S p c rq w = (Inr res, w')" "pq_household q = h"
  shows "(\<exists>pr'. projection_of h w' = Inr pr' \<and> plan_within_bounds pr') \<and> get_meal_plan S reader q w' \<noteq> Inl drift"
proof (rule plan_first_call [OF assms(5,4) assms(1) [folded assms(3)]])
  fix w1 changes
  assume *: "projection_of (mo_household (plan_options S p rq)) w1 = Inr pr"
    "mo_build (plan_options S p rq) (ca_request c) (ca_now c) w1 = (Inr changes, w1)"
    "projection_of (mo_household (plan_options S p rq)) w' = Inr (plan_addition S p rq (ca_request c) (ca_now c) (res_head res) pr)"
  from plan_addition_bounds [OF *(2,1) assms(2)] show ?thesis
    using *(3) assms(3,6) bounded_week_is_read by metis
qed

theorem meal_plan_stays_within_bounds_witness:
  "\<exists>res w' pr'. plan_call home_service home_principal home_call (Propose home_proposal) (home_world home_plan []) = (Inr res, w') \<and>
     projection_of home_id w' = Inr pr' \<and> plan_within_bounds pr'"
proof -
  obtain res w' where call: "plan_call home_service home_principal home_call (Propose home_proposal) (home_world home_plan []) = (Inr res, w')"
    using home_proposes by (auto simp: plan_call_def)
  have h: "mo_household (plan_options home_service home_principal (Propose home_proposal)) = home_id"
    by (simp add: plan_options_def proposal_options_def household_mutation_def home_proposal_def)
  from meal_plan_stays_within_bounds [OF _ home_plan_bounded h home_first_call [OF h] call,
      of "\<lparr>pq_household = home_id, pq_week = home_week, pq_cursor = None, pq_limit = 1\<rparr>"] call
  show ?thesis by fastforce
qed

text \<open>Proposals rest on a current review. A first successful proposal is stored under the head of its commit, made by the caller, and its
  review is an event of the same week for the constraints that are current; its source is at the revision it cites. So the plan shows it
  with its own compatibility and asks for no recheck.\<close>
theorem proposal_rests_on_review:
  assumes "projection_of (hi_household i) w = Inr pr" "items_keyed pr" "first_call (proposal_options S p i) c w"
    and "add_meal_proposal S p c i w = (Inr res, w')"
  shows "\<exists>pr' q e. projection_of (hi_household i) w' = Inr pr' \<and> lookup (pr_proposals pr') (mp_id q) = Some (q, res_head res) \<and>
     mp_by q = CloudActor (p_actor p) \<and> lookup (projected_events pr') (mp_review_event q) = Some e \<and> me_week e = mp_week q \<and>
     (\<exists>prof. pr_meal_profile pr' = Some prof \<and> mpp_constraints prof \<noteq> Unresolved \<and> me_kind e = ConstraintsReviewed (mpp_revision prof) \<and>
       \<not> meal_proposal_needs_recheck q (mpp_revision prof)
           (Option.bind (source_item (mp_source q)) (\<lambda>(i, _). map_option snd (lookup (pr_items pr') i))))"
proof -
  let ?mo = "plan_options S p (Propose i)"
  have mo: "?mo = proposal_options S p i" "mo_household ?mo = hi_household i"
    by (simp_all add: plan_options_def proposal_options_def household_mutation_def)
  have call: "plan_call S p c (Propose i) w = (Inr res, w')" using assms(4) by (simp add: plan_call_def)
  show ?thesis
  proof (rule plan_first_call [OF call])
    show "first_call ?mo c w" "projection_of (mo_household ?mo) w = Inr pr" using assms(1,3) mo by simp_all
    fix w1 changes
    assume *: "projection_of (mo_household ?mo) w1 = Inr pr" "mo_build ?mo (ca_request c) (ca_now c) w1 = (Inr changes, w1)"
      "projection_of (mo_household ?mo) w' = Inr (plan_addition S p (Propose i) (ca_request c) (ca_now c) (res_head res) pr)"
    then obtain q where q: "proposal_for S p i (ca_request c) (ca_now c) = Inr q" "plan_proposal pr q = Inr ()"
      "require_constraints pr (pi_revision i) = Inr ()"
      by (auto simp: plan_options_def proposal_options_def household_mutation_def elim!: action_elims)
    then have "mp_by q = CloudActor (p_actor p)" "mp_constraint q = HeadRevision (pi_revision i)"
      by (auto simp: proposal_for_def and_then_Inr_iff Let_def)
    moreover from q(3) obtain prof where prof: "pr_meal_profile pr = Some prof" "mpp_constraints prof \<noteq> Unresolved" "mpp_revision prof = HeadRevision (pi_revision i)"
      by (auto simp: require_constraints_def split: option.splits)
    moreover from q(2) have reviewed: "validate_meal_proposal_review q (projected_events pr) = Inr ()"
      and sourced: "validate_meal_proposal_source q (projected_items pr) (pr_evidence pr) (projected_revisions pr) = Inr ()"
      by (auto simp: plan_proposal_def and_then_Inr_iff)
    moreover from reviewed obtain e where "lookup (projected_events pr) (mp_review_event q) = Some e" "me_week e = mp_week q"
      "me_kind e = ConstraintsReviewed (mp_constraint q)"
      by (auto simp: validate_meal_proposal_review_def split: option.splits meal_event_kind.splits)
    moreover have "\<not> meal_proposal_needs_recheck q (mpp_revision prof)
        (Option.bind (source_item (mp_source q)) (\<lambda>(i, _). map_option snd (lookup (pr_items pr) i)))"
      using calculation(2) prof(3) proposal_source_current [OF sourced assms(2)]
      by (cases "source_item (mp_source q)") (auto simp: meal_proposal_needs_recheck_def)
    ultimately show ?thesis
      using *(3) q(1) mo(2)
      by (intro exI [of _ "add_proposal q (res_head res) pr"] exI [of _ q] exI [of _ e])
        (simp add: plan_addition_def add_proposal_def projected_events_def)
  qed
qed

theorem proposal_rests_on_review_witness:
  "\<exists>res w' pr' q e. add_meal_proposal home_service home_principal home_call home_proposal (home_world home_plan []) = (Inr res, w') \<and>
     projection_of home_id w' = Inr pr' \<and> lookup (pr_proposals pr') (mp_id q) = Some (q, res_head res) \<and>
     lookup (projected_events pr') (mp_review_event q) = Some e \<and> me_week e = mp_week q"
proof -
  obtain res w' where call: "add_meal_proposal home_service home_principal home_call home_proposal (home_world home_plan []) = (Inr res, w')"
    using home_proposes by blast
  have h: "hi_household home_proposal = home_id" by (simp add: home_proposal_def)
  have "items_keyed home_plan" by (simp add: items_keyed_def home_plan_def empty_projection_def)
  moreover have "first_call (proposal_options home_service home_principal home_proposal) home_call (home_world home_plan [])"
    by (rule home_first_call) (simp add: proposal_options_def household_mutation_def h)
  ultimately show ?thesis
    using proposal_rests_on_review [of home_proposal "home_world home_plan []" home_plan home_service home_principal home_call res w'] call h
    by fastforce
qed

section \<open>Members\<close>

text \<open>A household keeps an owner. Whatever a change of a member's role or a removal of a member answers, and however often the request
  was tried before, a household that had an active owner still has one.\<close>
theorem member_changes_keep_an_owner:
  assumes "memberships_ok (w_store w)" "0 < active_owner_count h (w_store w)" "hi_household i = h" "hi_household j = h"
  shows "has_owner h (w_store (snd (update_member S p c i w))) \<and> has_owner h (w_store (snd (remove_member S p c j w)))"
proof -
  have "owner_state h (business w)" using owner_state_store [OF assms(1)] assms(2) by simp
  moreover have "owner_state h (business v) \<Longrightarrow> has_owner h (w_store v)" for v
    by (simp add: owner_state_def business_def has_owner_def get_membership_def)
  ultimately show ?thesis
    using update_member_owner [of i w S p c, unfolded assms(3)] remove_member_owner [of j w S p c, unfolded assms(4)] by simp
qed

theorem member_changes_keep_an_owner_witness:
  "has_owner home_id (w_store (snd (update_member home_service home_principal home_call
      \<lparr>hi_household = home_id, hi_key = ''member-1'', ri_head = home_head, mb_actor = ''act_1111111111111111'', mb_role = Owner\<rparr> (home_world home_plan []))))"
proof -
  have "memberships_ok (w_store (home_world home_plan []))"
    by (simp add: memberships_ok_def map_ok_def home_world_def home_member_def empty_store_def)
  moreover have "0 < active_owner_count home_id (w_store (home_world home_plan []))"
    by (simp add: active_owner_count_def home_world_def home_member_def empty_store_def)
  ultimately show ?thesis
    using member_changes_keep_an_owner [where h = home_id and w = "home_world home_plan []" and S = home_service and p = home_principal and c = home_call
      and i = "\<lparr>hi_household = home_id, hi_key = ''member-1'', ri_head = home_head, mb_actor = ''act_1111111111111111'', mb_role = Owner\<rparr>"
      and j = "\<lparr>hi_household = home_id, hi_key = ''member-2'', ri_head = home_head, mb_actor = ''act_1111111111111111''\<rparr>"]
    by simp
qed

section \<open>Evidence and items\<close>

text \<open>C38: Items stay supported. A first successful call that writes evidence, items or an onboarding set-up keeps every item of the
  household supported by evidence that exists, and keeps every record of evidence as it was.\<close>
theorem items_stay_supported:
  assumes "projection_of h w = Inr pr" "citations_hold pr" "mo_household (entry_options S p rq) = h"
    and "first_call (entry_options S p rq) c w" "entry_call S p c rq w = (Inr res, w')"
  shows "\<exists>pr'. projection_of h w' = Inr pr' \<and> citations_hold pr' \<and> evidence_kept pr pr'"
  using entry_first_call [OF assms(5,4) assms(1) [folded assms(3)] assms(2)] assms(3) by simp

definition home_evidence :: "evidence_id \<Rightarrow> evidence" where
  "home_evidence e = \<lparr>ev_id = e, ev_observed = ''2024-01-01T00:00:00Z'', ev_date = None, ev_precision = Day, ev_source_type = ''note'',
     ev_source_label = ''Note'', ev_locator = ''n'', ev_summary = ''Seen'', ev_actor = ''act_0000000000000000'', ev_limitations = [],
     ev_supersedes = None, ev_body = ImportEvidence\<rparr>"

definition home_snack :: journal_item where
  "home_snack = GroceryItem \<lparr>it_id = ''itm_0000000000000000'', it_evidence = [''evd_0000000000000000''], it_created = ''t'', it_updated = ''t'',
     it_body = [], gr_kind = Snack, gr_display = ''Rice cake'', gr_brand = None, gr_product_line = None, gr_flavor = None, gr_formulation = None,
     gr_format = None, gr_category = ''snack'', gr_variety = None, gr_sizes = [], gr_image_page = None, gr_image = None\<rparr>"

definition home_pantry :: projection where
  "home_pantry = empty_projection\<lparr>pr_evidence := [(''evd_0000000000000000'', home_evidence ''evd_0000000000000000'')],
     pr_items := [(''itm_0000000000000000'', (home_snack, home_head))]\<rparr>"

definition home_note :: append_input where
  "home_note = \<lparr>hi_household = home_id, hi_key = ''evidence-1'', ri_head = home_head, ap_evidence = [home_evidence ''evd_1111111111111111'']\<rparr>"

lemma home_note_ok:
  "parsed (revisioned_input_ok home_note \<and> list_len 1 100 (ap_evidence home_note) \<and>
     list_all (non_delivery_evidence_ok home_host) (ap_evidence home_note)) = Inr ()"
  "validated_prospective_evidence (pr_evidence home_pantry) (ap_evidence home_note) (p_actor home_principal) =
     Inr (put_evidence (ap_evidence home_note) (pr_evidence home_pantry))"
  "validate_repository_path (journal_evidence_path (home_evidence ''evd_1111111111111111'')) = Inr ()"
  by code_simp+

lemma home_pantry_supported: "citations_hold home_pantry"
proof -
  have "validate_item_evidence home_snack (pr_evidence home_pantry) = Inr ()" by code_simp
  then show ?thesis by (simp add: citations_hold_def home_pantry_def)
qed

lemma home_notes: "\<exists>res w'. append_evidence home_service home_principal home_call home_note (home_world home_pantry []) = (Inr res, w')"
proof -
  let ?mo = "append_options home_service home_principal home_note"
  let ?changes = "map (evidence_change (sv_codec home_service)) (ap_evidence home_note)"
  have fields: "hi_household home_note = home_id" by (simp add: home_note_def)
  have "mo_build ?mo ''r'' 0 w = (Inr ?changes, w)" if "business w = business (home_world home_pantry [])" for w
    using home_projection [OF that] home_note_ok(2)
    by (simp add: append_options_def household_mutation_def fields check_def demand_def effect_simps)
  moreover have "\<exists>resp w'. mo_apply ?mo g ''r'' 0 w = (Inr resp, w') \<and> get_household home_id (w_store w') \<noteq> None"
    if "business w = business (home_world home_pantry [])" for g w
    by (rule home_changed [OF that, of "project_entries g (ap_evidence home_note) []"])
      (simp add: append_options_def household_mutation_def fields effect_simps)
  ultimately have "\<exists>res w'. run_mutation home_service home_call ?mo (home_world home_pantry []) = (Inr res, w')"
    using home_note_ok(3)
    by (intro home_run [where changes = ?changes] entries_framed)
      (auto simp: append_options_def household_mutation_def home_note_def home_principal_def evidence_change_def appended_def)
  then show ?thesis
    using home_note_ok(1) by (simp add: append_evidence_def home_service_def check_def effect_simps)
qed

theorem items_stay_supported_witness:
  "\<exists>res w' pr'. entry_call home_service home_principal home_call (AppendEvidence home_note) (home_world home_pantry []) = (Inr res, w') \<and>
     projection_of home_id w' = Inr pr' \<and> citations_hold pr' \<and> evidence_kept home_pantry pr'"
proof -
  obtain res w' where call: "entry_call home_service home_principal home_call (AppendEvidence home_note) (home_world home_pantry []) = (Inr res, w')"
    using home_notes by (auto simp: entry_call_def)
  have h: "mo_household (entry_options home_service home_principal (AppendEvidence home_note)) = home_id"
    by (simp add: entry_options_def append_options_def household_mutation_def home_note_def)
  from items_stay_supported [OF _ home_pantry_supported h home_first_call [OF h] call] call show ?thesis by auto
qed

section \<open>Shares\<close>

text \<open>C39: A revoked share is dead. After a first successful revocation, the link whose share was found for the collection opens nothing:
  its preview and every import from it answer that the owner has stopped sharing, at any time and for anyone, and such an import changes nothing.\<close>
theorem revoked_share_is_dead:
  assumes "revoke_share S p c i w = (Inr res, w')" "get_share_by_collection (hi_household i) (us_collection i) (w_store w) = Some sh"
    and "first_call (unshare_options S p i sh) c w" "sv_hash S token = sh_token_hash sh" "str_len 43 256 token"
    and "import_input_ok i'" "im_token i' = token"
  shows "preview_shared_collection S token now w' = Inl (app_error SHARE_REVOKED) \<and>
     import_items S p' c' i' w' = (Inl (app_error SHARE_REVOKED), w')"
proof -
  have "active_share S token t w' = Inl (app_error SHARE_REVOKED)" for t
    using revoked_share_stored [OF assms(1-3)] assms(4) by (simp add: active_share_def get_share_by_token_hash_def guard_def)
  then show ?thesis
    using assms(5-7) by (simp add: preview_shared_collection_def import_items_def parsed_def guard_def check_def demand_def effect_simps)
qed

definition home_snapshot :: collection_snapshot where
  "home_snapshot = \<lparr>cs_id = ''snp_0000000000000000'', cs_collection = ''col_0000000000000000'', cs_title = ''Soups'', cs_sharer = None, cs_items = [],
     cs_created = ''t''\<rparr>"

definition home_share :: "string \<Rightarrow> share_record" where
  "home_share t = \<lparr>sh_id = ''shr_0000000000000000'', sh_collection = ''col_0000000000000000'', sh_household = home_id, sh_token_hash = t,
     sh_snapshot = home_snapshot, sh_expires = 86400000, sh_revoked = None\<rparr>"

definition home_unshare :: unshare_input where
  "home_unshare = \<lparr>hi_household = home_id, hi_key = ''unshare-1'', ri_head = home_head, us_collection = ''col_0000000000000000''\<rparr>"

definition home_token :: string where "home_token = replicate 43 (CHR ''t'')"

definition home_import :: import_input where
  "home_import = \<lparr>hi_household = home_id, hi_key = ''import-1'', ri_head = home_head, im_token = home_token,
     im_selections = [\<lparr>is_item = ''entry-01'', is_resolution = CreateSeparate\<rparr>]\<rparr>"

lemma home_unshare_ok:
  "parsed (revisioned_input_ok home_unshare \<and> opaque_id_ok ''col'' (us_collection home_unshare)) = Inr ()"
  "validate_repository_path (''collections/col_0000000000000000/collection.md'') = Inr ()"
  "import_input_ok home_import" "str_len 43 256 home_token"
  by code_simp+

lemma home_unshares:
  assumes "shs = home_share t # rest"
  shows "\<exists>res w'. revoke_share home_service home_principal home_call home_unshare (home_world empty_projection shs) = (Inr res, w')"
proof -
  let ?mo = "unshare_options home_service home_principal home_unshare (home_share t)"
  let ?change = "collection_document home_service ''col_0000000000000000'' [(''title'', JStr ''Soups''),
        (''current_snapshot_id'', JStr ''snp_0000000000000000''), (''share_status'', JStr ''revoked''), (''revoked_at'', JStr (iso_text 0))]"
  have found: "get_share_by_collection home_id ''col_0000000000000000'' (w_store (home_world empty_projection shs)) = Some (home_share t)"
    by (simp add: get_share_by_collection_def home_world_def assms home_share_def)
  have "\<exists>resp w'. mo_apply ?mo g ''r'' 0 w = (Inr resp, w') \<and> get_household home_id (w_store w') \<noteq> None"
    if "business w = business (home_world empty_projection shs)" for g w
  proof -
    have "st_households (w_store w) = st_households (w_store (home_world empty_projection shs))"
      using arg_cong [OF that, of st_households] by (simp add: business_def)
    then show ?thesis
      by (simp add: unshare_options_def household_mutation_def store_update_def effect_simps get_household_def save_share_def home_world_def)
  qed
  then have "\<exists>res w'. run_mutation home_service home_call ?mo (home_world empty_projection shs) = (Inr res, w')"
    using home_unshare_ok(2)
    by (intro home_run [where changes = "[?change]"] sharing_framed)
      (auto simp: unshare_options_def household_mutation_def home_unshare_def home_principal_def home_share_def home_snapshot_def
        collection_document_def replaced_def return_def)
  then show ?thesis
    using home_unshare_ok(1) found
    by (simp add: revoke_share_def check_def effect_simps home_unshare_def)
qed

theorem revoked_share_is_dead_witness:
  "\<exists>res w'. revoke_share home_service home_principal home_call home_unshare (home_world empty_projection [home_share (replicate 64 (CHR ''b''))]) = (Inr res, w') \<and>
     preview_shared_collection home_service home_token 7 w' = Inl (app_error SHARE_REVOKED)"
proof -
  let ?w = "home_world empty_projection [home_share (replicate 64 (CHR ''b''))]"
  obtain res w' where call: "revoke_share home_service home_principal home_call home_unshare ?w = (Inr res, w')"
    using home_unshares by blast
  have "get_share_by_collection (hi_household home_unshare) (us_collection home_unshare) (w_store ?w) = Some (home_share (replicate 64 (CHR ''b'')))"
    by (simp add: get_share_by_collection_def home_world_def home_share_def home_unshare_def)
  moreover have "first_call (unshare_options home_service home_principal home_unshare (home_share (replicate 64 (CHR ''b'')))) home_call ?w"
    by (rule home_first_call) (simp add: unshare_options_def household_mutation_def home_unshare_def)
  ultimately show ?thesis
    using revoked_share_is_dead [OF call, of "home_share (replicate 64 (CHR ''b''))" home_token home_import 7] call home_unshare_ok(3,4)
    by (simp add: home_service_def home_share_def home_import_def)
qed

end
