(* ===== verification/JsonText.thy ===== *)
theory JsonText
  imports GitStore
begin

text \<open>
  Reading JSON text: the part of \<^verbatim>\<open>JSON.parse\<close> the server relies on.  Numbers are the integers its documents use;
  a fraction or an exponent is rejected here, as every schema of the repository rejects it later.  A repeated key keeps its first
  position and its last value.  The parser reads every text of a value, whatever the white space, so it inverts both printers of the
  server (\<open>parse_printed\<close>, \<open>parse_compact\<close>).
\<close>

section \<open>The parser\<close>

definition json_space :: "char \<Rightarrow> bool" where
  "json_space c \<longleftrightarrow> c = CHR 0x20 \<or> c = CHR 0x09 \<or> c = CHR 0x0A \<or> c = CHR 0x0D"

definition skip :: "string \<Rightarrow> string" where
  "skip s = dropWhile json_space s"

definition hex_digit_value :: "char \<Rightarrow> nat option" where
  "hex_digit_value c =
     (if is_digit c then Some (of_char c - 48)
      else if CHR ''a'' \<le> c \<and> c \<le> CHR ''f'' then Some (of_char c - 87)
      else if CHR ''A'' \<le> c \<and> c \<le> CHR ''F'' then Some (of_char c - 55) else None)"

text \<open>The unit of an escape, for units below 256.\<close>

definition hex_unit :: "char \<Rightarrow> char \<Rightarrow> char \<Rightarrow> char \<Rightarrow> char option" where
  "hex_unit a b c d =
     (case (hex_digit_value a, hex_digit_value b, hex_digit_value c, hex_digit_value d) of
        (Some 0, Some 0, Some h, Some l) \<Rightarrow> Some (char_of (16 * h + l))
      | _ \<Rightarrow> None)"

definition simple_escape :: "char \<Rightarrow> char option" where
  "simple_escape c =
     (if c = CHR 0x22 then Some (CHR 0x22) else if c = CHR 0x5C then Some (CHR 0x5C) else if c = CHR ''/'' then Some (CHR ''/'')
      else if c = CHR ''b'' then Some (CHR 0x08) else if c = CHR ''f'' then Some (CHR 0x0C) else if c = CHR ''n'' then Some (CHR 0x0A)
      else if c = CHR ''r'' then Some (CHR 0x0D) else if c = CHR ''t'' then Some (CHR 0x09) else None)"

definition prepend :: "char option \<Rightarrow> (string \<times> string) option \<Rightarrow> (string \<times> string) option" where
  "prepend c r = (case (c, r) of (Some x, Some (s, t)) \<Rightarrow> Some (x # s, t) | _ \<Rightarrow> None)"

text \<open>The rest of a string literal after its opening quote.\<close>

fun parse_string :: "string \<Rightarrow> (string \<times> string) option" where
  "parse_string [] = None"
| "parse_string (c # s) =
     (if c = CHR 0x22 then Some ([], s)
      else if c = CHR 0x5C then
        (case s of
           [] \<Rightarrow> None
         | e # s1 \<Rightarrow>
             if e = CHR ''u'' then
               (case s1 of
                  h1 # h2 # h3 # h4 # s2 \<Rightarrow> prepend (hex_unit h1 h2 h3 h4) (parse_string s2)
                | _ \<Rightarrow> None)
             else prepend (simple_escape e) (parse_string s1))
      else if of_char c < (32 :: nat) then None
      else prepend (Some c) (parse_string s))"

definition decimal :: "string \<Rightarrow> nat" where
  "decimal s = foldl (\<lambda>n c. 10 * n + (of_char c - 48)) 0 s"

definition parse_natural :: "string \<Rightarrow> (nat \<times> string) option" where
  "parse_natural s =
     (let ds = takeWhile is_digit s; rest = dropWhile is_digit s in
      if ds = [] \<or> (hd ds = CHR ''0'' \<and> tl ds \<noteq> []) \<or> (case rest of c # _ \<Rightarrow> c \<in> set ''.eE'' | [] \<Rightarrow> False) then None
      else Some (decimal ds, rest))"

definition parse_number :: "string \<Rightarrow> (json \<times> string) option" where
  "parse_number s =
     (case s of
        CHR ''-'' # t \<Rightarrow> map_option (\<lambda>(n, r). (JNum (- int n), r)) (parse_natural t)
      | _ \<Rightarrow> map_option (\<lambda>(n, r). (JNum (int n), r)) (parse_natural s))"

definition parse_scalar :: "string \<Rightarrow> (json \<times> string) option" where
  "parse_scalar s =
     (if starts_with ''null'' s then Some (JNull, drop 4 s)
      else if starts_with ''true'' s then Some (JBool True, drop 4 s)
      else if starts_with ''false'' s then Some (JBool False, drop 5 s)
      else parse_number s)"

definition object_of :: "(string \<times> json) list \<Rightarrow> json_object" where
  "object_of fs = fold (\<lambda>(k, v). put k v) fs []"

fun parse_value :: "nat \<Rightarrow> string \<Rightarrow> (json \<times> string) option"
  and parse_items :: "nat \<Rightarrow> string \<Rightarrow> (json list \<times> string) option"
  and parse_fields :: "nat \<Rightarrow> string \<Rightarrow> ((string \<times> json) list \<times> string) option" where
  "parse_value 0 s = None"
| "parse_value (Suc n) s =
     (case skip s of
        [] \<Rightarrow> None
      | c # r \<Rightarrow>
          if c = CHR 0x22 then map_option (\<lambda>(t, r'). (JStr t, r')) (parse_string r)
          else if c = CHR ''['' then
            (case skip r of
               CHR '']'' # r' \<Rightarrow> Some (JArr [], r')
             | _ \<Rightarrow> map_option (\<lambda>(xs, r'). (JArr xs, r')) (parse_items n r))
          else if c = CHR ''{'' then
            (case skip r of
               CHR ''}'' # r' \<Rightarrow> Some (JObj [], r')
             | _ \<Rightarrow> map_option (\<lambda>(fs, r'). (JObj (object_of fs), r')) (parse_fields n r))
          else parse_scalar (c # r))"
| "parse_items 0 s = None"
| "parse_items (Suc n) s =
     (case parse_value n s of
        None \<Rightarrow> None
      | Some (x, r) \<Rightarrow>
          (case skip r of
             CHR '','' # r' \<Rightarrow> map_option (\<lambda>(xs, r''). (x # xs, r'')) (parse_items n r')
           | CHR '']'' # r' \<Rightarrow> Some ([x], r')
           | _ \<Rightarrow> None))"
| "parse_fields 0 s = None"
| "parse_fields (Suc n) s =
     (case skip s of
        CHR 0x22 # r \<Rightarrow>
          (case parse_string r of
             None \<Rightarrow> None
           | Some (k, r1) \<Rightarrow>
               (case skip r1 of
                  CHR '':'' # r2 \<Rightarrow>
                    (case parse_value n r2 of
                       None \<Rightarrow> None
                     | Some (x, r3) \<Rightarrow>
                         (case skip r3 of
                            CHR '','' # r4 \<Rightarrow> map_option (\<lambda>(fs, r5). ((k, x) # fs, r5)) (parse_fields n r4)
                          | CHR ''}'' # r4 \<Rightarrow> Some ([(k, x)], r4)
                          | _ \<Rightarrow> None))
                | _ \<Rightarrow> None))
      | _ \<Rightarrow> None)"

definition parse_json :: "string \<Rightarrow> json option" where
  "parse_json s = (case parse_value (Suc (length s)) s of Some (j, r) \<Rightarrow> (if skip r = [] then Some j else None) | None \<Rightarrow> None)"

section \<open>Strings and numbers\<close>

lemma hex_digit_inverse: "k < 16 \<Longrightarrow> hex_digit_value (hex_digit k) = Some k"
proof -
  have "\<forall>k\<in>set [0..<16]. hex_digit_value (hex_digit k) = Some k" by code_simp
  then show "k < 16 \<Longrightarrow> hex_digit_value (hex_digit k) = Some k" by simp
qed

lemma of_char_eq: "(of_char c = (n :: nat)) = (c = char_of n \<and> n < 256)"
  by (metis char_of_char mod_less nat_of_char_less_256 of_char_of)

lemma char_codes:
  "char_of (34 :: nat) = CHR 0x22" "char_of (92 :: nat) = CHR 0x5C" "char_of (8 :: nat) = CHR 0x08" "char_of (9 :: nat) = CHR 0x09"
  "char_of (10 :: nat) = CHR 0x0A" "char_of (12 :: nat) = CHR 0x0C" "char_of (13 :: nat) = CHR 0x0D"
  by code_simp+

lemma parse_quoted_char: "parse_string (quote_char c @ s) = prepend (Some c) (parse_string s)"
proof -
  let ?n = "of_char c :: nat"
  consider "?n = 34" | "?n = 92" | "?n = 8" | "?n = 9" | "?n = 10" | "?n = 12" | "?n = 13"
    | "?n < 32" "?n \<notin> {8, 9, 10, 12, 13}" | "32 \<le> ?n" "?n \<noteq> 34" "?n \<noteq> 92" by fastforce
  then show ?thesis
  proof cases
    case 8
    have "quote_char c = [CHR 0x5C, CHR ''u'', CHR ''0'', CHR ''0'', hex_digit (?n div 16), hex_digit (?n mod 16)]"
      using 8 by (simp add: quote_char_def Let_def)
    moreover have "hex_digit_value (CHR ''0'') = Some 0" by code_simp
    moreover have "?n div 16 < 16" using 8(1) by simp
    ultimately show ?thesis by (simp add: hex_unit_def hex_digit_inverse)
  next
    case 9
    then have "c \<noteq> CHR 0x22" "c \<noteq> CHR 0x5C" by auto
    with 9 show ?thesis by (simp add: quote_char_def Let_def)
  qed (auto simp: quote_char_def Let_def simple_escape_def of_char_eq char_codes)
qed

lemma parse_quoted: "parse_string (concat (map quote_char s) @ CHR 0x22 # r) = Some (s, r)"
  by (induction s) (simp_all add: parse_quoted_char prepend_def)

lemma is_digit_char_of: "n < 10 \<Longrightarrow> is_digit (char_of (48 + n :: nat))"
proof -
  have "\<forall>n\<in>set [0..<10]. is_digit (char_of (48 + n :: nat))" by code_simp
  then show "n < 10 \<Longrightarrow> is_digit (char_of (48 + n :: nat))" by simp
qed

lemma digits_digit: "list_all is_digit (digits n)"
  by (induction n rule: digits.induct) (subst digits.simps, simp add: is_digit_char_of)

lemma decimal_append: "decimal (s @ [c]) = 10 * decimal s + (of_char c - 48)"
  by (simp add: decimal_def)

lemma decimal_digits: "decimal (digits n) = n"
proof (induction n rule: digits.induct)
  case (1 n)
  have one: "of_char (char_of (48 + k) :: char) - 48 = k" if "k < 10" for k :: nat using that by simp
  show ?case
  proof (cases "n < 10")
    case True
    then show ?thesis by (subst digits.simps) (simp add: decimal_def one)
  next
    case False
    then show ?thesis using 1 by (subst digits.simps) (simp add: decimal_append one)
  qed
qed

lemma digits_nonempty: "digits n \<noteq> []"
  by (subst digits.simps) simp

lemma digits_leading: "hd (digits n) = CHR ''0'' \<Longrightarrow> n = 0"
proof (induction n rule: digits.induct)
  case (1 n)
  show ?case
  proof (cases "n < 10")
    case True
    then have "char_of (48 + n) = CHR ''0''" using 1(2) by (subst (asm) digits.simps) simp
    then have "of_char (char_of (48 + n) :: char) = (48 :: nat)" by simp
    then show ?thesis using True by simp
  next
    case False
    then have "hd (digits n) = hd (digits (n div 10))" by (subst digits.simps) (simp add: digits_nonempty)
    then have "n div 10 = 0" using 1 False by simp
    then show ?thesis using False by simp
  qed
qed

definition token_ends :: "string \<Rightarrow> bool" where
  "token_ends r \<longleftrightarrow> (case r of [] \<Rightarrow> True | c # _ \<Rightarrow> \<not> is_digit c \<and> c \<notin> set ''.eE'')"

lemma parse_natural_digits: "token_ends r \<Longrightarrow> parse_natural (digits n @ r) = Some (n, r)"
proof -
  assume r: "token_ends r"
  have all: "\<And>c. c \<in> set (digits n) \<Longrightarrow> is_digit c" using digits_digit [of n] by (simp add: list_all_iff)
  have t: "takeWhile is_digit (digits n @ r) = digits n" "dropWhile is_digit (digits n @ r) = r"
    using r all by (auto simp: token_ends_def takeWhile_append dropWhile_append split: list.splits)
  have "tl (digits n) = []" if "hd (digits n) = CHR ''0''"
    using digits_leading [OF that] by (subst digits.simps) simp
  then show ?thesis
    using r digits_nonempty [of n] by (auto simp: parse_natural_def Let_def t decimal_digits token_ends_def split: list.splits)
qed

lemma hd_digits_not_minus: "digits n \<noteq> CHR ''-'' # t"
  using digits_digit [of n] by (auto simp: is_digit_def)

lemma parse_number_int: "token_ends r \<Longrightarrow> parse_number (int_text i @ r) = Some (JNum i, r)"
proof (cases "i < 0")
  case True
  then show "token_ends r \<Longrightarrow> ?thesis" by (simp add: parse_number_def int_text_def parse_natural_digits)
next
  case False
  assume r: "token_ends r"
  obtain d ds where d: "digits (nat i) = d # ds" "d \<noteq> CHR ''-''"
    using digits_nonempty [of "nat i"] hd_digits_not_minus [of "nat i"] by (cases "digits (nat i)") auto
  have "parse_number (digits (nat i) @ r) = map_option (\<lambda>(n, r). (JNum (int n), r)) (parse_natural (digits (nat i) @ r))"
    using d by (auto simp: parse_number_def split: list.split char.split bool.split)
  then show ?thesis using False r by (simp add: int_text_def parse_natural_digits)
qed

section \<open>The texts of a value\<close>

abbreviation blank :: "string \<Rightarrow> bool" where
  "blank s \<equiv> list_all json_space s"

inductive json_text :: "json \<Rightarrow> string \<Rightarrow> bool"
  and items_text :: "json list \<Rightarrow> string \<Rightarrow> bool"
  and fields_text :: "(string \<times> json) list \<Rightarrow> string \<Rightarrow> bool" where
  null: "json_text JNull ''null''"
| boolean: "json_text (JBool b) (if b then ''true'' else ''false'')"
| number: "json_text (JNum i) (int_text i)"
| str: "json_text (JStr s) (json_quote s)"
| no_items: "json_text (JArr []) ''[]''"
| no_fields: "json_text (JObj []) ''{}''"
| items: "items_text xs t \<Longrightarrow> json_text (JArr xs) (''['' @ t @ '']'')"
| obj: "fields_text fs t \<Longrightarrow> distinct (map fst fs) \<Longrightarrow> json_text (JObj fs) (''{'' @ t @ ''}'')"
| last_item: "json_text x t \<Longrightarrow> blank ws \<Longrightarrow> blank ws' \<Longrightarrow> items_text [x] (ws @ t @ ws')"
| item: "json_text x t \<Longrightarrow> blank ws \<Longrightarrow> items_text xs t' \<Longrightarrow> items_text (x # xs) (ws @ t @ '','' @ t')"
| last_field: "json_text x t \<Longrightarrow> blank ws \<Longrightarrow> blank gap \<Longrightarrow> blank ws' \<Longrightarrow>
    fields_text [(k, x)] (ws @ json_quote k @ '':'' @ gap @ t @ ws')"
| field: "json_text x t \<Longrightarrow> blank ws \<Longrightarrow> blank gap \<Longrightarrow> fields_text fs t' \<Longrightarrow>
    fields_text ((k, x) # fs) (ws @ json_quote k @ '':'' @ gap @ t @ '','' @ t')"

definition value_start :: "char \<Rightarrow> bool" where
  "value_start c \<longleftrightarrow> is_digit c \<or> c \<in> set [CHR ''n'', CHR ''t'', CHR ''f'', CHR ''-'', CHR 0x22, CHR ''['', CHR ''{'']"

lemma json_text_start: "json_text j t \<Longrightarrow> \<exists>c u. t = c # u \<and> value_start c"
proof (cases rule: json_text.cases, assumption)
  fix i assume "j = JNum i" "t = int_text i"
  moreover obtain d ds where "digits (nat i) = d # ds" using digits_nonempty [of "nat i"] by (cases "digits (nat i)") auto
  moreover have "is_digit d" using digits_digit [of "nat i"] calculation by simp
  ultimately show ?thesis by (auto simp: int_text_def value_start_def)
qed (auto simp: value_start_def json_quote_def)

lemma value_start_facts: "value_start c \<Longrightarrow> \<not> json_space c \<and> c \<noteq> CHR '']'' \<and> c \<noteq> CHR ''}'' \<and> c \<noteq> CHR '',''"
  by (auto simp: value_start_def json_space_def is_digit_def)

lemma skip_blank: "blank ws \<Longrightarrow> skip (ws @ s) = skip s"
  by (induction ws) (auto simp: skip_def)

lemma skip_solid: "\<not> json_space c \<Longrightarrow> skip (c # s) = c # s"
  by (simp add: skip_def)

lemma skip_value: "json_text j t \<Longrightarrow> blank ws \<Longrightarrow> skip (ws @ t @ r) = t @ r"
  using json_text_start [of j t] value_start_facts by (fastforce simp: skip_blank skip_solid)

lemma token_ends_blank: "blank ws \<Longrightarrow> c \<in> set '',]}'' \<Longrightarrow> token_ends (ws @ c # r)"
  by (cases ws) (auto simp: token_ends_def json_space_def is_digit_def)

lemma parse_value_skip: "skip s = skip s' \<Longrightarrow> parse_value n s = parse_value n s'"
  by (cases n) simp_all

lemma object_of_distinct: "distinct (map fst fs) \<Longrightarrow> object_of fs = fs"
proof -
  have "fold (\<lambda>(k, v). put k v) fs m = m @ fs" if "distinct (map fst fs)" "\<forall>k\<in>set (map fst fs). lookup m k = None" for m :: json_object
    using that
  proof (induction fs arbitrary: m)
    case (Cons p fs)
    obtain k v where p: "p = (k, v)" by (cases p)
    then have "put k v m = m @ [(k, v)]" using Cons.prems by (simp add: put_absent)
    moreover have "\<forall>k'\<in>set (map fst fs). lookup (m @ [(k, v)]) k' = None"
      using Cons.prems p by (auto simp: map_add_def split: option.splits)
    ultimately show ?case using Cons.IH [of "m @ [(k, v)]"] Cons.prems p by simp
  qed simp
  from this [of "[]"] show "distinct (map fst fs) \<Longrightarrow> object_of fs = fs" by (simp add: object_of_def)
qed

lemma parse_scalar_number: "token_ends r \<Longrightarrow> parse_scalar (int_text i @ r) = Some (JNum i, r)"
proof -
  obtain c u where "int_text i = c # u" "is_digit c \<or> c = CHR ''-''"
    using digits_nonempty [of "nat i"] digits_digit [of "nat i"]
    by (cases "i < 0"; cases "digits (nat i)") (auto simp: int_text_def)
  then have "\<not> starts_with ''null'' (int_text i @ r)" "\<not> starts_with ''true'' (int_text i @ r)" "\<not> starts_with ''false'' (int_text i @ r)"
    by (auto simp: is_digit_def)
  then show "token_ends r \<Longrightarrow> ?thesis" by (simp add: parse_scalar_def parse_number_int)
qed

lemma int_text_start: "int_text i = c # u \<Longrightarrow> c \<noteq> CHR 0x22 \<and> c \<noteq> CHR ''['' \<and> c \<noteq> CHR ''{'' \<and> \<not> json_space c"
proof -
  assume "int_text i = c # u"
  then have "is_digit c \<or> c = CHR ''-''"
    using digits_digit [of "nat i"] by (auto simp: int_text_def split: if_splits)
  then show ?thesis by (auto simp: is_digit_def json_space_def)
qed

lemma parse_number_value: "blank ws \<Longrightarrow> token_ends r \<Longrightarrow> parse_value (Suc n) (ws @ int_text i @ r) = Some (JNum i, r)"
proof -
  assume ws: "blank ws" and r: "token_ends r"
  obtain c u where t: "int_text i = c # u" using digits_nonempty [of "nat i"] by (cases "int_text i") (auto simp: int_text_def split: if_splits)
  note c = int_text_start [OF t]
  have "skip (ws @ int_text i @ r) = c # u @ r" using c by (simp add: skip_blank [OF ws] t skip_solid)
  moreover have "parse_scalar (c # u @ r) = Some (JNum i, r)" using parse_scalar_number [OF r, of i] by (simp add: t)
  ultimately show ?thesis using c by simp
qed

lemma parse_string_value: "blank ws \<Longrightarrow> parse_value (Suc n) (ws @ json_quote s @ r) = Some (JStr s, r)"
  by (simp add: skip_blank skip_solid json_quote_def json_space_def parse_quoted)

lemma parse_literal_value:
  "blank ws \<Longrightarrow> parse_value (Suc n) (ws @ ''null'' @ r) = Some (JNull, r)"
  "blank ws \<Longrightarrow> parse_value (Suc n) (ws @ (if b then ''true'' else ''false'') @ r) = Some (JBool b, r)"
  "blank ws \<Longrightarrow> parse_value (Suc n) (ws @ ''[]'' @ r) = Some (JArr [], r)"
  "blank ws \<Longrightarrow> parse_value (Suc n) (ws @ ''{}'' @ r) = Some (JObj [], r)"
  by (simp_all add: skip_blank skip_solid json_space_def parse_scalar_def)

lemma parse_array_value:
  assumes "blank ws" "items_text xs t" "parse_items n (t @ CHR '']'' # r) = Some (xs, r)"
  shows "parse_value (Suc n) (ws @ (''['' @ t @ '']'') @ r) = Some (JArr xs, r)"
proof -
  have "\<exists>c u. skip (t @ CHR '']'' # r) = c # u \<and> c \<noteq> CHR '']''"
    using assms(2)
  proof (cases rule: items_text.cases)
    case (last_item x t' ws1 ws2)
    then show ?thesis using json_text_start [of x t'] value_start_facts skip_value [of x t' ws1 "ws2 @ CHR '']'' # r"] by fastforce
  next
    case (item x t' ws1 ys t2)
    then show ?thesis using json_text_start [of x t'] value_start_facts skip_value [of x t' ws1 "'','' @ t2 @ CHR '']'' # r"] by fastforce
  qed
  then obtain c u where "skip (t @ CHR '']'' # r) = c # u" "c \<noteq> CHR '']''" by blast
  then show ?thesis
    using assms(1,3) by (auto simp: skip_blank skip_solid json_space_def split: list.split char.split bool.split)
qed

lemma parse_object_value:
  assumes "blank ws" "fields_text fs t" "distinct (map fst fs)" "parse_fields n (t @ CHR ''}'' # r) = Some (fs, r)"
  shows "parse_value (Suc n) (ws @ (''{'' @ t @ ''}'') @ r) = Some (JObj fs, r)"
proof -
  have "\<exists>u. skip (t @ CHR ''}'' # r) = CHR 0x22 # u"
    using assms(2) by (cases rule: fields_text.cases) (auto simp: skip_blank skip_solid json_space_def json_quote_def)
  then show ?thesis
    using assms(1,4) by (auto simp: skip_blank skip_solid json_space_def object_of_distinct [OF assms(3)])
qed

lemma parse_item_step:
  assumes "parse_value n (ws @ t @ CHR '','' # r') = Some (x, CHR '','' # r')" "parse_items n r' = Some (xs, r)"
  shows "parse_items (Suc n) (ws @ t @ CHR '','' # r') = Some (x # xs, r)"
  using assms by (simp add: skip_solid json_space_def)

lemma parse_last_item:
  assumes "parse_value n (ws @ t @ ws' @ CHR '']'' # r) = Some (x, ws' @ CHR '']'' # r)" "blank ws'"
  shows "parse_items (Suc n) (ws @ t @ ws' @ CHR '']'' # r) = Some ([x], r)"
  using assms by (simp add: skip_blank skip_solid json_space_def)

lemma parse_field_step:
  assumes "parse_value n (gap @ t @ CHR '','' # r') = Some (x, CHR '','' # r')" "parse_fields n r' = Some (fs, r)" "blank ws"
  shows "parse_fields (Suc n) (ws @ json_quote k @ CHR '':'' # gap @ t @ CHR '','' # r') = Some ((k, x) # fs, r)"
  using assms by (simp add: skip_blank skip_solid json_space_def json_quote_def parse_quoted)

lemma parse_last_field:
  assumes "parse_value n (gap @ t @ ws' @ CHR ''}'' # r) = Some (x, ws' @ CHR ''}'' # r)" "blank ws" "blank ws'"
  shows "parse_fields (Suc n) (ws @ json_quote k @ CHR '':'' # gap @ t @ ws' @ CHR ''}'' # r) = Some ([(k, x)], r)"
  using assms by (simp add: skip_blank skip_solid json_space_def json_quote_def parse_quoted)

lemma parse_texts:
  "json_text j t \<Longrightarrow> blank ws \<Longrightarrow> token_ends r \<Longrightarrow> length t \<le> n \<Longrightarrow> parse_value n (ws @ t @ r) = Some (j, r)"
  "items_text xs t \<Longrightarrow> length t < n \<Longrightarrow> parse_items n (t @ CHR '']'' # r) = Some (xs, r)"
  "fields_text fs t \<Longrightarrow> length t < n \<Longrightarrow> parse_fields n (t @ CHR ''}'' # r) = Some (fs, r)"
proof (induction j t and xs t and fs t arbitrary: ws r n and r n and r n rule: json_text_items_text_fields_text.inducts)
  case null
  then show ?case by (cases n) (simp_all del: parse_value.simps add: parse_literal_value(1) [simplified])
next
  case (boolean b)
  then obtain m where "n = Suc m" by (cases n) (auto split: if_splits)
  then show ?case using boolean parse_literal_value(2) by blast
next
  case (number i)
  then obtain m where "n = Suc m" using digits_nonempty [of "nat i"] by (cases n) (auto simp: int_text_def split: if_splits)
  then show ?case using number parse_number_value by blast
next
  case (str s)
  then obtain m where "n = Suc m" by (cases n) (auto simp: json_quote_def)
  then show ?case using str parse_string_value by blast
next
  case no_items
  then obtain m where "n = Suc m" by (cases n) auto
  then show ?case using no_items parse_literal_value(3) by blast
next
  case no_fields
  then obtain m where "n = Suc m" by (cases n) auto
  then show ?case using no_fields parse_literal_value(4) by blast
next
  case (items xs t)
  then obtain m where m: "n = Suc m" "length t < m" by (cases n) auto
  show ?case unfolding m(1) by (rule parse_array_value [OF items.prems(1) items.hyps items.IH [OF m(2)]])
next
  case (obj fs t)
  then obtain m where m: "n = Suc m" "length t < m" by (cases n) auto
  show ?case unfolding m(1) by (rule parse_object_value [OF obj.prems(1) obj.hyps(1,2) obj.IH [OF m(2)]])
next
  case (last_item x t ws ws')
  then obtain m where m: "n = Suc m" "length t \<le> m" by (cases n) auto
  have "parse_value m (ws @ t @ ws' @ CHR '']'' # r) = Some (x, ws' @ CHR '']'' # r)"
    by (rule last_item.IH [OF _ _ m(2)]) (use last_item in \<open>auto intro: token_ends_blank\<close>)
  from parse_last_item [OF this] last_item show ?case by (simp add: m)
next
  case (item x t ws xs t')
  then obtain m where m: "n = Suc m" "length t \<le> m" "length t' < m" by (cases n) auto
  have "parse_value m (ws @ t @ CHR '','' # t' @ CHR '']'' # r) = Some (x, CHR '','' # t' @ CHR '']'' # r)"
    by (rule item.IH(1) [OF _ _ m(2)]) (use item token_ends_blank [of "[]"] in auto)
  from parse_item_step [OF this item.IH(2) [OF m(3)]] show ?case by (simp add: m)
next
  case (last_field x t ws gap ws' k)
  then obtain m where m: "n = Suc m" "length t \<le> m" by (cases n) auto
  have "parse_value m (gap @ t @ ws' @ CHR ''}'' # r) = Some (x, ws' @ CHR ''}'' # r)"
    by (rule last_field.IH [OF _ _ m(2)]) (use last_field in \<open>auto intro: token_ends_blank\<close>)
  from parse_last_field [OF this] last_field show ?case by (simp add: m)
next
  case (field x t ws gap fs t' k)
  then obtain m where m: "n = Suc m" "length t \<le> m" "length t' < m" by (cases n) auto
  have "parse_value m (gap @ t @ CHR '','' # t' @ CHR ''}'' # r) = Some (x, CHR '','' # t' @ CHR ''}'' # r)"
    by (rule field.IH(1) [OF _ _ m(2)]) (use field token_ends_blank [of "[]"] in auto)
  from parse_field_step [OF this field.IH(2) [OF m(3)]] field show ?case by (simp add: m)
qed

theorem parse_json_text: "json_text j t \<Longrightarrow> blank ws \<Longrightarrow> blank ws' \<Longrightarrow> parse_json (ws @ t @ ws') = Some j"
proof -
  assume t: "json_text j t" and ws: "blank ws" "blank ws'"
  have "token_ends ws'" using ws(2) by (cases ws') (auto simp: token_ends_def json_space_def is_digit_def)
  then have "parse_value (Suc (length (ws @ t @ ws'))) (ws @ t @ ws') = Some (j, ws')"
    using t ws(1) by (intro parse_texts(1)) auto
  moreover have "skip ws' = []" using skip_blank [OF ws(2), of "[]"] by (simp add: skip_def)
  ultimately show ?thesis by (simp add: parse_json_def)
qed

section \<open>The printers\<close>

fun json_ok :: "json \<Rightarrow> bool" where
  "json_ok (JArr xs) = list_all json_ok xs"
| "json_ok (JObj fs) = (distinct (map fst fs) \<and> list_all (\<lambda>(k, x). json_ok x) fs)"
| "json_ok j = True"

lemma items_join:
  "xs \<noteq> [] \<Longrightarrow> (\<And>x. x \<in> set xs \<Longrightarrow> json_text x (p x)) \<Longrightarrow> blank ws \<Longrightarrow> blank ws' \<Longrightarrow>
    items_text xs (join '','' (map (\<lambda>x. ws @ p x) xs) @ ws')"
proof (induction xs rule: induct_list012)
  case (3 x y zs)
  have "items_text (x # y # zs) (ws @ p x @ '','' @ (join '','' (map (\<lambda>x. ws @ p x) (y # zs)) @ ws'))"
    using 3 by (intro item) auto
  then show ?case by simp
qed (auto intro: last_item)

lemma fields_join:
  "fs \<noteq> [] \<Longrightarrow> (\<And>k x. (k, x) \<in> set fs \<Longrightarrow> json_text x (p x)) \<Longrightarrow> blank ws \<Longrightarrow> blank gap \<Longrightarrow> blank ws' \<Longrightarrow>
    fields_text fs (join '','' (map (\<lambda>(k, x). ws @ json_quote k @ '':'' @ gap @ p x) fs) @ ws')"
proof (induction fs rule: induct_list012)
  case (2 f)
  then show ?case using last_field [of "snd f" "p (snd f)" ws gap ws' "fst f"] by (cases f) auto
next
  case (3 f g hs)
  obtain k x where f: "f = (k, x)" by (cases f)
  have "fields_text ((k, x) # g # hs) (ws @ json_quote k @ '':'' @ gap @ p x @ '','' @ (join '','' (map (\<lambda>(k, x). ws @ json_quote k @ '':'' @ gap @ p x) (g # hs)) @ ws'))"
    using 3 f by (intro field) auto
  then show ?case by (simp add: f)
qed simp

lemma blank_new_line: "blank (new_line n)"
  by (simp add: new_line_def json_space_def list_all_iff)

lemma printed_text: "json_ok j \<Longrightarrow> json_text j (print_json n j)"
proof (induction n j rule: print_json.induct)
  case (5 n xs)
  show ?case
  proof (cases "xs = []")
    case False
    have "items_text xs (join '','' (map (\<lambda>x. new_line (n + 2) @ print_json (n + 2) x) xs) @ new_line n)"
      by (rule items_join) (use 5 False blank_new_line in \<open>auto simp: list_all_iff\<close>)
    from items [OF this] show ?thesis using False by simp
  qed (simp add: no_items)
next
  case (6 n fs)
  show ?case
  proof (cases "fs = []")
    case False
    have "json_text x (print_json (n + 2) x)" if "(k, x) \<in> set fs" for k x
      using 6(1) [OF False that refl] 6(2) that by (auto simp: list_all_iff)
    then have "fields_text fs (join '','' (map (\<lambda>(k, x). new_line (n + 2) @ json_quote k @ '':'' @ '' '' @ print_json (n + 2) x) fs) @ new_line n)"
      by (intro fields_join) (use False blank_new_line in \<open>auto simp: json_space_def\<close>)
    from obj [OF this] show ?thesis using False 6(2) by simp
  qed (simp add: no_fields)
next
  case (2 n b)
  then show ?case using boolean [of b] by simp
qed (simp_all add: null number str)

lemma json_ok_sort: "json_ok j \<Longrightarrow> json_ok (sort_json C j)"
proof (induction C j rule: sort_json.induct)
  case (2 C fs)
  have "map fst (map (\<lambda>(k, x). (k, sort_json C x)) gs) = map fst gs" for gs :: json_object by (induction gs) auto
  then show ?case using 2 by (auto simp: list_all_iff distinct_map) (force simp: inj_on_def)+
qed (auto simp: list_all_iff)

theorem parse_printed: "json_ok j \<Longrightarrow> parse_json (stable_json C j) = Some (sort_json C j)"
  using parse_json_text [OF printed_text [OF json_ok_sort], of j "[]" "[CHR 0x0A]"] by (simp add: stable_json_def json_space_def)

section \<open>The stable text is canonical\<close>

text \<open>Equality up to the order of the properties, at every depth, and the order the stable text puts them in.\<close>

inductive same_json :: "json \<Rightarrow> json \<Rightarrow> bool" where
  same_value: "same_json v v"
| same_items: "list_all2 same_json xs ys \<Longrightarrow> same_json (JArr xs) (JArr ys)"
| same_fields: "list_all2 (\<lambda>f g. fst f = fst g \<and> same_json (snd f) (snd g)) fs hs \<Longrightarrow> mset hs = mset gs \<Longrightarrow> same_json (JObj fs) (JObj gs)"

function keys_sorted :: "codec \<Rightarrow> json \<Rightarrow> bool" where
  "keys_sorted C (JArr xs) = list_all (keys_sorted C) xs"
| "keys_sorted C (JObj fs) = (sorted (map (\<lambda>(k, x). collation_key C k) fs) \<and> list_all (\<lambda>(k, x). keys_sorted C x) fs)"
| "keys_sorted C JNull = True"
| "keys_sorted C (JBool b) = True"
| "keys_sorted C (JNum i) = True"
| "keys_sorted C (JStr s) = True"
  by pat_completeness auto
termination
  by (relation "measure (\<lambda>(C, j). size j)") (auto simp: json_size_array json_size_object)

lemma sort_key_map: "sort_key k (map f xs) = map f (sort_key (\<lambda>x. k (f x)) xs)"
proof -
  have "map f (insort_key (\<lambda>x. k (f x)) x xs) = insort_key k (f x) (map f xs)" for x xs by (induction xs) auto
  then show ?thesis by (induction xs) auto
qed

lemma sort_json_fields:
  "sort_json C (JObj fs) = JObj (sort_key (\<lambda>(k, x). collation_key C k) (map (\<lambda>(k, x). (k, sort_json C x)) fs))"
  by (simp add: sort_key_map case_prod_unfold)

lemma sorted_keys_agree:
  assumes "inj (collation_key C)" "distinct (map fst fs)" "mset fs = mset gs"
  shows "sort_key (\<lambda>(k, x). collation_key C k) fs = sort_key (\<lambda>(k, x). collation_key C k) gs"
proof (rule sort_key_cong_mset [OF assms(3)])
  show "inj_on (\<lambda>(k, x). collation_key C k) (set fs)"
    using assms(1,2) by (auto simp: inj_on_def distinct_map inj_def) force
qed

lemma map_sort_json_fst: "map fst (map (\<lambda>(k, x). (k, sort_json C x)) fs) = map fst fs"
  by (simp add: comp_def case_prod_unfold)

lemma same_sorted:
  assumes "same_json a b" "inj (collation_key C)" "json_ok a"
  shows "sort_json C a = sort_json C b"
  using assms(1,3)
proof (induction rule: same_json.induct)
  case (same_items xs ys)
  then have "list_all2 (\<lambda>x y. sort_json C x = sort_json C y) xs ys"
    by (auto simp: list_all2_conv_all_nth list_all_length)
  then show ?case by (auto simp: list_all2_conv_all_nth intro: nth_equalityI)
next
  case (same_fields fs hs gs)
  let ?f = "\<lambda>(k, x). (k, sort_json C x)"
  have "map ?f fs = map ?f hs"
    using same_fields(1,3) by (auto simp: list_all2_conv_all_nth list_all_length case_prod_unfold intro!: nth_equalityI)
  moreover have "mset (map ?f hs) = mset (map ?f gs)" using same_fields(2) by simp
  ultimately have "mset (map ?f fs) = mset (map ?f gs)" by simp
  moreover have "distinct (map fst (map ?f fs))" unfolding map_sort_json_fst using same_fields(3) by simp
  ultimately show ?case unfolding sort_json_fields json.inject by (intro sorted_keys_agree [OF assms(2)])
qed simp

lemma sorted_same: "sort_json C a = sort_json C b \<Longrightarrow> same_json a b"
proof (induction C a arbitrary: b rule: sort_json.induct)
  case (1 C xs)
  from 1(2) obtain ys where b: "b = JArr ys" "map (sort_json C) xs = map (sort_json C) ys" by (cases b) auto
  then have "list_all2 same_json xs ys"
    using 1(1) by (auto simp: list_all2_conv_all_nth map_equality_iff nth_mem)
  then show ?case unfolding b(1) by (rule same_items)
next
  case (2 C fs)
  let ?k = "\<lambda>(k, x). collation_key C k" and ?f = "\<lambda>(k, x). (k, sort_json C x)"
  from 2(2) obtain gs where b: "b = JObj gs" "map ?f (sort_key ?k fs) = map ?f (sort_key ?k gs)" by (cases b) auto
  have "list_all2 (\<lambda>f g. fst f = fst g \<and> same_json (snd f) (snd g)) (sort_key ?k fs) (sort_key ?k gs)"
    unfolding list_all2_conv_all_nth
  proof (intro conjI allI impI)
    show len: "length (sort_key ?k fs) = length (sort_key ?k gs)" using b(2) by (rule map_eq_imp_length_eq)
    fix i assume i: "i < length (sort_key ?k fs)"
    let ?x = "sort_key ?k fs ! i" and ?y = "sort_key ?k gs ! i"
    have "map ?f (sort_key ?k fs) ! i = map ?f (sort_key ?k gs) ! i" by (simp only: b(2))
    then have eq: "?f ?x = ?f ?y" using i len by (simp only: nth_map)
    obtain k x l y where xy: "?x = (k, x)" "?y = (l, y)" by (cases ?x, cases ?y)
    have "(k, x) \<in> set (sort_key ?k fs)" using nth_mem [OF i] unfolding xy .
    moreover have "k = l" "sort_json C x = sort_json C y" using eq unfolding xy by simp_all
    ultimately show "fst ?x = fst ?y" "same_json (snd ?x) (snd ?y)" using 2(1) unfolding xy by auto
  qed
  then obtain hs where "list_all2 (\<lambda>f g. fst f = fst g \<and> same_json (snd f) (snd g)) fs hs" "mset hs = mset (sort_key ?k gs)"
    using list_all2_reorder_left_invariance [of _ "sort_key ?k fs" "sort_key ?k gs" fs] by auto
  then show ?case unfolding b(1) by (intro same_fields [of fs hs gs]) auto
next
  case (3 C)
  then show ?case by (cases b) (simp_all add: same_value)
next
  case (4 C v)
  then show ?case by (cases b) (simp_all add: same_value)
next
  case (5 C i)
  then show ?case by (cases b) (simp_all add: same_value)
next
  case (6 C s)
  then show ?case by (cases b) (simp_all add: same_value)
qed

lemma sort_json_sorted: "keys_sorted C (sort_json C v)"
proof (induction C v rule: sort_json.induct)
  case (2 C fs)
  let ?k = "\<lambda>(k, x). collation_key C k"
  have "map ?k (map (\<lambda>(k, x). (k, sort_json C x)) (sort_key ?k fs)) = map ?k (sort_key ?k fs)" by (simp add: case_prod_unfold)
  then have "sorted (map ?k (map (\<lambda>(k, x). (k, sort_json C x)) (sort_key ?k fs)))" by (simp only: sorted_sort_key)
  then show ?case using 2 by (auto simp: list_all_iff simp del: map_map)
qed (auto simp: list_all_iff)

lemma sort_json_again: "keys_sorted C v \<Longrightarrow> sort_json C v = v"
proof (induction C v rule: keys_sorted.induct)
  case (2 C fs)
  have "sort_key (\<lambda>(k, x). collation_key C k) fs = fs" using 2(2) by (simp add: sort_key_id_if_sorted)
  moreover have "map (\<lambda>(k, x). (k, sort_json C x)) fs = fs" using 2 by (auto simp: list_all_iff intro!: map_idI)
  ultimately show ?case by simp
qed (auto simp: list_all_iff intro!: map_idI)

text \<open>JavaScript lists the names that are array indices first, in numeric order; the model of the sorted object does not, so the property below
  is stated for the names the journal uses, which are not numbers.\<close>

fun plain_names :: "json \<Rightarrow> bool" where
  "plain_names (JArr xs) = list_all plain_names xs"
| "plain_names (JObj fs) = list_all (\<lambda>(k, x). \<not> list_all is_digit k \<and> plain_names x) fs"
| "plain_names j = True"

text \<open>C28: The stable text is canonical. For values whose objects repeat no name and use no number as a name, and a collation that tells names
  apart, the texts of two values are equal exactly when the values are equal up to the order of the properties of their objects at every depth;
  and the text parses to a value of that kind, with the properties of every object in the order of the collation. So the
  text that is hashed for the fingerprint of a call depends on what the call says and on nothing else.\<close>
theorem stable_json_is_canonical:
  assumes "inj (collation_key C)" "json_ok a" "json_ok b" "plain_names a" "plain_names b"
  shows "(stable_json C a = stable_json C b \<longleftrightarrow> same_json a b) \<and>
    (\<exists>v. parse_json (stable_json C a) = Some v \<and> same_json a v \<and> keys_sorted C v)"
proof -
  have "stable_json C a = stable_json C b \<longleftrightarrow> sort_json C a = sort_json C b"
  proof
    assume "stable_json C a = stable_json C b"
    then show "sort_json C a = sort_json C b" using parse_printed [OF assms(2), of C] parse_printed [OF assms(3), of C] by simp
  qed (simp add: stable_json_def)
  also have "\<dots> \<longleftrightarrow> same_json a b" using same_sorted [OF _ assms(1,2)] sorted_same by blast
  finally have "stable_json C a = stable_json C b \<longleftrightarrow> same_json a b" .
  moreover have "same_json a (sort_json C a)" by (rule sorted_same [of C]) (simp add: sort_json_again sort_json_sorted)
  ultimately show ?thesis using parse_printed [OF assms(2)] sort_json_sorted by simp
qed

lemma stable_json_is_canonical_witness:
  "stable_json sample_codec (JObj [(''b'', JArr [JObj [(''d'', JNum 1), (''c'', JNull)]]), (''a'', JBool True)]) =
     stable_json sample_codec (JObj [(''a'', JBool True), (''b'', JArr [JObj [(''c'', JNull), (''d'', JNum 1)]])]) \<and>
   stable_json sample_codec (JArr [JNum 1, JNum 2]) \<noteq> stable_json sample_codec (JArr [JNum 2, JNum 1])"
proof -
  have inj: "inj (collation_key sample_codec)" by (simp add: sample_codec_def inj_of_char)
  let ?in = "JObj [(''d'', JNum 1), (''c'', JNull)]" and ?in' = "JObj [(''c'', JNull), (''d'', JNum 1)]"
  let ?a = "JObj [(''b'', JArr [?in]), (''a'', JBool True)]" and ?b = "JObj [(''a'', JBool True), (''b'', JArr [?in'])]"
  have "same_json ?in ?in'"
    by (rule same_fields [of _ "[(''d'', JNum 1), (''c'', JNull)]"]) (auto intro: same_value)
  then have "same_json (JArr [?in]) (JArr [?in'])" by (intro same_items) simp
  then have "same_json ?a ?b"
    by (intro same_fields [of _ "[(''b'', JArr [?in']), (''a'', JBool True)]"]) (auto intro: same_value)
  moreover have "\<not> same_json (JArr [JNum 1, JNum 2]) (JArr [JNum 2, JNum 1])" by (auto elim!: same_json.cases)
  ultimately show ?thesis
    using stable_json_is_canonical [OF inj, of ?a ?b] stable_json_is_canonical [OF inj, of "JArr [JNum 1, JNum 2]" "JArr [JNum 2, JNum 1]"]
    by (simp add: is_digit_def)
qed
end
