(* ===== verification/JournalDecode.thy ===== *)
theory JournalDecode
  imports JsonText JournalDocuments "HOL-Library.Monad_Syntax"
begin

text \<open>
  The schemas of \<^verbatim>\<open>packages/contracts/src/domain.ts\<close> read as decoders: what
  \<^verbatim>\<open>safeParse\<close> makes of a JSON value that was read from a document.  A decoder rejects unknown keys, trims
  and canonicalises where the schema does, fills in defaults, and ends with the check of the record it built.  An object decoder
  reads its fields by key, so that the order of the keys is irrelevant (\<open>sort_free\<close>).
\<close>

section \<open>Combinators\<close>

type_synonym 'a decoder = "json \<Rightarrow> 'a option"

definition d_str :: "string decoder" where
  "d_str j = (case j of JStr s \<Rightarrow> Some s | _ \<Rightarrow> None)"

definition d_trim :: "string decoder" where
  "d_trim j = map_option trim (d_str j)"

definition d_label :: "nat \<Rightarrow> string decoder" where
  "d_label n j = (case j of JStr s \<Rightarrow> if length s \<le> n \<and> \<not> has_control s then Some (trim s) else None | _ \<Rightarrow> None)"

definition d_origin :: "host \<Rightarrow> string decoder" where
  "d_origin H j = (case j of JStr s \<Rightarrow> parse_provider_origin H s | _ \<Rightarrow> None)"

definition d_nat :: "nat decoder" where
  "d_nat j = (case j of JNum i \<Rightarrow> if 0 \<le> i then Some (nat i) else None | _ \<Rightarrow> None)"

definition d_bool :: "bool decoder" where
  "d_bool j = (case j of JBool b \<Rightarrow> Some b | _ \<Rightarrow> None)"

definition d_enum :: "(string \<times> 'a) list \<Rightarrow> 'a decoder" where
  "d_enum m j = (case j of JStr s \<Rightarrow> lookup m s | _ \<Rightarrow> None)"

definition d_literal :: "json \<Rightarrow> unit decoder" where
  "d_literal v j = (if j = v then Some () else None)"

definition d_null :: "'a decoder \<Rightarrow> 'a option decoder" where
  "d_null d j = (if j = JNull then Some None else map_option Some (d j))"

definition d_list :: "'a decoder \<Rightarrow> 'a list decoder" where
  "d_list d j = (case j of JArr xs \<Rightarrow> those (map d xs) | _ \<Rightarrow> None)"

abbreviation d_strings :: "string list decoder" where
  "d_strings \<equiv> d_list d_str"

definition need :: "'a decoder \<Rightarrow> json option \<Rightarrow> 'a option" where
  "need d x = Option.bind x d"

definition optionally :: "'a decoder \<Rightarrow> json option \<Rightarrow> 'a option option" where
  "optionally d x = (case x of None \<Rightarrow> Some None | Some j \<Rightarrow> map_option Some (d j))"

definition defaulted :: "'a \<Rightarrow> 'a decoder \<Rightarrow> json option \<Rightarrow> 'a option" where
  "defaulted v d x = (case x of None \<Rightarrow> Some v | Some j \<Rightarrow> d j)"

type_synonym fields = "string \<Rightarrow> json option"

text \<open>A strict object, an object that may hold more, a union tagged by the field \<open>t\<close>.\<close>

definition d_strict :: "string list \<Rightarrow> (fields \<Rightarrow> 'a option) \<Rightarrow> 'a decoder" where
  "d_strict ks f j = (case j of JObj fs \<Rightarrow> if list_all (\<lambda>p. fst p \<in> set ks) fs then f (lookup fs) else None | _ \<Rightarrow> None)"

definition d_loose :: "(fields \<Rightarrow> 'a option) \<Rightarrow> 'a decoder" where
  "d_loose f j = (case j of JObj fs \<Rightarrow> f (lookup fs) | _ \<Rightarrow> None)"

definition d_tagged :: "string \<Rightarrow> (string \<times> 'a decoder) list \<Rightarrow> 'a decoder" where
  "d_tagged t ds j = do { d \<leftarrow> d_loose (\<lambda>g. need (d_enum ds) (g t)) j; d j }"

definition d_either :: "'a decoder \<Rightarrow> 'a decoder \<Rightarrow> 'a decoder" where
  "d_either d d' j = (case d j of None \<Rightarrow> d' j | Some x \<Rightarrow> Some x)"

definition checked :: "('a \<Rightarrow> bool) \<Rightarrow> 'a decoder \<Rightarrow> 'a decoder" where
  "checked P d j = (case d j of None \<Rightarrow> None | Some x \<Rightarrow> if P x then Some x else None)"

abbreviation version_one :: "json option \<Rightarrow> unit option" where
  "version_one \<equiv> need (d_literal (JNum 1))"

section \<open>Evidence\<close>

definition d_address :: "public_address decoder" where
  "d_address = checked public_address_ok (d_strict [''address_lines'', ''locality'', ''region'', ''postal_code'', ''country'']
     (\<lambda>g. do { ls \<leftarrow> optionally (d_list (d_label 200)) (g ''address_lines'');
               l \<leftarrow> optionally (d_label 120) (g ''locality'');
               r \<leftarrow> optionally (d_label 120) (g ''region'');
               p \<leftarrow> optionally (d_label 32) (g ''postal_code'');
               c \<leftarrow> optionally (d_label 120) (g ''country'');
               Some \<lparr>ad_lines = ls, ad_locality = l, ad_region = r, ad_postal = p, ad_country = c\<rparr> }))"

definition d_restaurant :: "restaurant decoder" where
  "d_restaurant = d_strict [''restaurant_name'', ''public_location_label'', ''public_merchant_address'', ''merchant_locator'']
     (\<lambda>g. do { n \<leftarrow> need d_trim (g ''restaurant_name'');
               l \<leftarrow> need d_trim (g ''public_location_label'');
               a \<leftarrow> defaulted None (d_null d_address) (g ''public_merchant_address'');
               m \<leftarrow> need d_str (g ''merchant_locator'');
               Some \<lparr>rs_name = n, rs_location = l, rs_address = a, rs_merchant = m\<rparr> })"

definition d_modifier :: "modifier decoder" where
  "d_modifier = d_strict [''group_name'', ''option_name'']
     (\<lambda>g. do { a \<leftarrow> need d_trim (g ''group_name''); b \<leftarrow> need d_trim (g ''option_name''); Some \<lparr>md_group = a, md_option = b\<rparr> })"

definition d_classification :: "classification decoder" where
  "d_classification = d_strict [''kind'', ''authored_by'']
     (\<lambda>g. do { k \<leftarrow> need (d_enum [(''food'', Food), (''alcohol'', Alcohol)]) (g ''kind'');
               _ \<leftarrow> need (d_literal (JStr ''agent'')) (g ''authored_by''); Some k })"

definition d_order_line :: "host \<Rightarrow> order_line decoder" where
  "d_order_line H = d_strict [''provider_label'', ''provider_origin'', ''provider_order_locator'', ''order_group_locator'', ''order_date'',
      ''completion_status'', ''fulfillment_mode'', ''group_complete'', ''declared_line_count'', ''line_key'', ''restaurant'', ''dish_name'',
      ''quantity'', ''modifiers_complete'', ''modifiers'', ''historical_menu_item_locator'', ''classification'']
     (\<lambda>g. do { label \<leftarrow> need d_trim (g ''provider_label'');
               origin \<leftarrow> need (d_origin H) (g ''provider_origin'');
               order \<leftarrow> need d_str (g ''provider_order_locator'');
               grp \<leftarrow> need d_str (g ''order_group_locator'');
               date \<leftarrow> need d_str (g ''order_date'');
               _ \<leftarrow> need (d_literal (JStr ''completed'')) (g ''completion_status'');
               mode \<leftarrow> need (d_enum [(''delivery'', Delivery), (''pickup'', Pickup)]) (g ''fulfillment_mode'');
               _ \<leftarrow> need (d_literal (JBool True)) (g ''group_complete'');
               count \<leftarrow> need d_nat (g ''declared_line_count'');
               key \<leftarrow> need d_str (g ''line_key'');
               r \<leftarrow> need d_restaurant (g ''restaurant'');
               dish \<leftarrow> need d_trim (g ''dish_name'');
               q \<leftarrow> need d_nat (g ''quantity'');
               _ \<leftarrow> need (d_literal (JBool True)) (g ''modifiers_complete'');
               ms \<leftarrow> need (d_list d_modifier) (g ''modifiers'');
               menu \<leftarrow> need (d_null d_str) (g ''historical_menu_item_locator'');
               c \<leftarrow> need d_classification (g ''classification'');
               Some \<lparr>ol_provider_label = label, ol_provider_origin = origin, ol_order_locator = order, ol_group_locator = grp,
                 ol_order_date = date, ol_fulfillment = mode, ol_declared_count = count, ol_line_key = key, ol_restaurant = r,
                 ol_dish = dish, ol_quantity = q, ol_modifiers = ms, ol_historical_locator = menu, ol_classification = c\<rparr> })"

definition precisions :: "(string \<times> precision) list" where
  "precisions = map (\<lambda>p. (precision_text p, p)) [Day, Month, Year, UnknownPrecision]"

definition evidence_keys :: "string list" where
  "evidence_keys = [''id'', ''observed_at'', ''evidence_date'', ''date_precision'', ''source_type'', ''source_label'', ''stable_locator'',
     ''summary'', ''actor_id'', ''limitations'', ''supersedes_evidence_id'', ''schema_version'', ''kind'']"

definition d_evidence_as :: "string list \<Rightarrow> string decoder \<Rightarrow> (fields \<Rightarrow> evidence_body option) \<Rightarrow> evidence decoder" where
  "d_evidence_as ks label body = d_strict (evidence_keys @ ks)
     (\<lambda>g. do { i \<leftarrow> need d_str (g ''id'');
               observed \<leftarrow> need d_str (g ''observed_at'');
               date \<leftarrow> need (d_null d_str) (g ''evidence_date'');
               p \<leftarrow> need (d_enum precisions) (g ''date_precision'');
               type \<leftarrow> need d_str (g ''source_type'');
               l \<leftarrow> need label (g ''source_label'');
               locator \<leftarrow> need d_str (g ''stable_locator'');
               s \<leftarrow> need d_str (g ''summary'');
               actor \<leftarrow> need d_str (g ''actor_id'');
               limitations \<leftarrow> need d_strings (g ''limitations'');
               supersedes \<leftarrow> optionally d_str (g ''supersedes_evidence_id'');
               _ \<leftarrow> version_one (g ''schema_version'');
               b \<leftarrow> body g;
               Some \<lparr>ev_id = i, ev_observed = observed, ev_date = date, ev_precision = p, ev_source_type = type, ev_source_label = l,
                 ev_locator = locator, ev_summary = s, ev_actor = actor, ev_limitations = limitations, ev_supersedes = supersedes,
                 ev_body = b\<rparr> })"

definition d_purchase :: "purchase decoder" where
  "d_purchase = d_strict [''store'', ''order_reference'', ''line_item_title'', ''order_date'']
     (\<lambda>g. do { a \<leftarrow> need d_str (g ''store''); b \<leftarrow> need d_str (g ''order_reference''); c \<leftarrow> need d_str (g ''line_item_title'');
               d \<leftarrow> need d_str (g ''order_date''); Some \<lparr>pu_store = a, pu_order = b, pu_title = c, pu_date = d\<rparr> })"

definition source_scopes :: "(string \<times> source_scope) list" where
  "source_scopes = map (\<lambda>s. (scope_text s, s)) [Discoverable, Saved, Cooked, Liked, Custom]"

definition d_recipe_discovery :: "recipe_discovery decoder" where
  "d_recipe_discovery = d_strict [''canonical_recipe_url'', ''audited_page_url'', ''displayed_image_url'', ''author_or_publisher'', ''source_scope'']
     (\<lambda>g. do { a \<leftarrow> optionally d_str (g ''canonical_recipe_url''); b \<leftarrow> need d_str (g ''audited_page_url'');
               c \<leftarrow> optionally d_str (g ''displayed_image_url''); d \<leftarrow> optionally d_str (g ''author_or_publisher'');
               s \<leftarrow> need (d_enum source_scopes) (g ''source_scope'');
               Some \<lparr>rc_canonical = a, rc_audited = b, rc_image = c, rc_author = d, rc_scope = s\<rparr> })"

definition d_cooking :: "cooking decoder" where
  "d_cooking = d_strict [''recipe_item_id'', ''recipe_candidate'', ''cooked_on'', ''result'', ''changes'']
     (\<lambda>g. do { a \<leftarrow> optionally d_str (g ''recipe_item_id''); b \<leftarrow> optionally d_str (g ''recipe_candidate'');
               c \<leftarrow> need d_str (g ''cooked_on''); r \<leftarrow> need d_str (g ''result'');
               ch \<leftarrow> need (d_list (d_strict [''description'', ''typical'']
                 (\<lambda>g. do { d \<leftarrow> need d_str (g ''description''); t \<leftarrow> need d_bool (g ''typical''); Some (d, t) }))) (g ''changes'');
               Some \<lparr>ck_item = a, ck_candidate = b, ck_on = c, ck_result = r, ck_changes = ch\<rparr> })"

definition d_confirmation :: "item_id decoder" where
  "d_confirmation = d_strict [''subject'', ''recipe_item_id'', ''preference'']
     (\<lambda>g. do { _ \<leftarrow> need (d_literal (JStr ''recipe_preference'')) (g ''subject''); i \<leftarrow> need d_str (g ''recipe_item_id'');
               _ \<leftarrow> need (d_literal (JStr ''liked'')) (g ''preference''); Some i })"

definition evidence_shape :: "host \<Rightarrow> evidence decoder" where
  "evidence_shape H = d_tagged ''kind''
     [(''purchase'', d_evidence_as [''purchase''] d_str (\<lambda>g. do { p \<leftarrow> need d_purchase (g ''purchase''); Some (PurchaseEvidence p) })),
      (''delivery_order_line'', d_evidence_as [''delivery_order_line''] d_trim
         (\<lambda>g. do { l \<leftarrow> need (d_order_line H) (g ''delivery_order_line''); Some (DeliveryLineEvidence l) })),
      (''recipe_discovery'', d_evidence_as [''recipe_discovery''] d_str
         (\<lambda>g. do { r \<leftarrow> need d_recipe_discovery (g ''recipe_discovery''); Some (RecipeDiscoveryEvidence r) })),
      (''cooking'', d_evidence_as [''cooking''] d_str (\<lambda>g. do { c \<leftarrow> need d_cooking (g ''cooking''); Some (CookingEvidence c) })),
      (''user_confirmation'', d_evidence_as [''confirmation''] d_str
         (\<lambda>g. do { c \<leftarrow> optionally d_confirmation (g ''confirmation''); Some (UserConfirmationEvidence c) })),
      (''import'', d_evidence_as [] d_str (\<lambda>g. Some ImportEvidence)),
      (''correction'', d_evidence_as [] d_str (\<lambda>g. Some CorrectionEvidence))]"

definition decode_evidence :: "host \<Rightarrow> evidence decoder" where
  "decode_evidence H = checked (evidence_ok H) (evidence_shape H)"

section \<open>Items, reports and the delivery profile\<close>

definition item_keys :: "string list" where
  "item_keys = [''id'', ''evidence_ids'', ''created_at'', ''updated_at'', ''schema_version'', ''body_markdown'', ''kind'']"

definition item_base_of :: "fields \<Rightarrow> item_base option" where
  "item_base_of g = do { i \<leftarrow> need d_str (g ''id'');
     es \<leftarrow> need d_strings (g ''evidence_ids'');
     c \<leftarrow> need d_str (g ''created_at'');
     u \<leftarrow> need d_str (g ''updated_at'');
     _ \<leftarrow> version_one (g ''schema_version'');
     b \<leftarrow> need d_str (g ''body_markdown'');
     Some \<lparr>it_id = i, it_evidence = es, it_created = c, it_updated = u, it_body = b\<rparr> }"

abbreviation d_opt_str :: "json option \<Rightarrow> string option option" where
  "d_opt_str \<equiv> need (d_null d_str)"

definition d_grocery :: "grocery_kind \<Rightarrow> journal_item decoder" where
  "d_grocery k = d_strict (item_keys @ [''display_name'', ''brand'', ''product_line'', ''flavor'', ''formulation'', ''format'', ''category'',
      ''produce_variety'', ''known_size_variants'', ''image_page_url'', ''image_url''])
     (\<lambda>g. do { b \<leftarrow> item_base_of g;
               name \<leftarrow> need d_str (g ''display_name'');
               brand \<leftarrow> d_opt_str (g ''brand'');
               product \<leftarrow> d_opt_str (g ''product_line'');
               flavor \<leftarrow> d_opt_str (g ''flavor'');
               formulation \<leftarrow> d_opt_str (g ''formulation'');
               format \<leftarrow> d_opt_str (g ''format'');
               category \<leftarrow> need d_str (g ''category'');
               variety \<leftarrow> d_opt_str (g ''produce_variety'');
               sizes \<leftarrow> need d_strings (g ''known_size_variants'');
               page \<leftarrow> d_opt_str (g ''image_page_url'');
               image \<leftarrow> d_opt_str (g ''image_url'');
               Some (GroceryItem (item_base.extend b (grocery_item.fields k name brand product flavor formulation format category variety sizes
                 page image))) })"

definition tri_states :: "(string \<times> tri_state) list" where
  "tri_states = map (\<lambda>t. (tri_text t, t)) [Yes, No, Unknown]"

definition d_recipe :: "journal_item decoder" where
  "d_recipe = d_strict (item_keys @ [''title'', ''canonical_url'', ''audited_page_url'', ''author_or_publisher'', ''saved'', ''cooked'', ''liked'',
      ''last_cooked'', ''date_precision'', ''image_url'', ''image_page_url''])
     (\<lambda>g. do { b \<leftarrow> item_base_of g;
               title \<leftarrow> need d_str (g ''title'');
               canonical \<leftarrow> d_opt_str (g ''canonical_url'');
               audited \<leftarrow> d_opt_str (g ''audited_page_url'');
               author \<leftarrow> d_opt_str (g ''author_or_publisher'');
               saved \<leftarrow> need (d_enum tri_states) (g ''saved'');
               cooked \<leftarrow> need (d_enum tri_states) (g ''cooked'');
               liked \<leftarrow> need (d_enum tri_states) (g ''liked'');
               last_on \<leftarrow> d_opt_str (g ''last_cooked'');
               p \<leftarrow> need (d_enum precisions) (g ''date_precision'');
               image \<leftarrow> d_opt_str (g ''image_url'');
               page \<leftarrow> d_opt_str (g ''image_page_url'');
               Some (RecipeItem (item_base.extend b (recipe_item.fields title canonical audited author saved cooked liked last_on p image page))) })"

definition d_occurrence :: "(evidence_id \<times> modifier list) decoder" where
  "d_occurrence = d_strict [''evidence_id'', ''modifiers_complete'', ''modifiers'']
     (\<lambda>g. do { e \<leftarrow> need d_str (g ''evidence_id''); _ \<leftarrow> need (d_literal (JBool True)) (g ''modifiers_complete'');
               ms \<leftarrow> need (d_list d_modifier) (g ''modifiers''); Some (e, ms) })"

definition d_dish :: "host \<Rightarrow> journal_item decoder" where
  "d_dish H = d_strict (item_keys @ [''dish_name'', ''provider_label'', ''provider_origin'', ''restaurant_name'', ''public_location_label'',
      ''public_merchant_address'', ''image_url'', ''image_page_url'', ''merchant_locator'', ''known_menu_item_locators'',
      ''known_modifier_occurrences'', ''classification''])
     (\<lambda>g. do { b \<leftarrow> item_base_of g;
               dish \<leftarrow> need d_trim (g ''dish_name'');
               label \<leftarrow> need d_trim (g ''provider_label'');
               origin \<leftarrow> need (d_origin H) (g ''provider_origin'');
               restaurant \<leftarrow> need d_trim (g ''restaurant_name'');
               location \<leftarrow> need d_trim (g ''public_location_label'');
               address \<leftarrow> defaulted None (d_null d_address) (g ''public_merchant_address'');
               image \<leftarrow> defaulted None (d_null d_str) (g ''image_url'');
               page \<leftarrow> defaulted None (d_null d_str) (g ''image_page_url'');
               merchant \<leftarrow> need d_str (g ''merchant_locator'');
               menu \<leftarrow> need d_strings (g ''known_menu_item_locators'');
               occurrences \<leftarrow> need (d_list d_occurrence) (g ''known_modifier_occurrences'');
               c \<leftarrow> need d_classification (g ''classification'');
               Some (DishItem (item_base.extend b (dish_item.fields dish label origin restaurant location address image page merchant menu
                 occurrences c))) })"

definition d_provenance :: "import_provenance decoder" where
  "d_provenance = d_strict [''source_collection_id'', ''source_snapshot_id'', ''source_collection_item_id'', ''published_revision'',
      ''source_display_attribution'', ''imported_at'']
     (\<lambda>g. do { c \<leftarrow> need d_str (g ''source_collection_id''); s \<leftarrow> need d_str (g ''source_snapshot_id'');
               i \<leftarrow> need d_str (g ''source_collection_item_id''); r \<leftarrow> need d_str (g ''published_revision'');
               a \<leftarrow> d_opt_str (g ''source_display_attribution''); t \<leftarrow> need d_str (g ''imported_at'');
               Some \<lparr>ip_collection = c, ip_snapshot = s, ip_collection_item = i, ip_revision = r, ip_attribution = a, ip_imported = t\<rparr> })"

definition d_imported_dish :: "journal_item decoder" where
  "d_imported_dish = d_strict (item_keys @ [''delivery_authority'', ''dish_name'', ''restaurant_name'', ''public_location_label'',
      ''public_merchant_address'', ''image_url'', ''image_page_url'', ''source_display_attribution'', ''classification'', ''import_provenance''])
     (\<lambda>g. do { b \<leftarrow> item_base_of g;
               _ \<leftarrow> need (d_literal (JStr ''public_import'')) (g ''delivery_authority'');
               dish \<leftarrow> need d_trim (g ''dish_name'');
               restaurant \<leftarrow> need d_trim (g ''restaurant_name'');
               location \<leftarrow> need d_trim (g ''public_location_label'');
               address \<leftarrow> need (d_null d_address) (g ''public_merchant_address'');
               image \<leftarrow> d_opt_str (g ''image_url'');
               page \<leftarrow> d_opt_str (g ''image_page_url'');
               attribution \<leftarrow> d_opt_str (g ''source_display_attribution'');
               c \<leftarrow> need d_classification (g ''classification'');
               p \<leftarrow> need d_provenance (g ''import_provenance'');
               Some (ImportedDishItem (item_base.extend b (imported_dish_item.fields dish restaurant location address image page attribution c p))) })"

definition item_shape :: "host \<Rightarrow> journal_item decoder" where
  "item_shape H = d_tagged ''kind''
     [(''snack'', d_grocery Snack), (''ingredient'', d_grocery Ingredient), (''condiment'', d_grocery Condiment),
      (''other_grocery'', d_grocery OtherGrocery), (''recipe'', d_recipe), (''delivery_dish'', d_either (d_dish H) d_imported_dish)]"

definition decode_item :: "host \<Rightarrow> journal_item decoder" where
  "decode_item H = checked (journal_item_ok H) (item_shape H)"

definition d_assertion :: "report_assertion decoder" where
  "d_assertion = d_strict [''row_id'', ''item_ids'', ''evidence_ids'', ''distinct_order_count'', ''last_date'']
     (\<lambda>g. do { r \<leftarrow> need d_str (g ''row_id''); is \<leftarrow> need d_strings (g ''item_ids''); es \<leftarrow> need d_strings (g ''evidence_ids'');
               n \<leftarrow> optionally d_nat (g ''distinct_order_count''); d \<leftarrow> optionally d_str (g ''last_date'');
               Some \<lparr>ra_row = r, ra_items = is, ra_evidence = es, ra_order_count = n, ra_last_date = d\<rparr> })"

definition decode_delivery_report :: "host \<Rightarrow> report decoder" where
  "decode_delivery_report H = checked (report_ok H) (d_strict [''report_type'', ''markdown'', ''assertions'', ''schema_version'']
     (\<lambda>g. do { _ \<leftarrow> need (d_literal (JStr ''delivery_index'')) (g ''report_type'');
               m \<leftarrow> need d_str (g ''markdown'');
               as \<leftarrow> need (d_list d_assertion) (g ''assertions'');
               _ \<leftarrow> version_one (g ''schema_version'');
               Some \<lparr>rep_type = DeliveryIndex, rep_markdown = m, rep_assertions = as\<rparr> }))"

definition d_selection :: "host \<Rightarrow> provider_selection decoder" where
  "d_selection H = d_strict [''provider_label'', ''provider_origin'', ''history_start'', ''history_end'', ''completed_history_cursor'']
     (\<lambda>g. do { l \<leftarrow> need d_trim (g ''provider_label'');
               origin \<leftarrow> need (d_origin H) (g ''provider_origin'');
               a \<leftarrow> need d_str (g ''history_start'');
               b \<leftarrow> need d_str (g ''history_end'');
               c \<leftarrow> defaulted None (d_null (d_strict [''completed_order_date'', ''provider_order_locator'']
                 (\<lambda>g. do { d \<leftarrow> need d_str (g ''completed_order_date''); p \<leftarrow> need d_str (g ''provider_order_locator'');
                   Some \<lparr>hc_date = d, hc_locator = p\<rparr> }))) (g ''completed_history_cursor'');
               Some \<lparr>ps_label = l, ps_origin = origin, ps_start = a, ps_end = b, ps_cursor = c\<rparr> })"

definition preference_scopes :: "(string \<times> preference_scope) list" where
  "preference_scopes = map (\<lambda>s. (preference_scope_text s, s)) [ProviderScope, LocationScope, DishScope, OrderScope]"

definition d_preference :: "(preference_scope \<times> string) decoder" where
  "d_preference = d_strict [''scope'', ''instruction'', ''confirmation'']
     (\<lambda>g. do { s \<leftarrow> need (d_enum preference_scopes) (g ''scope''); t \<leftarrow> need (d_label 500) (g ''instruction'');
               _ \<leftarrow> need (d_literal (JStr ''user_confirmed'')) (g ''confirmation''); Some (s, t) })"

definition decode_delivery_profile :: "host \<Rightarrow> delivery_profile decoder" where
  "decode_delivery_profile H = checked (delivery_profile_ok H) (d_strict [''providers'', ''interpretation_preferences'', ''schema_version'']
     (\<lambda>g. do { ps \<leftarrow> need (d_list (d_selection H)) (g ''providers'');
               qs \<leftarrow> defaulted [] (d_list d_preference) (g ''interpretation_preferences'');
               _ \<leftarrow> version_one (g ''schema_version'');
               Some \<lparr>dp_providers = ps, dp_preferences = qs\<rparr> }))"

section \<open>Meal plans and collections\<close>

definition d_slot :: "meal_slot decoder" where
  "d_slot = d_tagged ''kind''
     [(''breakfast'', d_strict [''kind''] (\<lambda>g. Some Breakfast)), (''lunch'', d_strict [''kind''] (\<lambda>g. Some Lunch)),
      (''dinner'', d_strict [''kind''] (\<lambda>g. Some Dinner)), (''snack'', d_strict [''kind''] (\<lambda>g. Some SnackSlot)),
      (''custom'', d_strict [''kind'', ''label''] (\<lambda>g. do { l \<leftarrow> need d_trim (g ''label''); Some (CustomSlot l) }))]"

definition d_meal_actor :: "meal_actor decoder" where
  "d_meal_actor = d_either (\<lambda>j. do { i \<leftarrow> d_str j; Some (CloudActor i) })
     (d_strict [''kind'', ''label''] (\<lambda>g. do { _ \<leftarrow> need (d_literal (JStr ''local'')) (g ''kind''); l \<leftarrow> need d_trim (g ''label'');
        Some (LocalActor l) }))"

definition d_constraint_revision :: "constraint_revision decoder" where
  "d_constraint_revision = d_either (\<lambda>j. do { g \<leftarrow> d_str j; Some (HeadRevision g) }) (\<lambda>j. do { n \<leftarrow> d_nat j; Some (LocalRevision n) })"

definition d_meal_source :: "meal_source decoder" where
  "d_meal_source = d_tagged ''kind''
     [(''freeform'', d_strict [''kind'', ''title''] (\<lambda>g. do { t \<leftarrow> need d_trim (g ''title''); Some (Freeform t) })),
      (''external_recipe'', d_strict [''kind'', ''title'', ''canonical_url'', ''site_name'', ''discovered_at'']
         (\<lambda>g. do { t \<leftarrow> need d_trim (g ''title''); u \<leftarrow> need d_str (g ''canonical_url''); n \<leftarrow> need d_trim (g ''site_name'');
                   d \<leftarrow> need d_str (g ''discovered_at''); Some (ExternalRecipe t u n d) })),
      (''journal_recipe'', d_strict [''kind'', ''item_id'', ''liked_evidence_ids'', ''item_revision'']
         (\<lambda>g. do { i \<leftarrow> need d_str (g ''item_id''); es \<leftarrow> need d_strings (g ''liked_evidence_ids''); r \<leftarrow> need d_str (g ''item_revision'');
                   Some (JournalRecipe i es r) })),
      (''journal_delivery_dish'', d_strict [''kind'', ''item_id'', ''evidence_ids'', ''item_revision'']
         (\<lambda>g. do { i \<leftarrow> need d_str (g ''item_id''); es \<leftarrow> need d_strings (g ''evidence_ids''); r \<leftarrow> need d_str (g ''item_revision'');
                   Some (JournalDish i es r) }))]"

definition compatibilities :: "(string \<times> compatibility) list" where
  "compatibilities = map (\<lambda>c. (compatibility_text c, c)) [AppearsCompatible, IncompleteEvidence, NeedsRecheck]"

definition proposal_shape :: "meal_proposal decoder" where
  "proposal_shape = d_strict [''id'', ''week_start'', ''meal_date'', ''slot'', ''proposed_by'', ''source'', ''servings'', ''notes'',
      ''constraint_revision'', ''constraint_review_event_id'', ''compatibility'', ''compatibility_caveat'', ''created_at'', ''schema_version'']
     (\<lambda>g. do { i \<leftarrow> need d_str (g ''id'');
               week \<leftarrow> need d_str (g ''week_start'');
               date \<leftarrow> need d_str (g ''meal_date'');
               slot \<leftarrow> need d_slot (g ''slot'');
               actor \<leftarrow> need d_meal_actor (g ''proposed_by'');
               src \<leftarrow> need d_meal_source (g ''source'');
               servings \<leftarrow> need (d_null d_nat) (g ''servings'');
               notes \<leftarrow> need (d_null d_trim) (g ''notes'');
               r \<leftarrow> need d_constraint_revision (g ''constraint_revision'');
               review \<leftarrow> need d_str (g ''constraint_review_event_id'');
               c \<leftarrow> need (d_enum compatibilities) (g ''compatibility'');
               caveat \<leftarrow> need d_trim (g ''compatibility_caveat'');
               t \<leftarrow> need d_str (g ''created_at'');
               _ \<leftarrow> version_one (g ''schema_version'');
               Some \<lparr>mp_id = i, mp_week = week, mp_date = date, mp_slot = slot, mp_by = actor, mp_source = src, mp_servings = servings,
                 mp_notes = notes, mp_constraint = r, mp_review_event = review, mp_compatibility = c, mp_caveat = caveat, mp_created = t\<rparr> })"

definition decode_proposal :: "host \<Rightarrow> meal_proposal decoder" where
  "decode_proposal H = checked (meal_proposal_ok H) proposal_shape"

definition d_event_as :: "string list \<Rightarrow> (fields \<Rightarrow> meal_event_kind option) \<Rightarrow> meal_plan_event decoder" where
  "d_event_as ks kind = d_strict ([''id'', ''week_start'', ''actor'', ''occurred_at'', ''schema_version'', ''kind''] @ ks)
     (\<lambda>g. do { i \<leftarrow> need d_str (g ''id''); week \<leftarrow> need d_str (g ''week_start''); actor \<leftarrow> need d_meal_actor (g ''actor'');
               t \<leftarrow> need d_str (g ''occurred_at''); _ \<leftarrow> version_one (g ''schema_version''); k \<leftarrow> kind g;
               Some \<lparr>me_id = i, me_week = week, me_actor = actor, me_occurred = t, me_kind = k\<rparr> })"

definition event_shape :: "meal_plan_event decoder" where
  "event_shape = d_tagged ''kind''
     [(''constraints_reviewed'', d_event_as [''constraint_revision'']
         (\<lambda>g. do { r \<leftarrow> need d_constraint_revision (g ''constraint_revision''); Some (ConstraintsReviewed r) })),
      (''proposal_withdrawn'', d_event_as [''proposal_id'', ''reason'']
         (\<lambda>g. do { p \<leftarrow> need d_str (g ''proposal_id''); r \<leftarrow> need (d_null d_trim) (g ''reason''); Some (ProposalWithdrawn p r) }))]"

definition decode_event :: "host \<Rightarrow> meal_plan_event decoder" where
  "decode_event H = checked (meal_plan_event_ok H) event_shape"

definition d_confirmed_constraints :: "constraints decoder" where
  "d_confirmed_constraints = d_tagged ''status''
     [(''confirmed_none'', d_strict [''status'', ''time_zone'', ''reviewed_at'']
         (\<lambda>g. do { z \<leftarrow> need d_trim (g ''time_zone''); t \<leftarrow> need d_str (g ''reviewed_at''); Some (ConfirmedNone z t) })),
      (''recorded'', d_strict [''status'', ''time_zone'', ''allergy_labels'', ''sensitivity_labels'', ''reviewed_at'']
         (\<lambda>g. do { z \<leftarrow> need d_trim (g ''time_zone''); as \<leftarrow> need (d_list d_trim) (g ''allergy_labels'');
                   ss \<leftarrow> need (d_list d_trim) (g ''sensitivity_labels''); t \<leftarrow> need d_str (g ''reviewed_at'');
                   Some (Recorded \<lparr>rcs_zone = z, rcs_allergies = as, rcs_sensitivities = ss, rcs_reviewed = t\<rparr>) }))]"

definition d_entry :: "collection_kind \<Rightarrow> collection_item decoder" where
  "d_entry k = d_strict [''collection_item_id'', ''source_item_id'', ''title'', ''public_description'', ''brand'', ''flavor'', ''formulation'',
      ''format'', ''author_or_publisher'', ''canonical_recipe_url'', ''image_url'', ''image_page_url'', ''preparation_notes'',
      ''source_display_attribution'', ''source_item_revision'', ''kind'']
     (\<lambda>g. do { i \<leftarrow> need d_str (g ''collection_item_id''); src \<leftarrow> need d_str (g ''source_item_id''); title \<leftarrow> need d_str (g ''title'');
               d \<leftarrow> d_opt_str (g ''public_description''); brand \<leftarrow> d_opt_str (g ''brand''); flavor \<leftarrow> d_opt_str (g ''flavor'');
               formulation \<leftarrow> d_opt_str (g ''formulation''); format \<leftarrow> d_opt_str (g ''format'');
               author \<leftarrow> d_opt_str (g ''author_or_publisher''); url \<leftarrow> d_opt_str (g ''canonical_recipe_url'');
               image \<leftarrow> d_opt_str (g ''image_url''); page \<leftarrow> d_opt_str (g ''image_page_url'');
               notes \<leftarrow> d_opt_str (g ''preparation_notes''); a \<leftarrow> d_opt_str (g ''source_display_attribution'');
               r \<leftarrow> need d_str (g ''source_item_revision'');
               Some (ItemEntry \<lparr>rse_id = i, rse_kind = k, rse_source = src, rse_title = title, rse_description = d, rse_brand = brand,
                 rse_flavor = flavor, rse_formulation = formulation, rse_format = format, rse_author = author, rse_canonical = url,
                 rse_image = image, rse_image_page = page, rse_preparation = notes, rse_attribution = a, rse_revision = r\<rparr>) })"

definition d_dish_entry :: "collection_item decoder" where
  "d_dish_entry = d_strict [''collection_item_id'', ''kind'', ''title'', ''restaurant_name'', ''public_location_label'',
      ''public_merchant_address'', ''public_description'', ''public_note'', ''image_url'', ''image_page_url'', ''source_display_attribution'',
      ''source_item_revision'', ''classification'']
     (\<lambda>g. do { i \<leftarrow> need d_str (g ''collection_item_id''); title \<leftarrow> need d_str (g ''title''); n \<leftarrow> need d_str (g ''restaurant_name'');
               l \<leftarrow> need d_str (g ''public_location_label''); ad \<leftarrow> need (d_null d_address) (g ''public_merchant_address'');
               d \<leftarrow> d_opt_str (g ''public_description''); note \<leftarrow> d_opt_str (g ''public_note'');
               image \<leftarrow> d_opt_str (g ''image_url''); page \<leftarrow> d_opt_str (g ''image_page_url'');
               a \<leftarrow> d_opt_str (g ''source_display_attribution''); r \<leftarrow> need d_str (g ''source_item_revision'');
               c \<leftarrow> optionally (d_literal (JStr ''alcohol'')) (g ''classification'');
               Some (DishEntry \<lparr>de_id = i, de_title = title, de_restaurant = n, de_location = l, de_address = ad, de_description = d, de_note = note,
                 de_image = image, de_image_page = page, de_attribution = a, de_revision = r, de_alcohol = (c \<noteq> None)\<rparr>) })"

definition snapshot_shape :: "collection_snapshot decoder" where
  "snapshot_shape = d_strict [''id'', ''collection_id'', ''title'', ''sharer_display_name'', ''items'', ''created_at'', ''schema_version'']
     (\<lambda>g. do { i \<leftarrow> need d_str (g ''id''); c \<leftarrow> need d_str (g ''collection_id''); title \<leftarrow> need d_str (g ''title'');
               n \<leftarrow> d_opt_str (g ''sharer_display_name'');
               is \<leftarrow> need (d_list (d_tagged ''kind'' [(''recipe'', d_entry RecipeEntry), (''snack'', d_entry SnackEntry),
                 (''delivery_dish'', d_dish_entry)])) (g ''items'');
               t \<leftarrow> need d_str (g ''created_at''); _ \<leftarrow> version_one (g ''schema_version'');
               Some \<lparr>cs_id = i, cs_collection = c, cs_title = title, cs_sharer = n, cs_items = is, cs_created = t\<rparr> })"

definition decode_snapshot :: "host \<Rightarrow> collection_snapshot decoder" where
  "decode_snapshot H = checked (collection_snapshot_ok H) snapshot_shape"

end
