(* ===== verification/JournalRoundTrip.thy ===== *)
theory JournalRoundTrip
  imports JournalDecode
begin

text \<open>
  The decoders of \<open>JournalDecode\<close> undo the encoders of \<open>JournalDocuments\<close>, whatever the order of the keys: what the server writes
  into a repository is what it reads back.
\<close>

section \<open>Decoders do not see the order of keys\<close>

definition sort_free :: "'a decoder \<Rightarrow> bool" where
  "sort_free d \<longleftrightarrow> (\<forall>C j. d (sort_json C j) = d j)"

definition sort_free_fields :: "(fields \<Rightarrow> 'a option) \<Rightarrow> bool" where
  "sort_free_fields f \<longleftrightarrow> (\<forall>C g. f (\<lambda>k. map_option (sort_json C) (g k)) = f g)"

named_theorems sort_free_intros "decoders that do not see the order of keys"

lemma lookup_stable:
  fixes fs :: "('k \<times> 'v) list" and k :: 'k
  shows "lookup (sort_key (\<lambda>(k, x). f k) fs) k = lookup fs k"
proof -
  have first: "lookup gs k = (case filter (\<lambda>p. fst p = k) gs of [] \<Rightarrow> None | p # _ \<Rightarrow> Some (snd p))" for gs :: "('k \<times> 'v) list"
    by (induction gs) auto
  have "filter (\<lambda>p. fst p = k) (sort_key (\<lambda>(k, x). f k) fs) =
      filter (\<lambda>p. fst p = k) (filter (\<lambda>p. (case p of (k, x) \<Rightarrow> f k) = f k) (sort_key (\<lambda>(k, x). f k) fs))"
    by (auto simp: filter_filter intro: filter_cong)
  also have "\<dots> = filter (\<lambda>p. fst p = k) (filter (\<lambda>p. (case p of (k, x) \<Rightarrow> f k) = f k) fs)"
    by (simp only: sort_key_stable)
  also have "\<dots> = filter (\<lambda>p. fst p = k) fs"
    by (auto simp: filter_filter intro: filter_cong)
  finally show ?thesis by (simp add: first)
qed

lemma lookup_sort_json: "lookup (map (\<lambda>(k, x). (k, sort_json C x)) (sort_key (\<lambda>(k, x). collation_key C k) fs)) =
    (\<lambda>k. map_option (sort_json C) (lookup fs k))"
  by (rule ext) (simp add: map_of_map lookup_stable)

lemma sort_json_null: "sort_json C j = JNull \<longleftrightarrow> j = JNull"
  by (cases j) auto

lemma sort_free_scalars [sort_free_intros]:
  "sort_free d_str" "sort_free d_trim" "sort_free (d_label n)" "sort_free (d_origin H)" "sort_free d_nat" "sort_free d_bool" "sort_free (d_enum m)"
  by (auto simp: sort_free_def d_str_def d_trim_def d_label_def d_origin_def d_nat_def d_bool_def d_enum_def split: json.split) +

lemma sort_free_literals [sort_free_intros]:
  "sort_free (d_literal (JStr s))" "sort_free (d_literal (JNum n))" "sort_free (d_literal (JBool b))"
  by (auto simp: sort_free_def d_literal_def) (metis json.distinct json.exhaust sort_json.simps)+

lemma sort_free_null [sort_free_intros]: "sort_free d \<Longrightarrow> sort_free (d_null d)"
  by (simp add: sort_free_def d_null_def sort_json_null)

lemma sort_free_list [sort_free_intros]: "sort_free d \<Longrightarrow> sort_free (d_list d)"
  by (auto simp: sort_free_def d_list_def comp_def split: json.split)

lemma sort_free_strict [sort_free_intros]: "sort_free_fields f \<Longrightarrow> sort_free (d_strict ks f)"
  by (auto simp: sort_free_def sort_free_fields_def d_strict_def list_all_iff lookup_sort_json split: json.split)

lemma sort_free_loose [sort_free_intros]: "sort_free_fields f \<Longrightarrow> sort_free (d_loose f)"
  by (auto simp: sort_free_def sort_free_fields_def d_loose_def lookup_sort_json split: json.split)

lemma sort_free_either [sort_free_intros]: "sort_free d \<Longrightarrow> sort_free d' \<Longrightarrow> sort_free (d_either d d')"
  by (simp add: sort_free_def d_either_def cong: option.case_cong)

lemma sort_free_bind [sort_free_intros]: "sort_free d \<Longrightarrow> sort_free (\<lambda>j. Option.bind (d j) f)"
  by (simp add: sort_free_def)

lemma sort_free_checked [sort_free_intros]: "sort_free d \<Longrightarrow> sort_free (checked P d)"
  by (simp add: sort_free_def checked_def)

lemma sort_free_field [sort_free_intros]:
  "sort_free d \<Longrightarrow> sort_free_fields (\<lambda>g. need d (g k))"
  "sort_free d \<Longrightarrow> sort_free_fields (\<lambda>g. optionally d (g k))"
  "sort_free d \<Longrightarrow> sort_free_fields (\<lambda>g. defaulted v d (g k))"
  "sort_free_fields (\<lambda>g. x)"
  by (auto simp: sort_free_def sort_free_fields_def need_def optionally_def defaulted_def split: option.split bind_splits)

lemma sort_free_fields_bind [sort_free_intros]:
  "sort_free_fields p \<Longrightarrow> (\<And>x. sort_free_fields (f x)) \<Longrightarrow> sort_free_fields (\<lambda>g. Option.bind (p g) (\<lambda>x. f x g))"
  by (simp add: sort_free_fields_def)

lemma sort_free_tagged [sort_free_intros]: "list_all (\<lambda>p. sort_free (snd p)) ds \<Longrightarrow> sort_free (d_tagged t ds)"
proof -
  assume *: "list_all (\<lambda>p. sort_free (snd p)) ds"
  have "sort_free (d_loose (\<lambda>g. need (d_enum ds) (g t)))" by (intro sort_free_intros)
  moreover have "sort_free d" if "d_loose (\<lambda>g. need (d_enum ds) (g t)) j = Some d" for d j
    using that * by (auto simp: d_loose_def need_def d_enum_def list_all_iff split: json.splits bind_splits dest!: map_of_SomeD)
  ultimately show ?thesis
    by (auto simp: sort_free_def d_tagged_def split: bind_splits)
qed

lemma sort_free_all [sort_free_intros]:
  "list_all (\<lambda>p. sort_free (snd p)) []"
  "sort_free d \<Longrightarrow> list_all (\<lambda>p. sort_free (snd p)) ds \<Longrightarrow> list_all (\<lambda>p. sort_free (snd p)) ((t, d) # ds)"
  by simp_all

lemma sort_free_modifier [sort_free_intros]: "sort_free d_modifier" unfolding d_modifier_def by (intro sort_free_intros)
lemma sort_free_address [sort_free_intros]: "sort_free d_address" unfolding d_address_def by (intro sort_free_intros)
lemma sort_free_restaurant [sort_free_intros]: "sort_free d_restaurant" unfolding d_restaurant_def by (intro sort_free_intros)
lemma sort_free_classification [sort_free_intros]: "sort_free d_classification" unfolding d_classification_def by (intro sort_free_intros)
lemma sort_free_order_line [sort_free_intros]: "sort_free (d_order_line H)" unfolding d_order_line_def by (intro sort_free_intros)

lemma sort_free_evidence: "sort_free (decode_evidence H)"
  unfolding decode_evidence_def evidence_shape_def d_evidence_as_def d_purchase_def d_recipe_discovery_def d_cooking_def d_confirmation_def
  by (intro sort_free_intros)

lemma sort_free_item: "sort_free (decode_item H)"
  unfolding decode_item_def item_shape_def d_grocery_def d_recipe_def d_dish_def d_imported_dish_def d_occurrence_def d_provenance_def item_base_of_def
  by (intro sort_free_intros)

lemma sort_free_report: "sort_free (decode_delivery_report H)"
  unfolding decode_delivery_report_def d_assertion_def by (intro sort_free_intros)

lemma sort_free_profile: "sort_free (decode_delivery_profile H)"
  unfolding decode_delivery_profile_def d_selection_def d_preference_def by (intro sort_free_intros)

lemma sort_free_meal_actor [sort_free_intros]: "sort_free d_meal_actor" unfolding d_meal_actor_def by (intro sort_free_intros)
lemma sort_free_revision [sort_free_intros]: "sort_free d_constraint_revision" unfolding d_constraint_revision_def by (intro sort_free_intros)

lemma sort_free_proposal: "sort_free (decode_proposal H)"
  unfolding decode_proposal_def proposal_shape_def d_slot_def d_meal_source_def by (intro sort_free_intros)

lemma sort_free_event: "sort_free (decode_event H)"
  unfolding decode_event_def event_shape_def d_event_as_def by (intro sort_free_intros)

lemma sort_free_constraints [sort_free_intros]: "sort_free d_confirmed_constraints"
  unfolding d_confirmed_constraints_def by (intro sort_free_intros)

lemma sort_free_snapshot: "sort_free (decode_snapshot H)"
  unfolding decode_snapshot_def snapshot_shape_def d_entry_def d_dish_entry_def by (intro sort_free_intros)

section \<open>Decoders undo the encoders\<close>

named_theorems decode_simps "decoders on encoded values"

lemma field_simps_present [decode_simps]:
  "need d (Some j) = d j" "optionally d (Some j) = map_option Some (d j)" "defaulted v d (Some j) = d j" "optionally d None = Some None"
  by (simp_all add: need_def optionally_def defaulted_def)

lemma scalar_simps [decode_simps]:
  "d_str (JStr s) = Some s" "d_nat (nat_json n) = Some n" "d_bool (JBool b) = Some b" "d_literal v v = Some ()"
  "d_enum m (JStr s) = lookup m s" "d_trim (JStr s) = Some (trim s)"
  by (simp_all add: d_str_def d_nat_def d_bool_def d_literal_def d_enum_def d_trim_def)

lemma those_decoded: "(\<And>x. x \<in> set xs \<Longrightarrow> d (f x) = Some x) \<Longrightarrow> those (map d (map f xs)) = Some xs"
  by (induction xs) simp_all

lemma list_decoded: "(\<And>x. x \<in> set xs \<Longrightarrow> d (f x) = Some x) \<Longrightarrow> d_list d (JArr (map f xs)) = Some xs"
  using those_decoded [of xs d f] by (simp add: d_list_def)

lemma strings_decoded [decode_simps]: "d_strings (strings xs) = Some xs"
  by (rule list_decoded) (simp add: d_str_def)

lemma null_decoded: "(\<And>x. y = Some x \<Longrightarrow> d (f x) = Some x \<and> f x \<noteq> JNull) \<Longrightarrow> d_null d (nullable f y) = Some y"
  by (cases y) (auto simp: nullable_def d_null_def)

lemma null_str_decoded [decode_simps]: "d_null d_str (nullable JStr y) = Some y"
  by (rule null_decoded) (simp add: d_str_def)

lemma optional_lookup [decode_simps]:
  "k \<noteq> k' \<Longrightarrow> lookup (optional k f x @ fs) k' = lookup fs k'"
  "lookup fs k = None \<Longrightarrow> lookup (optional k f x @ fs) k = map_option f x"
  by (cases x; simp add: optional_def)+

lemma optional_lookup_last [decode_simps]: "lookup (optional k f x) k' = (if k = k' then map_option f x else None)"
  by (cases x) (auto simp: optional_def)

lemma optionally_decoded: "(\<And>x. y = Some x \<Longrightarrow> d (f x) = Some x) \<Longrightarrow> optionally d (map_option f y) = Some y"
  by (cases y) (auto simp: optionally_def)

lemma optional_keys [decode_simps]: "list_all Q (optional k f x) \<longleftrightarrow> opt_all (\<lambda>v. Q (k, f v)) x" "opt_all (\<lambda>_. True) x"
  by (cases x; simp add: optional_def opt_all_def)+

lemma strict_object [decode_simps]: "d_strict ks f (JObj fs) = (if list_all (\<lambda>p. fst p \<in> set ks) fs then f (lookup fs) else None)"
  by (simp add: d_strict_def)

lemma tagged_object: "lookup fs t = Some (JStr s) \<Longrightarrow> lookup ds s = Some d \<Longrightarrow> d_tagged t ds (JObj fs) = d (JObj fs)"
  by (simp add: d_tagged_def d_loose_def need_def d_enum_def)

lemma label_decoded: "bounded_label n s \<Longrightarrow> d_label n (JStr s) = Some s"
  by (auto simp: bounded_label_def d_label_def trimmed_len_def str_len_def)

lemma trim_decoded: "trimmed_len a b s \<Longrightarrow> d_trim (JStr s) = Some s"
  by (simp add: d_trim_def d_str_def trimmed_len_def)

lemma address_decoded: "public_address_ok a \<Longrightarrow> d_address (address_json a) = Some a"
proof -
  assume ok: "public_address_ok a"
  have ls: "optionally (d_list (d_label 200)) (map_option strings (ad_lines a)) = Some (ad_lines a)"
    using ok by (intro optionally_decoded list_decoded label_decoded) (auto simp: public_address_ok_def opt_all_def list_all_iff)
  have ws: "optionally (d_label 120) (map_option JStr (ad_locality a)) = Some (ad_locality a)"
    "optionally (d_label 120) (map_option JStr (ad_region a)) = Some (ad_region a)"
    "optionally (d_label 32) (map_option JStr (ad_postal a)) = Some (ad_postal a)"
    "optionally (d_label 120) (map_option JStr (ad_country a)) = Some (ad_country a)"
    using ok by (intro optionally_decoded label_decoded; simp add: public_address_ok_def opt_all_def)+
  have "public_address_ok \<lparr>ad_lines = ad_lines a, ad_locality = ad_locality a, ad_region = ad_region a, ad_postal = ad_postal a, ad_country = ad_country a\<rparr> =
      public_address_ok a"
    by (cases a) simp
  then show ?thesis using ok ls ws
    by (simp add: d_address_def address_json_def checked_def decode_simps del: map_of_append)
qed

lemma address_not_null: "address_json a \<noteq> JNull" by (simp add: address_json_def)

lemma null_address_decoded: "opt_all public_address_ok y \<Longrightarrow> d_null d_address (nullable address_json y) = Some y"
  by (rule null_decoded) (auto simp: address_decoded address_not_null opt_all_def)

lemma restaurant_decoded: "restaurant_ok r \<Longrightarrow> d_restaurant (restaurant_json r) = Some r"
  by (simp add: d_restaurant_def restaurant_json_def decode_simps null_address_decoded restaurant_ok_def trimmed_len_def)

lemma modifier_decoded: "modifier_ok m \<Longrightarrow> d_modifier (modifier_json m) = Some m"
  by (simp add: d_modifier_def modifier_json_def decode_simps modifier_ok_def trimmed_len_def)

lemma classification_decoded [decode_simps]: "d_classification (classification_json c) = Some c"
  by (cases c) (simp_all add: d_classification_def classification_json_def decode_simps)

lemma modifiers_decoded: "list_all modifier_ok ms \<Longrightarrow> d_list d_modifier (JArr (map modifier_json ms)) = Some ms"
  by (rule list_decoded) (auto simp: modifier_decoded list_all_iff)

lemma origin_decoded: "parse_provider_origin H s = Some s \<Longrightarrow> d_origin H (JStr s) = Some s"
  by (simp add: d_origin_def)

lemma order_line_decoded: "order_line_ok H l \<Longrightarrow> d_order_line H (order_line_json l) = Some l"
  by (cases "ol_fulfillment l")
    (simp_all add: d_order_line_def order_line_json_def decode_simps order_line_ok_def trimmed_len_def origin_decoded restaurant_decoded
      modifiers_decoded)

lemma precision_decoded [decode_simps]: "lookup precisions (precision_text p) = Some p"
  by (cases p) (simp_all add: precisions_def precision_text_def)

lemma scope_decoded [decode_simps]: "lookup source_scopes (scope_text s) = Some s"
  by (cases s) (simp_all add: source_scopes_def scope_text_def)

lemma optional_str_decoded [decode_simps]:
  "optionally d_str (map_option JStr x) = Some x"
  by (cases x; simp add: optionally_def d_str_def)+

lemma purchase_decoded [decode_simps]:
  "d_purchase (JObj [(''store'', JStr (pu_store p)), (''order_reference'', JStr (pu_order p)), (''line_item_title'', JStr (pu_title p)),
     (''order_date'', JStr (pu_date p))]) = Some p"
  by (simp add: d_purchase_def decode_simps)

lemma confirmation_decoded [decode_simps]: "d_confirmation (confirmation_json i) = Some i"
  by (simp add: d_confirmation_def confirmation_json_def decode_simps)

lemma changes_decoded [decode_simps]:
  "d_list (d_strict [''description'', ''typical''] (\<lambda>g. do { d \<leftarrow> need d_str (g ''description''); t \<leftarrow> need d_bool (g ''typical''); Some (d, t) }))
     (JArr (map (\<lambda>(d, t). JObj [(''description'', JStr d), (''typical'', JBool t)]) cs)) = Some cs"
  by (rule list_decoded) (auto simp: decode_simps)

lemma cooking_decoded [decode_simps]:
  "d_cooking (JObj (optional ''recipe_item_id'' JStr (ck_item c) @ optional ''recipe_candidate'' JStr (ck_candidate c) @
        [(''cooked_on'', JStr (ck_on c)), (''result'', JStr (ck_result c)),
         (''changes'', JArr (map (\<lambda>(d, t). JObj [(''description'', JStr d), (''typical'', JBool t)]) (ck_changes c)))])) = Some c"
  by (simp add: d_cooking_def decode_simps del: map_of_append)

lemma discovery_decoded [decode_simps]:
  "d_recipe_discovery (JObj (optional ''canonical_recipe_url'' JStr (rc_canonical r) @ (''audited_page_url'', JStr (rc_audited r)) #
        optional ''displayed_image_url'' JStr (rc_image r) @ optional ''author_or_publisher'' JStr (rc_author r) @
        [(''source_scope'', JStr (scope_text (rc_scope r)))])) = Some r"
  by (simp add: d_recipe_discovery_def decode_simps del: map_of_append)

lemma confirmation_optionally [decode_simps]:
  "optionally d_confirmation (map_option confirmation_json i) = Some i"
  by (rule optionally_decoded) (simp add: confirmation_decoded)

text \<open>The fields every evidence has, before the fields of its kind.\<close>

definition evidence_head :: "evidence \<Rightarrow> json_object" where
  "evidence_head e = [(''id'', JStr (ev_id e)), (''observed_at'', JStr (ev_observed e)), (''evidence_date'', nullable JStr (ev_date e)),
       (''date_precision'', JStr (precision_text (ev_precision e))), (''source_type'', JStr (ev_source_type e)),
       (''source_label'', JStr (ev_source_label e)), (''stable_locator'', JStr (ev_locator e)), (''summary'', JStr (ev_summary e)),
       (''actor_id'', JStr (ev_actor e)), (''limitations'', strings (ev_limitations e))] @
      optional ''supersedes_evidence_id'' JStr (ev_supersedes e) @ [(''schema_version'', JNum 1)]"

lemma evidence_json_head: "evidence_json e = JObj (evidence_head e @ evidence_body_fields (ev_body e))"
  by (simp add: evidence_json_def evidence_head_def)

lemma evidence_head_keys: "list_all (\<lambda>p. fst p \<in> set (evidence_keys @ ks)) (evidence_head e)"
  by (simp add: evidence_head_def evidence_keys_def decode_simps)

lemma evidence_head_lookup [decode_simps]:
  "lookup (evidence_head e @ fs) ''kind'' = lookup fs ''kind''" "lookup (evidence_head e @ fs) ''purchase'' = lookup fs ''purchase''"
  "lookup (evidence_head e @ fs) ''delivery_order_line'' = lookup fs ''delivery_order_line''"
  "lookup (evidence_head e @ fs) ''recipe_discovery'' = lookup fs ''recipe_discovery''"
  "lookup (evidence_head e @ fs) ''cooking'' = lookup fs ''cooking''" "lookup (evidence_head e @ fs) ''confirmation'' = lookup fs ''confirmation''"
  by (simp add: evidence_head_def decode_simps del: map_of_append)+

lemma evidence_as_decoded:
  assumes "label (JStr (ev_source_label e)) = Some (ev_source_label e)"
    and "list_all (\<lambda>p. fst p \<in> set (''kind'' # ks)) fs" "lookup fs ''supersedes_evidence_id'' = None"
    and "body (lookup (evidence_head e @ fs)) = Some (ev_body e)"
  shows "d_evidence_as ks label body (JObj (evidence_head e @ fs)) = Some e"
proof -
  have keys: "list_all (\<lambda>p. fst p \<in> set (evidence_keys @ ks)) (evidence_head e @ fs)"
    using evidence_head_keys assms(2) by (auto simp: list_all_iff evidence_keys_def)
  define g where "g = lookup (evidence_head e @ fs)"
  have "g ''id'' = Some (JStr (ev_id e))" "g ''observed_at'' = Some (JStr (ev_observed e))" "g ''evidence_date'' = Some (nullable JStr (ev_date e))"
    "g ''date_precision'' = Some (JStr (precision_text (ev_precision e)))" "g ''source_type'' = Some (JStr (ev_source_type e))"
    "g ''source_label'' = Some (JStr (ev_source_label e))" "g ''stable_locator'' = Some (JStr (ev_locator e))"
    "g ''summary'' = Some (JStr (ev_summary e))" "g ''actor_id'' = Some (JStr (ev_actor e))"
    "g ''limitations'' = Some (strings (ev_limitations e))" "g ''supersedes_evidence_id'' = map_option JStr (ev_supersedes e)"
    "g ''schema_version'' = Some (JNum 1)"
    by (simp_all add: g_def evidence_head_def decode_simps assms(3) del: map_of_append)
  then show ?thesis using keys assms(1,4)
    by (simp add: d_evidence_as_def d_strict_def g_def [symmetric] decode_simps del: list_all_append map_of_append)
qed

lemma evidence_shaped: "evidence_ok H e \<Longrightarrow> evidence_shape H (evidence_json e) = Some e"
proof -
  assume ok: "evidence_ok H e"
  have plain: "d_str (JStr (ev_source_label e)) = Some (ev_source_label e)" by (simp add: d_str_def)
  show ?thesis
  proof (cases "ev_body e")
    case (DeliveryLineEvidence l)
    then have "order_line_ok H l" "d_trim (JStr (ev_source_label e)) = Some (ev_source_label e)"
      using ok by (auto simp: evidence_ok_def delivery_line_evidence_ok_def trim_decoded)
    then show ?thesis using DeliveryLineEvidence
      by (simp add: evidence_shape_def evidence_json_head evidence_body_fields_def tagged_object evidence_as_decoded order_line_decoded
        decode_simps del: map_of_append)
  qed (simp add: evidence_shape_def evidence_json_head evidence_body_fields_def tagged_object evidence_as_decoded plain decode_simps
      del: map_of_append)+
qed

lemma evidence_decoded: "evidence_ok H e \<Longrightarrow> decode_evidence H (evidence_json e) = Some e"
  by (simp add: decode_evidence_def checked_def evidence_shaped)

lemma tri_decoded [decode_simps]: "lookup tri_states (tri_text t) = Some t"
  by (cases t) (simp_all add: tri_states_def tri_text_def)

lemma base_decoded:
  assumes "g ''id'' = Some (JStr (it_id i))" "g ''evidence_ids'' = Some (strings (it_evidence i))" "g ''created_at'' = Some (JStr (it_created i))"
    "g ''updated_at'' = Some (JStr (it_updated i))" "g ''schema_version'' = Some (JNum 1)" "g ''body_markdown'' = Some (JStr (it_body i))"
  shows "item_base_of g = Some (item_base.truncate i)"
  using assms by (simp add: item_base_of_def item_base.defs decode_simps)

lemma grocery_decoded: "d_grocery (gr_kind g) (item_json (GroceryItem g)) = Some (GroceryItem g)"
proof -
  obtain a where a: "a = item_frontmatter (GroceryItem g) @ [(''body_markdown'', JStr (it_body g))]" by blast
  have "item_base_of (lookup a) = Some (item_base.truncate g)"
    by (rule base_decoded) (simp_all add: a item_frontmatter_def grocery_fields_def item_base_fields_def)
  moreover have "list_all (\<lambda>p. fst p \<in> set (item_keys @ [''display_name'', ''brand'', ''product_line'', ''flavor'', ''formulation'', ''format'',
     ''category'', ''produce_variety'', ''known_size_variants'', ''image_page_url'', ''image_url''])) a"
    by (simp add: a item_frontmatter_def grocery_fields_def item_base_fields_def item_keys_def)
  ultimately show ?thesis
    by (simp add: item_json_def item_body_of_def a [symmetric] d_grocery_def d_strict_def del: list_all_append)
      (simp add: a item_frontmatter_def grocery_fields_def item_base_fields_def decode_simps item_base.defs grocery_item.defs)
qed

lemma recipe_decoded: "d_recipe (item_json (RecipeItem r)) = Some (RecipeItem r)"
proof -
  obtain a where a: "a = item_frontmatter (RecipeItem r) @ [(''body_markdown'', JStr (it_body r))]" by blast
  have "item_base_of (lookup a) = Some (item_base.truncate r)"
    by (rule base_decoded) (simp_all add: a item_frontmatter_def recipe_fields_def item_base_fields_def)
  moreover have "list_all (\<lambda>p. fst p \<in> set (item_keys @ [''title'', ''canonical_url'', ''audited_page_url'', ''author_or_publisher'', ''saved'',
      ''cooked'', ''liked'', ''last_cooked'', ''date_precision'', ''image_url'', ''image_page_url''])) a"
    by (simp add: a item_frontmatter_def recipe_fields_def item_base_fields_def item_keys_def)
  ultimately show ?thesis
    by (simp add: item_json_def item_body_of_def a [symmetric] d_recipe_def d_strict_def del: list_all_append)
      (simp add: a item_frontmatter_def recipe_fields_def item_base_fields_def decode_simps item_base.defs recipe_item.defs)
qed

lemma occurrences_decoded:
  assumes "list_all (\<lambda>(e, ms). list_all modifier_ok ms) os"
  shows "d_list d_occurrence (JArr (map (\<lambda>(e, ms). JObj [(''evidence_id'', JStr e), (''modifiers_complete'', JBool True),
         (''modifiers'', JArr (map modifier_json ms))]) os)) = Some os"
  using assms by (intro list_decoded) (auto simp: d_occurrence_def decode_simps modifiers_decoded list_all_iff)

lemma dish_decoded: "dish_ok H d \<Longrightarrow> d_dish H (item_json (DishItem d)) = Some (DishItem d)"
proof -
  assume ok: "dish_ok H d"
  obtain a where a: "a = item_frontmatter (DishItem d) @ [(''body_markdown'', JStr (it_body d))]" by blast
  have "item_base_of (lookup a) = Some (item_base.truncate d)"
    by (rule base_decoded) (simp_all add: a item_frontmatter_def dish_fields_def item_base_fields_def)
  moreover have "list_all (\<lambda>p. fst p \<in> set (item_keys @ [''dish_name'', ''provider_label'', ''provider_origin'', ''restaurant_name'',
      ''public_location_label'', ''public_merchant_address'', ''image_url'', ''image_page_url'', ''merchant_locator'', ''known_menu_item_locators'',
      ''known_modifier_occurrences'', ''classification''])) a"
    by (simp add: a item_frontmatter_def dish_fields_def item_base_fields_def item_keys_def)
  moreover have "trim (dd_dish d) = dd_dish d" "trim (dd_provider_label d) = dd_provider_label d" "trim (dd_restaurant d) = dd_restaurant d"
    "trim (dd_location d) = dd_location d" "d_origin H (JStr (dd_provider_origin d)) = Some (dd_provider_origin d)"
    "d_null d_address (nullable address_json (dd_address d)) = Some (dd_address d)"
    using ok by (simp_all add: dish_ok_def trimmed_len_def origin_decoded null_address_decoded)
  moreover have "list_all (\<lambda>(e, ms). list_all modifier_ok ms) (dd_occurrences d)"
    using ok by (auto simp: dish_ok_def list_all_iff)
  note occurrences_decoded [OF this]
  ultimately show ?thesis
    by (simp add: item_json_def item_body_of_def a [symmetric] d_dish_def d_strict_def del: list_all_append)
      (simp add: a item_frontmatter_def dish_fields_def item_base_fields_def decode_simps item_base.defs dish_item.defs)
qed

lemma provenance_decoded [decode_simps]: "d_provenance (provenance_json p) = Some p"
  by (simp add: d_provenance_def provenance_json_def decode_simps)

lemma imported_dish_decoded: "imported_dish_ok H d \<Longrightarrow> d_imported_dish (item_json (ImportedDishItem d)) = Some (ImportedDishItem d)"
proof -
  assume ok: "imported_dish_ok H d"
  obtain a where a: "a = item_frontmatter (ImportedDishItem d) @ [(''body_markdown'', JStr (it_body d))]" by blast
  have "item_base_of (lookup a) = Some (item_base.truncate d)"
    by (rule base_decoded) (simp_all add: a item_frontmatter_def imported_dish_fields_def item_base_fields_def)
  moreover have "list_all (\<lambda>p. fst p \<in> set (item_keys @ [''delivery_authority'', ''dish_name'', ''restaurant_name'', ''public_location_label'',
      ''public_merchant_address'', ''image_url'', ''image_page_url'', ''source_display_attribution'', ''classification'', ''import_provenance''])) a"
    by (simp add: a item_frontmatter_def imported_dish_fields_def item_base_fields_def item_keys_def)
  moreover have "trim (im_dish d) = im_dish d" "trim (im_restaurant d) = im_restaurant d" "trim (im_location d) = im_location d"
    "d_null d_address (nullable address_json (im_address d)) = Some (im_address d)"
    using ok by (simp_all add: imported_dish_ok_def trimmed_len_def null_address_decoded)
  ultimately show ?thesis
    by (simp add: item_json_def item_body_of_def a [symmetric] d_imported_dish_def d_strict_def del: list_all_append)
      (simp add: a item_frontmatter_def imported_dish_fields_def item_base_fields_def decode_simps item_base.defs imported_dish_item.defs)
qed

lemma imported_is_no_dish: "d_dish H (item_json (ImportedDishItem d)) = None"
  by (simp add: d_dish_def d_strict_def item_json_def item_frontmatter_def imported_dish_fields_def item_keys_def)

lemma item_json_kind: "item_json i = JObj (item_frontmatter i @ [(''body_markdown'', JStr (item_body_of i))])"
    "lookup (item_frontmatter i @ fs) ''kind'' = Some (JStr (item_kind_text i))"
  by (cases i; simp add: item_json_def item_frontmatter_def grocery_fields_def recipe_fields_def dish_fields_def imported_dish_fields_def
      item_base_fields_def item_kind_text_def)+

lemma item_shaped: "journal_item_ok H i \<Longrightarrow> item_shape H (item_json i) = Some i"
proof -
  assume ok: "journal_item_ok H i"
  have tagged: "item_shape H (item_json i) = d (item_json i)"
    if "lookup [(''snack'', d_grocery Snack), (''ingredient'', d_grocery Ingredient), (''condiment'', d_grocery Condiment),
      (''other_grocery'', d_grocery OtherGrocery), (''recipe'', d_recipe), (''delivery_dish'', d_either (d_dish H) d_imported_dish)]
      (item_kind_text i) = Some d" for d
    using tagged_object [OF item_json_kind(2) that] by (simp add: item_shape_def item_json_kind(1))
  show ?thesis
  proof (cases i)
    case (GroceryItem g)
    then show ?thesis using tagged [of "d_grocery (gr_kind g)"] grocery_decoded [of g]
      by (cases "gr_kind g") (simp_all add: item_kind_text_def grocery_kind_text_def)
  next
    case (RecipeItem r)
    then show ?thesis using tagged [of d_recipe] recipe_decoded [of r] by (simp add: item_kind_text_def)
  next
    case (DishItem d)
    then show ?thesis using tagged [of "d_either (d_dish H) d_imported_dish"] dish_decoded [of H d] ok
      by (simp add: item_kind_text_def d_either_def journal_item_ok_def)
  next
    case (ImportedDishItem d)
    then show ?thesis using tagged [of "d_either (d_dish H) d_imported_dish"] imported_dish_decoded [of H d] ok
      by (simp add: item_kind_text_def d_either_def journal_item_ok_def imported_is_no_dish)
  qed
qed

lemma item_decoded: "journal_item_ok H i \<Longrightarrow> decode_item H (item_json i) = Some i"
  by (simp add: decode_item_def checked_def item_shaped)

section \<open>Reports, profiles, meal plans, collections\<close>

lemma assertion_decoded: "d_assertion (assertion_json a) = Some a"
proof -
  have "optionally d_nat (map_option nat_json (ra_order_count a)) = Some (ra_order_count a)"
    by (rule optionally_decoded) (simp add: decode_simps)
  then show ?thesis by (simp add: d_assertion_def assertion_json_def decode_simps del: map_of_append)
qed

lemma report_decoded: "report_ok H r \<Longrightarrow> rep_type r = DeliveryIndex \<Longrightarrow> decode_delivery_report H (report_json r) = Some r"
proof -
  assume ok: "report_ok H r" "rep_type r = DeliveryIndex"
  have "report_ok H \<lparr>rep_type = DeliveryIndex, rep_markdown = rep_markdown r, rep_assertions = rep_assertions r\<rparr>"
    using ok by (cases r) simp
  then show ?thesis using ok(1) list_decoded [of "rep_assertions r" d_assertion assertion_json] ok(2)
    by (simp add: decode_delivery_report_def checked_def report_json_def report_frontmatter_def report_type_text_def decode_simps assertion_decoded)
qed

lemma preference_decoded [decode_simps]: "lookup preference_scopes (preference_scope_text s) = Some s"
  by (cases s) (simp_all add: preference_scopes_def preference_scope_text_def)

lemma selection_decoded: "provider_selection_ok H s \<Longrightarrow> d_selection H (selection_json s) = Some s"
proof -
  assume ok: "provider_selection_ok H s"
  have "d_null (d_strict [''completed_order_date'', ''provider_order_locator'']
     (\<lambda>g. do { d \<leftarrow> need d_str (g ''completed_order_date''); p \<leftarrow> need d_str (g ''provider_order_locator'');
               Some \<lparr>hc_date = d, hc_locator = p\<rparr> }))
    (nullable (\<lambda>c. JObj [(''completed_order_date'', JStr (hc_date c)), (''provider_order_locator'', JStr (hc_locator c))]) (ps_cursor s)) =
    Some (ps_cursor s)"
    by (rule null_decoded) (simp add: decode_simps)
  then show ?thesis using ok
    by (simp add: d_selection_def selection_json_def decode_simps provider_selection_ok_def trimmed_len_def origin_decoded)
qed

lemma delivery_profile_decoded: "delivery_profile_ok H p \<Longrightarrow> decode_delivery_profile H (JObj (delivery_profile_fields p)) = Some p"
proof -
  assume ok: "delivery_profile_ok H p"
  have "d_list (d_selection H) (JArr (map selection_json (dp_providers p))) = Some (dp_providers p)"
    using ok by (intro list_decoded selection_decoded) (auto simp: delivery_profile_ok_def list_all_iff)
  moreover have "d_list d_preference (preferences_json (dp_preferences p)) = Some (dp_preferences p)"
    using ok unfolding preferences_json_def
    by (intro list_decoded) (auto simp: delivery_profile_ok_def list_all_iff d_preference_def decode_simps label_decoded)
  moreover have "delivery_profile_ok H \<lparr>dp_providers = dp_providers p, dp_preferences = dp_preferences p\<rparr>" using ok by (cases p) simp
  ultimately show ?thesis by (simp add: decode_delivery_profile_def checked_def delivery_profile_fields_def decode_simps)
qed

lemma meal_actor_decoded: "meal_actor_ok a \<Longrightarrow> d_meal_actor (meal_actor_json a) = Some a"
  by (cases a) (simp_all add: d_meal_actor_def meal_actor_json_def d_either_def decode_simps meal_actor_ok_def trimmed_len_def d_str_def)

lemma revision_decoded [decode_simps]: "d_constraint_revision (constraint_revision_json r) = Some r"
  by (cases r) (simp_all add: d_constraint_revision_def constraint_revision_json_def d_either_def d_str_def d_nat_def)

lemma slot_decoded: "meal_slot_ok s \<Longrightarrow> d_slot (slot_json s) = Some s"
  by (cases s) (simp_all add: d_slot_def slot_json_def slot_kind_def tagged_object decode_simps meal_slot_ok_def trimmed_len_def)

lemma meal_source_decoded: "meal_source_ok H s \<Longrightarrow> d_meal_source (meal_source_json s) = Some s"
  by (cases s) (simp_all add: d_meal_source_def meal_source_json_def tagged_object decode_simps meal_source_ok_def trimmed_len_def)

lemma compatibility_decoded [decode_simps]: "lookup compatibilities (compatibility_text c) = Some c"
  by (cases c) (simp_all add: compatibilities_def compatibility_text_def)

lemma null_nat_decoded [decode_simps]: "d_null d_nat (nullable nat_json n) = Some n"
  by (rule null_decoded) (simp add: decode_simps)

lemma null_trim_decoded: "opt_all (trimmed_len a b) n \<Longrightarrow> d_null d_trim (nullable JStr n) = Some n"
  by (rule null_decoded) (auto simp: trim_decoded opt_all_def)

lemma proposal_decoded: "meal_proposal_ok H p \<Longrightarrow> decode_proposal H (meal_proposal_json p) = Some p"
proof -
  assume ok: "meal_proposal_ok H p"
  then have "d_slot (slot_json (mp_slot p)) = Some (mp_slot p)" "d_meal_actor (meal_actor_json (mp_by p)) = Some (mp_by p)"
    "d_meal_source (meal_source_json (mp_source p)) = Some (mp_source p)" "d_null d_trim (nullable JStr (mp_notes p)) = Some (mp_notes p)"
    "trim (mp_caveat p) = mp_caveat p"
    by (auto simp: meal_proposal_ok_def slot_decoded meal_actor_decoded meal_source_decoded null_trim_decoded trimmed_len_def)
  then have "proposal_shape (meal_proposal_json p) = Some p"
    by (simp add: proposal_shape_def meal_proposal_json_def decode_simps)
  then show ?thesis using ok by (simp add: decode_proposal_def checked_def)
qed

lemma event_decoded: "meal_plan_event_ok H e \<Longrightarrow> decode_event H (meal_event_json e) = Some e"
proof -
  assume ok: "meal_plan_event_ok H e"
  then have "d_meal_actor (meal_actor_json (me_actor e)) = Some (me_actor e)" by (simp add: meal_plan_event_ok_def meal_actor_decoded)
  moreover have "d_null d_trim (nullable JStr r) = Some r" if "me_kind e = ProposalWithdrawn p r" for p r
    using ok that by (auto simp: meal_plan_event_ok_def null_trim_decoded)
  ultimately have "event_shape (meal_event_json e) = Some e"
    by (cases "me_kind e") (simp_all add: event_shape_def meal_event_json_def tagged_object d_event_as_def decode_simps)
  then show ?thesis using ok by (simp add: decode_event_def checked_def)
qed

lemma trims_decoded: "list_all (trimmed_len a b) xs \<Longrightarrow> d_list d_trim (strings xs) = Some xs"
  by (rule list_decoded) (auto simp: trim_decoded list_all_iff)

lemma constraints_decoded: "confirmed_constraints_ok H c \<Longrightarrow> d_confirmed_constraints (constraints_json c) = Some c"
  by (cases c)
    (auto simp: d_confirmed_constraints_def constraints_json_def tagged_object decode_simps confirmed_constraints_ok_def constraints_ok_def
      recorded_constraints_ok_def time_zone_ok_def trimmed_len_def trims_decoded)

lemma entry_decoded: "d_entry (rse_kind e) (entry_json e) = Some (ItemEntry e)"
  by (simp add: d_entry_def entry_json_def decode_simps)

lemma dish_entry_decoded: "dish_entry_ok H e \<Longrightarrow> d_dish_entry (JObj (dish_entry_fields e)) = Some (DishEntry e)"
  by (simp add: d_dish_entry_def dish_entry_fields_def decode_simps dish_entry_ok_def null_address_decoded)

lemma collection_item_decoded:
  assumes "case i of ItemEntry e \<Rightarrow> entry_ok H e | DishEntry e \<Rightarrow> dish_entry_ok H e"
  shows "d_tagged ''kind'' [(''recipe'', d_entry RecipeEntry), (''snack'', d_entry SnackEntry), (''delivery_dish'', d_dish_entry)]
     (collection_item_json i) = Some i"
proof (cases i)
  case (ItemEntry e)
  then show ?thesis using entry_decoded [of e]
    by (cases "rse_kind e") (simp_all add: collection_item_json_def entry_json_def tagged_object)
next
  case (DishEntry e)
  then show ?thesis using dish_entry_decoded [of H e] assms
    by (simp add: collection_item_json_def tagged_object dish_entry_fields_def)
qed

lemma snapshot_decoded: "collection_snapshot_ok H s \<Longrightarrow> decode_snapshot H (snapshot_json s) = Some s"
proof -
  assume ok: "collection_snapshot_ok H s"
  have "d_list (d_tagged ''kind'' [(''recipe'', d_entry RecipeEntry), (''snack'', d_entry SnackEntry), (''delivery_dish'', d_dish_entry)])
     (JArr (map collection_item_json (cs_items s))) = Some (cs_items s)"
    using ok by (intro list_decoded collection_item_decoded) (auto simp: collection_snapshot_ok_def list_all_iff)
  then have "snapshot_shape (snapshot_json s) = Some s"
    by (simp add: snapshot_shape_def snapshot_json_def decode_simps)
  then show ?thesis using ok by (simp add: decode_snapshot_def checked_def)
qed

section \<open>Documents\<close>

text \<open>Every encoder builds objects without repeated keys.\<close>

lemma optional_fst [decode_simps]:
  "fst ` set (optional k f x) = (if x = None then {} else {k})" "distinct (map fst (optional k f x))"
  "list_all Q (optional k f x) = opt_all (\<lambda>v. Q (k, f v)) x"
  by (cases x; simp add: optional_def opt_all_def)+

lemma json_ok_nullable [decode_simps]: "json_ok (nullable f x) = opt_all (\<lambda>v. json_ok (f v)) x"
  by (cases x) (simp_all add: nullable_def opt_all_def)

lemma opt_all_TrueI: "(\<And>v. P v) \<Longrightarrow> opt_all P x"
  by (cases x) (simp_all add: opt_all_def)

lemma json_ok_list [decode_simps]: "list_all json_ok (map f xs) = list_all (\<lambda>x. json_ok (f x)) xs" "list_all (\<lambda>_. True) ys"
  by (simp_all add: list_all_iff)

lemma json_ok_parts [decode_simps]:
  "json_ok (address_json a)" "json_ok (modifier_json m)" "json_ok (classification_json c)" "json_ok (confirmation_json i)"
  "json_ok (provenance_json p)" "json_ok (assertion_json r)" "json_ok (slot_json s)" "json_ok (meal_source_json src)"
  "json_ok (meal_actor_json actor)" "json_ok (constraint_revision_json crev)" "json_ok (constraints_json cs)"
  by (auto simp: address_json_def modifier_json_def classification_json_def confirmation_json_def provenance_json_def assertion_json_def
    slot_json_def meal_source_json_def meal_actor_json_def constraint_revision_json_def constraints_json_def decode_simps case_prod_unfold
    split: option.split meal_slot.split meal_source.split meal_actor.split constraint_revision.split constraints.split)

lemma json_ok_restaurant [decode_simps]: "json_ok (restaurant_json r)" "json_ok (order_line_json l)"
  by (auto simp: restaurant_json_def order_line_json_def decode_simps case_prod_unfold split: option.split)

lemma json_ok_evidence: "json_ok (evidence_json e)"
  by (cases "ev_body e") (auto simp: evidence_json_def evidence_body_fields_def decode_simps case_prod_unfold split: option.split)

lemma json_ok_item: "json_ok (item_json i)"
  by (cases i) (auto simp: item_json_def item_frontmatter_def grocery_fields_def recipe_fields_def dish_fields_def imported_dish_fields_def
    item_base_fields_def decode_simps case_prod_unfold split: option.split)

lemma json_ok_meal: "json_ok (meal_proposal_json p)" "json_ok (meal_event_json e)"
  by (auto simp: meal_proposal_json_def meal_event_json_def decode_simps case_prod_unfold split: option.split meal_event_kind.split)

lemma json_ok_collection_item [decode_simps]: "json_ok (collection_item_json i)"
  by (auto simp: collection_item_json_def entry_json_def dish_entry_fields_def decode_simps case_prod_unfold
    split: option.split collection_item.split)

lemma json_ok_snapshot: "json_ok (snapshot_json s)"
  by (auto simp: snapshot_json_def decode_simps)

lemma json_ok_delivery: "json_ok (report_json r)" "json_ok (JObj (delivery_profile_fields p))"
  by (auto simp: report_json_def report_frontmatter_def delivery_profile_fields_def selection_json_def preferences_json_def decode_simps case_prod_unfold
    split: option.split)

lemma printed_and_decoded:
  assumes "json_ok j" "sort_free d" "d j = Some x"
  shows "\<exists>j'. parse_json (stable_json C j) = Some j' \<and> d j' = Some x"
  using assms parse_printed [of j C] by (auto simp: sort_free_def)

lemmas evidence_document = printed_and_decoded [OF json_ok_evidence sort_free_evidence evidence_decoded]
lemmas proposal_document = printed_and_decoded [OF json_ok_meal(1) sort_free_proposal proposal_decoded]
lemmas event_document = printed_and_decoded [OF json_ok_meal(2) sort_free_event event_decoded]
lemmas snapshot_document = printed_and_decoded [OF json_ok_snapshot sort_free_snapshot snapshot_decoded]

end
