(* ===== verification/MarkdownText.thy ===== *)
theory MarkdownText
  imports JournalRoundTrip
begin

text \<open>
  Reading a Markdown document with front matter (\<^verbatim>\<open>parseMarkdownDocument\<close> of
  \<^verbatim>\<open>apps/server/src/domain/repository-projection.ts\<close>) and the theorem that it undoes
  \<open>markdown_document\<close>.  A front matter value is JSON or a plain word; a number that is not written as an integer is refused, as no
  document of the repository holds one.
\<close>

section \<open>The parser\<close>

fun split_on :: "char \<Rightarrow> string \<Rightarrow> string list" where
  "split_on c [] = [[]]"
| "split_on c (x # xs) =
     (if x = c then [] # split_on c xs else (case split_on c xs of [] \<Rightarrow> [[x]] | l # ls \<Rightarrow> (x # l) # ls))"

abbreviation text_lines :: "string \<Rightarrow> string list" where
  "text_lines s \<equiv> split_on (CHR 0x0A) (unix_lines s)"

definition plain_word :: "string \<Rightarrow> bool" where
  "plain_word s \<longleftrightarrow> s \<noteq> [] \<and> list_all (\<lambda>c. is_upper c \<or> is_lower c \<or> is_digit c \<or> c \<in> set ''._-'') s"

definition digits_only :: "string \<Rightarrow> bool" where
  "digits_only s \<longleftrightarrow> s \<noteq> [] \<and> list_all is_digit s"

text \<open>A JSON number with a fraction or an exponent.\<close>

definition fractional :: "string \<Rightarrow> bool" where
  "fractional s =
     (case parse_natural (if starts_with ''-'' s then tl s else s) of
        None \<Rightarrow> False
      | Some (_, r) \<Rightarrow>
          let frac = (if starts_with ''.'' r then takeWhile is_digit (tl r) else []);
              rest = (if frac = [] then r else drop (Suc (length frac)) r)
          in r \<noteq> [] \<and> (rest = [] \<or>
             hd rest \<in> set ''eE'' \<and> digits_only (if tl rest \<noteq> [] \<and> hd (tl rest) \<in> set ''+-'' then tl (tl rest) else tl rest)))"

definition front_value :: "string \<Rightarrow> json option" where
  "front_value s =
     (case parse_json s of
        Some j \<Rightarrow> Some j
      | None \<Rightarrow> if plain_word s \<and> \<not> fractional s then Some (JStr s) else None)"

fun front_matter :: "string list \<Rightarrow> json_object \<Rightarrow> json_object option" where
  "front_matter [] fm = Some fm"
| "front_matter (l # ls) fm =
     (let key = takeWhile (\<lambda>c. c \<noteq> CHR '':'') l in
      if key = l \<or> key = [] then None
      else (case front_value (trim (drop (Suc (length key)) l)) of
              None \<Rightarrow> None
            | Some v \<Rightarrow> front_matter ls (put key v fm)))"

definition parse_markdown_document :: "string \<Rightarrow> (json_object \<times> string) option" where
  "parse_markdown_document content =
     (case text_lines content of
        [] \<Rightarrow> None
      | l # ls \<Rightarrow>
          if l \<noteq> ''---'' then None
          else (case dropWhile (\<lambda>l. l \<noteq> ''---'') ls of
                  [] \<Rightarrow> None
                | _ # body \<Rightarrow>
                    (case front_matter (takeWhile (\<lambda>l. l \<noteq> ''---'') ls) [] of
                       None \<Rightarrow> None
                     | Some fm \<Rightarrow> Some (fm, remove_final_newline (join [CHR 0x0A] body)))))"

section \<open>Printed values\<close>

lemma compact_text: "json_ok j \<Longrightarrow> json_text j (print_compact j)"
proof (induction j rule: print_compact.induct)
  case (5 xs)
  show ?case
  proof (cases "xs = []")
    case False
    have "items_text xs (join '','' (map (\<lambda>x. [] @ print_compact x) xs) @ [])"
      by (rule items_join) (use 5 False in \<open>auto simp: list_all_iff\<close>)
    from items [OF this] show ?thesis using False by simp
  qed (simp add: no_items)
next
  case (6 fs)
  show ?case
  proof (cases "fs = []")
    case False
    have "json_text x (print_compact x)" if "(k, x) \<in> set fs" for k x
      using 6(1) [OF that refl] 6(2) that by (auto simp: list_all_iff)
    then have "fields_text fs (join '','' (map (\<lambda>(k, x). [] @ json_quote k @ '':'' @ [] @ print_compact x) fs) @ [])"
      by (intro fields_join) (use False in auto)
    from obj [OF this] show ?thesis using False 6(2) by simp
  qed (simp add: no_fields)
next
  case (2 b)
  then show ?case using boolean [of b] by simp
qed (simp_all add: null number str)

lemma parse_compact: "json_ok j \<Longrightarrow> parse_json (print_compact j) = Some j"
  using parse_json_text [OF compact_text, of j "[]" "[]"] by simp

definition visible :: "char \<Rightarrow> bool" where
  "visible c \<longleftrightarrow> 32 \<le> (of_char c :: nat)"

lemma visible_marks [simp]: "visible (CHR 0x22)" "visible (CHR '':'')" "visible (CHR '','')" "visible (CHR ''{'')" "visible (CHR ''}'')"
  "visible (CHR ''['')" "visible (CHR '']'')" "visible (CHR ''-'')" "visible (CHR ''n'')" "visible (CHR ''u'')" "visible (CHR ''l'')"
  "visible (CHR ''t'')" "visible (CHR ''r'')" "visible (CHR ''e'')" "visible (CHR ''f'')" "visible (CHR ''a'')" "visible (CHR ''s'')"
  by (simp_all add: visible_def)

lemma visible_quoted: "list_all visible (quote_char c)"
proof -
  have "visible (hex_digit k)" if "k < 16" for k
  proof -
    from that have "k \<in> set [0..<16]" by simp
    then show ?thesis by (auto simp: upt_rec hex_digit_def visible_def)
  qed
  then show ?thesis by (auto simp: quote_char_def Let_def visible_def)
qed

lemma visible_join: "list_all visible sep \<Longrightarrow> list_all (list_all visible) ss \<Longrightarrow> list_all visible (join sep ss)"
  by (induction sep ss rule: join.induct) auto

lemma visible_quote: "list_all visible (json_quote s)"
  by (induction s) (auto simp: json_quote_def visible_quoted)

lemma visible_digits: "list_all visible (digits n)"
  using digits_digit [of n] by (auto simp: list_all_iff is_digit_def visible_def less_eq_char_def)

lemma visible_compact: "list_all visible (print_compact j)"
proof (induction j rule: print_compact.induct)
  case (6 fs)
  then have "list_all (list_all visible) (map (\<lambda>(k, x). json_quote k @ '':'' @ print_compact x) fs)"
    by (auto simp: list_all_iff dest: bspec [OF visible_quote [unfolded list_all_iff]])
  then show ?case by (simp add: visible_join)
next
  case (5 xs)
  then have "list_all (list_all visible) (map print_compact xs)" by (auto simp: list_all_iff)
  then show ?case by (simp add: visible_join)
qed (simp_all add: visible_quote visible_digits int_text_def)

section \<open>Lines\<close>

lemma unix_lines_id: "CHR 0x0D \<notin> set s \<Longrightarrow> unix_lines s = s"
  by (induction s rule: unix_lines.induct) auto

lemma split_on_nonempty: "split_on c s \<noteq> []"
  by (cases s) (auto split: list.split)

lemma split_on_line: "c \<notin> set l \<Longrightarrow> split_on c (l @ c # s) = l # split_on c s"
  by (induction l) auto

lemma split_on_last: "c \<notin> set l \<Longrightarrow> split_on c l = [l]"
  by (induction l) auto

lemma split_on_lines: "list_all (\<lambda>l. c \<notin> set l) ls \<Longrightarrow> ls \<noteq> [] \<Longrightarrow> split_on c (join [c] ls @ c # s) = ls @ split_on c s"
proof (induction ls rule: induct_list012)
  case (3 l m ls)
  then show ?case by (simp add: split_on_line)
qed (simp_all add: split_on_line)

lemma join_split: "join [c] (split_on c s) = s"
proof (induction s)
  case (Cons x s)
  then show ?case using split_on_nonempty [of c s]
    by (cases "split_on c s"; cases "tl (split_on c s)") auto
qed simp

text \<open>A value is printed without white space around it.\<close>

lemma trim_value:
  assumes "s \<noteq> []" "\<not> js_space (hd s)" "\<not> js_space (last s)"
  shows "trim ('' '' @ s) = s"
proof -
  obtain a t where s: "s = a # t" using assms(1) by (cases s) auto
  have "dropWhile js_space ('' '' @ s) = s" using assms(2) by (simp add: s js_space_def)
  moreover have "dropWhile js_space (rev s) = rev s"
    using assms(1,3) by (cases s rule: rev_cases) auto
  ultimately show ?thesis by (simp add: trim_def)
qed

lemma digit_not_space: "is_digit c \<Longrightarrow> \<not> js_space c"
  by (auto simp: is_digit_def js_space_def Let_def less_eq_char_def)

lemma compact_ends: "print_compact j \<noteq> [] \<and> \<not> js_space (hd (print_compact j)) \<and> \<not> js_space (last (print_compact j))"
proof (cases j)
  case (JNum i)
  have "is_digit (hd (digits n)) \<and> is_digit (last (digits n))" for n
    using digits_digit [of n] digits_nonempty [of n] by (simp add: list_all_iff)
  then show ?thesis using JNum digits_nonempty digit_not_space by (simp add: int_text_def js_space_def)
qed (auto simp: json_quote_def js_space_def)

lemma compact_trimmed: "trim ('' '' @ print_compact j) = print_compact j"
  using compact_ends [of j] by (intro trim_value) auto

section \<open>The document\<close>

definition key_ok :: "string \<Rightarrow> bool" where
  "key_ok k \<longleftrightarrow> k \<noteq> [] \<and> CHR '':'' \<notin> set k \<and> list_all visible k"

definition front_ok :: "json_object \<Rightarrow> bool" where
  "front_ok fm \<longleftrightarrow> fm \<noteq> [] \<and> distinct (map fst fm) \<and> list_all (\<lambda>(k, v). key_ok k \<and> json_ok v) fm"

abbreviation front_line :: "string \<times> json \<Rightarrow> string" where
  "front_line p \<equiv> (case p of (k, v) \<Rightarrow> k @ '': '' @ print_compact v)"

lemma front_value_compact: "json_ok v \<Longrightarrow> front_value (print_compact v) = Some v"
  by (simp add: front_value_def parse_compact)

lemma front_line_step:
  assumes "key_ok k" "json_ok v"
  shows "front_matter (front_line (k, v) # ls) fm = front_matter ls (put k v fm)"
proof -
  let ?l = "k @ '': '' @ print_compact v"
  have k: "takeWhile (\<lambda>c. c \<noteq> CHR '':'') ?l = k"
    using assms(1) by (subst takeWhile_append2) (auto simp: key_ok_def)
  have "drop (Suc (length k)) ?l = '' '' @ print_compact v" by simp
  then have v: "front_value (trim (drop (Suc (length k)) ?l)) = Some v"
    using compact_trimmed [of v] front_value_compact [OF assms(2)] by simp
  show ?thesis
    using assms(1) k v by (simp add: Let_def key_ok_def)
qed

lemma front_matter_lines:
  "list_all (\<lambda>(k, v). key_ok k \<and> json_ok v) fm \<Longrightarrow> front_matter (map front_line fm) m = Some (fold (\<lambda>(k, v). put k v) fm m)"
proof (induction fm arbitrary: m)
  case (Cons p fm)
  obtain k v where "p = (k, v)" by (cases p)
  then show ?case using Cons front_line_step [of k v "map front_line fm" m] by (auto simp del: front_matter.simps)
qed simp

lemma front_line_facts:
  assumes "key_ok k"
  shows "list_all visible (front_line (k, v))" "front_line (k, v) \<noteq> ''---''"
proof -
  show "list_all visible (front_line (k, v))"
    using assms visible_compact [of v] by (simp add: key_ok_def visible_def)
  have "CHR '':'' \<in> set (front_line (k, v))" "CHR '':'' \<notin> set ''---''" by simp_all
  then show "front_line (k, v) \<noteq> ''---''" by metis
qed

lemma visible_no_break: "list_all visible s \<Longrightarrow> CHR 0x0A \<notin> set s \<and> CHR 0x0D \<notin> set s"
  by (auto simp: list_all_iff visible_def)

abbreviation front_order :: "codec \<Rightarrow> json_object \<Rightarrow> json_object" where
  "front_order C fm \<equiv> sort_key (\<lambda>(k, v). collation_key C k) fm"

lemma front_ok_order: "front_ok fm \<Longrightarrow> front_ok (front_order C fm)"
  by (auto simp: front_ok_def list_all_iff distinct_map distinct_sort set_sort)
    (metis set_empty set_sort)

lemma while_stops: "list_all P xs \<Longrightarrow> \<not> P y \<Longrightarrow> takeWhile P (xs @ y # r) = xs \<and> dropWhile P (xs @ y # r) = y # r"
  by (induction xs) auto

theorem markdown_parsed:
  assumes "front_ok fm" "CHR 0x0D \<notin> set body"
  shows "parse_markdown_document (markdown_document C fm body) = Some (front_order C fm, body)"
proof -
  let ?fm = "front_order C fm" and ?nl = "CHR 0x0A"
  let ?ls = "map front_line ?fm"
  have ok: "front_ok ?fm" by (rule front_ok_order [OF assms(1)])
  have line: "front_line p \<noteq> ''---'' \<and> list_all visible (front_line p)" if "p \<in> set ?fm" for p
    using front_line_facts [of "fst p" "snd p"] ok that by (cases p) (auto simp: front_ok_def list_all_iff)
  have lines: "list_all (\<lambda>l. l \<noteq> ''---'') ?ls" "list_all (list_all visible) ?ls"
    using line by (simp_all only: list_all_iff list.set_map ball_simps) blast+
  have clean: "list_all (\<lambda>l. ?nl \<notin> set l) ?ls" "CHR 0x0D \<notin> set (join [?nl] ?ls)"
  proof -
    show "list_all (\<lambda>l. ?nl \<notin> set l) ?ls" using lines(2) visible_no_break by (auto simp: list_all_iff)
    have "CHR 0x0D \<notin> set (join [?nl] ls)" if "list_all (list_all visible) ls" for ls
      using that visible_no_break by (induction "[?nl]" ls rule: join.induct) auto
    then show "CHR 0x0D \<notin> set (join [?nl] ?ls)" using lines(2) by (auto simp: list_all_iff)
  qed
  have body: "unix_lines body = body" by (rule unix_lines_id [OF assms(2)])
  let ?doc = "''---'' @ [?nl] @ join [?nl] ?ls @ [?nl] @ ''---'' @ [?nl] @ body @ [?nl]"
  have "markdown_document C fm body = ?doc"
    by (simp add: markdown_document_def frontmatter_lines_def body)
  moreover have "text_lines ?doc = ''---'' # ?ls @ ''---'' # split_on ?nl (body @ [?nl])"
  proof -
    have "unix_lines ?doc = ?doc" using clean(2) assms(2) by (intro unix_lines_id) auto
    moreover have "split_on ?nl (''---'' @ ?nl # s) = ''---'' # split_on ?nl s" for s by (rule split_on_line) simp
    moreover have "split_on ?nl (join [?nl] ?ls @ ?nl # s) = ?ls @ split_on ?nl s" for s
      using ok by (intro split_on_lines [OF clean(1)]) (simp add: front_ok_def)
    ultimately show ?thesis by (simp del: split_on.simps)
  qed
  moreover have "takeWhile (\<lambda>l. l \<noteq> ''---'') (?ls @ ''---'' # r) = ?ls" "dropWhile (\<lambda>l. l \<noteq> ''---'') (?ls @ ''---'' # r) = ''---'' # r" for r
    using while_stops [OF lines(1), of "''---''" r] by blast+
  moreover have "front_matter ?ls [] = Some ?fm"
    using front_matter_lines [of ?fm "[]"] ok object_of_distinct [of ?fm] by (simp add: front_ok_def object_of_def)
  moreover have "remove_final_newline (join [?nl] (split_on ?nl (body @ [?nl]))) = body"
    by (simp add: join_split remove_final_newline_def ends_with_newline_def)
  ultimately show ?thesis by (simp add: parse_markdown_document_def)
qed

end
