(* ===== verification/RepositoryProjection.thy ===== *)
theory RepositoryProjection
  imports MarkdownText JournalSharing
begin

text \<open>
  Rebuilding the operational projection of a household from its repository
  (\<^verbatim>\<open>apps/server/src/domain/repository-projection.ts\<close>): each file is recognised by its path, decoded by
  its schema and added to the projection; documents that do not fit make the whole rebuild fail.  The argument \<open>moment\<close> reads a
  date-time text, which the code keeps as text.
\<close>

section \<open>Paths of the documents\<close>

definition opt_ex :: "('a \<Rightarrow> bool) \<Rightarrow> 'a option \<Rightarrow> bool" where
  "opt_ex P x = (case x of None \<Rightarrow> False | Some v \<Rightarrow> P v)"

definition inside :: "string \<Rightarrow> string \<Rightarrow> string \<Rightarrow> string option" where
  "inside pre suf p =
     (let r = drop (length pre) p; n = length r - length suf in
      if starts_with pre p \<and> length suf \<le> length r \<and> drop n r = suf then Some (take n r) else None)"

definition dated :: "string \<Rightarrow> string \<Rightarrow> bool" where
  "dated prefix m \<longleftrightarrow> 5 \<le> length m \<and> list_all is_digit (take 4 m) \<and> m ! 4 = CHR ''/'' \<and> opaque_id_ok prefix (drop 5 m)"

definition audit_file :: "string \<Rightarrow> bool" where
  "audit_file p = opt_ex (dated ''req'') (inside ''audit/'' ''.json'' p)"

definition evidence_file :: "string \<Rightarrow> bool" where
  "evidence_file p = list_ex (\<lambda>a. opt_ex (dated ''evd'') (inside (a @ ''/evidence/'') ''.json'' p)) [''snacks'', ''groceries'', ''recipes'', ''delivery'']"

definition item_file :: "string \<Rightarrow> bool" where
  "item_file p = list_ex (\<lambda>a. opt_ex (opaque_id_ok ''itm'') (inside (a @ ''/items/'') ''.md'' p))
     [''snacks'', ''ingredients'', ''condiments'', ''groceries'', ''recipes'', ''delivery'']"

definition profile_file :: "string \<Rightarrow> string option" where
  "profile_file p = Option.bind (inside ''profiles/'' ''.md'' p) (\<lambda>m. if plain_word m then Some m else None)"

definition week_file :: "string \<Rightarrow> string \<Rightarrow> string \<Rightarrow> bool" where
  "week_file sub prefix p = opt_ex (\<lambda>m. date_parts (take 10 m) \<noteq> None \<and> starts_with (''/'' @ sub @ ''/'') (drop 10 m) \<and>
     opaque_id_ok prefix (drop (length sub + 12) m)) (inside ''meal-plans/weeks/'' ''.json'' p)"

definition snapshot_file :: "string \<Rightarrow> bool" where
  "snapshot_file p = opt_ex (\<lambda>m. let c = takeWhile (\<lambda>x. x \<noteq> CHR ''/'') m; r = drop (length c) m in
     opaque_id_ok ''col'' c \<and> starts_with ''/snapshots/'' r \<and> opaque_id_ok ''snp'' (drop 11 r)) (inside ''collections/'' ''.json'' p)"

definition collection_file :: "string \<Rightarrow> string option" where
  "collection_file p = Option.bind (inside ''collections/'' ''/collection.md'' p) (\<lambda>m. if opaque_id_ok ''col'' m then Some m else None)"

definition member_file :: "string \<Rightarrow> string option" where
  "member_file p = Option.bind (inside ''members/'' ''.md'' p) (\<lambda>m. if opaque_id_ok ''act'' m then Some m else None)"

section \<open>Reading one document\<close>

definition projected :: "'a option \<Rightarrow> failure + 'a" where
  "projected x = (case x of None \<Rightarrow> Inl drift | Some v \<Rightarrow> Inr v)"

definition read_json :: "'a decoder \<Rightarrow> string \<Rightarrow> failure + 'a" where
  "read_json d content = projected (Option.bind (parse_json content) d)"

definition read_markdown :: "string \<Rightarrow> failure + json_object \<times> string" where
  "read_markdown content = projected (parse_markdown_document content)"

definition read_front :: "'a decoder \<Rightarrow> string \<Rightarrow> failure + 'a" where
  "read_front d content = and_then (read_markdown content) (\<lambda>(fm, _). projected (d (JObj fm)))"

text \<open>A document whose body is one more field.\<close>

definition read_body :: "string \<Rightarrow> 'a decoder \<Rightarrow> string \<Rightarrow> failure + 'a" where
  "read_body field d content = and_then (read_markdown content) (\<lambda>(fm, body). projected (d (JObj (put field (JStr body) fm))))"

definition d_id :: "string \<Rightarrow> string decoder" where
  "d_id prefix = checked (opaque_id_ok prefix) d_str"

definition d_audit :: "(actor_id \<times> request_id) decoder" where
  "d_audit = d_loose (\<lambda>g. do { a \<leftarrow> need (d_id ''act'') (g ''actor_id''); r \<leftarrow> need (d_id ''req'') (g ''request_id''); Some (a, r) })"

definition roles :: "(string \<times> role) list" where
  "roles = map (\<lambda>r. (role_text r, r)) [Owner, Editor, Viewer]"

record member_state =
  md_actor :: "actor_id option"
  md_role :: "role option"
  md_former :: bool
  md_removed :: "string option"

definition d_member :: "host \<Rightarrow> member_state decoder" where
  "d_member H = d_loose
     (\<lambda>g. do { a \<leftarrow> optionally (d_id ''act'') (g ''actor_id'');
               r \<leftarrow> optionally (d_enum roles) (g ''role'');
               f \<leftarrow> optionally (d_literal (JBool True)) (g ''former_member'');
               t \<leftarrow> optionally (checked (valid_datetime H) d_str) (g ''removed_at'');
               Some \<lparr>md_actor = a, md_role = r, md_former = (f \<noteq> None), md_removed = t\<rparr> })"

definition d_collection :: "(string \<times> string option) decoder" where
  "d_collection = d_loose (\<lambda>g. do { c \<leftarrow> need (d_id ''col'') (g ''id''); s \<leftarrow> optionally (d_id ''snp'') (g ''current_snapshot_id''); Some (c, s) })"

definition d_planning :: "host \<Rightarrow> (constraints \<times> string) decoder" where
  "d_planning H = d_strict [''constraints'', ''updated_at'', ''schema_version'']
     (\<lambda>g. do { c \<leftarrow> need (checked (confirmed_constraints_ok H) d_confirmed_constraints) (g ''constraints'');
               t \<leftarrow> need (checked (valid_datetime H) d_str) (g ''updated_at'');
               _ \<leftarrow> version_one (g ''schema_version''); Some (c, t) })"

definition d_household :: "string decoder" where
  "d_household = d_strict [''name'', ''schema_version'']
     (\<lambda>g. do { n \<leftarrow> need (checked (str_len 1 120) d_trim) (g ''name''); _ \<leftarrow> version_one (g ''schema_version''); Some n })"

section \<open>Reading the files\<close>

record reading =
  rd_evidence :: evidence_map
  rd_imports :: "evidence_id list"
  rd_items :: "(item_id, journal_item \<times> git_object_id) js_map"
  rd_profiles :: "(string, string \<times> git_object_id) js_map"
  rd_snapshots :: "(string, collection_snapshot \<times> git_object_id) js_map"
  rd_planning :: "meal_planning_profile option"
  rd_proposals :: "(string, meal_proposal \<times> git_object_id) js_map"
  rd_events :: "(string, meal_plan_event \<times> git_object_id) js_map"
  rd_collections :: "(string \<times> string option) list"
  rd_members :: "repository_membership_state list"
  rd_report :: "report option"
  rd_name :: "string option"

definition empty_reading :: reading where
  "empty_reading = \<lparr>rd_evidence = [], rd_imports = [], rd_items = [], rd_profiles = [], rd_snapshots = [], rd_planning = None,
     rd_proposals = [], rd_events = [], rd_collections = [], rd_members = [], rd_report = None, rd_name = None\<rparr>"

type_synonym reader = "file_snapshot \<Rightarrow> reading \<Rightarrow> failure + reading"

definition read_household :: reader where
  "read_household f st =
     and_then (guard (rd_name st = None) drift) (\<lambda>_.
     and_then (read_front d_household (fs_content f)) (\<lambda>n. Inr (st\<lparr>rd_name := Some n\<rparr>)))"

definition delivery_evidence_path :: "evidence \<Rightarrow> string" where
  "delivery_evidence_path e = ''delivery/evidence/'' @ take 4 (ev_observed e) @ ''/'' @ ev_id e @ ''.json''"

definition read_evidence :: "host \<Rightarrow> reader" where
  "read_evidence H f st =
     and_then (read_json (decode_evidence H) (fs_content f)) (\<lambda>e.
     let delivery = starts_with ''delivery/evidence/'' (fs_path f); history = (delivery_line_of e \<noteq> None); imported = is_import e in
     if delivery \<and> \<not> history \<and> \<not> imported \<or> \<not> delivery \<and> history \<or> delivery \<and> delivery_evidence_path e \<noteq> fs_path f \<or>
       history \<and> journal_evidence_path e \<noteq> fs_path f \<or> lookup (rd_evidence st) (ev_id e) \<noteq> None
     then Inl drift
     else Inr (st\<lparr>rd_evidence := put (ev_id e) e (rd_evidence st),
            rd_imports := (if delivery \<and> imported then rd_imports st @ [ev_id e] else rd_imports st)\<rparr>))"

definition read_item :: "host \<Rightarrow> reader" where
  "read_item H f st =
     and_then (read_body ''body_markdown'' (decode_item H) (fs_content f)) (\<lambda>i.
     and_then (guard (journal_item_path i = fs_path f \<and> lookup (rd_items st) (item_id_of i) = None) drift) (\<lambda>_.
     Inr (st\<lparr>rd_items := put (item_id_of i) (i, fs_revision f) (rd_items st)\<rparr>)))"

definition read_report :: "host \<Rightarrow> reader" where
  "read_report H f st =
     and_then (guard (rd_report st = None) drift) (\<lambda>_.
     and_then (read_body ''markdown'' (decode_delivery_report H) (fs_content f)) (\<lambda>r. Inr (st\<lparr>rd_report := Some r\<rparr>)))"

definition read_planning :: "host \<Rightarrow> reader" where
  "read_planning H f st =
     and_then (read_front (d_planning H) (fs_content f)) (\<lambda>(c, t).
     let prof = \<lparr>mpp_constraints = c, mpp_revision = HeadRevision (fs_revision f), mpp_updated = t\<rparr> in
     and_then (guard (planning_profile_ok H prof) drift) (\<lambda>_. Inr (st\<lparr>rd_planning := Some prof\<rparr>)))"

definition keep_profile :: "string \<Rightarrow> reader" where
  "keep_profile name f st =
     Inr (st\<lparr>rd_profiles := put name (remove_final_newline (fs_content f), fs_revision f) (rd_profiles st)\<rparr>)"

definition read_delivery_profile :: "host \<Rightarrow> reader" where
  "read_delivery_profile H f st =
     and_then (read_front (decode_delivery_profile H) (fs_content f)) (\<lambda>_. keep_profile ''delivery'' f st)"

definition cloud_source :: "meal_source \<Rightarrow> bool" where
  "cloud_source s = (case source_item s of None \<Rightarrow> True | Some (_, r) \<Rightarrow> git_object_id_ok r)"

definition head_revision :: "constraint_revision \<Rightarrow> bool" where
  "head_revision r = (case r of HeadRevision _ \<Rightarrow> True | LocalRevision _ \<Rightarrow> False)"

definition read_proposal :: "host \<Rightarrow> reader" where
  "read_proposal H f st =
     and_then (read_json (decode_proposal H) (fs_content f)) (\<lambda>p.
     and_then (guard (\<not> is_local (mp_by p) \<and> head_revision (mp_constraint p) \<and> cloud_source (mp_source p) \<and>
         meal_proposal_path p = fs_path f \<and> lookup (rd_proposals st) (mp_id p) = None) drift) (\<lambda>_.
     Inr (st\<lparr>rd_proposals := put (mp_id p) (p, fs_revision f) (rd_proposals st)\<rparr>)))"

definition read_event :: "host \<Rightarrow> reader" where
  "read_event H f st =
     and_then (read_json (decode_event H) (fs_content f)) (\<lambda>e.
     and_then (guard (\<not> is_local (me_actor e) \<and> (case me_kind e of ConstraintsReviewed r \<Rightarrow> head_revision r | _ \<Rightarrow> True) \<and>
         meal_plan_event_path e = fs_path f \<and> lookup (rd_events st) (me_id e) = None) drift) (\<lambda>_.
     Inr (st\<lparr>rd_events := put (me_id e) (e, fs_revision f) (rd_events st)\<rparr>)))"

definition read_snapshot :: "host \<Rightarrow> reader" where
  "read_snapshot H f st =
     and_then (read_json (decode_snapshot H) (fs_content f)) (\<lambda>s.
     Inr (st\<lparr>rd_snapshots := put (cs_id s) (s, fs_revision f) (rd_snapshots st)\<rparr>))"

definition read_collection :: "string \<Rightarrow> reader" where
  "read_collection cid f st =
     and_then (read_front d_collection (fs_content f)) (\<lambda>(c, s).
     and_then (guard (c = cid) drift) (\<lambda>_. Inr (st\<lparr>rd_collections := rd_collections st @ [(c, s)]\<rparr>)))"

definition read_member :: "host \<Rightarrow> (string \<Rightarrow> time) \<Rightarrow> (actor_id, user_id) js_map \<Rightarrow> actor_id \<Rightarrow> reader" where
  "read_member H moment users a f st =
     and_then (read_front (d_member H) (fs_content f)) (\<lambda>m.
     and_then (guard (md_actor m = None \<or> md_actor m = Some a) drift) (\<lambda>_.
     and_then (if md_former m
         then (case md_removed m of None \<Rightarrow> Inl drift
            | Some t \<Rightarrow> Inr \<lparr>rm_actor = a, rm_role = None, rm_removed = Some (moment t), rm_user = lookup users a\<rparr>)
         else (case md_role m of None \<Rightarrow> Inl drift
            | Some r \<Rightarrow> Inr \<lparr>rm_actor = a, rm_role = Some r, rm_removed = None, rm_user = lookup users a\<rparr>)) (\<lambda>ms.
     Inr (st\<lparr>rd_members := rd_members st @ [ms]\<rparr>))))"

definition project_file :: "host \<Rightarrow> (string \<Rightarrow> time) \<Rightarrow> (actor_id, user_id) js_map \<Rightarrow> reader" where
  "project_file H moment users f st =
     (let p = fs_path f in
      if p = ''household.md'' then read_household f st
      else if evidence_file p then read_evidence H f st
      else if item_file p then read_item H f st
      else if p = delivery_index_report_path then read_report H f st
      else if p = ''profiles/meal-planning.md'' then read_planning H f st
      else if p = delivery_profile_path then read_delivery_profile H f st
      else case profile_file p of Some n \<Rightarrow> keep_profile n f st | None \<Rightarrow>
      if week_file ''proposals'' ''mlp'' p then read_proposal H f st
      else if week_file ''events'' ''mle'' p then read_event H f st
      else if snapshot_file p then read_snapshot H f st
      else case collection_file p of Some c \<Rightarrow> read_collection c f st | None \<Rightarrow>
      case member_file p of Some a \<Rightarrow> read_member H moment users a f st | None \<Rightarrow>
      if starts_with ''delivery/'' p then Inl drift else Inr st)"

section \<open>Identities from the audit trail\<close>

definition read_audit :: "(request_id, user_id) js_map \<Rightarrow> file_snapshot \<Rightarrow> (actor_id, user_id) js_map \<Rightarrow> failure + (actor_id, user_id) js_map" where
  "read_audit requests f users =
     (if \<not> audit_file (fs_path f) then Inr users
      else and_then (read_json d_audit (fs_content f)) (\<lambda>(a, req).
        case lookup requests req of
          None \<Rightarrow> Inr users
        | Some u \<Rightarrow> and_then (parsed (opaque_id_ok ''usr'' u)) (\<lambda>_. Inr (put a u users))))"

section \<open>The whole repository\<close>

definition newest :: "codec \<Rightarrow> (collection_snapshot \<times> git_object_id) list \<Rightarrow> (collection_snapshot \<times> git_object_id) option" where
  "newest C es = (case es of [] \<Rightarrow> None
     | e # es \<Rightarrow> Some (fold (\<lambda>x best. if collation_key C (cs_created (fst best)) < collation_key C (cs_created (fst x)) then x else best) es e))"

definition current_snapshot :: "codec \<Rightarrow> reading \<Rightarrow> string \<times> string option \<Rightarrow> failure + collection_snapshot \<times> git_object_id" where
  "current_snapshot C st d =
     (case d of (c, s) \<Rightarrow>
        (case (case s of None \<Rightarrow> newest C (filter (\<lambda>e. cs_collection (fst e) = c) (vals (rd_snapshots st))) | Some i \<Rightarrow> lookup (rd_snapshots st) i) of
           None \<Rightarrow> Inl drift
         | Some e \<Rightarrow> and_then (guard (cs_collection (fst e) = c) drift) (\<lambda>_. Inr e)))"

definition current_collections :: "codec \<Rightarrow> reading \<Rightarrow> failure + (string, collection_snapshot \<times> git_object_id) js_map" where
  "current_collections C st =
     fold_result (\<lambda>d m. and_then (current_snapshot C st d) (\<lambda>e. Inr (put (fst d) e m))) (rd_collections st) []"

definition strip_revisions :: "('k, 'v \<times> git_object_id) js_map \<Rightarrow> ('k, 'v) js_map" where
  "strip_revisions m = map (\<lambda>(k, v, _). (k, v)) m"

definition proposal_rebuilt_ok :: "reading \<Rightarrow> meal_proposal \<Rightarrow> failure + unit" where
  "proposal_rebuilt_ok st p =
     (let items = strip_revisions (rd_items st); revisions = map (\<lambda>(i, _, r). (i, r)) (rd_items st) in
      and_then (validate_meal_proposal_review p (strip_revisions (rd_events st))) (\<lambda>_.
      case source_item (mp_source p) of
        Some (i, r) \<Rightarrow> if lookup revisions i = Some r then validate_meal_proposal_source p items (rd_evidence st) revisions else Inr ()
      | None \<Rightarrow> Inr ()))"

definition withdrawal_rebuilt_ok :: "reading \<Rightarrow> meal_plan_event \<Rightarrow> failure + unit" where
  "withdrawal_rebuilt_ok st e =
     (case me_kind e of
        ConstraintsReviewed _ \<Rightarrow> Inr ()
      | ProposalWithdrawn p _ \<Rightarrow>
          (case lookup (rd_proposals st) p of
             None \<Rightarrow> Inl drift
           | Some (q, _) \<Rightarrow> guard (mp_week q = me_week e) drift))"

definition reading_consistent :: "host \<Rightarrow> reading \<Rightarrow> failure + unit" where
  "reading_consistent H st =
     (let evs = rd_evidence st; items = strip_revisions (rd_items st) in
      and_then (each_ok (\<lambda>i. validate_item_evidence i evs) (vals items)) (\<lambda>_.
      and_then (validate_delivery_import_evidence_scope items evs (rd_imports st)) (\<lambda>_.
      and_then (validate_delivery_evidence_groups H evs) (\<lambda>_.
      and_then (case rd_report st of None \<Rightarrow> Inr () | Some r \<Rightarrow> validate_delivery_index_report r evs items) (\<lambda>_.
      and_then (each_ok (proposal_rebuilt_ok st) (map fst (vals (rd_proposals st)))) (\<lambda>_.
      each_ok (withdrawal_rebuilt_ok st) (map fst (vals (rd_events st)))))))))"

record rebuilt =
  rb_name :: "string option"
  rb_projection :: projection
  rb_members :: "repository_membership_state list"

definition rebuild_repository_state ::
  "codec \<Rightarrow> host \<Rightarrow> (string \<Rightarrow> time) \<Rightarrow> (request_id, user_id) js_map \<Rightarrow> file_snapshot list \<Rightarrow> failure + rebuilt" where
  "rebuild_repository_state C H moment requests files =
     and_then (fold_result (read_audit requests) files []) (\<lambda>users.
     and_then (fold_result (project_file H moment users) files empty_reading) (\<lambda>st.
     and_then (current_collections C st) (\<lambda>collections.
     and_then (reading_consistent H st) (\<lambda>_.
     Inr \<lparr>rb_name = rd_name st,
       rb_projection = \<lparr>pr_evidence = rd_evidence st, pr_items = rd_items st, pr_profiles = rd_profiles st, pr_collections = collections,
         pr_meal_profile = rd_planning st, pr_proposals = rd_proposals st, pr_events = rd_events st\<rparr>,
       rb_members = rd_members st\<rparr>))))"

end
