(* ===== verification/RepositoryRoundTrip.thy ===== *)
theory RepositoryRoundTrip
  imports RepositoryProjection
begin

text \<open>
  The documents the server writes are the documents it reads back: for every kind of file the step of the rebuild on the text the
  server prints, and the theorem that a repository made of such files is rebuilt to the journal it was written from.
\<close>

section \<open>Documents with a body\<close>

text \<open>A decoder of an object depends on the fields only, not on their order.\<close>

definition by_fields :: "'a decoder \<Rightarrow> bool" where
  "by_fields d \<longleftrightarrow> (\<forall>fs gs. lookup fs = lookup gs \<longrightarrow> d (JObj fs) = d (JObj gs))"

lemma by_fields_strict [sort_free_intros]: "by_fields (d_strict ks f)"
proof -
  have "list_all (\<lambda>p. fst p \<in> set ks) fs \<longleftrightarrow> dom (lookup fs) \<subseteq> set ks" for fs :: json_object
    by (auto simp: list_all_iff dom_map_of_conv_image_fst)
  then show ?thesis by (simp add: by_fields_def d_strict_def)
qed

lemma by_fields_loose [sort_free_intros]: "by_fields (d_loose f)"
  by (simp add: by_fields_def d_loose_def)

lemma by_fields_checked [sort_free_intros]: "by_fields d \<Longrightarrow> by_fields (checked P d)"
  unfolding by_fields_def checked_def by metis

lemma by_fields_either [sort_free_intros]: "by_fields d \<Longrightarrow> by_fields d' \<Longrightarrow> by_fields (d_either d d')"
  unfolding by_fields_def d_either_def by metis

lemma by_fields_all [sort_free_intros]:
  "list_all (\<lambda>p. by_fields (snd p)) []"
  "by_fields d \<Longrightarrow> list_all (\<lambda>p. by_fields (snd p)) ds \<Longrightarrow> list_all (\<lambda>p. by_fields (snd p)) ((t, d) # ds)"
  by simp_all

lemma by_fields_tagged [sort_free_intros]: "list_all (\<lambda>p. by_fields (snd p)) ds \<Longrightarrow> by_fields (d_tagged t ds)"
proof -
  assume *: "list_all (\<lambda>p. by_fields (snd p)) ds"
  let ?d = "d_loose (\<lambda>g. need (d_enum ds) (g t))"
  have one: "by_fields d" if "d_loose (\<lambda>g. need (d_enum ds) (g t)) (JObj fs) = Some d" for d fs
    using that * by (auto simp: d_loose_def need_def d_enum_def list_all_iff split: json.splits bind_splits dest!: map_of_SomeD)
  have "d_tagged t ds (JObj fs) = d_tagged t ds (JObj gs)" if "lookup fs = lookup gs" for fs gs
  proof -
    have "?d (JObj fs) = ?d (JObj gs)" using by_fields_loose that unfolding by_fields_def by blast
    then show ?thesis
    proof (cases "?d (JObj gs)")
      case (Some d)
      then have "d (JObj fs) = d (JObj gs)" using one that unfolding by_fields_def by blast
      then show ?thesis using Some \<open>?d (JObj fs) = ?d (JObj gs)\<close> by (simp only: d_tagged_def bind.simps)
    qed (simp only: d_tagged_def bind.simps)
  qed
  then show ?thesis unfolding by_fields_def by blast
qed

lemma by_fields_item: "by_fields (decode_item H)"
  unfolding decode_item_def item_shape_def d_grocery_def d_recipe_def d_dish_def d_imported_dish_def by (intro sort_free_intros)

lemma by_fields_report: "by_fields (decode_delivery_report H)"
  unfolding decode_delivery_report_def by (intro sort_free_intros)

lemma front_order_lookup: "lookup (front_order C fm) = lookup fm"
  by (rule ext) (rule lookup_stable)

lemma read_markdown_printed:
  "front_ok fm \<Longrightarrow> CHR 0x0D \<notin> set body \<Longrightarrow> read_markdown (markdown_document C fm body) = Inr (front_order C fm, body)"
  by (simp add: read_markdown_def projected_def markdown_parsed)

lemma read_front_printed:
  assumes "front_ok fm" "by_fields d" "d (JObj fm) = Some x" "CHR 0x0D \<notin> set body"
  shows "read_front d (markdown_document C fm body) = Inr x"
proof -
  have "d (JObj (front_order C fm)) = Some x"
    using assms(2,3) front_order_lookup unfolding by_fields_def by metis
  then show ?thesis by (simp add: read_front_def read_markdown_printed [OF assms(1,4)] projected_def)
qed

lemma read_body_printed:
  assumes "front_ok fm" "by_fields d" "d (JObj (fm @ [(field, JStr body)])) = Some x" "lookup fm field = None" "CHR 0x0D \<notin> set body"
  shows "read_body field d (markdown_document C fm body) = Inr x"
proof -
  have "lookup (put field (JStr body) (front_order C fm)) = lookup (fm @ [(field, JStr body)])"
    using assms(4) by (auto simp: front_order_lookup map_add_def fun_eq_iff split: option.split)
  then have "d (JObj (put field (JStr body) (front_order C fm))) = Some x"
    using assms(2,3) unfolding by_fields_def by metis
  then show ?thesis by (simp add: read_body_def read_markdown_printed [OF assms(1,5)] projected_def)
qed

lemma read_json_printed:
  assumes "json_ok j" "sort_free d" "d j = Some x"
  shows "read_json d (stable_json C j) = Inr x"
  using printed_and_decoded [OF assms, of C] by (auto simp: read_json_def projected_def)

section \<open>Paths\<close>

lemma starts_with_append [simp]: "starts_with p (p @ s)"
  by (simp add: starts_with_iff)

lemma inside_ok [simp]: "inside pre suf (pre @ m @ suf) = Some m"
  by (simp add: inside_def Let_def)

lemma inside_other: "\<not> starts_with pre p \<Longrightarrow> inside pre suf p = None"
  by (simp add: inside_def Let_def)

lemma dated_ok: "length y = 4 \<Longrightarrow> list_all is_digit y \<Longrightarrow> opaque_id_ok prefix i \<Longrightarrow> dated prefix (y @ CHR ''/'' # i)"
  by (simp add: dated_def nth_append)

lemma evidence_file_at: "a \<in> set [''snacks'', ''groceries'', ''recipes'', ''delivery''] \<Longrightarrow> dated ''evd'' m \<Longrightarrow>
    evidence_file (a @ ''/evidence/'' @ m @ ''.json'')"
  using inside_ok [of "a @ ''/evidence/''" "''.json''" m] by (auto simp: evidence_file_def opt_ex_def)

lemma item_file_at: "a \<in> set [''snacks'', ''ingredients'', ''condiments'', ''groceries'', ''recipes'', ''delivery''] \<Longrightarrow> opaque_id_ok ''itm'' i \<Longrightarrow>
    item_file (a @ ''/items/'' @ i @ ''.md'')"
  using inside_ok [of "a @ ''/items/''" "''.md''" i] by (auto simp: item_file_def opt_ex_def)

lemma week_file_at:
  assumes "date_parts w \<noteq> None" "opaque_id_ok prefix i"
  shows "week_file sub prefix (''meal-plans/weeks/'' @ w @ ''/'' @ sub @ ''/'' @ i @ ''.json'')"
proof -
  have len: "length w = 10" using assms(1) by (simp add: date_parts_def split: if_splits)
  have "inside ''meal-plans/weeks/'' ''.json'' (''meal-plans/weeks/'' @ (w @ ''/'' @ sub @ ''/'' @ i) @ ''.json'') = Some (w @ ''/'' @ sub @ ''/'' @ i)"
    by (rule inside_ok)
  moreover have "starts_with (''/'' @ sub @ ''/'') ((''/'' @ sub @ ''/'') @ i)" by (rule starts_with_append)
  ultimately show ?thesis using assms len by (simp add: week_file_def opt_ex_def)
qed

section \<open>The step on each document\<close>

text \<open>What the server's host promises about date-times: they start with a year.\<close>

definition dates_start_with_year :: "host \<Rightarrow> bool" where
  "dates_start_with_year H \<longleftrightarrow> (\<forall>s. valid_datetime H s \<longrightarrow> 4 \<le> length s \<and> list_all is_digit (take 4 s))"

definition file_of :: "git_object_id \<Rightarrow> repository_change \<Rightarrow> file_snapshot" where
  "file_of g c = \<lparr>fs_path = ch_path c, fs_content = ch_content c, fs_revision = g\<rparr>"

lemma evidence_path_facts:
  assumes "dates_start_with_year H" "evidence_ok H e"
  shows "evidence_file (journal_evidence_path e)" "evidence_file (delivery_evidence_path e)"
proof -
  have "dated ''evd'' (take 4 (ev_observed e) @ CHR ''/'' # ev_id e)"
    using assms by (intro dated_ok) (auto simp: dates_start_with_year_def evidence_ok_def evidence_common_ok_def)
  note at = evidence_file_at [OF _ this]
  show "evidence_file (journal_evidence_path e)"
    using at [of "''delivery''"] at [of "''groceries''"] at [of "''recipes''"] by (cases "ev_body e") (simp_all add: journal_evidence_path_def)
  show "evidence_file (delivery_evidence_path e)"
    using at [of "''delivery''"] by (simp add: delivery_evidence_path_def)
qed

lemma project_evidence:
  assumes "dates_start_with_year H" "evidence_ok H e" "lookup (rd_evidence st) (ev_id e) = None"
  shows "project_file H moment users (file_of g (evidence_change C e)) st = Inr (st\<lparr>rd_evidence := put (ev_id e) e (rd_evidence st)\<rparr>)"
proof -
  have "read_json (decode_evidence H) (stable_json C (evidence_json e)) = Inr e"
    by (rule read_json_printed [OF json_ok_evidence sort_free_evidence evidence_decoded [OF assms(2)]])
  moreover have "evidence_file (journal_evidence_path e)" by (rule evidence_path_facts [OF assms(1,2)])
  moreover have "journal_evidence_path e \<noteq> ''household.md''" by (cases "ev_body e") (simp_all add: journal_evidence_path_def)
  moreover have "starts_with ''delivery/evidence/'' (journal_evidence_path e) = (delivery_line_of e \<noteq> None)"
    by (cases "ev_body e") (simp_all add: journal_evidence_path_def delivery_line_of_def)
  moreover have "delivery_line_of e \<noteq> None \<Longrightarrow> delivery_evidence_path e = journal_evidence_path e \<and> \<not> is_import e"
    by (cases "ev_body e") (simp_all add: journal_evidence_path_def delivery_evidence_path_def delivery_line_of_def is_import_def)
  ultimately show ?thesis
    using assms(3) by (auto simp: project_file_def read_evidence_def file_of_def evidence_change_def appended_def Let_def)
qed

text \<open>Evidence of an imported dish is filed with the deliveries.\<close>

lemma project_delivery_import:
  assumes "dates_start_with_year H" "evidence_ok H e" "lookup (rd_evidence st) (ev_id e) = None" "is_import e"
  shows "project_file H moment users (file_of g (appended (delivery_evidence_path e) (stable_json C (evidence_json e)))) st =
    Inr (st\<lparr>rd_evidence := put (ev_id e) e (rd_evidence st), rd_imports := rd_imports st @ [ev_id e]\<rparr>)"
proof -
  have "read_json (decode_evidence H) (stable_json C (evidence_json e)) = Inr e"
    by (rule read_json_printed [OF json_ok_evidence sort_free_evidence evidence_decoded [OF assms(2)]])
  moreover have "evidence_file (delivery_evidence_path e)" by (rule evidence_path_facts [OF assms(1,2)])
  moreover have "delivery_evidence_path e \<noteq> ''household.md''" "starts_with ''delivery/evidence/'' (delivery_evidence_path e)"
    by (simp_all add: delivery_evidence_path_def)
  moreover have "delivery_line_of e = None" using assms(4) by (simp add: is_import_def delivery_line_of_def)
  ultimately show ?thesis
    using assms(3,4) by (simp add: project_file_def read_evidence_def file_of_def appended_def Let_def)
qed

lemma front_keys: "key_ok k \<Longrightarrow> json_ok v \<Longrightarrow> (case (k, v) of (k, v) \<Rightarrow> key_ok k \<and> json_ok v)" by simp

lemma item_front_ok: "front_ok (item_frontmatter i)" "lookup (item_frontmatter i) ''body_markdown'' = None" "item_frontmatter i \<noteq> []"
proof -
  have "json_ok (item_json i)" by (rule json_ok_item)
  then have json: "distinct (map fst (item_frontmatter i))" "list_all (\<lambda>(k, v). json_ok v) (item_frontmatter i)"
    by (simp_all add: item_json_def)
  moreover have "list_all (\<lambda>p. key_ok (fst p)) (item_frontmatter i)"
    by (cases i; simp add: item_frontmatter_def grocery_fields_def recipe_fields_def dish_fields_def imported_dish_fields_def item_base_fields_def
      key_ok_def visible_def)
  moreover show "item_frontmatter i \<noteq> []"
    by (cases i) (simp_all add: item_frontmatter_def grocery_fields_def recipe_fields_def dish_fields_def imported_dish_fields_def item_base_fields_def)
  ultimately show "front_ok (item_frontmatter i)"
    by (auto simp: front_ok_def list_all_iff)
  show "lookup (item_frontmatter i) ''body_markdown'' = None"
    by (cases i) (simp_all add: item_frontmatter_def grocery_fields_def recipe_fields_def dish_fields_def imported_dish_fields_def item_base_fields_def)
qed

lemma project_item:
  assumes "journal_item_ok H i" "CHR 0x0D \<notin> set (item_body_of i)" "lookup (rd_items st) (item_id_of i) = None"
  shows "project_file H moment users (file_of g (item_change C i)) st = Inr (st\<lparr>rd_items := put (item_id_of i) (i, g) (rd_items st)\<rparr>)"
proof -
  have "decode_item H (JObj (item_frontmatter i @ [(''body_markdown'', JStr (item_body_of i))])) = Some i"
    using item_decoded [OF assms(1)] by (simp add: item_json_def)
  from read_body_printed [OF item_front_ok(1) by_fields_item this item_front_ok(2) assms(2), of C]
  have "read_body ''body_markdown'' (decode_item H) (markdown_document C (item_frontmatter i) (item_body_of i)) = Inr i" .
  moreover have "opaque_id_ok ''itm'' (item_id_of i)"
    using assms(1) by (cases i) (auto simp: journal_item_ok_def grocery_ok_def recipe_ok_def dish_ok_def imported_dish_ok_def item_base_ok_def)
  note where_found = item_file_at [OF _ this]
  have "journal_item_path i \<noteq> ''household.md'' \<and> \<not> evidence_file (journal_item_path i) \<and> item_file (journal_item_path i)"
    using where_found [of "''snacks''"] where_found [of "''ingredients''"] where_found [of "''condiments''"] where_found [of "''groceries''"] where_found [of "''recipes''"] where_found [of "''delivery''"]
    by (cases i; cases "case i of GroceryItem g \<Rightarrow> gr_kind g | _ \<Rightarrow> Snack")
      (simp_all add: journal_item_path_def journal_item_area_def evidence_file_def inside_other opt_ex_def)
  ultimately show ?thesis
    using assms(3) by (simp add: project_file_def read_item_def file_of_def item_change_def replaced_def Let_def guard_def)
qed


definition proposal_change :: "codec \<Rightarrow> meal_proposal \<Rightarrow> repository_change" where
  "proposal_change C p = appended (meal_proposal_path p) (stable_json C (meal_proposal_json p))"

definition event_change :: "codec \<Rightarrow> meal_plan_event \<Rightarrow> repository_change" where
  "event_change C e = appended (meal_plan_event_path e) (stable_json C (meal_event_json e))"

lemma week_path_facts:
  assumes "date_parts w \<noteq> None" "opaque_id_ok prefix i" "sub = ''proposals'' \<or> sub = ''events''"
  defines "p \<equiv> ''meal-plans/weeks/'' @ w @ ''/'' @ sub @ ''/'' @ i @ ''.json''"
  shows "p \<noteq> ''household.md''" "\<not> evidence_file p" "\<not> item_file p" "p \<noteq> delivery_index_report_path" "p \<noteq> ''profiles/meal-planning.md''"
    "p \<noteq> delivery_profile_path" "profile_file p = None" "week_file sub prefix p" "week_file ''proposals'' ''mlp'' p \<longrightarrow> sub = ''proposals''"
proof -
  show "week_file sub prefix p" unfolding p_def by (rule week_file_at [OF assms(1,2)])
  have len: "length w = 10" using assms(1) by (simp add: date_parts_def split: if_splits)
  have "inside ''meal-plans/weeks/'' ''.json'' p = Some (w @ ''/'' @ sub @ ''/'' @ i)"
    unfolding p_def using inside_ok [of "''meal-plans/weeks/''" "''.json''" "w @ ''/'' @ sub @ ''/'' @ i"] by simp
  then show "week_file ''proposals'' ''mlp'' p \<longrightarrow> sub = ''proposals''"
    using len assms(3) by (auto simp: week_file_def opt_ex_def)
qed (simp_all add: p_def evidence_file_def item_file_def profile_file_def inside_other opt_ex_def delivery_index_report_path_def delivery_profile_path_def)

lemma monday_parts: "monday_ok w \<Longrightarrow> date_parts w \<noteq> None"
  by (auto simp: monday_ok_def iso_day_def split: option.splits)

definition cloud_proposal :: "meal_proposal \<Rightarrow> bool" where
  "cloud_proposal p \<longleftrightarrow> \<not> is_local (mp_by p) \<and> head_revision (mp_constraint p) \<and> cloud_source (mp_source p)"

definition cloud_event :: "meal_plan_event \<Rightarrow> bool" where
  "cloud_event e \<longleftrightarrow> \<not> is_local (me_actor e) \<and> (case me_kind e of ConstraintsReviewed r \<Rightarrow> head_revision r | _ \<Rightarrow> True)"

lemma project_proposal:
  assumes "meal_proposal_ok H p" "cloud_proposal p" "lookup (rd_proposals st) (mp_id p) = None"
  shows "project_file H moment users (file_of g (proposal_change C p)) st = Inr (st\<lparr>rd_proposals := put (mp_id p) (p, g) (rd_proposals st)\<rparr>)"
proof -
  have "read_json (decode_proposal H) (stable_json C (meal_proposal_json p)) = Inr p"
    by (rule read_json_printed [OF json_ok_meal(1) sort_free_proposal proposal_decoded [OF assms(1)]])
  moreover have "date_parts (mp_week p) \<noteq> None" "opaque_id_ok ''mlp'' (mp_id p)"
    using assms(1) monday_parts by (auto simp: meal_proposal_ok_def)
  note week_path_facts [OF this, of "''proposals''", simplified]
  ultimately show ?thesis using assms(2,3)
    by (simp add: project_file_def read_proposal_def file_of_def proposal_change_def appended_def Let_def guard_def cloud_proposal_def
      meal_proposal_path_def)
qed

lemma project_event:
  assumes "meal_plan_event_ok H e" "cloud_event e" "lookup (rd_events st) (me_id e) = None"
  shows "project_file H moment users (file_of g (event_change C e)) st = Inr (st\<lparr>rd_events := put (me_id e) (e, g) (rd_events st)\<rparr>)"
proof -
  have "read_json (decode_event H) (stable_json C (meal_event_json e)) = Inr e"
    by (rule read_json_printed [OF json_ok_meal(2) sort_free_event event_decoded [OF assms(1)]])
  moreover have "date_parts (me_week e) \<noteq> None" "opaque_id_ok ''mle'' (me_id e)"
    using assms(1) monday_parts by (auto simp: meal_plan_event_ok_def)
  note week_path_facts [OF this, of "''events''", simplified]
  ultimately show ?thesis using assms(2,3)
    by (simp add: project_file_def read_event_def file_of_def event_change_def appended_def Let_def guard_def cloud_event_def
      meal_plan_event_path_def)
qed

definition planning_change :: "codec \<Rightarrow> meal_planning_profile \<Rightarrow> repository_change" where
  "planning_change C p = replaced ''profiles/meal-planning.md'' (markdown_document C
     [(''constraints'', constraints_json (mpp_constraints p)), (''updated_at'', JStr (mpp_updated p)), (''schema_version'', JNum 1)] '''')"

lemma by_fields_planning: "by_fields (d_planning H)" "by_fields d_household" "by_fields (d_member H)" "by_fields d_collection"
  unfolding d_planning_def d_household_def d_member_def d_collection_def by (intro sort_free_intros)+

lemma front_okI: "fm \<noteq> [] \<Longrightarrow> distinct (map fst fm) \<Longrightarrow> list_all (\<lambda>p. key_ok (fst p)) fm \<Longrightarrow> list_all (\<lambda>p. json_ok (snd p)) fm \<Longrightarrow> front_ok fm"
  by (auto simp: front_ok_def list_all_iff)

lemma project_planning:
  assumes "planning_profile_ok H p" "mpp_revision p = HeadRevision g" "mpp_constraints p \<noteq> Unresolved"
  shows "project_file H moment users (file_of g (planning_change C p)) st = Inr (st\<lparr>rd_planning := Some p\<rparr>)"
proof -
  have ok: "confirmed_constraints_ok H (mpp_constraints p)" "valid_datetime H (mpp_updated p)"
    using assms(1,3) by (simp_all add: planning_profile_ok_def confirmed_constraints_ok_def)
  have "read_front (d_planning H) (markdown_document C
     [(''constraints'', constraints_json (mpp_constraints p)), (''updated_at'', JStr (mpp_updated p)), (''schema_version'', JNum 1)] '''') =
     Inr (mpp_constraints p, mpp_updated p)"
    using ok by (intro read_front_printed by_fields_planning front_okI)
      (simp_all add: key_ok_def visible_def d_planning_def decode_simps checked_def constraints_decoded)
  moreover have "\<lparr>mpp_constraints = mpp_constraints p, mpp_revision = HeadRevision g, mpp_updated = mpp_updated p\<rparr> = p"
    using assms(2) by (cases p) simp
  ultimately show ?thesis using assms(1)
    by (simp add: project_file_def read_planning_def file_of_def planning_change_def replaced_def guard_def evidence_file_def item_file_def
      inside_other opt_ex_def delivery_index_report_path_def)
qed

lemma project_profile:
  assumes "plain_word n" "n \<noteq> ''meal-planning''" "n \<noteq> ''delivery''"
  shows "project_file H moment users \<lparr>fs_path = ''profiles/'' @ n @ ''.md'', fs_content = m @ [CHR 0x0A], fs_revision = g\<rparr> st =
    Inr (st\<lparr>rd_profiles := put n (m, g) (rd_profiles st)\<rparr>)"
proof -
  obtain p where p: "p = ''profiles/'' @ n @ ''.md''" by blast
  have cut: "p = ''profiles/'' @ k @ ''.md'' \<longleftrightarrow> n = k" for k by (simp add: p)
  have "p \<noteq> ''profiles/meal-planning.md''" "p \<noteq> delivery_profile_path"
    using cut [of "''meal-planning''"] cut [of "''delivery''"] assms(2,3) by (simp_all add: delivery_profile_path_def)
  moreover have "profile_file p = Some n"
    using inside_ok [of "''profiles/''" "''.md''" n] assms(1) by (simp add: profile_file_def p del: append.simps)
  moreover have "p \<noteq> ''household.md''" "\<not> evidence_file p" "\<not> item_file p" "p \<noteq> delivery_index_report_path"
    by (simp_all add: p evidence_file_def item_file_def inside_other opt_ex_def delivery_index_report_path_def)
  ultimately show ?thesis unfolding p [symmetric]
    by (simp add: project_file_def keep_profile_def remove_final_newline_def ends_with_newline_def)
qed

lemma project_household:
  assumes "trimmed_len 1 120 n" "rd_name st = None"
  shows "project_file H moment users (file_of g (replaced ''household.md''
     (markdown_document C [(''name'', JStr n), (''schema_version'', JNum 1)] ''''))) st = Inr (st\<lparr>rd_name := Some n\<rparr>)"
proof -
  have "read_front d_household (markdown_document C [(''name'', JStr n), (''schema_version'', JNum 1)] '''') = Inr n"
    using assms(1) by (intro read_front_printed by_fields_planning front_okI)
      (simp_all add: key_ok_def visible_def d_household_def decode_simps checked_def trimmed_len_def)
  then show ?thesis using assms(2) by (simp add: project_file_def read_household_def file_of_def replaced_def guard_def)
qed

lemma role_decoded [decode_simps]: "lookup roles (role_text r) = Some r"
  by (cases r) (simp_all add: roles_def role_text_def)

lemma member_path_facts:
  assumes "opaque_id_ok ''act'' a"
  defines "p \<equiv> ''members/'' @ a @ ''.md''"
  shows "p \<noteq> ''household.md''" "\<not> evidence_file p" "\<not> item_file p" "p \<noteq> delivery_index_report_path" "p \<noteq> ''profiles/meal-planning.md''"
    "p \<noteq> delivery_profile_path" "profile_file p = None" "\<not> week_file ''proposals'' ''mlp'' p" "\<not> week_file ''events'' ''mle'' p"
    "\<not> snapshot_file p" "collection_file p = None" "member_file p = Some a"
proof -
  show "member_file p = Some a"
    using inside_ok [of "''members/''" "''.md''" a] assms(1) by (simp add: member_file_def p_def del: append.simps)
qed (simp_all add: p_def evidence_file_def item_file_def profile_file_def week_file_def snapshot_file_def collection_file_def inside_other opt_ex_def
    delivery_index_report_path_def delivery_profile_path_def)

lemma project_member:
  assumes "opaque_id_ok ''act'' a"
  shows "project_file H moment users (file_of g (member_document S a r)) st =
    Inr (st\<lparr>rd_members := rd_members st @ [\<lparr>rm_actor = a, rm_role = Some r, rm_removed = None, rm_user = lookup users a\<rparr>]\<rparr>)"
proof -
  have "read_front (d_member H) (markdown_document (sv_codec S) [(''actor_id'', JStr a), (''role'', JStr (role_text r)), (''schema_version'', JNum 1)] '''') =
    Inr \<lparr>md_actor = Some a, md_role = Some r, md_former = False, md_removed = None\<rparr>"
    using assms by (intro read_front_printed by_fields_planning front_okI)
      (simp_all add: key_ok_def visible_def d_member_def d_loose_def d_id_def decode_simps checked_def optionally_def)
  then show ?thesis using member_path_facts [OF assms]
    by (simp add: project_file_def read_member_def file_of_def member_document_def replaced_def guard_def)
qed

lemma project_former_member:
  assumes "opaque_id_ok ''act'' a" "valid_datetime H t"
  shows "project_file H moment users (file_of g (replaced (''members/'' @ a @ ''.md'') (markdown_document C
      [(''actor_id'', JStr a), (''former_member'', JBool True), (''removed_at'', JStr t), (''schema_version'', JNum 1)] ''''))) st =
    Inr (st\<lparr>rd_members := rd_members st @ [\<lparr>rm_actor = a, rm_role = None, rm_removed = Some (moment t), rm_user = lookup users a\<rparr>]\<rparr>)"
proof -
  have "read_front (d_member H) (markdown_document C
      [(''actor_id'', JStr a), (''former_member'', JBool True), (''removed_at'', JStr t), (''schema_version'', JNum 1)] '''') =
    Inr \<lparr>md_actor = Some a, md_role = None, md_former = True, md_removed = Some t\<rparr>"
    using assms by (intro read_front_printed by_fields_planning front_okI)
      (simp_all add: key_ok_def visible_def d_member_def d_loose_def d_id_def decode_simps checked_def optionally_def)
  then show ?thesis using member_path_facts [OF assms(1)]
    by (simp add: project_file_def read_member_def file_of_def replaced_def guard_def)
qed

section \<open>Collections\<close>

definition snapshot_change :: "codec \<Rightarrow> collection_snapshot \<Rightarrow> repository_change" where
  "snapshot_change C s = appended (''collections/'' @ cs_collection s @ ''/snapshots/'' @ cs_id s @ ''.json'') (stable_json C (snapshot_json s))"

definition collection_change :: "codec \<Rightarrow> collection_snapshot \<Rightarrow> repository_change" where
  "collection_change C s = replaced (''collections/'' @ cs_collection s @ ''/collection.md'')
     (markdown_document C [(''id'', JStr (cs_collection s)), (''title'', JStr (cs_title s)), (''current_snapshot_id'', JStr (cs_id s)),
        (''schema_version'', JNum 1)] '''')"

lemma id_no_slash: "opaque_id_ok prefix c \<Longrightarrow> CHR ''/'' \<notin> set prefix \<Longrightarrow> CHR ''/'' \<notin> set c"
  by (force simp: opaque_id_ok_def Let_def starts_with_iff list_all_iff is_digit_def is_lower_def less_eq_char_def)

lemma project_snapshot:
  assumes "collection_snapshot_ok H s"
  shows "project_file H moment users (file_of g (snapshot_change C s)) st = Inr (st\<lparr>rd_snapshots := put (cs_id s) (s, g) (rd_snapshots st)\<rparr>)"
proof -
  have read: "read_json (decode_snapshot H) (stable_json C (snapshot_json s)) = Inr s"
    by (rule read_json_printed [OF json_ok_snapshot sort_free_snapshot snapshot_decoded [OF assms]])
  obtain p where p: "p = ''collections/'' @ cs_collection s @ ''/snapshots/'' @ cs_id s @ ''.json''" by blast
  have ids: "opaque_id_ok ''col'' (cs_collection s)" "opaque_id_ok ''snp'' (cs_id s)" using assms by (simp_all add: collection_snapshot_ok_def)
  have "inside ''collections/'' ''.json'' p = Some (cs_collection s @ ''/snapshots/'' @ cs_id s)"
    using inside_ok [of "''collections/''" "''.json''" "cs_collection s @ ''/snapshots/'' @ cs_id s"] by (simp add: p del: append.simps)
  moreover have "list_all (\<lambda>x. x \<noteq> CHR ''/'') (cs_collection s)"
    using id_no_slash [OF ids(1)] by (auto simp: list_all_iff)
  then have "takeWhile (\<lambda>x. x \<noteq> CHR ''/'') (cs_collection s @ CHR ''/'' # r) = cs_collection s" for r
    using while_stops [of "\<lambda>x. x \<noteq> CHR ''/''" "cs_collection s" "CHR ''/''" r] by blast
  ultimately have snap: "snapshot_file p" using ids by (simp add: snapshot_file_def opt_ex_def)
  have path: "p \<noteq> ''household.md''" "\<not> evidence_file p" "\<not> item_file p" "p \<noteq> delivery_index_report_path" "p \<noteq> ''profiles/meal-planning.md''"
    "p \<noteq> delivery_profile_path" "profile_file p = None" "\<not> week_file ''proposals'' ''mlp'' p" "\<not> week_file ''events'' ''mle'' p"
    by (simp_all add: p evidence_file_def item_file_def profile_file_def week_file_def inside_other opt_ex_def delivery_index_report_path_def
      delivery_profile_path_def)
  have "snapshot_change C s = appended p (stable_json C (snapshot_json s))" by (simp add: snapshot_change_def p)
  then show ?thesis using path read snap
    by (simp add: project_file_def read_snapshot_def file_of_def appended_def)
qed

lemma project_collection:
  assumes "collection_snapshot_ok H s"
  shows "project_file H moment users (file_of g (collection_change C s)) st =
    Inr (st\<lparr>rd_collections := rd_collections st @ [(cs_collection s, Some (cs_id s))]\<rparr>)"
proof -
  have ids: "opaque_id_ok ''col'' (cs_collection s)" "opaque_id_ok ''snp'' (cs_id s)" using assms by (simp_all add: collection_snapshot_ok_def)
  have read: "read_front d_collection (markdown_document C [(''id'', JStr (cs_collection s)), (''title'', JStr (cs_title s)),
      (''current_snapshot_id'', JStr (cs_id s)), (''schema_version'', JNum 1)] '''') = Inr (cs_collection s, Some (cs_id s))"
    using ids by (intro read_front_printed by_fields_planning front_okI)
      (simp_all add: key_ok_def visible_def d_collection_def d_loose_def d_id_def decode_simps checked_def)
  obtain p where p: "p = ''collections/'' @ cs_collection s @ ''/collection.md''" by blast
  have coll: "collection_file p = Some (cs_collection s)"
    using inside_ok [of "''collections/''" "''/collection.md''" "cs_collection s"] ids by (simp add: collection_file_def p del: append.simps)
  have path: "p \<noteq> ''household.md''" "\<not> evidence_file p" "\<not> item_file p" "p \<noteq> delivery_index_report_path" "p \<noteq> ''profiles/meal-planning.md''"
    "p \<noteq> delivery_profile_path" "profile_file p = None" "\<not> week_file ''proposals'' ''mlp'' p" "\<not> week_file ''events'' ''mle'' p"
    by (simp_all add: p evidence_file_def item_file_def profile_file_def week_file_def inside_other opt_ex_def delivery_index_report_path_def
      delivery_profile_path_def)
  have other: "\<not> snapshot_file p"
  proof -
    have "inside ''collections/'' ''.json'' p = None"
    proof (rule ccontr)
      assume "inside ''collections/'' ''.json'' p \<noteq> None"
      then obtain n where "drop n p = ''.json''" by (auto simp: inside_def Let_def split: if_splits)
      moreover from this have "n < length p" by (metis drop_eq_Nil leI list.discI)
      ultimately have "last p = CHR ''n''" using last_drop [of n p] by simp
      then show False by (simp add: p)
    qed
    then show ?thesis by (simp add: snapshot_file_def opt_ex_def)
  qed
  obtain content where content: "content = markdown_document C [(''id'', JStr (cs_collection s)), (''title'', JStr (cs_title s)),
      (''current_snapshot_id'', JStr (cs_id s)), (''schema_version'', JNum 1)] []" by blast
  have "collection_change C s = replaced p content" by (simp add: collection_change_def p content)
  then show ?thesis using path read coll other
    by (simp add: project_file_def read_collection_def file_of_def replaced_def content guard_def)
qed

end
