(* ===== verification/RepositoryRebuild.thy ===== *)
theory RepositoryRebuild
  imports RepositoryRoundTrip
begin

text \<open>
  A whole repository: the files a journal is written to, and the theorem that the rebuild gives the journal back.
\<close>

section \<open>The files of a journal\<close>

definition evidence_document_of :: "codec \<Rightarrow> evidence_id list \<Rightarrow> evidence \<Rightarrow> repository_change" where
  "evidence_document_of C imports e =
     (if ev_id e \<in> set imports then appended (delivery_evidence_path e) (stable_json C (evidence_json e)) else evidence_change C e)"

definition profile_document_of :: "string \<Rightarrow> string \<Rightarrow> repository_change" where
  "profile_document_of n m = replaced (''profiles/'' @ n @ ''.md'') (m @ [CHR 0x0A])"

definition household_document_of :: "codec \<Rightarrow> string \<Rightarrow> repository_change" where
  "household_document_of C n = replaced ''household.md'' (markdown_document C [(''name'', JStr n), (''schema_version'', JNum 1)] '''')"

definition planning_files :: "codec \<Rightarrow> meal_planning_profile option \<Rightarrow> file_snapshot list" where
  "planning_files C p = (case p of None \<Rightarrow> []
     | Some q \<Rightarrow> [file_of (case mpp_revision q of HeadRevision g \<Rightarrow> g | LocalRevision _ \<Rightarrow> '''') (planning_change C q)])"

definition repository_of ::
  "service \<Rightarrow> git_object_id \<Rightarrow> string \<Rightarrow> (actor_id \<times> role) list \<Rightarrow> evidence_id list \<Rightarrow> projection \<Rightarrow> file_snapshot list" where
  "repository_of S head name members imports pr =
     (let C = sv_codec S in
      [file_of head (household_document_of C name)] @
      map (\<lambda>(a, r). file_of head (member_document S a r)) members @
      map (\<lambda>(_, e). file_of head (evidence_document_of C imports e)) (pr_evidence pr) @
      map (\<lambda>(_, i, g). file_of g (item_change C i)) (pr_items pr) @
      map (\<lambda>(n, m, g). file_of g (profile_document_of n m)) (pr_profiles pr) @
      planning_files C (pr_meal_profile pr) @
      map (\<lambda>(_, p, g). file_of g (proposal_change C p)) (pr_proposals pr) @
      map (\<lambda>(_, e, g). file_of g (event_change C e)) (pr_events pr) @
      map (\<lambda>(_, s, g). file_of g (snapshot_change C s)) (pr_collections pr) @
      map (\<lambda>(_, s, g). file_of g (collection_change C s)) (pr_collections pr))"

text \<open>What reading those files amounts to.\<close>

definition reading_of :: "string \<Rightarrow> (actor_id \<times> role) list \<Rightarrow> evidence_id list \<Rightarrow> projection \<Rightarrow> reading" where
  "reading_of name members imports pr =
     \<lparr>rd_evidence = pr_evidence pr, rd_imports = filter (\<lambda>i. i \<in> set imports) (map fst (pr_evidence pr)), rd_items = pr_items pr,
      rd_profiles = pr_profiles pr, rd_snapshots = map (\<lambda>(_, s, g). (cs_id s, s, g)) (pr_collections pr), rd_planning = pr_meal_profile pr,
      rd_proposals = pr_proposals pr, rd_events = pr_events pr,
      rd_collections = map (\<lambda>(c, s, g). (c, Some (cs_id s))) (pr_collections pr),
      rd_members = map (\<lambda>(a, r). \<lparr>rm_actor = a, rm_role = Some r, rm_removed = None, rm_user = None\<rparr>) members,
      rd_report = None, rd_name = Some name\<rparr>"

definition journal_maps_ok :: "projection \<Rightarrow> bool" where
  "journal_maps_ok pr \<longleftrightarrow> map_ok (pr_evidence pr) \<and> map_ok (pr_items pr) \<and> map_ok (pr_profiles pr) \<and> map_ok (pr_proposals pr) \<and>
     map_ok (pr_events pr) \<and> map_ok (pr_collections pr) \<and> distinct (map (\<lambda>(_, s, _). cs_id s) (pr_collections pr))"

definition journal_documents_ok :: "host \<Rightarrow> evidence_id list \<Rightarrow> projection \<Rightarrow> bool" where
  "journal_documents_ok H imports pr \<longleftrightarrow>
     list_all (\<lambda>(k, e). k = ev_id e \<and> evidence_ok H e \<and> (k \<in> set imports \<longrightarrow> is_import e)) (pr_evidence pr) \<and>
     list_all (\<lambda>(k, i, _). k = item_id_of i \<and> journal_item_ok H i \<and> CHR 0x0D \<notin> set (item_body_of i)) (pr_items pr) \<and>
     list_all (\<lambda>(n, _, _). plain_word n \<and> n \<noteq> ''meal-planning'' \<and> n \<noteq> ''delivery'') (pr_profiles pr) \<and>
     opt_all (\<lambda>p. planning_profile_ok H p \<and> head_revision (mpp_revision p) \<and> mpp_constraints p \<noteq> Unresolved) (pr_meal_profile pr) \<and>
     list_all (\<lambda>(k, p, _). k = mp_id p \<and> meal_proposal_ok H p \<and> cloud_proposal p) (pr_proposals pr) \<and>
     list_all (\<lambda>(k, e, _). k = me_id e \<and> meal_plan_event_ok H e \<and> cloud_event e) (pr_events pr) \<and>
     list_all (\<lambda>(k, s, _). k = cs_collection s \<and> collection_snapshot_ok H s) (pr_collections pr)"

section \<open>Reading a segment of files\<close>

lemma fold_result_append: "fold_result f (xs @ ys) s = and_then (fold_result f xs s) (fold_result f ys)"
  by (induction xs arbitrary: s) (auto simp: and_then_def split: sum.split)

lemma read_segment:
  assumes lens: "\<And>m st. get (upd m st) = m" "\<And>m m' st. upd m (upd m' st) = upd m st"
    and step: "\<And>k v st. (k, v) \<in> set m \<Longrightarrow> lookup (get st) k = None \<Longrightarrow> upd (get st) st = st \<Longrightarrow>
      F (f (k, v)) st = Inr (upd (put k v (get st)) st)"
    and "map_ok (get st @ m)" "upd (get st) st = st"
  shows "fold_result F (map f m) st = Inr (upd (get st @ m) st)"
  using assms(4,5) step
proof (induction m arbitrary: st)
  case (Cons x m)
  obtain k v where x: "x = (k, v)" by (cases x)
  have fresh: "lookup (get st) k = None" using Cons.prems(1) x by (auto simp: map_ok_def map_of_eq_None_iff)
  let ?st = "upd (get st @ [(k, v)]) st"
  have "F (f (k, v)) st = Inr ?st" using Cons.prems(3) [of k v st] x fresh Cons.prems(2) by (simp add: put_absent)
  moreover have "fold_result F (map f m) ?st = Inr (upd (get ?st @ m) ?st)"
    using Cons.prems(1) x Cons.prems(3) by (intro Cons.IH) (simp_all add: lens)
  ultimately show ?case by (simp add: x lens)
qed simp

lemma read_list:
  assumes "\<And>x st. x \<in> set xs \<Longrightarrow> F (f x) st = Inr (upd (get st @ [g x]) st)"
    and lens: "\<And>m st. get (upd m st) = m" "\<And>m m' st. upd m (upd m' st) = upd m st" and "upd (get st) st = st"
  shows "fold_result F (map f xs) st = Inr (upd (get st @ map g xs) st)"
  using assms(1,4)
proof (induction xs arbitrary: st)
  case (Cons x xs)
  then show ?case using Cons.IH [of "upd (get st @ [g x]) st"] by (simp add: lens)
qed simp

lemma no_audit:
  assumes "list_all (\<lambda>f. \<not> starts_with ''audit/'' (fs_path f)) files"
  shows "fold_result (read_audit requests) files users = Inr users"
  using assms
proof (induction files)
  case (Cons f files)
  then have "\<not> audit_file (fs_path f)" by (simp add: audit_file_def inside_other opt_ex_def)
  then show ?case using Cons by (simp add: read_audit_def)
qed simp

section \<open>The segments of a journal\<close>

lemma read_evidence_files:
  assumes "dates_start_with_year H" "list_all (\<lambda>(k, e). k = ev_id e \<and> evidence_ok H e \<and> (k \<in> set imports \<longrightarrow> is_import e)) m" "map_ok m"
    and "rd_evidence st = []" "rd_imports st = []"
  shows "fold_result (project_file H moment users) (map (\<lambda>(_, e). file_of g (evidence_document_of C imports e)) m) st =
    Inr (st\<lparr>rd_evidence := m, rd_imports := filter (\<lambda>i. i \<in> set imports) (map fst m)\<rparr>)"
proof -
  let ?upd = "\<lambda>m st. st\<lparr>rd_evidence := m, rd_imports := filter (\<lambda>i. i \<in> set imports) (map fst m)\<rparr>"
  have "fold_result (project_file H moment users) (map (\<lambda>(_, e). file_of g (evidence_document_of C imports e)) m) st = Inr (?upd (rd_evidence st @ m) st)"
  proof (rule read_segment)
    fix k e and st :: reading
    assume "(k, e) \<in> set m" and fresh: "lookup (rd_evidence st) k = None" and same: "?upd (rd_evidence st) st = st"
    then have e: "k = ev_id e" "evidence_ok H e" "k \<in> set imports \<longrightarrow> is_import e" using assms(2) by (auto simp: list_all_iff)
    have "rd_imports st = filter (\<lambda>i. i \<in> set imports) (map fst (rd_evidence st))" by (subst same [symmetric]) simp
    then show "project_file H moment users (case (k, e) of (_, e) \<Rightarrow> file_of g (evidence_document_of C imports e)) st =
        Inr (?upd (put k e (rd_evidence st)) st)"
      using e fresh project_evidence [OF assms(1) e(2), of st moment users g C] project_delivery_import [OF assms(1) e(2), of st moment users g C]
      by (simp add: evidence_document_of_def put_absent)
  qed (use assms(3-5) in simp_all)
  then show ?thesis using assms(4) by simp
qed

lemma read_item_files:
  assumes "list_all (\<lambda>(k, i, _). k = item_id_of i \<and> journal_item_ok H i \<and> CHR 0x0D \<notin> set (item_body_of i)) m" "map_ok m" "rd_items st = []"
  shows "fold_result (project_file H moment users) (map (\<lambda>(_, i, g). file_of g (item_change C i)) m) st = Inr (st\<lparr>rd_items := m\<rparr>)"
proof -
  have "fold_result (project_file H moment users) (map (\<lambda>(_, i, g). file_of g (item_change C i)) m) st = Inr (st\<lparr>rd_items := rd_items st @ m\<rparr>)"
    using assms by (intro read_segment) (auto simp: list_all_iff project_item)
  then show ?thesis using assms(3) by simp
qed

lemma project_profile_document:
  "plain_word n \<Longrightarrow> n \<noteq> ''meal-planning'' \<Longrightarrow> n \<noteq> ''delivery'' \<Longrightarrow>
   project_file H moment users (file_of g (profile_document_of n t)) st = Inr (st\<lparr>rd_profiles := put n (t, g) (rd_profiles st)\<rparr>)"
  by (simp only: file_of_def profile_document_of_def replaced_def repository_change.simps project_profile simp_thms)

lemma read_profile_files:
  assumes "list_all (\<lambda>(n, _, _). plain_word n \<and> n \<noteq> ''meal-planning'' \<and> n \<noteq> ''delivery'') m" "map_ok m" "rd_profiles st = []"
  shows "fold_result (project_file H moment users) (map (\<lambda>(n, t, g). file_of g (profile_document_of n t)) m) st = Inr (st\<lparr>rd_profiles := m\<rparr>)"
proof -
  have "fold_result (project_file H moment users) (map (\<lambda>(n, t, g). file_of g (profile_document_of n t)) m) st = Inr (st\<lparr>rd_profiles := rd_profiles st @ m\<rparr>)"
    using assms by (intro read_segment)
      (auto simp: list_all_iff project_profile_document)
  then show ?thesis using assms(3) by simp
qed

lemma read_planning_files:
  assumes "opt_all (\<lambda>p. planning_profile_ok H p \<and> head_revision (mpp_revision p) \<and> mpp_constraints p \<noteq> Unresolved) q" "rd_planning st = None"
  shows "fold_result (project_file H moment users) (planning_files C q) st = Inr (st\<lparr>rd_planning := q\<rparr>)"
proof (cases q)
  case (Some p)
  then obtain g where "mpp_revision p = HeadRevision g" using assms(1) by (cases "mpp_revision p") (auto simp: head_revision_def opt_all_def)
  then show ?thesis using Some assms(1) project_planning [of H p g moment users C st] by (simp add: planning_files_def opt_all_def)
qed (use assms(2) in \<open>simp add: planning_files_def\<close>)

lemma read_proposal_files:
  assumes "list_all (\<lambda>(k, p, _). k = mp_id p \<and> meal_proposal_ok H p \<and> cloud_proposal p) m" "map_ok m" "rd_proposals st = []"
  shows "fold_result (project_file H moment users) (map (\<lambda>(_, p, g). file_of g (proposal_change C p)) m) st = Inr (st\<lparr>rd_proposals := m\<rparr>)"
proof -
  have "fold_result (project_file H moment users) (map (\<lambda>(_, p, g). file_of g (proposal_change C p)) m) st = Inr (st\<lparr>rd_proposals := rd_proposals st @ m\<rparr>)"
    using assms by (intro read_segment) (auto simp: list_all_iff project_proposal)
  then show ?thesis using assms(3) by simp
qed

lemma read_event_files:
  assumes "list_all (\<lambda>(k, e, _). k = me_id e \<and> meal_plan_event_ok H e \<and> cloud_event e) m" "map_ok m" "rd_events st = []"
  shows "fold_result (project_file H moment users) (map (\<lambda>(_, e, g). file_of g (event_change C e)) m) st = Inr (st\<lparr>rd_events := m\<rparr>)"
proof -
  have "fold_result (project_file H moment users) (map (\<lambda>(_, e, g). file_of g (event_change C e)) m) st = Inr (st\<lparr>rd_events := rd_events st @ m\<rparr>)"
    using assms by (intro read_segment) (auto simp: list_all_iff project_event)
  then show ?thesis using assms(3) by simp
qed

lemma read_snapshot_files:
  assumes "list_all (\<lambda>(k, s, _). k = cs_collection s \<and> collection_snapshot_ok H s) m" "distinct (map (\<lambda>(_, s, _). cs_id s) m)" "rd_snapshots st = []"
  shows "fold_result (project_file H moment users) (map (\<lambda>(_, s, g). file_of g (snapshot_change C s)) m) st =
      Inr (st\<lparr>rd_snapshots := map (\<lambda>(_, s, g). (cs_id s, s, g)) m\<rparr>)"
proof -
  let ?m = "map (\<lambda>(_, s, g). (cs_id s, s, g)) m"
  have eq: "map (\<lambda>(_, s, g). file_of g (snapshot_change C s)) m = map (\<lambda>(_, s, g). file_of g (snapshot_change C s)) ?m" by auto
  have "fold_result (project_file H moment users) (map (\<lambda>(_, s, g). file_of g (snapshot_change C s)) ?m) st =
      Inr (st\<lparr>rd_snapshots := rd_snapshots st @ ?m\<rparr>)"
    using assms by (intro read_segment) (auto simp: list_all_iff project_snapshot map_ok_def comp_def case_prod_unfold)
  then show ?thesis unfolding eq using assms(3) by simp
qed

lemma read_collection_files:
  assumes "list_all (\<lambda>(k, s, _). k = cs_collection s \<and> collection_snapshot_ok H s) m" "rd_collections st = []"
  shows "fold_result (project_file H moment users) (map (\<lambda>(_, s, g). file_of g (collection_change C s)) m) st =
      Inr (st\<lparr>rd_collections := map (\<lambda>(c, s, g). (c, Some (cs_id s))) m\<rparr>)"
proof -
  have "fold_result (project_file H moment users) (map (\<lambda>(_, s, g). file_of g (collection_change C s)) m) st =
      Inr (st\<lparr>rd_collections := rd_collections st @ map (\<lambda>(c, s, g). (c, Some (cs_id s))) m\<rparr>)"
    using assms(1) by (intro read_list) (auto simp: list_all_iff project_collection)
  then show ?thesis using assms(2) by simp
qed

lemma read_member_files:
  assumes "list_all (\<lambda>(a, _). opaque_id_ok ''act'' a) ms" "rd_members st = []"
  shows "fold_result (project_file H moment []) (map (\<lambda>(a, r). file_of g (member_document S a r)) ms) st =
    Inr (st\<lparr>rd_members := map (\<lambda>(a, r). \<lparr>rm_actor = a, rm_role = Some r, rm_removed = None, rm_user = None\<rparr>) ms\<rparr>)"
proof -
  have "fold_result (project_file H moment []) (map (\<lambda>(a, r). file_of g (member_document S a r)) ms) st =
    Inr (st\<lparr>rd_members := rd_members st @ map (\<lambda>(a, r). \<lparr>rm_actor = a, rm_role = Some r, rm_removed = None, rm_user = None\<rparr>) ms\<rparr>)"
    using assms(1) by (intro read_list) (auto simp: list_all_iff project_member)
  then show ?thesis using assms(2) by simp
qed

lemma collections_current:
  assumes "list_all (\<lambda>(k, s, _). k = cs_collection s) m" "map_ok m" "map_ok (rd_snapshots st)"
    and "rd_snapshots st = map (\<lambda>(_, s, g). (cs_id s, s, g)) m" "rd_collections st = map (\<lambda>(c, s, g). (c, Some (cs_id s))) m"
  shows "current_collections C st = Inr m"
proof -
  have found: "current_snapshot C st (c, Some (cs_id s)) = Inr (s, g)" if "(c, s, g) \<in> set m" for c s g
  proof -
    have "lookup (rd_snapshots st) (cs_id s) = Some (s, g)"
      using that assms(3,4) by (subst lookup_in_set) (auto intro: rev_image_eqI)
    then show ?thesis using that assms(1) by (auto simp: current_snapshot_def list_all_iff guard_def)
  qed
  have "fold_result (\<lambda>d m. and_then (current_snapshot C st d) (\<lambda>e. Inr (put (fst d) e m))) (map (\<lambda>(c, s, g). (c, Some (cs_id s))) n) l = Inr (l @ n)"
    if "set n \<subseteq> set m" "map_ok (l @ n)" for n l
    using that
  proof (induction n arbitrary: l)
    case (Cons x n)
    obtain c s g where x: "x = (c, s, g)" by (cases x)
    have "lookup l c = None" using Cons.prems(2) x by (auto simp: map_ok_def map_of_eq_None_iff)
    then show ?case using Cons.IH [of "l @ [x]"] Cons.prems found [of c s g] by (simp add: x put_absent)
  qed simp
  from this [of m "[]"] show ?thesis using assms(2,5) by (simp add: current_collections_def)
qed

lemma repository_has_no_audit:
  "list_all (\<lambda>f. \<not> starts_with ''audit/'' (fs_path f)) (repository_of S head name members imports pr)"
proof -
  have "\<not> starts_with ''audit/'' (journal_evidence_path e)" for e
    by (cases "ev_body e") (simp_all add: journal_evidence_path_def)
  moreover have "\<not> starts_with ''audit/'' (journal_item_path i)" for i
    by (cases i; cases "case i of GroceryItem g \<Rightarrow> gr_kind g | _ \<Rightarrow> Snack") (simp_all add: journal_item_path_def journal_item_area_def)
  ultimately show ?thesis
    by (auto simp: repository_of_def Let_def list_all_iff file_of_def household_document_of_def member_document_def evidence_document_of_def
      evidence_change_def item_change_def profile_document_of_def planning_files_def planning_change_def proposal_change_def event_change_def
      snapshot_change_def collection_change_def appended_def replaced_def delivery_evidence_path_def meal_proposal_path_def meal_plan_event_path_def
      split: option.splits if_splits)
qed

lemma repository_read:
  assumes "dates_start_with_year H" "trimmed_len 1 120 name" "list_all (\<lambda>(a, _). opaque_id_ok ''act'' a) members"
    and maps: "journal_maps_ok pr" and docs: "journal_documents_ok H imports pr"
  shows "fold_result (project_file H moment []) (repository_of S head name members imports pr) empty_reading = Inr (reading_of name members imports pr)"
proof -
  let ?C = "sv_codec S" and ?P = "project_file H moment []"
  have "distinct (map (\<lambda>(_, s, _). cs_id s) (pr_collections pr))" "map_ok (pr_evidence pr)" "map_ok (pr_items pr)" "map_ok (pr_profiles pr)"
    "map_ok (pr_proposals pr)" "map_ok (pr_events pr)" using maps by (simp_all add: journal_maps_ok_def)
  moreover have "opt_all (\<lambda>p. planning_profile_ok H p \<and> head_revision (mpp_revision p) \<and> mpp_constraints p \<noteq> Unresolved) (pr_meal_profile pr)"
    using docs by (simp add: journal_documents_ok_def)
  moreover have "?P (file_of head (household_document_of ?C name)) empty_reading = Inr (empty_reading\<lparr>rd_name := Some name\<rparr>)"
    unfolding household_document_of_def by (rule project_household [OF assms(2)]) (simp add: empty_reading_def)
  ultimately show ?thesis
    using docs unfolding journal_documents_ok_def
    by (simp add: repository_of_def Let_def fold_result_append empty_reading_def read_member_files [OF assms(3)]
      read_evidence_files [OF assms(1)] read_item_files read_profile_files read_planning_files read_proposal_files read_event_files
      read_snapshot_files read_collection_files reading_of_def)
qed

end
