(* ===== verification/RepositorySafety.thy ===== *)
theory RepositorySafety
  imports RepositoryRebuild JournalSafety
begin

text \<open>
  What the rebuild of a household guarantees: it gives the journal back, it yields valid journals only, and a change set the server
  accepts can make it fail.
\<close>

section \<open>A written journal\<close>

definition calendar_host :: host where
  "calendar_host = home_host\<lparr>valid_datetime := (\<lambda>s. 4 \<le> length s \<and> list_all is_digit (take 4 s))\<rparr>"

definition noon :: string where "noon = ''2024-01-03T12:00:00Z''"

definition kept_import :: evidence where
  "kept_import = \<lparr>ev_id = ''evd_0000000000000000'', ev_observed = noon, ev_date = None, ev_precision = Day, ev_source_type = ''shared_collection'',
     ev_source_label = ''Shared collection'', ev_locator = ''snp/1'', ev_summary = ''Imported Ramen'', ev_actor = ''act_0000000000000000'',
     ev_limitations = [], ev_supersedes = None, ev_body = ImportEvidence\<rparr>"

definition kept_purchase :: evidence where
  "kept_purchase = kept_import\<lparr>ev_id := ''evd_1111111111111111'', ev_body := PurchaseEvidence
     \<lparr>pu_store = ''Corner shop'', pu_order = ''42'', pu_title = ''Rice cakes'', pu_date = ''2024-01-02''\<rparr>\<rparr>"

definition kept_dish :: journal_item where
  "kept_dish = ImportedDishItem \<lparr>it_id = ''itm_0000000000000000'', it_evidence = [''evd_0000000000000000''], it_created = noon, it_updated = noon,
     it_body = ''Rich broth'', im_dish = ''Ramen'', im_restaurant = ''Noodle house'', im_location = ''Main street'', im_address = None,
     im_image = None, im_image_page = None, im_attribution = None, im_classification = Food,
     im_provenance = \<lparr>ip_collection = ''col_1111111111111111'', ip_snapshot = ''snp_1111111111111111'', ip_collection_item = ''entry-01'',
       ip_revision = home_head, ip_attribution = None, ip_imported = noon\<rparr>\<rparr>"

definition rice_cakes :: "item_id \<Rightarrow> evidence_id list \<Rightarrow> grocery_item" where
  "rice_cakes i es = \<lparr>it_id = i, it_evidence = es, it_created = noon, it_updated = noon, it_body = [], gr_kind = Snack,
     gr_display = ''Rice cakes'', gr_brand = None, gr_product_line = None, gr_flavor = None, gr_formulation = None, gr_format = None,
     gr_category = ''snack'', gr_variety = None, gr_sizes = [''100 g''], gr_image_page = None, gr_image = None\<rparr>"

definition kept_event :: meal_plan_event where
  "kept_event = \<lparr>me_id = ''mle_0000000000000000'', me_week = ''2024-01-01'', me_actor = CloudActor ''act_0000000000000000'', me_occurred = noon,
     me_kind = ConstraintsReviewed (HeadRevision home_head)\<rparr>"

definition kept_proposal :: meal_proposal where
  "kept_proposal = \<lparr>mp_id = ''mlp_0000000000000000'', mp_week = ''2024-01-01'', mp_date = ''2024-01-04'', mp_slot = CustomSlot ''Late supper'',
     mp_by = CloudActor ''act_0000000000000000'', mp_source = JournalDish ''itm_0000000000000000'' [''evd_0000000000000000''] home_head,
     mp_servings = Some 2, mp_notes = None, mp_constraint = HeadRevision home_head, mp_review_event = ''mle_0000000000000000'',
     mp_compatibility = IncompleteEvidence, mp_caveat = ''Ask about the broth'', mp_created = noon\<rparr>"

definition kept_collection :: collection_snapshot where
  "kept_collection = \<lparr>cs_id = ''snp_0000000000000000'', cs_collection = ''col_0000000000000000'', cs_title = ''Late suppers'', cs_sharer = Some ''Ada'',
     cs_items = [DishEntry \<lparr>de_id = ''entry-01'', de_title = ''Ramen'', de_restaurant = ''Noodle house'', de_location = ''Main street'',
       de_address = None, de_description = None, de_note = None, de_image = None, de_image_page = None, de_attribution = None,
       de_revision = home_head, de_alcohol = False\<rparr>], cs_created = noon\<rparr>"

definition kept_journal :: projection where
  "kept_journal =
     \<lparr>pr_evidence = [(''evd_0000000000000000'', kept_import), (''evd_1111111111111111'', kept_purchase)],
      pr_items = [(''itm_0000000000000000'', kept_dish, home_head),
        (''itm_1111111111111111'', GroceryItem (rice_cakes ''itm_1111111111111111'' [''evd_1111111111111111'']), home_head)],
      pr_profiles = [(''snacks'', ''Crisp and salty'', home_head)],
      pr_collections = [(''col_0000000000000000'', kept_collection, home_head)],
      pr_meal_profile = Some \<lparr>mpp_constraints = Recorded \<lparr>rcs_zone = ''UTC'', rcs_allergies = [''peanut''], rcs_sensitivities = [], rcs_reviewed = noon\<rparr>,
        mpp_revision = HeadRevision home_head, mpp_updated = noon\<rparr>,
      pr_proposals = [(''mlp_0000000000000000'', kept_proposal, home_head)],
      pr_events = [(''mle_0000000000000000'', kept_event, home_head)]\<rparr>"

lemma calendar_dates: "dates_start_with_year calendar_host"
  by (simp add: dates_start_with_year_def calendar_host_def)

lemma kept_ids:
  "opaque_id_ok ''itm'' ''itm_0000000000000000''" "opaque_id_ok ''itm'' ''itm_1111111111111111''"
  "opaque_id_ok ''evd'' ''evd_0000000000000000''" "opaque_id_ok ''evd'' ''evd_1111111111111111''"
  by code_simp+

lemma rice_cakes_ok:
  assumes "opaque_id_ok ''itm'' i" "list_len 1 1000 es" "list_all (opaque_id_ok ''evd'') es"
  shows "journal_item_ok calendar_host (GroceryItem (rice_cakes i es))"
  using assms by (simp add: journal_item_ok_def grocery_ok_def item_base_ok_def rice_cakes_def calendar_host_def noon_def is_digit_def str_len_def opt_all_def list_len_def)

lemma kept_provenance_ok: "import_provenance_ok calendar_host (im_provenance (case kept_dish of ImportedDishItem d \<Rightarrow> d))"
  by code_simp

lemma kept_dish_ok: "journal_item_ok calendar_host kept_dish"
proof -
  have t: "trimmed_len 1 500 ''Ramen''" "trimmed_len 1 300 ''Noodle house''" "trimmed_len 1 500 ''Main street''" 
    by (simp_all add: trimmed_len_def) code_simp+
  show ?thesis
    using kept_provenance_ok kept_ids t
    by (simp add: journal_item_ok_def imported_dish_ok_def item_base_ok_def kept_dish_def calendar_host_def noon_def is_digit_def str_len_def opt_all_def list_len_def)
qed
lemma kept_documents_ok:
  "evidence_ok calendar_host kept_import" "evidence_ok calendar_host kept_purchase" "is_import kept_import"
  "meal_proposal_ok calendar_host kept_proposal" "cloud_proposal kept_proposal" "meal_plan_event_ok calendar_host kept_event" "cloud_event kept_event"
  "collection_snapshot_ok calendar_host kept_collection"
  "opt_all (\<lambda>p. planning_profile_ok calendar_host p \<and> head_revision (mpp_revision p) \<and> mpp_constraints p \<noteq> Unresolved) (pr_meal_profile kept_journal)"
  "plain_word ''snacks''"
  by code_simp+

lemma kept_keys:
  "ev_id kept_import = ''evd_0000000000000000''" "ev_id kept_purchase = ''evd_1111111111111111''"
  "item_id_of kept_dish = ''itm_0000000000000000''" "it_id (rice_cakes i es) = i"
  "CHR 0x0D \<notin> set (item_body_of kept_dish)" "item_body_of (GroceryItem (rice_cakes i es)) = []"
  "mp_id kept_proposal = ''mlp_0000000000000000''" "me_id kept_event = ''mle_0000000000000000''" "cs_collection kept_collection = ''col_0000000000000000''"
  by (simp_all add: kept_import_def kept_purchase_def kept_dish_def rice_cakes_def kept_proposal_def kept_event_def kept_collection_def item_body_of_def)

lemma kept_journal_ok:
  "journal_maps_ok kept_journal" "journal_documents_ok calendar_host [''evd_0000000000000000''] kept_journal"
  "reading_consistent calendar_host (reading_of ''Home'' [(''act_0000000000000000'', Owner)] [''evd_0000000000000000''] kept_journal) = Inr ()"
proof -
  show "journal_maps_ok kept_journal" by code_simp
  have "opt_all (\<lambda>p. planning_profile_ok calendar_host p \<and> head_revision (mpp_revision p) \<and> mpp_constraints p \<noteq> Unresolved) (pr_meal_profile kept_journal)"
    by (rule kept_documents_ok)
  then show "journal_documents_ok calendar_host [''evd_0000000000000000''] kept_journal"
    using kept_documents_ok kept_dish_ok kept_ids rice_cakes_ok [of "''itm_1111111111111111''" "[''evd_1111111111111111'']"]
    by (simp add: journal_documents_ok_def kept_journal_def kept_keys list_len_def)
qed code_simp

section \<open>The journal comes back\<close>

lemma repository_rebuilt:
  assumes "dates_start_with_year H" "trimmed_len 1 120 name" "list_all (\<lambda>(a, _). opaque_id_ok ''act'' a) members"
    and "journal_maps_ok pr" "journal_documents_ok H imports pr" "reading_consistent H (reading_of name members imports pr) = Inr ()"
  shows "rebuild_repository_state (sv_codec S) H moment requests (repository_of S head name members imports pr) =
    Inr \<lparr>rb_name = Some name, rb_projection = pr,
      rb_members = map (\<lambda>(a, r). \<lparr>rm_actor = a, rm_role = Some r, rm_removed = None, rm_user = None\<rparr>) members\<rparr>"
proof -
  have "current_collections (sv_codec S) (reading_of name members imports pr) = Inr (pr_collections pr)"
    using assms(4,5)
    by (intro collections_current)
      (auto simp: journal_maps_ok_def journal_documents_ok_def reading_of_def list_all_iff map_ok_def comp_def case_prod_unfold)
  then show ?thesis
    using repository_read [OF assms(1-5), of moment S head] no_audit [OF repository_has_no_audit] assms(6)
    by (simp add: rebuild_repository_state_def) (simp add: reading_of_def)
qed

lemma kept_journal_rebuilt:
  "rebuild_repository_state (sv_codec home_service) calendar_host (\<lambda>_. 0) []
     (repository_of home_service home_head ''Home'' [(''act_0000000000000000'', Owner)] [''evd_0000000000000000''] kept_journal) =
   Inr \<lparr>rb_name = Some ''Home'', rb_projection = kept_journal,
     rb_members = [\<lparr>rm_actor = ''act_0000000000000000'', rm_role = Some Owner, rm_removed = None, rm_user = None\<rparr>]\<rparr>"
proof -
  have "trimmed_len 1 120 ''Home''" "list_all (\<lambda>(a, _). opaque_id_ok ''act'' a) [(''act_0000000000000000'', Owner)]" by code_simp+
  from repository_rebuilt [OF calendar_dates this kept_journal_ok, of home_service "\<lambda>_. 0" "[]" home_head]
  show ?thesis by simp
qed

text \<open>C21: The repository is the journal. Reading back the files a journal is written to (its household document, members, evidence,
  items, profiles, planning profile, proposals, events and collections) rebuilds the same projection, name and members, provided each document
  is valid and they are consistent with one another.\<close>
theorem rebuild_gives_the_journal_back:
  assumes "dates_start_with_year H" "trimmed_len 1 120 name" "list_all (\<lambda>(a, _). opaque_id_ok ''act'' a) members"
    and "journal_maps_ok pr" "journal_documents_ok H imports pr" "reading_consistent H (reading_of name members imports pr) = Inr ()"
  shows "rebuild_repository_state (sv_codec S) H moment requests (repository_of S head name members imports pr) =
    Inr \<lparr>rb_name = Some name, rb_projection = pr,
      rb_members = map (\<lambda>(a, r). \<lparr>rm_actor = a, rm_role = Some r, rm_removed = None, rm_user = None\<rparr>) members\<rparr>"
  using assms by (rule repository_rebuilt)

theorem rebuild_gives_the_journal_back_witness:
  "rebuild_repository_state (sv_codec home_service) calendar_host (\<lambda>_. 0) []
     (repository_of home_service home_head ''Home'' [(''act_0000000000000000'', Owner)] [''evd_0000000000000000''] kept_journal) =
   Inr \<lparr>rb_name = Some ''Home'', rb_projection = kept_journal,
     rb_members = [\<lparr>rm_actor = ''act_0000000000000000'', rm_role = Some Owner, rm_removed = None, rm_user = None\<rparr>]\<rparr>"
proof -
  have "trimmed_len 1 120 ''Home''" "list_all (\<lambda>(a, _). opaque_id_ok ''act'' a) [(''act_0000000000000000'', Owner)]" by code_simp+
  from rebuild_gives_the_journal_back [OF calendar_dates this kept_journal_ok, of home_service "\<lambda>_. 0" "[]" home_head]
  show ?thesis by simp
qed


section \<open>A rebuilt journal is well formed\<close>

definition typed_map :: "('k \<Rightarrow> 'v \<Rightarrow> bool) \<Rightarrow> ('k, 'v) js_map \<Rightarrow> bool" where
  "typed_map P m \<longleftrightarrow> map_ok m \<and> list_all (\<lambda>(k, v). P k v) m"

definition well_formed_journal :: "host \<Rightarrow> projection \<Rightarrow> bool" where
  "well_formed_journal H pr \<longleftrightarrow>
     typed_map (\<lambda>k e. k = ev_id e \<and> evidence_ok H e) (pr_evidence pr) \<and>
     typed_map (\<lambda>k (i, _). k = item_id_of i \<and> journal_item_ok H i \<and> validate_item_evidence i (pr_evidence pr) = Inr ()) (pr_items pr) \<and>
     typed_map (\<lambda>n _. plain_word n) (pr_profiles pr) \<and>
     opt_all (planning_profile_ok H) (pr_meal_profile pr) \<and>
     typed_map (\<lambda>k (p, _). k = mp_id p \<and> meal_proposal_ok H p) (pr_proposals pr) \<and>
     typed_map (\<lambda>k (e, _). k = me_id e \<and> meal_plan_event_ok H e) (pr_events pr) \<and>
     typed_map (\<lambda>k (s, _). k = cs_collection s \<and> collection_snapshot_ok H s) (pr_collections pr)"

definition sound_reading :: "host \<Rightarrow> reading \<Rightarrow> bool" where
  "sound_reading H st \<longleftrightarrow>
     typed_map (\<lambda>k e. k = ev_id e \<and> evidence_ok H e) (rd_evidence st) \<and>
     typed_map (\<lambda>k (i, _). k = item_id_of i \<and> journal_item_ok H i) (rd_items st) \<and>
     typed_map (\<lambda>n _. plain_word n) (rd_profiles st) \<and>
     opt_all (planning_profile_ok H) (rd_planning st) \<and>
     typed_map (\<lambda>k (p, _). k = mp_id p \<and> meal_proposal_ok H p) (rd_proposals st) \<and>
     typed_map (\<lambda>k (e, _). k = me_id e \<and> meal_plan_event_ok H e) (rd_events st) \<and>
     typed_map (\<lambda>k (s, _). collection_snapshot_ok H s) (rd_snapshots st)"

lemma typed_map_Nil [simp]: "typed_map P []"
  by (simp add: typed_map_def)

lemma typed_map_put: "typed_map P m \<Longrightarrow> P k v \<Longrightarrow> typed_map P (put k v m)"
  using set_put_subset [of k v m] by (auto simp: typed_map_def list_all_iff)

lemma typed_map_lookup: "typed_map P m \<Longrightarrow> lookup m k = Some v \<Longrightarrow> P k v"
  by (auto simp: typed_map_def list_all_iff dest: map_of_SomeD)

lemma typed_map_vals: "typed_map P m \<Longrightarrow> v \<in> set (vals m) \<Longrightarrow> \<exists>k. P k v"
  by (fastforce simp: typed_map_def list_all_iff)

lemma fold_result_invariant:
  assumes "\<And>x s s'. x \<in> set xs \<Longrightarrow> I s \<Longrightarrow> f x s = Inr s' \<Longrightarrow> I s'" "I s" "fold_result f xs s = Inr s'"
  shows "I s'"
  using assms by (induction xs arbitrary: s) (auto simp: and_then_Inr_iff)

lemma checked_Some: "checked P d j = Some x \<Longrightarrow> P x"
  by (auto simp: checked_def split: option.splits if_splits)

lemmas decoder_checks = decode_evidence_def decode_item_def decode_proposal_def decode_event_def decode_snapshot_def

lemma projected_Inr: "projected x = Inr v \<longleftrightarrow> x = Some v"
  by (auto simp: projected_def split: option.split)

lemma read_checks:
  "read_json (checked P d) c = Inr v \<Longrightarrow> P v" "read_front (checked P d) c = Inr v \<Longrightarrow> P v" "read_body k (checked P d) c = Inr v \<Longrightarrow> P v"
  by (auto simp: read_json_def read_front_def read_body_def projected_Inr and_then_Inr_iff Option.bind_eq_Some_conv intro: checked_Some)

lemma if_Inr: "(if c then Inl a else Inr b) = Inr v \<longleftrightarrow> \<not> c \<and> v = b" by auto

lemma read_evidence_sound:
  assumes sound: "sound_reading H st" and read: "read_evidence H f st = Inr st'"
  shows "sound_reading H st'"
proof -
  from read obtain e i where e: "read_json (decode_evidence H) (fs_content f) = Inr e"
    and st': "st' = st\<lparr>rd_evidence := put (ev_id e) e (rd_evidence st), rd_imports := i\<rparr>"
    unfolding read_evidence_def and_then_Inr_iff Let_def if_Inr by blast
  have "evidence_ok H e" using e unfolding decode_evidence_def by (rule read_checks(1))
  then show ?thesis using sound by (simp add: sound_reading_def st' typed_map_put)
qed

lemma read_item_sound: "sound_reading H st \<Longrightarrow> read_item H f st = Inr st' \<Longrightarrow> sound_reading H st'"
  by (auto simp: read_item_def decode_item_def sound_reading_def and_then_Inr_iff intro: typed_map_put dest!: read_checks(3))

lemma read_proposal_sound: "sound_reading H st \<Longrightarrow> read_proposal H f st = Inr st' \<Longrightarrow> sound_reading H st'"
  by (auto simp: read_proposal_def decode_proposal_def sound_reading_def and_then_Inr_iff intro: typed_map_put dest!: read_checks(1))

lemma read_event_sound: "sound_reading H st \<Longrightarrow> read_event H f st = Inr st' \<Longrightarrow> sound_reading H st'"
  by (auto simp: read_event_def decode_event_def sound_reading_def and_then_Inr_iff intro: typed_map_put dest!: read_checks(1))

lemma read_snapshot_sound: "sound_reading H st \<Longrightarrow> read_snapshot H f st = Inr st' \<Longrightarrow> sound_reading H st'"
  by (auto simp: read_snapshot_def decode_snapshot_def sound_reading_def and_then_Inr_iff intro: typed_map_put dest!: read_checks(1))

lemma keep_profile_sound: "sound_reading H st \<Longrightarrow> plain_word n \<Longrightarrow> keep_profile n f st = Inr st' \<Longrightarrow> sound_reading H st'"
  by (auto simp: keep_profile_def sound_reading_def intro: typed_map_put)

lemma other_readers_sound:
  assumes "sound_reading H st"
    and "read_household f st = Inr st' \<or> read_report H f st = Inr st' \<or> read_planning H f st = Inr st' \<or>
      read_collection c f st = Inr st' \<or> read_member H moment users a f st = Inr st'"
  shows "sound_reading H st'"
  using assms(2)
proof (elim disjE)
  assume "read_planning H f st = Inr st'"
  then show ?thesis using assms(1) by (auto simp: read_planning_def sound_reading_def and_then_Inr_iff opt_all_def Let_def)
qed (use assms(1) in \<open>auto simp: read_household_def read_report_def read_collection_def read_member_def sound_reading_def and_then_Inr_iff\<close>)

lemma profile_file_word: "profile_file p = Some n \<Longrightarrow> plain_word n"
  by (auto simp: profile_file_def Option.bind_eq_Some_conv split: if_splits)

lemma project_file_sound:
  assumes "sound_reading H st" "project_file H moment users f st = Inr st'"
  shows "sound_reading H st'"
proof -
  have "plain_word ''delivery''" by code_simp
  then have "sound_reading H st'" if "read_delivery_profile H f st = Inr st'"
    using that keep_profile_sound [OF assms(1)] by (auto simp: read_delivery_profile_def and_then_Inr_iff)
  then show ?thesis
    using assms unfolding project_file_def Let_def
    by (auto split: if_splits option.splits intro: read_evidence_sound [OF assms(1)] read_item_sound [OF assms(1)]
        read_proposal_sound [OF assms(1)] read_event_sound [OF assms(1)] read_snapshot_sound [OF assms(1)]
        keep_profile_sound [OF assms(1)] profile_file_word other_readers_sound [OF assms(1)])
qed

lemma fold_choice: "fold (\<lambda>x best. if P x best then x else best) xs b \<in> insert b (set xs)"
  by (induction xs arbitrary: b) auto

lemma newest_member: "newest C es = Some e \<Longrightarrow> e \<in> set es"
  using fold_choice [of "\<lambda>x best. collation_key C (cs_created (fst best)) < collation_key C (cs_created (fst x))" "tl es" "hd es"]
  by (cases es) (auto simp: newest_def)

lemma current_snapshot_sound:
  assumes "typed_map (\<lambda>k (s, _). collection_snapshot_ok H s) (rd_snapshots st)" "current_snapshot C st d = Inr (s, g)"
  shows "fst d = cs_collection s \<and> collection_snapshot_ok H s"
proof -
  obtain c i where d: "d = (c, i)" by (cases d)
  have "(s, g) \<in> set (vals (rd_snapshots st)) \<and> cs_collection s = c"
    using assms(2) by (auto simp: current_snapshot_def d and_then_Inr_iff split: option.splits dest!: newest_member dest: lookup_vals)
  then show ?thesis using typed_map_vals [OF assms(1), of "(s, g)"] by (auto simp: d)
qed

lemma current_collections_sound:
  assumes "typed_map (\<lambda>k (s, _). collection_snapshot_ok H s) (rd_snapshots st)" "current_collections C st = Inr m"
  shows "typed_map (\<lambda>k (s, _). k = cs_collection s \<and> collection_snapshot_ok H s) m"
  using assms(2) unfolding current_collections_def
  by (rule fold_result_invariant [rotated -1])
    (auto simp: and_then_Inr_iff intro!: typed_map_put dest: current_snapshot_sound [OF assms(1)])

lemma rebuild_well_formed:
  assumes "rebuild_repository_state C H moment requests files = Inr rb"
  shows "well_formed_journal H (rb_projection rb)"
proof -
  from assms obtain users st cs where st: "fold_result (project_file H moment users) files empty_reading = Inr st"
    and cs: "current_collections C st = Inr cs" and ok: "reading_consistent H st = Inr ()"
    and rb: "rb_projection rb = \<lparr>pr_evidence = rd_evidence st, pr_items = rd_items st, pr_profiles = rd_profiles st, pr_collections = cs,
      pr_meal_profile = rd_planning st, pr_proposals = rd_proposals st, pr_events = rd_events st\<rparr>"
    by (auto simp: rebuild_repository_state_def and_then_Inr_iff)
  have "sound_reading H empty_reading" by (simp add: sound_reading_def empty_reading_def opt_all_def)
  then have sound: "sound_reading H st"
    using st by (rule fold_result_invariant [rotated]) (rule project_file_sound)
  then have cs': "typed_map (\<lambda>k (s, _). k = cs_collection s \<and> collection_snapshot_ok H s) cs"
    using current_collections_sound [OF _ cs] by (simp add: sound_reading_def)
  have "\<forall>i\<in>set (vals (strip_revisions (rd_items st))). validate_item_evidence i (rd_evidence st) = Inr ()"
    using ok by (auto simp: reading_consistent_def Let_def and_then_Inr_iff each_ok_Inr_iff)
  then have "typed_map (\<lambda>k (i, _). k = item_id_of i \<and> journal_item_ok H i \<and> validate_item_evidence i (rd_evidence st) = Inr ()) (rd_items st)"
    using sound by (fastforce simp: sound_reading_def typed_map_def strip_revisions_def list_all_iff)
  with sound cs' show ?thesis by (simp add: well_formed_journal_def sound_reading_def rb)
qed

text \<open>C22: Whatever files the repository holds, a rebuild that succeeds yields a well-formed journal: every map holds a key once and files
  each document under its own identifier, every document satisfies its schema, profiles have plain names, and every item cites evidence
  that exists and supports it.\<close>
theorem rebuilt_journal_is_well_formed:
  assumes "rebuild_repository_state C H moment requests files = Inr rb"
  shows "well_formed_journal H (rb_projection rb)"
  using assms by (rule rebuild_well_formed)

theorem rebuilt_journal_is_well_formed_witness: "well_formed_journal calendar_host kept_journal"
  using rebuilt_journal_is_well_formed [OF kept_journal_rebuilt] by simp


section \<open>An accepted change set can block the rebuild\<close>

lemma imported_evidence_has_one_citation:
  assumes "reading_consistent H st = Inr ()" "e \<in> set (rd_imports st)"
  obtains i where "citations (strip_revisions (rd_items st)) e = [i]"
proof -
  let ?cs = "citations (strip_revisions (rd_items st)) e"
  have "case ?cs of [i] \<Rightarrow> is_imported_dish i | _ \<Rightarrow> False"
    using assms unfolding reading_consistent_def Let_def validate_delivery_import_evidence_scope_def and_then_Inr_iff each_ok_Inr_iff by auto
  then show thesis using that by (cases ?cs; cases "tl ?cs") auto
qed

lemma citations_append: "citations (m @ m') e = citations m e @ citations m' e"
  by (simp add: citations_def)

lemma strip_append: "strip_revisions (m @ m') = strip_revisions m @ strip_revisions m'"
  by (simp add: strip_revisions_def)

lemma cited_twice_inconsistent:
  assumes "e \<in> set (rd_imports st)" "\<And>i. citations (strip_revisions (rd_items st)) e \<noteq> [i]"
  shows "reading_consistent H st \<noteq> Inr ()"
  using imported_evidence_has_one_citation [OF _ assms(1)] assms(2) by metis

text \<open>C23: A change set the server accepts can make the household impossible to rebuild. Take any journal that rebuilds and a piece of
  import evidence filed with the deliveries. A new grocery item citing that evidence passes every check of the change set, yet the repository it
  leads to is refused by the rebuild, which requires that such evidence be cited once, by an imported dish.\<close>
theorem accepted_change_set_blocks_rebuild:
  assumes "dates_start_with_year H" "trimmed_len 1 120 name" "list_all (\<lambda>(a, _). opaque_id_ok ''act'' a) members"
    and "journal_maps_ok pr" "journal_documents_ok H imports pr" "reading_consistent H (reading_of name members imports pr) = Inr ()"
    and "e \<in> set imports" "lookup (pr_evidence pr) e \<noteq> None" "it_evidence g = [e]" "grocery_ok H g" "CHR 0x0D \<notin> set (it_body g)"
    and "lookup (pr_items pr) (it_id g) = None"
  shows "(\<exists>rb. rebuild_repository_state (sv_codec S) H moment requests (repository_of S head name members imports pr) = Inr rb) \<and>
    entries_submission pr actor [] [GroceryItem g] [] [] = Inr () \<and>
    \<not> (\<exists>rb. rebuild_repository_state (sv_codec S) H moment requests
        (repository_of S head name members imports (project_entries head [] [GroceryItem g] pr)) = Inr rb)"
proof (intro conjI)
  let ?new = "project_entries head [] [GroceryItem g] pr" and ?read = "\<lambda>pr. reading_of name members imports pr"
  show "\<exists>rb. rebuild_repository_state (sv_codec S) H moment requests (repository_of S head name members imports pr) = Inr rb"
    using repository_rebuilt [OF assms(1-6)] by blast
  show "entries_submission pr actor [] [GroceryItem g] [] [] = Inr ()"
    using assms(8,9,12) by (auto simp: entries_submission_def item_submission_ok_def validate_item_evidence_def cited_evidence_def guard_def)
  have items: "pr_items ?new = pr_items pr @ [(it_id g, GroceryItem g, head)]"
    using assms(12) by (simp add: project_entries_def put_items_def put_absent)
  have "journal_maps_ok ?new"
    using assms(4) by (simp add: journal_maps_ok_def project_entries_def put_items_def put_evidence_def)
  moreover have "journal_documents_ok H imports ?new"
    using assms(5,10,11) items by (simp add: journal_documents_ok_def project_entries_def put_evidence_def journal_item_ok_def item_body_of_def)
  ultimately have read: "fold_result (project_file H moment []) (repository_of S head name members imports ?new) empty_reading = Inr (?read ?new)"
    by (rule repository_read [OF assms(1-3)])
  have "e \<in> set (rd_imports (?read pr))"
    using assms(7,8) by (auto simp: reading_of_def map_of_eq_None_iff)
  then obtain i where "citations (strip_revisions (pr_items pr)) e = [i]" "e \<in> set (rd_imports (?read ?new))"
    using imported_evidence_has_one_citation [OF assms(6)]
    by (auto simp: reading_of_def project_entries_def put_evidence_def)
  moreover have "citations (strip_revisions [(it_id g, GroceryItem g, head)]) e = [GroceryItem g]"
    using assms(9) by (simp add: citations_def strip_revisions_def)
  ultimately have "reading_consistent H (?read ?new) \<noteq> Inr ()"
    using items by (intro cited_twice_inconsistent) (auto simp: reading_of_def citations_append strip_append)
  then show "\<not> (\<exists>rb. rebuild_repository_state (sv_codec S) H moment requests (repository_of S head name members imports ?new) = Inr rb)"
    using read no_audit [OF repository_has_no_audit] by (auto simp: rebuild_repository_state_def and_then_Inr_iff)
qed

definition pantry_cakes :: grocery_item where
  "pantry_cakes = rice_cakes ''itm_2222222222222222'' [''evd_0000000000000000'']"

lemma pantry_cakes_ok: "grocery_ok calendar_host pantry_cakes"
proof -
  have "opaque_id_ok ''itm'' ''itm_2222222222222222''" by code_simp
  then show ?thesis
    using rice_cakes_ok [of "''itm_2222222222222222''" "[''evd_0000000000000000'']"] kept_ids(3)
    by (simp add: pantry_cakes_def journal_item_ok_def list_len_def)
qed

theorem accepted_change_set_blocks_rebuild_witness:
  "entries_submission kept_journal ''act_0000000000000000'' [] [GroceryItem pantry_cakes] [] [] = Inr () \<and>
   \<not> (\<exists>rb. rebuild_repository_state (sv_codec home_service) calendar_host (\<lambda>_. 0) []
       (repository_of home_service home_head ''Home'' [(''act_0000000000000000'', Owner)] [''evd_0000000000000000'']
          (project_entries home_head [] [GroceryItem pantry_cakes] kept_journal)) = Inr rb)"
proof -
  have "trimmed_len 1 120 ''Home''" "list_all (\<lambda>(a, _). opaque_id_ok ''act'' a) [(''act_0000000000000000'', Owner)]"
    "''evd_0000000000000000'' \<in> set [''evd_0000000000000000'']" "lookup (pr_evidence kept_journal) ''evd_0000000000000000'' \<noteq> None"
    "it_evidence pantry_cakes = [''evd_0000000000000000'']" "CHR 0x0D \<notin> set (it_body pantry_cakes)"
    "lookup (pr_items kept_journal) (it_id pantry_cakes) = None" by code_simp+
  from accepted_change_set_blocks_rebuild [OF calendar_dates this(1,2) kept_journal_ok this(3-5) pantry_cakes_ok this(6,7), of home_service]
  show ?thesis by blast
qed

end
