(* ===== verification/ReconciliationWorker.thy ===== *)
theory ReconciliationWorker
  imports RepositorySafety
begin

text \<open>
  The reconciliation worker (\<^verbatim>\<open>apps/server/src/workers/reconciliation-worker.ts\<close>): household by household it rebuilds the operational
  state from the repository, settles the mutations that were left open, and quarantines a household whose repository it cannot use.  The
  household lock makes one call of \<open>reconcile\<close> a step; a throw keeps the state reached before it.  \<open>at\<close> gives the time of a transition of a request.
  The comparison of documents through their JSON text is equality (\<open>JournalValidation\<close>).  Telemetry has no effect on the state.
\<close>

section \<open>The parts of one reconciliation\<close>

datatype outcome = Unchanged | Rebuilt | QuarantinedNow

record reconciler =
  rc_codec :: codec
  rc_host :: host
  rc_moment :: "string \<Rightarrow> time"
  rc_at :: "request_id \<Rightarrow> mutation_state \<Rightarrow> time"

definition plain_error :: failure where
  "plain_error = OtherError ''Error''"

definition commits_of :: "household_id \<Rightarrow> mutation_record list \<Rightarrow> repositories \<Rightarrow> failure + (request_id, git_object_id option) js_map" where
  "commits_of h ms rs =
     fold_result (\<lambda>m cs. and_then (find_commit_by_request_id h (mu_request m) rs) (\<lambda>c. Inr (put (mu_request m) c cs))) ms []"

definition has_commit_in :: "(request_id, git_object_id option) js_map \<Rightarrow> mutation_record \<Rightarrow> bool" where
  "has_commit_in cs m \<longleftrightarrow> (case lookup cs (mu_request m) of Some (Some _) \<Rightarrow> True | _ \<Rightarrow> False)"

definition mutation_users :: "mutation_record list \<Rightarrow> (request_id, user_id) js_map" where
  "mutation_users ms = fold (\<lambda>m. put (mu_request m) (mu_user m)) ms []"

definition active_by_actor :: "membership list \<Rightarrow> (actor_id, membership) js_map" where
  "active_by_actor ms = fold (\<lambda>m. put (m_actor m) m) ms []"

definition maps_equal :: "('k, 'v) js_map \<Rightarrow> ('k, 'v) js_map \<Rightarrow> bool" where
  "maps_equal l r \<longleftrightarrow> length l = length r \<and> list_all (\<lambda>(k, v). lookup r k = Some v) l"

definition projections_equal :: "projection \<Rightarrow> projection \<Rightarrow> bool" where
  "projections_equal l r \<longleftrightarrow> maps_equal (pr_evidence l) (pr_evidence r) \<and> maps_equal (pr_items l) (pr_items r) \<and>
     maps_equal (pr_profiles l) (pr_profiles r) \<and> maps_equal (pr_collections l) (pr_collections r) \<and>
     pr_meal_profile l = pr_meal_profile r \<and> maps_equal (pr_proposals l) (pr_proposals r) \<and> maps_equal (pr_events l) (pr_events r)"

text \<open>What the repository says, checked against the members the store knows.\<close>

definition repository_state ::
  "reconciler \<Rightarrow> household_id \<Rightarrow> mutation_record list \<Rightarrow> world \<Rightarrow>
     failure + git_object_id \<times> (request_id, git_object_id option) js_map \<times> string \<times> rebuilt" where
  "repository_state R h ms w =
     and_then (guard (fst (verify_repository h (w_repos w))) plain_error) (\<lambda>_.
     and_then (snapshot h (w_repos w)) (\<lambda>(head, files).
     and_then (commits_of h ms (w_repos w)) (\<lambda>commits.
     and_then (guard (\<not> list_ex (\<lambda>m. mu_state m \<in> {GitCommitted, ReconciliationRequired} \<and> \<not> has_commit_in commits m) ms) plain_error) (\<lambda>_.
     and_then (rebuild_repository_state (rc_codec R) (rc_host R) (rc_moment R) (mutation_users ms) files) (\<lambda>rb.
     case rb_name rb of
       None \<Rightarrow> Inl plain_error
     | Some name \<Rightarrow>
       let active = list_household_memberships h (w_store w); by_actor = active_by_actor active in
       and_then (guard (list_all (\<lambda>m. m_actor m \<in> set (map rm_actor (rb_members rb))) active) plain_error) (\<lambda>_.
       and_then (guard (\<not> list_ex (\<lambda>m. rm_role m \<noteq> None \<and> rm_user m = None \<and> lookup by_actor (rm_actor m) = None) (rb_members rb)) plain_error) (\<lambda>_.
       Inr (head, commits, name, rb))))))))"

definition needs_rebuild ::
  "household_id \<Rightarrow> git_object_id \<Rightarrow> (request_id, git_object_id option) js_map \<Rightarrow> string \<Rightarrow> rebuilt \<Rightarrow> projection \<Rightarrow> op_store \<Rightarrow> bool" where
  "needs_rebuild h head commits name rb current s \<longleftrightarrow>
     (let active = list_household_memberships h s; by_actor = active_by_actor active in
      map_option h_head (get_household h s) \<noteq> Some head \<or>
      map_option h_name (get_household h s) \<noteq> Some name \<or>
      list_ex (\<lambda>m. m_head m \<noteq> head) active \<or>
      list_ex (\<lambda>m. rm_role m \<noteq> None \<and> map_option m_role (lookup by_actor (rm_actor m)) \<noteq> rm_role m) (rb_members rb) \<or>
      \<not> projections_equal current (rb_projection rb) \<or>
      list_ex (\<lambda>c. c \<noteq> None) (vals commits))"

section \<open>Onboarding skips recovered from a mutation\<close>

definition d_skip :: "skip_outcome decoder" where
  "d_skip = d_strict [''section'', ''outcome'', ''reason'', ''expected_revision'']
     (\<lambda>g. do { s \<leftarrow> need (d_enum (map (\<lambda>s. (section_text s, s)) [SnacksSection, RecipesSection])) (g ''section'');
               _ \<leftarrow> need (d_literal (JStr ''skip'')) (g ''outcome'');
               r \<leftarrow> need (d_enum (map (\<lambda>r. (reason_text r, r)) [NotNow, NoSources, UserDeclined])) (g ''reason'');
               n \<leftarrow> need d_nat (g ''expected_revision'');
               Some \<lparr>sk_section = s, sk_reason = r, sk_expected = n\<rparr> })"

definition recovered_skips :: "mutation_record \<Rightarrow> failure + skip_outcome list" where
  "recovered_skips m =
     (let stored = (case Option.bind (mu_response m) (\<lambda>r. lookup r ''_onboarding_skips'') of None \<Rightarrow> JArr [] | Some JNull \<Rightarrow> JArr [] | Some j \<Rightarrow> j)
      in case checked (\<lambda>ks. length ks \<le> 2) (d_list d_skip) stored of None \<Rightarrow> Inl plain_error | Some ks \<Rightarrow> Inr ks)"

definition set_recovered :: "onboarding_record \<Rightarrow> nat \<Rightarrow> unit journal_action" where
  "set_recovered r n w =
     (case compare_and_set_onboarding r n (w_store w) of (ok, s) \<Rightarrow> if ok then (Inr (), w\<lparr>w_store := s\<rparr>) else (Inl plain_error, w))"

fun recover_skips ::
  "mutation_record \<Rightarrow> household_id \<Rightarrow> (onboarding_section, onboarding_record) js_map \<Rightarrow> skip_outcome list \<Rightarrow> unit journal_action" where
  "recover_skips m h records [] = return ()"
| "recover_skips m h records (k # ks) =
     bind_action (check (next_onboarding_skip (lookup records (sk_section k)) (mu_user m) h k (mu_created m))) (\<lambda>next.
       case next of
         None \<Rightarrow> recover_skips m h records ks
       | Some r \<Rightarrow> bind_action (set_recovered r (sk_expected k)) (\<lambda>_. recover_skips m h (put (sk_section k) r records) ks))"

definition apply_recovered_onboarding_skips :: "mutation_record \<Rightarrow> household_id \<Rightarrow> unit journal_action" where
  "apply_recovered_onboarding_skips m h =
     (if mu_tool m \<noteq> ''hfj_commit_onboarding'' then return ()
      else bind_action (check (recovered_skips m)) (\<lambda>ks.
        bind_action (reads (\<lambda>w. fold (\<lambda>r. put (ob_section r) r) (list_onboarding_records (mu_user m) h (w_store w)) [])) (\<lambda>records.
        recover_skips m h records ks)))"

section \<open>Reconciling a household\<close>

definition move :: "reconciler \<Rightarrow> mutation_state \<Rightarrow> mutation_update \<Rightarrow> mutation_record \<Rightarrow> unit journal_action" where
  "move R st u m = transition (mu_request m) st u (rc_at R (mu_request m) st)"

definition recover_mutation :: "reconciler \<Rightarrow> household_id \<Rightarrow> (request_id, git_object_id option) js_map \<Rightarrow> mutation_record \<Rightarrow> unit journal_action" where
  "recover_mutation R h commits m =
     (case lookup commits (mu_request m) of
        Some (Some c) \<Rightarrow>
          bind_action (apply_recovered_onboarding_skips m h) (\<lambda>_.
          bind_action (move R GitCommitted (no_update\<lparr>up_commit := Some c\<rparr>) m) (\<lambda>_.
          move R ProjectionsApplied (no_update\<lparr>up_commit := Some c\<rparr>) m))
      | _ \<Rightarrow> return ())"

definition abandon_mutation :: "reconciler \<Rightarrow> (request_id, git_object_id option) js_map \<Rightarrow> mutation_record \<Rightarrow> unit journal_action" where
  "abandon_mutation R commits m =
     (if lookup commits (mu_request m) = Some None
      then move R FailedBeforeCommit (no_update\<lparr>up_failure := Some ''AbandonedBeforeCommit''\<rparr>) m else return ())"

definition bring_up_to_date :: "reconciler \<Rightarrow> household_id \<Rightarrow> mutation_record list \<Rightarrow> outcome journal_action" where
  "bring_up_to_date R h ms =
     bind_action (demand (repository_state R h ms)) (\<lambda>(head, commits, name, rb).
     bind_action (demand (projection_of h)) (\<lambda>current.
     bind_action (reads (\<lambda>w. needs_rebuild h head commits name rb current (w_store w))) (\<lambda>needed.
     bind_action (for_each (abandon_mutation R commits) ms) (\<lambda>_.
     if \<not> needed then return Unchanged
     else bind_action (store_try (replace_household_projection h name head (rb_projection rb) (rb_members rb))) (\<lambda>_.
       bind_action (for_each (recover_mutation R h commits) ms) (\<lambda>_.
       return Rebuilt))))))"

definition quarantine :: "reconciler \<Rightarrow> household_id \<Rightarrow> mutation_record list \<Rightarrow> failure \<Rightarrow> outcome journal_action" where
  "quarantine R h ms e =
     bind_action (store_try (quarantine_household h)) (\<lambda>_.
     bind_action (for_each (move R Quarantined (no_update\<lparr>up_failure := Some (error_name e)\<rparr>)) ms) (\<lambda>_.
     return QuarantinedNow))"

definition reconcile_household :: "reconciler \<Rightarrow> household_id \<Rightarrow> outcome journal_action" where
  "reconcile_household R h =
     bind_action (reads (\<lambda>w. list_mutations_for_reconciliation h (w_store w))) (\<lambda>ms.
     try_catch (bring_up_to_date R h ms) (quarantine R h ms))"

record reconciliation_result =
  rr_checked :: nat
  rr_rebuilt :: nat
  rr_quarantined :: nat

fun reconcile_each :: "reconciler \<Rightarrow> household_id list \<Rightarrow> reconciliation_result \<Rightarrow> reconciliation_result journal_action" where
  "reconcile_each R [] res = return res"
| "reconcile_each R (h # hs) res =
     bind_action (reconcile_household R h) (\<lambda>oc.
     reconcile_each R hs (case oc of Unchanged \<Rightarrow> res | Rebuilt \<Rightarrow> res\<lparr>rr_rebuilt := rr_rebuilt res + 1\<rparr>
       | QuarantinedNow \<Rightarrow> res\<lparr>rr_quarantined := rr_quarantined res + 1\<rparr>))"

definition run_reconciliation :: "reconciler \<Rightarrow> bool \<Rightarrow> reconciliation_result journal_action" where
  "run_reconciliation R ready =
     (if \<not> ready then return \<lparr>rr_checked = 0, rr_rebuilt = 0, rr_quarantined = 0\<rparr>
      else bind_action (reads (\<lambda>w. map h_id (list_households (w_store w)))) (\<lambda>hs.
        reconcile_each R hs \<lparr>rr_checked = length hs, rr_rebuilt = 0, rr_quarantined = 0\<rparr>))"

end
