(* ===== verification/ReconciliationSafety.thy ===== *)
theory ReconciliationSafety
  imports ReconciliationWorker
begin

text \<open>
  What a reconciliation guarantees: it always ends and leaves no mutation of the household open, and a household it does not quarantine
  agrees with its repository afterwards.
\<close>

section \<open>Open mutations\<close>

definition open_states :: "mutation_state set" where
  "open_states = {Received, Locked, GitCommitted, ReconciliationRequired}"

definition pending :: "household_id \<Rightarrow> op_store \<Rightarrow> request_id set" where
  "pending h s = mu_request ` set (list_mutations_for_reconciliation h s)"

definition request_log :: "op_store \<Rightarrow> request_id list" where
  "request_log s = map mu_request (vals (st_mutations s))"

lemma pending_iff:
  "x \<in> pending h s \<longleftrightarrow> (\<exists>r\<in>set (vals (st_mutations s)). mu_request r = x \<and> mu_household r = Some h \<and> mu_state r \<in> open_states)"
  by (auto simp: pending_def list_mutations_for_reconciliation_def open_states_def)

lemma adjust_first_unique:
  "distinct (map g (vals m)) \<Longrightarrow> vals (adjust_first (\<lambda>r. g r = x) f m) = map (\<lambda>r. if g r = x then f r else r) (vals m)"
proof (induction "\<lambda>r. g r = x" f m rule: adjust_first.induct)
  case (2 f k v m)
  have "map (\<lambda>r. if g r = x then f r else r) (vals m) = vals m" if "g v = x"
    using that 2(2) by (intro map_idI) force
  then show ?case using 2 by simp
qed simp

lemma transition_settles:
  assumes "distinct (request_log s)" "x \<in> set (request_log s)"
  obtains s' where "transition_mutation x st u now s = Inr s'" "request_log s' = request_log s"
    "pending h s' - {x} = pending h s - {x}" "st \<notin> open_states \<Longrightarrow> x \<notin> pending h s'"
    "s' = s\<lparr>st_mutations := st_mutations s'\<rparr>"
proof -
  let ?f = "apply_update st u now" and ?P = "\<lambda>r. mu_request r = x"
  let ?s = "s\<lparr>st_mutations := adjust_first ?P ?f (st_mutations s)\<rparr>"
  have vals: "vals (st_mutations ?s) = map (\<lambda>r. if ?P r then ?f r else r) (vals (st_mutations s))"
    using adjust_first_unique [of mu_request] assms(1) by (simp add: request_log_def)
  have f: "mu_request (?f r) = mu_request r" "mu_household (?f r) = mu_household r" "mu_state (?f r) = st" for r
    by (simp_all add: apply_update_def)
  have "transition_mutation x st u now s = Inr ?s"
    using assms(2) by (auto simp: transition_mutation_def request_log_def list_ex_iff)
  moreover have "request_log ?s = request_log s" using vals f by (simp add: request_log_def comp_def if_distrib cong: if_cong)
  moreover have "pending h ?s - {x} = pending h s - {x}"
    unfolding set_eq_iff Diff_iff pending_iff vals by (auto simp: f split: if_splits)
  moreover have "st \<notin> open_states \<Longrightarrow> x \<notin> pending h ?s"
    unfolding pending_iff vals by (auto simp: f split: if_splits)
  ultimately show thesis using that by simp
qed

text \<open>An action on the mutations of a household settles a request when it cannot fail, forgets no request and opens none but its own.\<close>

definition steady :: "household_id \<Rightarrow> request_id list \<Rightarrow> request_id set \<Rightarrow> world \<Rightarrow> bool" where
  "steady h reqs P w \<longleftrightarrow> request_log (w_store w) = reqs \<and> distinct reqs \<and> pending h (w_store w) \<subseteq> P"

lemma steady_subset: "steady h reqs P w \<Longrightarrow> P \<subseteq> Q \<Longrightarrow> steady h reqs Q w"
  by (auto simp: steady_def)

lemma move_settles:
  assumes "steady h reqs P w" "mu_request m \<in> set reqs"
  obtains w' where "move R st u m w = (Inr (), w')" "steady h reqs (insert (mu_request m) P) w'"
    "st \<notin> open_states \<Longrightarrow> steady h reqs (P - {mu_request m}) w'"
    "w_repos w' = w_repos w" "w_store w' = w_store w\<lparr>st_mutations := st_mutations (w_store w')\<rparr>"
proof -
  obtain s' where s': "transition_mutation (mu_request m) st u (rc_at R (mu_request m) st) (w_store w) = Inr s'"
      "request_log s' = request_log (w_store w)" "pending h s' - {mu_request m} = pending h (w_store w) - {mu_request m}"
      "st \<notin> open_states \<Longrightarrow> mu_request m \<notin> pending h s'" "s' = (w_store w)\<lparr>st_mutations := st_mutations s'\<rparr>"
    using transition_settles [of "w_store w" "mu_request m" st u "rc_at R (mu_request m) st" h thesis] assms
    by (auto simp: steady_def)
  show thesis
  proof (rule that [of "w\<lparr>w_store := s'\<rparr>"])
    show "move R st u m w = (Inr (), w\<lparr>w_store := s'\<rparr>)"
      using s'(1) by (simp add: move_def transition_def update_or_throw_def)
    show "steady h reqs (insert (mu_request m) P) (w\<lparr>w_store := s'\<rparr>)" using assms(1) s'(2,3) by (auto simp: steady_def)
    show "st \<notin> open_states \<Longrightarrow> steady h reqs (P - {mu_request m}) (w\<lparr>w_store := s'\<rparr>)"
      using assms(1) s'(2-4) by (auto simp: steady_def)
  qed (use s'(5) in simp_all)
qed
section \<open>Loops over the mutations\<close>

lemma for_each_settles:
  assumes step: "\<And>m P w r w'. m \<in> set ms \<Longrightarrow> f m w = (r, w') \<Longrightarrow> steady h reqs P w \<Longrightarrow> P \<subseteq> Q \<Longrightarrow>
      steady h reqs Q w' \<and> (r = Inr () \<longrightarrow> steady h reqs (P - D m) w')"
    and "for_each f ms w = (r, w')" "steady h reqs P w" "P \<subseteq> Q"
  shows "steady h reqs Q w' \<and> (r = Inr () \<longrightarrow> steady h reqs (P - \<Union> (D ` set ms)) w')"
  using assms
proof (induction ms arbitrary: w P)
  case Nil
  then show ?case by (auto simp: return_def intro: steady_subset)
next
  case (Cons m ms)
  obtain r1 w1 where f: "f m w = (r1, w1)" by (cases "f m w")
  have s1: "steady h reqs Q w1" "r1 = Inr () \<Longrightarrow> steady h reqs (P - D m) w1"
    using Cons.prems(1) [OF _ f Cons.prems(3,4)] by auto
  show ?case
  proof (cases r1)
    case (Inl e)
    then show ?thesis using Cons.prems(2) f s1 by (auto simp: bind_action_def)
  next
    case (Inr u)
    then have rest: "for_each f ms w1 = (r, w')" using Cons.prems(2) f by (simp add: bind_action_def)
    have "steady h reqs (P - D m) w1" "P - D m \<subseteq> Q" using s1(2) Inr Cons.prems(4) by auto
    from Cons.IH [OF Cons.prems(1) rest this] show ?thesis by (simp add: Diff_eq Int_assoc)
  qed
qed

text \<open>What the loops leave alone: the repositories, and every field of the store but the mutations and the onboarding records.\<close>

definition outside :: "world \<Rightarrow> repositories \<times> op_store" where
  "outside w = (w_repos w, w_store w\<lparr>st_mutations := [], st_onboarding := []\<rparr>)"

lemma move_outside [keeps_intros]: "keeps (\<lambda>w. outside w = x) (move R st u m)"
  by (auto simp: keeps_def move_def transition_def update_or_throw_def transition_mutation_def outside_def)

lemma set_recovered_keeps [keeps_intros]:
  "keeps (\<lambda>w. outside w = x) (set_recovered r n)" "keeps (\<lambda>w. st_mutations (w_store w) = y) (set_recovered r n)"
  by (auto simp: keeps_def set_recovered_def compare_and_set_onboarding_def Let_def outside_def split: prod.split)

lemma recover_skips_keeps:
  "keeps (\<lambda>w. outside w = x) (recover_skips m h rs ks)" "keeps (\<lambda>w. st_mutations (w_store w) = y) (recover_skips m h rs ks)"
  by (induction ks arbitrary: rs) (auto simp: check_def intro!: keeps_intros split: option.split)

lemma recovered_skips_keep [keeps_intros]:
  "keeps (\<lambda>w. outside w = x) (apply_recovered_onboarding_skips m h)"
  "keeps (\<lambda>w. st_mutations (w_store w) = y) (apply_recovered_onboarding_skips m h)"
  by (auto simp: apply_recovered_onboarding_skips_def check_def intro!: keeps_intros recover_skips_keeps)

lemma recover_mutation_outside [keeps_intros]: "keeps (\<lambda>w. outside w = x) (recover_mutation R h commits m)"
  by (auto simp: recover_mutation_def intro!: keeps_intros split: option.split)

lemma abandon_mutation_outside [keeps_intros]: "keeps (\<lambda>w. outside w = x) (abandon_mutation R commits m)"
  by (auto simp: abandon_mutation_def intro!: keeps_intros)

section \<open>Every mutation is settled\<close>

lemma steady_mutations: "st_mutations (w_store w') = st_mutations (w_store w) \<Longrightarrow> steady h reqs P w' = steady h reqs P w"
  by (simp add: steady_def request_log_def pending_def list_mutations_for_reconciliation_def)

lemma steady_outside:
  assumes "steady h reqs P w" "st_mutations (w_store w') = st_mutations (w_store w)"
  shows "steady h reqs P w'"
  using steady_mutations [OF assms(2)] assms(1) by blast

lemma abandon_settles:
  assumes "abandon_mutation R commits m w = (r, w')" "steady h reqs P w" "P \<subseteq> Q" "mu_request m \<in> Q" "Q \<subseteq> set reqs"
  shows "steady h reqs Q w' \<and> (r = Inr () \<longrightarrow> steady h reqs (P - (if lookup commits (mu_request m) = Some None then {mu_request m} else {})) w')"
proof (cases "lookup commits (mu_request m) = Some None")
  case True
  let ?u = "no_update\<lparr>up_failure := Some ''AbandonedBeforeCommit''\<rparr>"
  have "mu_request m \<in> set reqs" using assms(4,5) by blast
  then obtain w1 where "move R FailedBeforeCommit ?u m w = (Inr (), w1)" "steady h reqs (P - {mu_request m}) w1"
    using move_settles [OF assms(2), of m R FailedBeforeCommit ?u thesis] by (auto simp: open_states_def)
  moreover have "steady h reqs Q w1" using calculation(2) by (rule steady_subset) (use assms(3) in auto)
  ultimately show ?thesis using assms(1) True by (simp add: abandon_mutation_def)
qed (use assms in \<open>auto simp: abandon_mutation_def return_def elim!: steady_subset\<close>)

lemma recover_settles:
  assumes "recover_mutation R h commits m w = (r, w')" "steady h reqs P w" "P \<subseteq> Q" "mu_request m \<in> Q" "Q \<subseteq> set reqs"
  shows "steady h reqs Q w' \<and> (r = Inr () \<longrightarrow> steady h reqs (P - (if has_commit_in commits m then {mu_request m} else {})) w')"
proof (cases "has_commit_in commits m")
  case True
  then obtain c where c: "lookup commits (mu_request m) = Some (Some c)" by (auto simp: has_commit_in_def split: option.splits)
  have req: "mu_request m \<in> set reqs" using assms(4,5) by blast
  obtain r1 w1 where skips: "apply_recovered_onboarding_skips m h w = (r1, w1)" by (cases "apply_recovered_onboarding_skips m h w")
  have "st_mutations (w_store w1) = st_mutations (w_store w)"
    using keepsD [OF recovered_skips_keep(2), of w _ m h] skips by simp
  then have w1: "steady h reqs P w1" using assms(2) by (rule steady_outside [rotated])
  show ?thesis
  proof (cases r1)
    case (Inl e)
    then show ?thesis using assms(1,3) c skips w1 by (auto simp: recover_mutation_def bind_action_def elim!: steady_subset)
  next
    case (Inr u)
    obtain w2 where w2: "move R GitCommitted (no_update\<lparr>up_commit := Some c\<rparr>) m w1 = (Inr (), w2)" "steady h reqs (insert (mu_request m) P) w2"
      using move_settles [OF w1 req, of R GitCommitted "no_update\<lparr>up_commit := Some c\<rparr>" thesis] by blast
    obtain w3 where w3: "move R ProjectionsApplied (no_update\<lparr>up_commit := Some c\<rparr>) m w2 = (Inr (), w3)"
        "steady h reqs (insert (mu_request m) P - {mu_request m}) w3"
      using move_settles [OF w2(2) req, of R ProjectionsApplied "no_update\<lparr>up_commit := Some c\<rparr>" thesis] by (auto simp: open_states_def)
    have "r = Inr () \<and> w' = w3" using assms(1) c skips Inr w2(1) w3(1) by (simp add: recover_mutation_def bind_action_def)
    then show ?thesis using w3(2) True assms(3) by (auto elim!: steady_subset)
  qed
next
  case False
  then have "recover_mutation R h commits m = return ()"
    by (auto simp: recover_mutation_def has_commit_in_def split: option.splits)
  then show ?thesis using assms(1-3) False by (auto simp: return_def elim!: steady_subset)
qed

lemma commits_of_keeps:
  "fold_result (\<lambda>m cs. and_then (find_commit_by_request_id h (mu_request m) rs) (\<lambda>c. Inr (put (mu_request m) c cs))) ms cs0 = Inr cs \<Longrightarrow>
     lookup cs0 k \<noteq> None \<Longrightarrow> lookup cs k \<noteq> None"
  by (induction ms arbitrary: cs0) (auto simp: and_then_Inr_iff)

lemma commits_of_covers: "commits_of h ms rs = Inr cs \<Longrightarrow> m \<in> set ms \<Longrightarrow> lookup cs (mu_request m) \<noteq> None"
proof -
  have "lookup cs (mu_request m) \<noteq> None"
    if "fold_result (\<lambda>m cs. and_then (find_commit_by_request_id h (mu_request m) rs) (\<lambda>c. Inr (put (mu_request m) c cs))) ms cs0 = Inr cs" "m \<in> set ms"
    for cs0 using that
  proof (induction ms arbitrary: cs0)
    case (Cons m' ms)
    then obtain c where rest: "fold_result (\<lambda>m cs. and_then (find_commit_by_request_id h (mu_request m) rs) (\<lambda>c. Inr (put (mu_request m) c cs))) ms
        (put (mu_request m') c cs0) = Inr cs" by (auto simp: and_then_Inr_iff)
    show ?case
    proof (cases "m = m'")
      case True
      then show ?thesis using commits_of_keeps [OF rest, of "mu_request m'"] by simp
    qed (use Cons.IH [OF rest] Cons.prems(2) in simp)
  qed simp
  then show "commits_of h ms rs = Inr cs \<Longrightarrow> m \<in> set ms \<Longrightarrow> lookup cs (mu_request m) \<noteq> None"
    by (simp add: commits_of_def)
qed

lemma replacement_keeps_mutations:
  assumes "replace_household_projection h name head p ms s = Inr s'"
  shows "st_mutations s' = st_mutations s" "st_onboarding s' = st_onboarding s"
proof -
  have "st_mutations (fold (replace_membership h head) ms s) = st_mutations s" "st_onboarding (fold (replace_membership h head) ms s) = st_onboarding s" for s
    by (induction ms arbitrary: s) (simp_all add: replace_membership_def Let_def split: option.split)
  then show "st_mutations s' = st_mutations s" "st_onboarding s' = st_onboarding s"
    using assms by (auto simp: replace_household_projection_def split: option.splits)
qed

lemma repository_state_commits:
  assumes "repository_state R h ms w = Inr (head, commits, name, rb)"
  shows "commits_of h ms (w_repos w) = Inr commits"
  using assms by (auto simp: repository_state_def and_then_Inr_iff Let_def split: option.splits)

lemma up_to_date_settles:
  assumes "bring_up_to_date R h ms w = (r, w')" "steady h reqs (mu_request ` set ms) w" "mu_request ` set ms \<subseteq> set reqs"
  shows "steady h reqs (mu_request ` set ms) w' \<and> (\<forall>oc. r = Inr oc \<longrightarrow> oc \<noteq> QuarantinedNow \<and> steady h reqs {} w')"
proof (cases "repository_state R h ms w")
  case (Inl e)
  then show ?thesis using assms(1,2) by (auto simp: bring_up_to_date_def demand_def bind_action_def lift_result_def)
next
  let ?Q = "mu_request ` set ms"
  case (Inr x)
  obtain head commits name rb where "x = (head, commits, name, rb)" by (cases x)
  with Inr have st: "repository_state R h ms w = Inr (head, commits, name, rb)" by simp
  let ?N = "{x \<in> ?Q. lookup commits x = Some None}" and ?C = "mu_request ` {m \<in> set ms. has_commit_in commits m}"
  have covered: "lookup commits (mu_request m) \<noteq> None" if "m \<in> set ms" for m
    using commits_of_covers [OF repository_state_commits [OF st] that] .
  show ?thesis
  proof (cases "projection_of h w")
    case (Inl e)
    then show ?thesis using assms(1,2) st by (auto simp: bring_up_to_date_def demand_def bind_action_def lift_result_def)
  next
    case (Inr current)
    obtain r1 w1 where ab: "for_each (abandon_mutation R commits) ms w = (r1, w1)" by (cases "for_each (abandon_mutation R commits) ms w")
    have "steady h reqs ?Q w1 \<and> (r1 = Inr () \<longrightarrow>
        steady h reqs (?Q - \<Union> ((\<lambda>m. if lookup commits (mu_request m) = Some None then {mu_request m} else {}) ` set ms)) w1)"
      using ab assms(2) by (rule for_each_settles [rotated]) (use abandon_settles assms(3) in auto)
    moreover have "\<Union> ((\<lambda>m. if lookup commits (mu_request m) = Some None then {mu_request m} else {}) ` set ms) = ?N"
      by auto
    ultimately have w1: "steady h reqs ?Q w1" "r1 = Inr () \<Longrightarrow> steady h reqs (?Q - ?N) w1" by simp_all
    show ?thesis
    proof (cases r1)
      case (Inl e)
      then show ?thesis using assms(1) st Inr ab w1(1)
        by (auto simp: bring_up_to_date_def demand_def bind_action_def lift_result_def reads_def)
    next
      case r1: (Inr u)
      show ?thesis
      proof (cases "needs_rebuild h head commits name rb current (w_store w)")
        case False
        then have "\<forall>c\<in>set (vals commits). c = None" by (simp add: needs_rebuild_def Let_def list_ex_iff)
        then have "lookup commits k = Some c \<Longrightarrow> c = None" for k c using lookup_vals [of commits k c] by blast
        then have "?Q - ?N = {}" using covered by fastforce
        moreover have "steady h reqs (?Q - ?N) w1" using w1(2) r1 by simp
        ultimately have "steady h reqs {} w1" by (simp only:)
        then show ?thesis using assms(1) st Inr ab r1 w1(1) False
          by (auto simp: bring_up_to_date_def demand_def bind_action_def lift_result_def reads_def return_def)
      next
        case needed: True
        show ?thesis
        proof (cases "replace_household_projection h name head (rb_projection rb) (rb_members rb) (w_store w1)")
          case (Inl e)
          then show ?thesis using assms(1) st Inr ab r1 w1(1) needed
            by (auto simp: bring_up_to_date_def demand_def bind_action_def lift_result_def reads_def store_try_def update_or_throw_def)
        next
          case replaced: (Inr s')
          let ?w2 = "w1\<lparr>w_store := s'\<rparr>"
          have w2: "steady h reqs (?Q - ?N) ?w2"
            using w1(2) [OF r1 [simplified]] by (rule steady_outside) (use replacement_keeps_mutations(1) [OF replaced] in simp)
          obtain r2 w3 where rec: "for_each (recover_mutation R h commits) ms ?w2 = (r2, w3)" by (cases "for_each (recover_mutation R h commits) ms ?w2")
          have w3: "steady h reqs ?Q w3 \<and> (r2 = Inr () \<longrightarrow>
              steady h reqs (?Q - ?N - \<Union> ((\<lambda>m. if has_commit_in commits m then {mu_request m} else {}) ` set ms)) w3)"
            using rec w2 by (rule for_each_settles [rotated]) (use recover_settles assms(3) in auto)
          have none: "?Q - ?N - \<Union> ((\<lambda>m. if has_commit_in commits m then {mu_request m} else {}) ` set ms) = {}"
            using covered by (auto simp: has_commit_in_def split: option.splits)
          have "steady h reqs ?Q w3" "r2 = Inr () \<Longrightarrow> steady h reqs {} w3" using w3 unfolding none by blast+
          then show ?thesis using assms(1) st Inr ab r1 needed replaced rec
            by (cases r2) (auto simp: bring_up_to_date_def demand_def bind_action_def lift_result_def reads_def store_try_def update_or_throw_def return_def)
        qed
      qed
    qed
  qed
qed

lemma close_settles:
  assumes "move R st u m w = (r, w')" "steady h reqs P w" "P \<subseteq> Q" "mu_request m \<in> set reqs" "st \<notin> open_states"
  shows "steady h reqs Q w' \<and> (r = Inr () \<longrightarrow> steady h reqs (P - {mu_request m}) w')"
proof -
  obtain w1 where w1: "move R st u m w = (Inr (), w1)" "steady h reqs (P - {mu_request m}) w1"
    using move_settles [OF assms(2,4), of R st u thesis] assms(5) by auto
  moreover from w1(2) have "steady h reqs Q w1" by (rule steady_subset) (use assms(3) in auto)
  ultimately show ?thesis using assms(1) by simp
qed

lemma quarantine_settles:
  assumes "steady h reqs (mu_request ` set ms) w" "mu_request ` set ms \<subseteq> set reqs" "get_household h (w_store w) \<noteq> None"
  shows "\<exists>w'. quarantine R h ms e w = (Inr QuarantinedNow, w') \<and> steady h reqs {} w' \<and>
    map_option h_provisioning (get_household h (w_store w')) = Some QuarantinedHousehold"
proof -
  let ?f = "move R Quarantined (no_update\<lparr>up_failure := Some (error_name e)\<rparr>)" and ?Q = "mu_request ` set ms"
  let ?marked = "\<lambda>w. map_option h_provisioning (get_household h (w_store w)) = Some QuarantinedHousehold"
  obtain s where s: "quarantine_household h (w_store w) = Inr s" "st_mutations s = st_mutations (w_store w)"
      "map_option h_provisioning (get_household h s) = Some QuarantinedHousehold"
    using assms(3) by (auto simp: quarantine_household_def update_household_def get_household_def lookup_adjust split: option.splits)
  let ?w1 = "w\<lparr>w_store := s\<rparr>"
  have w1: "steady h reqs ?Q ?w1" using assms(1) by (rule steady_outside) (use s(2) in simp)
  have step: "\<exists>w'. ?f m v = (Inr (), w') \<and> steady h reqs ?Q w' \<and> ?marked w'" if "m \<in> set ms" "steady h reqs ?Q v \<and> ?marked v" for m v
  proof -
    have "mu_request m \<in> set reqs" "insert (mu_request m) ?Q = ?Q" using that(1) assms(2) by auto
    with that(2) obtain w' where w': "?f m v = (Inr (), w')" "steady h reqs ?Q w'" "w_store w' = w_store v\<lparr>st_mutations := st_mutations (w_store w')\<rparr>"
      using move_settles [of h reqs ?Q v m R Quarantined "no_update\<lparr>up_failure := Some (error_name e)\<rparr>" thesis] by auto
    then have "get_household h (w_store w') = get_household h (w_store v)" by (simp add: get_household_def) (metis op_store.select_convs(1) op_store.surjective op_store.update_convs(7))
    with w' that(2) show ?thesis by auto
  qed
  then obtain w2 where w2: "for_each ?f ms ?w1 = (Inr (), w2)" "?marked w2"
    using for_each_succeeds [of ms "\<lambda>v. steady h reqs ?Q v \<and> ?marked v" ?f ?w1] w1 s(3) by auto
  have "steady h reqs ?Q w2 \<and> (Inr () = (Inr () :: failure + unit) \<longrightarrow> steady h reqs (?Q - \<Union> ((\<lambda>m. {mu_request m}) ` set ms)) w2)"
    using w2(1) w1 order.refl
  proof (rule for_each_settles [rotated])
    fix m P v r v'
    assume "m \<in> set ms" "?f m v = (r, v')" "steady h reqs P v" "P \<subseteq> ?Q"
    then show "steady h reqs ?Q v' \<and> (r = Inr () \<longrightarrow> steady h reqs (P - {mu_request m}) v')"
      using close_settles [of R Quarantined _ m v r v' h reqs P ?Q] assms(2) by (auto simp: open_states_def)
  qed
  moreover have none: "?Q - \<Union> ((\<lambda>m. {mu_request m}) ` set ms) = {}" by auto
  ultimately have "steady h reqs {} w2" unfolding none by blast
  moreover have "quarantine R h ms e w = (Inr QuarantinedNow, w2)"
    using s(1) w2(1) by (simp add: quarantine_def store_try_def update_or_throw_def bind_action_def return_def)
  ultimately show ?thesis using w2(2) by blast
qed


definition there :: "household_id \<Rightarrow> repositories \<Rightarrow> world \<Rightarrow> bool" where
  "there h rs w \<longleftrightarrow> get_household h (w_store w) \<noteq> None \<and> w_repos w = rs"

lemma keeps_there: "(\<And>x. keeps (\<lambda>w. outside w = x) m) \<Longrightarrow> keeps (there h rs) m"
proof -
  have there: "there h rs w \<longleftrightarrow> get_household h (snd (outside w)) \<noteq> None \<and> fst (outside w) = rs" for w
    by (simp add: there_def outside_def get_household_def)
  assume "\<And>x. keeps (\<lambda>w. outside w = x) m"
  then have "outside (snd (m w)) = outside w" for w by (simp add: keeps_def)
  then show ?thesis by (simp add: keeps_def there)
qed

lemma replacement_keeps_there: "keeps (there h rs) (store_try (replace_household_projection h name head p ms))"
proof -
  have "st_households (fold (replace_membership h head) ms s) = st_households s" for s
    by (induction ms arbitrary: s) (simp_all add: replace_membership_def Let_def split: option.split)
  then show ?thesis
    by (auto simp: keeps_def store_try_def update_or_throw_def replace_household_projection_def there_def get_household_def lookup_adjust
        split: option.splits)
qed

lemma up_to_date_keeps_there: "keeps (there h rs) (bring_up_to_date R h ms)"
proof -
  have loops: "keeps (there h rs) (for_each (abandon_mutation R commits) ms)" "keeps (there h rs) (for_each (recover_mutation R h commits) ms)" for commits
    by (rule keeps_there, intro keeps_intros)+
  show ?thesis
    unfolding bring_up_to_date_def demand_def
    by (intro keeps_intros loops replacement_keeps_there) (auto intro!: keeps_intros loops replacement_keeps_there)
qed

text \<open>C24: Reconciling a household always comes to an end state. Whatever the repository holds, the call does not throw, no mutation of the
  household is left open, and when the household is quarantined it is marked so.\<close>
theorem reconciliation_settles_every_mutation:
  assumes "mutations_ok (w_store w)" "get_household h (w_store w) \<noteq> None"
  shows "\<exists>oc w'. reconcile_household R h w = (Inr oc, w') \<and> list_mutations_for_reconciliation h (w_store w') = [] \<and>
    (oc = QuarantinedNow \<longrightarrow> map_option h_provisioning (get_household h (w_store w')) = Some QuarantinedHousehold)"
proof -
  let ?ms = "list_mutations_for_reconciliation h (w_store w)" and ?reqs = "request_log (w_store w)"
  have start: "steady h ?reqs (mu_request ` set ?ms) w" "mu_request ` set ?ms \<subseteq> set ?reqs"
    using assms(1) by (auto simp: steady_def mutations_ok_def request_log_def pending_def list_mutations_for_reconciliation_def)
  have empty: "list_mutations_for_reconciliation h (w_store v) = []" if "steady h ?reqs {} v" for v
    using that by (simp add: steady_def pending_def)
  obtain r w1 where up: "bring_up_to_date R h ?ms w = (r, w1)" by (cases "bring_up_to_date R h ?ms w")
  note s = up_to_date_settles [OF up start]
  show ?thesis
  proof (cases r)
    case (Inr oc)
    then show ?thesis using s up empty by (auto simp: reconcile_household_def bind_action_def reads_def try_catch_def)
  next
    case (Inl e)
    from s have "steady h ?reqs (mu_request ` set ?ms) w1" by blast
    moreover have there': "get_household h (w_store w1) \<noteq> None"
      using keepsD [OF up_to_date_keeps_there [of h "w_repos w" R ?ms], of w] assms(2) up by (simp add: there_def)
    ultimately have "steady h ?reqs (mu_request ` set ?ms) w1" by blast
    from quarantine_settles [OF this start(2) there', of R e]
    show ?thesis using up Inl empty by (auto simp: reconcile_household_def bind_action_def reads_def try_catch_def)
  qed
qed

section \<open>Members after a rebuild\<close>

definition members :: "op_store \<Rightarrow> membership set" where
  "members s = set (vals (st_memberships s))"

definition one_membership_per_actor :: "household_id \<Rightarrow> op_store \<Rightarrow> bool" where
  "one_membership_per_actor h s \<longleftrightarrow> memberships_ok s \<and>
     (\<forall>m\<in>members s. \<forall>m'\<in>members s.
        m_household m = h \<and> m_household m' = h \<and> m_actor m = m_actor m' \<longrightarrow> m = m')"

definition written_for :: "git_object_id \<Rightarrow> repository_membership_state \<Rightarrow> membership \<Rightarrow> bool" where
  "written_for head rm m \<longleftrightarrow> m_actor m = rm_actor rm \<and> m_head m = head \<and> m_removed m = rm_removed rm \<and>
     (\<forall>r. rm_role rm = Some r \<longrightarrow> m_role m = r)"

lemma vals_put: "map_ok m \<Longrightarrow> x \<in> set (vals (put k v m)) \<Longrightarrow> x = v \<or> (\<exists>k'. k' \<noteq> k \<and> (k', x) \<in> set m)"
  using map_ok_put [of m k v] by (auto simp: lookup_in_set [symmetric] split: if_splits)

lemma membership_replaced:
  assumes "one_membership_per_actor h s"
  shows "one_membership_per_actor h (replace_membership h head rm s) \<and>
    (\<forall>m\<in>members (replace_membership h head rm s). m_household m = h \<longrightarrow>
       written_for head rm m \<or> m \<in> members s \<and> m_actor m \<noteq> rm_actor rm)"
proof -
  let ?ms = "st_memberships s" and ?same = "\<lambda>m. m_household m = h \<and> m_actor m = rm_actor rm"
  define existing where "existing = List.find ?same (vals ?ms)"
  have ok: "map_ok ?ms" "\<And>k m. (k, m) \<in> set ?ms \<Longrightarrow> k = (m_household m, m_user m)"
    using assms by (auto simp: one_membership_per_actor_def memberships_ok_def)
  have unique: "m = m'" if "m \<in> members s" "m' \<in> members s" "m_household m = h" "m_household m' = h" "m_actor m = m_actor m'" for m m'
    using assms that unfolding one_membership_per_actor_def by blast
  have in_members: "m \<in> members s" if "(k, m) \<in> set ?ms" for k m using that by (force simp: members_def)
  have found: "existing = None \<longleftrightarrow> (\<forall>m\<in>members s. \<not> ?same m)" "existing = Some m \<Longrightarrow> m \<in> members s \<and> ?same m" for m
    using find_Some_iff [of ?same "vals ?ms" m] by (auto simp: existing_def find_None_iff members_def)
  have replaced: "replace_membership h head rm s =
     (case (case existing of Some m \<Rightarrow> Some (m_user m) | None \<Rightarrow> rm_user rm) of None \<Rightarrow> s
      | Some u \<Rightarrow> s\<lparr>st_memberships := put (h, u) \<lparr>m_household = h, m_user = u, m_actor = rm_actor rm,
          m_role = (case rm_role rm of Some r \<Rightarrow> r | None \<Rightarrow> (case existing of Some m \<Rightarrow> m_role m | None \<Rightarrow> Viewer)), m_head = head,
          m_removed = rm_removed rm\<rparr> ?ms\<rparr>)"
    unfolding replace_membership_def Let_def existing_def by (rule refl)
  show ?thesis
  proof (cases "case existing of Some m \<Rightarrow> Some (m_user m) | None \<Rightarrow> rm_user rm")
    case None
    then have "existing = None" by (cases existing) auto
    then show ?thesis using assms found(1) replaced None by simp
  next
    case (Some u)
    define new where "new = \<lparr>m_household = h, m_user = u, m_actor = rm_actor rm,
      m_role = (case rm_role rm of Some r \<Rightarrow> r | None \<Rightarrow> (case existing of Some m \<Rightarrow> m_role m | None \<Rightarrow> Viewer)), m_head = head,
      m_removed = rm_removed rm\<rparr>"
    have s': "replace_membership h head rm s = s\<lparr>st_memberships := put (h, u) new ?ms\<rparr>"
      using Some replaced by (simp add: new_def)
    have new: "written_for head rm new" "m_household new = h" "m_user new = u" "m_actor new = rm_actor rm"
      by (simp_all add: new_def written_for_def)
    have other: "\<not> ?same m" if "k' \<noteq> (h, u)" "(k', m) \<in> set ?ms" for k' m
    proof
      assume same: "?same m"
      have m: "m \<in> members s" "k' = (m_household m, m_user m)" using that(2) ok(2) in_members by auto
      then have "existing \<noteq> None" using found(1) same by blast
      then obtain m0 where m0: "existing = Some m0" by blast
      from found(2) [OF this] same have "m = m0" by (intro unique) (simp_all add: m(1))
      with m0 Some have "m_user m = u" by simp
      then show False using m(2) same that(1) by simp
    qed
    have old: "m = new \<or> m \<in> members s \<and> \<not> ?same m" if "m \<in> members (replace_membership h head rm s)" for m
    proof -
      have "m \<in> set (vals (put (h, u) new ?ms))" using that unfolding s' members_def by simp
      from vals_put [OF ok(1) this] show ?thesis using other in_members by blast
    qed
    have "memberships_ok (replace_membership h head rm s)"
      unfolding s' memberships_ok_def using ok set_put_subset [of "(h, u)" new ?ms] new by auto
    moreover have "m = m'" if "m \<in> members (replace_membership h head rm s)" "m' \<in> members (replace_membership h head rm s)"
        "m_household m = h" "m_household m' = h" "m_actor m = m_actor m'" for m m'
      using old [OF that(1)] old [OF that(2)] unique [of m m'] that(3-5) new(4) by auto
    ultimately have "one_membership_per_actor h (replace_membership h head rm s)"
      unfolding one_membership_per_actor_def by blast
    then show ?thesis using old new(1) by blast
  qed
qed

lemma memberships_replaced:
  assumes "one_membership_per_actor h s"
  shows "one_membership_per_actor h (fold (replace_membership h head) rms s) \<and>
    (\<forall>m\<in>members (fold (replace_membership h head) rms s). m_household m = h \<longrightarrow>
       (\<exists>rm\<in>set rms. written_for head rm m) \<or> m \<in> members s \<and> m_actor m \<notin> rm_actor ` set rms)"
proof (induction rms rule: rev_induct)
  case (snoc rm rms)
  let ?s1 = "fold (replace_membership h head) rms s"
  have "one_membership_per_actor h ?s1" using snoc.IH by blast
  note step = membership_replaced [OF this, of head rm]
  show ?case
  proof (intro conjI ballI impI)
    fix m assume m: "m \<in> members (fold (replace_membership h head) (rms @ [rm]) s)" "m_household m = h"
    then have "written_for head rm m \<or> m \<in> members ?s1 \<and> m_actor m \<noteq> rm_actor rm" using step by simp
    then show "(\<exists>rm\<in>set (rms @ [rm]). written_for head rm m) \<or>
        m \<in> members s \<and> m_actor m \<notin> rm_actor ` set (rms @ [rm])"
      using snoc.IH m(2) by auto
  qed (use step in simp)
qed (use assms in simp)

lemma loops_outside:
  "for_each (abandon_mutation R commits) ms w = (r, w') \<Longrightarrow> outside w' = outside w"
  "for_each (recover_mutation R h commits) ms w = (r, w') \<Longrightarrow> outside w' = outside w"
  using keepsD [of "\<lambda>v. outside v = outside w" _ w] keeps_for_each abandon_mutation_outside recover_mutation_outside
  by (metis snd_conv)+

section \<open>Agreement with the repository\<close>

lemma project_file_cases:
  assumes "project_file H moment users f st = Inr st'"
  shows "read_household f st = Inr st' \<or> read_evidence H f st = Inr st' \<or> read_item H f st = Inr st' \<or>
      read_report H f st = Inr st' \<or> read_planning H f st = Inr st' \<or> read_delivery_profile H f st = Inr st' \<or> (\<exists>n. keep_profile n f st = Inr st') \<or>
      read_proposal H f st = Inr st' \<or> read_event H f st = Inr st' \<or> read_snapshot H f st = Inr st' \<or> (\<exists>c. read_collection c f st = Inr st') \<or>
      (\<exists>a. read_member H moment users a f st = Inr st') \<or> st' = st"
  using assms unfolding project_file_def Let_def
  by (simp split: if_split_asm option.split_asm; blast)

lemma keep_profile_members: "keep_profile n f st = Inr st' \<Longrightarrow> rd_members st' = rd_members st"
  by (auto simp: keep_profile_def)

lemma read_household_members: "read_household f st = Inr st' \<Longrightarrow> rd_members st' = rd_members st"
  by (auto simp: read_household_def and_then_Inr_iff Let_def keep_profile_members split: if_splits)

lemma read_evidence_members: "read_evidence H f st = Inr st' \<Longrightarrow> rd_members st' = rd_members st"
  by (auto simp: read_evidence_def and_then_Inr_iff Let_def keep_profile_members split: if_splits)

lemma read_item_members: "read_item H f st = Inr st' \<Longrightarrow> rd_members st' = rd_members st"
  by (auto simp: read_item_def and_then_Inr_iff Let_def keep_profile_members split: if_splits)

lemma read_report_members: "read_report H f st = Inr st' \<Longrightarrow> rd_members st' = rd_members st"
  by (auto simp: read_report_def and_then_Inr_iff Let_def keep_profile_members split: if_splits)

lemma read_planning_members: "read_planning H f st = Inr st' \<Longrightarrow> rd_members st' = rd_members st"
  by (auto simp: read_planning_def and_then_Inr_iff Let_def keep_profile_members split: if_splits)

lemma read_delivery_profile_members: "read_delivery_profile H f st = Inr st' \<Longrightarrow> rd_members st' = rd_members st"
  by (auto simp: read_delivery_profile_def and_then_Inr_iff Let_def keep_profile_members split: if_splits)

lemma read_proposal_members: "read_proposal H f st = Inr st' \<Longrightarrow> rd_members st' = rd_members st"
  by (auto simp: read_proposal_def and_then_Inr_iff Let_def keep_profile_members split: if_splits)

lemma read_event_members: "read_event H f st = Inr st' \<Longrightarrow> rd_members st' = rd_members st"
  by (auto simp: read_event_def and_then_Inr_iff Let_def keep_profile_members split: if_splits)

lemma read_snapshot_members: "read_snapshot H f st = Inr st' \<Longrightarrow> rd_members st' = rd_members st"
  by (auto simp: read_snapshot_def and_then_Inr_iff Let_def keep_profile_members split: if_splits)

lemma read_collection_members: "read_collection c f st = Inr st' \<Longrightarrow> rd_members st' = rd_members st"
  by (auto simp: read_collection_def and_then_Inr_iff Let_def keep_profile_members split: if_splits)

lemmas members_kept = read_household_members read_evidence_members read_item_members read_report_members read_planning_members
  read_delivery_profile_members keep_profile_members read_proposal_members read_event_members read_snapshot_members read_collection_members

definition roles_or_former :: "reading \<Rightarrow> bool" where
  "roles_or_former st \<longleftrightarrow> (\<forall>rm\<in>set (rd_members st). rm_role rm = None \<longleftrightarrow> rm_removed rm \<noteq> None)"

lemma read_member_fits: "roles_or_former st \<Longrightarrow> read_member H moment users a f st = Inr st' \<Longrightarrow> roles_or_former st'"
  by (cases "read_front (d_member H) (fs_content f)"; cases "md_former (projr (read_front (d_member H) (fs_content f)))";
      cases "md_removed (projr (read_front (d_member H) (fs_content f)))"; cases "md_role (projr (read_front (d_member H) (fs_content f)))")
    (auto simp: roles_or_former_def read_member_def and_then_Inr_iff)

lemma project_file_fits:
  assumes "roles_or_former st" "project_file H moment users f st = Inr st'"
  shows "roles_or_former st'"
  using project_file_cases [OF assms(2)]
proof (elim disjE exE)
  fix a assume "read_member H moment users a f st = Inr st'"
  with assms(1) show ?thesis by (rule read_member_fits)
qed (use assms(1) in \<open>simp_all add: roles_or_former_def members_kept\<close>)

lemma members_are_roles_or_former:
  assumes "rebuild_repository_state C H moment requests files = Inr rb" "rm \<in> set (rb_members rb)"
  shows "rm_role rm = None \<longleftrightarrow> rm_removed rm \<noteq> None"
proof -
  from assms(1) obtain users st where st: "fold_result (project_file H moment users) files empty_reading = Inr st" and rb: "rb_members rb = rd_members st"
    by (auto simp: rebuild_repository_state_def and_then_Inr_iff)
  have "roles_or_former empty_reading" by (simp add: roles_or_former_def empty_reading_def)
  then have "roles_or_former st" using st by (rule fold_result_invariant [rotated]) (rule project_file_fits)
  then show ?thesis using assms(2) rb by (simp add: roles_or_former_def)
qed

lemma maps_equal_refl: "map_ok m \<Longrightarrow> maps_equal m m"
  by (auto simp: maps_equal_def list_all_iff lookup_in_set)

lemma projections_equal_refl: "well_formed_journal H pr \<Longrightarrow> projections_equal pr pr"
  by (simp add: projections_equal_def maps_equal_refl well_formed_journal_def typed_map_def)

lemma by_actor_lookup:
  assumes "m \<in> set ms" "\<And>m m'. m \<in> set ms \<Longrightarrow> m' \<in> set ms \<Longrightarrow> m_actor m = m_actor m' \<Longrightarrow> m = m'"
  shows "lookup (active_by_actor ms) (m_actor m) = Some m"
proof -
  have sound: "lookup (fold (\<lambda>m. put (m_actor m) m) xs s) a = Some m' \<Longrightarrow> m' \<in> set xs \<and> m_actor m' = a \<or> lookup s a = Some m'"
    for xs s a and m' :: membership
    by (induction xs arbitrary: s) (fastforce split: if_splits)+
  have total: "lookup (fold (\<lambda>m. put (m_actor m) m) xs s) a \<noteq> None" if "a \<in> m_actor ` set xs \<or> lookup s a \<noteq> None"
    for xs :: "membership list" and s a
    using that by (induction xs arbitrary: s) auto
  obtain m' where m': "lookup (active_by_actor ms) (m_actor m) = Some m'"
    using total [of "m_actor m" ms "[]"] assms(1) by (auto simp: active_by_actor_def)
  then have "m' = m" using sound [of ms "[]" "m_actor m" m'] assms by (auto simp: active_by_actor_def)
  with m' show ?thesis by simp
qed


lemma outside_reads:
  assumes "outside w' = outside w"
  shows "w_repos w' = w_repos w" "get_household h (w_store w') = get_household h (w_store w)"
    "list_household_memberships h (w_store w') = list_household_memberships h (w_store w)"
    "projection_of h w' = projection_of h w" "one_membership_per_actor h (w_store w') = one_membership_per_actor h (w_store w)"
proof -
  have reads: "w_repos w = fst (outside w)" "get_household h (w_store w) = get_household h (snd (outside w))"
    "list_household_memberships h (w_store w) = list_household_memberships h (snd (outside w))"
    "projection_of h w = get_projection h (snd (outside w))"
    "one_membership_per_actor h (w_store w) = one_membership_per_actor h (snd (outside w))" for w
    by (simp_all add: outside_def get_household_def list_household_memberships_def projection_of_def get_projection_def
      one_membership_per_actor_def memberships_ok_def members_def)
  show "w_repos w' = w_repos w" "get_household h (w_store w') = get_household h (w_store w)"
    "list_household_memberships h (w_store w') = list_household_memberships h (w_store w)"
    "projection_of h w' = projection_of h w" "one_membership_per_actor h (w_store w') = one_membership_per_actor h (w_store w)"
    unfolding reads [of w'] reads [of w] assms by (rule refl)+
qed

definition member_agrees :: "git_object_id \<Rightarrow> rebuilt \<Rightarrow> outcome \<Rightarrow> membership \<Rightarrow> bool" where
  "member_agrees head rb oc m \<longleftrightarrow> m_head m = head \<and>
     (\<exists>rm\<in>set (rb_members rb). rm_actor rm = m_actor m \<and> (rm_role rm = Some (m_role m) \<or> oc = Unchanged \<and> rm_role rm = None))"

definition agrees_with :: "household_id \<Rightarrow> git_object_id \<Rightarrow> rebuilt \<Rightarrow> outcome \<Rightarrow> world \<Rightarrow> bool" where
  "agrees_with h head rb oc w \<longleftrightarrow>
     (\<exists>hr pr. get_household h (w_store w) = Some hr \<and> h_head hr = head \<and> rb_name rb = Some (h_name hr) \<and>
        projection_of h w = Inr pr \<and> projections_equal pr (rb_projection rb) \<and>
        (\<forall>m\<in>set (list_household_memberships h (w_store w)). member_agrees head rb oc m))"

lemma agrees_outside: "outside w' = outside w \<Longrightarrow> agrees_with h head rb oc w' = agrees_with h head rb oc w"
  unfolding agrees_with_def using outside_reads(2-4) [of w' w h] by simp

lemma active_member: "m \<in> set (list_household_memberships h s) \<longleftrightarrow> m \<in> members s \<and> m_household m = h \<and> m_removed m = None"
  by (auto simp: list_household_memberships_def members_def)

lemma unchanged_agrees:
  assumes "one_membership_per_actor h (w_store w)" "projection_of h w = Inr current" "rb_name rb = Some name"
    and "\<not> needs_rebuild h head commits name rb current (w_store w)"
    and "list_all (\<lambda>m. m_actor m \<in> set (map rm_actor (rb_members rb))) (list_household_memberships h (w_store w))"
  shows "agrees_with h head rb Unchanged w"
proof -
  let ?active = "list_household_memberships h (w_store w)"
  have st: "\<exists>hr. get_household h (w_store w) = Some hr \<and> h_head hr = head \<and> h_name hr = name" "\<forall>m\<in>set ?active. m_head m = head"
    "\<forall>rm\<in>set (rb_members rb). rm_role rm \<noteq> None \<longrightarrow> map_option m_role (lookup (active_by_actor ?active) (rm_actor rm)) = rm_role rm"
    "projections_equal current (rb_projection rb)"
    using assms(4) by (auto simp: needs_rebuild_def Let_def list_ex_iff)
  have "member_agrees head rb Unchanged m" if m: "m \<in> set ?active" for m
  proof -
    obtain rm where rm: "rm \<in> set (rb_members rb)" "rm_actor rm = m_actor m" using assms(5) m by (auto simp: list_all_iff)
    have "lookup (active_by_actor ?active) (m_actor m) = Some m"
      using m assms(1) by (intro by_actor_lookup) (auto simp: active_member one_membership_per_actor_def)
    then show ?thesis using st(2,3) rm m by (cases "rm_role rm") (force simp: member_agrees_def)+
  qed
  then show ?thesis using st(1,4) assms(2,3) by (auto simp: agrees_with_def)
qed

lemma rebuilt_agrees:
  assumes "one_membership_per_actor h s" "rebuild_repository_state C H moment users files = Inr rb" "rb_name rb = Some name"
    and "list_all (\<lambda>m. m_actor m \<in> set (map rm_actor (rb_members rb))) (list_household_memberships h s)"
    and "replace_household_projection h name head (rb_projection rb) (rb_members rb) s = Inr s'"
  shows "agrees_with h head rb Rebuilt (w\<lparr>w_store := s'\<rparr>)"
proof -
  let ?s = "s\<lparr>st_households := adjust h (\<lambda>r. r\<lparr>h_name := name, h_head := head, h_provisioning := Ready\<rparr>) (st_households s),
      st_projections := put h (rb_projection rb) (st_projections s)\<rparr>"
  have s': "s' = fold (replace_membership h head) (rb_members rb) ?s" "lookup (st_households s) h \<noteq> None"
    using assms(5) by (auto simp: replace_household_projection_def split: option.splits)
  have "st_households (fold (replace_membership h head) ms s) = st_households s" "st_projections (fold (replace_membership h head) ms s) = st_projections s"
    for ms s by (induction ms arbitrary: s) (simp_all add: replace_membership_def Let_def split: option.split)
  then have fields: "\<exists>hr. get_household h s' = Some hr \<and> h_head hr = head \<and> h_name hr = name" "get_projection h s' = Inr (rb_projection rb)"
    using s' by (auto simp: get_household_def get_projection_def lookup_adjust)
  have "one_membership_per_actor h ?s" "members ?s = members s"
    using assms(1) by (simp_all add: one_membership_per_actor_def memberships_ok_def members_def)
  note ms = memberships_replaced [OF this(1), of head "rb_members rb", folded s'(1), unfolded this(2)]
  have "member_agrees head rb Rebuilt m" if m: "m \<in> set (list_household_memberships h s')" for m
  proof -
    have active: "m \<in> members s'" "m_household m = h" "m_removed m = None" using m by (simp_all add: active_member)
    then have "(\<exists>rm\<in>set (rb_members rb). written_for head rm m) \<or> m \<in> members s \<and> m_actor m \<notin> rm_actor ` set (rb_members rb)" using ms by blast
    then obtain rm where rm: "rm \<in> set (rb_members rb)" "written_for head rm m"
      using assms(4) active(2,3) by (auto simp: list_all_iff active_member)
    then have "rm_role rm \<noteq> None" using members_are_roles_or_former [OF assms(2) rm(1)] active(3) by (auto simp: written_for_def)
    then show ?thesis using rm by (auto simp: member_agrees_def written_for_def)
  qed
  then show ?thesis
    using fields assms(3) projections_equal_refl [OF rebuild_well_formed [OF assms(2)]] by (auto simp: agrees_with_def projection_of_def)
qed

lemma quarantine_outcome: "quarantine R h ms e w = (Inr oc, w') \<Longrightarrow> oc = QuarantinedNow"
  unfolding quarantine_def by (elim bind_action_InrE) (simp add: return_def)


text \<open>C25: A household that is not quarantined agrees with its repository when its reconciliation ends: name and head are those of Git main,
  the projection equals the one the repository rebuilds to, and every active member is at that head and recorded in the repository with
  the same role. After a rebuild this holds of every member; only a household left unchanged may keep a member the repository lists as former.\<close>
theorem reconciled_household_agrees:
  assumes "one_membership_per_actor h (w_store w)" "reconcile_household R h w = (Inr oc, w')" "oc \<noteq> QuarantinedNow"
  shows "w_repos w' = w_repos w \<and> (\<exists>head files rb. snapshot h (w_repos w) = Inr (head, files) \<and>
    rebuild_repository_state (rc_codec R) (rc_host R) (rc_moment R) (mutation_users (list_mutations_for_reconciliation h (w_store w))) files = Inr rb \<and>
    agrees_with h head rb oc w')"
proof -
  let ?ms = "list_mutations_for_reconciliation h (w_store w)"
  have "bring_up_to_date R h ?ms w = (Inr oc, w')"
    using assms(2,3) quarantine_outcome
    by (auto simp: reconcile_household_def bind_action_def reads_def try_catch_def split: prod.splits sum.splits)
  then obtain head commits name rb current r1 w1 where st: "repository_state R h ?ms w = Inr (head, commits, name, rb)"
      "projection_of h w = Inr current" "for_each (abandon_mutation R commits) ?ms w = (Inr r1, w1)"
    and rest: "(if \<not> needs_rebuild h head commits name rb current (w_store w) then return Unchanged
      else bind_action (store_try (replace_household_projection h name head (rb_projection rb) (rb_members rb))) (\<lambda>_.
        bind_action (for_each (recover_mutation R h commits) ?ms) (\<lambda>_. return Rebuilt))) w1 = (Inr oc, w')"
    unfolding bring_up_to_date_def demand_def reads_def lift_result_def
    by (elim bind_action_InrE) (auto split: prod.splits elim!: bind_action_InrE)
  from st(1) obtain files where rb: "snapshot h (w_repos w) = Inr (head, files)"
      "rebuild_repository_state (rc_codec R) (rc_host R) (rc_moment R) (mutation_users ?ms) files = Inr rb" "rb_name rb = Some name"
      "list_all (\<lambda>m. m_actor m \<in> set (map rm_actor (rb_members rb))) (list_household_memberships h (w_store w))"
    by (auto simp: repository_state_def and_then_Inr_iff Let_def split: option.splits)
  have w1: "outside w1 = outside w"
    by (rule loops_outside(1) [OF st(3)])
  have "w_repos w' = w_repos w \<and> agrees_with h head rb oc w'"
  proof (cases "needs_rebuild h head commits name rb current (w_store w)")
    case False
    then have "oc = Unchanged" "w' = w1" using rest by (simp_all add: return_def)
    then show ?thesis using unchanged_agrees [OF assms(1) st(2) rb(3) False rb(4)] w1 outside_reads(1) agrees_outside by metis
  next
    case True
    then obtain s' w3 where s': "replace_household_projection h name head (rb_projection rb) (rb_members rb) (w_store w1) = Inr s'"
        "for_each (recover_mutation R h commits) ?ms (w1\<lparr>w_store := s'\<rparr>) = (Inr (), w3)" "oc = Rebuilt" "w' = w3"
      using rest by (auto simp: bind_action_def store_try_def update_or_throw_def return_def and_then_def split: sum.splits prod.splits)
    have "one_membership_per_actor h (w_store w1)" using assms(1) outside_reads(5) [OF w1] by simp
    from rebuilt_agrees [OF this rb(2,3) _ s'(1)] rb(4) have "agrees_with h head rb Rebuilt (w1\<lparr>w_store := s'\<rparr>)"
      using outside_reads(3) [OF w1] by simp
    moreover have w3: "outside w3 = outside (w1\<lparr>w_store := s'\<rparr>)"
      by (rule loops_outside(2) [OF s'(2)])
    ultimately show ?thesis
      using agrees_outside [OF w3] outside_reads(1) [OF w3] outside_reads(1) [OF w1] s'(3,4) by simp
  qed
  then show ?thesis using rb(1,2) by blast
qed


section \<open>A household left alone\<close>

lemma agreeing_household_left_alone:
  assumes "list_mutations_for_reconciliation h (w_store w) = []" "snapshot h (w_repos w) = Inr (head, files)"
    and "rebuild_repository_state (rc_codec R) (rc_host R) (rc_moment R) [] files = Inr rb" "agrees_with h head rb Unchanged w"
    and "one_membership_per_actor h (w_store w)"
    and "\<forall>rm\<in>set (rb_members rb). rm_role rm \<noteq> None \<longrightarrow>
      (\<exists>m\<in>set (list_household_memberships h (w_store w)). m_actor m = rm_actor rm \<and> rm_role rm = Some (m_role m))"
  shows "reconcile_household R h w = (Inr Unchanged, w)"
proof -
  let ?active = "list_household_memberships h (w_store w)"
  obtain hr pr where st: "get_household h (w_store w) = Some hr" "h_head hr = head" "rb_name rb = Some (h_name hr)"
      "projection_of h w = Inr pr" "projections_equal pr (rb_projection rb)" "\<forall>m\<in>set ?active. member_agrees head rb Unchanged m"
    using assms(4) unfolding agrees_with_def by blast
  have by_actor: "lookup (active_by_actor ?active) (rm_actor rm) \<noteq> None \<and> map_option m_role (lookup (active_by_actor ?active) (rm_actor rm)) = rm_role rm"
    if rm: "rm \<in> set (rb_members rb)" "rm_role rm \<noteq> None" for rm
  proof -
    obtain m where m: "m \<in> set ?active" "m_actor m = rm_actor rm" "rm_role rm = Some (m_role m)" using assms(6) rm by blast
    have "lookup (active_by_actor ?active) (m_actor m) = Some m"
      using m(1) assms(5) by (intro by_actor_lookup) (auto simp: active_member one_membership_per_actor_def)
    then show ?thesis using m(2,3) by simp
  qed
  have "fst (verify_repository h (w_repos w))"
    using assms(2) by (auto simp: snapshot_def get_repository_def verify_repository_def split: option.splits)
  moreover have "list_all (\<lambda>m. m_actor m \<in> set (map rm_actor (rb_members rb))) ?active"
    using st(6) by (force simp: list_all_iff member_agrees_def)
  moreover have "\<not> list_ex (\<lambda>m. rm_role m \<noteq> None \<and> rm_user m = None \<and> lookup (active_by_actor ?active) (rm_actor m) = None) (rb_members rb)"
    using by_actor by (auto simp: list_ex_iff)
  ultimately have "repository_state R h [] w = Inr (head, [], h_name hr, rb)"
    using assms(2,3) st(3) by (simp add: repository_state_def commits_of_def mutation_users_def guard_def Let_def)
  moreover have "\<not> list_ex (\<lambda>m. rm_role m \<noteq> None \<and> map_option m_role (lookup (active_by_actor ?active) (rm_actor m)) \<noteq> rm_role m) (rb_members rb)"
    unfolding list_ex_iff using by_actor by blast
  then have "\<not> needs_rebuild h head [] (h_name hr) rb pr (w_store w)"
    using st(1,2,5,6) by (auto simp: needs_rebuild_def Let_def list_ex_iff member_agrees_def)
  ultimately show ?thesis
    using st(4) assms(1) by (simp add: reconcile_household_def try_catch_def bring_up_to_date_def bind_action_def reads_def demand_def lift_result_def return_def)
qed

text \<open>C26: Reconciliation does not notice a member it should. Take a household that agrees with its repository but for one active member whom
  the repository lists as former: the run reports the household as unchanged, leaves the store as it is, and the member keeps access.\<close>
theorem active_former_member_goes_unnoticed:
  assumes "list_mutations_for_reconciliation h (w_store w) = []" "snapshot h (w_repos w) = Inr (head, files)"
    and "rebuild_repository_state (rc_codec R) (rc_host R) (rc_moment R) [] files = Inr rb" "agrees_with h head rb Unchanged w"
    and "one_membership_per_actor h (w_store w)"
    and "\<forall>rm\<in>set (rb_members rb). rm_role rm \<noteq> None \<longrightarrow>
      (\<exists>m\<in>set (list_household_memberships h (w_store w)). m_actor m = rm_actor rm \<and> rm_role rm = Some (m_role m))"
    and "lookup (st_memberships (w_store w)) (h, u) = Some m" "m_removed m = None" "rm \<in> set (rb_members rb)" "rm_actor rm = m_actor m" "rm_role rm = None"
  shows "reconcile_household R h w = (Inr Unchanged, w) \<and> get_membership h u (w_store w) = Some m \<and> rm_removed rm \<noteq> None"
  using agreeing_household_left_alone [OF assms(1-6)] assms(7,8) members_are_roles_or_former [OF assms(3,9)] assms(11)
  by (simp add: get_membership_def)

section \<open>A household to reconcile\<close>

definition repository_from :: "git_object_id \<Rightarrow> file_snapshot list \<Rightarrow> repository" where
  "repository_from head files = \<lparr>git_head = head, git_files = map (\<lambda>f. (fs_path f, fs_content f)) files,
     git_revisions = map (\<lambda>f. (fs_path f, fs_revision f)) files, git_commits = []\<rparr>"

lemma snapshot_from:
  assumes "distinct (map fs_path files)"
  shows "snapshot h [(h, repository_from head files)] = Inr (head, files)"
proof -
  have "lookup (map (\<lambda>f. (fs_path f, fs_revision f)) files) (fs_path f) = Some (fs_revision f)" if "f \<in> set files" for f
    using that assms by (intro map_of_is_SomeI) (auto simp: comp_def)
  then have "map (\<lambda>f. \<lparr>fs_path = fs_path f, fs_content = fs_content f, fs_revision =
      (case lookup (map (\<lambda>f. (fs_path f, fs_revision f)) files) (fs_path f) of Some g \<Rightarrow> g | None \<Rightarrow> head)\<rparr>) files = files"
    by (intro map_idI) simp
  then show ?thesis by (simp add: snapshot_def get_repository_def repository_from_def comp_def cong: option.case_cong)
qed

definition former_file :: file_snapshot where
  "former_file = file_of home_head (replaced (''members/'' @ ''act_1111111111111111'' @ ''.md'') (markdown_document (sv_codec home_service)
     [(''actor_id'', JStr ''act_1111111111111111''), (''former_member'', JBool True), (''removed_at'', JStr noon), (''schema_version'', JNum 1)] ''''))"

definition family_files :: "file_snapshot list" where
  "family_files = repository_of home_service home_head ''Home'' [(''act_0000000000000000'', Owner)] [] empty_projection @ [former_file]"

definition family :: rebuilt where
  "family = \<lparr>rb_name = Some ''Home'', rb_projection = empty_projection,
     rb_members = [\<lparr>rm_actor = ''act_0000000000000000'', rm_role = Some Owner, rm_removed = None, rm_user = None\<rparr>,
       \<lparr>rm_actor = ''act_1111111111111111'', rm_role = None, rm_removed = Some 0, rm_user = None\<rparr>]\<rparr>"

definition family_reconciler :: reconciler where
  "family_reconciler = \<lparr>rc_codec = sv_codec home_service, rc_host = calendar_host, rc_moment = (\<lambda>_. 0), rc_at = (\<lambda>_ _. 9)\<rparr>"

definition family_world :: "string \<Rightarrow> world" where
  "family_world n = (home_world empty_projection [])
     \<lparr>w_store := (w_store (home_world empty_projection []))\<lparr>st_households :=
        [(home_id, \<lparr>h_id = home_id, h_name = n, h_head = home_head, h_provisioning = Ready, h_created = 0\<rparr>)]\<rparr>,
      w_repos := [(home_id, repository_from home_head family_files)]\<rparr>"

lemma family_rebuilt: "rebuild_repository_state (sv_codec home_service) calendar_host (\<lambda>_. 0) [] family_files = Inr family"
proof -
  have ok: "trimmed_len 1 120 ''Home''" "list_all (\<lambda>(a, _). opaque_id_ok ''act'' a) [(''act_0000000000000000'', Owner)]"
    "opaque_id_ok ''act'' ''act_1111111111111111''" "valid_datetime calendar_host noon" "\<not> starts_with ''audit/'' (fs_path former_file)"
    "journal_maps_ok empty_projection" "journal_documents_ok calendar_host [] empty_projection" by code_simp+
  have "list_all (\<lambda>f. \<not> starts_with ''audit/'' (fs_path f)) family_files"
    using repository_has_no_audit ok(5) by (simp add: family_files_def)
  moreover have "fold_result (project_file calendar_host (\<lambda>_. 0) []) family_files empty_reading =
      project_file calendar_host (\<lambda>_. 0) [] former_file (reading_of ''Home'' [(''act_0000000000000000'', Owner)] [] empty_projection)"
    using repository_read [OF calendar_dates ok(1,2,6,7), of "\<lambda>_. 0" home_service home_head]
    by (simp add: family_files_def fold_result_append and_then_def split: sum.split)
  ultimately show ?thesis
    using project_former_member [OF ok(3,4)]
    by (simp add: rebuild_repository_state_def no_audit former_file_def reading_of_def empty_projection_def family_def current_collections_def
      reading_consistent_def strip_revisions_def validate_delivery_import_evidence_scope_def validate_delivery_evidence_groups_def
      delivery_lines_def group_lines_def Let_def List.map_filter_def)
qed


lemma family_state:
  "list_mutations_for_reconciliation home_id (w_store (family_world n)) = []"
  "snapshot home_id (w_repos (family_world n)) = Inr (home_head, family_files)"
  "list_household_memberships home_id (w_store (family_world n)) =
     [home_member ''u'' ''act_0000000000000000'' Owner, home_member ''v'' ''act_1111111111111111'' Editor]"
  "get_household home_id (w_store (family_world n)) = Some \<lparr>h_id = home_id, h_name = n, h_head = home_head, h_provisioning = Ready, h_created = 0\<rparr>"
  "projection_of home_id (family_world n) = Inr empty_projection"
  "one_membership_per_actor home_id (w_store (family_world n))"
proof -
  show "list_mutations_for_reconciliation home_id (w_store (family_world n)) = []"
    by (simp add: family_world_def list_mutations_for_reconciliation_def home_world_def empty_store_def)
  have "distinct (map fs_path family_files)"
    by (simp add: family_files_def repository_of_def former_file_def file_of_def household_document_of_def member_document_def replaced_def
        empty_projection_def planning_files_def)
  then show "snapshot home_id (w_repos (family_world n)) = Inr (home_head, family_files)"
    by (simp add: family_world_def snapshot_from)
  show "list_household_memberships home_id (w_store (family_world n)) =
     [home_member ''u'' ''act_0000000000000000'' Owner, home_member ''v'' ''act_1111111111111111'' Editor]"
    by (simp add: family_world_def list_household_memberships_def home_world_def home_member_def)
  show "get_household home_id (w_store (family_world n)) =
     Some \<lparr>h_id = home_id, h_name = n, h_head = home_head, h_provisioning = Ready, h_created = 0\<rparr>"
    by (simp add: family_world_def get_household_def)
  show "projection_of home_id (family_world n) = Inr empty_projection"
    by (simp add: family_world_def home_world_def projection_of_def get_projection_def)
  show "one_membership_per_actor home_id (w_store (family_world n))"
    by (simp add: family_world_def one_membership_per_actor_def memberships_ok_def map_ok_def members_def home_world_def home_member_def)
qed

lemma family_agrees: "agrees_with home_id home_head family Unchanged (family_world ''Home'')"
  by (simp add: agrees_with_def family_state family_def member_agrees_def home_member_def projections_equal_def maps_equal_def empty_projection_def)

theorem active_former_member_goes_unnoticed_witness:
  "reconcile_household family_reconciler home_id (family_world ''Home'') = (Inr Unchanged, family_world ''Home'') \<and>
   get_membership home_id ''v'' (w_store (family_world ''Home'')) = Some (home_member ''v'' ''act_1111111111111111'' Editor)"
proof -
  let ?former = "\<lparr>rm_actor = ''act_1111111111111111'', rm_role = None, rm_removed = Some 0, rm_user = None\<rparr>"
  have "rebuild_repository_state (rc_codec family_reconciler) (rc_host family_reconciler) (rc_moment family_reconciler) [] family_files = Inr family"
    using family_rebuilt by (simp add: family_reconciler_def)
  moreover have "\<forall>rm\<in>set (rb_members family). rm_role rm \<noteq> None \<longrightarrow>
      (\<exists>m\<in>set (list_household_memberships home_id (w_store (family_world ''Home''))). m_actor m = rm_actor rm \<and> rm_role rm = Some (m_role m))"
    by (simp add: family_def family_state home_member_def)
  moreover have "lookup (st_memberships (w_store (family_world ''Home''))) (home_id, ''v'') = Some (home_member ''v'' ''act_1111111111111111'' Editor)"
    by (simp add: family_world_def home_world_def)
  moreover have "?former \<in> set (rb_members family)" by (simp add: family_def)
  ultimately show ?thesis
    using active_former_member_goes_unnoticed [OF family_state(1,2) _ family_agrees family_state(6), of family_reconciler "''v''" "home_member ''v'' ''act_1111111111111111'' Editor" ?former]
    by (simp add: home_member_def)
qed

lemma family_reconciled: "\<exists>w'. reconcile_household family_reconciler home_id (family_world ''Old'') = (Inr Rebuilt, w')"
proof -
  let ?w = "family_world ''Old''"
  have "fst (verify_repository home_id (w_repos ?w))" by (simp add: family_world_def verify_repository_def)
  then have "repository_state family_reconciler home_id [] ?w = Inr (home_head, [], ''Home'', family)"
    using family_rebuilt
    by (simp add: repository_state_def family_state(2,3) commits_of_def mutation_users_def guard_def family_reconciler_def)
      (simp add: family_def active_by_actor_def home_member_def family_state(3) Let_def guard_def)
  moreover have "needs_rebuild home_id home_head [] ''Home'' family empty_projection (w_store ?w)"
    by (simp add: needs_rebuild_def family_state(4) Let_def)
  moreover have "lookup (st_households (w_store ?w)) home_id \<noteq> None" by (simp add: family_world_def)
  ultimately show ?thesis
    using family_state(1,5)
    by (auto simp: reconcile_household_def try_catch_def bring_up_to_date_def bind_action_def reads_def demand_def lift_result_def return_def
        store_try_def update_or_throw_def replace_household_projection_def split: option.split)
qed

theorem reconciled_household_agrees_witness:
  "\<exists>w' head rb. reconcile_household family_reconciler home_id (family_world ''Old'') = (Inr Rebuilt, w') \<and> agrees_with home_id head rb Rebuilt w'"
proof -
  obtain w' where w': "reconcile_household family_reconciler home_id (family_world ''Old'') = (Inr Rebuilt, w')" using family_reconciled by blast
  from reconciled_household_agrees [OF family_state(6) this] show ?thesis using w' by blast
qed

definition lost_record :: mutation_record where
  "lost_record = \<lparr>mu_request = ''req_0000000000000000'', mu_user = ''u'', mu_tool = ''hfj_commit_change_set'', mu_key = ''change-1'',
     mu_household = Some home_id, mu_state = ReconciliationRequired, mu_commit = Some home_head, mu_response = None, mu_failure = None,
     mu_created = 0, mu_updated = 0\<rparr>"

definition lost_world :: world where
  "lost_world = (home_world empty_projection [])
     \<lparr>w_store := (w_store (home_world empty_projection []))\<lparr>st_mutations := [(mutation_key lost_record, lost_record)]\<rparr>\<rparr>"

theorem reconciliation_settles_every_mutation_witness:
  "\<exists>oc w'. reconcile_household family_reconciler home_id lost_world = (Inr oc, w') \<and> list_mutations_for_reconciliation home_id (w_store w') = []"
proof -
  have "mutations_ok (w_store lost_world)" "get_household home_id (w_store lost_world) \<noteq> None"
    by (simp_all add: lost_world_def mutations_ok_def map_ok_def get_household_def home_world_def)
  from reconciliation_settles_every_mutation [OF this, of family_reconciler] show ?thesis by blast
qed

end
