(* ===== verification/JournalDelivery.thy ===== *)
theory JournalDelivery
  imports RepositoryProjection
begin

text \<open>
  The delivery history of a household (\<^verbatim>\<open>household-food-journal.ts\<close>): complete provider orders read back
  from the evidence, the canonical delivery profile and index kept as two documents of the repository, and the commit that replaces
  both together with new order lines and dishes of one provider.  Inputs and outputs follow
  \<^verbatim>\<open>packages/contracts/src/tools.ts\<close>.
\<close>

section \<open>Orders\<close>

record order_group =
  og_lines :: "group_line list"
  og_handle :: string

definition group_key_json :: "string \<times> string \<times> string \<Rightarrow> json" where
  "group_key_json k = (case k of (origin, order, grp) \<Rightarrow>
     JObj [(''provider_origin'', JStr origin), (''provider_order_locator'', JStr order), (''order_group_locator'', JStr grp)])"

definition group_handle :: "service \<Rightarrow> household_id \<Rightarrow> string \<times> string \<times> string \<Rightarrow> string" where
  "group_handle S h k = ''dgrp_'' @ take 48 (sv_hash S (h @ [CHR 0x00] @ stable_json (sv_codec S) (group_key_json k)))"

definition delivery_groups :: "service \<Rightarrow> household_id \<Rightarrow> evidence_map \<Rightarrow> failure + order_group list" where
  "delivery_groups S h evs =
     traverse (\<lambda>(k, ls). and_then (guard (order_group_ok (sv_host S) ls) drift) (\<lambda>_. Inr \<lparr>og_lines = ls, og_handle = group_handle S h k\<rparr>))
       (group_lines (delivery_lines (vals evs)))"

section \<open>Canonical documents\<close>

record profile_document =
  pdoc_profile :: delivery_profile
  pdoc_markdown :: string

definition profile_document_ok :: "host \<Rightarrow> profile_document \<Rightarrow> bool" where
  "profile_document_ok H d \<longleftrightarrow> delivery_profile_ok H (pdoc_profile d) \<and> str_len 0 100000 (pdoc_markdown d)"

definition profile_document_json :: "profile_document \<Rightarrow> json" where
  "profile_document_json d = JObj [(''profile'', JObj (delivery_profile_fields (pdoc_profile d))), (''markdown'', JStr (pdoc_markdown d))]"

record delivery_state =
  ds_profile :: "(profile_document \<times> git_object_id) option"
  ds_report :: "(report \<times> git_object_id) option"

definition files_at :: "string \<Rightarrow> file_snapshot list \<Rightarrow> file_snapshot list" where
  "files_at p fs = filter (\<lambda>f. fs_path f = p) fs"

definition canonical_profile :: "host \<Rightarrow> file_snapshot list \<Rightarrow> failure + (profile_document \<times> git_object_id) option" where
  "canonical_profile H fs = (case files_at delivery_profile_path fs of
     [] \<Rightarrow> Inr None
   | f # _ \<Rightarrow> and_then (read_markdown (fs_content f)) (\<lambda>(fm, body).
       and_then (projected (decode_delivery_profile H (JObj fm))) (\<lambda>p.
       Inr (Some (\<lparr>pdoc_profile = p, pdoc_markdown = body\<rparr>, fs_revision f)))))"

definition canonical_report :: "host \<Rightarrow> file_snapshot list \<Rightarrow> failure + (report \<times> git_object_id) option" where
  "canonical_report H fs = (case files_at delivery_index_report_path fs of
     [] \<Rightarrow> Inr None
   | f # _ \<Rightarrow> and_then (read_body ''markdown'' (decode_delivery_report H) (fs_content f)) (\<lambda>r. Inr (Some (r, fs_revision f))))"

definition delivery_canonical_state :: "host \<Rightarrow> file_snapshot list \<Rightarrow> failure + delivery_state" where
  "delivery_canonical_state H fs =
     and_then (guard (length (files_at delivery_profile_path fs) \<le> 1 \<and> length (files_at delivery_index_report_path fs) \<le> 1) drift) (\<lambda>_.
     and_then (canonical_profile H fs) (\<lambda>p.
     and_then (canonical_report H fs) (\<lambda>r. Inr \<lparr>ds_profile = p, ds_report = r\<rparr>)))"

definition journal_items :: "projection \<Rightarrow> item_map" where
  "journal_items pr = map (\<lambda>(i, item, _). (i, item)) (pr_items pr)"

section \<open>The commit\<close>

datatype commit_mode = ConnectedAudit | LocalPromotion

definition commit_mode_text :: "commit_mode \<Rightarrow> string" where
  "commit_mode_text m = (case m of ConnectedAudit \<Rightarrow> ''connected_audit_checkpoint'' | LocalPromotion \<Rightarrow> ''local_promotion'')"

record delivery_commit =
  dc_household :: household_id
  dc_head :: git_object_id
  dc_key :: string
  dc_mode :: commit_mode
  dc_origin :: string
  dc_profile_revision :: "git_object_id option"
  dc_report_revision :: "git_object_id option"
  dc_expected_profile :: "profile_document option"
  dc_next_profile :: profile_document
  dc_expected_report :: "report option"
  dc_next_report :: report
  dc_evidence :: "evidence list"
  dc_items :: "dish_item list"
  dc_revisions :: "(item_id, git_object_id) js_map"

definition index_report_ok :: "host \<Rightarrow> report \<Rightarrow> bool" where
  "index_report_ok H r \<longleftrightarrow> report_ok H r \<and> rep_type r = DeliveryIndex"

definition from_provider :: "string \<Rightarrow> evidence \<Rightarrow> bool" where
  "from_provider origin e \<longleftrightarrow> (case delivery_line_of e of None \<Rightarrow> False | Some (_, l) \<Rightarrow> ol_provider_origin l = origin)"

definition delivery_commit_ok :: "host \<Rightarrow> delivery_commit \<Rightarrow> bool" where
  "delivery_commit_ok H i \<longleftrightarrow> opaque_id_ok ''hsh'' (dc_household i) \<and> git_object_id_ok (dc_head i) \<and> idempotency_key_ok (dc_key i) \<and>
     parse_provider_origin H (dc_origin i) = Some (dc_origin i) \<and>
     opt_all git_object_id_ok (dc_profile_revision i) \<and> opt_all git_object_id_ok (dc_report_revision i) \<and>
     opt_all (profile_document_ok H) (dc_expected_profile i) \<and> profile_document_ok H (dc_next_profile i) \<and>
     opt_all (index_report_ok H) (dc_expected_report i) \<and> index_report_ok H (dc_next_report i) \<and>
     list_len 0 10000 (dc_evidence i) \<and> list_all (\<lambda>e. evidence_ok H e \<and> delivery_line_of e \<noteq> None) (dc_evidence i) \<and>
     list_len 0 10000 (dc_items i) \<and> list_all (dish_ok H) (dc_items i) \<and>
     revisions_ok (dc_revisions i) \<and> list_len 0 10000 (dc_revisions i) \<and>
     distinct (map ev_id (dc_evidence i)) \<and> distinct (map it_id (dc_items i)) \<and>
     list_all (from_provider (dc_origin i)) (dc_evidence i) \<and> list_all (\<lambda>d. dd_provider_origin d = dc_origin i) (dc_items i) \<and>
     dc_origin i \<in> set (map ps_origin (dp_providers (pdoc_profile (dc_next_profile i))))"

definition delivery_commit_fields :: "delivery_commit \<Rightarrow> json_object" where
  "delivery_commit_fields i =
     [(''household_id'', JStr (dc_household i)), (''expected_head'', JStr (dc_head i)), (''provider_idempotency_key'', JStr (dc_key i)),
      (''household_visibility_confirmed'', JBool True), (''provider_origin'', JStr (dc_origin i)),
      (''expected_delivery_profile_revision'', nullable JStr (dc_profile_revision i)),
      (''expected_delivery_report_revision'', nullable JStr (dc_report_revision i)),
      (''expected_profile'', nullable profile_document_json (dc_expected_profile i)),
      (''next_profile'', profile_document_json (dc_next_profile i)),
      (''expected_report'', nullable report_json (dc_expected_report i)), (''next_report'', report_json (dc_next_report i)),
      (''evidence'', JArr (map evidence_json (dc_evidence i))), (''items'', JArr (map (\<lambda>d. item_json (DishItem d)) (dc_items i))),
      (''expected_item_revisions'', revisions_json (dc_revisions i)), (''mode'', JStr (commit_mode_text (dc_mode i)))]"

definition validate_expected_state :: "codec \<Rightarrow> delivery_commit \<Rightarrow> delivery_state \<Rightarrow> failure + unit" where
  "validate_expected_state C i st =
     and_then (guard (map_option snd (ds_profile st) = dc_profile_revision i \<and> map_option snd (ds_report st) = dc_report_revision i)
       (app_error REVISION_CONFLICT)) (\<lambda>_.
     guard (same_json C (nullable profile_document_json (map_option fst (ds_profile st))) (nullable profile_document_json (dc_expected_profile i)) \<and>
       same_json C (nullable report_json (map_option fst (ds_report st))) (nullable report_json (dc_expected_report i)))
       (app_error REVISION_CONFLICT))"

section \<open>One provider at a time\<close>

definition assertion_origins :: "report_assertion \<Rightarrow> evidence_map \<Rightarrow> item_map \<Rightarrow> string list" where
  "assertion_origins a evs items = first_seen
     (List.map_filter (\<lambda>e. Option.bind (Option.bind (lookup evs e) delivery_line_of) (\<lambda>(_, l). Some (ol_provider_origin l))) (ra_evidence a) @
      List.map_filter (\<lambda>i. case lookup items i of Some (DishItem d) \<Rightarrow> Some (dd_provider_origin d) | _ \<Rightarrow> None) (ra_items a))"

definition unique_rows :: "report \<Rightarrow> failure + unit" where
  "unique_rows r = guard (distinct (map ra_row (rep_assertions r))) invalid"

definition profile_scope_ok :: "codec \<Rightarrow> profile_document option \<Rightarrow> profile_document \<Rightarrow> string \<Rightarrow> failure + unit" where
  "profile_scope_ok C expected next_doc origin =
     (let old = (case expected of None \<Rightarrow> [] | Some d \<Rightarrow> dp_providers (pdoc_profile d));
          before = by_key ps_origin old; after = by_key ps_origin (dp_providers (pdoc_profile next_doc));
          preferences = (case expected of None \<Rightarrow> [] | Some d \<Rightarrow> dp_preferences (pdoc_profile d)) in
      and_then (each_ok (\<lambda>p. guard (p = origin \<or>
          same_json C (nullable selection_json (lookup before p)) (nullable selection_json (lookup after p))) invalid)
        (first_seen (map fst before @ map fst after))) (\<lambda>_.
      and_then (guard (same_json C (preferences_json preferences) (preferences_json (dp_preferences (pdoc_profile next_doc)))) invalid) (\<lambda>_.
      guard (list_all (\<lambda>p. p = origin) (map fst before) \<or> map_option pdoc_markdown expected = Some (pdoc_markdown next_doc)) invalid)))"

definition prior_origins :: "delivery_profile option \<Rightarrow> projection \<Rightarrow> string list" where
  "prior_origins profile pr =
     (case profile of None \<Rightarrow> [] | Some p \<Rightarrow> map ps_origin (dp_providers p)) @
     map (\<lambda>(e, l). ol_provider_origin l) (delivery_lines (vals (pr_evidence pr))) @
     List.map_filter (\<lambda>(i, _). case i of DishItem d \<Rightarrow> Some (dd_provider_origin d) | _ \<Rightarrow> None) (vals (pr_items pr))"

definition report_scope_ok ::
  "codec \<Rightarrow> report option \<Rightarrow> report \<Rightarrow> string \<Rightarrow> delivery_profile option \<Rightarrow> projection \<Rightarrow> evidence_map \<Rightarrow> item_map \<Rightarrow> failure + unit" where
  "report_scope_ok C expected next_report origin profile pr evs items =
     (let old = (case expected of None \<Rightarrow> [] | Some r \<Rightarrow> rep_assertions r);
          old_rows = by_key ra_row old; new_rows = by_key ra_row (rep_assertions next_report) in
      and_then (case expected of None \<Rightarrow> Inr () | Some r \<Rightarrow> unique_rows r) (\<lambda>_.
      and_then (unique_rows next_report) (\<lambda>_.
      and_then (each_ok (\<lambda>a. guard (let origins = assertion_origins a (pr_evidence pr) (journal_items pr) in
          origins \<noteq> [] \<and> list_all (\<lambda>p. p = origin) origins \<or>
          same_json C (assertion_json a) (nullable assertion_json (lookup new_rows (ra_row a)))) invalid) old) (\<lambda>_.
      and_then (each_ok (\<lambda>a. guard (same_json C (assertion_json a) (nullable assertion_json (lookup old_rows (ra_row a))) \<or>
          assertion_origins a evs items = [origin]) invalid) (rep_assertions next_report)) (\<lambda>_.
      guard (list_all (\<lambda>p. p = origin) (prior_origins profile pr) \<or>
        map_option rep_markdown expected = Some (rep_markdown next_report)) invalid)))))"

definition commit_evidence_ok :: "principal \<Rightarrow> projection \<Rightarrow> evidence \<Rightarrow> failure + unit" where
  "commit_evidence_ok p pr e =
     and_then (guard (lookup (pr_evidence pr) (ev_id e) = None) (app_error REVISION_CONFLICT)) (\<lambda>_.
     guard (ev_actor e = p_actor p) invalid)"

definition commit_item_ok :: "delivery_commit \<Rightarrow> projection \<Rightarrow> dish_item \<Rightarrow> failure + unit" where
  "commit_item_ok i pr d =
     guard (case lookup (pr_items pr) (it_id d) of
        None \<Rightarrow> lookup (dc_revisions i) (it_id d) = None
      | Some (DishItem cur, r) \<Rightarrow> dd_provider_origin cur = dc_origin i \<and> lookup (dc_revisions i) (it_id d) = Some r
      | Some _ \<Rightarrow> False) (app_error REVISION_CONFLICT)"

definition put_dishes :: "dish_item list \<Rightarrow> item_map \<Rightarrow> item_map" where
  "put_dishes ds m = fold (\<lambda>d. put (it_id d) (DishItem d)) ds m"

definition validate_delivery_commit :: "service \<Rightarrow> principal \<Rightarrow> delivery_commit \<Rightarrow> projection \<Rightarrow> delivery_state \<Rightarrow> failure + unit" where
  "validate_delivery_commit S p i pr st =
     (let H = sv_host S; C = sv_codec S; evs = put_evidence (dc_evidence i) (pr_evidence pr);
          items = put_dishes (dc_items i) (journal_items pr) in
      and_then (guard (list_all (\<lambda>k. k \<in> set (map it_id (dc_items i))) (map fst (dc_revisions i))) invalid) (\<lambda>_.
      and_then (each_ok (commit_evidence_ok p pr) (dc_evidence i)) (\<lambda>_.
      and_then (each_ok (commit_item_ok i pr) (dc_items i)) (\<lambda>_.
      and_then (validate_delivery_evidence_groups H evs) (\<lambda>_.
      and_then (each_ok (\<lambda>d. validate_item_evidence (DishItem d) evs) (dc_items i)) (\<lambda>_.
      and_then (case ds_report st of None \<Rightarrow> Inr () | Some (r, _) \<Rightarrow> validate_delivery_index_report r (pr_evidence pr) (journal_items pr)) (\<lambda>_.
      and_then (validate_delivery_index_report (dc_next_report i) evs items) (\<lambda>_.
      and_then (profile_scope_ok C (map_option fst (ds_profile st)) (dc_next_profile i) (dc_origin i)) (\<lambda>_.
      report_scope_ok C (map_option fst (ds_report st)) (dc_next_report i) (dc_origin i)
        (map_option (\<lambda>(d, _). pdoc_profile d) (ds_profile st)) pr evs items)))))))))"

definition canonical_delivery_profile :: "codec \<Rightarrow> profile_document \<Rightarrow> string" where
  "canonical_delivery_profile C d = markdown_document C (delivery_profile_fields (pdoc_profile d)) (pdoc_markdown d)"

definition delivery_changes :: "codec \<Rightarrow> delivery_commit \<Rightarrow> repository_change list" where
  "delivery_changes C i =
     map (evidence_change C) (dc_evidence i) @ map (\<lambda>d. item_change C (DishItem d)) (dc_items i) @
     [replaced delivery_profile_path (canonical_delivery_profile C (dc_next_profile i)),
      replaced delivery_index_report_path (delivery_report_document C (dc_next_report i))]"

definition project_delivery :: "codec \<Rightarrow> delivery_commit \<Rightarrow> git_object_id \<Rightarrow> projection \<Rightarrow> projection" where
  "project_delivery C i head pr =
     (let pr' = project_entries head (dc_evidence i) (map DishItem (dc_items i)) pr in
      pr'\<lparr>pr_profiles := put ''delivery'' (remove_final_newline (canonical_delivery_profile C (dc_next_profile i)), head) (pr_profiles pr')\<rparr>)"

definition delivery_answer :: "delivery_commit \<Rightarrow> git_object_id \<Rightarrow> json_object" where
  "delivery_answer i head =
     [completed_field, (''mode'', JStr (commit_mode_text (dc_mode i))), (''provider_origin'', JStr (dc_origin i)),
      (''evidence_ids'', strings (map ev_id (dc_evidence i))), (''item_ids'', strings (map it_id (dc_items i))),
      (''profile_revision'', JStr head), (''report_revision'', JStr head)]"

definition provider_key :: "service \<Rightarrow> delivery_commit \<Rightarrow> string" where
  "provider_key S i = ''delivery.'' @ take 16 (sv_hash S (dc_origin i)) @ ''.'' @ dc_key i"

definition repository_files :: "household_id \<Rightarrow> world \<Rightarrow> failure + file_snapshot list" where
  "repository_files h w = and_then (snapshot h (w_repos w)) (\<lambda>(_, fs). Inr fs)"

definition delivery_options :: "service \<Rightarrow> principal \<Rightarrow> delivery_commit \<Rightarrow> mutation_options" where
  "delivery_options S p i =
     (household_mutation S p ''hfj_commit_delivery_index'' (dc_household i) (provider_key S i) (delivery_commit_fields i) Editor JournalWrite
        ''delivery: commit provider history'')
     \<lparr>mo_expected := Some (dc_head i), mo_enforce := True,
      mo_build := (\<lambda>_ _. bind_action (demand (projection_of (dc_household i))) (\<lambda>pr.
        bind_action (demand (repository_files (dc_household i))) (\<lambda>fs.
        bind_action (check (delivery_canonical_state (sv_host S) fs)) (\<lambda>st.
        bind_action (check (validate_expected_state (sv_codec S) i st)) (\<lambda>_.
        bind_action (check (validate_delivery_commit S p i pr st)) (\<lambda>_.
        return (delivery_changes (sv_codec S) i))))))),
      mo_apply := (\<lambda>head _ _. bind_action (change_projection (dc_household i) (project_delivery (sv_codec S) i head)) (\<lambda>_.
        bind_action (check (parsed (git_object_id_ok head))) (\<lambda>_. return (delivery_answer i head))))\<rparr>"

definition commit_delivery_index :: "service \<Rightarrow> principal \<Rightarrow> call \<Rightarrow> delivery_commit \<Rightarrow> mutation_result journal_action" where
  "commit_delivery_index S p c i =
     bind_action (check (parsed (delivery_commit_ok (sv_host S) i))) (\<lambda>_. run_mutation S c (delivery_options S p i))"

section \<open>Reading the history\<close>

definition authorized_delivery_projection :: "principal \<Rightarrow> household_id \<Rightarrow> world \<Rightarrow> failure + git_object_id \<times> projection" where
  "authorized_delivery_projection p h w =
     and_then (require_scope p JournalRead) (\<lambda>_.
     and_then (member_of p h Viewer w) (\<lambda>_.
     and_then (required_household h w) (\<lambda>hh.
     and_then (repository_head h (w_repos w)) (\<lambda>head.
     and_then (guard (head = h_head hh) (AppError PROJECTION_DRIFT True)) (\<lambda>_.
     and_then (projection_of h w) (\<lambda>pr. Inr (head, pr)))))))"

record history_query =
  hq_household :: household_id
  hq_query :: string
  hq_origin :: "string option"
  hq_cursor :: "string option"
  hq_limit :: nat

definition cursor_ok :: "string \<Rightarrow> bool" where
  "cursor_ok s \<longleftrightarrow> starts_with ''v1_'' s \<and> digits_only (drop 3 s) \<and> length s \<le> 9"

definition group_handle_ok :: "string \<Rightarrow> bool" where
  "group_handle_ok s \<longleftrightarrow> starts_with ''dgrp_'' s \<and> length s = 53 \<and> list_all is_hex (drop 5 s)"

definition history_query_ok :: "host \<Rightarrow> history_query \<Rightarrow> bool" where
  "history_query_ok H q \<longleftrightarrow> opaque_id_ok ''hsh'' (hq_household q) \<and> trimmed_len 0 300 (hq_query q) \<and>
     opt_all (\<lambda>s. parse_provider_origin H s = Some s) (hq_origin q) \<and> opt_all cursor_ok (hq_cursor q) \<and> 1 \<le> hq_limit q \<and> hq_limit q \<le> 50"

record history_candidate =
  hc_group :: string
  hc_dish :: string
  hc_label :: string
  hc_restaurant :: restaurant
  hc_revision :: git_object_id

definition history_candidate_ok :: "history_candidate \<Rightarrow> bool" where
  "history_candidate_ok c \<longleftrightarrow> group_handle_ok (hc_group c) \<and> trimmed_len 1 500 (hc_dish c) \<and> trimmed_len 1 120 (hc_label c) \<and>
     trimmed_len 1 300 (rs_name (hc_restaurant c)) \<and> trimmed_len 1 500 (rs_location (hc_restaurant c)) \<and>
     opt_all public_address_ok (rs_address (hc_restaurant c)) \<and> git_object_id_ok (hc_revision c)"

definition history_candidate_json :: "history_candidate \<Rightarrow> json" where
  "history_candidate_json c = JObj [(''group_handle'', JStr (hc_group c)), (''dish_name'', JStr (hc_dish c)), (''provider_label'', JStr (hc_label c)),
     (''restaurant_name'', JStr (rs_name (hc_restaurant c))), (''public_location_label'', JStr (rs_location (hc_restaurant c))),
     (''public_merchant_address'', nullable address_json (rs_address (hc_restaurant c))), (''revision'', JStr (hc_revision c))]"

definition candidate_fields :: "history_candidate \<Rightarrow> string list" where
  "candidate_fields c = [hc_dish c, hc_label c, rs_name (hc_restaurant c), rs_location (hc_restaurant c)] @ address_labels (rs_address (hc_restaurant c))"

definition candidate_sort_key :: "history_candidate \<Rightarrow> string" where
  "candidate_sort_key c = join [CHR 0x00] [hc_label c, rs_name (hc_restaurant c), rs_location (hc_restaurant c), hc_dish c, hc_group c]"

definition group_candidates :: "git_object_id \<Rightarrow> order_group \<Rightarrow> history_candidate list" where
  "group_candidates head g = (case og_lines g of
     [] \<Rightarrow> []
   | (_, l) # _ \<Rightarrow> map (\<lambda>dish. \<lparr>hc_group = og_handle g, hc_dish = dish, hc_label = ol_provider_label l, hc_restaurant = ol_restaurant l,
       hc_revision = head\<rparr>) (first_seen (map (\<lambda>(_, l). ol_dish l) (og_lines g))))"

definition group_from :: "string option \<Rightarrow> order_group \<Rightarrow> bool" where
  "group_from origin g = (case origin of None \<Rightarrow> True
     | Some s \<Rightarrow> (case og_lines g of [] \<Rightarrow> False | (_, l) # _ \<Rightarrow> ol_provider_origin l = s))"

definition history_candidates :: "service \<Rightarrow> history_query \<Rightarrow> git_object_id \<Rightarrow> order_group list \<Rightarrow> history_candidate list" where
  "history_candidates S q head gs =
     (let low = lower_case (sv_host S); needle = low (hq_query q) in
      sort_key (\<lambda>c. collation_key (sv_codec S) (candidate_sort_key c))
        (filter (\<lambda>c. needle = [] \<or> list_ex (\<lambda>f. contains needle (low f)) (candidate_fields c))
          (concat (map (group_candidates head) (filter (group_from (hq_origin q)) gs)))))"

definition history_start :: "string option \<Rightarrow> nat" where
  "history_start cursor = (case cursor of None \<Rightarrow> 0 | Some s \<Rightarrow> decimal (drop 3 s))"

definition history_page :: "nat \<Rightarrow> nat \<Rightarrow> history_candidate list \<Rightarrow> history_candidate list \<times> string option" where
  "history_page start limit cs =
     (let page = take limit (drop start cs); stop = start + length page in (page, if stop < length cs then Some (''v1_'' @ digits stop) else None))"

definition search_delivery_history :: "service \<Rightarrow> principal \<Rightarrow> history_query \<Rightarrow> world \<Rightarrow> failure + read_result" where
  "search_delivery_history S p q w =
     and_then (parsed (history_query_ok (sv_host S) q)) (\<lambda>_.
     and_then (authorized_delivery_projection p (hq_household q) w) (\<lambda>(head, pr).
     and_then (delivery_groups S (hq_household q) (pr_evidence pr)) (\<lambda>gs.
     let (page, cursor) = history_page (history_start (hq_cursor q)) (hq_limit q) (history_candidates S q head gs) in
     and_then (parsed (list_all history_candidate_ok page \<and> opt_all cursor_ok cursor)) (\<lambda>_.
     Inr ([(''candidates'', JArr (map history_candidate_json page)), (''next_cursor'', nullable JStr cursor)], Some head)))))"

definition get_delivery_order :: "service \<Rightarrow> principal \<Rightarrow> household_id \<Rightarrow> string \<Rightarrow> world \<Rightarrow> failure + read_result" where
  "get_delivery_order S p h handle w =
     and_then (parsed (opaque_id_ok ''hsh'' h \<and> group_handle_ok handle)) (\<lambda>_.
     and_then (authorized_delivery_projection p h w) (\<lambda>(head, pr).
     and_then (delivery_groups S h (pr_evidence pr)) (\<lambda>gs.
     case List.find (\<lambda>g. og_handle g = handle) gs of
       None \<Rightarrow> Inl (app_error NOT_FOUND)
     | Some g \<Rightarrow> and_then (parsed (git_object_id_ok head)) (\<lambda>_.
         Inr ([(''group'', JObj [(''lines'', JArr (map (\<lambda>(e, _). evidence_json e) (og_lines g)))]), (''revision'', JStr head)], Some head)))))"

definition get_delivery_index :: "service \<Rightarrow> principal \<Rightarrow> household_id \<Rightarrow> world \<Rightarrow> failure + read_result" where
  "get_delivery_index S p h w =
     and_then (parsed (opaque_id_ok ''hsh'' h)) (\<lambda>_.
     and_then (authorized_delivery_projection p h w) (\<lambda>(head, pr).
     and_then (repository_files h w) (\<lambda>fs.
     and_then (delivery_canonical_state (sv_host S) fs) (\<lambda>st.
     case ds_report st of
       None \<Rightarrow> Inl (app_error NOT_FOUND)
     | Some (r, revision) \<Rightarrow>
         and_then (validate_delivery_index_report r (pr_evidence pr) (journal_items pr)) (\<lambda>_.
         and_then (parsed (git_object_id_ok revision)) (\<lambda>_.
         Inr ([(''report'', report_json r), (''revision'', JStr revision)], Some head)))))))"

section \<open>The runner's contract\<close>

lemma delivery_framed: "callbacks_framed (delivery_options S p i)"
  by (rule framed_mutation; simp add: delivery_options_def household_mutation_def)
    (intro frame_intros reads_only_frame | auto intro!: answer_intros simp: fingerprint_field_def delivery_answer_def)+

lemma delivery_reads_only: "reads_only (mo_build (delivery_options S p i) req now)"
  by (simp add: delivery_options_def household_mutation_def) (intro frame_intros)

lemma delivery_household [simp]: "mo_household (delivery_options S p i) = dc_household i"
  by (simp add: delivery_options_def household_mutation_def)

end
