(* ===== verification/DeliverySafety.thy ===== *)
theory DeliverySafety
  imports JournalDelivery RepositorySafety
begin

text \<open>
  What a delivery commit guarantees: it changes one provider only, it leaves a history whose checks hold, and every member reads the
  committed index back.
\<close>

section \<open>Equal documents\<close>

lemma same_json_sorted:
  assumes "same_json C x y" "json_ok x" "json_ok y"
  shows "sort_json C x = sort_json C y"
  using assms parse_printed [of "JObj [(''value'', x)]" C] parse_printed [of "JObj [(''value'', y)]" C]
  by (simp add: same_json_def)

lemma same_json_decoded: "same_json C x y \<Longrightarrow> json_ok x \<Longrightarrow> json_ok y \<Longrightarrow> sort_free d \<Longrightarrow> d x = d y"
  using same_json_sorted [of C x y] by (metis sort_free_def)

lemma sort_free_rows: "sort_free d_assertion" "sort_free (d_selection H)"
  unfolding d_assertion_def d_selection_def by (intro sort_free_intros)+

lemma json_ok_rows: "json_ok (assertion_json a)" "json_ok (selection_json s)" "json_ok (nullable assertion_json a')" "json_ok (nullable selection_json s')"
  by (auto simp: assertion_json_def selection_json_def decode_simps split: option.split intro!: opt_all_TrueI)

lemma same_assertion: "same_json C (assertion_json a) (nullable assertion_json b) \<Longrightarrow> b = Some a"
proof -
  assume same: "same_json C (assertion_json a) (nullable assertion_json b)"
  have "d_assertion (assertion_json a) = d_assertion (nullable assertion_json b)"
    by (rule same_json_decoded [OF same]) (rule json_ok_rows sort_free_rows)+
  then show ?thesis
    by (cases b) (simp_all add: assertion_decoded nullable_def, simp add: d_assertion_def d_strict_def)
qed

lemma same_selection:
  assumes "same_json C (nullable selection_json a) (nullable selection_json b)" "opt_all (provider_selection_ok H) a" "opt_all (provider_selection_ok H) b"
  shows "a = b"
proof -
  have "d_null (d_selection H) (nullable selection_json a) = d_null (d_selection H) (nullable selection_json b)"
    by (rule same_json_decoded [OF assms(1)]) (rule json_ok_rows sort_free_rows sort_free_null)+
  moreover have "d_null (d_selection H) (nullable selection_json x) = Some x" if "opt_all (provider_selection_ok H) x" for x
    using that by (intro null_decoded) (simp add: opt_all_def selection_decoded, simp add: selection_json_def)
  ultimately show ?thesis using assms(2,3) by simp
qed

section \<open>Files after a commit\<close>

abbreviation entries_at :: "string \<Rightarrow> (string, 'a) js_map \<Rightarrow> (string, 'a) js_map" where
  "entries_at p m \<equiv> filter (\<lambda>x. fst x = p) m"

lemma entries_put: "length (entries_at p (put k v m)) = (if k = p \<and> lookup m p = None then 1 else length (entries_at p m))"
proof (induction m)
  case (Cons x m)
  then show ?case by (cases x) (auto simp: put_def)
qed (simp add: put_def)

lemma absent_entries: "lookup m p = None \<longleftrightarrow> entries_at p m = []"
  by (induction m) auto

lemma entries_put_le: "length (entries_at p m) \<le> Suc 0 \<Longrightarrow> length (entries_at p (put k v m)) \<le> Suc 0"
  by (simp add: entries_put)

lemma entries_write_le: "length (entries_at p m) \<le> Suc 0 \<Longrightarrow> length (entries_at p (write_files cs m)) \<le> Suc 0"
  unfolding write_files_def
proof (induction cs arbitrary: m)
  case (Cons c cs)
  show ?case using Cons.IH [OF entries_put_le [OF Cons.prems]] by simp
qed simp

lemma single_entry: "length (entries_at p m) \<le> Suc 0 \<Longrightarrow> lookup m p = Some c \<Longrightarrow> entries_at p m = [(p, c)]"
proof (induction m)
  case (Cons x m)
  then show ?case using absent_entries [of m p] by (cases x) (auto split: if_splits)
qed simp

lemma lookup_write_revisions:
  "lookup (write_revisions g cs m) p = (if p \<in> ch_path ` set cs then Some g else lookup m p)"
proof (induction cs rule: rev_induct)
  case (snoc c cs)
  then show ?case by (auto simp: write_revisions_def)
qed (simp add: write_revisions_def)

definition snapshot_files :: "repository \<Rightarrow> file_snapshot list" where
  "snapshot_files r = map (\<lambda>(p, c). \<lparr>fs_path = p, fs_content = c,
     fs_revision = (case lookup (git_revisions r) p of Some g \<Rightarrow> g | None \<Rightarrow> git_head r)\<rparr>) (git_files r)"

lemma repository_files_of: "lookup (w_repos w) h = Some r \<Longrightarrow> repository_files h w = Inr (snapshot_files r)"
  by (simp add: repository_files_def snapshot_def get_repository_def snapshot_files_def)

lemma files_at_snapshot: "files_at p (snapshot_files r) = map (\<lambda>(p, c). \<lparr>fs_path = p, fs_content = c,
     fs_revision = (case lookup (git_revisions r) p of Some g \<Rightarrow> g | None \<Rightarrow> git_head r)\<rparr>) (entries_at p (git_files r))"
  by (simp add: files_at_def snapshot_files_def filter_map comp_def case_prod_unfold)

lemma committed_file:
  assumes "length (files_at p (snapshot_files r)) \<le> Suc 0" "List.find (\<lambda>c. ch_path c = p) (rev cs) = Some c" "audit_path m \<noteq> p"
  shows "files_at p (snapshot_files (committed C expected cs m r)) =
    [\<lparr>fs_path = p, fs_content = ch_content c, fs_revision = git_head (committed C expected cs m r)\<rparr>]"
proof -
  let ?r = "committed C expected cs m r"
  have "length (entries_at p (git_files r)) \<le> Suc 0" using assms(1) by (simp add: files_at_snapshot)
  then have "length (entries_at p (git_files ?r)) \<le> Suc 0"
    by (simp add: committed_def Let_def entries_put_le entries_write_le)
  moreover have "lookup (git_files ?r) p = Some (ch_content c)"
    using assms(2,3) by (simp add: committed_def Let_def lookup_write_files)
  ultimately have one: "entries_at p (git_files ?r) = [(p, ch_content c)]" by (rule single_entry)
  have "p \<in> ch_path ` set cs" using find_Some_iff [OF assms(2)] by force
  then have "lookup (git_revisions ?r) p = Some (git_head ?r)"
    using assms(3) by (simp add: committed_def Let_def lookup_write_revisions)
  then show ?thesis by (simp add: files_at_snapshot one)
qed

section \<open>The commit of one provider\<close>

lemma delivery_applied:
  assumes "mo_apply (delivery_options S p i) g req now w = (Inr resp, w')" "projection_of (dc_household i) w = Inr pr"
  shows "projection_of (dc_household i) w' = Inr (project_delivery (sv_codec S) i g pr)" "git_object_id_ok g"
    "\<exists>f. w_store w' = (w_store w)\<lparr>st_projections := adjust (dc_household i) f (st_projections (w_store w))\<rparr>"
proof -
  from assms(1) obtain u where u: "change_projection (dc_household i) (project_delivery (sv_codec S) i g) w = (Inr u, w')" "git_object_id_ok g"
    by (auto simp: delivery_options_def household_mutation_def parsed_def elim!: action_elims)
  then show "projection_of (dc_household i) w' = Inr (project_delivery (sv_codec S) i g pr)" "git_object_id_ok g"
    using change_projection_result [OF u(1) assms(2)] by simp_all
  show "\<exists>f. w_store w' = (w_store w)\<lparr>st_projections := adjust (dc_household i) f (st_projections (w_store w))\<rparr>"
    using u(1) by (auto simp: change_projection_def store_try_def update_or_throw_def and_then_def split: sum.splits)
qed

text \<open>The household and its members after the refresh that ends a call.\<close>

lemma refreshed_access:
  assumes "update_household_head h g s0 = Inr s" "business w' = (refresh_members h g s)\<lparr>st_mutations := []\<rparr>"
    and "st_households s0 = st_households (w_store w)" "st_memberships s0 = st_memberships (w_store w)"
  shows "\<exists>hh. get_household h (w_store w) = Some hh \<and> get_household h (w_store w') = Some (hh\<lparr>h_head := g\<rparr>)"
    and "memberships_ok (w_store w) \<longrightarrow> (\<forall>u. get_membership h u (w_store w') = map_option (\<lambda>m. m\<lparr>m_head := g\<rparr>) (get_membership h u (w_store w)))"
proof -
  have s: "st_households s = adjust h (\<lambda>r. r\<lparr>h_head := g\<rparr>) (st_households (w_store w))" "st_memberships s = st_memberships (w_store w)"
    "get_household h s0 \<noteq> None"
    using assms(1,3,4) by (auto simp: update_household_head_def update_household_def split: option.splits)
  have w': "st_households (w_store w') = st_households s" "st_memberships (w_store w') = st_memberships (refresh_members h g s)"
    using arg_cong [OF assms(2), of st_households] arg_cong [OF assms(2), of st_memberships]
    by (simp_all add: business_def refresh_members_households)
  show "\<exists>hh. get_household h (w_store w) = Some hh \<and> get_household h (w_store w') = Some (hh\<lparr>h_head := g\<rparr>)"
    using s(1,3) w'(1) assms(3) by (auto simp: get_household_def lookup_adjust)
  have member: "get_membership h u t = get_membership h u t'" if "st_memberships t = st_memberships t'" for u and t t' :: op_store
    using that by (simp add: get_membership_def)
  show "memberships_ok (w_store w) \<longrightarrow> (\<forall>u. get_membership h u (w_store w') = map_option (\<lambda>m. m\<lparr>m_head := g\<rparr>) (get_membership h u (w_store w)))"
    using get_membership_refresh [of s h] memberships_ok_cong [OF s(2)] member [OF w'(2)] member [OF s(2)] by simp
qed

text \<open>A first successful commit: what was checked, and the state it leaves.\<close>

lemma delivery_first_call:
  assumes call: "commit_delivery_index S p c i w = (Inr res, w')" and first: "first_call (delivery_options S p i) c w"
    and pr: "projection_of (dc_household i) w = Inr pr"
  obtains r m st where "lookup (w_repos w) (dc_household i) = Some r" "delivery_commit_ok (sv_host S) i"
    "delivery_canonical_state (sv_host S) (snapshot_files r) = Inr st"
    "validate_expected_state (sv_codec S) i st = Inr ()" "validate_delivery_commit S p i pr st = Inr ()"
    "lookup (w_repos w') (dc_household i) = Some (committed (sv_codec S) (git_head r) (delivery_changes (sv_codec S) i) m r)"
    "git_head (committed (sv_codec S) (git_head r) (delivery_changes (sv_codec S) i) m r) = res_head res"
    "projection_of (dc_household i) w' = Inr (project_delivery (sv_codec S) i (res_head res) pr)" "git_object_id_ok (res_head res)"
    "check_authority (delivery_options S p i) w (git_head r) = Inr ()"
    "\<exists>hh. get_household (dc_household i) (w_store w) = Some hh \<and> get_household (dc_household i) (w_store w') = Some (hh\<lparr>h_head := res_head res\<rparr>)"
    "memberships_ok (w_store w) \<longrightarrow> (\<forall>u. get_membership (dc_household i) u (w_store w') =
       map_option (\<lambda>m. m\<lparr>m_head := res_head res\<rparr>) (get_membership (dc_household i) u (w_store w)))"
proof -
  let ?mo = "delivery_options S p i" and ?h = "dc_household i" and ?C = "sv_codec S"
  have run: "run ?C ?mo (ca_at c) (ca_request c) (ca_now c) w = (Inr res, w')" and ok: "delivery_commit_ok (sv_host S) i"
    using call by (auto simp: commit_delivery_index_def run_mutation_def parsed_def dest!: checked_call)
  have first': "unused_request (mo_household ?mo) (ca_request c) w" "existing_mutation ?mo w = None"
    using first by (simp_all add: first_call_def)
  show thesis
  proof (rule fresh_run_repos [OF delivery_framed first' delivery_reads_only run])
    fix head w1 changes g w3 resp w4 s
    assume *: "business w1 = business w" "w_repos w1 = w_repos w" "mo_build ?mo (ca_request c) (ca_now c) w1 = (Inr changes, w1)"
      "repository_head (mo_household ?mo) (w_repos w) = Inr head" "check_authority ?mo w head = Inr ()"
      "commit ?C (mo_household ?mo) head changes (metadata_of ?mo (ca_request c) (ca_now c)) (w_repos w) = Inr (g, w_repos w3)"
      "business w3 = business w" "mo_apply ?mo g (ca_request c) (ca_now c) w3 = (Inr resp, w4)"
      "update_household_head (mo_household ?mo) g (w_store w4) = Inr s"
      "business w' = (refresh_members (mo_household ?mo) g s)\<lparr>st_mutations := []\<rparr>"
      "res = \<lparr>res_data = resp, res_head = g, res_request = ca_request c\<rparr>" "w_repos w' = w_repos w3"
    obtain r where r: "lookup (w_repos w) ?h = Some r" "head = git_head r"
      using *(4) by (auto simp: repository_head_def get_repository_def and_then_Inr_iff split: option.splits)
    have pr1: "projection_of ?h w1 = Inr pr" using pr business_projections [OF *(1)] by simp
    obtain st where st: "delivery_canonical_state (sv_host S) (snapshot_files r) = Inr st" "validate_expected_state ?C i st = Inr ()"
      "validate_delivery_commit S p i pr st = Inr ()" "changes = delivery_changes ?C i"
      using *(2,3) pr1 repository_files_of [of w1 ?h r] r(1)
      by (auto simp: delivery_options_def household_mutation_def elim!: action_elims)
    let ?m = "metadata_of ?mo (ca_request c) (ca_now c)"
    have g: "w_repos w3 = put ?h (committed ?C head changes ?m r) (w_repos w)" "g = git_head (committed ?C head changes ?m r)"
      using *(6) r by (auto simp: commit_def get_repository_def commit_repository_def and_then_Inr_iff split: if_splits)
    have pr3: "projection_of ?h w3 = Inr pr" using pr business_projections [OF *(7)] by simp
    note applied = delivery_applied [OF *(8) pr3]
    obtain f where f: "w_store w4 = (w_store w3)\<lparr>st_projections := f\<rparr>" using applied(3) by blast
    have "projection_of ?h w' = projection_of ?h w4"
      using projection_business [OF *(10)] update_household_projections [OF *(9)]
      by (simp add: get_projection_def refresh_members_projections projection_of_def)
    moreover have "st_households (w_store w4) = st_households (w_store w)" "st_memberships (w_store w4) = st_memberships (w_store w)"
      using arg_cong [OF *(7), of st_households] arg_cong [OF *(7), of st_memberships] f by (simp_all add: business_def)
    note access = refreshed_access [OF *(9,10) [simplified] this]
    ultimately show thesis
      using * r ok st g applied access by (intro that [of r st ?m]) simp_all
  qed
qed

definition sold_by :: "string \<Rightarrow> journal_item \<Rightarrow> bool" where
  "sold_by origin i = (case i of DishItem d \<Rightarrow> dd_provider_origin d = origin | _ \<Rightarrow> False)"

definition sections_of_others :: "string \<Rightarrow> profile_document option \<Rightarrow> provider_selection set" where
  "sections_of_others origin d = (case d of None \<Rightarrow> {} | Some x \<Rightarrow> {s \<in> set (dp_providers (pdoc_profile x)). ps_origin s \<noteq> origin})"

definition rows_of_others :: "string \<Rightarrow> projection \<Rightarrow> report option \<Rightarrow> report_assertion set" where
  "rows_of_others origin pr r = (case r of None \<Rightarrow> {}
     | Some x \<Rightarrow> {a \<in> set (rep_assertions x). set (assertion_origins a (pr_evidence pr) (journal_items pr)) \<noteq> {origin}})"

text \<open>What one projection keeps of another outside one provider.\<close>

definition others_kept :: "string \<Rightarrow> projection \<Rightarrow> projection \<Rightarrow> bool" where
  "others_kept origin pr pr' \<longleftrightarrow> evidence_kept pr pr' \<and>
     (\<forall>e x. lookup (pr_evidence pr) e = None \<and> lookup (pr_evidence pr') e = Some x \<longrightarrow> from_provider origin x) \<and>
     (\<forall>k i r. lookup (pr_items pr) k = Some (i, r) \<and> \<not> sold_by origin i \<longrightarrow> lookup (pr_items pr') k = Some (i, r)) \<and>
     (\<forall>k i r. lookup (pr_items pr') k = Some (i, r) \<and> lookup (pr_items pr) k \<noteq> Some (i, r) \<longrightarrow> sold_by origin i)"

lemma put_evidence_new:
  assumes "distinct (map ev_id es)" "\<And>e. e \<in> set es \<Longrightarrow> lookup evs (ev_id e) = None"
  shows "lookup evs k = Some x \<Longrightarrow> lookup (put_evidence es evs) k = Some x"
    and "lookup evs k = None \<Longrightarrow> lookup (put_evidence es evs) k = Some x \<Longrightarrow> x \<in> set es"
proof -
  have l: "lookup (put_evidence es evs) k = (case List.find (\<lambda>e. ev_id e = k) es of Some e \<Rightarrow> Some e | None \<Rightarrow> lookup evs k)"
    unfolding put_evidence_def by (rule lookup_fold_put [OF assms(1)])
  show "lookup evs k = Some x \<Longrightarrow> lookup (put_evidence es evs) k = Some x"
    using l assms(2) find_Some_iff by (fastforce split: option.splits)
  show "lookup evs k = None \<Longrightarrow> lookup (put_evidence es evs) k = Some x \<Longrightarrow> x \<in> set es"
    using l find_Some_iff by (fastforce split: option.splits)
qed

lemma put_items_new:
  assumes "distinct (map item_id_of is)"
  shows "lookup (put_items g is m) k = (case List.find (\<lambda>i. item_id_of i = k) is of Some i \<Rightarrow> Some (i, g) | None \<Rightarrow> lookup m k)"
  unfolding put_items_def by (rule lookup_fold_put [OF assms])

lemma validated_commit:
  assumes "validate_delivery_commit S p i pr st = Inr ()"
  shows "\<And>e. e \<in> set (dc_evidence i) \<Longrightarrow> lookup (pr_evidence pr) (ev_id e) = None \<and> ev_actor e = p_actor p"
    and "\<And>d. d \<in> set (dc_items i) \<Longrightarrow> commit_item_ok i pr d = Inr ()"
    and "validate_delivery_evidence_groups (sv_host S) (put_evidence (dc_evidence i) (pr_evidence pr)) = Inr ()"
    and "\<And>d. d \<in> set (dc_items i) \<Longrightarrow> validate_item_evidence (DishItem d) (put_evidence (dc_evidence i) (pr_evidence pr)) = Inr ()"
    and "validate_delivery_index_report (dc_next_report i) (put_evidence (dc_evidence i) (pr_evidence pr))
       (put_dishes (dc_items i) (journal_items pr)) = Inr ()"
    and "profile_scope_ok (sv_codec S) (map_option fst (ds_profile st)) (dc_next_profile i) (dc_origin i) = Inr ()"
    and "report_scope_ok (sv_codec S) (map_option fst (ds_report st)) (dc_next_report i) (dc_origin i)
       (map_option (\<lambda>(d, _). pdoc_profile d) (ds_profile st)) pr (put_evidence (dc_evidence i) (pr_evidence pr)) (put_dishes (dc_items i) (journal_items pr)) = Inr ()"
  using assms by (auto simp: validate_delivery_commit_def Let_def and_then_Inr_iff each_ok_Inr_iff commit_evidence_ok_def)

lemma project_delivery_fields:
  "pr_evidence (project_delivery C i g pr) = put_evidence (dc_evidence i) (pr_evidence pr)"
  "pr_items (project_delivery C i g pr) = put_items g (map DishItem (dc_items i)) (pr_items pr)"
  by (simp_all add: project_delivery_def project_entries_def Let_def)

lemma commit_keeps_others:
  assumes ok: "delivery_commit_ok H i" and v: "validate_delivery_commit S p i pr st = Inr ()"
  shows "others_kept (dc_origin i) pr (project_delivery C i g pr)"
proof -
  let ?o = "dc_origin i" and ?is = "map DishItem (dc_items i)"
  have d: "distinct (map ev_id (dc_evidence i))" "distinct (map item_id_of ?is)"
    and own: "\<And>e. e \<in> set (dc_evidence i) \<Longrightarrow> from_provider ?o e" "\<And>d. d \<in> set (dc_items i) \<Longrightarrow> dd_provider_origin d = ?o"
    using ok by (auto simp: delivery_commit_ok_def list_all_iff comp_def)
  have new: "\<And>e. e \<in> set (dc_evidence i) \<Longrightarrow> lookup (pr_evidence pr) (ev_id e) = None" using validated_commit(1) [OF v] by blast
  note items = put_items_new [OF d(2), of g "pr_items pr"]
  have found: "\<exists>d\<in>set (dc_items i). x = DishItem d \<and> it_id d = k" if "List.find (\<lambda>j. item_id_of j = k) ?is = Some x" for k x
    using find_Some_iff [OF that] by auto
  have kept: "lookup (put_items g ?is (pr_items pr)) k = Some (x, r)" if "lookup (pr_items pr) k = Some (x, r)" "\<not> sold_by ?o x" for k x r
  proof (cases "List.find (\<lambda>j. item_id_of j = k) ?is")
    case (Some y)
    then obtain d where "d \<in> set (dc_items i)" "it_id d = k" using found by blast
    with validated_commit(2) [OF v this(1)] that show ?thesis
      by (auto simp: commit_item_ok_def sold_by_def split: journal_item.splits)
  qed (use that items in simp)
  have changed: "sold_by ?o x" if "lookup (put_items g ?is (pr_items pr)) k = Some (x, r)" "lookup (pr_items pr) k \<noteq> Some (x, r)" for k x r
    using that items [of k] found [of k] own(2) by (auto simp: sold_by_def split: option.splits)
  show ?thesis
    using put_evidence_new [OF d(1) new] own(1) kept changed unfolding others_kept_def evidence_kept_def project_delivery_fields by blast
qed

section \<open>Sections and rows of other providers\<close>

lemma by_key_lookup: "distinct (map key xs) \<Longrightarrow> lookup (by_key key xs) k = List.find (\<lambda>x. key x = k) xs"
  unfolding by_key_def by (subst lookup_fold_put [where f = "\<lambda>x. x"]) (simp_all split: option.split)

lemma by_key_member: "distinct (map key xs) \<Longrightarrow> x \<in> set xs \<Longrightarrow> lookup (by_key key xs) (key x) = Some x"
proof -
  assume d: "distinct (map key xs)" and x: "x \<in> set xs"
  obtain y where y: "List.find (\<lambda>z. key z = key x) xs = Some y" using x by (cases "List.find (\<lambda>z. key z = key x) xs") (auto simp: find_None_iff)
  then have "y \<in> set xs" "key y = key x" using find_Some_iff by fastforce+
  then have "y = x" using d x by (metis distinct_map inj_onD)
  then show ?thesis using by_key_lookup [OF d] y by simp
qed

lemma by_key_value: "distinct (map key xs) \<Longrightarrow> lookup (by_key key xs) k = Some x \<Longrightarrow> x \<in> set xs \<and> key x = k"
  using by_key_lookup [of key xs k] find_Some_iff by fastforce

lemma keys_of_values: "lookup m k = Some v \<Longrightarrow> k \<in> set (map fst m)"
  by (auto dest: map_of_SomeD intro: rev_image_eqI)

lemma profile_scope_kept:
  assumes scope: "profile_scope_ok C expected next_doc origin = Inr ()"
    and ok: "opt_all (\<lambda>d. delivery_profile_ok H (pdoc_profile d)) expected" "delivery_profile_ok H (pdoc_profile next_doc)"
  shows "sections_of_others origin expected = sections_of_others origin (Some next_doc)"
proof -
  define old where "old = (case expected of None \<Rightarrow> [] | Some d \<Rightarrow> dp_providers (pdoc_profile d))"
  define new where "new = dp_providers (pdoc_profile next_doc)"
  have d: "distinct (map ps_origin old)" "distinct (map ps_origin new)"
    and v: "list_all (provider_selection_ok H) old" "list_all (provider_selection_ok H) new"
    using ok by (auto simp: old_def new_def delivery_profile_ok_def opt_all_def split: option.splits)
  have valid: "opt_all (provider_selection_ok H) (lookup (by_key ps_origin xs) k)"
    if "distinct (map ps_origin xs)" "list_all (provider_selection_ok H) xs" for xs k
    using by_key_value [OF that(1)] that(2) by (auto simp: opt_all_def list_all_iff split: option.split)
  have same: "lookup (by_key ps_origin old) k = lookup (by_key ps_origin new) k" if k: "k \<noteq> origin" for k
  proof (cases "k \<in> set (map fst (by_key ps_origin old) @ map fst (by_key ps_origin new))")
    case True
    then have "same_json C (nullable selection_json (lookup (by_key ps_origin old) k)) (nullable selection_json (lookup (by_key ps_origin new) k))"
      using scope k unfolding profile_scope_ok_def old_def [symmetric] new_def [symmetric] Let_def
      by (auto simp: and_then_Inr_iff each_ok_Inr_iff)
    then show ?thesis by (rule same_selection [OF _ valid [OF d(1) v(1)] valid [OF d(2) v(2)]])
  next
    case False
    then have "k \<notin> set (map fst (by_key ps_origin old))" "k \<notin> set (map fst (by_key ps_origin new))" by simp_all
    then show ?thesis using keys_of_values by (metis not_None_eq)
  qed
  have "s \<in> set old \<longleftrightarrow> s \<in> set new" if "ps_origin s \<noteq> origin" for s
    using same [OF that] by_key_member [OF d(1), of s] by_key_member [OF d(2), of s] by_key_value [OF d(1)] by_key_value [OF d(2)] by metis
  then have "{s \<in> set old. ps_origin s \<noteq> origin} = {s \<in> set new. ps_origin s \<noteq> origin}" by blast
  then show ?thesis by (cases expected) (simp_all add: sections_of_others_def old_def new_def)
qed

lemma report_scope_kept:
  assumes scope: "report_scope_ok C expected next_report origin profile pr evs items = Inr ()"
  shows "rows_of_others origin pr expected \<subseteq> set (rep_assertions next_report)"
    and "\<And>a. a \<in> set (rep_assertions next_report) \<Longrightarrow> (\<forall>r. expected = Some r \<longrightarrow> a \<notin> set (rep_assertions r)) \<Longrightarrow> assertion_origins a evs items = [origin]"
proof -
  define old where "old = (case expected of None \<Rightarrow> [] | Some r \<Rightarrow> rep_assertions r)"
  have scope': "distinct (map ra_row old)" "distinct (map ra_row (rep_assertions next_report))"
    "\<And>a. a \<in> set old \<Longrightarrow> (let origins = assertion_origins a (pr_evidence pr) (journal_items pr) in origins \<noteq> [] \<and> list_all (\<lambda>p. p = origin) origins) \<or>
       same_json C (assertion_json a) (nullable assertion_json (lookup (by_key ra_row (rep_assertions next_report)) (ra_row a)))"
    "\<And>a. a \<in> set (rep_assertions next_report) \<Longrightarrow> same_json C (assertion_json a) (nullable assertion_json (lookup (by_key ra_row old) (ra_row a))) \<or>
       assertion_origins a evs items = [origin]"
    using scope unfolding report_scope_ok_def old_def [symmetric] Let_def
    by (auto simp: and_then_Inr_iff each_ok_Inr_iff unique_rows_def old_def split: option.splits)
  have kept: "a \<in> set (rep_assertions next_report)"
    if "a \<in> set old" "set (assertion_origins a (pr_evidence pr) (journal_items pr)) \<noteq> {origin}" for a
  proof -
    have "\<not> (xs \<noteq> [] \<and> list_all (\<lambda>p. p = origin) xs)" if "set xs \<noteq> {origin}" for xs
      using that by (cases xs) (auto simp: list_all_iff)
    then have "same_json C (assertion_json a) (nullable assertion_json (lookup (by_key ra_row (rep_assertions next_report)) (ra_row a)))"
      using scope'(3) [OF that(1)] that(2) by (auto simp: Let_def)
    from same_assertion [OF this] show ?thesis using by_key_value [OF scope'(2)] by blast
  qed
  show "rows_of_others origin pr expected \<subseteq> set (rep_assertions next_report)"
    using kept by (auto simp: rows_of_others_def old_def split: option.splits)
  show "assertion_origins a evs items = [origin]"
    if a: "a \<in> set (rep_assertions next_report)" "\<forall>r. expected = Some r \<longrightarrow> a \<notin> set (rep_assertions r)" for a
  proof -
    have "a \<notin> set old" using a(2) by (auto simp: old_def split: option.splits)
    then have "lookup (by_key ra_row old) (ra_row a) \<noteq> Some a" using by_key_value [OF scope'(1)] by blast
    then show ?thesis using scope'(4) [OF a(1)] same_assertion by blast
  qed
qed

lemma canonical_profile_ok:
  assumes "delivery_canonical_state H fs = Inr st" "ds_profile st = Some (d, g)"
  shows "delivery_profile_ok H (pdoc_profile d)"
  using assms by (auto simp: delivery_canonical_state_def canonical_profile_def and_then_Inr_iff decode_delivery_profile_def projected_Inr
      dest!: checked_Some split: list.splits prod.splits)

section \<open>A consistent history\<close>

lemma map_put_value: "map (\<lambda>(i, v). (i, f v)) (put k v m) = put k (f v) (map (\<lambda>(i, v). (i, f v)) m)"
  unfolding put_def by (induction m) auto

lemma journal_items_put: "journal_items (pr\<lparr>pr_items := put_items g (map DishItem ds) (pr_items pr)\<rparr>) = put_dishes ds (journal_items pr)"
proof -
  have "map (\<lambda>(i, v). (i, fst v)) (put_items g (map DishItem ds) m) = put_dishes ds (map (\<lambda>(i, v). (i, fst v)) m)" for m
  proof (induction ds arbitrary: m)
    case (Cons d ds)
    then show ?case using map_put_value [of fst "it_id d" "(DishItem d, g)" m] by (simp add: put_items_def put_dishes_def)
  qed (simp add: put_items_def put_dishes_def)
  from this [of "pr_items pr"] show ?thesis by (simp add: journal_items_def case_prod_unfold)
qed

lemma project_delivery_items: "journal_items (project_delivery C i g pr) = put_dishes (dc_items i) (journal_items pr)"
  using journal_items_put [where pr = pr and g = g and ds = "dc_items i"] by (simp add: journal_items_def project_delivery_fields)

definition history_consistent :: "host \<Rightarrow> report \<Rightarrow> projection \<Rightarrow> bool" where
  "history_consistent H r pr \<longleftrightarrow> citations_hold pr \<and> validate_delivery_evidence_groups H (pr_evidence pr) = Inr () \<and>
     validate_delivery_index_report r (pr_evidence pr) (journal_items pr) = Inr ()"

lemma commit_keeps_consistent:
  assumes ok: "delivery_commit_ok H i" and v: "validate_delivery_commit S p i pr st = Inr ()" and cite: "citations_hold pr"
  shows "history_consistent (sv_host S) (dc_next_report i) (project_delivery C i g pr)"
proof -
  have d: "distinct (map ev_id (dc_evidence i))" using ok by (simp add: delivery_commit_ok_def)
  have new: "\<And>e. e \<in> set (dc_evidence i) \<Longrightarrow> lookup (pr_evidence pr) (ev_id e) = None" using validated_commit(1) [OF v] by blast
  have "validate_item_evidence j (put_evidence (dc_evidence i) (pr_evidence pr)) = Inr ()"
    if "(k, j, r) \<in> set (put_items g (map DishItem (dc_items i)) (pr_items pr))" for k j r
    using set_put_items [OF that]
  proof
    assume "(k, j, r) \<in> set (pr_items pr)"
    then have "validate_item_evidence j (pr_evidence pr) = Inr ()" using cite by (auto simp: citations_hold_def)
    then show ?thesis by (rule validate_item_mono) (rule put_evidence_new(1) [OF d new])
  qed (use validated_commit(4) [OF v] in auto)
  then show ?thesis
    using validated_commit(3,5) [OF v]
    by (auto simp: history_consistent_def citations_hold_def project_delivery_fields project_delivery_items)
qed

section \<open>Reading the committed index\<close>

lemma delivery_front_ok: "front_ok (report_frontmatter r)" "front_ok (delivery_profile_fields p)"
proof -
  have "list_all (\<lambda>p. json_ok (snd p)) (report_frontmatter r)" "list_all (\<lambda>p. json_ok (snd p)) (delivery_profile_fields p)"
    using json_ok_delivery(1) [of r] json_ok_delivery(2) [of p] by (auto simp: report_json_def list_all_iff)
  then show "front_ok (report_frontmatter r)" "front_ok (delivery_profile_fields p)"
    by (auto intro!: front_okI simp: report_frontmatter_def delivery_profile_fields_def key_ok_def visible_def)
qed

lemma by_fields_profile: "by_fields (decode_delivery_profile H)"
  unfolding decode_delivery_profile_def by (intro sort_free_intros)

lemma report_document_read:
  assumes "report_ok H r" "rep_type r = DeliveryIndex" "CHR 0x0D \<notin> set (rep_markdown r)"
  shows "read_body ''markdown'' (decode_delivery_report H) (delivery_report_document C r) = Inr r"
  unfolding delivery_report_document_def
proof (rule read_body_printed [OF delivery_front_ok(1) by_fields_report _ _ assms(3)])
  show "decode_delivery_report H (JObj (report_frontmatter r @ [(''markdown'', JStr (rep_markdown r))])) = Some r"
    using report_decoded [OF assms(1,2)] by (simp add: report_json_def)
  show "lookup (report_frontmatter r) ''markdown'' = None" by (simp add: report_frontmatter_def)
qed

lemma profile_document_read:
  assumes "delivery_profile_ok H (pdoc_profile d)" "CHR 0x0D \<notin> set (pdoc_markdown d)"
  shows "\<exists>fm. read_markdown (canonical_delivery_profile C d) = Inr (fm, pdoc_markdown d) \<and> decode_delivery_profile H (JObj fm) = Some (pdoc_profile d)"
proof -
  have "decode_delivery_profile H (JObj (front_order C (delivery_profile_fields (pdoc_profile d)))) = Some (pdoc_profile d)"
    using by_fields_profile front_order_lookup delivery_profile_decoded [OF assms(1)] unfolding by_fields_def by metis
  then show ?thesis using read_markdown_printed [OF delivery_front_ok(2) assms(2)] by (simp add: canonical_delivery_profile_def)
qed

lemma committed_state_read:
  fixes C :: codec and expected :: git_object_id and m :: commit_metadata
  assumes st: "delivery_canonical_state H (snapshot_files r) = Inr st" and ok: "delivery_commit_ok H i"
    and plain: "CHR 0x0D \<notin> set (pdoc_markdown (dc_next_profile i))" "CHR 0x0D \<notin> set (rep_markdown (dc_next_report i))"
  defines "r' \<equiv> committed C expected (delivery_changes C i) m r"
  shows "delivery_canonical_state H (snapshot_files r') =
    Inr \<lparr>ds_profile = Some (dc_next_profile i, git_head r'), ds_report = Some (dc_next_report i, git_head r')\<rparr>"
proof -
  have one: "length (files_at delivery_profile_path (snapshot_files r)) \<le> Suc 0" "length (files_at delivery_index_report_path (snapshot_files r)) \<le> Suc 0"
    using st by (auto simp: delivery_canonical_state_def and_then_Inr_iff)
  have audit: "audit_path m \<noteq> delivery_profile_path" "audit_path m \<noteq> delivery_index_report_path"
    by (auto simp: audit_path_def delivery_profile_path_def delivery_index_report_path_def)
  have last: "List.find (\<lambda>c. ch_path c = delivery_profile_path) (rev (delivery_changes C i)) =
      Some (replaced delivery_profile_path (canonical_delivery_profile C (dc_next_profile i)))"
    "List.find (\<lambda>c. ch_path c = delivery_index_report_path) (rev (delivery_changes C i)) =
      Some (replaced delivery_index_report_path (delivery_report_document C (dc_next_report i)))"
    by (simp_all add: delivery_changes_def replaced_def delivery_profile_path_def delivery_index_report_path_def)
  have files: "files_at delivery_profile_path (snapshot_files r') =
      [\<lparr>fs_path = delivery_profile_path, fs_content = canonical_delivery_profile C (dc_next_profile i), fs_revision = git_head r'\<rparr>]"
    "files_at delivery_index_report_path (snapshot_files r') =
      [\<lparr>fs_path = delivery_index_report_path, fs_content = delivery_report_document C (dc_next_report i), fs_revision = git_head r'\<rparr>]"
    using committed_file [OF one(1) last(1) audit(1)] committed_file [OF one(2) last(2) audit(2)]
    by (simp_all add: r'_def replaced_def)
  have "report_ok H (dc_next_report i)" "rep_type (dc_next_report i) = DeliveryIndex" "delivery_profile_ok H (pdoc_profile (dc_next_profile i))"
    using ok by (simp_all add: delivery_commit_ok_def index_report_ok_def profile_document_ok_def)
  note docs = report_document_read [OF this(1,2) plain(2), of C] profile_document_read [OF this(3) plain(1), of C]
  have "canonical_report H (snapshot_files r') = Inr (Some (dc_next_report i, git_head r'))"
    by (simp add: canonical_report_def files(2) docs(1))
  moreover have "canonical_profile H (snapshot_files r') = Inr (Some (dc_next_profile i, git_head r'))"
    using docs(2) by (auto simp: canonical_profile_def files(1) projected_def)
  ultimately show ?thesis by (simp add: delivery_canonical_state_def files guard_def)
qed

section \<open>A commit\<close>

definition eats_host :: host where
  "eats_host = home_host\<lparr>parse_url := (\<lambda>s. Some \<lparr>u_protocol = ''https:'', u_username = [], u_password = [], u_pathname = ''/'', u_search = [],
     u_hash = [], u_origin = ''https://eats.test''\<rparr>)\<rparr>"

definition eats_service :: service where "eats_service = home_service\<lparr>sv_host := eats_host\<rparr>"

definition eats_line :: order_line where
  "eats_line = \<lparr>ol_provider_label = ''Eats'', ol_provider_origin = ''https://eats.test/'', ol_order_locator = ''order-1'', ol_group_locator = ''group-1'',
     ol_order_date = ''2024-01-01'', ol_fulfillment = Delivery, ol_declared_count = 1, ol_line_key = ''line-1'',
     ol_restaurant = \<lparr>rs_name = ''Noodle house'', rs_location = ''Main street'', rs_address = None, rs_merchant = ''m1''\<rparr>,
     ol_dish = ''Ramen'', ol_quantity = 1, ol_modifiers = [], ol_historical_locator = None, ol_classification = Food\<rparr>"

definition eats_evidence :: evidence where
  "eats_evidence = \<lparr>ev_id = ''evd_2222222222222222'', ev_observed = noon, ev_date = Some ''2024-01-01'', ev_precision = Day,
     ev_source_type = ''delivery_provider'', ev_source_label = ''Eats'', ev_locator = ''order-1'', ev_summary = ''Ramen'',
     ev_actor = ''act_0000000000000000'', ev_limitations = [], ev_supersedes = None, ev_body = DeliveryLineEvidence eats_line\<rparr>"

definition eats_dish :: dish_item where
  "eats_dish = \<lparr>it_id = ''itm_2222222222222222'', it_evidence = [''evd_2222222222222222''], it_created = noon, it_updated = noon, it_body = [],
     dd_dish = ''Ramen'', dd_provider_label = ''Eats'', dd_provider_origin = ''https://eats.test/'', dd_restaurant = ''Noodle house'',
     dd_location = ''Main street'', dd_address = None, dd_image = None, dd_image_page = None, dd_merchant = ''m1'', dd_menu_locators = [],
     dd_occurrences = [(''evd_2222222222222222'', [])], dd_classification = Food\<rparr>"

definition eats_profile :: profile_document where
  "eats_profile = \<lparr>pdoc_profile = \<lparr>dp_providers = [\<lparr>ps_label = ''Eats'', ps_origin = ''https://eats.test/'', ps_start = ''2023-01-01'',
       ps_end = ''2024-01-02'', ps_cursor = None\<rparr>], dp_preferences = []\<rparr>, pdoc_markdown = ''Weekday suppers''\<rparr>"

definition eats_report :: report where
  "eats_report = \<lparr>rep_type = DeliveryIndex, rep_markdown = ''Ramen once'', rep_assertions = [\<lparr>ra_row = ''ramen'', ra_items = [''itm_2222222222222222''],
     ra_evidence = [''evd_2222222222222222''], ra_order_count = Some 1, ra_last_date = Some ''2024-01-01''\<rparr>]\<rparr>"

definition eats_commit :: delivery_commit where
  "eats_commit = \<lparr>dc_household = home_id, dc_head = home_head, dc_key = ''delivery-1'', dc_mode = LocalPromotion, dc_origin = ''https://eats.test/'',
     dc_profile_revision = None, dc_report_revision = None, dc_expected_profile = None, dc_next_profile = eats_profile, dc_expected_report = None,
     dc_next_report = eats_report, dc_evidence = [eats_evidence], dc_items = [eats_dish], dc_revisions = []\<rparr>"

lemma eats_documents_ok:
  "parse_provider_origin eats_host ''https://eats.test/'' = Some ''https://eats.test/''"
  "evidence_ok eats_host eats_evidence" "delivery_profile_ok eats_host (pdoc_profile eats_profile)"
  "from_provider ''https://eats.test/'' eats_evidence" "dd_provider_origin eats_dish = ''https://eats.test/''"
  "idempotency_key_ok ''delivery-1''" "opaque_id_ok ''hsh'' home_id" "git_object_id_ok home_head"
  "rep_type eats_report = DeliveryIndex" "delivery_line_of eats_evidence = Some (eats_evidence, eats_line)" "pdoc_markdown eats_profile = ''Weekday suppers''"
  by code_simp+

lemma eats_dish_ok: "dish_ok eats_host eats_dish"
proof -
  have "trimmed_len 1 500 ''Ramen''" "trimmed_len 1 300 ''Noodle house''" "trimmed_len 1 500 ''Main street''" "trimmed_len 1 120 ''Eats''"
    "private_locator_ok 512 ''m1''" "opaque_id_ok ''evd'' ''evd_2222222222222222''" "opaque_id_ok ''itm'' ''itm_2222222222222222''"
    "dish_issues eats_dish = []" "valid_datetime eats_host noon"
    by code_simp+
  then show ?thesis using eats_documents_ok(1)
    by (simp add: dish_ok_def item_base_ok_def eats_dish_def opt_all_def list_len_def str_len_def)
qed

lemma eats_report_ok: "report_ok eats_host eats_report"
proof -
  have "list_all (report_assertion_ok eats_host) (rep_assertions eats_report)" by code_simp
  then show ?thesis by (simp add: report_ok_def eats_report_def list_len_def str_len_def)
qed

lemma eats_fields:
  "dc_household eats_commit = home_id" "dc_head eats_commit = home_head" "dc_key eats_commit = ''delivery-1''"
  "dc_origin eats_commit = ''https://eats.test/''" "dc_evidence eats_commit = [eats_evidence]" "dc_items eats_commit = [eats_dish]"
  "dc_next_profile eats_commit = eats_profile" "dc_next_report eats_commit = eats_report" "dc_revisions eats_commit = []"
  "dc_expected_profile eats_commit = None" "dc_expected_report eats_commit = None" "dc_profile_revision eats_commit = None" "dc_report_revision eats_commit = None"
  by (simp_all add: eats_commit_def)

lemma eats_commit_ok: "delivery_commit_ok eats_host eats_commit"
  using eats_documents_ok eats_dish_ok eats_report_ok
  by (simp add: delivery_commit_ok_def eats_fields opt_all_def profile_document_ok_def index_report_ok_def list_len_def str_len_def revisions_ok_def)
    (simp add: eats_profile_def)

lemma eats_commit_valid:
  "validate_expected_state (sv_codec eats_service) eats_commit \<lparr>ds_profile = None, ds_report = None\<rparr> = Inr ()"
  "validate_delivery_commit eats_service home_principal eats_commit home_pantry \<lparr>ds_profile = None, ds_report = None\<rparr> = Inr ()"
  by code_simp+

lemma eats_paths: "c \<in> set (delivery_changes C eats_commit) \<Longrightarrow> validate_repository_path (ch_path c) = Inr ()"
proof -
  have "validate_repository_path (journal_evidence_path eats_evidence) = Inr ()" "validate_repository_path (journal_item_path (DishItem eats_dish)) = Inr ()"
    "validate_repository_path delivery_profile_path = Inr ()" "validate_repository_path delivery_index_report_path = Inr ()"
    by code_simp+
  then show "c \<in> set (delivery_changes C eats_commit) \<Longrightarrow> validate_repository_path (ch_path c) = Inr ()"
    by (auto simp: delivery_changes_def eats_fields evidence_change_def appended_def item_change_def replaced_def)
qed

lemma eats_runs:
  obtains res w' where "commit_delivery_index eats_service home_principal home_call eats_commit (home_world home_pantry []) = (Inr res, w')"
proof -
  let ?mo = "delivery_options eats_service home_principal eats_commit"
  let ?changes = "delivery_changes (sv_codec eats_service) eats_commit"
  have host: "sv_host eats_service = eats_host" by (simp add: eats_service_def)
  have files: "repository_files home_id w = Inr []" if "w_repos w = w_repos (home_world home_pantry [])" for w
    using that by (simp add: repository_files_def snapshot_def get_repository_def)
  have empty: "delivery_canonical_state H [] = Inr \<lparr>ds_profile = None, ds_report = None\<rparr>" for H
    by (simp add: delivery_canonical_state_def files_at_def canonical_profile_def canonical_report_def guard_def)
  have "mo_build ?mo ''r'' 0 w = (Inr ?changes, w)"
    if "business w = business (home_world home_pantry [])" "w_repos w = w_repos (home_world home_pantry [])" for w
    using home_projection [OF that(1)] files [OF that(2)] empty eats_commit_valid
    by (simp add: delivery_options_def household_mutation_def eats_fields check_def demand_def effect_simps)
  moreover have "\<exists>resp w'. mo_apply ?mo g ''r'' 0 w = (Inr resp, w') \<and> get_household home_id (w_store w') \<noteq> None"
    if "git_object_id_ok g" "business w = business (home_world home_pantry [])" for g w
    by (rule home_changed [OF that(2), of "project_delivery (sv_codec eats_service) eats_commit g"])
      (use that(1) in \<open>simp add: delivery_options_def household_mutation_def eats_fields effect_simps parsed_def guard_def check_def\<close>)
  moreover have "git_object_id_ok (sha256 (sv_codec eats_service) t)" for t
    by (simp add: eats_service_def home_service_def) code_simp
  ultimately have "\<exists>res w'. run_mutation eats_service home_call ?mo (home_world home_pantry []) = (Inr res, w')"
    by (intro home_run_where [where changes = ?changes and Q = git_object_id_ok] delivery_framed eats_paths)
      (auto simp: delivery_options_def household_mutation_def eats_fields home_principal_def)
  then show thesis
    using eats_commit_ok that by (auto simp: commit_delivery_index_def host check_def parsed_def guard_def effect_simps)
qed

lemma eats_first_call: "first_call (delivery_options eats_service home_principal eats_commit) home_call (home_world home_pantry [])"
  by (rule home_first_call) (simp add: eats_fields)

section \<open>One provider at a time\<close>

text \<open>C5: A delivery commit touches one provider. After a first successful commit for a provider, every record of evidence is as it was and
  the new ones are order lines of that provider; every item that is not a dish of that provider is as it was, and what changed are its dishes;
  the profile sections of all other providers are the ones the repository held; and every report row that cited anything else than that provider
  alone is in the new report.\<close>
theorem delivery_commit_touches_one_provider:
  assumes "commit_delivery_index S p c i w = (Inr res, w')" "first_call (delivery_options S p i) c w" "projection_of (dc_household i) w = Inr pr"
    and "repository_files (dc_household i) w = Inr fs" "delivery_canonical_state (sv_host S) fs = Inr st"
  shows "(\<exists>pr'. projection_of (dc_household i) w' = Inr pr' \<and> others_kept (dc_origin i) pr pr') \<and>
    sections_of_others (dc_origin i) (map_option fst (ds_profile st)) = sections_of_others (dc_origin i) (Some (dc_next_profile i)) \<and>
    rows_of_others (dc_origin i) pr (map_option fst (ds_report st)) \<subseteq> set (rep_assertions (dc_next_report i))"
  using assms(1-3)
proof (rule delivery_first_call)
  fix r m st'
  assume *: "lookup (w_repos w) (dc_household i) = Some r" "delivery_commit_ok (sv_host S) i"
    "delivery_canonical_state (sv_host S) (snapshot_files r) = Inr st'" "validate_delivery_commit S p i pr st' = Inr ()"
    "projection_of (dc_household i) w' = Inr (project_delivery (sv_codec S) i (res_head res) pr)"
  have st: "st' = st" using assms(4,5) *(1,3) repository_files_of by auto
  have "opt_all (\<lambda>d. delivery_profile_ok (sv_host S) (pdoc_profile d)) (map_option fst (ds_profile st'))"
    using canonical_profile_ok [OF *(3)] by (auto simp: opt_all_def split: option.splits)
  moreover have "delivery_profile_ok (sv_host S) (pdoc_profile (dc_next_profile i))"
    using *(2) by (simp add: delivery_commit_ok_def profile_document_ok_def)
  ultimately show ?thesis
    using profile_scope_kept [OF validated_commit(6) [OF *(4)]] report_scope_kept(1) [OF validated_commit(7) [OF *(4)]]
      commit_keeps_others [OF *(2,4)] *(5) by (simp add: st)
qed

theorem delivery_commit_touches_one_provider_witness:
  "\<exists>res w' pr'. commit_delivery_index eats_service home_principal home_call eats_commit (home_world home_pantry []) = (Inr res, w') \<and>
     projection_of home_id w' = Inr pr' \<and> others_kept ''https://eats.test/'' home_pantry pr'"
proof (rule eats_runs)
  fix res w'
  assume run: "commit_delivery_index eats_service home_principal home_call eats_commit (home_world home_pantry []) = (Inr res, w')"
  have "repository_files (dc_household eats_commit) (home_world home_pantry []) = Inr []"
    by (simp add: eats_fields repository_files_def snapshot_def get_repository_def)
  moreover have "delivery_canonical_state (sv_host eats_service) [] = Inr \<lparr>ds_profile = None, ds_report = None\<rparr>"
    by (simp add: delivery_canonical_state_def files_at_def canonical_profile_def canonical_report_def guard_def)
  ultimately show ?thesis
    using delivery_commit_touches_one_provider [OF run eats_first_call, of home_pantry] run by (auto simp: eats_fields)
qed

section \<open>The history stays consistent\<close>

text \<open>C6: A delivery commit leaves a consistent history. When every item of the household was supported, then after a first successful
  commit every item still is, all order lines form complete orders, and the committed report is valid for the new evidence and items: these are
  the checks on which a rebuild of the household and the reading of its index depend.\<close>
theorem delivery_commit_keeps_history_consistent:
  assumes "commit_delivery_index S p c i w = (Inr res, w')" "first_call (delivery_options S p i) c w" "projection_of (dc_household i) w = Inr pr"
    and "citations_hold pr"
  shows "\<exists>pr'. projection_of (dc_household i) w' = Inr pr' \<and> history_consistent (sv_host S) (dc_next_report i) pr'"
  using assms(1-3)
proof (rule delivery_first_call)
  fix r m st
  assume *: "delivery_commit_ok (sv_host S) i" "validate_delivery_commit S p i pr st = Inr ()"
    "projection_of (dc_household i) w' = Inr (project_delivery (sv_codec S) i (res_head res) pr)"
  then show ?thesis using commit_keeps_consistent [OF *(1,2) assms(4)] by simp
qed

theorem delivery_commit_keeps_history_consistent_witness:
  "\<exists>res w' pr'. commit_delivery_index eats_service home_principal home_call eats_commit (home_world home_pantry []) = (Inr res, w') \<and>
     projection_of home_id w' = Inr pr' \<and> history_consistent eats_host eats_report pr'"
proof (rule eats_runs)
  fix res w'
  assume run: "commit_delivery_index eats_service home_principal home_call eats_commit (home_world home_pantry []) = (Inr res, w')"
  show ?thesis
    using delivery_commit_keeps_history_consistent [OF run eats_first_call _ home_pantry_supported] run by (auto simp: eats_fields eats_service_def)
qed

section \<open>The index is read back\<close>

text \<open>C7: Every member reads the committed index. After a first successful delivery commit whose prose has Unix line ends, on a journal whose
  items were all supported by its evidence and whose memberships are stored under their keys, whoever is an active member with the scope to read gets exactly the committed report, under the revision and the head of the commit; so the next commit
  can state what it expects.\<close>
theorem committed_index_is_read_back:
  assumes call: "commit_delivery_index S p c i w = (Inr res, w')" and first: "first_call (delivery_options S p i) c w"
    and pr: "projection_of (dc_household i) w = Inr pr" and cite: "citations_hold pr" and ok: "memberships_ok (w_store w)"
    and member: "get_membership (dc_household i) (p_user q) (w_store w) \<noteq> None" and scope: "JournalRead \<in> set (p_scopes q)"
    and plain: "CHR 0x0D \<notin> set (pdoc_markdown (dc_next_profile i))" "CHR 0x0D \<notin> set (rep_markdown (dc_next_report i))"
  shows "get_delivery_index S q (dc_household i) w' =
    Inr ([(''report'', report_json (dc_next_report i)), (''revision'', JStr (res_head res))], Some (res_head res))"
  using call first pr
proof (rule delivery_first_call)
  let ?h = "dc_household i" and ?g = "res_head res"
  fix r m st
  let ?r = "committed (sv_codec S) (git_head r) (delivery_changes (sv_codec S) i) m r"
  assume *: "lookup (w_repos w) ?h = Some r" "delivery_commit_ok (sv_host S) i" "delivery_canonical_state (sv_host S) (snapshot_files r) = Inr st"
    "validate_delivery_commit S p i pr st = Inr ()" "lookup (w_repos w') ?h = Some ?r" "git_head ?r = ?g"
    "projection_of ?h w' = Inr (project_delivery (sv_codec S) i ?g pr)" "git_object_id_ok ?g"
    "check_authority (delivery_options S p i) w (git_head r) = Inr ()"
    "\<exists>hh. get_household ?h (w_store w) = Some hh \<and> get_household ?h (w_store w') = Some (hh\<lparr>h_head := ?g\<rparr>)"
    "memberships_ok (w_store w) \<longrightarrow> (\<forall>u. get_membership ?h u (w_store w') = map_option (\<lambda>m. m\<lparr>m_head := ?g\<rparr>) (get_membership ?h u (w_store w)))"
  obtain hh where hh: "get_household ?h (w_store w) = Some hh" "get_household ?h (w_store w') = Some (hh\<lparr>h_head := ?g\<rparr>)" using *(10) by blast
  have ready: "h_provisioning hh = Ready"
    using *(9) hh(1) by (auto simp: check_authority_def delivery_options_def household_mutation_def and_then_Inr_iff require_membership_Inr)
  obtain me where me: "get_membership ?h (p_user q) (w_store w) = Some me" using member by blast
  have "require_membership (w_store w') q ?h Viewer = Inr (me\<lparr>m_head := ?g\<rparr>)"
    using *(11) ok me hh ready by (simp add: require_membership_Inr rank_def)
  moreover have "history_consistent (sv_host S) (dc_next_report i) (project_delivery (sv_codec S) i ?g pr)"
    by (rule commit_keeps_consistent [OF *(2,4) cite])
  moreover have "opaque_id_ok ''hsh'' ?h" using *(2) by (simp add: delivery_commit_ok_def)
  ultimately show ?thesis
    using scope hh(2) *(5-8) committed_state_read [OF *(3,2) plain, of "sv_codec S" "git_head r" m] repository_files_of [OF *(5)]
    by (simp add: get_delivery_index_def authorized_delivery_projection_def parsed_def guard_def require_scope_def member_of_def
        required_household_def repository_head_def get_repository_def history_consistent_def)
qed

theorem committed_index_is_read_back_witness:
  "\<exists>res w'. commit_delivery_index eats_service home_principal home_call eats_commit (home_world home_pantry []) = (Inr res, w') \<and>
     get_delivery_index eats_service (home_principal\<lparr>p_user := ''v''\<rparr>) home_id w' =
       Inr ([(''report'', report_json eats_report), (''revision'', JStr (res_head res))], Some (res_head res))"
proof (rule eats_runs)
  fix res w'
  assume run: "commit_delivery_index eats_service home_principal home_call eats_commit (home_world home_pantry []) = (Inr res, w')"
  have "memberships_ok (w_store (home_world home_pantry []))"
    by (simp add: memberships_ok_def map_ok_def home_world_def home_member_def empty_store_def)
  moreover have "get_membership home_id ''v'' (w_store (home_world home_pantry [])) \<noteq> None"
    by (simp add: get_membership_def home_world_def home_member_def)
  moreover have "CHR 0x0D \<notin> set (pdoc_markdown eats_profile)" "CHR 0x0D \<notin> set (rep_markdown eats_report)"
    by (simp_all add: eats_profile_def eats_report_def)
  ultimately show ?thesis
    using committed_index_is_read_back [OF run eats_first_call _ home_pantry_supported, of "home_principal\<lparr>p_user := ''v''\<rparr>"] run
    by (auto simp: eats_fields home_principal_def)
qed

end
