(* ===== verification/OAuthStore.thy ===== *)
theory OAuthStore
  imports JournalOnboarding MarkdownText
begin

text \<open>
  Grants and tokens of the agents a user connected (\<^verbatim>\<open>oauth/types.ts\<close>, \<^verbatim>\<open>oauth/memory-store.ts\<close>),
  and the statements of \<^verbatim>\<open>oauth/neon-store.ts\<close> that behave differently: a code is refused when it is expired, a used token counts
  as reuse whatever its kind, and revoking a token revokes its family.  Both stores offer the operations of one \<open>token_port\<close>.
\<close>

section \<open>Records\<close>

record oauth_client =
  ocl_id :: string
  ocl_name :: string
  ocl_redirects :: "string list"

record oauth_grant =
  ogr_id :: string
  ogr_user :: user_id
  ogr_client :: string
  ogr_scopes :: "oauth_scope list"
  ogr_resource :: string
  ogr_revoked :: "time option"

datatype token_kind = CodeToken | AccessToken | RefreshToken

record oauth_token =
  otk_id :: string
  otk_grant :: string
  otk_kind :: token_kind
  otk_hash :: token_hash
  otk_family :: "string option"
  otk_parent :: "string option"
  otk_challenge :: "string option"
  otk_redirect :: "string option"
  otk_audience :: string
  otk_expires :: time
  otk_used :: "time option"
  otk_revoked :: "time option"

record oauth_identity =
  oid_user :: user_id
  oid_actor :: actor_id
  oid_display :: string

record access_identity =
  acc_identity :: oauth_identity
  acc_client :: string
  acc_scopes :: "oauth_scope list"

record grant_summary =
  gsu_id :: string
  gsu_client :: string
  gsu_name :: string
  gsu_scopes :: "oauth_scope list"

record oauth_store =
  oas_clients :: "(string, oauth_client) js_map"
  oas_grants :: "(string, oauth_grant) js_map"
  oas_tokens :: "(token_hash, oauth_token) js_map"
  oas_identities :: "(user_id, oauth_identity) js_map"

definition empty_oauth_store :: oauth_store where
  "empty_oauth_store = \<lparr>oas_clients = [], oas_grants = [], oas_tokens = [], oas_identities = []\<rparr>"

section \<open>Clients, grants and tokens\<close>

definition add_identity :: "oauth_identity \<Rightarrow> oauth_store \<Rightarrow> oauth_store" where
  "add_identity i s = s\<lparr>oas_identities := put (oid_user i) i (oas_identities s)\<rparr>"

definition get_client :: "string \<Rightarrow> oauth_store \<Rightarrow> oauth_client option" where
  "get_client c s = lookup (oas_clients s) c"

definition save_client :: "oauth_client \<Rightarrow> oauth_store \<Rightarrow> oauth_store" where
  "save_client c s = s\<lparr>oas_clients := put (ocl_id c) c (oas_clients s)\<rparr>"

definition save_grant :: "oauth_grant \<Rightarrow> oauth_store \<Rightarrow> oauth_store" where
  "save_grant g s = s\<lparr>oas_grants := put (ogr_id g) g (oas_grants s)\<rparr>"

definition get_grant :: "string \<Rightarrow> oauth_store \<Rightarrow> oauth_grant option" where
  "get_grant g s = lookup (oas_grants s) g"

definition save_token :: "oauth_token \<Rightarrow> oauth_store \<Rightarrow> oauth_store" where
  "save_token t s = s\<lparr>oas_tokens := put (otk_hash t) t (oas_tokens s)\<rparr>"

definition get_token :: "token_hash \<Rightarrow> oauth_store \<Rightarrow> oauth_token option" where
  "get_token h s = lookup (oas_tokens s) h"

definition list_active_grants :: "codec \<Rightarrow> user_id \<Rightarrow> oauth_store \<Rightarrow> grant_summary list" where
  "list_active_grants C u s = sort_key (\<lambda>g. collation_key C (gsu_id g))
     (map (\<lambda>g. \<lparr>gsu_id = ogr_id g, gsu_client = ogr_client g,
         gsu_name = (case get_client (ogr_client g) s of None \<Rightarrow> ''Connected agent'' | Some c \<Rightarrow> ocl_name c), gsu_scopes = ogr_scopes g\<rparr>)
       (filter (\<lambda>g. ogr_user g = u \<and> ogr_revoked g = None) (vals (oas_grants s))))"

section \<open>Revocation\<close>

text \<open>An update of the tokens that pass a test; with \<open>unrevoked\<close> in the test, a token keeps the time it was revoked first.\<close>

definition revoke_tokens :: "(oauth_token \<Rightarrow> bool) \<Rightarrow> time \<Rightarrow> oauth_store \<Rightarrow> oauth_store" where
  "revoke_tokens P now s =
     s\<lparr>oas_tokens := map (\<lambda>(h, t). (h, if P t then t\<lparr>otk_revoked := Some now\<rparr> else t)) (oas_tokens s)\<rparr>"

definition revoke_grants :: "(string \<Rightarrow> oauth_grant \<Rightarrow> bool) \<Rightarrow> time \<Rightarrow> oauth_store \<Rightarrow> oauth_store" where
  "revoke_grants P now s =
     s\<lparr>oas_grants := map (\<lambda>(i, g). (i, if P i g then g\<lparr>ogr_revoked := Some now\<rparr> else g)) (oas_grants s)\<rparr>"

definition revoke_grant_for_user :: "user_id \<Rightarrow> string \<Rightarrow> time \<Rightarrow> oauth_store \<Rightarrow> bool \<times> oauth_store" where
  "revoke_grant_for_user u i now s = (case get_grant i s of
     None \<Rightarrow> (False, s)
   | Some g \<Rightarrow>
       if ogr_user g \<noteq> u \<or> ogr_revoked g \<noteq> None then (False, s)
       else (True, revoke_tokens (\<lambda>t. otk_grant t = i \<and> otk_revoked t = None) now
              (s\<lparr>oas_grants := put i (g\<lparr>ogr_revoked := Some now\<rparr>) (oas_grants s)\<rparr>)))"

definition revoke_user_access :: "user_id \<Rightarrow> time \<Rightarrow> oauth_store \<Rightarrow> oauth_store" where
  "revoke_user_access u now s =
     (let ids = map ogr_id (filter (\<lambda>g. ogr_user g = u) (vals (oas_grants s))) in
      revoke_tokens (\<lambda>t. otk_grant t \<in> set ids \<and> otk_revoked t = None) now
        (revoke_grants (\<lambda>i g. i \<in> set ids \<and> ogr_revoked g = None) now s))"

section \<open>The port of the tokens\<close>

record code_claim =
  ccl_hash :: token_hash
  ccl_client :: string
  ccl_redirect :: string
  ccl_challenge :: string
  ccl_at :: time

datatype rotation = Rotated | Reuse | InvalidToken

record token_port =
  tpo_consume :: "code_claim \<Rightarrow> oauth_store \<Rightarrow> (oauth_token \<times> oauth_grant) option \<times> oauth_store"
  tpo_rotate :: "token_hash \<Rightarrow> time \<Rightarrow> oauth_token \<Rightarrow> oauth_token \<Rightarrow> oauth_store \<Rightarrow> rotation \<times> oauth_store"
  tpo_revoke :: "token_hash \<Rightarrow> time \<Rightarrow> oauth_store \<Rightarrow> oauth_store"
  tpo_family :: "string \<Rightarrow> time \<Rightarrow> oauth_store \<Rightarrow> oauth_store"

definition code_matches :: "code_claim \<Rightarrow> oauth_token \<Rightarrow> oauth_grant \<Rightarrow> bool" where
  "code_matches c t g \<longleftrightarrow> otk_kind t = CodeToken \<and> otk_used t = None \<and> otk_revoked t = None \<and> otk_redirect t = Some (ccl_redirect c) \<and>
     otk_challenge t = Some (ccl_challenge c) \<and> ogr_client g = ccl_client c \<and> ogr_revoked g = None"

definition consume_authorization_code :: "code_claim \<Rightarrow> oauth_store \<Rightarrow> (oauth_token \<times> oauth_grant) option \<times> oauth_store" where
  "consume_authorization_code c s = (case get_token (ccl_hash c) s of
     None \<Rightarrow> (None, s)
   | Some t \<Rightarrow> (case get_grant (otk_grant t) s of
       None \<Rightarrow> (None, s)
     | Some g \<Rightarrow>
         if code_matches c t g
         then (Some (t, g), s\<lparr>oas_tokens := put (ccl_hash c) (t\<lparr>otk_used := Some (ccl_at c)\<rparr>) (oas_tokens s)\<rparr>)
         else (None, s)))"

definition rotate_refresh_token :: "token_hash \<Rightarrow> time \<Rightarrow> oauth_token \<Rightarrow> oauth_token \<Rightarrow> oauth_store \<Rightarrow> rotation \<times> oauth_store" where
  "rotate_refresh_token h now access refresh s = (case get_token h s of
     None \<Rightarrow> (InvalidToken, s)
   | Some t \<Rightarrow>
       if otk_kind t \<noteq> RefreshToken \<or> otk_revoked t \<noteq> None then (InvalidToken, s)
       else if otk_used t \<noteq> None then (Reuse, s)
       else (Rotated, save_token refresh (save_token access
              (s\<lparr>oas_tokens := put h (t\<lparr>otk_used := Some now\<rparr>) (oas_tokens s)\<rparr>))))"

definition revoke_token :: "token_hash \<Rightarrow> time \<Rightarrow> oauth_store \<Rightarrow> oauth_store" where
  "revoke_token h now s = (case get_token h s of
     None \<Rightarrow> s
   | Some t \<Rightarrow> s\<lparr>oas_tokens := put h (t\<lparr>otk_revoked := Some now\<rparr>) (oas_tokens s)\<rparr>)"

definition revoke_family :: "string \<Rightarrow> time \<Rightarrow> oauth_store \<Rightarrow> oauth_store" where
  "revoke_family f now s = revoke_tokens (\<lambda>t. otk_family t = Some f) now s"

definition memory_port :: token_port where
  "memory_port = \<lparr>tpo_consume = consume_authorization_code, tpo_rotate = rotate_refresh_token, tpo_revoke = revoke_token,
     tpo_family = revoke_family\<rparr>"

definition resolve_access_token :: "token_hash \<Rightarrow> time \<Rightarrow> oauth_store \<Rightarrow> access_identity option" where
  "resolve_access_token h now s = (case get_token h s of
     None \<Rightarrow> None
   | Some t \<Rightarrow>
       if otk_kind t \<noteq> AccessToken \<or> otk_revoked t \<noteq> None \<or> otk_expires t \<le> now then None
       else (case get_grant (otk_grant t) s of
         None \<Rightarrow> None
       | Some g \<Rightarrow> (case lookup (oas_identities s) (ogr_user g) of
           None \<Rightarrow> None
         | Some i \<Rightarrow> if ogr_revoked g \<noteq> None \<or> ogr_resource g \<noteq> otk_audience t then None
             else Some \<lparr>acc_identity = i, acc_client = ogr_client g, acc_scopes = ogr_scopes g\<rparr>)))"

section \<open>The statements of the database\<close>

definition neon_consume_authorization_code :: "code_claim \<Rightarrow> oauth_store \<Rightarrow> (oauth_token \<times> oauth_grant) option \<times> oauth_store" where
  "neon_consume_authorization_code c s = (case get_token (ccl_hash c) s of
     None \<Rightarrow> (None, s)
   | Some t \<Rightarrow> (case get_grant (otk_grant t) s of
       None \<Rightarrow> (None, s)
     | Some g \<Rightarrow>
         if code_matches c t g \<and> ccl_at c < otk_expires t
         then (Some (t, g), s\<lparr>oas_tokens := put (ccl_hash c) (t\<lparr>otk_used := Some (ccl_at c)\<rparr>) (oas_tokens s)\<rparr>)
         else (None, s)))"

definition neon_rotate_refresh_token :: "token_hash \<Rightarrow> time \<Rightarrow> oauth_token \<Rightarrow> oauth_token \<Rightarrow> oauth_store \<Rightarrow> rotation \<times> oauth_store" where
  "neon_rotate_refresh_token h now access refresh s = (case get_token h s of
     None \<Rightarrow> (InvalidToken, s)
   | Some t \<Rightarrow>
       if otk_used t \<noteq> None then (Reuse, s)
       else if otk_kind t \<noteq> RefreshToken \<or> otk_revoked t \<noteq> None \<or> otk_expires t \<le> now then (InvalidToken, s)
       else (Rotated, save_token refresh (save_token access
              (s\<lparr>oas_tokens := put h (t\<lparr>otk_used := Some now\<rparr>) (oas_tokens s)\<rparr>))))"

definition neon_revoke_family :: "string \<Rightarrow> time \<Rightarrow> oauth_store \<Rightarrow> oauth_store" where
  "neon_revoke_family f now s = revoke_tokens (\<lambda>t. otk_family t = Some f \<and> otk_revoked t = None) now s"

definition neon_revoke_token :: "token_hash \<Rightarrow> time \<Rightarrow> oauth_store \<Rightarrow> oauth_store" where
  "neon_revoke_token h now s = (case get_token h s of
     None \<Rightarrow> s
   | Some t \<Rightarrow> (case otk_family t of
       None \<Rightarrow> revoke_tokens (\<lambda>t. otk_hash t = h \<and> otk_revoked t = None) now s
     | Some f \<Rightarrow> neon_revoke_family f now s))"

definition neon_port :: token_port where
  "neon_port = \<lparr>tpo_consume = neon_consume_authorization_code, tpo_rotate = neon_rotate_refresh_token, tpo_revoke = neon_revoke_token,
     tpo_family = neon_revoke_family\<rparr>"

end
