(* ===== verification/OAuthService.thy ===== *)
theory OAuthService
  imports OAuthStore
begin

text \<open>
  The authorization server (\<^verbatim>\<open>oauth/service.ts\<close>, \<^verbatim>\<open>oauth/errors.ts\<close>), the form that approves a request
  (\<^verbatim>\<open>oauth/routes.ts\<close>) and the bearer authenticator (\<^verbatim>\<open>oauth/authenticator.ts\<close>).  URL parsing, hashing and the
  schemas of URLs and mail addresses are fields of \<open>oauth\<close>; identifiers, raw tokens and clock readings are arguments.  A method that
  awaits the store several times is cut into its steps, which \<open>oauth_step\<close> interleaves.
\<close>

section \<open>Configuration and errors\<close>

datatype oauth_error_code = InvalidRequest | InvalidClient | InvalidGrant | InvalidScope | UnsupportedGrantType

datatype oauth_failure = ProtocolError oauth_error_code nat | OtherFailure failure

abbreviation protocol_error :: "oauth_error_code \<Rightarrow> oauth_failure" where
  "protocol_error c \<equiv> ProtocolError c 400"

record oauth_url =
  oul_protocol :: string
  oul_hostname :: string
  oul_username :: string
  oul_password :: string
  oul_hash :: string
  oul_href :: string
  oul_without_hash :: string

record oauth =
  oau_hash :: "string \<Rightarrow> string"
  oau_s256 :: "string \<Rightarrow> string"
  oau_url :: "string \<Rightarrow> oauth_url option"
  oau_zod_url :: "string \<Rightarrow> bool"
  oau_email :: "string \<Rightarrow> bool"
  oau_with_query :: "string \<Rightarrow> (string \<times> string) list \<Rightarrow> string"
  oau_resource :: string

type_synonym 'a oauth_action = "(oauth_failure, oauth_store, 'a) action"

definition ensure :: "oauth_failure + 'a \<Rightarrow> 'a oauth_action" where
  "ensure r = lift_result (\<lambda>_. r)"

section \<open>Parsing\<close>

definition well_formed :: "bool \<Rightarrow> oauth_failure + unit" where
  "well_formed b = guard b (OtherFailure (OtherError ''ZodError''))"

definition new_url :: "oauth \<Rightarrow> string \<Rightarrow> oauth_failure + oauth_url" where
  "new_url A v = (case oau_url A v of None \<Rightarrow> Inl (OtherFailure (OtherError ''TypeError'')) | Some u \<Rightarrow> Inr u)"

definition oauth_scopes :: "(string \<times> oauth_scope) list" where
  "oauth_scopes = map (\<lambda>s. (oauth_scope_text s, s)) [JournalRead, JournalWrite, HouseholdManage, CollectionShare, JournalExport, RunnerMessages]"

definition parse_scopes :: "string \<Rightarrow> oauth_failure + oauth_scope list" where
  "parse_scopes v = (let requested = first_seen (filter (\<lambda>w. w \<noteq> []) (split_on (CHR '' '') v)) in
     if list_ex (\<lambda>w. lookup oauth_scopes w = None) requested then Inl (protocol_error InvalidScope)
     else Inr (List.map_filter (lookup oauth_scopes) requested))"

definition has_same_scopes :: "oauth_scope list \<Rightarrow> oauth_scope list \<Rightarrow> bool" where
  "has_same_scopes l r \<longleftrightarrow> length l = length r \<and> list_all (\<lambda>s. s \<in> set r) l"

definition normalize_redirect_uri :: "oauth \<Rightarrow> string \<Rightarrow> oauth_failure + string" where
  "normalize_redirect_uri A v = and_then (new_url A v) (\<lambda>u.
     and_then (guard (oul_hash u = [] \<and> oul_username u = [] \<and> oul_password u = []) (protocol_error InvalidRequest)) (\<lambda>_.
     and_then (guard (oul_protocol u = ''https:'' \<or>
         oul_protocol u = ''http:'' \<and> (oul_hostname u = ''127.0.0.1'' \<or> oul_hostname u = ''localhost'')) (protocol_error InvalidRequest)) (\<lambda>_.
     Inr (oul_href u))))"

definition normalize_resource :: "oauth \<Rightarrow> string \<Rightarrow> oauth_failure + string" where
  "normalize_resource A v = and_then (new_url A v) (\<lambda>u. Inr (oul_without_hash u))"

definition validate_resource :: "oauth \<Rightarrow> string \<Rightarrow> oauth_failure + string" where
  "validate_resource A v = and_then (normalize_resource A v) (\<lambda>r. and_then (normalize_resource A (oau_resource A)) (\<lambda>expected.
     and_then (guard (r = expected) (protocol_error InvalidRequest)) (\<lambda>_. Inr r)))"

definition verifier_char :: "char \<Rightarrow> bool" where
  "verifier_char c \<longleftrightarrow> is_upper c \<or> is_lower c \<or> is_digit c \<or> c \<in> set ''._~-''"

definition validate_verifier :: "string \<Rightarrow> oauth_failure + unit" where
  "validate_verifier v = guard (str_len 43 128 v \<and> list_all verifier_char v) (protocol_error InvalidGrant)"

definition is_inactive :: "oauth_token \<Rightarrow> time \<Rightarrow> bool" where
  "is_inactive t now \<longleftrightarrow> otk_revoked t \<noteq> None \<or> otk_used t \<noteq> None \<or> otk_expires t \<le> now"

definition add_seconds :: "time \<Rightarrow> int \<Rightarrow> time" where
  "add_seconds t n = t + n * 1000"

section \<open>Registration\<close>

record client_registration =
  crg_name :: string
  crg_redirects :: "string list"
  crg_scope :: "string option"
  crg_links :: "string list"
  crg_contacts :: "string list"
  crg_software :: "string list"

definition client_registration_ok :: "oauth \<Rightarrow> client_registration \<Rightarrow> bool" where
  "client_registration_ok A i \<longleftrightarrow> trimmed_len 1 200 (crg_name i) \<and>
     list_len 1 20 (crg_redirects i) \<and> list_all (\<lambda>u. oau_zod_url A u \<and> length u \<le> 4096) (crg_redirects i) \<and>
     opt_all (str_len 1 512) (crg_scope i) \<and> list_len 0 4 (crg_links i) \<and> list_all (\<lambda>u. oau_zod_url A u \<and> length u \<le> 4096) (crg_links i) \<and>
     list_len 0 20 (crg_contacts i) \<and> list_all (\<lambda>e. oau_email A e \<and> length e \<le> 320) (crg_contacts i) \<and>
     list_len 0 2 (crg_software i) \<and> list_all (str_len 1 200) (crg_software i)"

definition register_client :: "oauth \<Rightarrow> client_registration \<Rightarrow> string \<Rightarrow> oauth_client oauth_action" where
  "register_client A i new_id =
     bind_action (ensure (well_formed (client_registration_ok A i))) (\<lambda>_.
     bind_action (ensure (traverse (normalize_redirect_uri A) (crg_redirects i))) (\<lambda>uris.
     let c = \<lparr>ocl_id = new_id, ocl_name = crg_name i, ocl_redirects = uris\<rparr> in
     bind_action (writes (save_client c)) (\<lambda>_. return c)))"

section \<open>Authorization\<close>

record authorization_input =
  ain_client :: string
  ain_redirect :: string
  ain_scope :: string
  ain_state :: string
  ain_challenge :: string
  ain_resource :: string

record authorization_request =
  arq_client :: string
  arq_name :: string
  arq_redirect :: string
  arq_state :: string
  arq_challenge :: string
  arq_scopes :: "oauth_scope list"
  arq_resource :: string

definition challenge_char :: "char \<Rightarrow> bool" where
  "challenge_char c \<longleftrightarrow> is_upper c \<or> is_lower c \<or> is_digit c \<or> c = CHR ''_'' \<or> c = CHR ''-''"

definition authorization_input_ok :: "oauth \<Rightarrow> authorization_input \<Rightarrow> bool" where
  "authorization_input_ok A i \<longleftrightarrow> str_len 1 2048 (ain_client i) \<and> oau_zod_url A (ain_redirect i) \<and> length (ain_redirect i) \<le> 4096 \<and>
     str_len 1 512 (ain_scope i) \<and> str_len 16 1024 (ain_state i) \<and> length (ain_challenge i) = 43 \<and> list_all challenge_char (ain_challenge i) \<and>
     oau_zod_url A (ain_resource i) \<and> length (ain_resource i) \<le> 4096"

definition validate_authorization_request :: "oauth \<Rightarrow> authorization_input \<Rightarrow> oauth_store \<Rightarrow> oauth_failure + authorization_request" where
  "validate_authorization_request A i s =
     and_then (well_formed (authorization_input_ok A i)) (\<lambda>_.
     case get_client (ain_client i) s of
       None \<Rightarrow> Inl (ProtocolError InvalidClient 401)
     | Some c \<Rightarrow>
         and_then (normalize_redirect_uri A (ain_redirect i)) (\<lambda>uri.
         and_then (guard (uri \<in> set (ocl_redirects c)) (protocol_error InvalidRequest)) (\<lambda>_.
         and_then (validate_resource A (ain_resource i)) (\<lambda>resource.
         and_then (parse_scopes (ain_scope i)) (\<lambda>scopes.
         Inr \<lparr>arq_client = ocl_id c, arq_name = ocl_name c, arq_redirect = uri, arq_state = ain_state i, arq_challenge = ain_challenge i,
           arq_scopes = scopes, arq_resource = resource\<rparr>)))))"

record approval_draw =
  adr_now :: time
  adr_grant :: string
  adr_code :: string
  adr_token :: string

definition approved_grant :: "authorization_request \<Rightarrow> principal \<Rightarrow> approval_draw \<Rightarrow> oauth_grant" where
  "approved_grant r p d = \<lparr>ogr_id = adr_grant d, ogr_user = p_user p, ogr_client = arq_client r, ogr_scopes = arq_scopes r,
     ogr_resource = arq_resource r, ogr_revoked = None\<rparr>"

definition approved_code :: "oauth \<Rightarrow> authorization_request \<Rightarrow> approval_draw \<Rightarrow> oauth_token" where
  "approved_code A r d = \<lparr>otk_id = adr_token d, otk_grant = adr_grant d, otk_kind = CodeToken, otk_hash = oau_hash A (adr_code d),
     otk_family = None, otk_parent = None, otk_challenge = Some (arq_challenge r), otk_redirect = Some (arq_redirect r),
     otk_audience = arq_resource r, otk_expires = add_seconds (adr_now d) 300, otk_used = None, otk_revoked = None\<rparr>"

definition approve :: "oauth \<Rightarrow> authorization_request \<Rightarrow> principal \<Rightarrow> approval_draw \<Rightarrow> string oauth_action" where
  "approve A r p d =
     bind_action (writes (save_grant (approved_grant r p d))) (\<lambda>_.
     bind_action (writes (save_token (approved_code A r d))) (\<lambda>_.
     return (oau_with_query A (arq_redirect r) [(''code'', adr_code d), (''state'', arq_state r)])))"

definition post_authorize :: "oauth \<Rightarrow> authorization_input \<Rightarrow> string \<Rightarrow> principal \<Rightarrow> approval_draw \<Rightarrow> string oauth_action" where
  "post_authorize A i client_name p d =
     bind_action (ensure (well_formed (trimmed_len 1 200 client_name))) (\<lambda>_.
     bind_action (lift_result (validate_authorization_request A i)) (\<lambda>r.
     bind_action (ensure (guard (client_name = arq_name r) (protocol_error InvalidRequest))) (\<lambda>_.
     approve A r p d)))"

section \<open>Tokens\<close>

record pair_draw =
  pdr_now :: time
  pdr_access :: string
  pdr_refresh :: string
  pdr_access_id :: string
  pdr_refresh_id :: string
  pdr_family :: string

record token_response =
  tre_access :: string
  tre_expires_in :: int
  tre_refresh :: string
  tre_scope :: string

record token_pair =
  tpa_access :: oauth_token
  tpa_refresh :: oauth_token
  tpa_response :: token_response

definition build_token_pair :: "oauth \<Rightarrow> string \<Rightarrow> string \<Rightarrow> string \<Rightarrow> string option \<Rightarrow> oauth_scope list \<Rightarrow> pair_draw \<Rightarrow> token_pair" where
  "build_token_pair A grant audience family parent scopes d =
     \<lparr>tpa_access = \<lparr>otk_id = pdr_access_id d, otk_grant = grant, otk_kind = AccessToken, otk_hash = oau_hash A (pdr_access d),
        otk_family = Some family, otk_parent = None, otk_challenge = None, otk_redirect = None, otk_audience = audience,
        otk_expires = add_seconds (pdr_now d) 900, otk_used = None, otk_revoked = None\<rparr>,
      tpa_refresh = \<lparr>otk_id = pdr_refresh_id d, otk_grant = grant, otk_kind = RefreshToken, otk_hash = oau_hash A (pdr_refresh d),
        otk_family = Some family, otk_parent = parent, otk_challenge = None, otk_redirect = None, otk_audience = audience,
        otk_expires = add_seconds (pdr_now d) (30 * 24 * 60 * 60), otk_used = None, otk_revoked = None\<rparr>,
      tpa_response = \<lparr>tre_access = pdr_access d, tre_expires_in = 900, tre_refresh = pdr_refresh d,
        tre_scope = join '' '' (map oauth_scope_text scopes)\<rparr>\<rparr>"

record code_input =
  cin_code :: string
  cin_client :: string
  cin_redirect :: string
  cin_verifier :: string
  cin_resource :: "string option"

definition check_resource :: "oauth \<Rightarrow> string option \<Rightarrow> oauth_failure + unit" where
  "check_resource A r = (case r of None \<Rightarrow> Inr () | Some v \<Rightarrow> and_then (validate_resource A v) (\<lambda>_. Inr ()))"

definition consume_code :: "token_port \<Rightarrow> code_claim \<Rightarrow> (oauth_token \<times> oauth_grant) option oauth_action" where
  "consume_code P c s = (case tpo_consume P c s of (r, s') \<Rightarrow> (Inr r, s'))"

definition start_code_exchange :: "token_port \<Rightarrow> oauth \<Rightarrow> code_input \<Rightarrow> time \<Rightarrow> pair_draw \<Rightarrow> token_pair oauth_action" where
  "start_code_exchange P A i now d =
     bind_action (ensure (validate_verifier (cin_verifier i))) (\<lambda>_.
     bind_action (ensure (check_resource A (cin_resource i))) (\<lambda>_.
     bind_action (ensure (normalize_redirect_uri A (cin_redirect i))) (\<lambda>uri.
     bind_action (consume_code P \<lparr>ccl_hash = oau_hash A (cin_code i), ccl_client = cin_client i, ccl_redirect = uri,
         ccl_challenge = oau_s256 A (cin_verifier i), ccl_at = now\<rparr>) (\<lambda>r.
     case r of
       None \<Rightarrow> throw (protocol_error InvalidGrant)
     | Some (t, g) \<Rightarrow>
         if is_inactive t now then throw (protocol_error InvalidGrant)
         else return (build_token_pair A (otk_grant t) (otk_audience t) (pdr_family d) None (ogr_scopes g) d)))))"

definition exchange_authorization_code :: "token_port \<Rightarrow> oauth \<Rightarrow> code_input \<Rightarrow> time \<Rightarrow> pair_draw \<Rightarrow> token_response oauth_action" where
  "exchange_authorization_code P A i now d =
     bind_action (start_code_exchange P A i now d) (\<lambda>pair.
     bind_action (writes (save_token (tpa_access pair))) (\<lambda>_.
     bind_action (writes (save_token (tpa_refresh pair))) (\<lambda>_. return (tpa_response pair))))"

record refresh_input =
  rin_token :: string
  rin_client :: string
  rin_scope :: "string option"
  rin_resource :: "string option"

text \<open>What the first read of the store decides: the call fails, it fails after its family is revoked, or it goes on with the token read.\<close>

datatype refresh_start = RefreshFails oauth_failure | RefreshReuse string | RefreshContinues oauth_token string

definition start_refresh :: "oauth \<Rightarrow> refresh_input \<Rightarrow> time \<Rightarrow> oauth_store \<Rightarrow> refresh_start" where
  "start_refresh A i now s = (case check_resource A (rin_resource i) of
     Inl e \<Rightarrow> RefreshFails e
   | Inr _ \<Rightarrow> (case get_token (oau_hash A (rin_token i)) s of
       None \<Rightarrow> RefreshFails (protocol_error InvalidGrant)
     | Some t \<Rightarrow> (case otk_family t of
         None \<Rightarrow> RefreshFails (protocol_error InvalidGrant)
       | Some f \<Rightarrow>
           if otk_kind t \<noteq> RefreshToken \<or> is_inactive t now
           then (if otk_used t \<noteq> None then RefreshReuse f else RefreshFails (protocol_error InvalidGrant))
           else RefreshContinues t f)))"

definition check_refresh :: "oauth \<Rightarrow> refresh_input \<Rightarrow> oauth_token \<Rightarrow> string \<Rightarrow> pair_draw \<Rightarrow> oauth_store \<Rightarrow> oauth_failure + token_pair" where
  "check_refresh A i t f d s = (case get_grant (otk_grant t) s of
     None \<Rightarrow> Inl (protocol_error InvalidGrant)
   | Some g \<Rightarrow>
       and_then (guard (ogr_client g = rin_client i \<and> ogr_revoked g = None) (protocol_error InvalidGrant)) (\<lambda>_.
       and_then (case rin_scope i of None \<Rightarrow> Inr () | Some v \<Rightarrow>
         and_then (parse_scopes v) (\<lambda>scopes. guard (has_same_scopes scopes (ogr_scopes g)) (protocol_error InvalidScope))) (\<lambda>_.
       Inr (build_token_pair A (otk_grant t) (otk_audience t) f (Some (otk_id t)) (ogr_scopes g) d))))"

definition rotate_pair :: "token_port \<Rightarrow> token_hash \<Rightarrow> time \<Rightarrow> token_pair \<Rightarrow> rotation oauth_action" where
  "rotate_pair P h now pair s = (case tpo_rotate P h now (tpa_access pair) (tpa_refresh pair) s of (r, s') \<Rightarrow> (Inr r, s'))"

definition revoke_then_fail :: "token_port \<Rightarrow> string \<Rightarrow> time \<Rightarrow> 'a oauth_action" where
  "revoke_then_fail P f now = bind_action (writes (tpo_family P f now)) (\<lambda>_. throw (protocol_error InvalidGrant))"

definition exchange_refresh_token :: "token_port \<Rightarrow> oauth \<Rightarrow> refresh_input \<Rightarrow> time \<Rightarrow> pair_draw \<Rightarrow> token_response oauth_action" where
  "exchange_refresh_token P A i now d =
     bind_action (reads (start_refresh A i now)) (\<lambda>r. case r of
       RefreshFails e \<Rightarrow> throw e
     | RefreshReuse f \<Rightarrow> revoke_then_fail P f now
     | RefreshContinues t f \<Rightarrow>
         bind_action (lift_result (check_refresh A i t f d)) (\<lambda>pair.
         bind_action (rotate_pair P (oau_hash A (rin_token i)) now pair) (\<lambda>outcome. case outcome of
           Rotated \<Rightarrow> return (tpa_response pair)
         | Reuse \<Rightarrow> revoke_then_fail P f now
         | InvalidToken \<Rightarrow> throw (protocol_error InvalidGrant))))"

definition revoke_raw :: "token_port \<Rightarrow> oauth \<Rightarrow> string \<Rightarrow> time \<Rightarrow> oauth_store \<Rightarrow> oauth_store" where
  "revoke_raw P A raw now = tpo_revoke P (oau_hash A raw) now"

definition authenticate :: "oauth \<Rightarrow> string \<Rightarrow> time \<Rightarrow> oauth_store \<Rightarrow> access_identity option" where
  "authenticate A raw now s = resolve_access_token (oau_hash A raw) now s"

section \<open>Requests\<close>

datatype token_request = CodeRequest code_input | RefreshRequest refresh_input

definition token_request_ok :: "oauth \<Rightarrow> token_request \<Rightarrow> bool" where
  "token_request_ok A r = (case r of
     CodeRequest i \<Rightarrow> str_len 32 512 (cin_code i) \<and> str_len 1 2048 (cin_client i) \<and> length (cin_redirect i) \<le> 4096 \<and>
       str_len 43 128 (cin_verifier i) \<and> opt_all (\<lambda>u. oau_zod_url A u \<and> length u \<le> 4096) (cin_resource i)
   | RefreshRequest i \<Rightarrow> str_len 32 512 (rin_token i) \<and> str_len 1 2048 (rin_client i) \<and> opt_all (str_len 1 512) (rin_scope i) \<and>
       opt_all (\<lambda>u. oau_zod_url A u \<and> length u \<le> 4096) (rin_resource i))"

definition post_token :: "token_port \<Rightarrow> oauth \<Rightarrow> token_request \<Rightarrow> time \<Rightarrow> pair_draw \<Rightarrow> token_response oauth_action" where
  "post_token P A r now d =
     bind_action (ensure (well_formed (token_request_ok A r))) (\<lambda>_. case r of
       CodeRequest i \<Rightarrow> exchange_authorization_code P A i now d
     | RefreshRequest i \<Rightarrow> exchange_refresh_token P A i now d)"

definition bearer_principal :: "oauth \<Rightarrow> (string \<Rightarrow> client) \<Rightarrow> string option \<Rightarrow> time \<Rightarrow> oauth_store \<Rightarrow> failure + principal" where
  "bearer_principal A kind header now s = (case header of
     None \<Rightarrow> Inl (app_error AUTH_REQUIRED)
   | Some h \<Rightarrow>
       and_then (guard (starts_with ''Bearer '' h) (app_error AUTH_REQUIRED)) (\<lambda>_.
       case authenticate A (drop 7 h) now s of
         None \<Rightarrow> Inl (app_error AUTH_REQUIRED)
       | Some a \<Rightarrow>
           and_then (guard (opaque_id_ok ''act'' (oid_actor (acc_identity a))) (OtherError ''ZodError'')) (\<lambda>_.
           Inr \<lparr>p_user = oid_user (acc_identity a), p_actor = oid_actor (acc_identity a), p_display = oid_display (acc_identity a),
             p_scopes = acc_scopes a, p_client = kind (acc_client a)\<rparr>)))"

end
