(* ===== verification/OAuthCalls.thy ===== *)
theory OAuthCalls
  imports OAuthService
begin

text \<open>
  Requests to the authorization server that interleave: a request is a task between two operations of the store, and \<open>oauth_step\<close> runs
  one operation of any of them.  Raw tokens, families and grants are drawn so that none repeats, as the random source promises.  The
  interface \<open>token_store\<close> states what both stores guarantee; the lemmas about reachable systems rest on it alone.
\<close>

section \<open>Tasks\<close>

datatype oauth_task =
    Saving "oauth_token list"
  | Reading refresh_input time oauth_token string
  | Rotating token_hash time string token_pair
  | Revoking string time

record oauth_system =
  sys_store :: oauth_store
  sys_tasks :: "oauth_task list"
  sys_approved :: "oauth_grant list"

definition task_tokens :: "oauth_task \<Rightarrow> oauth_token list" where
  "task_tokens k = (case k of Saving ts \<Rightarrow> ts | Rotating _ _ _ pair \<Rightarrow> [tpa_access pair, tpa_refresh pair] | _ \<Rightarrow> [])"

definition pending :: "oauth_system \<Rightarrow> oauth_token list" where
  "pending y = concat (map task_tokens (sys_tasks y))"

definition fresh_hash :: "oauth_system \<Rightarrow> token_hash \<Rightarrow> bool" where
  "fresh_hash y h \<longleftrightarrow> get_token h (sys_store y) = None \<and> h \<notin> set (map otk_hash (pending y))"

definition fresh_pair :: "oauth_system \<Rightarrow> token_pair \<Rightarrow> bool" where
  "fresh_pair y pair \<longleftrightarrow> otk_hash (tpa_access pair) \<noteq> otk_hash (tpa_refresh pair) \<and>
     fresh_hash y (otk_hash (tpa_access pair)) \<and> fresh_hash y (otk_hash (tpa_refresh pair))"

definition fresh_family :: "oauth_system \<Rightarrow> string \<Rightarrow> bool" where
  "fresh_family y f \<longleftrightarrow> Some f \<notin> set (map otk_family (vals (oas_tokens (sys_store y)) @ pending y))"

inductive oauth_step :: "token_port \<Rightarrow> oauth \<Rightarrow> oauth_system \<Rightarrow> oauth_system \<Rightarrow> bool" for P A where
  register: "register_client A i c (sys_store y) = (r, s) \<Longrightarrow> oauth_step P A y (y\<lparr>sys_store := s\<rparr>)"
| users: "oauth_step P A y (y\<lparr>sys_store := (sys_store y)\<lparr>oas_identities := us\<rparr>\<rparr>)"
| approves: "validate_authorization_request A i (sys_store y) = Inr r \<Longrightarrow> get_grant (adr_grant d) (sys_store y) = None \<Longrightarrow>
    fresh_hash y (oau_hash A (adr_code d)) \<Longrightarrow>
    oauth_step P A y (y\<lparr>sys_store := save_grant (approved_grant r p d) (sys_store y), sys_tasks := Saving [approved_code A r d] # sys_tasks y,
      sys_approved := approved_grant r p d # sys_approved y\<rparr>)"
| code: "start_code_exchange P A i now d (sys_store y) = (Inr pair, s) \<Longrightarrow> fresh_pair y pair \<Longrightarrow> fresh_family y (pdr_family d) \<Longrightarrow>
    oauth_step P A y (y\<lparr>sys_store := s, sys_tasks := Saving [tpa_access pair, tpa_refresh pair] # sys_tasks y\<rparr>)"
| code_refused: "start_code_exchange P A i now d (sys_store y) = (Inl e, s) \<Longrightarrow> oauth_step P A y (y\<lparr>sys_store := s\<rparr>)"
| save: "sys_tasks y = xs @ Saving (t # ts) # zs \<Longrightarrow>
    oauth_step P A y (y\<lparr>sys_store := save_token t (sys_store y), sys_tasks := xs @ Saving ts # zs\<rparr>)"
| refresh: "start_refresh A i now (sys_store y) = RefreshContinues t f \<Longrightarrow> oauth_step P A y (y\<lparr>sys_tasks := Reading i now t f # sys_tasks y\<rparr>)"
| refresh_used: "start_refresh A i now (sys_store y) = RefreshReuse f \<Longrightarrow> oauth_step P A y (y\<lparr>sys_tasks := Revoking f now # sys_tasks y\<rparr>)"
| check: "sys_tasks y = xs @ Reading i now t f # zs \<Longrightarrow> check_refresh A i t f d (sys_store y) = Inr pair \<Longrightarrow> fresh_pair y pair \<Longrightarrow>
    oauth_step P A y (y\<lparr>sys_tasks := xs @ Rotating (oau_hash A (rin_token i)) now f pair # zs\<rparr>)"
| rotate: "sys_tasks y = xs @ Rotating h now f pair # zs \<Longrightarrow> rotate_pair P h now pair (sys_store y) = (Inr outcome, s) \<Longrightarrow>
    oauth_step P A y (y\<lparr>sys_store := s, sys_tasks := xs @ (if outcome = Reuse then [Revoking f now] else []) @ zs\<rparr>)"
| revoke_family: "sys_tasks y = xs @ Revoking f now # zs \<Longrightarrow>
    oauth_step P A y (y\<lparr>sys_store := tpo_family P f now (sys_store y), sys_tasks := xs @ zs\<rparr>)"
| abandon: "sys_tasks y = xs @ k # zs \<Longrightarrow> oauth_step P A y (y\<lparr>sys_tasks := xs @ zs\<rparr>)"
| revoke: "oauth_step P A y (y\<lparr>sys_store := revoke_raw P A raw now (sys_store y)\<rparr>)"
| revoke_grant: "oauth_step P A y (y\<lparr>sys_store := snd (revoke_grant_for_user u g now (sys_store y))\<rparr>)"
| revoke_user: "oauth_step P A y (y\<lparr>sys_store := revoke_user_access u now (sys_store y)\<rparr>)"

definition no_requests :: oauth_system where
  "no_requests = \<lparr>sys_store = empty_oauth_store, sys_tasks = [], sys_approved = []\<rparr>"

abbreviation oauth_steps :: "token_port \<Rightarrow> oauth \<Rightarrow> oauth_system \<Rightarrow> oauth_system \<Rightarrow> bool" where
  "oauth_steps P A \<equiv> (oauth_step P A)\<^sup>*\<^sup>*"

section \<open>What both stores guarantee\<close>

text \<open>A token or a grant may be used and revoked, and changes in no other way.\<close>

definition token_advances :: "oauth_token \<Rightarrow> oauth_token \<Rightarrow> bool" where
  "token_advances t t' \<longleftrightarrow> t\<lparr>otk_used := None, otk_revoked := None\<rparr> = t'\<lparr>otk_used := None, otk_revoked := None\<rparr> \<and>
     (otk_used t \<noteq> None \<longrightarrow> otk_used t' \<noteq> None) \<and> (otk_revoked t \<noteq> None \<longrightarrow> otk_revoked t' \<noteq> None)"

definition grant_advances :: "oauth_grant \<Rightarrow> oauth_grant \<Rightarrow> bool" where
  "grant_advances g g' \<longleftrightarrow> g\<lparr>ogr_revoked := None\<rparr> = g'\<lparr>ogr_revoked := None\<rparr> \<and> (ogr_revoked g \<noteq> None \<longrightarrow> ogr_revoked g' \<noteq> None)"

definition store_advances :: "oauth_store \<Rightarrow> oauth_store \<Rightarrow> bool" where
  "store_advances s s' \<longleftrightarrow>
     (\<forall>h t. get_token h s = Some t \<longrightarrow> (\<exists>t'. get_token h s' = Some t' \<and> token_advances t t')) \<and>
     (\<forall>i g. get_grant i s = Some g \<longrightarrow> (\<exists>g'. get_grant i s' = Some g' \<and> grant_advances g g'))"

text \<open>An operation that only revokes: the same tokens are stored, and every one of them advances without being used.\<close>

definition only_revokes :: "oauth_store \<Rightarrow> oauth_store \<Rightarrow> bool" where
  "only_revokes s s' \<longleftrightarrow> oas_grants s' = oas_grants s \<and> (\<forall>h. rel_option (\<lambda>t t'. token_advances t t' \<and> otk_used t' = otk_used t) (get_token h s) (get_token h s'))"

definition tokens_keyed :: "oauth_store \<Rightarrow> bool" where
  "tokens_keyed s \<longleftrightarrow> (\<forall>h t. get_token h s = Some t \<longrightarrow> otk_hash t = h)"

locale token_store =
  fixes P :: token_port
  assumes consumed: "tpo_consume P c s = (Some (t, g), s') \<Longrightarrow> get_token (ccl_hash c) s = Some t \<and> get_grant (otk_grant t) s = Some g \<and>
      code_matches c t g \<and> s' = s\<lparr>oas_tokens := put (ccl_hash c) (t\<lparr>otk_used := Some (ccl_at c)\<rparr>) (oas_tokens s)\<rparr>"
    and not_consumed: "tpo_consume P c s = (None, s') \<Longrightarrow> s' = s"
    and rotated: "tpo_rotate P h now a r s = (Rotated, s') \<Longrightarrow> \<exists>t. get_token h s = Some t \<and> otk_kind t = RefreshToken \<and>
      otk_used t = None \<and> otk_revoked t = None \<and>
      s' = save_token r (save_token a (s\<lparr>oas_tokens := put h (t\<lparr>otk_used := Some now\<rparr>) (oas_tokens s)\<rparr>))"
    and not_rotated: "tpo_rotate P h now a r s = (outcome, s') \<Longrightarrow> outcome \<noteq> Rotated \<Longrightarrow> s' = s"
    and reuse: "tpo_rotate P h now a r s = (Reuse, s') \<Longrightarrow> \<exists>t. get_token h s = Some t \<and> otk_used t \<noteq> None"
    and revoked: "only_revokes s (tpo_revoke P h now s)"
    and revoked_named: "tokens_keyed s \<Longrightarrow> get_token h (tpo_revoke P h now s) = Some t \<Longrightarrow> otk_revoked t \<noteq> None"
    and family_revoked: "only_revokes s (tpo_family P f now s)"
    and family_dead: "get_token h (tpo_family P f now s) = Some t \<Longrightarrow> otk_family t = Some f \<Longrightarrow> otk_revoked t \<noteq> None"

lemma get_revoked_tokens: "get_token h (revoke_tokens Q now s) = map_option (\<lambda>t. if Q t then t\<lparr>otk_revoked := Some now\<rparr> else t) (get_token h s)"
proof -
  have "lookup (map (\<lambda>(h, t). (h, f t)) m) h = map_option f (lookup m h)" for f :: "oauth_token \<Rightarrow> oauth_token" and m
    by (induction m) auto
  then show ?thesis by (simp add: get_token_def revoke_tokens_def)
qed

lemma get_revoked_grants: "get_grant i (revoke_grants Q now s) = map_option (\<lambda>g. if Q i g then g\<lparr>ogr_revoked := Some now\<rparr> else g) (get_grant i s)"
proof -
  have "lookup (map (\<lambda>(h, t). (h, f h t)) m) h = map_option (f h) (lookup m h)" for f :: "string \<Rightarrow> oauth_grant \<Rightarrow> oauth_grant" and m h
    by (induction m) auto
  then show ?thesis by (simp add: get_grant_def revoke_grants_def)
qed

lemma revoke_tokens_fields [simp]: "oas_grants (revoke_tokens Q now s) = oas_grants s" "oas_clients (revoke_tokens Q now s) = oas_clients s"
  "oas_identities (revoke_tokens Q now s) = oas_identities s"
  by (simp_all add: revoke_tokens_def)

lemma token_advances_refl [simp]: "token_advances t t" by (simp add: token_advances_def)

lemma token_advances_marks [simp]: "token_advances t (t\<lparr>otk_revoked := Some n\<rparr>)" "token_advances t (t\<lparr>otk_used := Some n\<rparr>)"
  by (simp_all add: token_advances_def)

lemma grant_advances_simps [simp]: "grant_advances g g" "grant_advances g (g\<lparr>ogr_revoked := Some n\<rparr>)"
  by (simp_all add: grant_advances_def)

lemma token_advances_fields:
  assumes "token_advances t t'"
  shows "otk_id t' = otk_id t" "otk_grant t' = otk_grant t" "otk_kind t' = otk_kind t" "otk_hash t' = otk_hash t" "otk_family t' = otk_family t"
    "otk_audience t' = otk_audience t"
  using assms by (cases t; cases t'; simp add: token_advances_def)+

lemma grant_advances_fields:
  assumes "grant_advances g g'"
  shows "ogr_id g' = ogr_id g" "ogr_user g' = ogr_user g" "ogr_client g' = ogr_client g" "ogr_scopes g' = ogr_scopes g" "ogr_resource g' = ogr_resource g"
  using assms by (cases g; cases g'; simp add: grant_advances_def)+

lemma revoke_tokens_only: "only_revokes s (revoke_tokens Q now s)"
  by (auto simp: only_revokes_def get_revoked_tokens option.rel_map intro!: option.rel_refl_strong)

lemma only_revokes_refl: "only_revokes s s"
  by (auto simp: only_revokes_def intro!: option.rel_refl_strong)

lemma revoke_token_only: "only_revokes s (revoke_token h now s)"
  by (auto simp: only_revokes_def revoke_token_def get_token_def split: option.split intro!: option.rel_refl_strong)

lemma neon_revoke_token_only: "only_revokes s (neon_revoke_token h now s)"
  by (auto simp: neon_revoke_token_def neon_revoke_family_def split: option.split intro: only_revokes_refl revoke_tokens_only)

lemma revoked_unchanged [simp]: "t\<lparr>otk_revoked := Some n\<rparr> = t \<longleftrightarrow> otk_revoked t = Some n" for t :: oauth_token
  by (cases t) auto

interpretation memory: token_store memory_port
proof
  show "only_revokes s (tpo_revoke memory_port h now s)" for s h now by (simp add: memory_port_def revoke_token_only)
  show "only_revokes s (tpo_family memory_port h now s)" for s h now by (simp add: memory_port_def revoke_family_def revoke_tokens_only)
qed (auto simp: memory_port_def consume_authorization_code_def rotate_refresh_token_def revoke_token_def revoke_family_def get_revoked_tokens
    get_token_def [of _ "_\<lparr>oas_tokens := _\<rparr>"] split: option.splits if_splits)

interpretation neon: token_store neon_port
proof
  show "only_revokes s (tpo_revoke neon_port h now s)" for s h now by (simp add: neon_port_def neon_revoke_token_only)
  show "only_revokes s (tpo_family neon_port h now s)" for s h now by (simp add: neon_port_def neon_revoke_family_def revoke_tokens_only)
qed (auto simp: neon_port_def neon_consume_authorization_code_def neon_rotate_refresh_token_def neon_revoke_token_def neon_revoke_family_def
    get_revoked_tokens tokens_keyed_def split: option.splits if_splits)

end
