(* ===== verification/OAuthSafety.thy ===== *)
theory OAuthSafety
  imports OAuthCalls
begin

text \<open>
  What holds in every system of interleaved requests: tokens and grants only move forward, a family of tokens has one live refresh token, and
  what is revoked or spent stays so.
\<close>

section \<open>Stores advance\<close>

lemma token_advances_trans: "token_advances t u \<Longrightarrow> token_advances u v \<Longrightarrow> token_advances t v"
  by (auto simp: token_advances_def)

lemma grant_advances_trans: "grant_advances g h \<Longrightarrow> grant_advances h k \<Longrightarrow> grant_advances g k"
  by (auto simp: grant_advances_def)

lemma store_advances_refl [simp]: "store_advances s s"
  by (auto simp: store_advances_def)

lemma store_advances_trans: "store_advances s t \<Longrightarrow> store_advances t u \<Longrightarrow> store_advances s u"
  unfolding store_advances_def by (meson token_advances_trans grant_advances_trans)

lemma only_revokes_get:
  assumes "only_revokes s s'"
  shows "get_grant i s' = get_grant i s"
    and "get_token h s = None \<longleftrightarrow> get_token h s' = None"
    and "get_token h s = Some t \<Longrightarrow> \<exists>t'. get_token h s' = Some t' \<and> token_advances t t' \<and> otk_used t' = otk_used t"
    and "get_token h s' = Some t' \<Longrightarrow> \<exists>t. get_token h s = Some t \<and> token_advances t t' \<and> otk_used t' = otk_used t"
  using assms by (auto simp: only_revokes_def get_grant_def option_rel_Some1 option_rel_Some2 dest: spec [of _ h])

lemma only_revokes_advances: "only_revokes s s' \<Longrightarrow> store_advances s s'"
  unfolding store_advances_def
proof (intro conjI allI impI)
  fix i g assume "only_revokes s s'" "get_grant i s = Some g"
  then show "\<exists>g'. get_grant i s' = Some g' \<and> grant_advances g g'" using only_revokes_get(1) [of s s' i] by simp
next
  fix h t assume "only_revokes s s'" "get_token h s = Some t"
  then show "\<exists>t'. get_token h s' = Some t' \<and> token_advances t t'" using only_revokes_get(3) by blast
qed

lemma get_token_simps [simp]:
  "get_token h (save_token t s) = (if h = otk_hash t then Some t else get_token h s)"
  "get_token h (save_grant g s) = get_token h s"
  "get_token h (save_client c s) = get_token h s"
  "get_token h (s\<lparr>oas_identities := us\<rparr>) = get_token h s"
  "get_token h (s\<lparr>oas_grants := gs\<rparr>) = get_token h s"
  "get_token h (s\<lparr>oas_tokens := put k t (oas_tokens s)\<rparr>) = (if h = k then Some t else get_token h s)"
  by (simp_all add: get_token_def save_token_def save_grant_def save_client_def)

lemma get_grant_simps [simp]:
  "get_grant i (save_token t s) = get_grant i s"
  "get_grant i (save_grant g s) = (if i = ogr_id g then Some g else get_grant i s)"
  "get_grant i (save_client c s) = get_grant i s"
  "get_grant i (s\<lparr>oas_identities := us\<rparr>) = get_grant i s"
  "get_grant i (s\<lparr>oas_tokens := ts\<rparr>) = get_grant i s"
  "get_grant i (s\<lparr>oas_grants := put k g (oas_grants s)\<rparr>) = (if i = k then Some g else get_grant i s)"
  "get_grant i (revoke_tokens Q now s) = get_grant i s"
  by (simp_all add: get_grant_def save_token_def save_grant_def save_client_def)

lemma get_token_revoke_grants [simp]: "get_token h (revoke_grants Q now s) = get_token h s"
  by (simp add: get_token_def revoke_grants_def)

lemma ensure_cases: "ensure r s = (r, s)"
  by (simp add: ensure_def lift_result_def)

lemma register_client_store:
  assumes "register_client A i c s = (r, s')"
  shows "s' = s \<or> (\<exists>cl. s' = save_client cl s)"
  using assms by (auto simp: register_client_def bind_action_def ensure_cases writes_def return_def Let_def split: sum.splits)

definition code_claim_of :: "oauth \<Rightarrow> code_input \<Rightarrow> string \<Rightarrow> time \<Rightarrow> code_claim" where
  "code_claim_of A i uri now = \<lparr>ccl_hash = oau_hash A (cin_code i), ccl_client = cin_client i, ccl_redirect = uri,
     ccl_challenge = oau_s256 A (cin_verifier i), ccl_at = now\<rparr>"

definition use_token :: "token_hash \<Rightarrow> oauth_token \<Rightarrow> time \<Rightarrow> oauth_store \<Rightarrow> oauth_store" where
  "use_token h t now s = s\<lparr>oas_tokens := put h (t\<lparr>otk_used := Some now\<rparr>) (oas_tokens s)\<rparr>"

lemma use_token_simps [simp]:
  "get_token k (use_token h t now s) = (if k = h then Some (t\<lparr>otk_used := Some now\<rparr>) else get_token k s)"
  "get_grant i (use_token h t now s) = get_grant i s"
  by (simp_all add: use_token_def)

lemma use_token_advances: "get_token h s = Some t \<Longrightarrow> store_advances s (use_token h t now s)"
  by (auto simp: store_advances_def)

lemma save_token_advances: "get_token (otk_hash t) s = None \<Longrightarrow> store_advances s (save_token t s)"
  by (auto simp: store_advances_def)

lemma save_grant_advances: "get_grant (ogr_id g) s = None \<Longrightarrow> store_advances s (save_grant g s)"
  by (auto simp: store_advances_def)

lemma revoke_grant_advances: "store_advances s (snd (revoke_grant_for_user u i now s))"
  by (auto simp: store_advances_def revoke_grant_for_user_def get_revoked_tokens split: option.split)

lemma revoke_user_advances: "store_advances s (revoke_user_access u now s)"
  by (auto simp: store_advances_def revoke_user_access_def Let_def get_revoked_tokens get_revoked_grants)

context token_store
begin

lemma code_started:
  assumes "start_code_exchange P A i now d s = (Inr pair, s')"
  obtains uri t g where "normalize_redirect_uri A (cin_redirect i) = Inr uri" "validate_verifier (cin_verifier i) = Inr ()"
    "get_token (oau_hash A (cin_code i)) s = Some t" "get_grant (otk_grant t) s = Some g" "code_matches (code_claim_of A i uri now) t g"
    "\<not> is_inactive t now" "s' = use_token (oau_hash A (cin_code i)) t now s"
    "pair = build_token_pair A (otk_grant t) (otk_audience t) (pdr_family d) None (ogr_scopes g) d"
proof -
  from assms obtain uri t g where n: "normalize_redirect_uri A (cin_redirect i) = Inr uri" "validate_verifier (cin_verifier i) = Inr ()"
    and c: "tpo_consume P (code_claim_of A i uri now) s = (Some (t, g), s')" and a: "\<not> is_inactive t now"
    and p: "pair = build_token_pair A (otk_grant t) (otk_audience t) (pdr_family d) None (ogr_scopes g) d"
    by (auto simp: start_code_exchange_def bind_action_def ensure_cases consume_code_def throw_def return_def
        simp flip: code_claim_of_def split: sum.splits prod.splits option.splits if_splits)
  from consumed [OF c] show thesis by (intro that [OF n _ _ _ a _ p]) (simp_all add: code_claim_of_def use_token_def)
qed

lemma code_refused:
  assumes "start_code_exchange P A i now d s = (Inl e, s')"
  shows "s' = s \<or> (\<exists>t. get_token (oau_hash A (cin_code i)) s = Some t \<and> otk_kind t = CodeToken \<and> s' = use_token (oau_hash A (cin_code i)) t now s)"
proof -
  have "s' = s \<or> (\<exists>uri r. tpo_consume P (code_claim_of A i uri now) s = (r, s'))"
    using assms by (auto simp: start_code_exchange_def bind_action_def ensure_cases consume_code_def throw_def return_def
        simp flip: code_claim_of_def split: sum.splits prod.splits option.splits if_splits)
  then show ?thesis
  proof (elim disjE exE)
    fix uri r assume c: "tpo_consume P (code_claim_of A i uri now) s = (r, s')"
    show ?thesis
    proof (cases r)
      case (Some x)
      then obtain t g where "r = Some (t, g)" by (cases x) simp
      with consumed [of "code_claim_of A i uri now" s t g s'] c show ?thesis
        by (auto simp: code_claim_of_def use_token_def code_matches_def)
    qed (use c not_consumed in simp)
  qed simp
qed

lemma rotate_cases:
  assumes "rotate_pair P h now pair s = (Inr outcome, s')"
  obtains (rotated) t where "outcome = Rotated" "get_token h s = Some t" "otk_kind t = RefreshToken" "otk_used t = None" "otk_revoked t = None"
      "s' = save_token (tpa_refresh pair) (save_token (tpa_access pair) (use_token h t now s))"
  | (reuse) t where "outcome = Reuse" "get_token h s = Some t" "otk_used t \<noteq> None" "s' = s"
  | (invalid) "outcome = InvalidToken" "s' = s"
proof -
  have r: "tpo_rotate P h now (tpa_access pair) (tpa_refresh pair) s = (outcome, s')"
    using assms by (auto simp: rotate_pair_def split: prod.splits)
  show thesis
  proof (cases outcome)
    case Rotated
    with token_store.rotated [OF token_store_axioms r [unfolded Rotated]] show thesis by (auto simp: use_token_def intro: that(1))
  next
    case Reuse
    with r token_store.reuse [OF token_store_axioms r [unfolded Reuse]] not_rotated [OF r] show thesis by (auto intro: that(2))
  next
    case InvalidToken
    with not_rotated [OF r] show thesis by (auto intro: that(3))
  qed
qed

end

section \<open>Hashes\<close>

definition hashes_ok :: "oauth_system \<Rightarrow> bool" where
  "hashes_ok y \<longleftrightarrow> tokens_keyed (sys_store y) \<and> distinct (map otk_hash (pending y)) \<and>
     (\<forall>t\<in>set (pending y). get_token (otk_hash t) (sys_store y) = None)"

lemma pending_simps [simp]:
  "pending (y\<lparr>sys_store := s\<rparr>) = pending y"
  "pending (y\<lparr>sys_tasks := ks\<rparr>) = concat (map task_tokens ks)"
  "pending (y\<lparr>sys_approved := gs\<rparr>) = pending y"
  by (simp_all add: pending_def)

lemma task_tokens_simps [simp]:
  "task_tokens (Saving ts) = ts" "task_tokens (Rotating h now f pair) = [tpa_access pair, tpa_refresh pair]"
  "task_tokens (Reading i now t f) = []" "task_tokens (Revoking f now) = []"
  by (simp_all add: task_tokens_def)

lemma pending_split: "sys_tasks y = xs @ k # zs \<Longrightarrow> pending y = concat (map task_tokens xs) @ task_tokens k @ concat (map task_tokens zs)"
  by (simp add: pending_def)

lemma pending_same: "pending y = concat (map task_tokens (sys_tasks y))"
  by (simp add: pending_def)

lemma only_revokes_keyed: "only_revokes s s' \<Longrightarrow> tokens_keyed s \<Longrightarrow> tokens_keyed s'"
  unfolding tokens_keyed_def by (auto dest!: only_revokes_get(4) token_advances_fields(4))

lemma use_token_hashes: "hashes_ok y \<Longrightarrow> get_token h (sys_store y) = Some t \<Longrightarrow> hashes_ok (y\<lparr>sys_store := use_token h t now (sys_store y)\<rparr>)"
  by (auto simp: hashes_ok_def tokens_keyed_def)

lemma save_hashes:
  assumes "hashes_ok y" "pending y = us @ t # vs" "pending y' = us @ vs" "sys_store y' = save_token t (sys_store y)"
  shows "hashes_ok y'" and "store_advances (sys_store y) (sys_store y')"
proof -
  have t: "otk_hash t \<notin> otk_hash ` set (us @ vs)" "distinct (map otk_hash (us @ vs))" "get_token (otk_hash t) (sys_store y) = None"
    using assms(1,2) by (auto simp: hashes_ok_def)
  have "otk_hash x \<noteq> otk_hash t" if "x \<in> set (us @ vs)" for x using t(1) that by (metis imageI)
  then show "hashes_ok y'" using assms t(2) by (auto simp: hashes_ok_def tokens_keyed_def)
  show "store_advances (sys_store y) (sys_store y')" unfolding assms(4) by (rule save_token_advances [OF t(3)])
qed

lemma fewer_hashes: "hashes_ok y \<Longrightarrow> pending y = us @ ks @ vs \<Longrightarrow> pending y' = us @ vs \<Longrightarrow> sys_store y' = sys_store y \<Longrightarrow> hashes_ok y'"
  unfolding hashes_ok_def by (simp add: Int_Un_distrib ball_Un)

lemma built_pair_hashes [simp]:
  "otk_grant (tpa_access (build_token_pair A g a f p sc d)) = g" "otk_grant (tpa_refresh (build_token_pair A g a f p sc d)) = g"
  "otk_family (tpa_access (build_token_pair A g a f p sc d)) = Some f" "otk_family (tpa_refresh (build_token_pair A g a f p sc d)) = Some f"
  "otk_kind (tpa_access (build_token_pair A g a f p sc d)) = AccessToken" "otk_kind (tpa_refresh (build_token_pair A g a f p sc d)) = RefreshToken"
  "otk_audience (tpa_access (build_token_pair A g a f p sc d)) = a" "otk_audience (tpa_refresh (build_token_pair A g a f p sc d)) = a"
  by (simp_all add: build_token_pair_def)

context token_store
begin

lemma step_hashes_and_store:
  assumes "oauth_step P A y y'" "hashes_ok y"
  shows "hashes_ok y' \<and> store_advances (sys_store y) (sys_store y')"
  using assms
proof (cases rule: oauth_step.cases)
  case (register i c r s)
  then show ?thesis using register_client_store [of A i c "sys_store y" r s] assms(2)
    by (auto simp: hashes_ok_def tokens_keyed_def store_advances_def)
next
  case (users us)
  then show ?thesis using assms(2) by (auto simp: hashes_ok_def tokens_keyed_def store_advances_def)
next
  case (approves i r d p)
  moreover have "store_advances (sys_store y) (save_grant (approved_grant r p d) (sys_store y))"
    using approves by (intro save_grant_advances) (simp add: approved_grant_def)
  ultimately show ?thesis using assms(2)
    by (auto simp: hashes_ok_def tokens_keyed_def fresh_hash_def approved_code_def pending_same [symmetric])
next
  case (code i now d pair s)
  from code(2) show ?thesis
  proof (rule code_started)
    fix t assume "get_token (oau_hash A (cin_code i)) (sys_store y) = Some t" "s = use_token (oau_hash A (cin_code i)) t now (sys_store y)"
    then show ?thesis using code assms(2)
      by (auto simp: hashes_ok_def tokens_keyed_def fresh_pair_def fresh_hash_def pending_same [symmetric] intro: use_token_advances)
  qed
next
  case (code_refused i now d e s)
  from code_refused(2) show ?thesis using code_refused(1) assms(2)
    by (auto dest!: token_store.code_refused [OF token_store_axioms] intro: use_token_advances use_token_hashes)
next
  case (save xs t ts zs)
  then show ?thesis using save_hashes [OF assms(2), of "concat (map task_tokens xs)" t "ts @ concat (map task_tokens zs)" y']
    by (simp add: pending_split)
next
  case (refresh i now t f)
  then show ?thesis using assms(2) by (auto simp: hashes_ok_def pending_same [symmetric])
next
  case (refresh_used i now f)
  then show ?thesis using assms(2) by (auto simp: hashes_ok_def pending_same [symmetric])
next
  case (check xs i now t f zs d pair)
  then show ?thesis using assms(2)
    by (auto simp: hashes_ok_def fresh_pair_def fresh_hash_def pending_split [OF check(2)])
next
  case (rotate xs h now f pair zs outcome s)
  note p = pending_split [OF rotate(2)]
  from rotate(3) show ?thesis
  proof (cases rule: rotate_cases)
    case (rotated t)
    let ?us = "concat (map task_tokens xs)" and ?vs = "concat (map task_tokens zs)"
    let ?u = "y\<lparr>sys_store := use_token h t now (sys_store y)\<rparr>"
    let ?v = "?u\<lparr>sys_store := save_token (tpa_access pair) (sys_store ?u), sys_tasks := xs @ Saving [tpa_refresh pair] # zs\<rparr>"
    have u: "hashes_ok ?u" by (rule use_token_hashes [OF assms(2) rotated(2)])
    have v: "hashes_ok ?v" "store_advances (sys_store ?u) (sys_store ?v)"
      using save_hashes [OF u, of ?us "tpa_access pair" "tpa_refresh pair # ?vs" ?v] p by simp_all
    have "hashes_ok y'" "store_advances (sys_store ?v) (sys_store y')"
      using save_hashes [OF v(1), of ?us "tpa_refresh pair" ?vs y'] rotated(1,6) rotate(1) by simp_all
    with v(2) use_token_advances [OF rotated(2), of now] show ?thesis by (auto intro: store_advances_trans)
  qed (use assms(2) rotate(1) in \<open>auto simp: hashes_ok_def p\<close>)
next
  case (revoke_family xs f now zs)
  then show ?thesis using assms(2) only_revokes_keyed [OF family_revoked] only_revokes_advances [OF family_revoked]
      only_revokes_get(2) [OF family_revoked [of "sys_store y" f now]]
    by (auto simp: hashes_ok_def pending_split)
next
  case (abandon xs k zs)
  then show ?thesis using fewer_hashes [OF assms(2) pending_split [OF abandon(2)], of y'] by simp
next
  case (revoke raw now)
  then show ?thesis using assms(2) only_revokes_keyed [OF revoked] only_revokes_advances [OF revoked]
      only_revokes_get(2) [OF revoked [of "sys_store y" "oau_hash A raw" now]]
    by (auto simp: hashes_ok_def revoke_raw_def)
next
  case (revoke_grant u g now)
  then show ?thesis using assms(2) revoke_grant_advances
    by (auto simp: hashes_ok_def tokens_keyed_def revoke_grant_for_user_def get_revoked_tokens split: option.splits)
next
  case (revoke_user u now)
  then show ?thesis using assms(2) revoke_user_advances
    by (auto simp: hashes_ok_def tokens_keyed_def revoke_user_access_def Let_def get_revoked_tokens)
qed

lemma steps_hashes_and_store:
  "oauth_steps P A y y' \<Longrightarrow> hashes_ok y \<Longrightarrow> hashes_ok y' \<and> store_advances (sys_store y) (sys_store y')"
proof (induction rule: rtranclp_induct)
  case (step y' y'')
  then show ?case using step_hashes_and_store store_advances_trans by blast
qed simp

lemma reachable_hashes: "oauth_steps P A no_requests y \<Longrightarrow> hashes_ok y"
  using steps_hashes_and_store [of A no_requests y]
  by (simp add: hashes_ok_def no_requests_def tokens_keyed_def get_token_def empty_oauth_store_def pending_def)

end

section \<open>Families\<close>

definition live :: "oauth_token \<Rightarrow> bool" where
  "live t \<longleftrightarrow> otk_used t = None \<and> otk_revoked t = None"

definition refresh_of :: "string \<Rightarrow> oauth_token \<Rightarrow> bool" where
  "refresh_of f t \<longleftrightarrow> otk_kind t = RefreshToken \<and> otk_family t = Some f"

definition access_of :: "string \<Rightarrow> oauth_token \<Rightarrow> bool" where
  "access_of f t \<longleftrightarrow> otk_kind t = AccessToken \<and> otk_family t = Some f \<and> otk_used t = None"

definition saving_family :: "oauth_task \<Rightarrow> string list" where
  "saving_family k = (case k of Saving (t # ts) \<Rightarrow> (case otk_family t of Some f \<Rightarrow> [f] | None \<Rightarrow> []) | _ \<Rightarrow> [])"

definition saving_families :: "oauth_system \<Rightarrow> string list" where
  "saving_families y = concat (map saving_family (sys_tasks y))"

definition saving_ok :: "oauth_token list \<Rightarrow> bool" where
  "saving_ok ts \<longleftrightarrow> ts = [] \<or> (\<exists>c. ts = [c] \<and> otk_kind c = CodeToken \<and> otk_family c = None) \<or>
     (\<exists>f r. refresh_of f r \<and> (ts = [r] \<or> (\<exists>a. access_of f a \<and> ts = [a, r])))"

definition task_ok :: "oauth \<Rightarrow> oauth_store \<Rightarrow> oauth_task \<Rightarrow> bool" where
  "task_ok A s k \<longleftrightarrow> (case k of
     Saving ts \<Rightarrow> saving_ok ts
   | Reading i now t f \<Rightarrow> \<exists>u. get_token (oau_hash A (rin_token i)) s = Some u \<and> refresh_of f u
   | Rotating h now f pair \<Rightarrow> (\<exists>u. get_token h s = Some u \<and> refresh_of f u) \<and> access_of f (tpa_access pair) \<and> refresh_of f (tpa_refresh pair)
   | Revoking f now \<Rightarrow> \<exists>h u. get_token h s = Some u \<and> refresh_of f u)"

definition token_ok :: "oauth_token \<Rightarrow> bool" where
  "token_ok t \<longleftrightarrow> (otk_kind t = CodeToken \<longrightarrow> otk_family t = None) \<and> (otk_kind t = AccessToken \<longrightarrow> otk_used t = None)"

definition one_live_refresh :: "oauth_store \<Rightarrow> bool" where
  "one_live_refresh s \<longleftrightarrow> (\<forall>f h h' t t'. get_token h s = Some t \<and> get_token h' s = Some t' \<and> refresh_of f t \<and> refresh_of f t' \<and> live t \<and> live t' \<longrightarrow> h = h')"

definition families_ok :: "oauth \<Rightarrow> oauth_system \<Rightarrow> bool" where
  "families_ok A y \<longleftrightarrow> list_all (task_ok A (sys_store y)) (sys_tasks y) \<and> distinct (saving_families y) \<and>
     (\<forall>f h t. f \<in> set (saving_families y) \<and> get_token h (sys_store y) = Some t \<longrightarrow> \<not> refresh_of f t) \<and>
     (\<forall>h t. get_token h (sys_store y) = Some t \<longrightarrow> token_ok t) \<and> one_live_refresh (sys_store y)"

lemma saving_families_simps [simp]:
  "saving_families (y\<lparr>sys_store := s\<rparr>) = saving_families y"
  "saving_families (y\<lparr>sys_tasks := ks\<rparr>) = concat (map saving_family ks)"
  "saving_families (y\<lparr>sys_approved := gs\<rparr>) = saving_families y"
  by (simp_all add: saving_families_def)

lemma saving_family_simps [simp]:
  "saving_family (Saving []) = []" "saving_family (Rotating h now f pair) = []" "saving_family (Reading i now t f) = []"
  "saving_family (Revoking f now) = []"
  "refresh_of f t \<Longrightarrow> saving_family (Saving (t # ts)) = [f]" "access_of f t \<Longrightarrow> saving_family (Saving (t # ts)) = [f]"
  "otk_family t = None \<Longrightarrow> saving_family (Saving (t # ts)) = []"
  by (simp_all add: saving_family_def refresh_of_def access_of_def)

definition store_changes :: "oauth_store \<Rightarrow> oauth_store \<Rightarrow> bool" where
  "store_changes s s' \<longleftrightarrow> (\<forall>h. rel_option (\<lambda>t t'. token_advances t t' \<and> (otk_kind t = AccessToken \<longrightarrow> otk_used t' = otk_used t))
     (get_token h s) (get_token h s'))"

lemma store_changes_get:
  assumes "store_changes s s'"
  shows "get_token h s = Some t \<Longrightarrow> \<exists>t'. get_token h s' = Some t' \<and> token_advances t t'"
    and "get_token h s' = Some t' \<Longrightarrow> \<exists>t. get_token h s = Some t \<and> token_advances t t' \<and> (otk_kind t = AccessToken \<longrightarrow> otk_used t' = otk_used t)"
proof -
  have "rel_option (\<lambda>t t'. token_advances t t' \<and> (otk_kind t = AccessToken \<longrightarrow> otk_used t' = otk_used t)) (get_token h s) (get_token h s')"
    using assms by (simp add: store_changes_def)
  then show "get_token h s = Some t \<Longrightarrow> \<exists>t'. get_token h s' = Some t' \<and> token_advances t t'"
    and "get_token h s' = Some t' \<Longrightarrow> \<exists>t. get_token h s = Some t \<and> token_advances t t' \<and> (otk_kind t = AccessToken \<longrightarrow> otk_used t' = otk_used t)"
    by (auto elim!: option.rel_cases)
qed

lemma only_revokes_changes: "only_revokes s s' \<Longrightarrow> store_changes s s'"
  unfolding only_revokes_def store_changes_def by (auto elim!: option.rel_mono_strong)

lemma same_tokens_changes: "(\<And>h. get_token h s' = get_token h s) \<Longrightarrow> store_changes s s'"
  by (auto simp: store_changes_def intro!: option.rel_refl_strong)

lemma use_token_changes: "get_token h s = Some t \<Longrightarrow> otk_kind t \<noteq> AccessToken \<Longrightarrow> store_changes s (use_token h t now s)"
  by (auto simp: store_changes_def intro!: option.rel_refl_strong)

lemma revoke_grant_changes: "store_changes s (snd (revoke_grant_for_user u i now s))"
  by (auto simp: store_changes_def revoke_grant_for_user_def get_revoked_tokens option.rel_map split: option.split intro!: option.rel_refl_strong)

lemma revoke_user_changes: "store_changes s (revoke_user_access u now s)"
  using only_revokes_changes [OF revoke_tokens_only, of "revoke_grants _ _ s"] unfolding revoke_user_access_def store_changes_def Let_def by simp

lemma refresh_of_advances: "token_advances t t' \<Longrightarrow> refresh_of f t' \<longleftrightarrow> refresh_of f t"
  using token_advances_fields by (simp add: refresh_of_def)

lemma live_advances: "token_advances t t' \<Longrightarrow> live t' \<Longrightarrow> live t"
  by (auto simp: token_advances_def live_def)

lemma task_ok_kept:
  assumes "\<And>h t f. get_token h s = Some t \<Longrightarrow> refresh_of f t \<Longrightarrow> \<exists>u. get_token h s' = Some u \<and> refresh_of f u" "task_ok A s k"
  shows "task_ok A s' k"
proof (cases k)
  case (Revoking f now)
  with assms show ?thesis by (simp add: task_ok_def) blast
qed (use assms in \<open>auto simp: task_ok_def\<close>)

lemma task_ok_changes: "task_ok A s k \<Longrightarrow> store_advances s s' \<Longrightarrow> task_ok A s' k"
proof -
  assume *: "task_ok A s k" "store_advances s s'"
  have "\<exists>u. get_token h s' = Some u \<and> refresh_of f u" if "get_token h s = Some t" "refresh_of f t" for h f t
    using *(2) that refresh_of_advances unfolding store_advances_def by blast
  then show ?thesis using *(1) by (rule task_ok_kept)
qed

lemma store_changes_advances: "store_changes s s' \<Longrightarrow> (\<And>i. get_grant i s' = get_grant i s) \<Longrightarrow> store_advances s s'"
  unfolding store_advances_def using store_changes_get(1) by (metis grant_advances_simps(1))

lemma families_changes:
  assumes "families_ok A y" "store_changes (sys_store y) s"
  shows "families_ok A (y\<lparr>sys_store := s\<rparr>)"
proof -
  note get = store_changes_get [OF assms(2)]
  have kept: "\<exists>u. get_token h s = Some u \<and> refresh_of f u" if "get_token h (sys_store y) = Some t" "refresh_of f t" for h f t
    using get(1) [OF that(1)] that(2) refresh_of_advances by blast
  have tasks: "task_ok A s k" if "task_ok A (sys_store y) k" for k
    using kept that by (rule task_ok_kept)
  have "token_ok t" if t: "get_token h s = Some t" for h t
  proof -
    from get(2) [OF t] obtain u where u: "get_token h (sys_store y) = Some u" "token_advances u t" "otk_kind u = AccessToken \<longrightarrow> otk_used t = otk_used u"
      by blast
    then show ?thesis using assms(1) token_advances_fields [OF u(2)] by (auto simp: families_ok_def token_ok_def)
  qed
  moreover have "one_live_refresh s"
  proof (unfold one_live_refresh_def, safe)
    fix f h h' t t' assume *: "get_token h s = Some t" "get_token h' s = Some t'" "refresh_of f t" "refresh_of f t'" "live t" "live t'"
    from get(2) [OF *(1)] get(2) [OF *(2)] obtain u u' where "get_token h (sys_store y) = Some u" "token_advances u t"
      "get_token h' (sys_store y) = Some u'" "token_advances u' t'" by blast
    moreover have "one_live_refresh (sys_store y)" using assms(1) by (simp add: families_ok_def)
    ultimately show "h = h'" using *(3-6) refresh_of_advances live_advances unfolding one_live_refresh_def by blast
  qed
  moreover have "\<not> refresh_of f t" if "f \<in> set (saving_families y)" "get_token h s = Some t" for f h t
    using that get(2) [OF that(2)] assms(1) refresh_of_advances unfolding families_ok_def by blast
  ultimately show ?thesis using assms(1) tasks by (auto simp: families_ok_def list_all_iff)
qed

lemma families_same: "families_ok A y \<Longrightarrow> sys_store y' = sys_store y \<Longrightarrow> sys_tasks y' = sys_tasks y \<Longrightarrow> families_ok A y'"
proof -
  assume *: "families_ok A y" "sys_store y' = sys_store y" "sys_tasks y' = sys_tasks y"
  then have "saving_families y' = saving_families y" by (simp add: saving_families_def)
  with * show ?thesis by (auto simp: families_ok_def)
qed

lemma families_tasks:
  assumes "families_ok A y" "list_all (task_ok A (sys_store y)) ks" "distinct (concat (map saving_family ks))"
    "set (concat (map saving_family ks)) \<subseteq> set (saving_families y)"
  shows "families_ok A (y\<lparr>sys_tasks := ks\<rparr>)"
  using assms unfolding families_ok_def by (auto simp: subset_iff)

lemma task_ok_saved: "task_ok A s k \<Longrightarrow> get_token (otk_hash t) s = None \<Longrightarrow> task_ok A (save_token t s) k"
  by (rule task_ok_changes [OF _ save_token_advances])

lemma families_insert:
  assumes y: "families_ok A y" and new: "get_token (otk_hash t) (sys_store y) = None" and ok: "token_ok t"
    and other: "\<And>f. refresh_of f t \<Longrightarrow> f \<notin> set (saving_families y) \<and> (\<forall>h u. get_token h (sys_store y) = Some u \<and> refresh_of f u \<longrightarrow> \<not> live u)"
  shows "families_ok A (y\<lparr>sys_store := save_token t (sys_store y)\<rparr>)"
proof -
  have "one_live_refresh (save_token t (sys_store y))"
    using y other unfolding families_ok_def one_live_refresh_def by (auto split: if_splits)
  then show ?thesis using assms by (auto simp: families_ok_def list_all_iff task_ok_saved)
qed

lemma families_new_task:
  assumes "families_ok A y" "task_ok A (sys_store y) k"
    "\<And>f. f \<in> set (saving_family k) \<Longrightarrow> fresh_family y f" "distinct (saving_family k)"
    "\<And>f. f \<in> set (saving_families y) \<Longrightarrow> \<not> fresh_family y f"
  shows "families_ok A (y\<lparr>sys_tasks := k # sys_tasks y\<rparr>)"
proof -
  have "\<not> refresh_of f t" if "fresh_family y f" "get_token h (sys_store y) = Some t" for f h t
    using that lookup_vals unfolding fresh_family_def refresh_of_def get_token_def by (metis Un_iff image_eqI list.set_map map_append set_append)
  moreover have "set (saving_family k) \<inter> set (saving_families y) = {}" using assms(3,5) by blast
  ultimately show ?thesis using assms(1-4) by (auto simp: families_ok_def saving_families_def [symmetric])
qed

lemma saving_families_known: "f \<in> set (saving_families y) \<Longrightarrow> \<not> fresh_family y f"
proof -
  assume "f \<in> set (saving_families y)"
  then obtain t ts where "Saving (t # ts) \<in> set (sys_tasks y)" "otk_family t = Some f"
    by (auto simp: saving_families_def saving_family_def split: oauth_task.splits list.splits option.splits)
  then have "t \<in> set (pending y)" "otk_family t = Some f" by (auto simp: pending_def intro!: bexI)
  then show ?thesis by (force simp: fresh_family_def)
qed

context token_store
begin

lemma family_built:
  "access_of f (tpa_access (build_token_pair A g a f p sc d))" "refresh_of f (tpa_refresh (build_token_pair A g a f p sc d))"
  by (simp_all add: access_of_def refresh_of_def build_token_pair_def)

lemma families_saved:
  assumes y: "families_ok A y" "hashes_ok y" and k: "sys_tasks y = xs @ Saving (t # ts) # zs"
  shows "families_ok A (y\<lparr>sys_store := save_token t (sys_store y), sys_tasks := xs @ Saving ts # zs\<rparr>)"
proof -
  let ?y = "y\<lparr>sys_tasks := xs @ Saving ts # zs\<rparr>"
  have ok: "saving_ok (t # ts)" using y(1) k by (auto simp: families_ok_def task_ok_def)
  have old: "saving_families y = concat (map saving_family xs) @ saving_family (Saving (t # ts)) @ concat (map saving_family zs)"
    using k by (simp add: saving_families_def)
  have d: "distinct (saving_families y)" using y(1) by (simp add: families_ok_def)
  have new: "get_token (otk_hash t) (sys_store ?y) = None" using y(2) k by (auto simp: hashes_ok_def pending_def)
  have rest: "saving_ok ts" and same: "saving_family (Saving ts) = [] \<or> saving_family (Saving ts) = saving_family (Saving (t # ts))"
    and tok: "token_ok t" and other: "\<And>f. refresh_of f t \<Longrightarrow> ts = [] \<and> saving_family (Saving (t # ts)) = [f]"
    using ok by (auto simp: saving_ok_def token_ok_def access_of_def refresh_of_def saving_family_def)
  have "families_ok A ?y"
  proof (rule families_tasks [OF y(1)])
    show "list_all (task_ok A (sys_store y)) (xs @ Saving ts # zs)" using y(1) k rest by (simp add: families_ok_def task_ok_def)
    show "distinct (concat (map saving_family (xs @ Saving ts # zs)))" using d old same by auto
    show "set (concat (map saving_family (xs @ Saving ts # zs))) \<subseteq> set (saving_families y)" using old same by auto
  qed
  then have "families_ok A (?y\<lparr>sys_store := save_token t (sys_store ?y)\<rparr>)"
  proof (rule families_insert [OF _ new tok])
    fix f assume f: "refresh_of f t"
    then have one: "ts = []" "saving_family (Saving (t # ts)) = [f]" using other by blast+
    then have "f \<notin> set (saving_families ?y)" using d old by auto
    moreover have "f \<in> set (saving_families y)" using one old by simp
    then have "\<forall>h u. get_token h (sys_store y) = Some u \<longrightarrow> \<not> refresh_of f u" using y(1) by (auto simp: families_ok_def)
    ultimately show "f \<notin> set (saving_families ?y) \<and> (\<forall>h u. get_token h (sys_store ?y) = Some u \<and> refresh_of f u \<longrightarrow> \<not> live u)" by auto
  qed
  then show ?thesis by (rule families_same) simp_all
qed

lemma families_without:
  assumes "families_ok A y" "sys_tasks y = xs @ k # zs"
  shows "families_ok A (y\<lparr>sys_tasks := xs @ zs\<rparr>)"
  by (rule families_tasks [OF assms(1)]) (use assms in \<open>auto simp: families_ok_def saving_families_def\<close>)

lemma families_rotated:
  assumes y: "families_ok A y" "hashes_ok y" and k: "sys_tasks y = xs @ Rotating h now f pair # zs"
    and t: "get_token h (sys_store y) = Some t" "otk_kind t = RefreshToken" "otk_used t = None" "otk_revoked t = None"
  shows "families_ok A (y\<lparr>sys_store := save_token (tpa_refresh pair) (save_token (tpa_access pair) (use_token h t now (sys_store y))), sys_tasks := xs @ zs\<rparr>)"
proof -
  let ?a = "tpa_access pair" and ?r = "tpa_refresh pair"
  let ?u = "y\<lparr>sys_tasks := xs @ zs, sys_store := use_token h t now (sys_store y)\<rparr>"
  let ?v = "?u\<lparr>sys_store := save_token ?a (sys_store ?u)\<rparr>"
  have ok: "refresh_of f t" "access_of f ?a" "refresh_of f ?r" using y(1) k t(1) by (auto simp: families_ok_def task_ok_def)
  have new: "get_token (otk_hash ?a) (sys_store y) = None" "get_token (otk_hash ?r) (sys_store y) = None" "otk_hash ?a \<noteq> otk_hash ?r"
    using y(2) k by (auto simp: hashes_ok_def pending_def)
  then have h: "h \<noteq> otk_hash ?a" "h \<noteq> otk_hash ?r" using t(1) by auto
  have u: "families_ok A ?u"
    using families_changes [OF families_without [OF y(1) k], of "use_token h t now (sys_store y)"] use_token_changes [OF t(1)] t(2) by simp
  have v: "families_ok A ?v"
    using ok(2) new h by (intro families_insert [OF u]) (auto simp: access_of_def refresh_of_def token_ok_def)
  have dead: "\<not> live w" if "get_token k (sys_store ?v) = Some w" "refresh_of f w" for k w
  proof
    assume w: "live w"
    have "k \<noteq> otk_hash ?a" using that ok(2) by (auto simp: access_of_def refresh_of_def)
    moreover have "k \<noteq> h" using that w h by (auto simp: live_def)
    ultimately have "get_token k (sys_store y) = Some w" using that(1) by simp
    then show False using y(1) t ok(1) that(2) w \<open>k \<noteq> h\<close> unfolding families_ok_def one_live_refresh_def live_def by blast
  qed
  have "f \<notin> set (saving_families y)" using y(1) t(1) ok(1) by (auto simp: families_ok_def)
  then have f: "f \<notin> set (saving_families ?v)" using k by (auto simp: saving_families_def)
  have "families_ok A (?v\<lparr>sys_store := save_token ?r (sys_store ?v)\<rparr>)"
  proof (rule families_insert [OF v])
    show "get_token (otk_hash ?r) (sys_store ?v) = None" using new h by auto
    show "token_ok ?r" using ok(3) by (simp add: refresh_of_def token_ok_def)
    fix f' assume "refresh_of f' ?r"
    then have "f' = f" using ok(3) by (simp add: refresh_of_def)
    then show "f' \<notin> set (saving_families ?v) \<and> (\<forall>h u. get_token h (sys_store ?v) = Some u \<and> refresh_of f' u \<longrightarrow> \<not> live u)"
      using f dead by blast
  qed
  then show ?thesis by (rule families_same) simp_all
qed

lemma step_families:
  assumes "oauth_step P A y y'" "hashes_ok y" "families_ok A y"
  shows "families_ok A y'"
  using assms(1)
proof (cases rule: oauth_step.cases)
  case (register i c r s)
  then show ?thesis using register_client_store [of A i c "sys_store y" r s] families_changes [OF assms(3)] same_tokens_changes
    by (metis get_token_simps(3))
next
  case (users us)
  then show ?thesis using families_changes [OF assms(3) same_tokens_changes] by simp
next
  case (approves i r d p)
  have "families_ok A (y\<lparr>sys_tasks := Saving [approved_code A r d] # sys_tasks y\<rparr>)"
    by (rule families_new_task [OF assms(3)])
      (simp_all add: task_ok_def saving_ok_def approved_code_def saving_families_known)
  from families_changes [OF this same_tokens_changes, of "save_grant (approved_grant r p d) (sys_store y)"]
  show ?thesis unfolding approves(1) by (rule families_same) simp_all
next
  case (code i now d pair s)
  from code(2) show ?thesis
  proof (rule code_started)
    fix uri t g
    assume t: "get_token (oau_hash A (cin_code i)) (sys_store y) = Some t" "code_matches (code_claim_of A i uri now) t g"
      "s = use_token (oau_hash A (cin_code i)) t now (sys_store y)"
      "pair = build_token_pair A (otk_grant t) (otk_audience t) (pdr_family d) None (ogr_scopes g) d"
    note built = family_built [of "pdr_family d" A "otk_grant t" "otk_audience t" None "ogr_scopes g" d, folded t(4)]
    have "families_ok A (y\<lparr>sys_tasks := Saving [tpa_access pair, tpa_refresh pair] # sys_tasks y\<rparr>)"
      using built code(4) by (intro families_new_task [OF assms(3)]) (auto simp: task_ok_def saving_ok_def saving_families_known)
    moreover have "store_changes (sys_store y) s"
      using t(1,2) unfolding t(3) by (intro use_token_changes) (simp_all add: code_matches_def)
    ultimately have "families_ok A (y\<lparr>sys_tasks := Saving [tpa_access pair, tpa_refresh pair] # sys_tasks y, sys_store := s\<rparr>)"
      using families_changes by fastforce
    then show ?thesis unfolding code(1) by (rule families_same) simp_all
  qed
next
  case (code_refused i now d e s)
  from token_store.code_refused [OF token_store_axioms code_refused(2)] show ?thesis
  proof (elim disjE exE conjE)
    fix t assume "get_token (oau_hash A (cin_code i)) (sys_store y) = Some t" "otk_kind t = CodeToken"
      "s = use_token (oau_hash A (cin_code i)) t now (sys_store y)"
    then show ?thesis using families_changes [OF assms(3) use_token_changes] code_refused(1) by simp
  qed (use code_refused assms(3) in simp)
next
  case (save xs t ts zs)
  then show ?thesis using families_saved [OF assms(3,2)] by simp
next
  case (refresh i now t f)
  then have "task_ok A (sys_store y) (Reading i now t f)"
    by (auto simp: start_refresh_def task_ok_def refresh_of_def split: sum.splits option.splits if_splits)
  then show ?thesis using families_new_task [OF assms(3), of "Reading i now t f"] refresh(1) saving_families_known by simp
next
  case (refresh_used i now f)
  then obtain t where "get_token (oau_hash A (rin_token i)) (sys_store y) = Some t" "otk_family t = Some f" "otk_used t \<noteq> None"
    by (auto simp: start_refresh_def split: sum.splits option.splits if_splits)
  moreover from this(1) have "token_ok t" using assms(3) by (simp add: families_ok_def)
  ultimately have "task_ok A (sys_store y) (Revoking f now)"
    by (cases "otk_kind t") (auto simp: task_ok_def refresh_of_def token_ok_def)
  then show ?thesis using families_new_task [OF assms(3), of "Revoking f now"] refresh_used(1) saving_families_known by simp
next
  case (check xs i now t f zs d pair)
  from check(3) obtain g a p sc where b: "pair = build_token_pair A g a f p sc d"
    by (auto simp: check_refresh_def and_then_Inr_iff split: option.splits)
  have "task_ok A (sys_store y) (Rotating (oau_hash A (rin_token i)) now f pair)"
    using assms(3) check(2) family_built [of f A g a p sc d] by (auto simp: families_ok_def task_ok_def b)
  then show ?thesis unfolding check(1) using assms(3) check(2)
    by (intro families_tasks [OF assms(3)]) (auto simp: families_ok_def saving_families_def)
next
  case (rotate xs h now f pair zs outcome s)
  from rotate(3) show ?thesis
  proof (cases rule: rotate_cases)
    case (rotated t)
    then show ?thesis using families_rotated [OF assms(3,2) rotate(2)] rotate(1) by simp
  next
    case (reuse t)
    have "task_ok A (sys_store y) (Revoking f now)" using assms(3) rotate(2) by (auto simp: families_ok_def task_ok_def)
    then show ?thesis unfolding rotate(1) using assms(3) rotate(2) reuse
      by (simp, intro families_tasks [OF assms(3)]) (auto simp: families_ok_def saving_families_def)
  next
    case invalid
    then show ?thesis using families_without [OF assms(3) rotate(2)] rotate(1) by simp
  qed
next
  case (revoke_family xs f now zs)
  have "families_ok A (y\<lparr>sys_tasks := xs @ zs, sys_store := tpo_family P f now (sys_store y)\<rparr>)"
    using families_changes [OF families_without [OF assms(3) revoke_family(2)] only_revokes_changes, of "tpo_family P f now (sys_store y)"]
      family_revoked by simp
  then show ?thesis unfolding revoke_family(1) by (rule families_same) simp_all
next
  case (abandon xs k zs)
  then show ?thesis using families_without [OF assms(3)] by simp
next
  case (revoke raw now)
  then show ?thesis using families_changes [OF assms(3) only_revokes_changes [OF revoked]] by (simp add: revoke_raw_def)
next
  case (revoke_grant u g now)
  then show ?thesis using families_changes [OF assms(3) revoke_grant_changes] by simp
next
  case (revoke_user u now)
  then show ?thesis using families_changes [OF assms(3) revoke_user_changes] by simp
qed

lemma reachable_families: "oauth_steps P A no_requests y \<Longrightarrow> hashes_ok y \<and> families_ok A y"
proof (induction rule: rtranclp_induct)
  case base
  show ?case by (simp add: hashes_ok_def families_ok_def no_requests_def tokens_keyed_def get_token_def empty_oauth_store_def pending_def
      saving_families_def one_live_refresh_def)
next
  case (step y y')
  then show ?case using step_families step_hashes_and_store by blast
qed

end

end
