(* ===== verification/OAuthProperties.thy ===== *)
theory OAuthProperties
  imports OAuthSafety
begin

text \<open>
  The guarantees of the authorization server over every interleaving of requests, for the store in memory and the store in PostgreSQL alike.
\<close>

section \<open>What is dead stays dead\<close>

definition dead_family :: "string \<Rightarrow> oauth_system \<Rightarrow> bool" where
  "dead_family f y \<longleftrightarrow> (\<forall>h t. get_token h (sys_store y) = Some t \<and> otk_family t = Some f \<longrightarrow> otk_revoked t \<noteq> None) \<and>
     f \<notin> set (saving_families y) \<and> (\<exists>h t. get_token h (sys_store y) = Some t \<and> otk_family t = Some f)"

lemma dead_changes:
  assumes "dead_family f y" "store_changes (sys_store y) (sys_store y')" "f \<notin> set (saving_families y')"
  shows "dead_family f y'"
proof -
  note get = store_changes_get [OF assms(2)]
  have "otk_revoked t \<noteq> None" if "get_token h (sys_store y') = Some t" "otk_family t = Some f" for h t
  proof -
    from get(2) [OF that(1)] obtain u where u: "get_token h (sys_store y) = Some u" "token_advances u t" by blast
    then have "otk_family u = Some f" using that(2) token_advances_fields(5) by metis
    then show ?thesis using assms(1) u by (auto simp: dead_family_def token_advances_def)
  qed
  moreover obtain h t where t: "get_token h (sys_store y) = Some t" "otk_family t = Some f" using assms(1) by (auto simp: dead_family_def)
  moreover from get(1) [OF t(1)] obtain u where u: "get_token h (sys_store y') = Some u" "token_advances t u" by blast
  then have "otk_family u = Some f" using t(2) token_advances_fields(5) by metis
  with u(1) have "\<exists>h t. get_token h (sys_store y') = Some t \<and> otk_family t = Some f" by blast
  ultimately show ?thesis using assms(3) by (auto simp: dead_family_def)
qed

lemma dead_tasks: "dead_family f y \<Longrightarrow> sys_store y' = sys_store y \<Longrightarrow> f \<notin> set (saving_families y') \<Longrightarrow> dead_family f y'"
  by (rule dead_changes) (auto intro: same_tokens_changes)

lemma dead_saved:
  assumes "dead_family f y" "sys_store y' = save_token t (sys_store y)" "get_token (otk_hash t) (sys_store y) = None" "otk_family t \<noteq> Some f"
    "f \<notin> set (saving_families y')"
  shows "dead_family f y'"
proof -
  obtain h u where "get_token h (sys_store y) = Some u" "otk_family u = Some f" using assms(1) by (auto simp: dead_family_def)
  then have "get_token h (sys_store y') = Some u" "otk_family u = Some f" using assms(2,3) by auto
  with assms show ?thesis unfolding dead_family_def by (auto split: if_splits)
qed

lemma family_known: "get_token h (sys_store y) = Some t \<Longrightarrow> otk_family t = Some f \<Longrightarrow> \<not> fresh_family y f"
  using lookup_vals unfolding fresh_family_def get_token_def by (metis UnI1 image_eqI list.set_map map_append set_append)

context token_store
begin

lemma step_dead:
  assumes "oauth_step P A y y'" "hashes_ok y" "families_ok A y" "dead_family f y"
  shows "dead_family f y'"
  using assms(1)
proof (cases rule: oauth_step.cases)
  case (register i c r s)
  then have "store_changes (sys_store y) s"
    using register_client_store [of A i c "sys_store y" r s] by (auto intro!: same_tokens_changes)
  then show ?thesis using register(1) assms(4) by (intro dead_changes [OF assms(4)]) (auto simp: dead_family_def)
next
  case (users us)
  then show ?thesis using assms(4) by (intro dead_changes [OF assms(4)] same_tokens_changes) (auto simp: dead_family_def)
next
  case (approves i r d p)
  then show ?thesis using assms(4)
    by (intro dead_changes [OF assms(4)] same_tokens_changes) (auto simp: dead_family_def saving_families_def approved_code_def)
next
  case (code i now d pair s)
  from code(2) show ?thesis
  proof (rule code_started)
    fix uri t g
    assume t: "get_token (oau_hash A (cin_code i)) (sys_store y) = Some t" "code_matches (code_claim_of A i uri now) t g"
      "s = use_token (oau_hash A (cin_code i)) t now (sys_store y)"
      "pair = build_token_pair A (otk_grant t) (otk_audience t) (pdr_family d) None (ogr_scopes g) d"
    have "store_changes (sys_store y) s" using t(1,2) unfolding t(3) by (intro use_token_changes) (simp_all add: code_matches_def)
    moreover have "pdr_family d \<noteq> f" using code(4) assms(4) family_known by (auto simp: dead_family_def)
    ultimately show ?thesis using code(1) assms(4)
      by (intro dead_changes [OF assms(4)]) (auto simp: dead_family_def saving_families_def saving_family_def t(4))
  qed
next
  case (code_refused i now d e s)
  have "store_changes (sys_store y) s"
    using token_store.code_refused [OF token_store_axioms code_refused(2)] by (auto intro: same_tokens_changes use_token_changes)
  then show ?thesis using code_refused(1) assms(4) by (intro dead_changes [OF assms(4)]) (auto simp: dead_family_def)
next
  case (save xs t ts zs)
  have old: "saving_families y = concat (map saving_family xs) @ saving_family (Saving (t # ts)) @ concat (map saving_family zs)"
    using save(2) by (simp add: saving_families_def)
  have "saving_ok (t # ts)" using assms(3) save(2) by (auto simp: families_ok_def task_ok_def)
  then have "set (saving_family (Saving ts)) \<subseteq> set (saving_family (Saving (t # ts)))"
    "\<And>g. otk_family t = Some g \<Longrightarrow> g \<in> set (saving_family (Saving (t # ts)))"
    by (auto simp: saving_ok_def access_of_def refresh_of_def saving_family_def)
  then have "f \<notin> set (saving_families y')" "otk_family t \<noteq> Some f"
    using assms(4) old save(1) by (auto simp: dead_family_def)
  moreover have "get_token (otk_hash t) (sys_store y) = None" using assms(2) save(2) by (auto simp: hashes_ok_def pending_def)
  ultimately show ?thesis using save(1) by (intro dead_saved [OF assms(4)]) simp_all
next
  case (refresh i now t f')
  then show ?thesis using assms(4) by (intro dead_tasks [OF assms(4)]) (auto simp: dead_family_def saving_families_def)
next
  case (refresh_used i now f')
  then show ?thesis using assms(4) by (intro dead_tasks [OF assms(4)]) (auto simp: dead_family_def saving_families_def)
next
  case (check xs i now t f' zs d pair)
  then show ?thesis using assms(4) by (intro dead_tasks [OF assms(4)]) (auto simp: dead_family_def saving_families_def)
next
  case (rotate xs h now f' pair zs outcome s)
  have gone: "f \<notin> set (saving_families y')"
    using assms(4) rotate(1,2) by (auto simp: dead_family_def saving_families_def split: if_splits)
  from rotate(3) show ?thesis
  proof (cases rule: rotate_cases)
    case (rotated t)
    let ?a = "tpa_access pair" and ?r = "tpa_refresh pair"
    let ?u = "y\<lparr>sys_store := use_token h t now (sys_store y)\<rparr>"
    let ?v = "?u\<lparr>sys_store := save_token ?a (sys_store ?u)\<rparr>"
    have ok: "refresh_of f' t" "access_of f' ?a" "refresh_of f' ?r" using assms(3) rotate(2) rotated(2) by (auto simp: families_ok_def task_ok_def)
    have "otk_family t \<noteq> Some f" using assms(4) rotated(2,5) unfolding dead_family_def by blast
    then have "f' \<noteq> f" using ok(1) by (auto simp: refresh_of_def)
    then have other: "otk_family ?a \<noteq> Some f" "otk_family ?r \<noteq> Some f" using ok by (auto simp: access_of_def refresh_of_def)
    have new: "get_token (otk_hash ?a) (sys_store y) = None" "get_token (otk_hash ?r) (sys_store y) = None" "otk_hash ?a \<noteq> otk_hash ?r"
      using assms(2) rotate(2) by (auto simp: hashes_ok_def pending_def)
    then have h: "h \<noteq> otk_hash ?a" "h \<noteq> otk_hash ?r" using rotated(2) by auto
    have u: "dead_family f ?u" using assms(4) rotated(2,3)
      by (intro dead_changes [OF assms(4)]) (auto simp: dead_family_def intro: use_token_changes)
    have v: "dead_family f ?v" using u new h other by (intro dead_saved [OF u]) (auto simp: dead_family_def)
    show ?thesis using rotate(1) rotated(6) new h other gone by (intro dead_saved [OF v, of _ ?r]) auto
  qed (use rotate(1) gone in \<open>auto intro!: dead_tasks [OF assms(4)]\<close>)
next
  case (revoke_family xs f' now zs)
  then show ?thesis using assms(4) only_revokes_changes [OF family_revoked]
    by (intro dead_changes [OF assms(4)]) (auto simp: dead_family_def saving_families_def)
next
  case (abandon xs k zs)
  then show ?thesis using assms(4) by (intro dead_tasks [OF assms(4)]) (auto simp: dead_family_def saving_families_def)
next
  case (revoke raw now)
  then show ?thesis using assms(4) only_revokes_changes [OF revoked]
    by (intro dead_changes [OF assms(4)]) (auto simp: dead_family_def revoke_raw_def)
next
  case (revoke_grant u g now)
  then show ?thesis using assms(4) revoke_grant_changes by (intro dead_changes [OF assms(4)]) (auto simp: dead_family_def)
next
  case (revoke_user u now)
  then show ?thesis using assms(4) revoke_user_changes by (intro dead_changes [OF assms(4)]) (auto simp: dead_family_def)
qed

lemma steps_dead:
  assumes "oauth_steps P A y y'" "hashes_ok y" "families_ok A y" "dead_family f y"
  shows "dead_family f y'"
  using assms
proof (induction rule: rtranclp_induct)
  case (step y' y'')
  have "hashes_ok y' \<and> families_ok A y'" using step(1,4,5)
    by (induction rule: rtranclp_induct) (use step_families step_hashes_and_store in blast)+
  then show ?case using step step_dead by blast
qed

end

lemma both_ports: "P \<in> {memory_port, neon_port} \<Longrightarrow> token_store P"
  using memory.token_store_axioms neon.token_store_axioms by blast

lemma refused_refresh:
  assumes "get_token (oau_hash A (rin_token i)) s = Some t" "\<not> live t"
  shows "\<exists>e. fst (exchange_refresh_token P A i now d s) = Inl e"
  using assms by (auto simp: exchange_refresh_token_def start_refresh_def bind_action_def reads_def throw_def is_inactive_def live_def
      revoke_then_fail_def writes_def split: sum.splits option.splits)

lemma refused_code:
  assumes "token_store P" "\<And>t g c. get_token (oau_hash A (cin_code i)) s = Some t \<Longrightarrow> get_grant (otk_grant t) s = Some g \<Longrightarrow> \<not> code_matches c t g"
  shows "\<exists>e. fst (exchange_authorization_code P A i now d s) = Inl e"
proof (cases "start_code_exchange P A i now d s")
  case (Pair r s')
  show ?thesis
  proof (cases r)
    case (Inr pair)
    from token_store.code_started [OF assms(1) Pair [unfolded Inr]] obtain uri t g where
      "get_token (oau_hash A (cin_code i)) s = Some t" "get_grant (otk_grant t) s = Some g" "code_matches (code_claim_of A i uri now) t g" by metis
    then show ?thesis using assms(2) by blast
  qed (use Pair in \<open>simp add: exchange_authorization_code_def bind_action_def\<close>)
qed

lemma refused_spent_code:
  assumes "token_store P" "get_token (oau_hash A (cin_code i)) s = Some t" "\<not> live t"
  shows "\<exists>e. fst (exchange_authorization_code P A i now d s) = Inl e"
  by (rule refused_code [OF assms(1)]) (use assms in \<open>auto simp: code_matches_def live_def\<close>)

lemma refused_bearer: "get_token (oau_hash A raw) s = Some t \<Longrightarrow> otk_revoked t \<noteq> None \<Longrightarrow> authenticate A raw now s = None"
  by (simp add: authenticate_def resolve_access_token_def)

text \<open>A raw token that opens nothing any more.\<close>

definition refused :: "token_port \<Rightarrow> oauth \<Rightarrow> string \<Rightarrow> oauth_store \<Rightarrow> bool" where
  "refused P A raw s \<longleftrightarrow> (\<forall>now. authenticate A raw now s = None) \<and>
     (\<forall>i now d. rin_token i = raw \<longrightarrow> (\<exists>e. fst (exchange_refresh_token P A i now d s) = Inl e)) \<and>
     (\<forall>i now d. cin_code i = raw \<longrightarrow> (\<exists>e. fst (exchange_authorization_code P A i now d s) = Inl e))"

lemma refused_revoked:
  assumes "token_store P" "get_token (oau_hash A raw) s = Some t" "otk_revoked t \<noteq> None"
  shows "refused P A raw s"
  using refused_bearer [OF assms(2,3)] refused_refresh [of A _ s t] refused_spent_code [OF assms(1), of A _ s t] assms(2,3)
  by (auto simp: refused_def live_def)

lemma refused_grant:
  assumes "token_store P" "get_token (oau_hash A raw) s = Some t" "get_grant (otk_grant t) s = Some g" "ogr_revoked g \<noteq> None"
  shows "refused P A raw s"
  unfolding refused_def
proof (intro conjI allI impI)
  show "authenticate A raw now s = None" for now
    using assms(2-4) by (simp add: authenticate_def resolve_access_token_def split: option.split)
  show "\<exists>e. fst (exchange_refresh_token P A i now d s) = Inl e" if "rin_token i = raw" for i now d
    using assms(2-4) that by (auto simp: exchange_refresh_token_def start_refresh_def bind_action_def reads_def throw_def
        revoke_then_fail_def writes_def check_refresh_def lift_result_def guard_def split: sum.splits option.splits)
  show "\<exists>e. fst (exchange_authorization_code P A i now d s) = Inl e" if "cin_code i = raw" for i now d
    by (rule refused_code [OF assms(1)]) (use assms(2-4) that in \<open>auto simp: code_matches_def\<close>)
qed

section \<open>Approval\<close>

definition approval_ok :: "oauth \<Rightarrow> oauth_system \<Rightarrow> bool" where
  "approval_ok A y \<longleftrightarrow> (\<forall>i g. get_grant i (sys_store y) = Some g \<longrightarrow> ogr_id g = i \<and> (\<exists>a\<in>set (sys_approved y). grant_advances a g)) \<and>
     (\<forall>a\<in>set (sys_approved y). normalize_resource A (oau_resource A) = Inr (ogr_resource a))"

lemma approval_kept:
  assumes "approval_ok A y" "sys_approved y' = sys_approved y"
    "\<And>i g. get_grant i (sys_store y') = Some g \<Longrightarrow> \<exists>g'. get_grant i (sys_store y) = Some g' \<and> grant_advances g' g"
  shows "approval_ok A y'"
proof -
  have "ogr_id g = i \<and> (\<exists>a\<in>set (sys_approved y). grant_advances a g)" if g: "get_grant i (sys_store y') = Some g" for i g
  proof -
    from assms(3) [OF g] obtain g' where g': "get_grant i (sys_store y) = Some g'" "grant_advances g' g" by blast
    with assms(1) obtain a where "a \<in> set (sys_approved y)" "grant_advances a g'" "ogr_id g' = i" unfolding approval_ok_def by blast
    with g'(2) show ?thesis using grant_advances_trans grant_advances_fields(1) by auto
  qed
  with assms(1,2) show ?thesis unfolding approval_ok_def by simp
qed

lemma request_resource: "validate_authorization_request A i s = Inr r \<Longrightarrow> normalize_resource A (oau_resource A) = Inr (arq_resource r)"
  by (auto simp: validate_authorization_request_def validate_resource_def and_then_Inr_iff split: option.splits)

lemma grants_revoked:
  "get_grant i (snd (revoke_grant_for_user u k now s)) = Some g \<Longrightarrow> \<exists>g'. get_grant i s = Some g' \<and> grant_advances g' g"
  "get_grant i (revoke_user_access u now s) = Some g \<Longrightarrow> \<exists>g'. get_grant i s = Some g' \<and> grant_advances g' g"
  by (auto simp: revoke_grant_for_user_def revoke_user_access_def Let_def get_revoked_grants split: option.splits if_splits)

context token_store
begin

lemma step_approval:
  assumes "oauth_step P A y y'" "approval_ok A y"
  shows "approval_ok A y'"
  using assms(1)
proof (cases rule: oauth_step.cases)
  case (register i c r s)
  have "get_grant k s = get_grant k (sys_store y)" for k
    using register_client_store [OF register(2)] by auto
  then show ?thesis using register(1) by (intro approval_kept [OF assms(2)]) auto
next
  case (approves i r d p)
  then show ?thesis using assms(2) request_resource [OF approves(2)] grant_advances_simps(1)
    by (auto simp: approval_ok_def approved_grant_def split: if_splits)
next
  case (code i now d pair s)
  from code(2) have "get_grant k s = get_grant k (sys_store y)" for k by (rule code_started) simp
  then show ?thesis using code(1) by (intro approval_kept [OF assms(2)]) auto
next
  case (code_refused i now d e s)
  have "get_grant k s = get_grant k (sys_store y)" for k
    using token_store.code_refused [OF token_store_axioms code_refused(2)] by auto
  then show ?thesis using code_refused(1) by (intro approval_kept [OF assms(2)]) auto
next
  case (rotate xs h now f pair zs outcome s)
  from rotate(3) have "get_grant k s = get_grant k (sys_store y)" for k by (cases rule: rotate_cases) auto
  then show ?thesis using rotate(1) by (intro approval_kept [OF assms(2)]) auto
next
  case (revoke_family xs f now zs)
  then show ?thesis using only_revokes_get(1) [OF family_revoked] by (intro approval_kept [OF assms(2)]) auto
next
  case (revoke raw now)
  then show ?thesis using only_revokes_get(1) [OF revoked] by (intro approval_kept [OF assms(2)]) (auto simp: revoke_raw_def)
next
  case (revoke_grant u g now)
  then show ?thesis using grants_revoked(1) by (intro approval_kept [OF assms(2)]) auto
next
  case (revoke_user u now)
  then show ?thesis using grants_revoked(2) by (intro approval_kept [OF assms(2)]) auto
qed (auto intro!: approval_kept [OF assms(2)])

lemma reachable_approval: "oauth_steps P A no_requests y \<Longrightarrow> approval_ok A y"
proof (induction rule: rtranclp_induct)
  case base
  show ?case by (simp add: approval_ok_def no_requests_def get_grant_def empty_oauth_store_def)
qed (rule step_approval)

lemma reached_later: "oauth_steps P A y y' \<Longrightarrow> hashes_ok y \<Longrightarrow> store_advances (sys_store y) (sys_store y')"
  using steps_hashes_and_store by blast

end

section \<open>A run of the server\<close>

definition demo :: oauth where
  "demo = \<lparr>oau_hash = (\<lambda>s. s), oau_s256 = (\<lambda>s. s),
     oau_url = (\<lambda>s. Some \<lparr>oul_protocol = ''https:'', oul_hostname = ''host'', oul_username = [], oul_password = [], oul_hash = [], oul_href = s, oul_without_hash = s\<rparr>),
     oau_zod_url = (\<lambda>_. True), oau_email = (\<lambda>_. True), oau_with_query = (\<lambda>u ps. u), oau_resource = ''https://journal''\<rparr>"

definition demo_verifier :: string where "demo_verifier = replicate 43 (CHR ''v'')"

definition demo_input :: authorization_input where
  "demo_input = \<lparr>ain_client = ''client'', ain_redirect = ''https://agent'', ain_scope = ''journal:read'', ain_state = replicate 16 (CHR ''s''),
     ain_challenge = demo_verifier, ain_resource = ''https://journal''\<rparr>"

definition demo_registration :: client_registration where
  "demo_registration = \<lparr>crg_name = ''Agent'', crg_redirects = [''https://agent''], crg_scope = None, crg_links = [], crg_contacts = [], crg_software = []\<rparr>"

definition demo_request :: authorization_request where
  "demo_request = \<lparr>arq_client = ''client'', arq_name = ''Agent'', arq_redirect = ''https://agent'', arq_state = replicate 16 (CHR ''s''),
     arq_challenge = demo_verifier, arq_scopes = [JournalRead], arq_resource = ''https://journal''\<rparr>"

definition demo_user :: oauth_identity where "demo_user = \<lparr>oid_user = ''u'', oid_actor = ''a'', oid_display = ''A''\<rparr>"

definition demo_principal :: principal where
  "demo_principal = \<lparr>p_user = ''u'', p_actor = ''a'', p_display = ''A'', p_scopes = [], p_client = WebClient\<rparr>"

definition demo_approval :: approval_draw where "demo_approval = \<lparr>adr_now = 0, adr_grant = ''g'', adr_code = ''code'', adr_token = ''t0''\<rparr>"

definition demo_draw :: "string \<Rightarrow> pair_draw" where
  "demo_draw n = \<lparr>pdr_now = 1000, pdr_access = ''access'' @ n, pdr_refresh = ''refresh'' @ n, pdr_access_id = ''i'' @ n, pdr_refresh_id = ''j'' @ n, pdr_family = ''f'' @ n\<rparr>"

definition demo_code :: code_input where
  "demo_code = \<lparr>cin_code = ''code'', cin_client = ''client'', cin_redirect = ''https://agent'', cin_verifier = demo_verifier, cin_resource = None\<rparr>"

definition demo_refresh :: refresh_input where
  "demo_refresh = \<lparr>rin_token = ''refresh1'', rin_client = ''client'', rin_scope = None, rin_resource = None\<rparr>"

definition demo_grant :: oauth_grant where "demo_grant = approved_grant demo_request demo_principal demo_approval"

definition demo_token :: oauth_token where "demo_token = approved_code demo demo_request demo_approval"

definition demo_pair :: "string \<Rightarrow> string option \<Rightarrow> token_pair" where
  "demo_pair n p = build_token_pair demo ''g'' ''https://journal'' ''f1'' p [JournalRead] (demo_draw n)"

abbreviation demo_client :: oauth_client where
  "demo_client \<equiv> \<lparr>ocl_id = ''client'', ocl_name = ''Agent'', ocl_redirects = [''https://agent'']\<rparr>"

definition demo_store :: oauth_store where
  "demo_store = save_token demo_token (save_grant demo_grant ((save_client demo_client empty_oauth_store)\<lparr>oas_identities := [(''u'', demo_user)]\<rparr>))"

definition demo_approved :: oauth_system where
  "demo_approved = \<lparr>sys_store = demo_store, sys_tasks = [Saving []], sys_approved = [demo_grant]\<rparr>"

definition demo_exchanging :: oauth_system where
  "demo_exchanging = demo_approved\<lparr>sys_store := use_token ''code'' demo_token 1000 demo_store,
     sys_tasks := [Saving [tpa_access (demo_pair ''1'' None), tpa_refresh (demo_pair ''1'' None)], Saving []]\<rparr>"

definition demo_connected :: oauth_system where
  "demo_connected = demo_exchanging\<lparr>sys_store := save_token (tpa_refresh (demo_pair ''1'' None)) (save_token (tpa_access (demo_pair ''1'' None)) (sys_store demo_exchanging)),
     sys_tasks := [Saving [], Saving []]\<rparr>"

definition demo_rotated :: oauth_system where
  "demo_rotated = demo_connected\<lparr>sys_store := save_token (tpa_refresh (demo_pair ''2'' (Some ''j1''))) (save_token (tpa_access (demo_pair ''2'' (Some ''j1'')))
     (use_token ''refresh1'' (tpa_refresh (demo_pair ''1'' None)) 2000 (sys_store demo_connected)))\<rparr>"

lemma demo_token_fields [simp]:
  "otk_hash demo_token = ''code''" "otk_grant demo_token = ''g''" "otk_kind demo_token = CodeToken" "otk_family demo_token = None"
  "otk_challenge demo_token = Some demo_verifier" "otk_redirect demo_token = Some ''https://agent''" "otk_audience demo_token = ''https://journal''"
  "otk_expires demo_token = 300000" "otk_used demo_token = None" "otk_revoked demo_token = None"
  by (simp_all add: demo_token_def approved_code_def demo_def demo_approval_def demo_request_def add_seconds_def)

lemma demo_grant_fields [simp]:
  "ogr_id demo_grant = ''g''" "ogr_user demo_grant = ''u''" "ogr_client demo_grant = ''client''" "ogr_scopes demo_grant = [JournalRead]"
  "ogr_resource demo_grant = ''https://journal''" "ogr_revoked demo_grant = None"
  by (simp_all add: demo_grant_def approved_grant_def demo_approval_def demo_request_def demo_principal_def)

lemma demo_pair_fields [simp]:
  "otk_hash (tpa_access (demo_pair n p)) = ''access'' @ n" "otk_hash (tpa_refresh (demo_pair n p)) = ''refresh'' @ n"
  "otk_family (tpa_access (demo_pair n p)) = Some ''f1''" "otk_family (tpa_refresh (demo_pair n p)) = Some ''f1''"
  "otk_kind (tpa_access (demo_pair n p)) = AccessToken" "otk_kind (tpa_refresh (demo_pair n p)) = RefreshToken"
  "otk_grant (tpa_access (demo_pair n p)) = ''g''" "otk_grant (tpa_refresh (demo_pair n p)) = ''g''"
  "otk_audience (tpa_access (demo_pair n p)) = ''https://journal''" "otk_audience (tpa_refresh (demo_pair n p)) = ''https://journal''"
  "otk_expires (tpa_access (demo_pair n p)) = 901000" "otk_expires (tpa_refresh (demo_pair n p)) = 2592001000"
  "otk_used (tpa_access (demo_pair n p)) = None" "otk_used (tpa_refresh (demo_pair n p)) = None"
  "otk_revoked (tpa_access (demo_pair n p)) = None" "otk_revoked (tpa_refresh (demo_pair n p)) = None"
  "otk_id (tpa_refresh (demo_pair n p)) = ''j'' @ n"
  by (simp_all add: demo_pair_def build_token_pair_def demo_def demo_draw_def add_seconds_def)

lemma demo_store_gets [simp]:
  "get_token h demo_store = (if h = ''code'' then Some demo_token else None)" "get_grant k demo_store = (if k = ''g'' then Some demo_grant else None)"
  by (simp_all add: demo_store_def) (simp_all add: get_token_def get_grant_def save_client_def empty_oauth_store_def)

lemmas demo_values = demo_def demo_input_def demo_registration_def demo_request_def demo_principal_def demo_approval_def demo_code_def demo_refresh_def
  demo_draw_def

lemma demo_scopes: "parse_scopes ''journal:read'' = Inr [JournalRead]" "parse_scopes ''journal:write'' = Inr [JournalWrite]"
  by code_simp+

lemma demo_registered: "register_client demo demo_registration ''client'' empty_oauth_store =
   (Inr \<lparr>ocl_id = ''client'', ocl_name = ''Agent'', ocl_redirects = [''https://agent'']\<rparr>,
    save_client \<lparr>ocl_id = ''client'', ocl_name = ''Agent'', ocl_redirects = [''https://agent'']\<rparr> empty_oauth_store)"
proof -
  have "client_registration_ok demo demo_registration" by code_simp
  then show ?thesis by (simp add: register_client_def bind_action_def ensure_cases well_formed_def guard_def writes_def return_def Let_def
      normalize_redirect_uri_def new_url_def demo_def demo_registration_def)
qed

lemma demo_requested: "get_client ''client'' s = Some \<lparr>ocl_id = ''client'', ocl_name = ''Agent'', ocl_redirects = [''https://agent'']\<rparr> \<Longrightarrow>
   validate_authorization_request demo demo_input s = Inr demo_request"
proof -
  have "authorization_input_ok demo demo_input" by code_simp
  then show "get_client ''client'' s = Some \<lparr>ocl_id = ''client'', ocl_name = ''Agent'', ocl_redirects = [''https://agent'']\<rparr> \<Longrightarrow> ?thesis"
    by (simp add: validate_authorization_request_def well_formed_def guard_def validate_resource_def normalize_resource_def normalize_redirect_uri_def
        new_url_def demo_scopes demo_values)
qed

lemma one_step: "oauth_step P A y z \<Longrightarrow> oauth_steps P A y z"
  by (rule r_into_rtranclp)

lemma one_more_step: "oauth_steps P A x y \<Longrightarrow> oauth_step P A y z \<Longrightarrow> oauth_steps P A x z"
  by (rule rtranclp.rtrancl_into_rtrancl)

lemma demo_reaches_approved: "oauth_steps P demo no_requests demo_approved"
proof -
  let ?y1 = "no_requests\<lparr>sys_store := save_client demo_client empty_oauth_store\<rparr>"
  let ?y2 = "?y1\<lparr>sys_store := (sys_store ?y1)\<lparr>oas_identities := [(''u'', demo_user)]\<rparr>\<rparr>"
  let ?y3 = "?y2\<lparr>sys_store := save_grant demo_grant (sys_store ?y2), sys_tasks := Saving [demo_token] # sys_tasks ?y2,
    sys_approved := demo_grant # sys_approved ?y2\<rparr>"
  have 1: "oauth_step P demo no_requests ?y1"
    by (rule oauth_step.register [where i = demo_registration and c = "''client''"]) (simp add: no_requests_def demo_registered)
  have 2: "oauth_step P demo ?y1 ?y2" by (rule oauth_step.users)
  have 3: "oauth_step P demo ?y2 ?y3" unfolding demo_grant_def demo_token_def
  proof (rule oauth_step.approves [OF demo_requested])
    show "get_client ''client'' (sys_store ?y2) = Some demo_client" by (simp add: get_client_def save_client_def)
    show "get_grant (adr_grant demo_approval) (sys_store ?y2) = None" by (simp add: get_grant_def save_client_def empty_oauth_store_def)
    show "fresh_hash ?y2 (oau_hash demo (adr_code demo_approval))"
      by (simp add: fresh_hash_def get_token_def save_client_def empty_oauth_store_def pending_def no_requests_def)
  qed
  have 4: "oauth_step P demo ?y3 demo_approved"
    using oauth_step.save [of ?y3 "[]" demo_token "[]" "[]" P demo] by (simp add: no_requests_def demo_approved_def demo_store_def)
  from one_more_step [OF one_more_step [OF one_more_step [OF one_step [OF 1] 2] 3] 4] show ?thesis .
qed

lemma demo_code_starts:
  assumes "P \<in> {memory_port, neon_port}"
  shows "start_code_exchange P demo demo_code 1000 (demo_draw ''1'') (sys_store demo_approved) = (Inr (demo_pair ''1'' None), sys_store demo_exchanging)"
proof -
  let ?c = "\<lparr>ccl_hash = ''code'', ccl_client = ''client'', ccl_redirect = ''https://agent'', ccl_challenge = demo_verifier, ccl_at = 1000\<rparr>"
  have v: "validate_verifier demo_verifier = Inr ()" by code_simp
  have uri: "normalize_redirect_uri demo ''https://agent'' = Inr ''https://agent''"
    by (simp add: normalize_redirect_uri_def new_url_def guard_def demo_def)
  have "tpo_consume P ?c demo_store = (Some (demo_token, demo_grant), use_token ''code'' demo_token 1000 demo_store)"
    using assms by (auto simp: memory_port_def neon_port_def consume_authorization_code_def neon_consume_authorization_code_def use_token_def code_matches_def)
  moreover have "build_token_pair demo (otk_grant demo_token) (otk_audience demo_token) (pdr_family (demo_draw ''1'')) None (ogr_scopes demo_grant) (demo_draw ''1'') =
    demo_pair ''1'' None"
    by (simp add: demo_pair_def demo_draw_def)
  moreover have "oau_hash demo ''code'' = ''code''" "oau_s256 demo demo_verifier = demo_verifier" by (simp_all add: demo_def)
  ultimately show ?thesis
    using v uri by (simp add: start_code_exchange_def bind_action_def ensure_cases check_resource_def consume_code_def return_def demo_code_def
        demo_approved_def demo_exchanging_def is_inactive_def)
qed

lemma demo_unused: "fresh_pair demo_approved (demo_pair ''1'' None)" "fresh_family demo_approved (pdr_family (demo_draw ''1''))"
proof -
  show "fresh_pair demo_approved (demo_pair ''1'' None)" by (simp add: fresh_pair_def fresh_hash_def demo_approved_def pending_def)
  show "fresh_family demo_approved (pdr_family (demo_draw ''1''))"
    by (simp add: fresh_family_def demo_approved_def pending_def demo_store_def save_token_def save_grant_def save_client_def empty_oauth_store_def put_def)
qed

lemma demo_reaches_connected:
  assumes "P \<in> {memory_port, neon_port}"
  shows "oauth_steps P demo no_requests demo_exchanging" "oauth_steps P demo demo_exchanging demo_connected"
proof -
  have "oauth_step P demo demo_approved demo_exchanging"
    using oauth_step.code [OF demo_code_starts [OF assms] demo_unused] by (simp add: demo_exchanging_def demo_approved_def)
  then show "oauth_steps P demo no_requests demo_exchanging" by (rule one_more_step [OF demo_reaches_approved])
  let ?a = "tpa_access (demo_pair ''1'' None)" and ?r = "tpa_refresh (demo_pair ''1'' None)"
  let ?y = "demo_exchanging\<lparr>sys_store := save_token ?a (sys_store demo_exchanging), sys_tasks := [Saving [?r], Saving []]\<rparr>"
  have "oauth_step P demo demo_exchanging ?y"
    using oauth_step.save [of demo_exchanging "[]" ?a "[?r]" "[Saving []]" P demo] by (simp add: demo_exchanging_def)
  moreover have "oauth_step P demo ?y demo_connected"
    using oauth_step.save [of ?y "[]" ?r "[]" "[Saving []]" P demo] by (simp add: demo_connected_def)
  ultimately show "oauth_steps P demo demo_exchanging demo_connected" by (rule one_more_step [OF one_step])
qed

section \<open>The guarantees\<close>

text \<open>C8: No access without an approval. Whatever requests ran and however they interleaved, whoever a bearer token authenticates is a user who
  approved a grant for that client with exactly those permissions, for the resource the server protects, and that grant is not revoked.\<close>
theorem access_was_approved:
  assumes "P \<in> {memory_port, neon_port}" "oauth_steps P A no_requests y" "authenticate A raw now (sys_store y) = Some a"
  shows "\<exists>g t g'. g \<in> set (sys_approved y) \<and> lookup (oas_identities (sys_store y)) (ogr_user g) = Some (acc_identity a) \<and>
    acc_client a = ogr_client g \<and> acc_scopes a = ogr_scopes g \<and> normalize_resource A (oau_resource A) = Inr (ogr_resource g) \<and>
    get_token (oau_hash A raw) (sys_store y) = Some t \<and> otk_audience t = ogr_resource g \<and> now < otk_expires t \<and>
    get_grant (otk_grant t) (sys_store y) = Some g' \<and> ogr_id g' = ogr_id g \<and> ogr_revoked g' = None"
proof -
  have ok: "approval_ok A y" by (rule token_store.reachable_approval [OF both_ports [OF assms(1)] assms(2)])
  from assms(3) obtain t g' i where t: "get_token (oau_hash A raw) (sys_store y) = Some t" "get_grant (otk_grant t) (sys_store y) = Some g'"
    "lookup (oas_identities (sys_store y)) (ogr_user g') = Some i" "ogr_revoked g' = None" "ogr_resource g' = otk_audience t" "now < otk_expires t"
    "a = \<lparr>acc_identity = i, acc_client = ogr_client g', acc_scopes = ogr_scopes g'\<rparr>"
    by (auto simp: authenticate_def resolve_access_token_def split: option.splits if_splits)
  obtain g where "g \<in> set (sys_approved y)" "grant_advances g g'" "normalize_resource A (oau_resource A) = Inr (ogr_resource g)"
    using ok t(2) unfolding approval_ok_def by blast
  then show ?thesis using t grant_advances_fields [of g g'] by (intro exI [of _ g] exI [of _ t] exI [of _ g']) simp
qed

theorem access_was_approved_witness:
  "\<exists>g t g'. g \<in> set (sys_approved demo_connected) \<and> lookup (oas_identities (sys_store demo_connected)) (ogr_user g) = Some demo_user \<and>
    ''client'' = ogr_client g \<and> [JournalRead] = ogr_scopes g \<and> normalize_resource demo (oau_resource demo) = Inr (ogr_resource g) \<and>
    get_token (oau_hash demo ''access1'') (sys_store demo_connected) = Some t \<and> otk_audience t = ogr_resource g \<and> 5000 < otk_expires t \<and>
    get_grant (otk_grant t) (sys_store demo_connected) = Some g' \<and> ogr_id g' = ogr_id g \<and> ogr_revoked g' = None"
proof -
  have "oauth_steps memory_port demo no_requests demo_connected" using demo_reaches_connected [of memory_port] by (blast intro: rtranclp_trans)
  moreover have "authenticate demo ''access1'' 5000 (sys_store demo_connected) =
      Some \<lparr>acc_identity = demo_user, acc_client = ''client'', acc_scopes = [JournalRead]\<rparr>"
    by (simp add: authenticate_def resolve_access_token_def demo_connected_def demo_exchanging_def)
      (simp add: demo_def demo_store_def save_token_def save_grant_def use_token_def)
  ultimately show ?thesis using access_was_approved [of memory_port demo demo_connected "''access1''" 5000] by simp
qed

text \<open>C9: An authorization code works once. The exchange that succeeds presented the verifier of the challenge, the client and the address the code
  was issued for, before it expired; and however requests interleave after it, the code is never exchanged again.\<close>
theorem authorization_code_works_once:
  assumes port: "P \<in> {memory_port, neon_port}" and reach: "oauth_steps P A no_requests y"
    and first: "start_code_exchange P A i now d (sys_store y) = (Inr pair, s)" and fresh: "fresh_pair y pair" "fresh_family y (pdr_family d)"
    and later: "oauth_steps P A (y\<lparr>sys_store := s, sys_tasks := Saving [tpa_access pair, tpa_refresh pair] # sys_tasks y\<rparr>) y'"
  shows "(\<exists>t g uri. get_token (oau_hash A (cin_code i)) (sys_store y) = Some t \<and> get_grant (otk_grant t) (sys_store y) = Some g \<and>
      otk_kind t = CodeToken \<and> otk_challenge t = Some (oau_s256 A (cin_verifier i)) \<and> ogr_client g = cin_client i \<and>
      normalize_redirect_uri A (cin_redirect i) = Inr uri \<and> otk_redirect t = Some uri \<and> now < otk_expires t \<and> ogr_revoked g = None) \<and>
    (\<forall>j now' d'. cin_code j = cin_code i \<longrightarrow> (\<exists>e. fst (exchange_authorization_code P A j now' d' (sys_store y')) = Inl e))"
proof -
  note store = both_ports [OF port]
  let ?y = "y\<lparr>sys_store := s, sys_tasks := Saving [tpa_access pair, tpa_refresh pair] # sys_tasks y\<rparr>"
  have "hashes_ok ?y"
    using token_store.step_hashes_and_store [OF store oauth_step.code [OF first fresh]] token_store.reachable_hashes [OF store reach] by blast
  then have adv: "store_advances s (sys_store y')" using token_store.reached_later [OF store later] by simp
  from token_store.code_started [OF store first] obtain uri t g where t: "normalize_redirect_uri A (cin_redirect i) = Inr uri"
    "get_token (oau_hash A (cin_code i)) (sys_store y) = Some t" "get_grant (otk_grant t) (sys_store y) = Some g"
    "code_matches (code_claim_of A i uri now) t g" "\<not> is_inactive t now" "s = use_token (oau_hash A (cin_code i)) t now (sys_store y)"
    by metis
  have "get_token (oau_hash A (cin_code i)) s = Some (t\<lparr>otk_used := Some now\<rparr>)" using t(6) by simp
  with adv obtain u where "get_token (oau_hash A (cin_code i)) (sys_store y') = Some u" "token_advances (t\<lparr>otk_used := Some now\<rparr>) u"
    unfolding store_advances_def by blast
  then have "get_token (oau_hash A (cin_code i)) (sys_store y') = Some u" "\<not> live u" by (auto simp: token_advances_def live_def)
  then show ?thesis using t refused_spent_code [OF store, of A _ "sys_store y'" u]
    by (auto simp: code_matches_def code_claim_of_def is_inactive_def)
qed

theorem authorization_code_works_once_witness:
  "\<exists>e. fst (exchange_authorization_code neon_port demo demo_code 3000 (demo_draw ''3'') (sys_store demo_connected)) = Inl e"
proof -
  have "demo_approved\<lparr>sys_store := sys_store demo_exchanging, sys_tasks := Saving [tpa_access (demo_pair ''1'' None), tpa_refresh (demo_pair ''1'' None)] #
      sys_tasks demo_approved\<rparr> = demo_exchanging"
    by (simp add: demo_exchanging_def demo_approved_def)
  then show ?thesis
    using authorization_code_works_once [OF _ demo_reaches_approved demo_code_starts demo_unused, of neon_port demo_connected] demo_reaches_connected(2) [of neon_port]
    by simp
qed

lemma demo_reaches_rotated: "oauth_steps memory_port demo no_requests demo_rotated"
proof -
  let ?r = "tpa_refresh (demo_pair ''1'' None)" and ?pair = "demo_pair ''2'' (Some ''j1'')"
  let ?y1 = "demo_connected\<lparr>sys_tasks := Reading demo_refresh 2000 ?r ''f1'' # sys_tasks demo_connected\<rparr>"
  let ?y2 = "?y1\<lparr>sys_tasks := [] @ Rotating (oau_hash demo (rin_token demo_refresh)) 2000 ''f1'' ?pair # sys_tasks demo_connected\<rparr>"
  have got: "get_token ''refresh1'' (sys_store demo_connected) = Some ?r" "get_grant ''g'' (sys_store demo_connected) = Some demo_grant"
    by (simp_all add: demo_connected_def demo_exchanging_def)
  have hash: "oau_hash demo (rin_token demo_refresh) = ''refresh1''" by (simp add: demo_def demo_refresh_def)
  have 1: "oauth_step memory_port demo demo_connected ?y1"
    by (rule oauth_step.refresh) (simp add: start_refresh_def check_resource_def got is_inactive_def demo_refresh_def demo_def)
  have 2: "oauth_step memory_port demo ?y1 ?y2"
  proof (rule oauth_step.check [where d = "demo_draw ''2''"])
    show "check_refresh demo demo_refresh ?r ''f1'' (demo_draw ''2'') (sys_store ?y1) = Inr ?pair"
      by (simp add: check_refresh_def got guard_def) (simp add: demo_refresh_def demo_pair_def)
    show "fresh_pair ?y1 ?pair"
      by (simp add: fresh_pair_def fresh_hash_def pending_def demo_connected_def demo_exchanging_def)
  qed simp
  have 3: "oauth_step memory_port demo ?y2 demo_rotated"
  proof -
    have "rotate_pair memory_port ''refresh1'' 2000 ?pair (sys_store ?y2) = (Inr Rotated, sys_store demo_rotated)"
      by (simp add: rotate_pair_def memory_port_def rotate_refresh_token_def got demo_rotated_def use_token_def)
    from oauth_step.rotate [OF _ this, of "[]" "''f1''" "sys_tasks demo_connected" demo] show ?thesis
      by (simp add: hash demo_rotated_def)
  qed
  have 0: "oauth_steps memory_port demo no_requests demo_connected" using demo_reaches_connected [of memory_port] by (blast intro: rtranclp_trans)
  from one_more_step [OF one_more_step [OF one_more_step [OF 0 1] 2] 3] show ?thesis .
qed

text \<open>C10: A reused refresh token ends its family. When a refresh token that was used before is presented again, in a call that names this server's
  resource or none, the call is refused and, whatever
  requests are under way or follow, every token of its family is revoked for good: none authenticates, none can be refreshed.\<close>
theorem reused_refresh_token_ends_its_family:
  assumes port: "P \<in> {memory_port, neon_port}" and reach: "oauth_steps P A no_requests y"
    and used: "get_token (oau_hash A (rin_token i)) (sys_store y) = Some t" "refresh_of f t" "otk_used t \<noteq> None" "check_resource A (rin_resource i) = Inr ()"
    and call: "exchange_refresh_token P A i now d (sys_store y) = (r, s)"
    and later: "oauth_steps P A (y\<lparr>sys_store := s\<rparr>) y'"
    and member: "get_token (oau_hash A raw) (sys_store y') = Some u" "otk_family u = Some f"
  shows "r = Inl (protocol_error InvalidGrant) \<and> refused P A raw (sys_store y')"
proof -
  note store = both_ports [OF port]
  have start: "start_refresh A i now (sys_store y) = RefreshReuse f"
    using used by (simp add: start_refresh_def refresh_of_def is_inactive_def)
  then have call': "r = Inl (protocol_error InvalidGrant)" "s = tpo_family P f now (sys_store y)"
    using call by (simp_all add: exchange_refresh_token_def bind_action_def reads_def revoke_then_fail_def writes_def throw_def)
  let ?y = "y\<lparr>sys_tasks := Revoking f now # sys_tasks y\<rparr>"
  have step: "oauth_step P A y ?y" by (rule oauth_step.refresh_used [OF start])
  have next_step: "oauth_step P A ?y (?y\<lparr>sys_store := s, sys_tasks := [] @ sys_tasks y\<rparr>)"
    unfolding call'(2) using oauth_step.revoke_family [of ?y "[]" f now "sys_tasks y" P A] by simp
  have same: "?y\<lparr>sys_store := s, sys_tasks := [] @ sys_tasks y\<rparr> = y\<lparr>sys_store := s\<rparr>" by simp
  have "oauth_steps P A no_requests (y\<lparr>sys_store := s\<rparr>)"
    using one_more_step [OF one_more_step [OF reach step] next_step] unfolding same .
  then have ok: "hashes_ok (y\<lparr>sys_store := s\<rparr>)" "families_ok A (y\<lparr>sys_store := s\<rparr>)" using token_store.reachable_families [OF store] by blast+
  have "families_ok A y" using token_store.reachable_families [OF store reach] by blast
  then have "f \<notin> set (saving_families y)" using used(1,2) by (auto simp: families_ok_def)
  moreover obtain u' where "get_token (oau_hash A (rin_token i)) s = Some u'" "otk_family u' = Some f"
    using only_revokes_get(3) [OF token_store.family_revoked [OF store] used(1)] used(2) token_advances_fields(5) unfolding call'(2)
    by (fastforce simp: refresh_of_def)
  ultimately have "dead_family f (y\<lparr>sys_store := s\<rparr>)"
    using token_store.family_dead [OF store] unfolding call'(2) by (auto simp: dead_family_def)
  then have "dead_family f y'" by (rule token_store.steps_dead [OF store later ok])
  then have "otk_revoked u \<noteq> None" using member by (auto simp: dead_family_def)
  then show ?thesis using call'(1) refused_revoked [OF store member(1)] by simp
qed

theorem reused_refresh_token_ends_its_family_witness:
  "refused memory_port demo ''access2'' (revoke_family ''f1'' 9000 (sys_store demo_rotated))"
proof -
  let ?t = "(tpa_refresh (demo_pair ''1'' None))\<lparr>otk_used := Some 2000\<rparr>"
  let ?s = "revoke_family ''f1'' 9000 (sys_store demo_rotated)"
  have t: "get_token (oau_hash demo (rin_token demo_refresh)) (sys_store demo_rotated) = Some ?t"
    by (simp add: demo_def demo_refresh_def demo_rotated_def)
  have r: "refresh_of ''f1'' ?t" by (simp add: refresh_of_def)
  have c: "check_resource demo (rin_resource demo_refresh) = Inr ()" by (simp add: check_resource_def demo_refresh_def)
  have "start_refresh demo demo_refresh 9000 (sys_store demo_rotated) = RefreshReuse ''f1''"
    using t c by (simp add: start_refresh_def is_inactive_def)
  then have e: "exchange_refresh_token memory_port demo demo_refresh 9000 (demo_draw ''3'') (sys_store demo_rotated) = (Inl (protocol_error InvalidGrant), ?s)"
    by (simp add: exchange_refresh_token_def bind_action_def reads_def revoke_then_fail_def writes_def throw_def memory_port_def)
  have "get_token (oau_hash demo ''access2'') ?s = Some ((tpa_access (demo_pair ''2'' (Some ''j1'')))\<lparr>otk_revoked := Some 9000\<rparr>)"
    by (simp add: revoke_family_def get_revoked_tokens demo_def demo_rotated_def)
  then show ?thesis
    using reused_refresh_token_ends_its_family [OF _ demo_reaches_rotated t r _ c e, of "demo_rotated\<lparr>sys_store := ?s\<rparr>" "''access2''"] by simp
qed

text \<open>C11: A family has one live refresh token. At every moment, at most one stored token of a family is a refresh token that is neither used nor
  revoked: concurrent refreshes never leave two.\<close>
theorem families_have_one_live_refresh_token:
  assumes "P \<in> {memory_port, neon_port}" "oauth_steps P A no_requests y"
  shows "card {h. \<exists>t. get_token h (sys_store y) = Some t \<and> refresh_of f t \<and> live t} \<le> 1"
proof -
  have "one_live_refresh (sys_store y)"
    using token_store.reachable_families [OF both_ports [OF assms(1)] assms(2)] by (simp add: families_ok_def)
  moreover have "finite {h. \<exists>t. get_token h (sys_store y) = Some t \<and> refresh_of f t \<and> live t}"
    by (rule finite_subset [OF _ finite_dom_map_of [of "oas_tokens (sys_store y)"]]) (auto simp: get_token_def)
  ultimately show ?thesis unfolding One_nat_def card_le_Suc0_iff_eq [OF \<open>finite _\<close>] one_live_refresh_def by blast
qed

theorem families_have_one_live_refresh_token_witness:
  "card {h. \<exists>t. get_token h (sys_store demo_rotated) = Some t \<and> refresh_of ''f1'' t \<and> live t} \<le> 1"
  by (rule families_have_one_live_refresh_token [OF _ demo_reaches_rotated]) simp

text \<open>C12: A revoked grant is dead. Once a user revokes a grant, or their whole access is revoked, no code and no token of that grant opens
  anything again, including tokens that requests under way at that moment store later.\<close>
theorem revoked_grant_is_dead:
  assumes port: "P \<in> {memory_port, neon_port}" and reach: "oauth_steps P A no_requests y"
    and revoked: "revoke_grant_for_user w k now (sys_store y) = (True, s) \<or>
      s = revoke_user_access w now (sys_store y) \<and> (\<exists>g. get_grant k (sys_store y) = Some g \<and> ogr_user g = w)"
    and later: "oauth_steps P A (y\<lparr>sys_store := s\<rparr>) y'"
    and token: "get_token (oau_hash A raw) (sys_store y') = Some t" "otk_grant t = k"
  shows "refused P A raw (sys_store y')"
proof -
  note store = both_ports [OF port]
  have step: "oauth_step P A y (y\<lparr>sys_store := s\<rparr>)"
    using revoked oauth_step.revoke_grant [of P A y w k now] oauth_step.revoke_user [of P A y w now] by auto
  have "\<exists>g. get_grant k s = Some g \<and> ogr_revoked g \<noteq> None"
  proof (use revoked in \<open>elim disjE conjE exE\<close>)
    assume "revoke_grant_for_user w k now (sys_store y) = (True, s)"
    then show ?thesis by (auto simp: revoke_grant_for_user_def split: option.splits if_splits)
  next
    fix g assume s: "s = revoke_user_access w now (sys_store y)" and g: "get_grant k (sys_store y) = Some g" "ogr_user g = w"
    then have "g \<in> set (vals (oas_grants (sys_store y)))" using lookup_vals by (fastforce simp: get_grant_def)
    moreover have "ogr_id g = k" using token_store.reachable_approval [OF store reach] g(1) by (auto simp: approval_ok_def)
    ultimately have "k \<in> set (map ogr_id (filter (\<lambda>g. ogr_user g = w) (vals (oas_grants (sys_store y)))))" using g(2) by force
    then show ?thesis using s g(1) by (auto simp: revoke_user_access_def Let_def get_revoked_grants)
  qed
  then obtain g where g: "get_grant k s = Some g" "ogr_revoked g \<noteq> None" by blast
  have "hashes_ok (y\<lparr>sys_store := s\<rparr>)"
    using token_store.step_hashes_and_store [OF store step] token_store.reachable_hashes [OF store reach] by blast
  then have "store_advances s (sys_store y')" using token_store.reached_later [OF store later] by simp
  then obtain g' where "get_grant k (sys_store y') = Some g'" "grant_advances g g'" using g(1) unfolding store_advances_def by blast
  then show ?thesis using refused_grant [OF store token(1), of g'] token(2) g(2) by (simp add: grant_advances_def)
qed

theorem revoked_grant_is_dead_witness:
  "refused neon_port demo ''access1'' (revoke_user_access ''u'' 9000 (sys_store demo_connected))"
proof -
  let ?s = "revoke_user_access ''u'' 9000 (sys_store demo_connected)"
  have reach: "oauth_steps neon_port demo no_requests demo_connected" using demo_reaches_connected [of neon_port] by (blast intro: rtranclp_trans)
  have g: "get_grant ''g'' (sys_store demo_connected) = Some demo_grant" by (simp add: demo_connected_def demo_exchanging_def)
  obtain t where "get_token (oau_hash demo ''access1'') ?s = Some t" "otk_grant t = ''g''"
    by (simp add: revoke_user_access_def Let_def get_revoked_tokens) (simp add: demo_def demo_connected_def demo_exchanging_def)
  then show ?thesis
    using revoked_grant_is_dead [OF _ reach, of "''u''" "''g''" 9000 ?s "demo_connected\<lparr>sys_store := ?s\<rparr>" "''access1''" t] g by simp
qed

section \<open>An approved agent gets through\<close>

lemma code_exchanged:
  assumes port: "P \<in> {memory_port, neon_port}"
    and stored: "get_token (oau_hash A (cin_code c)) s = Some t" "get_grant (otk_grant t) s = Some g" "code_matches (code_claim_of A c uri now) t g"
    and input: "validate_verifier (cin_verifier c) = Inr ()" "check_resource A (cin_resource c) = Inr ()" "normalize_redirect_uri A (cin_redirect c) = Inr uri"
    and fresh: "now < otk_expires t"
  shows "start_code_exchange P A c now d s =
    (Inr (build_token_pair A (otk_grant t) (otk_audience t) (pdr_family d) None (ogr_scopes g) d), use_token (oau_hash A (cin_code c)) t now s)"
proof -
  have "tpo_consume P (code_claim_of A c uri now) s = (Some (t, g), use_token (oau_hash A (cin_code c)) t now s)"
    using port stored fresh
    by (auto simp: memory_port_def neon_port_def consume_authorization_code_def neon_consume_authorization_code_def use_token_def code_claim_of_def)
  moreover have "\<not> is_inactive t now" using stored(3) fresh by (simp add: is_inactive_def code_matches_def)
  ultimately show ?thesis
    using input by (simp add: start_code_exchange_def bind_action_def ensure_cases consume_code_def return_def flip: code_claim_of_def)
qed

lemma refresh_goes_on:
  assumes port: "P \<in> {memory_port, neon_port}"
    and stored: "get_token (oau_hash A (rin_token i)) s = Some t" "refresh_of f t" "live t" "now < otk_expires t"
    and grant: "get_grant (otk_grant t) s = Some g" "ogr_client g = rin_client i" "ogr_revoked g = None"
    and input: "check_resource A (rin_resource i) = Inr ()" "rin_scope i = None"
  shows "\<exists>resp s'. exchange_refresh_token P A i now d s = (Inr resp, s')"
proof -
  have "start_refresh A i now s = RefreshContinues t f" using stored input(1) by (simp add: start_refresh_def refresh_of_def live_def is_inactive_def)
  moreover have "\<exists>s'. rotate_pair P (oau_hash A (rin_token i)) now pair s = (Inr Rotated, s')" for pair
    using port stored by (auto simp: rotate_pair_def memory_port_def neon_port_def rotate_refresh_token_def neon_rotate_refresh_token_def
        refresh_of_def live_def)
  then obtain s' where "rotate_pair P (oau_hash A (rin_token i)) now
      (build_token_pair A (otk_grant t) (otk_audience t) f (Some (otk_id t)) (ogr_scopes g) d) s = (Inr Rotated, s')" by blast
  ultimately show ?thesis
    using grant input(2) by (simp add: exchange_refresh_token_def bind_action_def reads_def lift_result_def check_refresh_def guard_def return_def)
qed

text \<open>C13: An approved agent gets through. When a user approves the request of a registered agent, the agent exchanges the code with its verifier
  within five minutes and receives an access token that authenticates as that user with exactly the approved permissions for fifteen minutes, and a
  refresh token that renews the access for thirty days.\<close>
theorem approved_agent_gets_through:
  assumes port: "P \<in> {memory_port, neon_port}"
    and request: "validate_authorization_request A i s = Inr r" "trimmed_len 1 200 (arq_name r)" "lookup (oas_identities s) (p_user p) = Some u"
    and code: "cin_code c = adr_code d" "cin_client c = arq_client r" "normalize_redirect_uri A (cin_redirect c) = Inr (arq_redirect r)"
      "validate_verifier (cin_verifier c) = Inr ()" "oau_s256 A (cin_verifier c) = arq_challenge r" "check_resource A (cin_resource c) = Inr ()"
    and time: "now < adr_now d + 300000" and fresh: "oau_hash A (pdr_access e) \<noteq> oau_hash A (pdr_refresh e)"
  shows "\<exists>url s1 resp s2. post_authorize A i (arq_name r) p d s = (Inr url, s1) \<and> exchange_authorization_code P A c now e s1 = (Inr resp, s2) \<and>
    (\<forall>t. t < pdr_now e + 900000 \<longrightarrow>
      authenticate A (tre_access resp) t s2 = Some \<lparr>acc_identity = u, acc_client = arq_client r, acc_scopes = arq_scopes r\<rparr>) \<and>
    (\<forall>t e'. t < pdr_now e + 2592000000 \<longrightarrow> (\<exists>resp' s3.
      exchange_refresh_token P A \<lparr>rin_token = tre_refresh resp, rin_client = arq_client r, rin_scope = None, rin_resource = None\<rparr> t e' s2 = (Inr resp', s3)))"
proof -
  let ?g = "approved_grant r p d" and ?c = "approved_code A r d"
  let ?s1 = "save_token ?c (save_grant ?g s)"
  let ?pair = "build_token_pair A (otk_grant ?c) (otk_audience ?c) (pdr_family e) None (ogr_scopes ?g) e"
  let ?s2 = "save_token (tpa_refresh ?pair) (save_token (tpa_access ?pair) (use_token (oau_hash A (cin_code c)) ?c now ?s1))"
  have 1: "post_authorize A i (arq_name r) p d s = (Inr (oau_with_query A (arq_redirect r) [(''code'', adr_code d), (''state'', arq_state r)]), ?s1)"
    using request by (simp add: post_authorize_def bind_action_def ensure_cases well_formed_def guard_def lift_result_def approve_def writes_def return_def)
  have "start_code_exchange P A c now e ?s1 = (Inr ?pair, use_token (oau_hash A (cin_code c)) ?c now ?s1)"
    using code time by (intro code_exchanged [OF port])
      (simp_all add: approved_code_def approved_grant_def code_matches_def code_claim_of_def add_seconds_def)
  then have 2: "exchange_authorization_code P A c now e ?s1 = (Inr (tpa_response ?pair), ?s2)"
    by (simp add: exchange_authorization_code_def bind_action_def writes_def return_def)
  have id: "oas_identities ?s2 = oas_identities s" by (simp add: save_token_def save_grant_def use_token_def)
  have 3: "authenticate A (tre_access (tpa_response ?pair)) t ?s2 = Some \<lparr>acc_identity = u, acc_client = arq_client r, acc_scopes = arq_scopes r\<rparr>"
    if "t < pdr_now e + 900000" for t
    using that fresh request(3) id by (simp add: authenticate_def resolve_access_token_def build_token_pair_def approved_code_def approved_grant_def add_seconds_def)
  have 4: "\<exists>resp' s3. exchange_refresh_token P A \<lparr>rin_token = tre_refresh (tpa_response ?pair), rin_client = arq_client r, rin_scope = None,
      rin_resource = None\<rparr> t e' ?s2 = (Inr resp', s3)" if "t < pdr_now e + 2592000000" for t e'
  proof (rule refresh_goes_on [OF port, where f = "pdr_family e" and t = "tpa_refresh ?pair" and g = ?g])
  qed (use that in \<open>simp_all add: build_token_pair_def approved_code_def approved_grant_def add_seconds_def refresh_of_def live_def check_resource_def\<close>)
  show ?thesis using 1 2 3 4 by blast
qed

theorem approved_agent_gets_through_witness:
  "\<exists>url s1 resp s2. post_authorize demo demo_input ''Agent'' demo_principal demo_approval demo_store = (Inr url, s1) \<and>
     exchange_authorization_code neon_port demo demo_code 1000 (demo_draw ''1'') s1 = (Inr resp, s2) \<and>
     authenticate demo (tre_access resp) 900999 s2 = Some \<lparr>acc_identity = demo_user, acc_client = ''client'', acc_scopes = [JournalRead]\<rparr>"
proof -
  have r: "validate_authorization_request demo demo_input demo_store = Inr demo_request"
    by (rule demo_requested) (simp add: get_client_def demo_store_def save_token_def save_grant_def save_client_def)
  have n: "trimmed_len 1 200 (arq_name demo_request)" by code_simp
  have u: "lookup (oas_identities demo_store) (p_user demo_principal) = Some demo_user"
    by (simp add: demo_store_def save_token_def save_grant_def demo_principal_def)
  have v: "validate_verifier (cin_verifier demo_code) = Inr ()" by code_simp
  have uri: "normalize_redirect_uri demo (cin_redirect demo_code) = Inr (arq_redirect demo_request)"
    by (simp add: normalize_redirect_uri_def new_url_def guard_def demo_def demo_code_def demo_request_def)
  obtain url s1 resp s2 where "post_authorize demo demo_input (arq_name demo_request) demo_principal demo_approval demo_store = (Inr url, s1)"
    "exchange_authorization_code neon_port demo demo_code 1000 (demo_draw ''1'') s1 = (Inr resp, s2)"
    "\<forall>t. t < pdr_now (demo_draw ''1'') + 900000 \<longrightarrow>
      authenticate demo (tre_access resp) t s2 = Some \<lparr>acc_identity = demo_user, acc_client = arq_client demo_request, acc_scopes = arq_scopes demo_request\<rparr>"
    using approved_agent_gets_through [OF _ r n u, of neon_port demo_code demo_approval 1000 "demo_draw ''1''"] v uri
    by (auto simp: demo_code_def demo_request_def demo_approval_def demo_def demo_draw_def check_resource_def)
  then show ?thesis by (auto simp: demo_request_def demo_draw_def)
qed

end
