(* ===== verification/AuthStore.thy ===== *)
theory AuthStore
  imports CoreTypes
begin

text \<open>
  Users, their sign-in methods, sign-in challenges and browser sessions (\<^verbatim>\<open>auth/types.ts\<close>,
  \<^verbatim>\<open>auth/memory-store.ts\<close>).  The key \<^verbatim>\<open>provider:subject\<close> of an identity is the pair of both.
\<close>

section \<open>Records\<close>

datatype challenge_kind = MagicLinkChallenge | AppleChallenge | RegistrationChallenge | AuthenticationChallenge

datatype identity_provider = AppleIdentity | MagicLinkIdentity | ReviewerIdentity

record auth_user =
  au_id :: user_id
  au_actor :: actor_id
  au_display :: string

record auth_challenge =
  ac_id :: string
  ac_kind :: challenge_kind
  ac_hash :: token_hash
  ac_binding :: "token_hash option"
  ac_payload :: "(string, string) js_map"
  ac_expires :: time
  ac_consumed :: "time option"

record web_session =
  ws_id :: string
  ws_user :: user_id
  ws_hash :: token_hash
  ws_csrf :: token_hash
  ws_intent :: "string option"
  ws_authenticated :: time
  ws_expires :: time
  ws_revoked :: "time option"

datatype passkey_transport = Ble | Cable | Hybrid | Internal | Nfc | SmartCard | Usb

datatype passkey_device = SingleDevice | MultiDevice

record passkey =
  pk_credential :: string
  pk_user :: user_id
  pk_public_key :: string
  pk_counter :: int
  pk_transports :: "passkey_transport list"
  pk_device :: passkey_device
  pk_backed_up :: bool
  pk_name :: string
  pk_created :: time
  pk_last_used :: "time option"

datatype method_removal = MethodRemoved | MethodNotFound | LastMethod

datatype identity_link = Linked | AlreadyLinked | IdentityInUse | UserNotFound

record auth_store =
  au_challenges :: "(token_hash, auth_challenge) js_map"
  au_identities :: "(identity_provider \<times> token_hash, auth_user) js_map"
  au_users :: "(user_id, auth_user) js_map"
  au_passkeys :: "(string, passkey) js_map"
  au_sessions :: "(token_hash, web_session) js_map"

definition empty_auth_store :: auth_store where
  "empty_auth_store = \<lparr>au_challenges = [], au_identities = [], au_users = [], au_passkeys = [], au_sessions = []\<rparr>"

section \<open>Challenges\<close>

definition save_challenge :: "auth_challenge \<Rightarrow> auth_store \<Rightarrow> auth_store" where
  "save_challenge c s = s\<lparr>au_challenges := put (ac_hash c) c (au_challenges s)\<rparr>"

definition take_challenge :: "token_hash \<Rightarrow> challenge_kind \<Rightarrow> token_hash option \<Rightarrow> time \<Rightarrow> auth_store \<Rightarrow> auth_challenge option \<times> auth_store" where
  "take_challenge h kind binding now s = (case lookup (au_challenges s) h of
     None \<Rightarrow> (None, s)
   | Some c \<Rightarrow>
       if ac_kind c \<noteq> kind \<or> ac_consumed c \<noteq> None \<or> ac_binding c \<noteq> binding then (None, s)
       else (Some c, s\<lparr>au_challenges := put h (c\<lparr>ac_consumed := Some now\<rparr>) (au_challenges s)\<rparr>))"

section \<open>Users and identities\<close>

definition resolve_or_create_user :: "identity_provider \<Rightarrow> token_hash \<Rightarrow> string \<Rightarrow> user_id \<Rightarrow> actor_id \<Rightarrow> auth_store \<Rightarrow> (failure + auth_user) \<times> auth_store" where
  "resolve_or_create_user provider subject name new_user new_actor s = (case lookup (au_identities s) (provider, subject) of
     Some u \<Rightarrow> (Inr u, s)
   | None \<Rightarrow>
       if \<not> opaque_id_ok ''usr'' new_user \<or> \<not> opaque_id_ok ''act'' new_actor then (Inl (OtherError ''ZodError''), s)
       else let u = \<lparr>au_id = new_user, au_actor = new_actor, au_display = name\<rparr> in
         (Inr u, s\<lparr>au_users := put new_user u (au_users s), au_identities := put (provider, subject) u (au_identities s)\<rparr>))"

definition get_user :: "user_id \<Rightarrow> auth_store \<Rightarrow> auth_user option" where
  "get_user u s = lookup (au_users s) u"

definition update_user_display_name :: "user_id \<Rightarrow> string \<Rightarrow> auth_store \<Rightarrow> auth_user option \<times> auth_store" where
  "update_user_display_name i name s = (case get_user i s of
     None \<Rightarrow> (None, s)
   | Some u \<Rightarrow> let v = u\<lparr>au_display := name\<rparr> in
       (Some v, s\<lparr>au_users := put i v (au_users s), au_identities := map (\<lambda>(k, x). (k, if au_id x = i then v else x)) (au_identities s)\<rparr>))"

definition identities_of :: "user_id \<Rightarrow> auth_store \<Rightarrow> identity_provider list" where
  "identities_of i s = remdups (map (\<lambda>((p, h), x). p) (filter (\<lambda>(k, x). au_id x = i) (au_identities s)))"

definition list_identity_methods :: "user_id \<Rightarrow> auth_store \<Rightarrow> identity_provider list" where
  "list_identity_methods i s = filter (\<lambda>p. p \<in> set (identities_of i s)) [AppleIdentity, MagicLinkIdentity]"

definition link_identity_method :: "user_id \<Rightarrow> identity_provider \<Rightarrow> token_hash \<Rightarrow> auth_store \<Rightarrow> identity_link \<times> auth_store" where
  "link_identity_method i provider subject s = (case get_user i s of
     None \<Rightarrow> (UserNotFound, s)
   | Some u \<Rightarrow> (case lookup (au_identities s) (provider, subject) of
       Some x \<Rightarrow> (if au_id x = i then AlreadyLinked else IdentityInUse, s)
     | None \<Rightarrow> (Linked, s\<lparr>au_identities := put (provider, subject) u (au_identities s)\<rparr>)))"

definition passkeys_of :: "user_id \<Rightarrow> auth_store \<Rightarrow> passkey list" where
  "passkeys_of i s = filter (\<lambda>p. pk_user p = i) (vals (au_passkeys s))"

definition sign_in_method_count :: "user_id \<Rightarrow> auth_store \<Rightarrow> nat" where
  "sign_in_method_count i s = length (identities_of i s) + length (passkeys_of i s)"

definition remove_identity_method :: "user_id \<Rightarrow> identity_provider \<Rightarrow> auth_store \<Rightarrow> method_removal \<times> auth_store" where
  "remove_identity_method i provider s =
     (if provider \<notin> set (identities_of i s) then (MethodNotFound, s)
      else if sign_in_method_count i s \<le> 1 then (LastMethod, s)
      else (MethodRemoved, s\<lparr>au_identities := filter (\<lambda>((p, h), x). \<not> (p = provider \<and> au_id x = i)) (au_identities s)\<rparr>))"

definition revoke_sessions_of :: "user_id \<Rightarrow> time \<Rightarrow> auth_store \<Rightarrow> auth_store" where
  "revoke_sessions_of i now s =
     s\<lparr>au_sessions := map (\<lambda>(h, x). (h, if ws_user x = i then x\<lparr>ws_revoked := Some now\<rparr> else x)) (au_sessions s)\<rparr>"

definition delete_user :: "user_id \<Rightarrow> time \<Rightarrow> auth_store \<Rightarrow> bool \<times> auth_store" where
  "delete_user i now s = (case get_user i s of
     None \<Rightarrow> (False, s)
   | Some u \<Rightarrow> (True, revoke_sessions_of i now
       (s\<lparr>au_users := drop_key i (au_users s), au_identities := filter (\<lambda>(k, x). au_id x \<noteq> i) (au_identities s),
          au_passkeys := filter (\<lambda>(k, p). pk_user p \<noteq> i) (au_passkeys s)\<rparr>)))"

section \<open>Passkeys\<close>

definition save_passkey_credential :: "passkey \<Rightarrow> auth_store \<Rightarrow> bool \<times> auth_store" where
  "save_passkey_credential p s =
     (if lookup (au_passkeys s) (pk_credential p) \<noteq> None \<or> get_user (pk_user p) s = None then (False, s)
      else (True, s\<lparr>au_passkeys := put (pk_credential p) p (au_passkeys s)\<rparr>))"

definition get_passkey_credential :: "string \<Rightarrow> auth_store \<Rightarrow> passkey option" where
  "get_passkey_credential c s = lookup (au_passkeys s) c"

definition list_passkey_credentials :: "user_id \<Rightarrow> auth_store \<Rightarrow> passkey list" where
  "list_passkey_credentials i s = sort_key pk_created (passkeys_of i s)"

definition counter_advances :: "int \<Rightarrow> int \<Rightarrow> bool" where
  "counter_advances old new \<longleftrightarrow> (if new = 0 then old = 0 else old < new)"

definition update_passkey_counter :: "string \<Rightarrow> int \<Rightarrow> int \<Rightarrow> time \<Rightarrow> auth_store \<Rightarrow> bool \<times> auth_store" where
  "update_passkey_counter c expected new now s = (case lookup (au_passkeys s) c of
     None \<Rightarrow> (False, s)
   | Some p \<Rightarrow>
       if pk_counter p \<noteq> expected \<or> \<not> counter_advances (pk_counter p) new then (False, s)
       else (True, s\<lparr>au_passkeys := put c (p\<lparr>pk_counter := new, pk_last_used := Some now\<rparr>) (au_passkeys s)\<rparr>))"

definition revoke_passkey_credential :: "string \<Rightarrow> user_id \<Rightarrow> auth_store \<Rightarrow> method_removal \<times> auth_store" where
  "revoke_passkey_credential c i s = (case lookup (au_passkeys s) c of
     None \<Rightarrow> (MethodNotFound, s)
   | Some p \<Rightarrow>
       if pk_user p \<noteq> i then (MethodNotFound, s)
       else if sign_in_method_count i s \<le> 1 then (LastMethod, s)
       else (MethodRemoved, s\<lparr>au_passkeys := drop_key c (au_passkeys s)\<rparr>))"

section \<open>Sessions\<close>

definition save_session :: "web_session \<Rightarrow> auth_store \<Rightarrow> auth_store" where
  "save_session x s = s\<lparr>au_sessions := put (ws_hash x) x (au_sessions s)\<rparr>"

definition get_session_by_token_hash :: "token_hash \<Rightarrow> auth_store \<Rightarrow> (web_session \<times> auth_user) option" where
  "get_session_by_token_hash h s = (case lookup (au_sessions s) h of
     None \<Rightarrow> None
   | Some x \<Rightarrow> (case get_user (ws_user x) s of None \<Rightarrow> None | Some u \<Rightarrow> Some (x, u)))"

definition revoke_session :: "token_hash \<Rightarrow> time \<Rightarrow> auth_store \<Rightarrow> auth_store" where
  "revoke_session h now s = (case lookup (au_sessions s) h of
     None \<Rightarrow> s
   | Some x \<Rightarrow> s\<lparr>au_sessions := put h (x\<lparr>ws_revoked := Some now\<rparr>) (au_sessions s)\<rparr>)"

end
