(* ===== verification/AuthService.thy ===== *)
theory AuthService
  imports AuthStore JournalBase
begin

text \<open>
  Signing in and managing sign-in methods (\<^verbatim>\<open>auth/service.ts\<close>) over the store of users, with the redirect that its routes
  answer (\<^verbatim>\<open>auth/routes.ts\<close>).  Hashing, mail, Apple and the passkey library are fields of \<open>auth\<close>; raw tokens,
  identifiers and clock readings are drawn by the caller.  The state is the store and the mails that were sent.
\<close>

section \<open>Configuration\<close>

record reviewer_access =
  rva_enabled :: bool
  rva_username :: token_hash
  rva_password :: token_hash
  rva_subject :: token_hash

record apple_identity =
  apl_subject :: string
  apl_name :: "string option"

record registered_passkey =
  rpk_credential :: string
  rpk_public_key :: string
  rpk_counter :: int
  rpk_transports :: "passkey_transport list"
  rpk_device :: passkey_device
  rpk_backed_up :: bool

record mail_link =
  mal_path :: string
  mal_query :: "(string \<times> string) list"

record auth =
  ath_hash :: "string \<Rightarrow> string"
  ath_matches :: "string \<Rightarrow> string \<Rightarrow> bool"
  ath_email :: "string \<Rightarrow> bool"
  ath_lower :: "string \<Rightarrow> string"
  ath_mail :: "string \<Rightarrow> mail_link \<Rightarrow> failure + unit"
  ath_apple :: "string \<Rightarrow> string \<Rightarrow> string \<Rightarrow> failure + apple_identity"
  ath_begin_registration :: "auth_user \<Rightarrow> passkey list \<Rightarrow> string \<Rightarrow> failure + string"
  ath_registration :: "string \<Rightarrow> string \<Rightarrow> failure + registered_passkey"
  ath_begin_authentication :: "string \<Rightarrow> failure + string"
  ath_credential :: "string \<Rightarrow> failure + string"
  ath_authentication :: "string \<Rightarrow> string \<Rightarrow> passkey \<Rightarrow> failure + int"
  ath_reviewer :: "reviewer_access option"

record auth_world =
  aw_store :: auth_store
  aw_mails :: "(string \<times> mail_link) list"

type_synonym 'a auth_action = "(failure, auth_world, 'a) action"

definition ask_auth :: "(auth_store \<Rightarrow> 'a) \<Rightarrow> 'a auth_action" where
  "ask_auth f = reads (\<lambda>w. f (aw_store w))"

definition on_auth :: "(auth_store \<Rightarrow> 'a \<times> auth_store) \<Rightarrow> 'a auth_action" where
  "on_auth f w = (case f (aw_store w) of (x, s) \<Rightarrow> (Inr x, w\<lparr>aw_store := s\<rparr>))"

definition try_auth :: "(auth_store \<Rightarrow> (failure + 'a) \<times> auth_store) \<Rightarrow> 'a auth_action" where
  "try_auth f w = (case f (aw_store w) of (r, s) \<Rightarrow> (r, w\<lparr>aw_store := s\<rparr>))"

definition decide :: "failure + 'a \<Rightarrow> 'a auth_action" where
  "decide r = lift_result (\<lambda>_. r)"

definition send_magic_link :: "auth \<Rightarrow> string \<Rightarrow> mail_link \<Rightarrow> unit auth_action" where
  "send_magic_link A to link w = (case ath_mail A to link of Inl e \<Rightarrow> (Inl e, w) | Inr _ \<Rightarrow> (Inr (), w\<lparr>aw_mails := aw_mails w @ [(to, link)]\<rparr>))"

section \<open>Helpers\<close>

definition add_minutes :: "time \<Rightarrow> int \<Rightarrow> time" where
  "add_minutes t n = t + n * 60000"

definition pending_intent_ok :: "string \<Rightarrow> bool" where
  "pending_intent_ok v \<longleftrightarrow> length v \<le> 2048 \<and> starts_with ''/'' v"

definition parse_intent :: "string option \<Rightarrow> failure + string option" where
  "parse_intent v = and_then (parsed (opt_all pending_intent_ok v)) (\<lambda>_. Inr v)"

definition parse_email :: "auth \<Rightarrow> string \<Rightarrow> failure + string" where
  "parse_email A v = and_then (parsed (ath_email A v)) (\<lambda>_. Inr (ath_lower A (trim v)))"

definition required_payload :: "(string, string) js_map \<Rightarrow> string \<Rightarrow> failure + string" where
  "required_payload p k = (case lookup p k of None \<Rightarrow> Inl (app_error INTERNAL_ERROR) | Some v \<Rightarrow> Inr v)"

definition intent_payload :: "string option \<Rightarrow> (string, string) js_map" where
  "intent_payload v = (case v of None \<Rightarrow> [] | Some p \<Rightarrow> [(''pending_intent'', p)])"

definition principal_for :: "auth_user \<Rightarrow> failure + principal" where
  "principal_for u = and_then (parsed (opaque_id_ok ''act'' (au_actor u))) (\<lambda>_.
     Inr \<lparr>p_user = au_id u, p_actor = au_actor u, p_display = au_display u,
       p_scopes = [JournalRead, JournalWrite, HouseholdManage, CollectionShare, JournalExport], p_client = WebClient\<rparr>)"

definition session_live :: "web_session \<Rightarrow> time \<Rightarrow> bool" where
  "session_live x now \<longleftrightarrow> ws_revoked x = None \<and> now < ws_expires x"

section \<open>Sessions\<close>

record session_draw =
  sdr_session :: string
  sdr_csrf :: string
  sdr_id :: string
  sdr_expiry_from :: time
  sdr_authenticated :: time
  sdr_user :: user_id
  sdr_actor :: actor_id

record issued_session =
  iss_session :: string
  iss_csrf :: string
  iss_expires :: time
  iss_intent :: "string option"
  iss_user :: auth_user

definition issued_record :: "auth \<Rightarrow> auth_user \<Rightarrow> string option \<Rightarrow> session_draw \<Rightarrow> web_session" where
  "issued_record A u intent d = \<lparr>ws_id = sdr_id d, ws_user = au_id u, ws_hash = ath_hash A (sdr_session d), ws_csrf = ath_hash A (sdr_csrf d),
     ws_intent = intent, ws_authenticated = sdr_authenticated d, ws_expires = add_minutes (sdr_expiry_from d) (60 * 24 * 30), ws_revoked = None\<rparr>"

definition issue_session :: "auth \<Rightarrow> auth_user \<Rightarrow> string option \<Rightarrow> session_draw \<Rightarrow> issued_session auth_action" where
  "issue_session A u intent d =
     bind_action (on_auth (\<lambda>s. ((), save_session (issued_record A u intent d) s))) (\<lambda>_.
     return \<lparr>iss_session = sdr_session d, iss_csrf = sdr_csrf d, iss_expires = add_minutes (sdr_expiry_from d) (60 * 24 * 30),
       iss_intent = intent, iss_user = u\<rparr>)"

definition create_user :: "identity_provider \<Rightarrow> token_hash \<Rightarrow> string \<Rightarrow> session_draw \<Rightarrow> auth_user auth_action" where
  "create_user provider subject name d = try_auth (\<lambda>s.
     if opaque_id_ok ''usr'' (sdr_user d) \<and> opaque_id_ok ''act'' (sdr_actor d)
     then resolve_or_create_user provider subject name (sdr_user d) (sdr_actor d) s else (Inl zod_error, s))"

definition authenticate_session :: "auth \<Rightarrow> string \<Rightarrow> time \<Rightarrow> auth_store \<Rightarrow> failure + principal" where
  "authenticate_session A raw now s = (case get_session_by_token_hash (ath_hash A raw) s of
     None \<Rightarrow> Inl (app_error AUTH_REQUIRED)
   | Some (x, u) \<Rightarrow> if session_live x now then principal_for u else Inl (app_error AUTH_REQUIRED))"

definition verify_csrf :: "auth \<Rightarrow> string \<Rightarrow> string \<Rightarrow> auth_store \<Rightarrow> failure + unit" where
  "verify_csrf A raw submitted s = (case get_session_by_token_hash (ath_hash A raw) s of
     None \<Rightarrow> Inl (app_error FORBIDDEN)
   | Some (x, u) \<Rightarrow> guard (ws_revoked x = None \<and> ath_matches A submitted (ws_csrf x)) (app_error FORBIDDEN))"

definition sign_out :: "auth \<Rightarrow> string \<Rightarrow> time \<Rightarrow> unit auth_action" where
  "sign_out A raw now = on_auth (\<lambda>s. ((), revoke_session (ath_hash A raw) now s))"

definition require_recent_authentication :: "auth \<Rightarrow> string \<Rightarrow> int \<Rightarrow> time \<Rightarrow> auth_store \<Rightarrow> failure + principal" where
  "require_recent_authentication A raw minutes now s = (case get_session_by_token_hash (ath_hash A raw) s of
     None \<Rightarrow> Inl (app_error AUTH_REQUIRED)
   | Some (x, u) \<Rightarrow>
       if session_live x now \<and> now - minutes * 60000 \<le> ws_authenticated x then principal_for u else Inl (app_error AUTH_REQUIRED))"

definition assert_session_user :: "auth \<Rightarrow> string \<Rightarrow> user_id \<Rightarrow> time \<Rightarrow> auth_store \<Rightarrow> failure + auth_user" where
  "assert_session_user A raw i now s =
     and_then (authenticate_session A raw now s) (\<lambda>p.
     and_then (guard (p_user p = i) (app_error FORBIDDEN)) (\<lambda>_.
     case get_user i s of None \<Rightarrow> Inl (app_error AUTH_REQUIRED) | Some u \<Rightarrow> Inr u))"

section \<open>Challenges\<close>

record challenge_draw =
  cdr_token :: string
  cdr_binding :: string
  cdr_id :: string
  cdr_now :: time

definition new_challenge :: "auth \<Rightarrow> challenge_kind \<Rightarrow> (string, string) js_map \<Rightarrow> int \<Rightarrow> challenge_draw \<Rightarrow> auth_challenge" where
  "new_challenge A kind payload minutes d = \<lparr>ac_id = cdr_id d, ac_kind = kind, ac_hash = ath_hash A (cdr_token d),
     ac_binding = Some (ath_hash A (cdr_binding d)), ac_payload = payload, ac_expires = add_minutes (cdr_now d) minutes, ac_consumed = None\<rparr>"

definition add_challenge :: "auth_challenge \<Rightarrow> unit auth_action" where
  "add_challenge c = on_auth (\<lambda>s. ((), save_challenge c s))"

definition consume_challenge :: "auth \<Rightarrow> challenge_kind \<Rightarrow> string \<Rightarrow> string \<Rightarrow> time \<Rightarrow> auth_challenge auth_action" where
  "consume_challenge A kind raw binding now =
     bind_action (on_auth (take_challenge (ath_hash A raw) kind (Some (ath_hash A binding)) now)) (\<lambda>r. case r of
       None \<Rightarrow> throw (app_error AUTH_REQUIRED)
     | Some c \<Rightarrow> if ac_expires c \<le> now then throw (app_error AUTH_REQUIRED) else return c)"

section \<open>Reviewer access\<close>

definition ensure_reviewer_user :: "auth \<Rightarrow> session_draw \<Rightarrow> auth_user auth_action" where
  "ensure_reviewer_user A d = (case ath_reviewer A of
     None \<Rightarrow> throw (app_error PROVIDER_UNAVAILABLE)
   | Some r \<Rightarrow> create_user ReviewerIdentity (rva_subject r) ''OpenAI reviewer'' d)"

definition complete_reviewer_sign_in :: "auth \<Rightarrow> string \<Rightarrow> string \<Rightarrow> string option \<Rightarrow> session_draw \<Rightarrow> issued_session auth_action" where
  "complete_reviewer_sign_in A username password intent d =
     bind_action (decide (parse_intent intent)) (\<lambda>intent.
     bind_action (decide (guard (case ath_reviewer A of
         None \<Rightarrow> False
       | Some r \<Rightarrow> rva_enabled r \<and> ath_matches A username (rva_username r) \<and> ath_matches A password (rva_password r)) (app_error AUTH_REQUIRED))) (\<lambda>_.
     bind_action (ensure_reviewer_user A d) (\<lambda>u. issue_session A u intent d)))"

section \<open>Magic links\<close>

definition request_magic_link :: "auth \<Rightarrow> string \<Rightarrow> string option \<Rightarrow> challenge_draw \<Rightarrow> unit auth_action" where
  "request_magic_link A email intent d =
     bind_action (decide (parse_email A email)) (\<lambda>email.
     bind_action (decide (parse_intent intent)) (\<lambda>intent.
     bind_action (add_challenge (new_challenge A MagicLinkChallenge ((''subject_hash'', ath_hash A email) # intent_payload intent) 15 d)) (\<lambda>_.
     send_magic_link A email \<lparr>mal_path = ''/auth/magic-link/complete'', mal_query = [(''token'', cdr_token d), (''transaction'', cdr_binding d)]\<rparr>)))"

definition complete_magic_link :: "auth \<Rightarrow> string \<Rightarrow> string \<Rightarrow> time \<Rightarrow> session_draw \<Rightarrow> issued_session auth_action" where
  "complete_magic_link A token transaction now d =
     bind_action (consume_challenge A MagicLinkChallenge token transaction now) (\<lambda>c.
     bind_action (decide (required_payload (ac_payload c) ''subject_hash'')) (\<lambda>subject.
     bind_action (create_user MagicLinkIdentity subject ''Household member'' d) (\<lambda>u.
     issue_session A u (lookup (ac_payload c) ''pending_intent'') d)))"

definition request_magic_link_identity :: "auth \<Rightarrow> user_id \<Rightarrow> string \<Rightarrow> string \<Rightarrow> time \<Rightarrow> challenge_draw \<Rightarrow> unit auth_action" where
  "request_magic_link_identity A i raw email now d =
     bind_action (ask_auth (assert_session_user A raw i now)) (\<lambda>r.
     bind_action (decide r) (\<lambda>_.
     bind_action (decide (parse_email A email)) (\<lambda>email.
     bind_action (add_challenge (new_challenge A MagicLinkChallenge [(''subject_hash'', ath_hash A email), (''link_user_id'', i)] 15 (d\<lparr>cdr_binding := raw\<rparr>))) (\<lambda>_.
     send_magic_link A email \<lparr>mal_path = ''/account/sign-in-methods/magic_link/complete'', mal_query = [(''token'', cdr_token d)]\<rparr>))))"

definition link_identity :: "user_id \<Rightarrow> identity_provider \<Rightarrow> token_hash \<Rightarrow> unit auth_action" where
  "link_identity i provider subject =
     bind_action (on_auth (link_identity_method i provider subject)) (\<lambda>r. case r of
       IdentityInUse \<Rightarrow> throw (app_error VALIDATION_FAILED)
     | UserNotFound \<Rightarrow> throw (app_error AUTH_REQUIRED)
     | _ \<Rightarrow> return ())"

definition complete_magic_link_identity :: "auth \<Rightarrow> string \<Rightarrow> string \<Rightarrow> time \<Rightarrow> time \<Rightarrow> unit auth_action" where
  "complete_magic_link_identity A token raw now later =
     bind_action (consume_challenge A MagicLinkChallenge token raw now) (\<lambda>c.
     bind_action (decide (required_payload (ac_payload c) ''link_user_id'')) (\<lambda>i.
     bind_action (decide (parsed (opaque_id_ok ''usr'' i))) (\<lambda>_.
     bind_action (ask_auth (assert_session_user A raw i later)) (\<lambda>r.
     bind_action (decide r) (\<lambda>_.
     bind_action (decide (required_payload (ac_payload c) ''subject_hash'')) (\<lambda>subject.
     link_identity i MagicLinkIdentity subject))))))"

section \<open>Apple\<close>

definition begin_apple :: "auth \<Rightarrow> string option \<Rightarrow> challenge_draw \<Rightarrow> (string \<times> string) auth_action" where
  "begin_apple A intent d =
     bind_action (decide (parse_intent intent)) (\<lambda>intent.
     bind_action (add_challenge (new_challenge A AppleChallenge (intent_payload intent) 10 d)) (\<lambda>_. return (cdr_token d, cdr_binding d)))"

definition begin_apple_identity :: "auth \<Rightarrow> user_id \<Rightarrow> string \<Rightarrow> time \<Rightarrow> challenge_draw \<Rightarrow> (string \<times> string) auth_action" where
  "begin_apple_identity A i raw now d =
     bind_action (ask_auth (assert_session_user A raw i now)) (\<lambda>r.
     bind_action (decide r) (\<lambda>_.
     bind_action (add_challenge (new_challenge A AppleChallenge
       [(''link_user_id'', i), (''link_session_hash'', ath_hash A raw), (''pending_intent'', ''/account'')] 10 d)) (\<lambda>_.
     return (cdr_token d, cdr_binding d))))"

definition complete_apple_identity :: "user_id \<Rightarrow> token_hash \<Rightarrow> token_hash \<Rightarrow> time \<Rightarrow> auth_user auth_action" where
  "complete_apple_identity i session subject now =
     bind_action (ask_auth (get_session_by_token_hash session)) (\<lambda>r. case r of
       None \<Rightarrow> throw (app_error AUTH_REQUIRED)
     | Some (x, u) \<Rightarrow>
         if \<not> session_live x now then throw (app_error AUTH_REQUIRED)
         else if au_id u \<noteq> i then throw (app_error FORBIDDEN)
         else bind_action (link_identity i AppleIdentity subject) (\<lambda>_. return u))"

definition apple_name :: "apple_identity \<Rightarrow> string" where
  "apple_name a = (case apl_name a of None \<Rightarrow> ''Household member'' | Some n \<Rightarrow> if trim n = [] then ''Household member'' else trim n)"

record apple_callback =
  acb_code :: string
  acb_state :: string
  acb_binding :: string
  acb_redirect :: string

definition complete_apple :: "auth \<Rightarrow> apple_callback \<Rightarrow> time \<Rightarrow> time \<Rightarrow> session_draw \<Rightarrow> issued_session auth_action" where
  "complete_apple A i now later d =
     bind_action (consume_challenge A AppleChallenge (acb_state i) (acb_binding i) now) (\<lambda>c.
     bind_action (decide (ath_apple A (acb_code i) (acb_redirect i) (acb_state i))) (\<lambda>identity.
     let subject = ath_hash A (apl_subject identity) in
     bind_action (case lookup (ac_payload c) ''link_user_id'' of
         None \<Rightarrow> create_user AppleIdentity subject (apple_name identity) d
       | Some k \<Rightarrow>
           bind_action (decide (parsed (opaque_id_ok ''usr'' k))) (\<lambda>_.
           bind_action (decide (required_payload (ac_payload c) ''link_session_hash'')) (\<lambda>session.
           complete_apple_identity k session subject later))) (\<lambda>u.
     issue_session A u (lookup (ac_payload c) ''pending_intent'') d)))"

section \<open>Passkeys\<close>

definition begin_passkey_authentication :: "auth \<Rightarrow> string option \<Rightarrow> string \<Rightarrow> challenge_draw \<Rightarrow> (string \<times> string) auth_action" where
  "begin_passkey_authentication A intent seed d =
     bind_action (decide (parse_intent intent)) (\<lambda>intent.
     bind_action (decide (ath_begin_authentication A seed)) (\<lambda>challenge.
     bind_action (add_challenge (new_challenge A AuthenticationChallenge (intent_payload intent @ [(''expected_challenge'', challenge)]) 5 d)) (\<lambda>_.
     return (cdr_binding d, cdr_token d))))"

definition complete_passkey_authentication :: "auth \<Rightarrow> string \<Rightarrow> string \<Rightarrow> string \<Rightarrow> time \<Rightarrow> time \<Rightarrow> session_draw \<Rightarrow> issued_session auth_action" where
  "complete_passkey_authentication A transaction binding response now used_at d =
     bind_action (consume_challenge A AuthenticationChallenge transaction binding now) (\<lambda>c.
     bind_action (decide (ath_credential A response)) (\<lambda>credential.
     bind_action (ask_auth (get_passkey_credential credential)) (\<lambda>r. case r of
       None \<Rightarrow> throw (app_error AUTH_REQUIRED)
     | Some p \<Rightarrow>
         bind_action (decide (required_payload (ac_payload c) ''expected_challenge'')) (\<lambda>expected.
         bind_action (decide (ath_authentication A response expected p)) (\<lambda>counter.
         bind_action (on_auth (update_passkey_counter credential (pk_counter p) counter used_at)) (\<lambda>fresh.
         if \<not> fresh then throw (app_error AUTH_REQUIRED)
         else bind_action (ask_auth (get_user (pk_user p))) (\<lambda>u. case u of
           None \<Rightarrow> throw (app_error AUTH_REQUIRED)
         | Some u \<Rightarrow> issue_session A u (lookup (ac_payload c) ''pending_intent'') d)))))))"

definition begin_passkey_registration :: "auth \<Rightarrow> user_id \<Rightarrow> string \<Rightarrow> string \<Rightarrow> challenge_draw \<Rightarrow> string auth_action" where
  "begin_passkey_registration A i raw seed d =
     bind_action (ask_auth (get_user i)) (\<lambda>r. case r of
       None \<Rightarrow> throw (app_error AUTH_REQUIRED)
     | Some u \<Rightarrow>
         bind_action (ask_auth (list_passkey_credentials i)) (\<lambda>ps.
         bind_action (decide (ath_begin_registration A u ps seed)) (\<lambda>challenge.
         bind_action (add_challenge (new_challenge A RegistrationChallenge [(''user_id'', i), (''expected_challenge'', challenge)] 5 (d\<lparr>cdr_binding := raw\<rparr>))) (\<lambda>_.
         return (cdr_token d)))))"

definition new_passkey :: "registered_passkey \<Rightarrow> user_id \<Rightarrow> time \<Rightarrow> passkey" where
  "new_passkey r i now = \<lparr>pk_credential = rpk_credential r, pk_user = i, pk_public_key = rpk_public_key r, pk_counter = rpk_counter r,
     pk_transports = rpk_transports r, pk_device = rpk_device r, pk_backed_up = rpk_backed_up r, pk_name = ''Passkey'', pk_created = now, pk_last_used = None\<rparr>"

definition complete_passkey_registration :: "auth \<Rightarrow> user_id \<Rightarrow> string \<Rightarrow> string \<Rightarrow> string \<Rightarrow> time \<Rightarrow> time \<Rightarrow> passkey auth_action" where
  "complete_passkey_registration A i raw transaction response now created =
     bind_action (consume_challenge A RegistrationChallenge transaction raw now) (\<lambda>c.
     bind_action (decide (required_payload (ac_payload c) ''user_id'')) (\<lambda>owner.
     bind_action (decide (guard (owner = i) (app_error FORBIDDEN))) (\<lambda>_.
     bind_action (decide (required_payload (ac_payload c) ''expected_challenge'')) (\<lambda>expected.
     bind_action (decide (ath_registration A response expected)) (\<lambda>registered.
     let p = new_passkey registered i created in
     bind_action (on_auth (save_passkey_credential p)) (\<lambda>saved.
     if saved then return p else throw (app_error VALIDATION_FAILED)))))))"

definition remove_passkey :: "user_id \<Rightarrow> string \<Rightarrow> unit auth_action" where
  "remove_passkey i c =
     bind_action (on_auth (revoke_passkey_credential c i)) (\<lambda>r. case r of
       MethodNotFound \<Rightarrow> throw (app_error NOT_FOUND)
     | LastMethod \<Rightarrow> throw (app_error VALIDATION_FAILED)
     | MethodRemoved \<Rightarrow> return ())"

section \<open>The answer of the routes\<close>

definition landing :: "issued_session \<Rightarrow> string" where
  "landing x = (case iss_intent x of None \<Rightarrow> ''/households'' | Some p \<Rightarrow> p)"

end
