(* ===== verification/AuthSafety.thy ===== *)
theory AuthSafety
  imports AuthService
begin

text \<open>
  What holds of the users and their ways to sign in, whatever operations of the store run and in whatever order.  Every method of the service
  is a sequence of such operations; identifiers and raw tokens that were drawn once (the sets of \<open>drawn\<close>) are not drawn again.
\<close>

section \<open>Operations of the store\<close>

record drawn =
  dwn_users :: "user_id set"
  dwn_tokens :: "token_hash set"

inductive auth_step :: "drawn \<Rightarrow> auth_store \<Rightarrow> auth_store \<Rightarrow> bool" for F where
  challenge: "ac_hash c \<notin> dwn_tokens F \<Longrightarrow> auth_step F s (save_challenge c s)"
| take: "auth_step F s (snd (take_challenge h kind b now s))"
| resolve: "i \<notin> dwn_users F \<Longrightarrow> auth_step F s (snd (resolve_or_create_user p h n i a s))"
| rename: "auth_step F s (snd (update_user_display_name i n s))"
| link: "auth_step F s (snd (link_identity_method i p h s))"
| remove_identity: "auth_step F s (snd (remove_identity_method i p s))"
| delete: "auth_step F s (snd (delete_user i now s))"
| add_passkey: "auth_step F s (snd (save_passkey_credential k s))"
| count: "auth_step F s (snd (update_passkey_counter c e n now s))"
| remove_passkey: "auth_step F s (snd (revoke_passkey_credential c i s))"
| session: "ws_hash x \<notin> dwn_tokens F \<Longrightarrow> auth_step F s (save_session x s)"
| sign_out: "auth_step F s (revoke_session h now s)"
| sign_out_everywhere: "auth_step F s (revoke_sessions_of i now s)"

abbreviation auth_steps :: "drawn \<Rightarrow> auth_store \<Rightarrow> auth_store \<Rightarrow> bool" where
  "auth_steps F \<equiv> (auth_step F)\<^sup>*\<^sup>*"

definition runs_steps :: "drawn \<Rightarrow> 'a auth_action \<Rightarrow> bool" where
  "runs_steps F m \<longleftrightarrow> (\<forall>w. auth_steps F (aw_store w) (aw_store (snd (m w))))"

named_theorems runs_intros

lemma runs_pure [runs_intros]:
  "runs_steps F (return x)" "runs_steps F (throw e)" "runs_steps F (decide r)" "runs_steps F (ask_auth f)" "runs_steps F (send_magic_link A to l)"
  by (auto simp: runs_steps_def return_def throw_def decide_def lift_result_def ask_auth_def reads_def send_magic_link_def split: sum.split)

lemma runs_bind [runs_intros]:
  assumes "runs_steps F m" "\<And>x. runs_steps F (f x)"
  shows "runs_steps F (bind_action m f)"
  unfolding runs_steps_def
proof
  fix w
  obtain r w' where m: "m w = (r, w')" by (cases "m w")
  then have "auth_steps F (aw_store w) (aw_store w')" using assms(1) unfolding runs_steps_def by (metis snd_conv)
  then show "auth_steps F (aw_store w) (aw_store (snd (bind_action m f w)))"
    using m assms(2) by (auto simp: bind_action_def runs_steps_def split: sum.split intro: rtranclp_trans)
qed

lemma runs_cases [runs_intros]:
  "(b \<Longrightarrow> runs_steps F m) \<Longrightarrow> (\<not> b \<Longrightarrow> runs_steps F m') \<Longrightarrow> runs_steps F (if b then m else m')"
  "runs_steps F m \<Longrightarrow> (\<And>x. runs_steps F (f x)) \<Longrightarrow> runs_steps F (case r of None \<Rightarrow> m | Some x \<Rightarrow> f x)"
  "(\<And>x u. runs_steps F (g x u)) \<Longrightarrow> runs_steps F (case q of (x, u) \<Rightarrow> g x u)"
  "(\<And>x. runs_steps F (k x)) \<Longrightarrow> runs_steps F (Let z k)"
  by (auto split: option.split prod.split)

lemma runs_on: "(\<And>s. auth_steps F s (snd (f s))) \<Longrightarrow> runs_steps F (on_auth f)"
  by (auto simp: runs_steps_def on_auth_def split: prod.split) (metis snd_conv)

lemma runs_operations [runs_intros]:
  "runs_steps F (on_auth (take_challenge h kind b now))"
  "runs_steps F (on_auth (link_identity_method i p h))"
  "runs_steps F (on_auth (update_passkey_counter c e n now))"
  "runs_steps F (on_auth (save_passkey_credential k))"
  "runs_steps F (on_auth (revoke_passkey_credential c i))"
  "runs_steps F (sign_out A raw now)"
  unfolding sign_out_def by (rule runs_on, rule r_into_rtranclp, simp add: auth_step.intros)+

lemma runs_draws [runs_intros]:
  "ac_hash c \<notin> dwn_tokens F \<Longrightarrow> runs_steps F (add_challenge c)"
  "ath_hash A (sdr_session d) \<notin> dwn_tokens F \<Longrightarrow> runs_steps F (issue_session A u intent d)"
  unfolding add_challenge_def issue_session_def
  by (auto intro!: runs_on runs_bind runs_pure r_into_rtranclp auth_step.challenge auth_step.session simp: issued_record_def)

lemma runs_create_user [runs_intros]: "sdr_user d \<notin> dwn_users F \<Longrightarrow> runs_steps F (create_user p h n d)"
  using auth_step.resolve [of "sdr_user d" F]
  by (auto simp: runs_steps_def create_user_def try_auth_def split: prod.split) (metis r_into_rtranclp snd_conv)

lemma runs_consume [runs_intros]: "runs_steps F (consume_challenge A kind raw b now)"
  unfolding consume_challenge_def by (intro runs_intros)

lemma runs_link [runs_intros]: "runs_steps F (link_identity i p h)"
  unfolding link_identity_def by (intro runs_intros) (auto intro: runs_intros split: identity_link.split)

lemma new_challenge_hash [simp]: "ac_hash (new_challenge A kind payload n d) = ath_hash A (cdr_token d)"
  by (simp add: new_challenge_def)

lemma runs_identity [runs_intros]: "runs_steps F (complete_apple_identity i x h now)"
  unfolding complete_apple_identity_def by (intro runs_intros)

text \<open>Every method of the service is a sequence of operations of the store.\<close>

lemma methods_run_steps:
  assumes c: "ath_hash A (cdr_token d) \<notin> dwn_tokens F" and s: "ath_hash A (sdr_session e) \<notin> dwn_tokens F" "sdr_user e \<notin> dwn_users F"
  shows "runs_steps F (request_magic_link A email intent d)"
    and "runs_steps F (complete_magic_link A token b now e)"
    and "runs_steps F (request_magic_link_identity A i raw email now d)"
    and "runs_steps F (complete_magic_link_identity A token raw now later)"
    and "runs_steps F (begin_apple A intent d)"
    and "runs_steps F (begin_apple_identity A i raw now d)"
    and "runs_steps F (complete_apple A cb now later e)"
    and "runs_steps F (begin_passkey_authentication A intent seed d)"
    and "runs_steps F (complete_passkey_authentication A token b response now later e)"
    and "runs_steps F (begin_passkey_registration A i raw seed d)"
    and "runs_steps F (complete_passkey_registration A i raw token response now later)"
    and "runs_steps F (remove_passkey i cr)"
    and "runs_steps F (complete_reviewer_sign_in A name password intent e)"
  unfolding request_magic_link_def complete_magic_link_def request_magic_link_identity_def complete_magic_link_identity_def begin_apple_def
    begin_apple_identity_def complete_apple_def begin_passkey_authentication_def complete_passkey_authentication_def begin_passkey_registration_def
    complete_passkey_registration_def remove_passkey_def complete_reviewer_sign_in_def ensure_reviewer_user_def
  using c s by (intro runs_intros; simp split: method_removal.split add: runs_pure)+

section \<open>Accounts\<close>

definition identity_set :: "user_id \<Rightarrow> auth_store \<Rightarrow> identity_provider set" where
  "identity_set i s = {p. \<exists>h u. ((p, h), u) \<in> set (au_identities s) \<and> au_id u = i}"

lemma set_identities_of: "set (identities_of i s) = identity_set i s"
  by (force simp: identities_of_def identity_set_def)

lemma method_count: "sign_in_method_count i s = card (identity_set i s) + length (passkeys_of i s)"
  by (simp add: sign_in_method_count_def identities_of_def length_remdups_card_conv flip: set_identities_of)

definition accounts_ok :: "auth_store \<Rightarrow> bool" where
  "accounts_ok s \<longleftrightarrow> map_ok (au_passkeys s) \<and> (\<forall>i u. get_user i s = Some u \<longrightarrow> au_id u = i \<and> opaque_id_ok ''act'' (au_actor u)) \<and>
     (\<forall>k u. (k, u) \<in> set (au_identities s) \<longrightarrow> get_user (au_id u) s \<noteq> None) \<and>
     (\<forall>i. get_user i s \<noteq> None \<longrightarrow> 1 \<le> sign_in_method_count i s)"

lemma finite_identities: "finite (identity_set i s)"
  by (metis List.finite_set set_identities_of)

lemma some_identity: "p \<in> identity_set i s \<Longrightarrow> 1 \<le> card (identity_set i s)"
  using finite_identities [of i s] by (metis One_nat_def Suc_leI card_gt_0_iff empty_iff)

lemma kept_values: "lookup m k = Some v \<Longrightarrow> Q v = Q x \<Longrightarrow> length (filter Q (vals (put k x m))) = length (filter Q (vals m))"
  unfolding put_def by (induction m) (auto split: if_splits)

lemma dropped_values:
  "map_ok m \<Longrightarrow> lookup m k = Some v \<Longrightarrow> length (filter Q (vals m)) = length (filter Q (vals (drop_key k m))) + (if Q v then 1 else 0)"
proof (induction m)
  case (Cons x m)
  obtain k' v' where x: "x = (k', v')" by (cases x)
  have ok: "map_ok m" "k' \<notin> fst ` set m" using Cons.prems(1) x by (auto simp: map_ok_def)
  show ?case
  proof (cases "k' = k")
    case True
    then have "drop_key k m = m" using ok(2) by (force simp: drop_key_def AList.delete_eq intro!: filter_True)
    then show ?thesis using True Cons.prems(2) x by (simp add: drop_key_def)
  qed (use Cons.IH [OF ok(1)] Cons.prems(2) x in \<open>auto simp: drop_key_def\<close>)
qed simp

lemma added_identity:
  "lookup (au_identities s) k = None \<Longrightarrow>
   identity_set i (s\<lparr>au_identities := put k u (au_identities s)\<rparr>) = identity_set i s \<union> (if au_id u = i then {fst k} else {})"
  by (cases k) (auto simp: identity_set_def put_absent)

lemma passkeys_of_simps [simp]:
  "passkeys_of i (s\<lparr>au_identities := x\<rparr>) = passkeys_of i s" "passkeys_of i (s\<lparr>au_users := y\<rparr>) = passkeys_of i s"
  "passkeys_of i (s\<lparr>au_challenges := z\<rparr>) = passkeys_of i s" "passkeys_of i (s\<lparr>au_sessions := w\<rparr>) = passkeys_of i s"
  by (simp_all add: passkeys_of_def)

lemma identity_set_simps [simp]:
  "identity_set i (s\<lparr>au_passkeys := x\<rparr>) = identity_set i s" "identity_set i (s\<lparr>au_users := y\<rparr>) = identity_set i s"
  "identity_set i (s\<lparr>au_challenges := z\<rparr>) = identity_set i s" "identity_set i (s\<lparr>au_sessions := w\<rparr>) = identity_set i s"
  by (simp_all add: identity_set_def)

lemma get_user_simps [simp]:
  "get_user i (s\<lparr>au_passkeys := x\<rparr>) = get_user i s" "get_user i (s\<lparr>au_identities := y\<rparr>) = get_user i s"
  "get_user i (s\<lparr>au_challenges := z\<rparr>) = get_user i s" "get_user i (s\<lparr>au_sessions := w\<rparr>) = get_user i s"
  "get_user i (s\<lparr>au_users := put j u (au_users s)\<rparr>) = (if i = j then Some u else get_user i s)"
  "get_user i (s\<lparr>au_users := drop_key j (au_users s)\<rparr>) = (if i = j then None else get_user i s)"
  by (simp_all add: get_user_def)

lemma accounts_same: "accounts_ok s \<Longrightarrow> au_passkeys s' = au_passkeys s \<Longrightarrow> au_identities s' = au_identities s \<Longrightarrow> au_users s' = au_users s \<Longrightarrow> accounts_ok s'"
  by (simp add: accounts_ok_def get_user_def method_count identity_set_def passkeys_of_def)

lemma step_accounts:
  assumes "auth_step F s s'" "accounts_ok s"
  shows "accounts_ok s'"
  using assms(1)
proof cases
  case (challenge c)
  then show ?thesis using accounts_same [OF assms(2)] by (simp add: save_challenge_def)
next
  case (take h kind b now)
  then show ?thesis using accounts_same [OF assms(2)] by (auto simp: take_challenge_def split: option.splits if_splits)
next
  case (resolve i p h n a)
  show ?thesis
  proof (cases "lookup (au_identities s) (p, h) = None \<and> opaque_id_ok ''usr'' i \<and> opaque_id_ok ''act'' a")
    case True
    let ?u = "\<lparr>au_id = i, au_actor = a, au_display = n\<rparr>"
    have s': "s' = s\<lparr>au_users := put i ?u (au_users s), au_identities := put (p, h) ?u (au_identities s)\<rparr>"
      using resolve True by (simp add: resolve_or_create_user_def Let_def)
    have "identity_set j s' = identity_set j s \<union> (if j = i then {p} else {})" for j
      using added_identity [of "s\<lparr>au_users := put i ?u (au_users s)\<rparr>" "(p, h)" j ?u] True by (simp add: s')
    then have "sign_in_method_count j s' \<ge> 1" if "get_user j s' \<noteq> None" for j
      using that assms(2) some_identity [of p j s] finite_identities [of j s]
      by (cases "j = i") (auto simp: method_count s' accounts_ok_def card_insert_if)
    then show ?thesis using assms(2) True set_put_subset [of "(p, h)" ?u "au_identities s"] by (auto simp: accounts_ok_def s')
  qed (use resolve assms(2) in \<open>auto simp: resolve_or_create_user_def split: option.splits\<close>)
next
  case (rename i n)
  show ?thesis
  proof (cases "get_user i s")
    case (Some u)
    let ?v = "u\<lparr>au_display := n\<rparr>"
    have id: "au_id ?v = i" using Some assms(2) by (simp add: accounts_ok_def)
    have s': "s' = s\<lparr>au_users := put i ?v (au_users s), au_identities := map (\<lambda>(k, x). (k, if au_id x = i then ?v else x)) (au_identities s)\<rparr>"
      using rename Some by (simp add: update_user_display_name_def Let_def)
    have same: "identity_set j s' = identity_set j s" for j
    proof -
      have "identity_set j s' \<subseteq> identity_set j s" using id by (fastforce simp: identity_set_def s' split: if_splits)
      moreover have "p \<in> identity_set j s'" if "((p, h), x) \<in> set (au_identities s)" "au_id x = j" for p h x
      proof -
        have "((p, h), if au_id x = i then ?v else x) \<in> set (au_identities s')" using that(1) by (force simp: s')
        then show ?thesis using that(2) id unfolding identity_set_def by (auto intro!: exI [of _ h] exI [of _ "if au_id x = i then ?v else x"])
      qed
      ultimately show ?thesis by (auto simp: identity_set_def)
    qed
    show ?thesis using assms(2) id Some same by (auto simp: accounts_ok_def method_count s')
  qed (use rename assms(2) in \<open>simp add: update_user_display_name_def\<close>)
next
  case (link i p h)
  show ?thesis
  proof (cases "\<exists>u. get_user i s = Some u \<and> lookup (au_identities s) (p, h) = None")
    case True
    then obtain u where u: "get_user i s = Some u" "lookup (au_identities s) (p, h) = None" by blast
    then have s': "s' = s\<lparr>au_identities := put (p, h) u (au_identities s)\<rparr>" using link by (simp add: link_identity_method_def)
    have "identity_set j s \<subseteq> identity_set j s'" for j using added_identity [OF u(2)] by (simp add: s')
    then have more: "card (identity_set j s) \<le> card (identity_set j s')" for j by (rule card_mono [OF finite_identities])
    have "sign_in_method_count j s' \<ge> 1" if "get_user j s' \<noteq> None" for j
    proof -
      have "1 \<le> sign_in_method_count j s" using that assms(2) by (simp add: s' accounts_ok_def)
      then show ?thesis using more [of j] by (simp add: method_count s')
    qed
    then show ?thesis using assms(2) u set_put_subset [of "(p, h)" u "au_identities s"] by (auto simp: accounts_ok_def s')
  qed (use link assms(2) in \<open>auto simp: link_identity_method_def split: option.splits\<close>)
next
  case (remove_identity i p)
  show ?thesis
  proof (cases "p \<in> identity_set i s \<and> 1 < sign_in_method_count i s")
    case True
    then have s': "s' = s\<lparr>au_identities := filter (\<lambda>((q, h), x). \<not> (q = p \<and> au_id x = i)) (au_identities s)\<rparr>"
      using remove_identity by (simp add: remove_identity_method_def set_identities_of)
    have "identity_set j s' = (if j = i then identity_set i s - {p} else identity_set j s)" for j
      by (auto simp: identity_set_def s')
    then have "sign_in_method_count j s' \<ge> 1" if "get_user j s' \<noteq> None" for j
      using that assms(2) True finite_identities [of i s] by (auto simp: method_count accounts_ok_def s')
    then show ?thesis using assms(2) by (auto simp: accounts_ok_def s')
  qed (use remove_identity assms(2) in \<open>auto simp: remove_identity_method_def set_identities_of split: if_splits\<close>)
next
  case (delete i now)
  show ?thesis
  proof (cases "get_user i s")
    case (Some u)
    let ?t = "s\<lparr>au_users := drop_key i (au_users s), au_identities := filter (\<lambda>(k, x). au_id x \<noteq> i) (au_identities s),
      au_passkeys := filter (\<lambda>(k, p). pk_user p \<noteq> i) (au_passkeys s)\<rparr>"
    have "identity_set j ?t = identity_set j s" "passkeys_of j ?t = passkeys_of j s" if "j \<noteq> i" for j
      using that by (auto simp: identity_set_def passkeys_of_def filter_map comp_def case_prod_unfold intro!: arg_cong [of _ _ "map snd"] filter_cong)
    moreover have "map_ok (au_passkeys ?t)" using assms(2) by (simp add: accounts_ok_def map_ok_def distinct_map_filter)
    ultimately have "accounts_ok ?t" using assms(2) by (auto simp: accounts_ok_def method_count)
    then show ?thesis using accounts_same [of ?t s'] delete Some by (simp add: delete_user_def revoke_sessions_of_def)
  qed (use delete assms(2) in \<open>simp add: delete_user_def\<close>)
next
  case (add_passkey k)
  show ?thesis
  proof (cases "lookup (au_passkeys s) (pk_credential k) = None \<and> get_user (pk_user k) s \<noteq> None")
    case True
    then have "s' = s\<lparr>au_passkeys := put (pk_credential k) k (au_passkeys s)\<rparr>" using add_passkey by (auto simp: save_passkey_credential_def)
    moreover from this have "map_ok (au_passkeys s')" using assms(2) by (simp add: accounts_ok_def)
    ultimately show ?thesis using assms(2) True by (auto simp: accounts_ok_def method_count passkeys_of_def put_absent)
  qed (use add_passkey assms(2) in \<open>auto simp: save_passkey_credential_def split: if_splits\<close>)
next
  case (count c e n now)
  show ?thesis
  proof (cases "\<exists>k. lookup (au_passkeys s) c = Some k \<and> pk_counter k = e \<and> counter_advances (pk_counter k) n")
    case True
    then obtain k where k: "lookup (au_passkeys s) c = Some k" "s' = s\<lparr>au_passkeys := put c (k\<lparr>pk_counter := n, pk_last_used := Some now\<rparr>) (au_passkeys s)\<rparr>"
      using count by (auto simp: update_passkey_counter_def)
    then have "length (passkeys_of j s') = length (passkeys_of j s)" for j
      using kept_values [OF k(1), of "\<lambda>p. pk_user p = j" "k\<lparr>pk_counter := n, pk_last_used := Some now\<rparr>"] by (simp add: passkeys_of_def k(2))
    then show ?thesis using assms(2) k(2) by (auto simp: accounts_ok_def method_count)
  qed (use count assms(2) in \<open>auto simp: update_passkey_counter_def split: option.splits if_splits\<close>)
next
  case (remove_passkey c i)
  show ?thesis
  proof (cases "\<exists>k. lookup (au_passkeys s) c = Some k \<and> pk_user k = i \<and> 1 < sign_in_method_count i s")
    case True
    then obtain k where k: "lookup (au_passkeys s) c = Some k" "pk_user k = i" "s' = s\<lparr>au_passkeys := drop_key c (au_passkeys s)\<rparr>"
      using remove_passkey by (auto simp: revoke_passkey_credential_def)
    have "map_ok (au_passkeys s)" using assms(2) by (simp add: accounts_ok_def)
    from dropped_values [OF this k(1)] have drop: "length (passkeys_of j s) = length (passkeys_of j s') + (if j = i then 1 else 0)" for j
      using k(2,3) by (simp add: passkeys_of_def)
    have "sign_in_method_count j s' \<ge> 1" if "get_user j s' \<noteq> None" for j
    proof (cases "j = i")
      case same: True
      have "1 < sign_in_method_count i s" using True by blast
      then have "1 < card (identity_set i s) + length (passkeys_of i s)" by (simp only: method_count)
      moreover have "identity_set i s' = identity_set i s" by (simp add: k(3))
      ultimately show ?thesis using drop [of i] by (simp only: same method_count if_True refl)
    next
      case False
      have "1 \<le> sign_in_method_count j s" using that assms(2) k(3) by (simp add: accounts_ok_def)
      then show ?thesis using drop [of j] False k(3) by (simp add: method_count)
    qed
    then show ?thesis using assms(2) k(3) by (auto simp: accounts_ok_def)
  qed (use remove_passkey assms(2) in \<open>auto simp: revoke_passkey_credential_def split: option.splits if_splits\<close>)
next
  case (session x)
  then show ?thesis using accounts_same [OF assms(2)] by (simp add: save_session_def)
next
  case (sign_out h now)
  then show ?thesis using accounts_same [OF assms(2)] by (auto simp: revoke_session_def split: option.splits)
next
  case (sign_out_everywhere i now)
  then show ?thesis using accounts_same [OF assms(2)] by (simp add: revoke_sessions_of_def)
qed

lemma reachable_accounts: "auth_steps F empty_auth_store s \<Longrightarrow> accounts_ok s"
proof (induction rule: rtranclp_induct)
  case base
  show ?case by (simp add: accounts_ok_def empty_auth_store_def get_user_def)
qed (rule step_accounts)

lemma steps_accounts: "auth_steps F s s' \<Longrightarrow> accounts_ok s \<Longrightarrow> accounts_ok s'"
  by (induction rule: rtranclp_induct) (blast intro: step_accounts)+

section \<open>Challenges are spent\<close>

definition spent :: "token_hash \<Rightarrow> auth_store \<Rightarrow> bool" where
  "spent h s \<longleftrightarrow> (\<exists>c. lookup (au_challenges s) h = Some c \<and> ac_consumed c \<noteq> None)"

lemma steps_spent: "auth_steps F s s' \<Longrightarrow> h \<in> dwn_tokens F \<Longrightarrow> spent h s \<Longrightarrow> spent h s'"
proof (induction rule: rtranclp_induct)
  case (step s' s'')
  from step(2) step.IH [OF step.prems] step.prems(1) show ?case
    by cases (auto simp: spent_def save_challenge_def take_challenge_def resolve_or_create_user_def Let_def update_user_display_name_def
        link_identity_method_def remove_identity_method_def delete_user_def revoke_sessions_of_def save_passkey_credential_def
        update_passkey_counter_def revoke_passkey_credential_def save_session_def revoke_session_def split: option.splits if_splits)
qed

lemma consumed_challenge:
  assumes "consume_challenge A kind raw b now w = (Inr c, w')"
  shows "lookup (au_challenges (aw_store w)) (ath_hash A raw) = Some c" "ac_kind c = kind" "ac_binding c = Some (ath_hash A b)" "ac_consumed c = None"
    "now < ac_expires c" "spent (ath_hash A raw) (aw_store w')"
    "aw_store w' = (aw_store w)\<lparr>au_challenges := put (ath_hash A raw) (c\<lparr>ac_consumed := Some now\<rparr>) (au_challenges (aw_store w))\<rparr>"
  using assms by (auto simp: consume_challenge_def bind_action_def on_auth_def take_challenge_def throw_def return_def spent_def
      split: option.splits if_splits prod.splits)

lemma spent_refused: "spent (ath_hash A raw) (aw_store w) \<Longrightarrow> \<exists>w'. consume_challenge A kind raw b now w = (Inl (app_error AUTH_REQUIRED), w')"
  by (auto simp: spent_def consume_challenge_def bind_action_def on_auth_def take_challenge_def throw_def)

definition succeeds :: "'a auth_action \<Rightarrow> auth_world \<Rightarrow> bool" where
  "succeeds m w \<longleftrightarrow> (\<exists>x w'. m w = (Inr x, w'))"

definition challenge_opens :: "auth \<Rightarrow> string \<Rightarrow> auth_world \<Rightarrow> bool" where
  "challenge_opens A token w \<longleftrightarrow> (\<exists>b now d. succeeds (complete_magic_link A token b now d) w) \<or>
     (\<exists>raw now later. succeeds (complete_magic_link_identity A token raw now later) w) \<or>
     (\<exists>i now later d. acb_state i = token \<and> succeeds (complete_apple A i now later d) w) \<or>
     (\<exists>b response now used d. succeeds (complete_passkey_authentication A token b response now used d) w) \<or>
     (\<exists>i raw response now created. succeeds (complete_passkey_registration A i raw token response now created) w)"

lemma spent_fails: "spent (ath_hash A token) (aw_store w) \<Longrightarrow> \<not> succeeds (bind_action (consume_challenge A kind token b now) f) w"
  using spent_refused [of A token w kind b now] by (auto simp: succeeds_def bind_action_def)

lemma spent_opens_nothing: "spent (ath_hash A token) (aw_store w) \<Longrightarrow> \<not> challenge_opens A token w"
  by (auto simp: spent_fails challenge_opens_def complete_magic_link_def complete_magic_link_identity_def complete_apple_def
      complete_passkey_authentication_def complete_passkey_registration_def)

section \<open>Deleted users\<close>

lemma steps_absent: "auth_steps F s s' \<Longrightarrow> i \<in> dwn_users F \<Longrightarrow> get_user i s = None \<Longrightarrow> get_user i s' = None"
proof (induction rule: rtranclp_induct)
  case (step s' s'')
  from step(2) step.IH [OF step.prems] step.prems(1) show ?case
    by cases (auto simp: save_challenge_def take_challenge_def resolve_or_create_user_def Let_def update_user_display_name_def
        link_identity_method_def remove_identity_method_def delete_user_def revoke_sessions_of_def save_passkey_credential_def
        update_passkey_counter_def revoke_passkey_credential_def save_session_def revoke_session_def split: option.splits if_splits)
qed

definition signs_in :: "auth \<Rightarrow> user_id \<Rightarrow> auth_world \<Rightarrow> bool" where
  "signs_in A i w \<longleftrightarrow> (\<exists>d x w'. sdr_user d \<noteq> i \<and> au_id (iss_user x) = i \<and>
     ((\<exists>token b now. complete_magic_link A token b now d w = (Inr x, w')) \<or> (\<exists>cb now later. complete_apple A cb now later d w = (Inr x, w')) \<or>
      (\<exists>token b response now later. complete_passkey_authentication A token b response now later d w = (Inr x, w')) \<or>
      (\<exists>name password intent. complete_reviewer_sign_in A name password intent d w = (Inr x, w'))))"

text \<open>A user who is not stored comes out of no action: the rules below follow an action step by step.\<close>

definition without :: "user_id \<Rightarrow> auth_world \<Rightarrow> bool" where
  "without i w \<longleftrightarrow> accounts_ok (aw_store w) \<and> get_user i (aw_store w) = None"

definition yields :: "user_id \<Rightarrow> ('a \<Rightarrow> bool) \<Rightarrow> 'a auth_action \<Rightarrow> bool" where
  "yields i Q m \<longleftrightarrow> (\<forall>w x w'. without i w \<and> m w = (Inr x, w') \<longrightarrow> without i w' \<and> Q x)"

lemma yields_steps:
  assumes "runs_steps \<lparr>dwn_users = {i}, dwn_tokens = {}\<rparr> m"
  shows "yields i (\<lambda>_. True) m"
  unfolding yields_def
proof (intro allI impI)
  fix w x w' assume w: "without i w \<and> m w = (Inr x, w')"
  have s: "auth_steps \<lparr>dwn_users = {i}, dwn_tokens = {}\<rparr> (aw_store w) (aw_store w')" using assms w unfolding runs_steps_def by (metis snd_conv)
  show "without i w' \<and> True" using w steps_accounts [OF s] steps_absent [OF s, of i] by (simp add: without_def)
qed

lemma yields_bind:
  assumes "yields i R m" "\<And>x. R x \<Longrightarrow> yields i Q (f x)"
  shows "yields i Q (bind_action m f)"
  unfolding yields_def
proof (intro allI impI, elim conjE)
  fix w x w' assume w: "without i w" and m: "bind_action m f w = (Inr x, w')"
  from m obtain y w1 where "m w = (Inr y, w1)" "f y w1 = (Inr x, w')" by (rule bind_action_InrE)
  then show "without i w' \<and> Q x" using assms w unfolding yields_def by blast
qed

lemma yields_throw: "yields i Q (throw e)"
  by (simp add: yields_def throw_def)

lemma yields_user: "yields i (\<lambda>r. \<forall>u. r = Some u \<longrightarrow> au_id u \<noteq> i) (ask_auth (get_user k))"
  by (auto simp: yields_def ask_auth_def reads_def without_def accounts_ok_def)

lemma yields_session: "yields i (\<lambda>r. \<forall>x u. r = Some (x, u) \<longrightarrow> au_id u \<noteq> i) (ask_auth (get_session_by_token_hash h))"
  by (auto simp: yields_def ask_auth_def reads_def without_def accounts_ok_def get_session_by_token_hash_def split: option.splits)

lemma yields_created:
  assumes "sdr_user d \<noteq> i"
  shows "yields i (\<lambda>u. au_id u \<noteq> i) (create_user p h n d)"
  unfolding yields_def
proof (intro allI impI, elim conjE)
  fix w u w' assume w: "without i w" and m: "create_user p h n d w = (Inr u, w')"
  have "runs_steps \<lparr>dwn_users = {i}, dwn_tokens = {}\<rparr> (create_user p h n d)" using assms by (intro runs_create_user) auto
  from yields_steps [OF this] w m have "without i w'" unfolding yields_def by blast
  moreover have "au_id u = sdr_user d \<or> ((p, h), u) \<in> set (au_identities (aw_store w))"
    using m by (auto simp: create_user_def try_auth_def resolve_or_create_user_def Let_def map_of_SomeD split: option.splits if_splits prod.splits)
  moreover have "get_user (au_id u) (aw_store w) \<noteq> None" if "((p, h), u) \<in> set (au_identities (aw_store w))"
    using that w unfolding without_def accounts_ok_def by blast
  ultimately show "without i w' \<and> au_id u \<noteq> i" using assms w by (auto simp: without_def)
qed

lemma yields_issued:
  assumes "au_id u \<noteq> i"
  shows "yields i (\<lambda>x. au_id (iss_user x) \<noteq> i) (issue_session A u intent d)"
proof -
  have "runs_steps \<lparr>dwn_users = {i}, dwn_tokens = {}\<rparr> (issue_session A u intent d)" by (intro runs_draws) simp
  from yields_steps [OF this] show ?thesis
    using assms unfolding yields_def by (auto simp: issue_session_def bind_action_def on_auth_def return_def split: prod.splits)
qed

lemma yields_cases:
  "yields i Q m \<Longrightarrow> (\<And>x. r = Some x \<Longrightarrow> yields i Q (f x)) \<Longrightarrow> yields i Q (case r of None \<Rightarrow> m | Some x \<Rightarrow> f x)"
  "(\<And>x u. q = (x, u) \<Longrightarrow> yields i Q (g x u)) \<Longrightarrow> yields i Q (case q of (x, u) \<Rightarrow> g x u)"
  "(b \<Longrightarrow> yields i Q m) \<Longrightarrow> (\<not> b \<Longrightarrow> yields i Q m') \<Longrightarrow> yields i Q (if b then m else m')"
  by (auto split: option.split prod.split)

lemma yields_return: "Q x \<Longrightarrow> yields i Q (return x)"
  by (simp add: yields_def return_def)

lemmas yields_rules = yields_throw yields_cases yields_bind [OF yields_user] yields_bind [OF yields_session]
  yields_bind [OF yields_steps [OF runs_consume]] yields_bind [OF yields_steps [OF runs_link]] yields_bind [OF yields_steps [OF runs_pure(3)]]
  yields_bind [OF yields_steps [OF runs_pure(4)]] yields_bind [OF yields_steps [OF runs_operations(3)]] yields_issued

lemma yields_linked: "yields i (\<lambda>u. au_id u \<noteq> i) (complete_apple_identity k x h now)"
  unfolding complete_apple_identity_def by (rule yields_rules yields_return | blast)+

lemma absent_cannot_sign_in:
  assumes d: "sdr_user d \<noteq> i"
  shows "yields i (\<lambda>x. au_id (iss_user x) \<noteq> i) (complete_magic_link A token b now d)"
    and "yields i (\<lambda>x. au_id (iss_user x) \<noteq> i) (complete_apple A cb now later d)"
    and "yields i (\<lambda>x. au_id (iss_user x) \<noteq> i) (complete_passkey_authentication A token b response now later d)"
    and "yields i (\<lambda>x. au_id (iss_user x) \<noteq> i) (complete_reviewer_sign_in A name password intent d)"
proof -
  note created = yields_created [OF d]
  show "yields i (\<lambda>x. au_id (iss_user x) \<noteq> i) (complete_magic_link A token b now d)"
    unfolding complete_magic_link_def by (rule yields_rules yields_bind [OF created] | blast)+
  show "yields i (\<lambda>x. au_id (iss_user x) \<noteq> i) (complete_passkey_authentication A token b response now later d)"
    unfolding complete_passkey_authentication_def by (rule yields_rules | blast)+
  have "yields i (\<lambda>u. au_id u \<noteq> i) (ensure_reviewer_user A d)"
    unfolding ensure_reviewer_user_def by (rule yields_rules created)+
  then show "yields i (\<lambda>x. au_id (iss_user x) \<noteq> i) (complete_reviewer_sign_in A name password intent d)"
    unfolding complete_reviewer_sign_in_def by - (rule yields_rules yields_bind [where m = "ensure_reviewer_user A d"] | assumption)+
  have "yields i (\<lambda>u. au_id u \<noteq> i) (case lookup p ''link_user_id'' of None \<Rightarrow> create_user AppleIdentity subject n d
      | Some k \<Rightarrow> bind_action (decide (parsed (opaque_id_ok ''usr'' k))) (\<lambda>_. bind_action (decide (required_payload p ''link_session_hash''))
          (\<lambda>session. complete_apple_identity k session subject later)))" for p subject n
    by (rule yields_rules created yields_linked)+
  note linked = yields_bind [OF this]
  show "yields i (\<lambda>x. au_id (iss_user x) \<noteq> i) (complete_apple A cb now later d)"
    unfolding complete_apple_def Let_def by (rule linked yields_rules | assumption)+
qed

section \<open>Guarantees\<close>

text \<open>C15: Nobody loses the last way to sign in. Whatever operations ran since the store was empty, every user who is stored has at least one
  sign-in method.\<close>
theorem sign_in_methods_never_run_out:
  assumes "auth_steps F empty_auth_store s" "get_user i s = Some u"
  shows "1 \<le> sign_in_method_count i s"
  using reachable_accounts [OF assms(1)] assms(2) by (simp add: accounts_ok_def)

text \<open>C14: A sign-in challenge works once, in the browser it was made for. A challenge that is accepted was stored with that kind and the binding of
  that browser, was not consumed and had not expired; and whatever operations follow, no sign-in, linking or registration succeeds with it again.\<close>
theorem sign_in_challenge_works_once:
  assumes "consume_challenge A kind token binding now w = (Inr c, w1)" "auth_steps F (aw_store w1) (aw_store w2)" "ath_hash A token \<in> dwn_tokens F"
  shows "lookup (au_challenges (aw_store w)) (ath_hash A token) = Some c \<and> ac_kind c = kind \<and> ac_binding c = Some (ath_hash A binding) \<and>
    ac_consumed c = None \<and> now < ac_expires c \<and> \<not> challenge_opens A token w2"
  using consumed_challenge [OF assms(1)] spent_opens_nothing [OF steps_spent [OF assms(2,3)]] by blast

text \<open>C16: A deleted user is gone. After the deletion of a user, whatever operations follow, no session of theirs authenticates, and no magic link,
  Apple identity, passkey or reviewer sign-in leads to that user again.\<close>
theorem deleted_user_is_gone:
  assumes "auth_steps G empty_auth_store s" "delete_user i now s = (True, s1)" "auth_steps F s1 (aw_store w)" "i \<in> dwn_users F"
  shows "(\<nexists>raw t p. authenticate_session A raw t (aw_store w) = Inr p \<and> p_user p = i) \<and> \<not> signs_in A i w"
proof -
  have "accounts_ok s1" using step_accounts [OF auth_step.delete [where i = i and now = now] reachable_accounts [OF assms(1)]] assms(2) by simp
  then have ok: "accounts_ok (aw_store w)" by (rule steps_accounts [OF assms(3)])
  have "get_user i s1 = None"
    using assms(2) by (auto simp: delete_user_def revoke_sessions_of_def split: option.splits)
  then have none: "get_user i (aw_store w) = None" by (rule steps_absent [OF assms(3,4)])
  have "p_user p \<noteq> i" if "authenticate_session A raw t (aw_store w) = Inr p" for raw t p
    using that ok none by (auto simp: authenticate_session_def get_session_by_token_hash_def principal_for_def and_then_Inr_iff accounts_ok_def
        split: option.splits if_splits)
  moreover have "\<not> signs_in A i w"
  proof
    have w: "without i w" using ok none by (simp add: without_def)
    assume "signs_in A i w"
    then obtain d x w' where d: "sdr_user d \<noteq> i" and x: "au_id (iss_user x) = i" and
      "(\<exists>token b now. complete_magic_link A token b now d w = (Inr x, w')) \<or> (\<exists>cb now later. complete_apple A cb now later d w = (Inr x, w')) \<or>
       (\<exists>token b response now later. complete_passkey_authentication A token b response now later d w = (Inr x, w')) \<or>
       (\<exists>name password intent. complete_reviewer_sign_in A name password intent d w = (Inr x, w'))"
      unfolding signs_in_def by blast
    then obtain m where m: "m w = (Inr x, w')" "yields i (\<lambda>x. au_id (iss_user x) \<noteq> i) m" using absent_cannot_sign_in [OF d] by metis
    show False using m w x unfolding yields_def by blast
  qed
  ultimately show ?thesis by blast
qed

section \<open>Magic links\<close>

lemma created_user:
  assumes "accounts_ok (aw_store w)" "opaque_id_ok ''usr'' (sdr_user e)" "opaque_id_ok ''act'' (sdr_actor e)"
  obtains u v w' where "create_user p h n e w = (Inr u, w')" "lookup (au_identities (aw_store w')) (p, h) = Some u"
    "get_user (au_id u) (aw_store w') = Some v" "au_id v = au_id u" "opaque_id_ok ''act'' (au_actor v)"
proof (cases "lookup (au_identities (aw_store w)) (p, h)")
  case None
  let ?u = "\<lparr>au_id = sdr_user e, au_actor = sdr_actor e, au_display = n\<rparr>"
  from None assms show thesis
    by (intro that [of ?u "w\<lparr>aw_store := (aw_store w)\<lparr>au_users := put (sdr_user e) ?u (au_users (aw_store w)),
        au_identities := put (p, h) ?u (au_identities (aw_store w))\<rparr>\<rparr>" ?u])
      (simp_all add: create_user_def try_auth_def resolve_or_create_user_def Let_def)
next
  case (Some u)
  then have "get_user (au_id u) (aw_store w) \<noteq> None" using assms(1) map_of_SomeD [OF Some] unfolding accounts_ok_def by blast
  then obtain v where "get_user (au_id u) (aw_store w) = Some v" by blast
  with assms Some show thesis
    by (intro that [of u w v]) (simp_all add: create_user_def try_auth_def resolve_or_create_user_def accounts_ok_def)
qed

lemma magic_link_run:
  assumes ok: "accounts_ok (aw_store w)" and input: "ath_email A email" "opt_all pending_intent_ok intent"
    and mail: "\<And>link. ath_mail A (ath_lower A (trim email)) link = Inr ()"
    and time: "now < cdr_now d + 15 * 60000" and ids: "opaque_id_ok ''usr'' (sdr_user e)" "opaque_id_ok ''act'' (sdr_actor e)"
  obtains w1 x w2 v where "request_magic_link A email intent d w = (Inr (), w1)" "complete_magic_link A (cdr_token d) (cdr_binding d) now e w1 = (Inr x, w2)"
    "iss_intent x = intent" "iss_session x = sdr_session e"
    "lookup (au_sessions (aw_store w2)) (ath_hash A (sdr_session e)) = Some (issued_record A (iss_user x) intent e)"
    "lookup (au_identities (aw_store w2)) (MagicLinkIdentity, ath_hash A (ath_lower A (trim email))) = Some (iss_user x)"
    "get_user (au_id (iss_user x)) (aw_store w2) = Some v" "au_id v = au_id (iss_user x)" "opaque_id_ok ''act'' (au_actor v)"
proof -
  let ?subject = "ath_hash A (ath_lower A (trim email))"
  let ?c = "new_challenge A MagicLinkChallenge ((''subject_hash'', ?subject) # intent_payload intent) 15 d"
  let ?link = "\<lparr>mal_path = ''/auth/magic-link/complete'', mal_query = [(''token'', cdr_token d), (''transaction'', cdr_binding d)]\<rparr>"
  let ?w1 = "w\<lparr>aw_store := save_challenge ?c (aw_store w), aw_mails := aw_mails w @ [(ath_lower A (trim email), ?link)]\<rparr>"
  have 1: "request_magic_link A email intent d w = (Inr (), ?w1)"
    using input mail by (simp add: request_magic_link_def bind_action_def decide_def lift_result_def parse_email_def parse_intent_def parsed_def guard_def
        add_challenge_def on_auth_def send_magic_link_def)
  let ?w2 = "?w1\<lparr>aw_store := (save_challenge ?c (aw_store w))\<lparr>au_challenges := put (ath_hash A (cdr_token d)) (?c\<lparr>ac_consumed := Some now\<rparr>)
    (au_challenges (save_challenge ?c (aw_store w)))\<rparr>\<rparr>"
  have fields: "ac_kind ?c = MagicLinkChallenge" "ac_binding ?c = Some (ath_hash A (cdr_binding d))" "ac_consumed ?c = None" "now < ac_expires ?c"
    "ac_payload ?c = (''subject_hash'', ?subject) # intent_payload intent"
    using time by (simp_all add: new_challenge_def add_minutes_def)
  have 2: "consume_challenge A MagicLinkChallenge (cdr_token d) (cdr_binding d) now ?w1 = (Inr ?c, ?w2)"
    using fields by (simp add: consume_challenge_def bind_action_def on_auth_def take_challenge_def) (simp add: save_challenge_def return_def)
  have "accounts_ok (aw_store ?w2)" using accounts_same [OF ok] by (simp add: save_challenge_def)
  from created_user [OF this ids, of MagicLinkIdentity ?subject "''Household member''"] obtain u v w3 where
    u: "create_user MagicLinkIdentity ?subject ''Household member'' e ?w2 = (Inr u, w3)"
      "lookup (au_identities (aw_store w3)) (MagicLinkIdentity, ?subject) = Some u" "get_user (au_id u) (aw_store w3) = Some v"
      "au_id v = au_id u" "opaque_id_ok ''act'' (au_actor v)" .
  have payload: "required_payload (ac_payload ?c) ''subject_hash'' = Inr ?subject" "lookup (ac_payload ?c) ''pending_intent'' = intent"
    unfolding fields(5) by (simp_all add: required_payload_def intent_payload_def split: option.split)
  let ?x = "\<lparr>iss_session = sdr_session e, iss_csrf = sdr_csrf e, iss_expires = add_minutes (sdr_expiry_from e) (60 * 24 * 30), iss_intent = intent, iss_user = u\<rparr>"
  let ?w4 = "w3\<lparr>aw_store := save_session (issued_record A u intent e) (aw_store w3)\<rparr>"
  have 3: "complete_magic_link A (cdr_token d) (cdr_binding d) now e ?w1 = (Inr ?x, ?w4)"
    using 2 u(1) payload by (simp add: complete_magic_link_def bind_action_def decide_def lift_result_def issue_session_def on_auth_def return_def)
  show thesis
    by (rule that [OF 1 3, of v]) (use u in \<open>simp_all add: save_session_def issued_record_def\<close>)
qed

text \<open>C17: A magic link signs in. When a link is requested for an address and opened within fifteen minutes in the browser that asked for it, a
  session is issued to the owner of that address, and it authenticates them for thirty days.\<close>
theorem magic_link_signs_in:
  assumes "accounts_ok (aw_store w)" and "ath_email A email" "opt_all pending_intent_ok intent"
    and "\<And>link. ath_mail A (ath_lower A (trim email)) link = Inr ()"
    and "now < cdr_now d + 15 * 60000" and "opaque_id_ok ''usr'' (sdr_user e)" "opaque_id_ok ''act'' (sdr_actor e)"
  shows "\<exists>w1 x w2. request_magic_link A email intent d w = (Inr (), w1) \<and> complete_magic_link A (cdr_token d) (cdr_binding d) now e w1 = (Inr x, w2) \<and>
    (\<forall>t. t < sdr_expiry_from e + 30 * 24 * 60 * 60000 \<longrightarrow>
      (\<exists>p. authenticate_session A (iss_session x) t (aw_store w2) = Inr p \<and> p_user p = au_id (iss_user x))) \<and>
    lookup (au_identities (aw_store w2)) (MagicLinkIdentity, ath_hash A (ath_lower A (trim email))) = Some (iss_user x)"
proof (rule magic_link_run [OF assms])
  fix w1 x w2 v
  assume *: "request_magic_link A email intent d w = (Inr (), w1)" "complete_magic_link A (cdr_token d) (cdr_binding d) now e w1 = (Inr x, w2)"
    "iss_session x = sdr_session e" "lookup (au_sessions (aw_store w2)) (ath_hash A (sdr_session e)) = Some (issued_record A (iss_user x) intent e)"
    "lookup (au_identities (aw_store w2)) (MagicLinkIdentity, ath_hash A (ath_lower A (trim email))) = Some (iss_user x)"
    "get_user (au_id (iss_user x)) (aw_store w2) = Some v" "au_id v = au_id (iss_user x)" "opaque_id_ok ''act'' (au_actor v)"
  have "\<exists>p. authenticate_session A (iss_session x) t (aw_store w2) = Inr p \<and> p_user p = au_id (iss_user x)"
    if "t < sdr_expiry_from e + 30 * 24 * 60 * 60000" for t
    using that * by (simp add: authenticate_session_def get_session_by_token_hash_def issued_record_def session_live_def add_minutes_def
        principal_for_def parsed_def guard_def)
  with * show ?thesis by blast
qed

text \<open>C40: Signing in can lead away from the site. The check of a pending intent asks for a leading slash only, so a text that
  starts with two slashes and a host, which browsers resolve to that host, is accepted with a request for any address, and opening the link
  lands there.\<close>
theorem sign_in_can_leave_the_site:
  assumes "accounts_ok (aw_store w)" and "ath_email A email" "length site \<le> 2046"
    and "\<And>link. ath_mail A (ath_lower A (trim email)) link = Inr ()"
    and "now < cdr_now d + 15 * 60000" and "opaque_id_ok ''usr'' (sdr_user e)" "opaque_id_ok ''act'' (sdr_actor e)"
  shows "\<exists>w1 x w2. request_magic_link A email (Some (''//'' @ site)) d w = (Inr (), w1) \<and>
    complete_magic_link A (cdr_token d) (cdr_binding d) now e w1 = (Inr x, w2) \<and> landing x = ''//'' @ site"
proof -
  have "opt_all pending_intent_ok (Some (''//'' @ site))" using assms(3) by (simp add: opt_all_def pending_intent_ok_def)
  from magic_link_run [OF assms(1,2) this assms(4-7)] show ?thesis by (metis landing_def option.simps(5))
qed

section \<open>A user of the service\<close>

definition mail_auth :: auth where
  "mail_auth = \<lparr>ath_hash = (\<lambda>s. s), ath_matches = (=), ath_email = (\<lambda>_. True), ath_lower = (\<lambda>s. s), ath_mail = (\<lambda>_ _. Inr ()),
     ath_apple = (\<lambda>_ _ _. Inl zod_error), ath_begin_registration = (\<lambda>_ _ _. Inl zod_error), ath_registration = (\<lambda>_ _. Inl zod_error),
     ath_begin_authentication = (\<lambda>_. Inl zod_error), ath_credential = (\<lambda>_. Inl zod_error), ath_authentication = (\<lambda>_ _ _. Inl zod_error),
     ath_reviewer = None\<rparr>"

definition first_world :: auth_world where "first_world = \<lparr>aw_store = empty_auth_store, aw_mails = []\<rparr>"

definition link_draw :: challenge_draw where
  "link_draw = \<lparr>cdr_token = ''token'', cdr_binding = ''browser'', cdr_id = ''c'', cdr_now = 0\<rparr>"

definition first_draw :: session_draw where
  "first_draw = \<lparr>sdr_session = ''session'', sdr_csrf = ''csrf'', sdr_id = ''s'', sdr_expiry_from = 2000, sdr_authenticated = 2000,
     sdr_user = ''usr_0000000000000001'', sdr_actor = ''act_0000000000000001''\<rparr>"

lemma first_facts:
  "accounts_ok (aw_store first_world)" "opaque_id_ok ''usr'' (sdr_user first_draw)" "opaque_id_ok ''act'' (sdr_actor first_draw)"
  "ath_email mail_auth e" "ath_mail mail_auth a l = Inr ()" "(1000 :: int) < cdr_now link_draw + 15 * 60000"
proof -
  show "accounts_ok (aw_store first_world)" by (simp add: first_world_def reachable_accounts)
  show "opaque_id_ok ''usr'' (sdr_user first_draw)" "opaque_id_ok ''act'' (sdr_actor first_draw)" by code_simp+
qed (simp_all add: mail_auth_def link_draw_def)

theorem magic_link_signs_in_witness:
  "\<exists>w1 x w2 p. request_magic_link mail_auth ''a@b'' None link_draw first_world = (Inr (), w1) \<and>
     complete_magic_link mail_auth ''token'' ''browser'' 1000 first_draw w1 = (Inr x, w2) \<and>
     authenticate_session mail_auth (iss_session x) 2592001999 (aw_store w2) = Inr p"
proof -
  have "opt_all pending_intent_ok None" by (simp add: opt_all_def)
  from magic_link_signs_in [OF first_facts(1,4) this first_facts(5,6,2,3), of "''a@b''"] obtain w1 x w2 where
    "request_magic_link mail_auth ''a@b'' None link_draw first_world = (Inr (), w1)"
    "complete_magic_link mail_auth (cdr_token link_draw) (cdr_binding link_draw) 1000 first_draw w1 = (Inr x, w2)"
    "\<forall>t. t < sdr_expiry_from first_draw + 30 * 24 * 60 * 60000 \<longrightarrow> (\<exists>p. authenticate_session mail_auth (iss_session x) t (aw_store w2) = Inr p \<and> p_user p = au_id (iss_user x))"
    by blast
  moreover from this(3) obtain p where "authenticate_session mail_auth (iss_session x) 2592001999 (aw_store w2) = Inr p"
    by (auto simp: first_draw_def dest: spec [of _ "2592001999 :: int"])
  ultimately show ?thesis by (auto simp: link_draw_def)
qed

theorem sign_in_can_leave_the_site_witness:
  "\<exists>w1 x w2. request_magic_link mail_auth ''a@b'' (Some ''//elsewhere/'') link_draw first_world = (Inr (), w1) \<and>
     complete_magic_link mail_auth ''token'' ''browser'' 1000 first_draw w1 = (Inr x, w2) \<and> landing x = ''//elsewhere/''"
  using sign_in_can_leave_the_site [OF first_facts(1,4) _ first_facts(5,6,2,3), of "''elsewhere/''" "''a@b''"] by (simp add: link_draw_def)

definition first_store :: auth_store where
  "first_store = snd (resolve_or_create_user MagicLinkIdentity ''a@b'' ''Household member'' ''usr_0000000000000001'' ''act_0000000000000001'' empty_auth_store)"

lemma first_store:
  "i \<noteq> ''usr_0000000000000001'' \<Longrightarrow> auth_steps \<lparr>dwn_users = {i}, dwn_tokens = {}\<rparr> empty_auth_store first_store"
  "get_user ''usr_0000000000000001'' first_store = Some \<lparr>au_id = ''usr_0000000000000001'', au_actor = ''act_0000000000000001'', au_display = ''Household member''\<rparr>"
proof -
  show "i \<noteq> ''usr_0000000000000001'' \<Longrightarrow> auth_steps \<lparr>dwn_users = {i}, dwn_tokens = {}\<rparr> empty_auth_store first_store"
    unfolding first_store_def by (intro r_into_rtranclp auth_step.resolve) simp
qed code_simp

theorem sign_in_methods_never_run_out_witness:
  "1 \<le> sign_in_method_count ''usr_0000000000000001'' first_store"
  using sign_in_methods_never_run_out [OF first_store(1) first_store(2), of "''x''"] by simp

theorem sign_in_challenge_works_once_witness:
  "\<exists>c w1. consume_challenge mail_auth MagicLinkChallenge ''token'' ''browser'' 1000 (snd (request_magic_link mail_auth ''a@b'' None link_draw first_world)) = (Inr c, w1) \<and>
     \<not> challenge_opens mail_auth ''token'' w1"
proof -
  have "\<exists>c w1. consume_challenge mail_auth MagicLinkChallenge ''token'' ''browser'' 1000 (snd (request_magic_link mail_auth ''a@b'' None link_draw first_world)) = (Inr c, w1)"
    by (simp add: request_magic_link_def bind_action_def decide_def lift_result_def parse_email_def parse_intent_def parsed_def guard_def opt_all_def
        add_challenge_def on_auth_def send_magic_link_def consume_challenge_def take_challenge_def save_challenge_def new_challenge_def
        add_minutes_def mail_auth_def link_draw_def first_world_def empty_auth_store_def return_def)
  then obtain c w1 where "consume_challenge mail_auth MagicLinkChallenge ''token'' ''browser'' 1000 (snd (request_magic_link mail_auth ''a@b'' None link_draw first_world)) = (Inr c, w1)"
    by blast
  moreover from sign_in_challenge_works_once [OF this rtranclp.rtrancl_refl [of "auth_step \<lparr>dwn_users = {}, dwn_tokens = UNIV\<rparr>"]]
  have "\<not> challenge_opens mail_auth ''token'' w1" by simp
  ultimately show ?thesis by blast
qed

theorem deleted_user_is_gone_witness:
  "\<exists>s1. delete_user ''usr_0000000000000001'' 5 first_store = (True, s1) \<and> \<not> signs_in mail_auth ''usr_0000000000000001'' \<lparr>aw_store = s1, aw_mails = []\<rparr>"
proof -
  obtain s1 where "delete_user ''usr_0000000000000001'' 5 first_store = (True, s1)" using first_store(2) by (auto simp: delete_user_def)
  moreover from deleted_user_is_gone [OF first_store(1) this, of "''usr_2''" "\<lparr>dwn_users = UNIV, dwn_tokens = {}\<rparr>" "\<lparr>aw_store = s1, aw_mails = []\<rparr>" mail_auth]
  have "\<not> signs_in mail_auth ''usr_0000000000000001'' \<lparr>aw_store = s1, aw_mails = []\<rparr>" by simp
  ultimately show ?thesis by blast
qed

end
