(* ===== verification/AccountService.thy ===== *)
theory AccountService
  imports AuthService OAuthStore JournalMembers
begin

text \<open>
  The account page (\<^verbatim>\<open>apps/server/src/account/service.ts\<close>): one service over the users, the grants of their agents, the
  operational store and the repositories.  The section of a household, which runs under its lock, is one step over the last two.
\<close>

section \<open>The state of the service\<close>

record account_world =
  acw_auth :: auth_store
  acw_oauth :: oauth_store
  acw_world :: world

type_synonym 'a account_action = "(failure, account_world, 'a) action"

definition on_users :: "(auth_store \<Rightarrow> 'a \<times> auth_store) \<Rightarrow> 'a account_action" where
  "on_users f w = (case f (acw_auth w) of (x, s) \<Rightarrow> (Inr x, w\<lparr>acw_auth := s\<rparr>))"

definition on_grants :: "(oauth_store \<Rightarrow> 'a \<times> oauth_store) \<Rightarrow> 'a account_action" where
  "on_grants f w = (case f (acw_oauth w) of (x, s) \<Rightarrow> (Inr x, w\<lparr>acw_oauth := s\<rparr>))"

definition in_household :: "'a journal_action \<Rightarrow> 'a account_action" where
  "in_household m w = (case m (acw_world w) of (r, v) \<Rightarrow> (r, w\<lparr>acw_world := v\<rparr>))"

section \<open>The account itself\<close>

definition account_summary :: "codec \<Rightarrow> user_id \<Rightarrow> account_world \<Rightarrow> identity_provider list \<times> grant_summary list" where
  "account_summary C u w = (list_identity_methods u (acw_auth w), list_active_grants C u (acw_oauth w))"

definition rename_account :: "user_id \<Rightarrow> string \<Rightarrow> auth_user account_action" where
  "rename_account u name =
     bind_action (lift_result (\<lambda>_. parsed (str_len 1 120 (trim name)))) (\<lambda>_.
     bind_action (on_users (update_user_display_name u (trim name))) (\<lambda>r. case r of
       None \<Rightarrow> throw (app_error AUTH_REQUIRED)
     | Some x \<Rightarrow> return x))"

definition remove_sign_in_method :: "user_id \<Rightarrow> identity_provider \<Rightarrow> unit account_action" where
  "remove_sign_in_method u provider =
     bind_action (on_users (remove_identity_method u provider)) (\<lambda>r. case r of
       MethodNotFound \<Rightarrow> throw (app_error NOT_FOUND)
     | LastMethod \<Rightarrow> throw (app_error VALIDATION_FAILED)
     | MethodRemoved \<Rightarrow> return ())"

definition revoke_account_grant :: "user_id \<Rightarrow> string \<Rightarrow> time \<Rightarrow> unit account_action" where
  "revoke_account_grant u g now =
     bind_action (on_grants (revoke_grant_for_user u g now)) (\<lambda>found. if found then return () else throw (app_error NOT_FOUND))"

section \<open>Leaving a household\<close>

record leave_draw =
  ldr_request :: request_id
  ldr_at :: time

definition former_member_document :: "codec \<Rightarrow> actor_id \<Rightarrow> time \<Rightarrow> repository_change" where
  "former_member_document C actor removed = replaced (''members/'' @ actor @ ''.md'')
     (markdown_document C [(''actor_id'', JStr actor), (''former_member'', JBool True), (''removed_at'', JStr (iso_text removed)),
        (''schema_version'', JNum 1)] '''')"

definition leave_metadata :: "auth_user \<Rightarrow> household_id \<Rightarrow> leave_draw \<Rightarrow> commit_metadata" where
  "leave_metadata user h d = \<lparr>cm_request = ldr_request d, cm_household = h, cm_actor = au_actor user, cm_tool = ''hfj_remove_member'',
     cm_client = WebClient, cm_summary = ''members: leave household'', cm_occurred = ldr_at d\<rparr>"

definition commit_departure :: "codec \<Rightarrow> auth_user \<Rightarrow> household_id \<Rightarrow> membership \<Rightarrow> leave_draw \<Rightarrow> git_object_id journal_action" where
  "commit_departure C user h m d =
     bind_action (lift_result (\<lambda>w. repository_head h (w_repos w))) (\<lambda>expected.
     bind_action (check (parsed (opaque_id_ok ''req'' (ldr_request d)))) (\<lambda>_ w.
     case commit C h expected [former_member_document C (m_actor m) (ldr_at d)] (leave_metadata user h d) (w_repos w) of
       Inl e \<Rightarrow> (Inl e, w)
     | Inr (head, rs) \<Rightarrow> (Inr head, w\<lparr>w_repos := rs\<rparr>)))"

definition last_owner :: "membership \<Rightarrow> membership list \<Rightarrow> bool" where
  "last_owner m active \<longleftrightarrow> m_role m = Owner \<and> length (filter (\<lambda>x. m_role x = Owner) active) \<le> 1"

definition departed :: "user_id \<Rightarrow> git_object_id \<Rightarrow> time \<Rightarrow> membership \<Rightarrow> membership" where
  "departed u head at m = m\<lparr>m_head := head, m_removed := (if m_user m = u then Some at else m_removed m)\<rparr>"

definition leave_section :: "codec \<Rightarrow> auth_user \<Rightarrow> user_id \<Rightarrow> household_id \<Rightarrow> leave_draw \<Rightarrow> unit journal_action" where
  "leave_section C user u h d =
     bind_action (reads (\<lambda>w. get_membership h u (w_store w))) (\<lambda>found. case found of
       None \<Rightarrow> throw (app_error NOT_FOUND)
     | Some m \<Rightarrow>
         bind_action (reads (\<lambda>w. list_household_memberships h (w_store w))) (\<lambda>active.
         bind_action (check (guard (\<not> last_owner m active) (app_error VALIDATION_FAILED))) (\<lambda>_.
         bind_action (commit_departure C user h m d) (\<lambda>head.
         bind_action (\<lambda>w. case leave_membership u h (ldr_at d) (w_store w) of (r, s) \<Rightarrow> (Inr r, w\<lparr>w_store := s\<rparr>)) (\<lambda>outcome.
         bind_action (check (guard (outcome = LeftHousehold) (app_error RECONCILIATION_REQUIRED))) (\<lambda>_.
         bind_action (store_update (fold (\<lambda>x. upsert_membership (departed u head (ldr_at d) x)) active)) (\<lambda>_.
         store_try (update_household_head h head))))))))"

definition leave_household :: "codec \<Rightarrow> user_id \<Rightarrow> household_id \<Rightarrow> leave_draw \<Rightarrow> unit account_action" where
  "leave_household C u h d =
     bind_action (reads (\<lambda>w. get_user u (acw_auth w))) (\<lambda>user. case user of
       None \<Rightarrow> throw (app_error AUTH_REQUIRED)
     | Some x \<Rightarrow> in_household (leave_section C x u h d))"

section \<open>Deleting the account\<close>

definition may_leave_all :: "(household_record \<times> membership) list \<Rightarrow> op_store \<Rightarrow> failure + unit" where
  "may_leave_all ms s =
     each_ok (\<lambda>(hh, m). guard (\<not> last_owner m (list_household_memberships (h_id hh) s)) (app_error VALIDATION_FAILED)) ms"

definition delete_account :: "codec \<Rightarrow> user_id \<Rightarrow> (household_id \<Rightarrow> leave_draw) \<Rightarrow> time \<Rightarrow> unit account_action" where
  "delete_account C u draw now =
     bind_action (reads (\<lambda>w. get_user u (acw_auth w))) (\<lambda>user. case user of
       None \<Rightarrow> throw (app_error AUTH_REQUIRED)
     | Some x \<Rightarrow>
         bind_action (reads (\<lambda>w. list_memberships u (w_store (acw_world w)))) (\<lambda>memberships.
         bind_action (lift_result (\<lambda>w. may_leave_all memberships (w_store (acw_world w)))) (\<lambda>_.
         bind_action (for_each (\<lambda>h. leave_household C u h (draw h)) (sort_key (collation_key C) (map (\<lambda>(hh, m). h_id hh) memberships))) (\<lambda>_.
         bind_action (on_grants (\<lambda>s. ((), revoke_user_access u now s))) (\<lambda>_.
         bind_action (on_users (delete_user u now)) (\<lambda>deleted.
         if deleted then return () else throw (app_error AUTH_REQUIRED)))))))"

section \<open>The display name as a tool\<close>

text \<open>\<^verbatim>\<open>updateUserDisplayName\<close> of \<^verbatim>\<open>services/household-food-journal.ts\<close>, whose profile port is the store of users.
  Without a port the tool is unavailable.\<close>

definition display_name_tool :: tool_name where
  "display_name_tool = ''hfj_update_user_display_name''"

definition display_name_fingerprint :: "service \<Rightarrow> named_input \<Rightarrow> string" where
  "display_name_fingerprint S i = mutation_fingerprint S display_name_tool [(''display_name'', JStr (ni_name i)), (''idempotency_key'', JStr (ni_key i))]"

definition receive_display_name :: "service \<Rightarrow> principal \<Rightarrow> call \<Rightarrow> named_input \<Rightarrow> mutation_record option journal_action" where
  "receive_display_name S p c i =
     bind_action (reads (\<lambda>w. get_mutation (p_user p) display_name_tool (ni_key i) (w_store w))) (\<lambda>found.
     bind_action (store_update (\<lambda>s. if found = None
       then save_mutation (operational_record p display_name_tool (ni_key i) None [(fingerprint_field, JStr (display_name_fingerprint S i))] (ca_request c) (ca_now c)) s
       else s)) (\<lambda>_.
     reads (\<lambda>w. get_mutation (p_user p) display_name_tool (ni_key i) (w_store w))))"

definition update_display_name_call :: "service \<Rightarrow> bool \<Rightarrow> principal \<Rightarrow> call \<Rightarrow> named_input \<Rightarrow> (json_object \<times> request_id) account_action" where
  "update_display_name_call S configured p c i =
     bind_action (in_household (check (parsed (bounded_name_ok (ni_name i) \<and> idempotency_key_ok (ni_key i))))) (\<lambda>_.
     bind_action (in_household (check (require_scope p JournalWrite))) (\<lambda>_.
     bind_action (in_household (check (guard configured (app_error PROVIDER_UNAVAILABLE)))) (\<lambda>_.
     bind_action (in_household (receive_display_name S p c i)) (\<lambda>found. case found of
       None \<Rightarrow> throw (app_error INTERNAL_ERROR)
     | Some r \<Rightarrow>
         if recorded_fingerprint r \<noteq> Some (display_name_fingerprint S i) then throw (app_error REVISION_CONFLICT)
         else (case (mu_state r, mu_response r) of
             (Completed, Some response) \<Rightarrow> return (drop_key fingerprint_field response, mu_request r)
           | (Quarantined, _) \<Rightarrow> throw (app_error RECONCILIATION_REQUIRED)
           | _ \<Rightarrow>
               bind_action (on_users (update_user_display_name (p_user p) (ni_name i))) (\<lambda>updated. case updated of
                 None \<Rightarrow> throw (app_error NOT_FOUND)
               | Some u \<Rightarrow>
                   let response = [completed_field, (''display_name'', JStr (au_display u))] in
                   bind_action (in_household (transition (mu_request r) Completed
                     (no_update\<lparr>up_response := Some (put fingerprint_field (JStr (display_name_fingerprint S i)) response)\<rparr>) (ca_at c 0))) (\<lambda>_.
                   return (response, mu_request r))))))))"

end
