(* ===== verification/AccountSafety.thy ===== *)
theory AccountSafety
  imports AccountService AuthSafety
begin

text \<open>
  What deleting an account does to the users, the grants, the memberships and the repositories.
\<close>

section \<open>Leaving one household\<close>

definition has_owner :: "household_id \<Rightarrow> op_store \<Rightarrow> bool" where
  "has_owner h s \<longleftrightarrow> (\<exists>v m. get_membership h v s = Some m \<and> m_role m = Owner)"

definition same_households :: "op_store \<Rightarrow> op_store \<Rightarrow> bool" where
  "same_households s s' \<longleftrightarrow> map (\<lambda>(k, h). (k, h_id h)) (st_households s') = map (\<lambda>(k, h). (k, h_id h)) (st_households s)"

definition records_departure :: "codec \<Rightarrow> household_id \<Rightarrow> actor_id \<Rightarrow> time \<Rightarrow> world \<Rightarrow> bool" where
  "records_departure C h actor t w \<longleftrightarrow>
     read_file h (''members/'' @ actor @ ''.md'') (w_repos w) = Inr (Some (ch_content (former_member_document C actor t)))"

lemma active_members:
  assumes "memberships_ok s"
  shows "m \<in> set (list_household_memberships h s) \<longleftrightarrow> m_household m = h \<and> get_membership h (m_user m) s = Some m"
proof
  assume "m \<in> set (list_household_memberships h s)"
  then obtain k where "(k, m) \<in> set (st_memberships s)" "m_household m = h" "m_removed m = None" by (auto simp: list_household_memberships_def)
  moreover from this(1) assms have "k = (m_household m, m_user m)" by (auto simp: memberships_ok_def)
  ultimately show "m_household m = h \<and> get_membership h (m_user m) s = Some m"
    using assms by (simp add: memberships_ok_def get_membership_def flip: lookup_in_set)
qed (auto simp: list_household_memberships_def get_membership_def dest!: lookup_vals split: option.splits if_splits)

lemma member_key: "memberships_ok s \<Longrightarrow> get_membership h u s = Some m \<Longrightarrow> m_household m = h \<and> m_user m = u \<and> m_removed m = None"
  by (auto simp: memberships_ok_def get_membership_def dest!: map_of_SomeD split: option.splits if_splits)

lemma another_owner:
  assumes ok: "memberships_ok s" and m: "get_membership h u s = Some m" and last: "\<not> last_owner m (list_household_memberships h s)"
    and owned: "has_owner h s"
  obtains v x where "v \<noteq> u" "get_membership h v s = Some x" "m_role x = Owner"
proof (cases "m_role m = Owner")
  case False
  then show thesis using owned m that unfolding has_owner_def by (metis option.inject)
next
  case True
  let ?owners = "filter (\<lambda>x. m_role x = Owner) (list_household_memberships h s)"
  have "distinct ?owners" using list_household_memberships_keys [OF ok, of h] by (simp add: distinct_map)
  then have "card (set ?owners) = length ?owners" by (rule distinct_card)
  then have "\<not> set ?owners \<subseteq> {m}" using True last card_mono [of "{m}" "set ?owners"] by (auto simp: last_owner_def)
  then obtain x where x: "x \<in> set (list_household_memberships h s)" "m_role x = Owner" "x \<noteq> m" by auto
  then have "get_membership h (m_user x) s = Some x" using active_members [OF ok] by blast
  then show thesis using that x m by (metis option.inject)
qed

lemma lookup_departed:
  assumes ok: "memberships_ok s" and s1: "st_memberships s1 = put (h, u) m' (st_memberships s)"
  shows "lookup (st_memberships (fold (\<lambda>x. upsert_membership (departed u head t x)) (list_household_memberships h s) s1)) (h', v) =
     (if h' = h \<and> get_membership h v s \<noteq> None then map_option (departed u head t) (get_membership h v s)
      else lookup (st_memberships s1) (h', v))"
proof -
  let ?active = "list_household_memberships h s"
  have "st_memberships (fold (\<lambda>x. upsert_membership (departed u head t x)) ms s1) =
      fold (\<lambda>x. put (m_household x, m_user x) (departed u head t x)) ms (st_memberships s1)" for ms s1
    by (induction ms arbitrary: s1) (simp_all add: upsert_membership_def departed_def)
  then have "lookup (st_memberships (fold (\<lambda>x. upsert_membership (departed u head t x)) ?active s1)) (h', v) =
      (case List.find (\<lambda>x. (m_household x, m_user x) = (h', v)) ?active of Some x \<Rightarrow> Some (departed u head t x) | None \<Rightarrow> lookup (st_memberships s1) (h', v))"
    using lookup_fold_put [OF list_household_memberships_keys [OF ok], where f = "departed u head t"] by simp
  moreover have "List.find (\<lambda>x. (m_household x, m_user x) = (h', v)) ?active = (if h' = h then get_membership h v s else None)"
  proof (cases "List.find (\<lambda>x. (m_household x, m_user x) = (h', v)) ?active")
    case None
    then have "\<forall>x\<in>set ?active. (m_household x, m_user x) \<noteq> (h', v)" by (simp add: find_None_iff)
    then show ?thesis using None active_members [OF ok] member_key [OF ok] by (cases "get_membership h v s") force+
  next
    case (Some x)
    then have "x \<in> set ?active" "(m_household x, m_user x) = (h', v)" using find_Some_iff [OF Some] by simp_all
    then show ?thesis using Some active_members [OF ok] by simp
  qed
  ultimately show ?thesis by (auto split: option.split)
qed

lemma upserts_keep:
  "memberships_ok s \<Longrightarrow> memberships_ok (fold (\<lambda>x. upsert_membership (f x)) ms s)"
  "st_households (fold (\<lambda>x. upsert_membership (f x)) ms s) = st_households s"
proof -
  have "memberships_ok s \<Longrightarrow> memberships_ok (upsert_membership m s)" for m s
    using set_put_subset [of "(m_household m, m_user m)" m "st_memberships s"] by (auto simp: memberships_ok_def upsert_membership_def)
  then show "memberships_ok s \<Longrightarrow> memberships_ok (fold (\<lambda>x. upsert_membership (f x)) ms s)"
    by (induction ms arbitrary: s) simp_all
  show "st_households (fold (\<lambda>x. upsert_membership (f x)) ms s) = st_households s"
    by (induction ms arbitrary: s) (simp_all add: upsert_membership_def)
qed

lemma departure_committed:
  assumes "commit_departure C x h m d w = (Inr head, w')"
  shows "w_store w' = w_store w" "records_departure C h (m_actor m) (ldr_at d) w'" "\<And>h'. h' \<noteq> h \<Longrightarrow> lookup (w_repos w') h' = lookup (w_repos w) h'"
proof -
  let ?c = "former_member_document C (m_actor m) (ldr_at d)" and ?md = "leave_metadata x h d"
  from assms obtain e rs where rs: "commit C h e [?c] ?md (w_repos w) = Inr (head, rs)" "w' = w\<lparr>w_repos := rs\<rparr>"
    by (auto simp: commit_departure_def bind_action_def lift_result_def check_def split: sum.splits)
  then obtain r where r: "commit_repository C e [?c] ?md r = Inr (committed C e [?c] ?md r)" "rs = put h (committed C e [?c] ?md r) (w_repos w)"
    by (auto simp: commit_def and_then_Inr_iff dest: commit_repository_Inr(1))
  have valid: "validate_repository_path (ch_path ?c) = Inr ()"
    using commit_repository_Inr(3) [OF r(1), of ?c] by (auto simp: change_allowed_def and_then_Inr_iff)
  have "audit_path ?md \<noteq> ch_path ?c" by (simp add: audit_path_def former_member_document_def replaced_def)
  moreover have "ch_path ?c = ''members/'' @ m_actor m @ ''.md''" by (simp add: former_member_document_def replaced_def)
  ultimately show "records_departure C h (m_actor m) (ldr_at d) w'"
    using valid by (simp add: records_departure_def read_file_def rs(2) r(2) get_repository_def committed_simps write_files_def)
  show "w_store w' = w_store w" "\<And>h'. h' \<noteq> h \<Longrightarrow> lookup (w_repos w') h' = lookup (w_repos w) h'" using rs(2) r(2) by simp_all
qed

text \<open>What one departure leaves: the member is gone and recorded as former, everybody else is where they were.\<close>

definition departs :: "codec \<Rightarrow> user_id \<Rightarrow> household_id \<Rightarrow> time \<Rightarrow> world \<Rightarrow> world \<Rightarrow> bool" where
  "departs C u h t w w' \<longleftrightarrow> memberships_ok (w_store w') \<and> same_households (w_store w) (w_store w') \<and>
     (\<exists>m. get_membership h u (w_store w) = Some m \<and> records_departure C h (m_actor m) t w') \<and> get_membership h u (w_store w') = None \<and>
     (\<forall>h' v. h' \<noteq> h \<longrightarrow> get_membership h' v (w_store w') = get_membership h' v (w_store w)) \<and>
     (\<forall>h'. h' \<noteq> h \<longrightarrow> lookup (w_repos w') h' = lookup (w_repos w) h') \<and> (has_owner h (w_store w) \<longrightarrow> has_owner h (w_store w'))"

lemma leave_section_departs:
  assumes ok: "memberships_ok (w_store w)" and run: "leave_section C x u h d w = (Inr (), w')"
  shows "departs C u h (ldr_at d) w w'"
proof -
  let ?s = "w_store w" let ?active = "list_household_memberships h ?s"
  obtain m where m: "get_membership h u ?s = Some m" using run by (auto simp: leave_section_def bind_action_def reads_def throw_def split: option.splits)
  then obtain head w1 s1 s2 where last: "\<not> last_owner m ?active" and w1: "commit_departure C x h m d w = (Inr head, w1)"
    and s1: "leave_membership u h (ldr_at d) (w_store w1) = (LeftHousehold, s1)"
    and s2: "update_household_head h head (fold (\<lambda>x. upsert_membership (departed u head (ldr_at d) x)) ?active s1) = Inr s2"
    and w': "w' = w1\<lparr>w_store := s2\<rparr>"
    using run by (auto simp: leave_section_def bind_action_def reads_def check_def lift_result_def guard_def throw_def store_update_def writes_def
        store_try_def update_or_throw_def and_then_Inr_iff and_then_Inl_iff split: sum.splits prod.splits if_splits)
  let ?f = "fold (\<lambda>x. upsert_membership (departed u head (ldr_at d) x)) ?active s1"
  note committed = departure_committed [OF w1]
  obtain m1 where m1: "st_memberships s1 = put (h, u) m1 (st_memberships ?s)" "st_households s1 = st_households ?s" "m_household m1 = h" "m_user m1 = u"
    using s1 m member_key [OF ok m] committed(1)
    by (auto simp: leave_membership_def get_membership_def split: option.splits if_splits)
  have "memberships_ok s1" using ok m1 set_put_subset [of "(h, u)" m1 "st_memberships ?s"] by (auto simp: memberships_ok_def)
  then have ok': "memberships_ok ?f" by (rule upserts_keep)
  have s2': "st_memberships s2 = st_memberships ?f" "st_households s2 = adjust h (\<lambda>r. r\<lparr>h_head := head\<rparr>) (st_households ?s)"
    using s2 upserts_keep(2) [of "departed u head (ldr_at d)" ?active s1] m1(2) by (auto simp: update_household_head_def update_household_def split: option.splits)
  note look = lookup_departed [OF ok m1(1), of head "ldr_at d"]
  have get: "get_membership h' v s2 = (if h' = h then (if v = u then None else map_option (\<lambda>x. x\<lparr>m_head := head\<rparr>) (get_membership h v ?s))
      else get_membership h' v ?s)" for h' v
  proof (cases "h' = h")
    case True
    show ?thesis
    proof (cases "get_membership h v ?s")
      case None
      then have "v \<noteq> u" using m by auto
      then show ?thesis using None True look m1(1) by (simp add: get_membership_def s2'(1))
    next
      case (Some y)
      then show ?thesis using True look member_key [OF ok Some] by (simp add: get_membership_def s2'(1) departed_def)
    qed
  next
    case False
    then show ?thesis using look m1(1) by (simp add: get_membership_def s2'(1))
  qed
  have "has_owner h s2" if "has_owner h ?s"
    using another_owner [OF ok m last that] get by (metis (mono_tags, lifting) has_owner_def membership.select_convs(4) membership.surjective membership.update_convs(5) option.simps(9))
  moreover have "same_households ?s s2"
  proof -
    have "map (\<lambda>(k, h). (k, h_id h)) (adjust h f hs) = map (\<lambda>(k, h). (k, h_id h)) hs" if "\<And>r. h_id (f r) = h_id r" for hs :: "(household_id, household_record) js_map" and f
      using that by (induction h f hs rule: adjust.induct) auto
    then show ?thesis by (simp add: same_households_def s2'(2))
  qed
  moreover have "memberships_ok s2" using ok' s2'(1) by (simp add: memberships_ok_def)
  moreover have "records_departure C h (m_actor m) (ldr_at d) w'" using committed(2) w' by (simp add: records_departure_def)
  ultimately show ?thesis using get m committed(3) w' by (auto simp: departs_def)
qed

section \<open>Leaving every household\<close>

text \<open>What a loop over households leaves, with the members as they were before it.\<close>

definition departs_all :: "codec \<Rightarrow> user_id \<Rightarrow> (household_id \<Rightarrow> leave_draw) \<Rightarrow> household_id list \<Rightarrow> world \<Rightarrow> world \<Rightarrow> bool" where
  "departs_all C u draw hs w w' \<longleftrightarrow> memberships_ok (w_store w') \<and> same_households (w_store w) (w_store w') \<and>
     (\<forall>h\<in>set hs. get_membership h u (w_store w') = None \<and>
        (\<exists>m. get_membership h u (w_store w) = Some m \<and> records_departure C h (m_actor m) (ldr_at (draw h)) w')) \<and>
     (\<forall>h v. h \<notin> set hs \<longrightarrow> get_membership h v (w_store w') = get_membership h v (w_store w)) \<and>
     (\<forall>h. h \<notin> set hs \<longrightarrow> lookup (w_repos w') h = lookup (w_repos w) h) \<and> (\<forall>h. has_owner h (w_store w) \<longrightarrow> has_owner h (w_store w'))"

lemma departure_kept: "lookup (w_repos w') h = lookup (w_repos w) h \<Longrightarrow> records_departure C h a t w' = records_departure C h a t w"
  by (simp add: records_departure_def read_file_def get_repository_def)

lemma departs_all_Cons:
  assumes one: "departs C u h (ldr_at (draw h)) w w1" and rest: "departs_all C u draw hs w1 w'"
  shows "departs_all C u draw (h # hs) w w'"
proof -
  have h: "h \<notin> set hs" using one rest unfolding departs_def departs_all_def by (metis option.distinct(1))
  obtain m where m: "get_membership h u (w_store w) = Some m" "records_departure C h (m_actor m) (ldr_at (draw h)) w1" using one by (auto simp: departs_def)
  have "records_departure C h (m_actor m) (ldr_at (draw h)) w'" using m(2) rest h departure_kept [of w' h w1] by (simp add: departs_all_def)
  moreover have "get_membership h u (w_store w') = None" using one rest h by (simp add: departs_def departs_all_def)
  moreover have "has_owner i (w_store w')" if "has_owner i (w_store w)" for i
  proof -
    have "has_owner i (w_store w1)" using that one by (cases "i = h") (auto simp: departs_def has_owner_def)
    then show ?thesis using rest by (simp add: departs_all_def)
  qed
  moreover have "get_membership i u (w_store w1) = get_membership i u (w_store w)" if "i \<in> set hs" for i
    using that h one by (auto simp: departs_def)
  ultimately show ?thesis using m(1) one rest by (auto simp: departs_def departs_all_def same_households_def)
qed

lemma leaving_departs:
  assumes "leave_household C u h d w = (Inr (), w')" "memberships_ok (w_store (acw_world w))"
  shows "departs C u h (ldr_at d) (acw_world w) (acw_world w')" "acw_auth w' = acw_auth w" "acw_oauth w' = acw_oauth w"
  using assms leave_section_departs [of "acw_world w" C _ u h d]
  by (auto simp: leave_household_def in_household_def bind_action_def reads_def throw_def split: option.splits prod.splits)

lemma loop_departs:
  assumes "for_each (\<lambda>h. leave_household C u h (draw h)) hs w = (Inr (), w')" "memberships_ok (w_store (acw_world w))"
  shows "departs_all C u draw hs (acw_world w) (acw_world w') \<and> acw_auth w' = acw_auth w \<and> acw_oauth w' = acw_oauth w"
  using assms
proof (induction hs arbitrary: w)
  case Nil
  then show ?case by (auto simp: departs_all_def same_households_def return_def)
next
  case (Cons h hs)
  then obtain w1 where w1: "leave_household C u h (draw h) w = (Inr (), w1)" "for_each (\<lambda>h. leave_household C u h (draw h)) hs w1 = (Inr (), w')"
    by (auto elim: bind_action_InrE)
  note one = leaving_departs [OF w1(1) Cons.prems(2)]
  then have "memberships_ok (w_store (acw_world w1))" by (simp add: departs_def)
  from Cons.IH [OF w1(2) this] one departs_all_Cons show ?case by auto
qed

section \<open>Guarantees\<close>

lemma same_households_get:
  assumes "same_households s s'"
  shows "get_household h s' = None \<longleftrightarrow> get_household h s = None"
proof -
  have "map fst (st_households s') = map fst (st_households s)"
    using arg_cong [OF assms [unfolded same_households_def], of "map fst"] by (simp add: comp_def case_prod_unfold)
  then have "fst ` set (st_households s') = fst ` set (st_households s)" by (metis list.set_map)
  then show ?thesis by (simp add: get_household_def map_of_eq_None_iff)
qed

lemma same_households_ok:
  assumes "same_households s s'" "households_ok s"
  shows "households_ok s'"
proof -
  have "map fst (map (\<lambda>(k, h). (k, h_id h)) (st_households x)) = map fst (st_households x)" for x by (simp add: comp_def case_prod_unfold)
  then have "map_ok (st_households s')" using assms by (metis households_ok_def map_ok_def same_households_def)
  moreover have "k = h_id h" if "(k, h) \<in> set (st_households s')" for k h
  proof -
    have "(k, h_id h) \<in> set (map (\<lambda>(k, h). (k, h_id h)) (st_households s'))" using that by force
    then show ?thesis using assms unfolding same_households_def households_ok_def by auto
  qed
  ultimately show ?thesis by (auto simp: households_ok_def)
qed

lemma listed_memberships:
  assumes "memberships_ok s" "households_ok s"
  shows "(hh, m) \<in> set (list_memberships u s) \<longleftrightarrow> get_household (h_id hh) s = Some hh \<and> get_membership (h_id hh) u s = Some m"
proof
  assume "(hh, m) \<in> set (list_memberships u s)"
  then have "m \<in> set (list_household_memberships (m_household m) s)" "m_user m = u" and hh: "lookup (st_households s) (m_household m) = Some hh"
    by (auto simp: list_memberships_def list_household_memberships_def split: option.splits)
  moreover have "h_id hh = m_household m" using hh assms(2) by (auto simp: households_ok_def dest!: map_of_SomeD)
  ultimately show "get_household (h_id hh) s = Some hh \<and> get_membership (h_id hh) u s = Some m"
    using active_members [OF assms(1)] by (simp add: get_household_def)
next
  assume *: "get_household (h_id hh) s = Some hh \<and> get_membership (h_id hh) u s = Some m"
  then have "m_household m = h_id hh \<and> m_user m = u \<and> m_removed m = None" using member_key [OF assms(1)] by blast
  moreover have "m \<in> set (vals (st_memberships s))" using * by (auto simp: get_membership_def dest: lookup_vals split: option.splits if_splits)
  ultimately show "(hh, m) \<in> set (list_memberships u s)" using * by (force simp: list_memberships_def get_household_def)
qed

lemma revoked_access:
  assumes "\<forall>(i, g)\<in>set (oas_grants s). ogr_id g = i" "g \<in> set (vals (oas_grants (revoke_user_access u now s)))" "ogr_user g = u"
  shows "ogr_revoked g \<noteq> None"
proof -
  let ?ids = "map ogr_id (filter (\<lambda>g. ogr_user g = u) (vals (oas_grants s)))"
  from assms(2) obtain i g0 where g0: "(i, g0) \<in> set (oas_grants s)" "g = (if i \<in> set ?ids \<and> ogr_revoked g0 = None then g0\<lparr>ogr_revoked := Some now\<rparr> else g0)"
    by (auto simp: revoke_user_access_def revoke_tokens_def revoke_grants_def Let_def)
  have user: "ogr_user g0 = u" using g0(2) assms(3) by (simp split: if_splits)
  have "ogr_id g0 = i" using assms(1) g0(1) by blast
  then have "i \<in> set ?ids" using user g0(1) by force
  then show ?thesis using g0(2) by auto
qed

lemma deleted_user: "delete_user i now s = (True, s') \<Longrightarrow> get_user i s' = None"
  by (auto simp: delete_user_def revoke_sessions_of_def get_user_def split: option.splits)

text \<open>C18: A deleted account leaves nothing behind. When the deletion of an account succeeds, its user is gone, it is a member of no household,
  every grant it gave is revoked, each household it was in records it as a former member in its repository, and every household that had an owner
  still has one.\<close>
theorem deleted_account_is_detached:
  assumes "memberships_ok (w_store (acw_world w))" "households_ok (w_store (acw_world w))" "\<forall>(i, g)\<in>set (oas_grants (acw_oauth w)). ogr_id g = i"
    and "delete_account C u draw now w = (Inr (), w')"
  shows "get_user u (acw_auth w') = None \<and> list_memberships u (w_store (acw_world w')) = [] \<and>
    (\<forall>g\<in>set (vals (oas_grants (acw_oauth w'))). ogr_user g = u \<longrightarrow> ogr_revoked g \<noteq> None) \<and>
    (\<forall>(hh, m)\<in>set (list_memberships u (w_store (acw_world w))). records_departure C (h_id hh) (m_actor m) (ldr_at (draw (h_id hh))) (acw_world w')) \<and>
    (\<forall>h. has_owner h (w_store (acw_world w)) \<longrightarrow> has_owner h (w_store (acw_world w')))"
proof -
  let ?s = "w_store (acw_world w)"
  define hs where "hs = sort_key (collation_key C) (map (\<lambda>(hh, m). h_id hh) (list_memberships u ?s))"
  from assms(4) obtain w1 where loop: "for_each (\<lambda>h. leave_household C u h (draw h)) hs w = (Inr (), w1)"
    and world: "acw_world w' = acw_world w1" and grants: "acw_oauth w' = revoke_user_access u now (acw_oauth w1)"
    and deleted: "delete_user u now (acw_auth w1) = (True, acw_auth w')"
    by (auto simp: delete_account_def hs_def bind_action_def reads_def lift_result_def throw_def return_def on_grants_def on_users_def
        split: option.splits prod.splits sum.splits if_splits)
  from loop_departs [OF loop assms(1)] have all: "departs_all C u draw hs (acw_world w) (acw_world w1)" and same: "acw_oauth w1 = acw_oauth w" by auto
  note listed = listed_memberships [OF assms(1,2)]
  have in_hs: "h_id hh \<in> set hs" if "(hh, m) \<in> set (list_memberships u ?s)" for hh m using that by (force simp: hs_def)
  have "get_user u (acw_auth w') = None" using deleted by (rule deleted_user)
  moreover have "x \<notin> set (list_memberships u (w_store (acw_world w1)))" for x
  proof
    assume x: "x \<in> set (list_memberships u (w_store (acw_world w1)))"
    obtain hh m where hh: "x = (hh, m)" by (cases x)
    have ok: "memberships_ok (w_store (acw_world w1))" "households_ok (w_store (acw_world w1))"
      using all assms(2) same_households_ok [of ?s] by (auto simp: departs_all_def)
    then have m: "get_household (h_id hh) (w_store (acw_world w1)) \<noteq> None" "get_membership (h_id hh) u (w_store (acw_world w1)) = Some m"
      using x listed_memberships [OF ok, of hh m u] hh by auto
    show False
    proof (cases "h_id hh \<in> set hs")
      case True
      then show ?thesis using all m(2) by (auto simp: departs_all_def)
    next
      case False
      have "get_household (h_id hh) ?s \<noteq> None" using same_households_get [of ?s] all m(1) by (metis departs_all_def)
      then obtain r where r: "get_household (h_id hh) ?s = Some r" by blast
      then have "h_id r = h_id hh" using assms(2) by (auto simp: households_ok_def get_household_def dest!: map_of_SomeD)
      moreover have "get_membership (h_id hh) u ?s = Some m" using False all m(2) by (simp add: departs_all_def)
      ultimately show ?thesis using listed [of r m u] in_hs [of r m] r False by simp
    qed
  qed
  then have "list_memberships u (w_store (acw_world w1)) = []" by (meson last_in_set)
  moreover have "records_departure C (h_id hh) (m_actor m) (ldr_at (draw (h_id hh))) (acw_world w1)" if "(hh, m) \<in> set (list_memberships u ?s)" for hh m
    using all in_hs [OF that] listed [of hh m u] that by (fastforce simp: departs_all_def)
  moreover have "\<forall>g\<in>set (vals (oas_grants (acw_oauth w'))). ogr_user g = u \<longrightarrow> ogr_revoked g \<noteq> None"
    using revoked_access [OF assms(3)] by (simp add: grants same)
  ultimately show ?thesis using all by (auto simp: world departs_all_def)
qed

text \<open>A refused deletion changes nothing. While an account is the only owner of some household, its deletion and its departure from that
  household are refused as invalid, and users, grants, memberships and repositories stay as they were.\<close>
theorem sole_owner_keeps_the_account:
  assumes "memberships_ok (w_store (acw_world w))" "households_ok (w_store (acw_world w))" "get_user u (acw_auth w) = Some x"
    and "(hh, m) \<in> set (list_memberships u (w_store (acw_world w)))" "last_owner m (list_household_memberships (h_id hh) (w_store (acw_world w)))"
  shows "delete_account C u draw now w = (Inl (app_error VALIDATION_FAILED), w) \<and>
    leave_household C u (h_id hh) d w = (Inl (app_error VALIDATION_FAILED), w)"
proof
  let ?s = "w_store (acw_world w)"
  have "may_leave_all ms ?s = Inl (app_error VALIDATION_FAILED)" if "(hh, m) \<in> set ms" for ms
    using that assms(5) unfolding may_leave_all_def by (induction ms) (auto simp: guard_def)
  then show "delete_account C u draw now w = (Inl (app_error VALIDATION_FAILED), w)"
    using assms(3,4) by (simp add: delete_account_def bind_action_def reads_def lift_result_def)
  show "leave_household C u (h_id hh) d w = (Inl (app_error VALIDATION_FAILED), w)"
    using assms listed_memberships [OF assms(1,2), of hh m u]
    by (simp add: leave_household_def in_household_def leave_section_def bind_action_def reads_def check_def lift_result_def guard_def)
qed

section \<open>A shared household\<close>

definition kitchen_id :: household_id where "kitchen_id = ''hsh_0000000000000001''"

definition kitchen_owner :: "user_id \<Rightarrow> actor_id \<Rightarrow> membership" where
  "kitchen_owner u a = \<lparr>m_household = kitchen_id, m_user = u, m_actor = a, m_role = Owner,
     m_head = fst (provision sample_codec kitchen_id ''Home'' ''act_0000000000000001'' []), m_removed = None\<rparr>"

definition kitchen_world :: "membership list \<Rightarrow> account_world" where
  "kitchen_world ms = \<lparr>acw_auth = first_store,
     acw_oauth = empty_oauth_store\<lparr>oas_grants := [(''g'', \<lparr>ogr_id = ''g'', ogr_user = ''usr_0000000000000001'', ogr_client = ''c'', ogr_scopes = [],
       ogr_resource = ''r'', ogr_revoked = None\<rparr>)]\<rparr>,
     acw_world = \<lparr>w_store = empty_store\<lparr>st_households := [(kitchen_id, \<lparr>h_id = kitchen_id, h_name = ''Home'',
         h_head = fst (provision sample_codec kitchen_id ''Home'' ''act_0000000000000001'' []), h_provisioning = Ready, h_created = 0\<rparr>)],
         st_memberships := map (\<lambda>m. ((m_household m, m_user m), m)) ms\<rparr>,
       w_repos = snd (provision sample_codec kitchen_id ''Home'' ''act_0000000000000001'' [])\<rparr>\<rparr>"

definition leaving_draw :: "household_id \<Rightarrow> leave_draw" where
  "leaving_draw h = \<lparr>ldr_request = ''req_0000000000000001'', ldr_at = 5\<rparr>"

definition shared_home :: account_world where
  "shared_home = kitchen_world [kitchen_owner ''usr_0000000000000001'' ''act_0000000000000001'', kitchen_owner ''usr_0000000000000002'' ''act_0000000000000002'']"

definition own_home :: account_world where
  "own_home = kitchen_world [kitchen_owner ''usr_0000000000000001'' ''act_0000000000000001'']"

lemma kitchens_ok:
  "memberships_ok (w_store (acw_world shared_home))" "households_ok (w_store (acw_world shared_home))"
  "memberships_ok (w_store (acw_world own_home))" "households_ok (w_store (acw_world own_home))"
  "\<forall>(i, g)\<in>set (oas_grants (acw_oauth shared_home)). ogr_id g = i"
  by (simp_all add: shared_home_def own_home_def kitchen_world_def kitchen_owner_def memberships_ok_def households_ok_def map_ok_def empty_store_def)

lemma shared_home_deletes: "fst (delete_account sample_codec ''usr_0000000000000001'' leaving_draw 7 shared_home) = Inr ()"
  by code_simp

theorem deleted_account_is_detached_witness:
  "\<exists>w'. delete_account sample_codec ''usr_0000000000000001'' leaving_draw 7 shared_home = (Inr (), w') \<and>
     get_user ''usr_0000000000000001'' (acw_auth w') = None \<and> has_owner kitchen_id (w_store (acw_world w'))"
proof -
  obtain w' where w': "delete_account sample_codec ''usr_0000000000000001'' leaving_draw 7 shared_home = (Inr (), w')"
    using shared_home_deletes by (metis prod.collapse)
  have "has_owner kitchen_id (w_store (acw_world shared_home))"
    unfolding has_owner_def
    by (intro exI [of _ "''usr_0000000000000001''"] exI [of _ "kitchen_owner ''usr_0000000000000001'' ''act_0000000000000001''"])
      (simp add: shared_home_def kitchen_world_def kitchen_owner_def get_membership_def)
  then show ?thesis using deleted_account_is_detached [OF kitchens_ok(1,2,5) w'] w' by blast
qed

theorem sole_owner_keeps_the_account_witness:
  "delete_account sample_codec ''usr_0000000000000001'' leaving_draw 7 own_home = (Inl (app_error VALIDATION_FAILED), own_home)"
proof -
  let ?m = "kitchen_owner ''usr_0000000000000001'' ''act_0000000000000001''" and ?s = "w_store (acw_world own_home)"
  have user: "get_user ''usr_0000000000000001'' (acw_auth own_home) = Some \<lparr>au_id = ''usr_0000000000000001'', au_actor = ''act_0000000000000001'',
      au_display = ''Household member''\<rparr>"
    by (simp add: own_home_def kitchen_world_def first_store(2))
  obtain hh where hh: "h_id hh = kitchen_id" "(hh, ?m) \<in> set (list_memberships ''usr_0000000000000001'' ?s)"
    by (simp add: own_home_def kitchen_world_def kitchen_owner_def list_memberships_def)
  have "last_owner ?m (list_household_memberships (h_id hh) ?s)"
    by (simp add: hh(1) last_owner_def own_home_def kitchen_world_def kitchen_owner_def list_household_memberships_def)
  from sole_owner_keeps_the_account [OF kitchens_ok(3,4) user hh(2) this] show ?thesis by blast
qed

end
