(* ===== verification/HouseholdExport.thy ===== *)
theory HouseholdExport
  imports JournalMembers AuthStore
begin

text \<open>
  Exports of a household: the tool that writes one (\<^verbatim>\<open>services/household-food-journal.ts\<close>, \<^verbatim>\<open>exportHousehold\<close>), the
  stores of the written files (\<^verbatim>\<open>exports/artifact-store.ts\<close>), the download (\<^verbatim>\<open>http/app.ts\<close>) and the worker that
  reclaims what was downloaded or has expired (\<^verbatim>\<open>exports/cleanup-worker.ts\<close>).  A file is the list of its bytes; the archive
  format and the digest are fields of \<open>exporter\<close>.  The disk below the file store may refuse any operation on any file, with an error
  that is not the absence of the file; a refused write may leave the beginning of the file.
\<close>

section \<open>Files\<close>

type_synonym artifacts = "(string, string) js_map"

record artifact_port =
  arp_write :: "string \<Rightarrow> string \<Rightarrow> artifacts \<Rightarrow> (failure + string) \<times> artifacts"
  arp_read :: "string \<Rightarrow> artifacts \<Rightarrow> failure + string"
  arp_remove :: "string \<Rightarrow> artifacts \<Rightarrow> failure + artifacts"

definition artifact_path :: "string \<Rightarrow> string" where
  "artifact_path i = i @ ''.bin''"

definition artifact_path_ok :: "string \<Rightarrow> bool" where
  "artifact_path_ok p \<longleftrightarrow> opaque_id_ok ''exp'' (take (length p - 4) p) \<and> drop (length p - 4) p = ''.bin''"

definition memory_write :: "string \<Rightarrow> string \<Rightarrow> artifacts \<Rightarrow> (failure + string) \<times> artifacts" where
  "memory_write i content s = (case assert_export_size (length content) of
     Inl e \<Rightarrow> (Inl e, s) | Inr _ \<Rightarrow> (Inr (artifact_path i), put (artifact_path i) content s))"

definition memory_read :: "string \<Rightarrow> artifacts \<Rightarrow> failure + string" where
  "memory_read p s = (case lookup s p of None \<Rightarrow> Inl (app_error NOT_FOUND) | Some c \<Rightarrow> Inr c)"

definition memory_artifacts :: artifact_port where
  "memory_artifacts = \<lparr>arp_write = memory_write, arp_read = memory_read, arp_remove = (\<lambda>p s. Inr (drop_key p s))\<rparr>"

text \<open>The disk: the operations it refuses, and how much of a file a refused write leaves behind, if anything.\<close>

datatype file_operation = WriteFile | ReadFile | RemoveFile

record disk =
  dk_refuses :: "file_operation \<Rightarrow> string \<Rightarrow> bool"
  dk_partial :: "string \<Rightarrow> nat option"

definition reliable_disk :: disk where
  "reliable_disk = \<lparr>dk_refuses = (\<lambda>_ _. False), dk_partial = (\<lambda>_. None)\<rparr>"

definition file_write :: "disk \<Rightarrow> string \<Rightarrow> string \<Rightarrow> artifacts \<Rightarrow> (failure + string) \<times> artifacts" where
  "file_write D i content s =
     (case and_then (guard (opaque_id_ok ''exp'' i) (app_error VALIDATION_FAILED)) (\<lambda>_. assert_export_size (length content)) of
        Inl e \<Rightarrow> (Inl e, s)
      | Inr _ \<Rightarrow>
          if lookup s (artifact_path i) \<noteq> None then (Inl (OtherError ''Error''), s)
          else if dk_refuses D WriteFile (artifact_path i) then
            (Inl (OtherError ''Error''),
             case dk_partial D (artifact_path i) of None \<Rightarrow> s | Some n \<Rightarrow> put (artifact_path i) (take n content) s)
          else (Inr (artifact_path i), put (artifact_path i) content s))"

definition file_read :: "disk \<Rightarrow> string \<Rightarrow> artifacts \<Rightarrow> failure + string" where
  "file_read D p s = and_then (guard (artifact_path_ok p) (app_error NOT_FOUND)) (\<lambda>_.
     if dk_refuses D ReadFile p then Inl (OtherError ''Error'') else memory_read p s)"

definition file_remove :: "disk \<Rightarrow> string \<Rightarrow> artifacts \<Rightarrow> failure + artifacts" where
  "file_remove D p s = and_then (guard (artifact_path_ok p) (app_error NOT_FOUND)) (\<lambda>_.
     if dk_refuses D RemoveFile p then Inl (OtherError ''Error'') else Inr (drop_key p s))"

definition file_artifacts :: "disk \<Rightarrow> artifact_port" where
  "file_artifacts D = \<lparr>arp_write = file_write D, arp_read = file_read D, arp_remove = file_remove D\<rparr>"

text \<open>The bound as an integer, for evaluation.\<close>

lemma assert_export_size_code [code]: "assert_export_size n = (if 100663296 < int n then Inl (app_error VALIDATION_FAILED) else Inr ())"
  by (simp add: assert_export_size_def)

section \<open>The state of the service\<close>

record exporter =
  exs_service :: service
  exs_port :: artifact_port
  exs_archive :: "(string, string) js_map \<Rightarrow> string"
  exs_digest :: "string \<Rightarrow> string"

record export_world =
  exw_world :: world
  exw_artifacts :: artifacts

type_synonym 'a export_action = "(failure, export_world, 'a) action"

definition within :: "'a journal_action \<Rightarrow> 'a export_action" where
  "within m w = (case m (exw_world w) of (r, v) \<Rightarrow> (r, w\<lparr>exw_world := v\<rparr>))"

definition write_artifact :: "exporter \<Rightarrow> string \<Rightarrow> string \<Rightarrow> string export_action" where
  "write_artifact X i content w = (case arp_write (exs_port X) i content (exw_artifacts w) of
     (r, s) \<Rightarrow> (r, w\<lparr>exw_artifacts := s\<rparr>))"

definition remove_artifact :: "exporter \<Rightarrow> string \<Rightarrow> unit export_action" where
  "remove_artifact X p = update_or_throw (\<lambda>w. and_then (arp_remove (exs_port X) p (exw_artifacts w)) (\<lambda>s. Inr (w\<lparr>exw_artifacts := s\<rparr>)))"

section \<open>Writing an export\<close>

record export_input = household_input +
  xi_format :: export_format

definition export_tool :: tool_name where
  "export_tool = ''hfj_export_household''"

definition format_text :: "export_format \<Rightarrow> string" where
  "format_text f = (case f of ReadableZip \<Rightarrow> ''readable_zip'' | GitBundle \<Rightarrow> ''git_bundle'')"

definition export_fingerprint :: "exporter \<Rightarrow> export_input \<Rightarrow> string" where
  "export_fingerprint X i = mutation_fingerprint (exs_service X) export_tool
     [(''household_id'', JStr (hi_household i)), (''format'', JStr (format_text (xi_format i))), (''idempotency_key'', JStr (hi_key i))]"

definition utf8_bytes :: "string \<Rightarrow> string" where
  "utf8_bytes s = concat (map (\<lambda>c. let n = of_char c :: nat in if n < 128 then [c] else [char_of (192 + n div 64), char_of (128 + n mod 64)]) s)"

definition readable_archive :: "exporter \<Rightarrow> household_id \<Rightarrow> repositories \<Rightarrow> failure + string" where
  "readable_archive X h rs = and_then (get_repository h rs) (\<lambda>r.
     let content = exs_archive X (git_files r) in and_then (assert_export_size (length content)) (\<lambda>_. Inr content))"

definition export_content :: "exporter \<Rightarrow> export_format \<Rightarrow> household_id \<Rightarrow> repositories \<Rightarrow> failure + string" where
  "export_content X f h rs = (case f of
     ReadableZip \<Rightarrow> readable_archive X h rs
   | GitBundle \<Rightarrow> and_then (bundle_content (sv_codec (exs_service X)) h rs) (\<lambda>text. Inr (utf8_bytes text)))"

definition receipt_replay :: "mutation_record option \<Rightarrow> string \<Rightarrow> failure + mutation_result option" where
  "receipt_replay existing fingerprint = (case existing of
     None \<Rightarrow> Inr None
   | Some r \<Rightarrow>
       if (case recorded_fingerprint r of None \<Rightarrow> False | Some f \<Rightarrow> f \<noteq> fingerprint) then Inl (app_error REVISION_CONFLICT)
       else (case (mu_state r, mu_response r, mu_commit r) of
           (Completed, Some response, Some g) \<Rightarrow> Inr (Some \<lparr>res_data = drop_key fingerprint_field response, res_head = g, res_request = mu_request r\<rparr>)
         | _ \<Rightarrow> Inr None))"

definition export_replay :: "exporter \<Rightarrow> principal \<Rightarrow> export_input \<Rightarrow> world \<Rightarrow> failure + mutation_result option" where
  "export_replay X p i w = receipt_replay (get_mutation (p_user p) export_tool (hi_key i) (w_store w)) (export_fingerprint X i)"

definition receive_export :: "exporter \<Rightarrow> principal \<Rightarrow> call \<Rightarrow> export_input \<Rightarrow> (request_id \<times> time) journal_action" where
  "receive_export X p c i =
     bind_action (reads (\<lambda>w. get_mutation (p_user p) export_tool (hi_key i) (w_store w))) (\<lambda>existing. case existing of
       Some r \<Rightarrow> return (mu_request r, mu_created r)
     | None \<Rightarrow>
         bind_action (store_update (save_mutation (operational_record p export_tool (hi_key i) (Some (hi_household i))
           [(fingerprint_field, JStr (export_fingerprint X i))] (ca_request c) (ca_now c)))) (\<lambda>_. return (ca_request c, ca_now c)))"

definition export_id :: "request_id \<Rightarrow> string" where
  "export_id req = ''exp_'' @ drop 4 req"

definition export_token :: "exporter \<Rightarrow> request_id \<Rightarrow> string" where
  "export_token X req = mutation_token (exs_service X) req ''export-download''"

definition read_export :: "exporter \<Rightarrow> principal \<Rightarrow> export_input \<Rightarrow> request_id \<Rightarrow> time \<Rightarrow> (git_object_id \<times> string) journal_action" where
  "read_export X p i req t =
     bind_action (transition req Locked no_update t) (\<lambda>_.
     bind_action (demand (member_of p (hi_household i) Viewer)) (\<lambda>_.
     bind_action (lift_result (\<lambda>w. repository_head (hi_household i) (w_repos w))) (\<lambda>head.
     bind_action (lift_result (\<lambda>w. export_content X (xi_format i) (hi_household i) (w_repos w))) (\<lambda>content.
     return (head, content)))))"

definition export_answer :: "exporter \<Rightarrow> export_input \<Rightarrow> request_id \<Rightarrow> git_object_id \<Rightarrow> string \<Rightarrow> time \<Rightarrow> json_object" where
  "export_answer X i req head content expires =
     [completed_field, (''format'', JStr (format_text (xi_format i))),
      (''download_url'', JStr (site_url (exs_service X) (''/exports/'' @ export_token X req))),
      (''content_hash'', JStr (exs_digest X content)), (''source_head'', JStr head), (''expires_at'', JStr (iso_text expires))]"

definition export_record :: "exporter \<Rightarrow> principal \<Rightarrow> export_input \<Rightarrow> request_id \<Rightarrow> git_object_id \<Rightarrow> string \<Rightarrow> string \<Rightarrow> time \<Rightarrow> time \<Rightarrow> export_download" where
  "export_record X p i req head path content expires created =
     \<lparr>ex_id = export_id req, ex_household = hi_household i, ex_requested_by = p_user p, ex_format = xi_format i,
      ex_token_hash = sv_hash (exs_service X) (export_token X req), ex_object_path = path, ex_content_hash = exs_digest X content,
      ex_head = head, ex_expires = expires, ex_downloaded = None, ex_created = created\<rparr>"

definition publish_export ::
  "exporter \<Rightarrow> principal \<Rightarrow> export_input \<Rightarrow> request_id \<Rightarrow> time \<Rightarrow> git_object_id \<Rightarrow> string \<Rightarrow> (nat \<Rightarrow> time) \<Rightarrow> mutation_result export_action" where
  "publish_export X p i req now head content at =
     bind_action (remove_artifact X (artifact_path (export_id req))) (\<lambda>_.
     bind_action (write_artifact X (export_id req) content) (\<lambda>path.
     let expires = at 1 + 15 * 60000; data = export_answer X i req head content expires in
     bind_action (within (store_update (save_export_download (export_record X p i req head path content expires now)))) (\<lambda>_.
     bind_action (within (transition req Completed
       (no_update\<lparr>up_commit := Some head, up_response := Some (put fingerprint_field (JStr (export_fingerprint X i)) data)\<rparr>) (at 2))) (\<lambda>_.
     return \<lparr>res_data = data, res_head = head, res_request = req\<rparr>))))"

definition export_failed :: "exporter \<Rightarrow> string option \<Rightarrow> request_id \<Rightarrow> time \<Rightarrow> failure \<Rightarrow> 'a export_action" where
  "export_failed X path req t e =
     bind_action (case path of None \<Rightarrow> return () | Some p \<Rightarrow> remove_artifact X p) (\<lambda>_.
     bind_action (within (transition req FailedBeforeCommit (no_update\<lparr>up_failure := Some (error_name e)\<rparr>) t)) (\<lambda>_. throw e))"

text \<open>The locked section: the path of the file is known from the moment the content was read, and only then is the file removed on a failure.\<close>

definition export_section :: "exporter \<Rightarrow> principal \<Rightarrow> export_input \<Rightarrow> request_id \<Rightarrow> time \<Rightarrow> (nat \<Rightarrow> time) \<Rightarrow> mutation_result export_action" where
  "export_section X p i req now at w =
     (case within (bind_action (demand (export_replay X p i)) (\<lambda>replayed. case replayed of
         Some r \<Rightarrow> return (Inl r) | None \<Rightarrow> bind_action (read_export X p i req (at 0)) (\<lambda>x. return (Inr x)))) w of
       (Inl e, w') \<Rightarrow> export_failed X None req (at 3) e w'
     | (Inr (Inl r), w') \<Rightarrow> (Inr r, w')
     | (Inr (Inr (head, content)), w') \<Rightarrow>
         try_catch (publish_export X p i req now head content at) (export_failed X (Some (artifact_path (export_id req))) req (at 3)) w')"

definition export_household :: "exporter \<Rightarrow> principal \<Rightarrow> call \<Rightarrow> export_input \<Rightarrow> mutation_result export_action" where
  "export_household X p c i =
     bind_action (within (check (parsed (household_input_ok i)))) (\<lambda>_.
     bind_action (within (check (require_scope p JournalExport))) (\<lambda>_.
     bind_action (within (demand (member_of p (hi_household i) Viewer))) (\<lambda>_.
     bind_action (within (demand (export_replay X p i))) (\<lambda>replayed. case replayed of
       Some r \<Rightarrow> return r
     | None \<Rightarrow>
         bind_action (within (receive_export X p c i)) (\<lambda>(req, now). export_section X p i req now (ca_at c))))))"

section \<open>Downloading\<close>

definition download_export :: "exporter \<Rightarrow> string \<Rightarrow> user_id \<Rightarrow> time \<Rightarrow> (export_format \<times> string) export_action" where
  "download_export X token u now =
     bind_action (reads (\<lambda>w. get_active_export_download (sv_hash (exs_service X) token) u now (w_store (exw_world w)))) (\<lambda>candidate. case candidate of
       None \<Rightarrow> throw (app_error NOT_FOUND)
     | Some d \<Rightarrow>
         bind_action (lift_result (\<lambda>w. arp_read (exs_port X) (ex_object_path d) (exw_artifacts w))) (\<lambda>content.
         bind_action (lift_result (\<lambda>_. guard (exs_digest X content = ex_content_hash d) (app_error INTERNAL_ERROR))) (\<lambda>_.
         bind_action (within (\<lambda>w. case claim_export_download (sv_hash (exs_service X) token) u now (w_store w) of (r, s) \<Rightarrow> (Inr r, w\<lparr>w_store := s\<rparr>))) (\<lambda>claimed.
         case claimed of None \<Rightarrow> throw (app_error NOT_FOUND) | Some r \<Rightarrow> return (ex_format r, content)))))"

section \<open>Reclaiming\<close>

record cleanup_result =
  cln_checked :: nat
  cln_removed :: nat
  cln_failed :: nat

definition reclaim :: "exporter \<Rightarrow> export_download \<Rightarrow> unit export_action" where
  "reclaim X d = bind_action (remove_artifact X (ex_object_path d)) (\<lambda>_. within (store_update (delete_export_download (ex_id d))))"

fun reclaim_all :: "exporter \<Rightarrow> export_download list \<Rightarrow> nat \<Rightarrow> nat \<Rightarrow> (nat \<times> nat) export_action" where
  "reclaim_all X [] removed failed = return (removed, failed)"
| "reclaim_all X (d # ds) removed failed =
     bind_action (try_catch (bind_action (reclaim X d) (\<lambda>_. return True)) (\<lambda>e. return False)) (\<lambda>ok.
     if ok then reclaim_all X ds (removed + 1) failed else reclaim_all X ds removed (failed + 1))"

definition cleanup_run :: "exporter \<Rightarrow> time \<Rightarrow> cleanup_result export_action" where
  "cleanup_run X now =
     bind_action (reads (\<lambda>w. list_reclaimable_export_downloads now (w_store (exw_world w)))) (\<lambda>records.
     bind_action (reclaim_all X records 0 0) (\<lambda>(removed, failed).
     return \<lparr>cln_checked = length records, cln_removed = removed, cln_failed = failed\<rparr>))"

section \<open>The interface of the files\<close>

locale artifact_store =
  fixes P :: artifact_port and refuses :: "file_operation \<Rightarrow> string \<Rightarrow> bool"
  assumes written: "opaque_id_ok ''exp'' i \<Longrightarrow> arp_write P i c s = (Inr p, s') \<Longrightarrow> p = artifact_path i \<and> lookup s' = (lookup s)(p \<mapsto> c)"
    and write_succeeds: "opaque_id_ok ''exp'' i \<Longrightarrow> \<not> refuses WriteFile (artifact_path i) \<Longrightarrow> assert_export_size (length c) = Inr () \<Longrightarrow>
      lookup s (artifact_path i) = None \<Longrightarrow> \<exists>s'. arp_write P i c s = (Inr (artifact_path i), s')"
    and read: "opaque_id_ok ''exp'' i \<Longrightarrow> \<not> refuses ReadFile (artifact_path i) \<Longrightarrow> arp_read P (artifact_path i) s = memory_read (artifact_path i) s"
    and removed: "opaque_id_ok ''exp'' i \<Longrightarrow> arp_remove P (artifact_path i) s = Inr s' \<Longrightarrow> lookup s' = (lookup s)(artifact_path i := None)"
    and remove_succeeds: "opaque_id_ok ''exp'' i \<Longrightarrow> \<not> refuses RemoveFile (artifact_path i) \<Longrightarrow> \<exists>s'. arp_remove P (artifact_path i) s = Inr s'"
    and remove_refused: "opaque_id_ok ''exp'' i \<Longrightarrow> refuses RemoveFile (artifact_path i) \<Longrightarrow> \<exists>e. arp_remove P (artifact_path i) s = Inl e"

lemma artifact_path_valid: "opaque_id_ok ''exp'' i \<Longrightarrow> artifact_path_ok (artifact_path i)"
  by (simp add: artifact_path_ok_def artifact_path_def)

interpretation memory_files: artifact_store memory_artifacts "\<lambda>_ _. False"
  by unfold_locales (auto simp: memory_artifacts_def memory_write_def fun_eq_iff split: sum.splits)

interpretation kept_files: artifact_store "file_artifacts D" "dk_refuses D" for D
  by unfold_locales
    (auto simp: file_artifacts_def file_write_def file_read_def file_remove_def and_then_Inr_iff fun_eq_iff guard_def artifact_path_valid
      split: if_splits sum.splits option.splits)

text \<open>The two stores of the code, with the disk they write to; the store in memory has none that could refuse.\<close>

definition port_on :: "disk \<Rightarrow> artifact_port \<Rightarrow> bool" where
  "port_on D P \<longleftrightarrow> P = file_artifacts D \<or> (P = memory_artifacts \<and> D = reliable_disk)"

lemma port_on_store: "port_on D P \<Longrightarrow> artifact_store P (dk_refuses D)"
  using memory_files.artifact_store_axioms kept_files.artifact_store_axioms by (auto simp: port_on_def reliable_disk_def)

end
