(* ===== verification/ExportSafety.thy ===== *)
theory ExportSafety
  imports HouseholdExport JournalSafety
begin

text \<open>
  What a link to an export gives, to whom and how often, and what the cleanup worker leaves.  Both stores of files satisfy the interface
  \<open>artifact_store\<close>, on which the lemmas rest.
\<close>

section \<open>A first export\<close>

definition downloads :: "export_world \<Rightarrow> (token_hash, export_download) js_map" where
  "downloads w = st_downloads (w_store (exw_world w))"

definition exported :: "exporter \<Rightarrow> principal \<Rightarrow> export_input \<Rightarrow> request_id \<Rightarrow> git_object_id \<Rightarrow> string \<Rightarrow> time \<Rightarrow> time \<Rightarrow> export_download" where
  "exported X p i req head content expires created = export_record X p i req head (artifact_path (export_id req)) content expires created"

lemma exported_fields:
  "ex_object_path (exported X p i req head content expires created) = artifact_path (export_id req)"
  "ex_content_hash (exported X p i req head content expires created) = exs_digest X content"
  "ex_format (exported X p i req head content expires created) = xi_format i"
  "ex_requested_by (exported X p i req head content expires created) = p_user p"
  "ex_downloaded (exported X p i req head content expires created) = None"
  "ex_expires (exported X p i req head content expires created) = expires"
  by (simp_all add: exported_def export_record_def)

lemma transition_downloads:
  "transition req st u t w = (Inr x, w') \<Longrightarrow> st_downloads (w_store w') = st_downloads (w_store w) \<and> w_repos w' = w_repos w"
  by (auto simp: transition_def update_or_throw_def transition_mutation_def and_then_Inr_iff split: sum.splits if_splits)

lemma export_id_ok: "opaque_id_ok ''req'' req \<Longrightarrow> opaque_id_ok ''exp'' (export_id req)"
  by (auto simp: opaque_id_ok_def export_id_def Let_def numeral_nat)

lemma withinE:
  assumes "within m w = (Inr x, w')"
  obtains v where "m (exw_world w) = (Inr x, v)" "w' = w\<lparr>exw_world := v\<rparr>"
  using assms by (auto simp: within_def split: prod.splits)

lemma within_reads: "within (demand f) w = (f (exw_world w), w)" "within (check r) w = (r, w)"
  by (simp_all add: within_def demand_def check_def lift_result_def)

context artifact_store
begin

lemma published:
  assumes P: "exs_port X = P" and req: "opaque_id_ok ''req'' req" and run: "publish_export X p i req now head content at w = (Inr res, w')"
  shows "res = \<lparr>res_data = export_answer X i req head content (at 1 + 15 * 60000), res_head = head, res_request = req\<rparr>"
    and "downloads w' = put (sv_hash (exs_service X) (export_token X req)) (exported X p i req head content (at 1 + 15 * 60000) now) (downloads w)"
    and "lookup (exw_artifacts w') = (lookup (exw_artifacts w))(artifact_path (export_id req) \<mapsto> content)"
proof -
  note id = export_id_ok [OF req]
  from run obtain u1 w1 path w2 u3 w3 u4 w4 where
    w1: "remove_artifact X (artifact_path (export_id req)) w = (Inr u1, w1)" and
    w2: "write_artifact X (export_id req) content w1 = (Inr path, w2)" and
    w3: "within (store_update (save_export_download (export_record X p i req head path content (at 1 + 15 * 60000) now))) w2 = (Inr u3, w3)" and
    w4: "within (transition req Completed (no_update\<lparr>up_commit := Some head, up_response := Some (put fingerprint_field (JStr (export_fingerprint X i))
       (export_answer X i req head content (at 1 + 15 * 60000)))\<rparr>) (at 2)) w3 = (Inr u4, w4)" and
    res: "(return \<lparr>res_data = export_answer X i req head content (at 1 + 15 * 60000), res_head = head, res_request = req\<rparr> :: mutation_result export_action) w4 = (Inr res, w')"
    unfolding publish_export_def Let_def by (elim bind_action_InrE) blast
  have "exw_world w1 = exw_world w" "lookup (exw_artifacts w1) = (lookup (exw_artifacts w))(artifact_path (export_id req) := None)"
    using w1 removed [OF id] by (auto simp: remove_artifact_def update_or_throw_def P and_then_Inr_iff split: sum.splits)
  moreover have "path = artifact_path (export_id req) \<and> lookup (exw_artifacts w2) = (lookup (exw_artifacts w1))(path \<mapsto> content) \<and> exw_world w2 = exw_world w1"
    using w2 written [OF id] by (auto simp: write_artifact_def P split: prod.splits)
  moreover have "w3 = w2\<lparr>exw_world := (exw_world w2)\<lparr>w_store := save_export_download (export_record X p i req head path content (at 1 + 15 * 60000) now)
      (w_store (exw_world w2))\<rparr>\<rparr>"
    using w3 by (auto simp: within_def store_update_def writes_def)
  moreover obtain v where "transition req Completed (no_update\<lparr>up_commit := Some head, up_response := Some (put fingerprint_field (JStr (export_fingerprint X i))
       (export_answer X i req head content (at 1 + 15 * 60000)))\<rparr>) (at 2) (exw_world w3) = (Inr u4, v)" "w4 = w3\<lparr>exw_world := v\<rparr>"
    using w4 by (rule withinE)
  ultimately show "res = \<lparr>res_data = export_answer X i req head content (at 1 + 15 * 60000), res_head = head, res_request = req\<rparr>"
    and "downloads w' = put (sv_hash (exs_service X) (export_token X req)) (exported X p i req head content (at 1 + 15 * 60000) now) (downloads w)"
    and "lookup (exw_artifacts w') = (lookup (exw_artifacts w))(artifact_path (export_id req) \<mapsto> content)"
    using res transition_downloads by (auto simp: return_def downloads_def save_export_download_def exported_def export_record_def)
qed

lemma first_export:
  assumes P: "exs_port X = P" and new: "get_mutation (p_user p) export_tool (hi_key i) (w_store (exw_world w)) = None"
    and req: "opaque_id_ok ''req'' (ca_request c)" and run: "export_household X p c i w = (Inr res, w')"
  obtains head content where "repository_head (hi_household i) (w_repos (exw_world w)) = Inr head"
    "export_content X (xi_format i) (hi_household i) (w_repos (exw_world w)) = Inr content"
    "res = \<lparr>res_data = export_answer X i (ca_request c) head content (ca_at c 1 + 15 * 60000), res_head = head, res_request = ca_request c\<rparr>"
    "downloads w' = put (sv_hash (exs_service X) (export_token X (ca_request c)))
       (exported X p i (ca_request c) head content (ca_at c 1 + 15 * 60000) (ca_now c)) (downloads w)"
    "lookup (exw_artifacts w') = (lookup (exw_artifacts w))(artifact_path (export_id (ca_request c)) \<mapsto> content)"
proof -
  let ?r = "operational_record p export_tool (hi_key i) (Some (hi_household i)) [(fingerprint_field, JStr (export_fingerprint X i))] (ca_request c) (ca_now c)"
  let ?v = "(exw_world w)\<lparr>w_store := save_mutation ?r (w_store (exw_world w))\<rparr>"
  let ?w1 = "w\<lparr>exw_world := ?v\<rparr>"
  have none: "export_replay X p i (exw_world w) = Inr None" by (simp add: export_replay_def new receipt_replay_def)
  have received: "receive_export X p c i (exw_world w) = (Inr (ca_request c, ca_now c), ?v)"
    using new by (simp add: receive_export_def bind_action_def reads_def store_update_def writes_def return_def)
  have locked: "export_section X p i (ca_request c) (ca_now c) (ca_at c) ?w1 = (Inr res, w')"
    using run none received by (auto simp: export_household_def bind_action_def within_def demand_def check_def lift_result_def split: prod.splits sum.splits)
  have "get_mutation (p_user p) export_tool (hi_key i) (w_store ?v) = Some ?r"
    using new by (simp add: get_mutation_def save_mutation_def mutation_key_def operational_record_def)
  then have again: "export_replay X p i ?v = Inr None"
    by (simp add: export_replay_def receipt_replay_def operational_record_def recorded_fingerprint_def)
  from locked obtain head content w2 where read: "read_export X p i (ca_request c) (ca_at c 0) ?v = (Inr (head, content), w2)"
    and publish: "publish_export X p i (ca_request c) (ca_now c) head content (ca_at c) (w\<lparr>exw_world := w2\<rparr>) = (Inr res, w')"
    using again
    by (auto simp: export_section_def within_def bind_action_def demand_def lift_result_def return_def try_catch_def export_failed_def throw_def
        split: prod.splits sum.splits)
  have "st_downloads (w_store w2) = st_downloads (w_store (exw_world w))" and repos: "w_repos w2 = w_repos (exw_world w)"
    and "repository_head (hi_household i) (w_repos (exw_world w)) = Inr head"
    and "export_content X (xi_format i) (hi_household i) (w_repos (exw_world w)) = Inr content"
    using read transition_downloads
    by (auto simp: read_export_def demand_def lift_result_def return_def save_mutation_def elim!: bind_action_InrE split: if_splits)
  with published [OF P req publish] show thesis by (intro that [of head content]) (simp_all add: downloads_def)
qed

lemma downloaded:
  assumes P: "exs_port X = P" and d: "lookup (downloads w) (sv_hash (exs_service X) token) = Some d" "download_usable u now d"
    and stored: "ex_object_path d = artifact_path i" "opaque_id_ok ''exp'' i" "\<not> refuses ReadFile (artifact_path i)" "lookup (exw_artifacts w) (artifact_path i) = Some content"
    and digest: "ex_content_hash d = exs_digest X content"
  obtains w' where "download_export X token u now w = (Inr (ex_format d, content), w')"
    "lookup (downloads w') (sv_hash (exs_service X) token) = Some (d\<lparr>ex_downloaded := Some now\<rparr>)"
proof -
  have "arp_read P (ex_object_path d) (exw_artifacts w) = Inr content" using stored read [OF stored(2,3)] by (simp add: memory_read_def)
  then show thesis using that P d digest
    by (auto simp: download_export_def bind_action_def reads_def lift_result_def guard_def within_def get_active_export_download_def
        claim_export_download_def downloads_def return_def lookup_adjust split: option.splits)
qed

end

lemma no_download:
  assumes "\<And>d. lookup (downloads w) (sv_hash (exs_service X) token) = Some d \<Longrightarrow> \<not> download_usable u now d"
  shows "download_export X token u now w = (Inl (app_error NOT_FOUND), w)"
  using assms
  by (auto simp: download_export_def bind_action_def reads_def throw_def get_active_export_download_def downloads_def split: option.split)

section \<open>Reclaimed files\<close>

definition downloads_ok :: "export_world \<Rightarrow> bool" where
  "downloads_ok w \<longleftrightarrow> distinct (map ex_id (vals (downloads w))) \<and>
     (\<forall>d\<in>set (vals (downloads w)). opaque_id_ok ''exp'' (ex_id d) \<and> ex_object_path d = artifact_path (ex_id d))"

definition reclaimable :: "time \<Rightarrow> export_download \<Rightarrow> bool" where
  "reclaimable now d \<longleftrightarrow> ex_downloaded d \<noteq> None \<or> ex_expires d \<le> now"

context artifact_store
begin

lemma reclaim_one:
  assumes P: "exs_port X = P" and id: "opaque_id_ok ''exp'' (ex_id d)" "ex_object_path d = artifact_path (ex_id d)"
  shows "refuses RemoveFile (ex_object_path d) \<Longrightarrow> reclaim_all X (d # ds) a b w = reclaim_all X ds a (b + 1) w"
    and "\<not> refuses RemoveFile (ex_object_path d) \<Longrightarrow> \<exists>w1. reclaim_all X (d # ds) a b w = reclaim_all X ds (a + 1) b w1 \<and>
      downloads w1 = filter (\<lambda>(t, x). ex_id x \<noteq> ex_id d) (downloads w) \<and>
      lookup (exw_artifacts w1) = (lookup (exw_artifacts w))(artifact_path (ex_id d) := None)"
proof -
  assume "refuses RemoveFile (ex_object_path d)"
  then obtain e where "arp_remove P (ex_object_path d) (exw_artifacts w) = Inl e" using remove_refused [OF id(1)] id(2) by metis
  then have "fst (reclaim X d w) = Inl e \<and> snd (reclaim X d w) = w"
    using P by (simp add: reclaim_def remove_artifact_def update_or_throw_def bind_action_def and_then_def)
  then show "reclaim_all X (d # ds) a b w = reclaim_all X ds a (b + 1) w"
    by (cases "reclaim X d w") (simp add: bind_action_def try_catch_def return_def)
next
  assume "\<not> refuses RemoveFile (ex_object_path d)"
  then obtain s where s: "arp_remove P (ex_object_path d) (exw_artifacts w) = Inr s" "lookup s = (lookup (exw_artifacts w))(artifact_path (ex_id d) := None)"
    using remove_succeeds [OF id(1)] removed [OF id(1)] id(2) by metis
  let ?w1 = "w\<lparr>exw_artifacts := s, exw_world := (exw_world w)\<lparr>w_store := delete_export_download (ex_id d) (w_store (exw_world w))\<rparr>\<rparr>"
  have "reclaim X d w = (Inr (), ?w1)"
    using s(1) P by (simp add: reclaim_def remove_artifact_def update_or_throw_def bind_action_def within_def store_update_def writes_def)
  then have "reclaim_all X (d # ds) a b w = reclaim_all X ds (a + 1) b ?w1"
    by (simp add: bind_action_def try_catch_def return_def)
  moreover have "downloads ?w1 = filter (\<lambda>(t, x). ex_id x \<noteq> ex_id d) (downloads w)" by (simp add: downloads_def delete_export_download_def)
  ultimately show "\<exists>w1. reclaim_all X (d # ds) a b w = reclaim_all X ds (a + 1) b w1 \<and>
      downloads w1 = filter (\<lambda>(t, x). ex_id x \<noteq> ex_id d) (downloads w) \<and>
      lookup (exw_artifacts w1) = (lookup (exw_artifacts w))(artifact_path (ex_id d) := None)"
    using s(2) by (intro exI [of _ ?w1]) simp
qed

lemma reclaimed:
  assumes P: "exs_port X = P" and ids: "\<forall>d\<in>set ds. opaque_id_ok ''exp'' (ex_id d) \<and> ex_object_path d = artifact_path (ex_id d)"
  defines "taken \<equiv> \<lambda>ds. filter (\<lambda>d. \<not> refuses RemoveFile (ex_object_path d)) ds"
  shows "\<exists>w'. reclaim_all X ds a b w = (Inr (a + length (taken ds), b + (length ds - length (taken ds))), w') \<and>
     downloads w' = filter (\<lambda>(t, d). ex_id d \<notin> ex_id ` set (taken ds)) (downloads w) \<and>
     lookup (exw_artifacts w') = (\<lambda>p. if p \<in> artifact_path ` ex_id ` set (taken ds) then None else lookup (exw_artifacts w) p)"
  using ids
proof (induction ds arbitrary: a b w)
  case Nil
  then show ?case by (simp add: return_def taken_def)
next
  case (Cons d ds)
  have id: "opaque_id_ok ''exp'' (ex_id d)" "ex_object_path d = artifact_path (ex_id d)" using Cons.prems by auto
  have le: "length (taken ds) \<le> length ds" by (simp add: taken_def)
  show ?case
  proof (cases "refuses RemoveFile (ex_object_path d)")
    case True
    have "taken (d # ds) = taken ds" using True by (simp add: taken_def)
    then show ?thesis
      using Cons.IH [of a "b + 1" w] Cons.prems le unfolding reclaim_one(1) [OF P id True] by (auto simp: Suc_diff_le)
  next
    case False
    from reclaim_one(2) [OF P id False, of ds a b w] obtain w1 where w1: "reclaim_all X (d # ds) a b w = reclaim_all X ds (a + 1) b w1"
      "downloads w1 = filter (\<lambda>(t, x). ex_id x \<noteq> ex_id d) (downloads w)"
      "lookup (exw_artifacts w1) = (lookup (exw_artifacts w))(artifact_path (ex_id d) := None)" by blast
    obtain w' where w': "reclaim_all X ds (a + 1) b w1 = (Inr (a + 1 + length (taken ds), b + (length ds - length (taken ds))), w')"
      "downloads w' = filter (\<lambda>(t, d). ex_id d \<notin> ex_id ` set (taken ds)) (downloads w1)"
      "lookup (exw_artifacts w') = (\<lambda>p. if p \<in> artifact_path ` ex_id ` set (taken ds) then None else lookup (exw_artifacts w1) p)"
      using Cons.IH [of "a + 1" b w1] Cons.prems by auto
    have taken: "taken (d # ds) = d # taken ds" using False by (simp add: taken_def)
    have "downloads w' = filter (\<lambda>(t, x). ex_id x \<notin> ex_id ` set (taken (d # ds))) (downloads w)"
      unfolding w'(2) w1(2) taken by (auto intro!: filter_cong)
    moreover have "lookup (exw_artifacts w') = (\<lambda>p. if p \<in> artifact_path ` ex_id ` set (taken (d # ds)) then None else lookup (exw_artifacts w) p)"
      unfolding w'(3) w1(3) taken by auto
    ultimately show ?thesis using w1(1) w'(1) by (intro exI [of _ w']) (simp add: taken)
  qed
qed

lemma cleaned:
  fixes now :: time
  assumes P: "exs_port X = P" and ok: "downloads_ok w"
  defines "dead \<equiv> filter (reclaimable now) (vals (downloads w))"
  obtains w' where "cleanup_run X now w = (Inr \<lparr>cln_checked = length dead,
      cln_removed = length (filter (\<lambda>d. \<not> refuses RemoveFile (ex_object_path d)) dead),
      cln_failed = length (filter (\<lambda>d. refuses RemoveFile (ex_object_path d)) dead)\<rparr>, w')"
    "downloads w' = filter (\<lambda>(t, d). \<not> reclaimable now d \<or> refuses RemoveFile (ex_object_path d)) (downloads w)"
    "\<And>d. d \<in> set (vals (downloads w)) \<Longrightarrow> lookup (exw_artifacts w') (ex_object_path d) =
       (if \<not> reclaimable now d \<or> refuses RemoveFile (ex_object_path d) then lookup (exw_artifacts w) (ex_object_path d) else None)"
proof -
  let ?gone = "filter (\<lambda>d. \<not> refuses RemoveFile (ex_object_path d)) dead"
  have ds: "list_reclaimable_export_downloads now (w_store (exw_world w)) = dead"
    by (simp add: list_reclaimable_export_downloads_def reclaimable_def [abs_def] downloads_def dead_def)
  have ids: "\<forall>d\<in>set dead. opaque_id_ok ''exp'' (ex_id d) \<and> ex_object_path d = artifact_path (ex_id d)" using ok by (auto simp: downloads_ok_def dead_def)
  obtain w' where w': "reclaim_all X dead 0 0 w = (Inr (length ?gone, length dead - length ?gone), w')"
    "downloads w' = filter (\<lambda>(t, d). ex_id d \<notin> ex_id ` set ?gone) (downloads w)"
    "lookup (exw_artifacts w') = (\<lambda>p. if p \<in> artifact_path ` ex_id ` set ?gone then None else lookup (exw_artifacts w) p)"
    using reclaimed [OF P ids, of 0 0 w] by auto
  have failed: "length dead - length ?gone = length (filter (\<lambda>d. refuses RemoveFile (ex_object_path d)) dead)"
    using sum_length_filter_compl [of "\<lambda>d. refuses RemoveFile (ex_object_path d)" dead] by simp
  have same: "d = x" if "d \<in> set (vals (downloads w))" "x \<in> set (vals (downloads w))" "ex_id d = ex_id x" for d x
    using ok that unfolding downloads_ok_def distinct_map by (metis inj_onD)
  have gone: "ex_id d \<in> ex_id ` set ?gone \<longleftrightarrow> reclaimable now d \<and> \<not> refuses RemoveFile (ex_object_path d)" if "d \<in> set (vals (downloads w))" for d
  proof
    assume "ex_id d \<in> ex_id ` set ?gone"
    then obtain x where "x \<in> set (vals (downloads w))" "reclaimable now x" "\<not> refuses RemoveFile (ex_object_path x)" "ex_id d = ex_id x"
      by (auto simp: dead_def)
    then show "reclaimable now d \<and> \<not> refuses RemoveFile (ex_object_path d)" using same [OF that] by metis
  qed (use that in \<open>auto simp: dead_def\<close>)
  have rest: "downloads w' = filter (\<lambda>(t, d). \<not> reclaimable now d \<or> refuses RemoveFile (ex_object_path d)) (downloads w)"
    unfolding w'(2)
  proof (rule filter_cong [OF refl])
    fix x assume "x \<in> set (downloads w)"
    then have "snd x \<in> set (vals (downloads w))" by simp
    from gone [OF this] show "(case x of (t, d) \<Rightarrow> ex_id d \<notin> ex_id ` set ?gone) =
        (case x of (t, d) \<Rightarrow> \<not> reclaimable now d \<or> refuses RemoveFile (ex_object_path d))"
      unfolding case_prod_unfold by blast
  qed
  have run: "cleanup_run X now w = (Inr \<lparr>cln_checked = length dead, cln_removed = length ?gone,
      cln_failed = length (filter (\<lambda>d. refuses RemoveFile (ex_object_path d)) dead)\<rparr>, w')"
    using w'(1) failed by (simp add: cleanup_run_def bind_action_def reads_def ds return_def)
  have files: "lookup (exw_artifacts w') (ex_object_path d) =
      (if \<not> reclaimable now d \<or> refuses RemoveFile (ex_object_path d) then lookup (exw_artifacts w) (ex_object_path d) else None)"
    if d: "d \<in> set (vals (downloads w))" for d
  proof -
    have path: "ex_object_path d = artifact_path (ex_id d)" using ok d by (auto simp: downloads_ok_def)
    have "artifact_path (ex_id d) \<in> artifact_path ` ex_id ` set ?gone \<longleftrightarrow> ex_id d \<in> ex_id ` set ?gone"
      by (auto simp: artifact_path_def image_iff)
    then show ?thesis using gone [OF d] w'(3) by (simp add: path)
  qed
  show thesis by (rule that [OF run rest files])
qed

end

section \<open>Guarantees\<close>

text \<open>C19: An export is downloaded once, by the user who asked, as the journal was. When a first export succeeds, its link gives that user, within
  fifteen minutes, the content of the repository at the head that was answered, if the disk does not refuse to read the file; after that the link gives nothing to anybody, and it never
  gives anything to another user.\<close>
theorem export_is_downloaded_once:
  assumes "port_on D (exs_port X)" "\<not> dk_refuses D ReadFile (artifact_path (export_id (ca_request c)))" "opaque_id_ok ''req'' (ca_request c)"
    and "get_mutation (p_user p) export_tool (hi_key i) (w_store (exw_world w)) = None" and "export_household X p c i w = (Inr res, w')"
  shows "\<exists>token content. lookup (res_data res) ''download_url'' = Some (JStr (site_url (exs_service X) (''/exports/'' @ token))) \<and>
    repository_head (hi_household i) (w_repos (exw_world w)) = Inr (res_head res) \<and>
    export_content X (xi_format i) (hi_household i) (w_repos (exw_world w)) = Inr content \<and>
    (\<forall>t. t < ca_at c 1 + 15 * 60000 \<longrightarrow> (\<exists>w2. download_export X token (p_user p) t w' = (Inr (xi_format i, content), w2) \<and>
      (\<forall>u t2. fst (download_export X token u t2 w2) = Inl (app_error NOT_FOUND)))) \<and>
    (\<forall>u t. u \<noteq> p_user p \<longrightarrow> fst (download_export X token u t w') = Inl (app_error NOT_FOUND))"
proof -
  note files = port_on_store [OF assms(1)]
  obtain head content where x: "repository_head (hi_household i) (w_repos (exw_world w)) = Inr head"
    "export_content X (xi_format i) (hi_household i) (w_repos (exw_world w)) = Inr content"
    "res = \<lparr>res_data = export_answer X i (ca_request c) head content (ca_at c 1 + 15 * 60000), res_head = head, res_request = ca_request c\<rparr>"
    "downloads w' = put (sv_hash (exs_service X) (export_token X (ca_request c)))
       (exported X p i (ca_request c) head content (ca_at c 1 + 15 * 60000) (ca_now c)) (downloads w)"
    "lookup (exw_artifacts w') = (lookup (exw_artifacts w))(artifact_path (export_id (ca_request c)) \<mapsto> content)"
    using artifact_store.first_export [OF files refl assms(4,3,5)] .
  let ?token = "export_token X (ca_request c)" and ?d = "exported X p i (ca_request c) head content (ca_at c 1 + 15 * 60000) (ca_now c)"
  have d: "lookup (downloads w') (sv_hash (exs_service X) ?token) = Some ?d" by (simp add: x(4))
  have stored: "lookup (exw_artifacts w') (artifact_path (export_id (ca_request c))) = Some content" by (simp add: x(5))
  have once: "\<exists>w2. download_export X ?token (p_user p) t w' = (Inr (xi_format i, content), w2) \<and>
      (\<forall>u t2. fst (download_export X ?token u t2 w2) = Inl (app_error NOT_FOUND))" if t: "t < ca_at c 1 + 15 * 60000" for t
  proof (rule artifact_store.downloaded [OF files refl d _ exported_fields(1) export_id_ok [OF assms(3)] assms(2) stored exported_fields(2), of "p_user p" t])
    show "download_usable (p_user p) t ?d" using t by (simp add: download_usable_def exported_fields)
    fix w2 assume w2: "download_export X ?token (p_user p) t w' = (Inr (ex_format ?d, content), w2)"
      "lookup (downloads w2) (sv_hash (exs_service X) ?token) = Some (?d\<lparr>ex_downloaded := Some t\<rparr>)"
    then have "download_export X ?token u t2 w2 = (Inl (app_error NOT_FOUND), w2)" for u t2
      by (intro no_download) (simp add: download_usable_def)
    then show ?thesis using w2(1) exported_fields(3) by auto
  qed
  have "download_export X ?token u t w' = (Inl (app_error NOT_FOUND), w')" if "u \<noteq> p_user p" for u t
    using that d by (intro no_download) (auto simp: download_usable_def exported_fields)
  then show ?thesis using once x(1-3) by (intro exI [of _ ?token] exI [of _ content]) (simp add: export_answer_def)
qed

text \<open>C20: The worker reclaims the dead exports, and a refused file waits for the next run. Whatever the disk refuses, a run ends with a
  report: it checked the records that were downloaded or have expired, removed those whose file the disk gave up, and counts the others as
  failed. The records that are left are the live ones and the refused ones, each with its file as it was; the files of the
  removed records are gone. With the store in memory, or a disk that refuses nothing, none fails. The records are those exports
  write: their identifiers differ, and each names the file of its identifier.\<close>
theorem cleanup_reclaims_the_dead:
  assumes "port_on D (exs_port X)" "downloads_ok w"
  shows "\<exists>w' dead. dead = filter (\<lambda>d. ex_downloaded d \<noteq> None \<or> ex_expires d \<le> now) (vals (downloads w)) \<and>
    cleanup_run X now w = (Inr \<lparr>cln_checked = length dead,
      cln_removed = length (filter (\<lambda>d. \<not> dk_refuses D RemoveFile (ex_object_path d)) dead),
      cln_failed = length (filter (\<lambda>d. dk_refuses D RemoveFile (ex_object_path d)) dead)\<rparr>, w') \<and>
    downloads w' = filter (\<lambda>(t, d). (ex_downloaded d = None \<and> now < ex_expires d) \<or> dk_refuses D RemoveFile (ex_object_path d)) (downloads w) \<and>
    (\<forall>d\<in>set (vals (downloads w)). lookup (exw_artifacts w') (ex_object_path d) =
       (if (ex_downloaded d = None \<and> now < ex_expires d) \<or> dk_refuses D RemoveFile (ex_object_path d)
        then lookup (exw_artifacts w) (ex_object_path d) else None))"
proof -
  have live: "\<not> reclaimable now d \<longleftrightarrow> ex_downloaded d = None \<and> now < ex_expires d" for d by (auto simp: reclaimable_def)
  have dead: "reclaimable now = (\<lambda>d. ex_downloaded d \<noteq> None \<or> ex_expires d \<le> now)" by (simp add: reclaimable_def [abs_def])
  show ?thesis
  proof (rule artifact_store.cleaned [OF port_on_store [OF assms(1)] refl assms(2), of now])
    fix w' assume "cleanup_run X now w = (Inr \<lparr>cln_checked = length (filter (reclaimable now) (vals (downloads w))),
        cln_removed = length (filter (\<lambda>d. \<not> dk_refuses D RemoveFile (ex_object_path d)) (filter (reclaimable now) (vals (downloads w)))),
        cln_failed = length (filter (\<lambda>d. dk_refuses D RemoveFile (ex_object_path d)) (filter (reclaimable now) (vals (downloads w))))\<rparr>, w')"
      and "downloads w' = filter (\<lambda>(t, d). \<not> reclaimable now d \<or> dk_refuses D RemoveFile (ex_object_path d)) (downloads w)"
      and "\<And>d. d \<in> set (vals (downloads w)) \<Longrightarrow> lookup (exw_artifacts w') (ex_object_path d) =
        (if \<not> reclaimable now d \<or> dk_refuses D RemoveFile (ex_object_path d) then lookup (exw_artifacts w) (ex_object_path d) else None)"
    note this [unfolded live, unfolded dead]
    then show ?thesis by (intro exI [of _ w'] exI conjI ballI) (rule refl | assumption)+
  qed
qed

section \<open>A household and its link\<close>

definition saver :: "artifact_port \<Rightarrow> exporter" where
  "saver P = \<lparr>exs_service = home_service\<lparr>sv_hash := (\<lambda>s. ''ab'')\<rparr>, exs_port = P, exs_archive = (\<lambda>fs. concat (map snd fs)), exs_digest = (\<lambda>s. s)\<rparr>"

definition export_world_0 :: export_world where "export_world_0 = \<lparr>exw_world = home_world empty_projection [], exw_artifacts = []\<rparr>"

definition export_call :: call where "export_call = home_call\<lparr>ca_request := ''req_0000000000000001''\<rparr>"

definition export_principal :: principal where "export_principal = home_principal\<lparr>p_scopes := [JournalExport]\<rparr>"

definition export_request :: export_input where
  "export_request = \<lparr>hi_household = home_id, hi_key = ''key-0001'', xi_format = GitBundle\<rparr>"

lemma export_succeeds: "\<exists>res. fst (export_household (saver (file_artifacts reliable_disk)) export_principal export_call export_request export_world_0) = Inr res"
proof -
  have "isl (fst (export_household (saver (file_artifacts reliable_disk)) export_principal export_call export_request export_world_0)) = False" by code_simp
  then show ?thesis by (cases "fst (export_household (saver (file_artifacts reliable_disk)) export_principal export_call export_request export_world_0)") auto
qed

theorem export_is_downloaded_once_witness:
  "\<exists>res w' token content w2. export_household (saver (file_artifacts reliable_disk)) export_principal export_call export_request export_world_0 = (Inr res, w') \<and>
     download_export (saver (file_artifacts reliable_disk)) token ''u'' 60000 w' = (Inr (GitBundle, content), w2) \<and>
     fst (download_export (saver (file_artifacts reliable_disk)) token ''u'' 60001 w2) = Inl (app_error NOT_FOUND)"
proof -
  obtain res w' where run: "export_household (saver (file_artifacts reliable_disk)) export_principal export_call export_request export_world_0 = (Inr res, w')"
    using export_succeeds by (metis prod.collapse)
  have "port_on reliable_disk (exs_port (saver (file_artifacts reliable_disk)))" by (simp add: saver_def port_on_def)
  moreover have "\<not> dk_refuses reliable_disk ReadFile (artifact_path (export_id (ca_request export_call)))" by (simp add: reliable_disk_def)
  moreover have "opaque_id_ok ''req'' (ca_request export_call)" by code_simp
  moreover have "get_mutation (p_user export_principal) export_tool (hi_key export_request) (w_store (exw_world export_world_0)) = None"
    by (simp add: get_mutation_def export_world_0_def)
  moreover have "(60000 :: int) < ca_at export_call 1 + 15 * 60000" "p_user export_principal = ''u''" "xi_format export_request = GitBundle"
    by (simp_all add: export_call_def home_call_def export_principal_def home_principal_def export_request_def)
  ultimately show ?thesis using export_is_downloaded_once [OF _ _ _ _ run] run by metis
qed

definition dead_export :: "string \<Rightarrow> export_download" where
  "dead_export i = \<lparr>ex_id = i, ex_household = home_id, ex_requested_by = ''u'', ex_format = GitBundle, ex_token_hash = ''t'',
     ex_object_path = artifact_path i, ex_content_hash = ''x'', ex_head = home_head, ex_expires = 5, ex_downloaded = None, ex_created = 0\<rparr>"

definition dead_world :: export_world where
  "dead_world = \<lparr>exw_world = \<lparr>w_store = empty_store\<lparr>st_downloads := [(''t'', dead_export ''exp_0000000000000001''),
     (''s'', dead_export ''exp_0000000000000002'')]\<rparr>, w_repos = []\<rparr>,
     exw_artifacts = [(''exp_0000000000000001.bin'', ''x''), (''exp_0000000000000002.bin'', ''y'')]\<rparr>"

definition stuck_disk :: disk where
  "stuck_disk = reliable_disk\<lparr>dk_refuses := (\<lambda>a p. a = RemoveFile \<and> p = ''exp_0000000000000002.bin'')\<rparr>"

theorem cleanup_reclaims_the_dead_witness:
  "\<exists>w'. cleanup_run (saver (file_artifacts stuck_disk)) 9 dead_world = (Inr \<lparr>cln_checked = 2, cln_removed = 1, cln_failed = 1\<rparr>, w') \<and>
     map fst (downloads w') = [''s''] \<and> lookup (exw_artifacts w') ''exp_0000000000000001.bin'' = None"
proof -
  have d: "downloads dead_world = [(''t'', dead_export ''exp_0000000000000001''), (''s'', dead_export ''exp_0000000000000002'')]"
    by (simp add: downloads_def dead_world_def)
  have "opaque_id_ok ''exp'' ''exp_0000000000000001''" "opaque_id_ok ''exp'' ''exp_0000000000000002''" by code_simp+
  then have ok: "downloads_ok dead_world" by (simp add: downloads_ok_def d dead_export_def)
  have port: "port_on stuck_disk (exs_port (saver (file_artifacts stuck_disk)))" by (simp add: saver_def port_on_def)
  show ?thesis
    using cleanup_reclaims_the_dead [OF port ok, of 9]
    by (auto simp: d dead_export_def stuck_disk_def reliable_disk_def artifact_path_def)
qed

end
