(* ===== verification/Spec2Isabelle.thy ===== *)
theory Spec2Isabelle
  imports MutationSafety MessagingSafety CartSafety MealPlan JournalTypes Onboarding JournalSafety ReconciliationSafety DeliverySafety
    OAuthProperties AuthSafety AccountSafety ExportSafety
begin

text \<open>
  Verification of the Fullwell household food journal, a TypeScript service (\<^verbatim>\<open>apps/server\<close>) with its contracts
  (\<^verbatim>\<open>packages/contracts\<close>).

  \<^bold>\<open>The program.\<close>  A household keeps a journal of evidence, items, profiles, meal plans and shared collections.  Git main is the
  authority: every change is a commit of documents to the household's repository, made by the mutation runner under the lock of the household,
  after the authority of the caller was checked against the operational store.  The store keeps what can be rebuilt (projection, heads,
  memberships) and what is private (mutation records, invitations, shares, onboarding).  Tools of an agent come in through
  \<^verbatim>\<open>HouseholdFoodJournalService\<close>; a messaging channel queues texts for a runner on the user's device; a reconciliation worker
  rebuilds the store from the repositories and quarantines a household it cannot rebuild.  People sign in to browser sessions with magic links,
  Apple or passkeys, and approve agents, which then hold OAuth tokens.  Delivery carts are sessions whose schema decides
  what may be ordered.

  \<^bold>\<open>Conventions.\<close>  A class is a record of its fields, a JS Map an association list with one entry per key in insertion order
  (\<open>js_map\<close>, \<open>put\<close>, \<open>drop_key\<close>, \<open>map_ok\<close>).  A thrown error is \<open>Inl\<close> of a \<open>failure\<close>, and an action
  \<open>state \<Rightarrow> (error + result) \<times> state\<close> keeps the state reached before a throw, as the code does.  Times are integers of milliseconds.
  Hash functions, the cipher, collation, URL and calendar parsing, random identifiers and clock readings are arguments (\<open>codec\<close>, \<open>host\<close>,
  \<open>service\<close>, \<open>call\<close>, \<open>messaging\<close>).  The lock of a household makes its section one step; calls outside of it interleave (\<open>MutationCalls\<close>).
  A schema is the record it parses to with a predicate \<open>..._ok\<close> for the checks the type does not carry.  JSON texts of parsed values list their
  properties in the order of the schema, so comparing such texts is equality of the values.

  \<^bold>\<open>Parts and theories\<close> (sources under \<^verbatim>\<open>apps/server/src\<close> unless named otherwise).

  \<^item> \<open>Prelude\<close>: maps, fallible computations, actions with their rules (\<open>effect_simps\<close>, \<open>keeps_intros\<close>).
  \<^item> \<open>CoreTypes\<close>: identifiers, errors, roles, principals and the records of the store (\<^verbatim>\<open>packages/contracts/src/ids.ts\<close>,
    \<^verbatim>\<open>common.ts\<close>, \<^verbatim>\<open>core/types.ts\<close>, \<^verbatim>\<open>core/errors.ts\<close>).
  \<^item> \<open>JournalTypes\<close>, \<open>MealPlan\<close>, \<open>DeliveryCart\<close>: the three parts of \<^verbatim>\<open>packages/contracts/src/domain.ts\<close>: evidence,
    items and reports; collections, weeks and planning; delivery orders and cart sessions, each refinement as the list of its issues.
  \<^item> \<open>Onboarding\<close>, \<open>Authorization\<close>: \<^verbatim>\<open>domain/onboarding.ts\<close>, \<^verbatim>\<open>domain/authorization.ts\<close>.
  \<^item> \<open>OperationalStore\<close>, \<open>GitStore\<close>: \<^verbatim>\<open>MemoryOperationalStore\<close> and \<^verbatim>\<open>MemoryHouseholdRepository\<close> of
    \<^verbatim>\<open>adapters/memory.ts\<close>, one function per method, with canonical JSON and path validation.
  \<^item> \<open>MutationRunner\<close>, \<open>MutationCalls\<close>, \<open>MutationSafety\<close>: \<^verbatim>\<open>services/mutation-runner.ts\<close>: receipt, replay, authority,
    commit, projection and the failure branches; calls as a step relation over shared worlds.
  \<^item> \<open>MessageStore\<close>, \<open>MessageQueue\<close>, \<open>MessageSafety\<close>: \<^verbatim>\<open>messaging/memory-store.ts\<close> and the statements of
    \<^verbatim>\<open>messaging/neon-store.ts\<close> that differ from it.
  \<^item> \<open>MessagingService\<close>, \<open>MessagingSafety\<close>: \<^verbatim>\<open>messaging/service.ts\<close>, every method over the message store.
  \<^item> \<open>CartSafety\<close>: what an accepted cart session proves.
  \<^item> \<open>JournalValidation\<close>, \<open>JournalDocuments\<close>: \<^verbatim>\<open>domain/journal-validation.ts\<close>, and every record as the JSON or Markdown
    document it is written to.
  \<^item> \<open>JournalBase\<close>, \<open>JournalMembers\<close>, \<open>JournalEntries\<close>, \<open>JournalOnboarding\<close>, \<open>JournalMealPlans\<close>, \<open>JournalSharing\<close>,
    \<open>JournalDelivery\<close>: the tools
    of \<^verbatim>\<open>services/household-food-journal.ts\<close>, each handler with its input checks, mutation options and projection.
  \<^item> \<open>JsonText\<close>, \<open>JournalDecode\<close>, \<open>JournalRoundTrip\<close>, \<open>MarkdownText\<close>: reading the documents back: \<^verbatim>\<open>JSON.parse\<close>, the schemas
    as decoders, Markdown with front matter, and the lemmas that reading undoes writing.
  \<^item> \<open>RepositoryProjection\<close>, \<open>RepositoryRoundTrip\<close>, \<open>RepositoryRebuild\<close>: \<^verbatim>\<open>domain/repository-projection.ts\<close>, file by file and then
    for a whole journal.
  \<^item> \<open>ReconciliationWorker\<close>: \<^verbatim>\<open>workers/reconciliation-worker.ts\<close>.
  \<^item> \<open>OAuthStore\<close>, \<open>OAuthService\<close>, \<open>OAuthCalls\<close>, \<open>OAuthSafety\<close>, \<open>OAuthProperties\<close>: \<^verbatim>\<open>oauth/*.ts\<close>: both token
    stores behind the interface \<open>token_store\<close>, registration, approval, the code exchange and the rotation of refresh tokens; requests as a step
    relation that interleaves their store operations.
  \<^item> \<open>AuthStore\<close>, \<open>AuthService\<close>, \<open>AuthSafety\<close>: \<^verbatim>\<open>auth/memory-store.ts\<close> and \<^verbatim>\<open>auth/service.ts\<close>: users, identities,
    passkeys, challenges and browser sessions.
  \<^item> \<open>AccountService\<close>, \<open>AccountSafety\<close>: \<^verbatim>\<open>account/service.ts\<close> over users, grants, the operational store and the repositories.
  \<^item> \<open>HouseholdExport\<close>, \<open>ExportSafety\<close>: exporting a household, \<^verbatim>\<open>exports/artifact-store.ts\<close> behind the interface
    \<open>artifact_store\<close>, the download of \<^verbatim>\<open>http/app.ts\<close> and \<^verbatim>\<open>exports/cleanup-worker.ts\<close>.

  \<^bold>\<open>What is shown.\<close>
  \<^item> Mutations (\<open>MutationSafety\<close>): under any interleaving the calls of one key agree and commit once; a commit needs scope, role and current head; an
    ordinary failure commits nothing; a retry resumes the commit its request made and replays its answer; another request with the key conflicts.
  \<^item> Repository (\<open>GitStore\<close>, \<open>RepositorySafety\<close>): append-only documents are never overwritten, paths stay inside, the stable JSON text is canonical at
    every depth (\<open>JsonText\<close>), a journal read back from its files is the same journal, and whatever is read back is well formed.
  \<^item> Reconciliation (\<open>ReconciliationSafety\<close>): it ends without throwing, settles every mutation, and a household it does not quarantine agrees with
    its repository.
  \<^item> Store and tools (\<open>OperationalStore\<close>, \<open>JournalSafety\<close>): a household keeps an owner when members change, an onboarding revision has one writer,
    items stay supported by evidence, a proposal rests on a review and its week stays bounded, a revoked link is dead.
  \<^item> Messaging: leases are exclusive, the queue bounded, links unique; the service refines the steps of the store, answers every claim, and sends
    nothing after the cut-off; work goes only to the registered runner of the person who wrote; the interfaces \<open>lease_queue\<close> (both stores) and \<open>channel_invariant\<close> (three properties) carry these proofs, \<open>commit_log\<close>
    those of the mutation runner.
  \<^item> Carts: an accepted session is exactly the planned and authorised one.
  \<^item> Delivery history (\<open>DeliverySafety\<close>): a commit touches the evidence and the profile of one provider, keeps orders complete and is read back.
  \<^item> Agents (\<open>OAuthProperties\<close>): whoever a token authenticates approved it, a code works once, reuse of a refresh token ends its family, a family
    has one live refresh token, a revoked grant is dead, and an approved agent gets through; over every interleaving and for both stores.
  \<^item> Sign-in (\<open>AuthSafety\<close>): a challenge works once in its browser, nobody loses the last way to sign in, a deleted user is gone, a magic link
    signs in.
  \<^item> Accounts (\<open>AccountSafety\<close>): a deleted account leaves no user, membership or live grant behind and no household without an owner; a refused
    deletion changes nothing.
  \<^item> Exports (\<open>ExportSafety\<close>): a link gives the journal as it was once, to the user who asked; the worker reclaims what is dead, and keeps for
    the next run what the disk refuses to remove.
  \<^item> Where the code falls short of its intent, the theorem says so (\<open>memory_claim_blocks_behind_expired_head\<close>, \<open>late_answer_fails_row_check\<close>,
    \<open>replacement_can_take_unrelated_line\<close>, \<open>accepted_change_set_blocks_rebuild\<close>, \<open>active_former_member_goes_unnoticed\<close>,
    \<open>sign_in_can_leave_the_site\<close>).

  \<^bold>\<open>Bounds and fuel.\<close>  Every function is total.  \<open>parse_value\<close> of \<open>JsonText\<close> takes the length of its text as fuel, which each nested value shortens.
  The polling claim of the messaging service, which waits on a clock it does not control, takes fuel too: \<open>claim_always_answers\<close> gives an amount
  that suffices for every clock that moves on by the pauses of the loop.

  \<^bold>\<open>Not modelled.\<close>  The PostgreSQL stores but for the statements named above (SQL text over the same ports); git on disk, object storage,
  encryption and the archive format (process and library calls); HTTP routing, rendering, the web application and its view models; telemetry,
  configuration and entry points; the dispatch of the journal service by tool name; the packages the agent client runs on the user's machine.
\<close>

end
